(* ===== verification/X3_Prelude.thy ===== *)
theory X3_Prelude
  imports Main "HOL-Library.Word"
begin

unbundle bit_operations_syntax

text \<open>
  Shared vocabulary of the development: the machine integers and byte packets of the driver,
  the \<^verbatim>\<open>Result\<close> type and the \<^verbatim>\<open>?\<close> operator, the array accesses the codecs use
  (sub-slices, \<^verbatim>\<open>copy_from_slice\<close>), big- and little-endian conversions, hexadecimal text,
  and the collections of facts the component theories extend.
\<close>

section \<open>Types\<close>

type_synonym u8 = "8 word"
type_synonym u16 = "16 word"
type_synonym u32 = "32 word"
type_synonym u64 = "64 word"
type_synonym usize = nat
type_synonym packet = "8 word list"

text \<open>\<open>Inl\<close> is \<^verbatim>\<open>Err\<close>, \<open>Inr\<close> is \<^verbatim>\<open>Ok\<close>.\<close>

type_synonym ('e, 'a) result = "'e + 'a"

text \<open>
  Fact collections: \<open>layout\<close> holds what a byte of an encoded report is, \<open>wf\<close> the
  well-formedness facts of decoded values.
\<close>

named_theorems layout "bytes of encoded reports"
named_theorems wf "well-formedness of values the code constructs"

section \<open>Results\<close>

definition tryq :: "('e, 'a) result \<Rightarrow> ('a \<Rightarrow> ('e, 'b) result) \<Rightarrow> ('e, 'b) result" where
  "tryq m f = (case m of Inl e \<Rightarrow> Inl e | Inr x \<Rightarrow> f x)"

lemma tryq_simps [simp]:
  "tryq (Inl e) f = Inl e"
  "tryq (Inr x) f = f x"
  by (simp_all add: tryq_def)

lemma tryq_eq_Inr [simp]: "tryq m f = Inr y \<longleftrightarrow> (\<exists>x. m = Inr x \<and> f x = Inr y)"
  by (cases m) auto

lemma tryq_eq_Inl: "tryq m f = Inl e \<longleftrightarrow> m = Inl e \<or> (\<exists>x. m = Inr x \<and> f x = Inl e)"
  by (cases m) auto

lemma tryq_cong [fundef_cong]:
  "m = m' \<Longrightarrow> (\<And>x. m' = Inr x \<Longrightarrow> f x = g x) \<Longrightarrow> tryq m f = tryq m' g"
  by (cases m') auto

lemma guard_eq_Inr [simp]: "(if b then Inl e else m) = Inr x \<longleftrightarrow> \<not> b \<and> m = Inr x"
  by simp

lemma when_eq_Inr [simp]: "(if b then m else Inr ()) = Inr u \<longleftrightarrow> (b \<longrightarrow> m = Inr u)"
  by (cases u) simp

definition ok_or :: "'e \<Rightarrow> 'a option \<Rightarrow> ('e, 'a) result" where
  "ok_or e x = (case x of None \<Rightarrow> Inl e | Some a \<Rightarrow> Inr a)"

lemma ok_or_simps [simp]:
  "ok_or e None = Inl e"
  "ok_or e (Some a) = Inr a"
  by (simp_all add: ok_or_def)

lemma ok_or_eq_Inr [simp]: "ok_or e x = Inr a \<longleftrightarrow> x = Some a"
  by (cases x) auto

lemma ok_or_eq_Inl: "ok_or e x = Inl e' \<longleftrightarrow> x = None \<and> e' = e"
  by (cases x) auto

definition is_ok :: "('e, 'a) result \<Rightarrow> bool" where
  "is_ok r = (case r of Inl _ \<Rightarrow> False | Inr _ \<Rightarrow> True)"

lemma is_ok_simps [simp]: "\<not> is_ok (Inl e)" "is_ok (Inr x)"
  by (simp_all add: is_ok_def)

lemma is_ok_iff: "is_ok r \<longleftrightarrow> (\<exists>x. r = Inr x)"
  by (cases r) auto

definition map_err :: "('e \<Rightarrow> 'f) \<Rightarrow> ('e, 'a) result \<Rightarrow> ('f, 'a) result" where
  "map_err f r = (case r of Inl e \<Rightarrow> Inl (f e) | Inr x \<Rightarrow> Inr x)"

lemma map_err_simps [simp]: "map_err f (Inl e) = Inl (f e)" "map_err f (Inr x) = Inr x"
  by (simp_all add: map_err_def)

lemma map_err_eq_Inr [simp]: "map_err f r = Inr x \<longleftrightarrow> r = Inr x"
  by (cases r) simp_all

text \<open>\<^verbatim>\<open>iter().map(f).collect::<Result<Vec<_>, _>>()\<close>: the first error wins.\<close>

fun collect_results :: "('a \<Rightarrow> ('e, 'b) result) \<Rightarrow> 'a list \<Rightarrow> ('e, 'b list) result" where
  "collect_results f [] = Inr []"
| "collect_results f (x # xs) = tryq (f x) (\<lambda>y. tryq (collect_results f xs) (\<lambda>ys. Inr (y # ys)))"

lemma collect_results_all2:
  "collect_results f xs = Inr ys \<Longrightarrow> list_all2 (\<lambda>x y. f x = Inr y) xs ys"
  by (induction xs arbitrary: ys) auto

lemma length_collect_results: "collect_results f xs = Inr ys \<Longrightarrow> length ys = length xs"
  by (drule collect_results_all2) (simp add: list_all2_lengthD)

section \<open>Arrays\<close>

text \<open>\<^verbatim>\<open>&a[i..j]\<close> for \<open>i \<le> j \<le> a.len()\<close>, and \<^verbatim>\<open>a[i..].copy_from_slice(ys)\<close>
  for \<open>i + ys.len() \<le> a.len()\<close>; every use in the model is inside these bounds.\<close>

definition slice :: "nat \<Rightarrow> nat \<Rightarrow> 'a list \<Rightarrow> 'a list" where
  "slice i j xs = take (j - i) (drop i xs)"

definition write_at :: "nat \<Rightarrow> 'a list \<Rightarrow> 'a list \<Rightarrow> 'a list" where
  "write_at i ys xs = take i xs @ ys @ drop (i + length ys) xs"

lemma length_slice [simp]: "length (slice i j xs) = min (j - i) (length xs - i)"
  by (simp add: slice_def min.commute)

lemma nth_slice [simp]: "k < j - i \<Longrightarrow> i + k < length xs \<Longrightarrow> slice i j xs ! k = xs ! (i + k)"
  by (simp add: slice_def)

lemma length_write_at [simp]: "i + length ys \<le> length xs \<Longrightarrow> length (write_at i ys xs) = length xs"
  by (simp add: write_at_def)

lemma nth_write_at:
  assumes "i + length ys \<le> length xs" and "k < length xs"
  shows "write_at i ys xs ! k = (if i \<le> k \<and> k < i + length ys then ys ! (k - i) else xs ! k)"
  using assms by (auto simp: write_at_def nth_append min_def)

lemma slice_eqI:
  assumes "\<And>k. i \<le> k \<Longrightarrow> k < j \<Longrightarrow> xs ! k = ys ! k" and "j \<le> length xs" and "j \<le> length ys"
  shows "slice i j xs = slice i j ys"
  using assms by (auto intro!: nth_equalityI)

lemma slice_write_at_exact: "i + length ys \<le> length xs \<Longrightarrow> slice i (i + length ys) (write_at i ys xs) = ys"
  by (simp add: slice_def write_at_def)

lemma slice_write_at_before:
  "j \<le> i \<Longrightarrow> i + length ys \<le> length xs \<Longrightarrow> slice k j (write_at i ys xs) = slice k j xs"
  by (auto intro!: slice_eqI simp: nth_write_at)

lemma slice_eq_iff_nth:
  assumes "i \<le> j" and "j \<le> length xs" and "length ys = j - i"
  shows "slice i j xs = ys \<longleftrightarrow> (\<forall>k < j - i. xs ! (i + k) = ys ! k)"
  using assms by (auto simp: list_eq_iff_nth_eq)

text \<open>Arrays of equal-sized chunks, written one after the other by an indexed loop.\<close>

lemma write_at_split:
  "length a = i \<Longrightarrow> length b = length ys \<Longrightarrow> write_at i ys (a @ b @ c) = a @ ys @ c"
  by (simp add: write_at_def)

lemma foldl_write_chunks:
  assumes "\<And>x. x \<in> set xs \<Longrightarrow> length (f x) = w"
    and "length pre = s + k * w" and "length body = w * length xs"
  shows "foldl (\<lambda>b (i, x). write_at (s + i * w) (f x) b) (pre @ body @ post) (enumerate k xs)
    = pre @ concat (map f xs) @ post"
  using assms
proof (induction xs arbitrary: k pre body)
  case (Cons x xs)
  have b: "body = take w body @ drop w body" by simp
  have "write_at (s + k * w) (f x) (pre @ take w body @ drop w body @ post)
      = pre @ f x @ drop w body @ post"
    using Cons.prems by (intro write_at_split) simp_all
  moreover have "foldl (\<lambda>b (i, x). write_at (s + i * w) (f x) b) ((pre @ f x) @ drop w body @ post)
      (enumerate (Suc k) xs) = (pre @ f x) @ concat (map f xs) @ post"
    using Cons.prems by (intro Cons.IH) simp_all
  ultimately show ?case
    by (subst b) (simp del: append_take_drop_id)
qed simp

lemma length_concat_chunks:
  "(\<And>x. x \<in> set xs \<Longrightarrow> length (f x) = w) \<Longrightarrow> length (concat (map f xs)) = w * length xs"
  by (induction xs) simp_all

lemma nth_concat_chunks:
  assumes "\<And>x. x \<in> set xs \<Longrightarrow> length (f x) = w" and "i < length xs" and "j < w"
  shows "concat (map f xs) ! (i * w + j) = f (xs ! i) ! j"
  using assms
proof (induction xs arbitrary: i)
  case (Cons x xs)
  then show ?case
    by (cases i) (auto simp: nth_append add.assoc)
qed simp

lemma slice_append:
  assumes "i \<le> j" and "j \<le> k"
  shows "slice i j xs @ slice j k xs = slice i k xs"
proof -
  obtain a b where "j = i + a" "k = i + a + b"
    using assms by (metis le_iff_add)
  then show ?thesis
    by (simp add: slice_def take_add add.commute)
qed

lemma concat_slices:
  "concat (map (\<lambda>i. slice (s + i * w) (s + i * w + w) xs) [0..<n]) = slice s (s + n * w) xs"
proof (induction n)
  case 0
  then show ?case by (simp add: slice_def)
next
  case (Suc n)
  then show ?case
    using slice_append [of s "s + n * w" "s + n * w + w" xs] by (simp add: algebra_simps)
qed

section \<open>Byte order\<close>

definition be_bytes16 :: "u16 \<Rightarrow> u8 list" where
  "be_bytes16 w = [ucast (drop_bit 8 w), ucast w]"

definition from_be16 :: "u8 \<Rightarrow> u8 \<Rightarrow> u16" where
  "from_be16 hi lo = push_bit 8 (ucast hi) OR ucast lo"

definition from_le16 :: "u8 \<Rightarrow> u8 \<Rightarrow> u16" where
  "from_le16 lo hi = push_bit 8 (ucast hi) OR ucast lo"

definition le_bytes16 :: "u16 \<Rightarrow> u8 \<times> u8" where
  "le_bytes16 w = (ucast w, ucast (drop_bit 8 w))"

definition be_bytes32 :: "u32 \<Rightarrow> u8 list" where
  "be_bytes32 w = [ucast (drop_bit 24 w), ucast (drop_bit 16 w), ucast (drop_bit 8 w), ucast w]"

definition from_be32 :: "u8 \<Rightarrow> u8 \<Rightarrow> u8 \<Rightarrow> u8 \<Rightarrow> u32" where
  "from_be32 a b c d =
     push_bit 24 (ucast a) OR push_bit 16 (ucast b) OR push_bit 8 (ucast c) OR ucast d"

lemma unat_u8_less: "unat (b :: u8) < 256"
  using unsigned_less [of b, where ?'a = nat] by simp

lemma unat_u16_less: "unat (v :: u16) < 65536"
  using unsigned_less [of v, where ?'a = nat] by simp

lemma unat_ucast_u8_u16 [simp]: "unat (ucast (b :: u8) :: u16) = unat b"
proof -
  have "unat b < 2 ^ 16" using unat_u8_less [of b] by simp
  then show ?thesis by (simp add: unsigned_ucast_eq take_bit_nat_eq_self)
qed

lemma ucast_u8_u16_inject [simp]: "(ucast (a :: u8) :: u16) = ucast b \<longleftrightarrow> a = b"
  by (simp add: word_unat_eq_iff)

lemma u8_bit_beyond [simp]: "8 \<le> n \<Longrightarrow> \<not> bit (b :: u8) n"
  by (auto dest: bit_imp_le_length)

lemma length_be_bytes [simp]: "length (be_bytes16 w) = 2" "length (be_bytes32 v) = 4"
  by (simp_all add: be_bytes16_def be_bytes32_def)

lemma from_be16_parts [simp]: "from_be16 (ucast (drop_bit 8 w)) (ucast w) = w"
  by (rule bit_word_eqI) (auto simp: from_be16_def bit_simps)

lemma from_be16_be_bytes16 [simp]: "from_be16 (be_bytes16 w ! 0) (be_bytes16 w ! Suc 0) = w"
  by (simp add: be_bytes16_def)

lemma be_bytes16_from_be16 [simp]: "be_bytes16 (from_be16 a b) = [a, b]"
  by (auto simp: be_bytes16_def from_be16_def bit_simps intro!: bit_word_eqI)

lemma from_le16_parts [simp]: "from_le16 (ucast w) (ucast (drop_bit 8 w)) = w"
  by (rule bit_word_eqI) (auto simp: from_le16_def bit_simps)

lemma from_be32_be_bytes32:
  "from_be32 (be_bytes32 w ! 0) (be_bytes32 w ! 1) (be_bytes32 w ! 2) (be_bytes32 w ! 3) = w"
proof (rule bit_word_eqI)
  fix n :: nat
  assume "n < LENGTH(32)"
  then have n: "n < 32" by simp
  then consider "n < 8" | "8 \<le> n" "n < 16" | "16 \<le> n" "n < 24" | "24 \<le> n" "n < 32"
    by linarith
  then show "bit (from_be32 (be_bytes32 w ! 0) (be_bytes32 w ! 1) (be_bytes32 w ! 2) (be_bytes32 w ! 3)) n
    = bit w n"
    by cases (auto simp: from_be32_def be_bytes32_def bit_simps)
qed

lemma be_bytes32_from_be32: "be_bytes32 (from_be32 a b c d) = [a, b, c, d]"
  by (auto simp: be_bytes32_def from_be32_def bit_simps intro!: bit_word_eqI)

text \<open>A quantifier over the bytes is a finite check.\<close>

lemma all_u8: "(\<forall>b :: u8. P b) \<longleftrightarrow> list_all P (map of_nat [0..<256])"
proof -
  have "P b" if "\<forall>n < 256. P (of_nat n)" for b :: u8
    using that [rule_format, of "unat b"] unat_u8_less [of b] by simp
  then show ?thesis by (auto simp: list_all_iff)
qed

section \<open>Hexadecimal text\<close>

text \<open>
  Texts the code handles as bytes (\<^verbatim>\<open>str::as_bytes\<close>) are byte lists; \<open>ascii\<close> turns an
  Isabelle string literal into its bytes.
\<close>

definition ascii :: "string \<Rightarrow> u8 list" where
  "ascii s = map of_char s"

end
