(* ===== verification/X3_Model.thy ===== *)
theory X3_Model
  imports X3_Prelude
begin

text \<open>
  The value types shared by every component (\<^verbatim>\<open>crates/attack-shark-x3/src/model.rs\<close>) and the
  protocol errors (\<^verbatim>\<open>error.rs\<close>). The Rust newtypes have a private field that only their
  checked constructor writes; the model keeps the wrapper as a datatype, the checked constructor as
  a function into \<open>option\<close>, and the range it guarantees as a predicate \<open>wf_\<dots>\<close> that the
  lemmas below show every constructor establishes.
\<close>

section \<open>Transports, errors\<close>

datatype transport_kind = Wired | Receiver | Ble

datatype protocol_error =
    InvalidProfile u8
  | InvalidProfileRange u8 u8
  | InvalidComplement string u8 u8
  | InvalidReadinessStatus u8
  | InvalidStage u8
  | InvalidDpi u16
  | InvalidPollingRate u16
  | InvalidPollingRateCode u8
  | InvalidReportLength usize usize
  | UnexpectedReportId u8 u8
  | UnexpectedDeclaredLength u8 u8
  | ProfileMismatch u8 u8
  | ChecksumMismatch u16 u16
  | InvalidFixedByte usize u8 u8
  | InvalidStageMask u8
  | InvalidStageValue usize u16
  | ActiveStageOutOfRange u8 usize
  | InvalidStageCount usize
  | InvalidSensorValue string u8

type_synonym 'a protocol_result = "(protocol_error, 'a) result"

section \<open>Profile identifiers\<close>

datatype profile_id = ProfileId (profile_get: u8)

definition PROFILE_MIN :: u8 where "PROFILE_MIN = 1"
definition PROFILE_MAX :: u8 where "PROFILE_MAX = 5"

definition profile_new :: "u8 \<Rightarrow> profile_id option" where
  "profile_new value = (if value \<ge> PROFILE_MIN \<and> value \<le> PROFILE_MAX then Some (ProfileId value) else None)"

definition profile_try_from :: "u8 \<Rightarrow> profile_id protocol_result" where
  "profile_try_from value = ok_or (InvalidProfile value) (profile_new value)"

definition wf_profile :: "profile_id \<Rightarrow> bool" where
  "wf_profile p \<longleftrightarrow> 1 \<le> profile_get p \<and> profile_get p \<le> 5"

lemma profile_new_eq_Some: "profile_new v = Some p \<longleftrightarrow> p = ProfileId v \<and> wf_profile p"
  by (auto simp: profile_new_def wf_profile_def PROFILE_MIN_def PROFILE_MAX_def)

lemma profile_try_from_eq_Inr [simp]:
  "profile_try_from v = Inr p \<longleftrightarrow> p = ProfileId v \<and> wf_profile p"
  by (simp add: profile_try_from_def profile_new_eq_Some)

lemma profile_try_from_get: "wf_profile p \<Longrightarrow> profile_try_from (profile_get p) = Inr p"
  by simp

lemma profile_try_from_eq_Inl: "profile_try_from v = Inl e \<longleftrightarrow> e = InvalidProfile v \<and> (v = 0 \<or> 5 < v)"
  by (auto simp: profile_try_from_def ok_or_eq_Inl profile_new_def PROFILE_MIN_def PROFILE_MAX_def
      not_le word_less_nat_alt word_le_nat_alt unat_eq_zero)

section \<open>DPI stage indices\<close>

datatype stage_index = StageIndex (stage_get: u8)

definition STAGE_MIN :: u8 where "STAGE_MIN = 1"
definition STAGE_MAX :: u8 where "STAGE_MAX = 8"

definition stage_new :: "u8 \<Rightarrow> stage_index option" where
  "stage_new value = (if value \<ge> STAGE_MIN \<and> value \<le> STAGE_MAX then Some (StageIndex value) else None)"

definition stage_try_from :: "u8 \<Rightarrow> stage_index protocol_result" where
  "stage_try_from value = ok_or (InvalidStage value) (stage_new value)"

definition wf_stage :: "stage_index \<Rightarrow> bool" where
  "wf_stage s \<longleftrightarrow> 1 \<le> stage_get s \<and> stage_get s \<le> 8"

lemma stage_new_eq_Some: "stage_new v = Some s \<longleftrightarrow> s = StageIndex v \<and> wf_stage s"
  by (auto simp: stage_new_def wf_stage_def STAGE_MIN_def STAGE_MAX_def)

lemma stage_try_from_eq_Inr [simp]: "stage_try_from v = Inr s \<longleftrightarrow> s = StageIndex v \<and> wf_stage s"
  by (simp add: stage_try_from_def stage_new_eq_Some)

section \<open>DPI values\<close>

datatype dpi_value = DpiValue (dpi_get: u16)

definition DPI_MIN :: u16 where "DPI_MIN = 50"
definition DPI_MAX :: u16 where "DPI_MAX = 26000"
definition DPI_STEP :: u16 where "DPI_STEP = 50"

definition dpi_new :: "u16 \<Rightarrow> dpi_value option" where
  "dpi_new value =
     (if value \<ge> DPI_MIN \<and> value \<le> DPI_MAX \<and> value div DPI_STEP * DPI_STEP = value
      then Some (DpiValue value) else None)"

definition dpi_try_from :: "u16 \<Rightarrow> dpi_value protocol_result" where
  "dpi_try_from value = ok_or (InvalidDpi value) (dpi_new value)"

definition wf_dpi_value :: "dpi_value \<Rightarrow> bool" where
  "wf_dpi_value d \<longleftrightarrow> 50 \<le> unat (dpi_get d) \<and> unat (dpi_get d) \<le> 26000 \<and> 50 dvd unat (dpi_get d)"

lemma u16_div50_mult50_eq: "(v :: u16) div 50 * 50 = v \<longleftrightarrow> 50 dvd unat v"
proof -
  have "unat v < 65536" by (rule unat_u16_less)
  then have "unat (v div 50 * 50) = unat v div 50 * 50"
    by (simp add: unat_word_ariths unat_div)
  then show ?thesis
    unfolding word_unat_eq_iff by (metis dvd_div_mult_self dvd_triv_right)
qed

lemma dpi_new_eq_Some: "dpi_new v = Some d \<longleftrightarrow> d = DpiValue v \<and> wf_dpi_value d"
  by (auto simp: dpi_new_def wf_dpi_value_def DPI_MIN_def DPI_MAX_def DPI_STEP_def
      u16_div50_mult50_eq word_le_nat_alt)

lemma dpi_try_from_eq_Inr [simp]: "dpi_try_from v = Inr d \<longleftrightarrow> d = DpiValue v \<and> wf_dpi_value d"
  by (simp add: dpi_try_from_def dpi_new_eq_Some)

end
