(* ===== verification/X3_Checksum.thy ===== *)
theory X3_Checksum
  imports X3_Model
begin

text \<open>
  The report checksum (\<^verbatim>\<open>protocol/checksum.rs\<close>): a wrapping 16-bit sum of the bytes.
\<close>

definition sum16 :: "packet \<Rightarrow> u16" where
  "sum16 bytes = foldl (\<lambda>sum byte. sum + ucast byte) 0 bytes"

lemma foldl_sum16: "foldl (\<lambda>sum byte. sum + ucast (byte :: u8)) (a :: u16) bs = a + sum16 bs"
proof (induction bs arbitrary: a)
  case Nil
  show ?case by (simp add: sum16_def)
next
  case (Cons b bs)
  have "foldl (\<lambda>sum byte. sum + ucast byte) (ucast b :: u16) bs = ucast b + sum16 bs"
    by (rule Cons.IH)
  then show ?case
    using Cons.IH [of "a + ucast b"] by (simp add: sum16_def add.assoc)
qed

lemma sum16_Nil [simp]: "sum16 [] = 0"
  by (simp add: sum16_def)

lemma sum16_Cons [simp]: "sum16 (b # bs) = ucast b + sum16 bs"
  using foldl_sum16 [of "ucast b" bs] by (simp add: sum16_def)

lemma sum16_append [simp]: "sum16 (xs @ ys) = sum16 xs + sum16 ys"
  by (induction xs) (simp_all add: add.assoc)

lemma sum16_rev: "sum16 (rev xs) = sum16 xs"
  by (induction xs) (simp_all add: add.commute)

text \<open>The fold is the exact sum of the byte values modulo \<open>2 ^ 16\<close>.\<close>

lemma unat_sum16: "unat (sum16 bs) = sum_list (map unat bs) mod 65536"
proof (induction bs)
  case Nil
  show ?case by simp
next
  case (Cons b bs)
  then show ?case
    by (simp add: unat_word_ariths mod_add_right_eq)
qed

text \<open>Reports carry fewer than 258 payload bytes: there the checksum does not wrap.\<close>

lemma sum_list_bytes_le: "sum_list (map unat (bs :: packet)) \<le> 255 * length bs"
proof (induction bs)
  case (Cons b bs)
  have "unat b \<le> 255" using unat_u8_less [of b] by simp
  with Cons.IH show ?case by simp
qed simp

lemma unat_sum16_short: "length bs \<le> 257 \<Longrightarrow> unat (sum16 bs) = sum_list (map unat bs)"
  using sum_list_bytes_le [of bs] by (simp add: unat_sum16)

text \<open>A change of a single byte of a report is always detected.\<close>

lemma sum16_update:
  assumes "i < length bs"
  shows "sum16 (bs[i := b]) = sum16 bs - ucast (bs ! i) + ucast b"
  using assms by (induction bs arbitrary: i) (auto split: nat.splits simp: add.assoc algebra_simps)

lemma sum16_update_eq_iff:
  assumes "i < length bs"
  shows "sum16 (bs[i := b]) = sum16 bs \<longleftrightarrow> bs ! i = b"
  using assms by (auto simp: sum16_update algebra_simps)

lemma from_be16_inject [simp]: "from_be16 a b = from_be16 c d \<longleftrightarrow> a = c \<and> b = d"
  by (metis be_bytes16_from_be16 list.inject)

lemma slice_update: "s \<le> i \<Longrightarrow> slice s e (p[i := b]) = (slice s e p)[i - s := b]"
  by (simp add: slice_def drop_update_swap take_update_swap)

lemma slice_update_beyond: "e \<le> i \<Longrightarrow> slice s e (p[i := b]) = slice s e p"
  by (cases "s \<le> i") (auto simp: slice_def drop_update_swap take_update_swap list_update_beyond drop_update_cancel)

lemma checksum_detects:
  assumes "s \<le> i" and "i < e + 2" and "e + 2 \<le> length p" and "s \<le> e" and "b \<noteq> p ! i"
    and "from_be16 (p ! e) (p ! (e + 1)) = sum16 (slice s e p)"
  shows "from_be16 (p[i := b] ! e) (p[i := b] ! (e + 1)) \<noteq> sum16 (slice s e (p[i := b]))"
proof (cases "i < e")
  case True
  have "slice s e p ! (i - s) = p ! i"
    using assms True by (subst nth_slice) auto
  moreover have "i - s < length (slice s e p)"
    using assms True by simp
  ultimately have "sum16 (slice s e (p[i := b])) \<noteq> sum16 (slice s e p)"
    using assms(5) sum16_update_eq_iff [of "i - s" "slice s e p" b] by (simp add: slice_update assms(1))
  then show ?thesis
    using True assms(6) by simp
next
  case False
  then have "i = e \<or> i = e + 1" using assms(2) by linarith
  then show ?thesis
    using False assms(3,5) by (auto simp: slice_update_beyond assms(6) [symmetric])
qed

end
