(* ===== verification/X3_Codec.thy ===== *)
theory X3_Codec
  imports X3_Model
begin

text \<open>
  The contract between the worker and a report codec. The worker writes \<open>enc st\<close>, reads the
  section back and compares states; the device answers with the image it holds, whose declared
  length is the transport's. \<open>echo\<close> is that answer, \<open>norm\<close> undoes it.
\<close>

locale report_codec =
  fixes enc :: "'st \<Rightarrow> packet"
    and dec :: "packet \<Rightarrow> 'st protocol_result"
    and wf :: "'st \<Rightarrow> bool"
    and echo :: "packet \<Rightarrow> packet"
    and norm :: "packet \<Rightarrow> packet"
  assumes accepts_echo: "wf st \<Longrightarrow> dec (echo (enc st)) = Inr st"
    and reencodes: "dec p = Inr st \<Longrightarrow> wf st \<Longrightarrow> norm p = enc st"
begin

lemma enc_inject: "wf a \<Longrightarrow> wf b \<Longrightarrow> enc a = enc b \<longleftrightarrow> a = b"
  by (metis accepts_echo sum.inject(2))

lemma norm_echo: "wf st \<Longrightarrow> norm (echo (enc st)) = enc st"
  by (rule reencodes [OF accepts_echo])

text \<open>Comparing the decoded state with the written one compares the images byte by byte.\<close>

lemma verified_iff_same_image:
  "dec p = Inr a \<Longrightarrow> wf a \<Longrightarrow> wf b \<Longrightarrow> a = b \<longleftrightarrow> norm p = enc b"
  using reencodes enc_inject by metis

lemma accepted_images_agree: "dec p = Inr a \<Longrightarrow> dec q = Inr a \<Longrightarrow> wf a \<Longrightarrow> norm p = norm q"
  using reencodes by metis

end

text \<open>A report whose payload the checksum covers: altering one covered byte is always detected.\<close>

locale checked_codec = report_codec +
  fixes covered :: "nat \<Rightarrow> bool"
  assumes detects: "dec p = Inr st \<Longrightarrow> covered i \<Longrightarrow> i < length p \<Longrightarrow> b \<noteq> p ! i \<Longrightarrow>
      is_ok (dec (p[i := b])) = False"
begin

lemma one_byte_apart:
  assumes "dec p = Inr a" and "dec q = Inr c" and "covered i" and "i < length p" and "q = p[i := b]"
  shows "q = p"
proof (rule ccontr)
  assume "q \<noteq> p"
  then have "b \<noteq> p ! i" using assms(5) by auto
  from detects [OF assms(1,3,4) this] show False
    using assms(2,5) by simp
qed

end

end
