(* ===== verification/X3_Validate.thy ===== *)
theory X3_Validate
  imports X3_Checksum X3_Codec
begin

text \<open>
  The byte checks every decoder shares (\<^verbatim>\<open>validate_complement\<close>,
  \<^verbatim>\<open>validate_fixed_byte\<close>, \<^verbatim>\<open>validate_fixed_range\<close> of \<^verbatim>\<open>protocol/profile.rs\<close>).
\<close>

definition validate_complement :: "string \<Rightarrow> u8 \<Rightarrow> u8 \<Rightarrow> unit protocol_result" where
  "validate_complement field val complement =
     (if val XOR complement = 255 then Inr () else Inl (InvalidComplement field val complement))"

definition validate_fixed_byte :: "packet \<Rightarrow> usize \<Rightarrow> u8 \<Rightarrow> unit protocol_result" where
  "validate_fixed_byte packet offset expected =
     (let actual = packet ! offset
      in if actual = expected then Inr () else Inl (InvalidFixedByte offset expected actual))"

fun validate_offsets :: "packet \<Rightarrow> nat list \<Rightarrow> u8 \<Rightarrow> unit protocol_result" where
  "validate_offsets packet [] expected = Inr ()"
| "validate_offsets packet (offset # offsets) expected =
     tryq (validate_fixed_byte packet offset expected) (\<lambda>_. validate_offsets packet offsets expected)"

definition validate_fixed_range :: "packet \<Rightarrow> usize \<Rightarrow> usize \<Rightarrow> u8 \<Rightarrow> unit protocol_result" where
  "validate_fixed_range packet start stop expected = validate_offsets packet [start..<stop] expected"

lemma u8_xor_255: "(v :: u8) XOR c = 255 \<longleftrightarrow> c = NOT v"
proof -
  have 255: "(255 :: u8) = - 1" by simp
  show ?thesis
    unfolding 255 by (auto simp: bit_eq_iff bit_simps)
qed

lemma validate_complement_eq_Inr [simp]: "validate_complement f v c = Inr () \<longleftrightarrow> c = NOT v"
  by (simp add: validate_complement_def u8_xor_255)

lemma validate_complement_ok_iff [simp]: "validate_complement f v c = Inr u \<longleftrightarrow> c = NOT v"
  using validate_complement_eq_Inr [of f v c] by (cases u) simp

lemma validate_fixed_byte_eq_Inr [simp]: "validate_fixed_byte p i e = Inr u \<longleftrightarrow> p ! i = e"
  by (simp add: validate_fixed_byte_def Let_def)

lemma validate_offsets_eq_Inr [simp]:
  "validate_offsets p offs e = Inr u \<longleftrightarrow> (\<forall>i \<in> set offs. p ! i = e)"
  by (induction offs) (auto simp: validate_fixed_byte_def Let_def)

lemma validate_fixed_range_eq_Inr [simp]:
  "validate_fixed_range p a b e = Inr u \<longleftrightarrow> (\<forall>i. a \<le> i \<and> i < b \<longrightarrow> p ! i = e)"
  by (auto simp: validate_fixed_range_def)

text \<open>The error names the first offending offset.\<close>

lemma validate_offsets_first:
  "validate_offsets p offs e =
     (case filter (\<lambda>i. p ! i \<noteq> e) offs of [] \<Rightarrow> Inr ()
      | i # _ \<Rightarrow> Inl (InvalidFixedByte i e (p ! i)))"
  by (induction offs) (simp_all add: validate_fixed_byte_def)

end
