(* ===== verification/X3_Watermark.thy ===== *)
theory X3_Watermark
  imports X3_Model
begin

text \<open>
  The physical-identity watermark in the opaque DPI tail (first part of \<^verbatim>\<open>protocol/dpi.rs\<close>):
  its 25-byte image, the strict decoder, and the hexadecimal text forms of the tail and of the
  token. The CRC-32 of the crate \<^verbatim>\<open>crc32fast\<close> is the parameter \<open>crc\<close>: nothing below
  depends on which function it is.
\<close>

section \<open>Definitions\<close>

definition WATERMARK_LENGTH :: usize where "WATERMARK_LENGTH = 25"
definition WATERMARK_MAGIC :: packet where "WATERMARK_MAGIC = [0x58, 0x33, 0x49, 0x44]"
definition WATERMARK_VERSION :: u8 where "WATERMARK_VERSION = 1"
definition WATERMARK_VERSION_OFFSET :: usize where "WATERMARK_VERSION_OFFSET = 4"
definition WATERMARK_TOKEN_LENGTH :: usize where "WATERMARK_TOKEN_LENGTH = 16"
definition WATERMARK_TOKEN_START :: usize where "WATERMARK_TOKEN_START = WATERMARK_VERSION_OFFSET + 1"
definition WATERMARK_TOKEN_END :: usize where
  "WATERMARK_TOKEN_END = WATERMARK_TOKEN_START + WATERMARK_TOKEN_LENGTH"
definition WATERMARK_CRC_START :: usize where "WATERMARK_CRC_START = WATERMARK_TOKEN_END"

lemmas watermark_consts =
  WATERMARK_LENGTH_def WATERMARK_MAGIC_def WATERMARK_VERSION_def WATERMARK_VERSION_OFFSET_def
  WATERMARK_TOKEN_LENGTH_def WATERMARK_TOKEN_START_def WATERMARK_TOKEN_END_def
  WATERMARK_CRC_START_def

datatype physical_id = PhysicalId (token_bytes: packet)

definition wf_physical_id :: "physical_id \<Rightarrow> bool" where
  "wf_physical_id i \<longleftrightarrow> length (token_bytes i) = 16"

definition to_watermark_bytes :: "(packet \<Rightarrow> u32) \<Rightarrow> physical_id \<Rightarrow> packet" where
  "to_watermark_bytes crc i =
     (let bytes = replicate WATERMARK_LENGTH 0;
          bytes = write_at 0 WATERMARK_MAGIC bytes;
          bytes = bytes[WATERMARK_VERSION_OFFSET := WATERMARK_VERSION];
          bytes = write_at WATERMARK_TOKEN_START (token_bytes i) bytes;
          c = crc (take WATERMARK_CRC_START bytes)
      in write_at WATERMARK_CRC_START (be_bytes32 c) bytes)"

datatype watermark_decode =
    Absent
  | Malformed
  | UnsupportedVersion u8
  | Valid physical_id

definition watermark_physical_id :: "watermark_decode \<Rightarrow> physical_id option" where
  "watermark_physical_id d = (case d of Valid i \<Rightarrow> Some i | _ \<Rightarrow> None)"

definition decode_watermark :: "(packet \<Rightarrow> u32) \<Rightarrow> packet \<Rightarrow> watermark_decode" where
  "decode_watermark crc tail =
     (if length tail \<noteq> WATERMARK_LENGTH then Absent
      else if take (length WATERMARK_MAGIC) tail \<noteq> WATERMARK_MAGIC then Absent
      else if tail ! WATERMARK_VERSION_OFFSET \<noteq> WATERMARK_VERSION
        then UnsupportedVersion (tail ! WATERMARK_VERSION_OFFSET)
      else let expected = crc (take WATERMARK_CRC_START tail);
               actual = from_be32 (tail ! WATERMARK_CRC_START) (tail ! (WATERMARK_CRC_START + 1))
                 (tail ! (WATERMARK_CRC_START + 2)) (tail ! (WATERMARK_CRC_START + 3))
           in if actual \<noteq> expected then Malformed
              else Valid (PhysicalId (slice WATERMARK_TOKEN_START WATERMARK_TOKEN_END tail)))"

section \<open>The image, byte by byte\<close>

definition watermark_body :: "packet \<Rightarrow> packet" where
  "watermark_body token = [0x58, 0x33, 0x49, 0x44, 1] @ token"

lemma to_watermark_bytes_layout [layout]:
  assumes "wf_physical_id i"
  shows "to_watermark_bytes crc i =
    watermark_body (token_bytes i) @ be_bytes32 (crc (watermark_body (token_bytes i)))"
proof -
  have len: "length (token_bytes i) = 16"
    using assms by (simp add: wf_physical_id_def)
  have 1: "(write_at 0 WATERMARK_MAGIC (replicate 25 0))[4 := 1] =
      ([0x58, 0x33, 0x49, 0x44, 1] :: packet) @ replicate 20 0"
    by (simp add: write_at_def WATERMARK_MAGIC_def numeral_eq_Suc)
  have 2: "write_at 5 (token_bytes i) (([0x58, 0x33, 0x49, 0x44, 1] :: packet) @ replicate 20 0) =
      watermark_body (token_bytes i) @ replicate 4 0"
    by (simp add: write_at_def len watermark_body_def)
  show ?thesis
    unfolding to_watermark_bytes_def Let_def
    by (simp add: watermark_consts(1,3-) 1 2 [simplified])
       (simp add: write_at_def len watermark_body_def)
qed

lemma length_to_watermark_bytes [simp]:
  "wf_physical_id i \<Longrightarrow> length (to_watermark_bytes crc i) = 25"
  by (simp add: to_watermark_bytes_layout watermark_body_def wf_physical_id_def)

section \<open>The decoder accepts exactly the images\<close>

lemma decode_watermark_image:
  assumes "wf_physical_id i"
  shows "decode_watermark crc (to_watermark_bytes crc i) = Valid i"
  using assms
  by (cases i)
     (simp add: decode_watermark_def to_watermark_bytes_layout watermark_consts watermark_body_def
        wf_physical_id_def slice_def nth_append from_be32_be_bytes32 [simplified])

lemma decode_watermark_Valid_image:
  assumes "decode_watermark crc tail = Valid i"
  shows "wf_physical_id i \<and> tail = to_watermark_bytes crc i"
proof -
  have four: "length WATERMARK_MAGIC = 4"
    by (simp add: WATERMARK_MAGIC_def)
  from assms have len: "length tail = 25" and magic: "take 4 tail = WATERMARK_MAGIC"
    and ver: "tail ! 4 = 1"
    and crc: "from_be32 (tail ! 21) (tail ! 22) (tail ! 23) (tail ! 24) = crc (take 21 tail)"
    and i: "i = PhysicalId (slice 5 21 tail)"
    by (auto simp: decode_watermark_def watermark_consts(1,3-) four Let_def split: if_splits)
  have wf: "wf_physical_id i"
    using len i by (simp add: wf_physical_id_def)
  have "take 21 tail = take 4 tail @ [tail ! 4] @ slice 5 21 tail"
    using len by (auto simp: list_eq_iff_nth_eq nth_append nth_Cons')
  then have body: "take 21 tail = watermark_body (token_bytes i)"
    using magic ver i by (simp add: watermark_body_def WATERMARK_MAGIC_def)
  have "drop 21 tail = [tail ! 21, tail ! 22, tail ! 23, tail ! 24]"
    using len by (simp add: Cons_nth_drop_Suc [symmetric] eval_nat_numeral)
  then have "drop 21 tail = be_bytes32 (crc (take 21 tail))"
    using crc be_bytes32_from_be32 by metis
  then have "tail = to_watermark_bytes crc i"
    using append_take_drop_id [of 21 tail] by (simp add: to_watermark_bytes_layout wf body)
  with wf show ?thesis by simp
qed

text \<open>A tail is a valid watermark exactly when it is the image of a token, and then the token
  is the one the image was made from.\<close>

lemma decode_watermark_eq_Valid:
  "decode_watermark crc tail = Valid i \<longleftrightarrow> wf_physical_id i \<and> tail = to_watermark_bytes crc i"
  using decode_watermark_image decode_watermark_Valid_image by blast

lemma to_watermark_bytes_inject:
  "wf_physical_id i \<Longrightarrow> wf_physical_id j \<Longrightarrow> to_watermark_bytes crc i = to_watermark_bytes crc j \<Longrightarrow> i = j"
  by (metis decode_watermark_image watermark_decode.inject(2))

text \<open>Which of the other verdicts a 25-byte tail gets.\<close>

lemma decode_watermark_eq_Absent:
  "decode_watermark crc tail = Absent \<longleftrightarrow> length tail \<noteq> 25 \<or> take 4 tail \<noteq> WATERMARK_MAGIC"
proof -
  have four: "length WATERMARK_MAGIC = 4"
    by (simp add: WATERMARK_MAGIC_def)
  show ?thesis
    by (auto simp: decode_watermark_def watermark_consts(1,3-) four Let_def)
qed

lemma decode_watermark_eq_Unsupported:
  "decode_watermark crc tail = UnsupportedVersion v \<longleftrightarrow>
     length tail = 25 \<and> take 4 tail = WATERMARK_MAGIC \<and> tail ! 4 = v \<and> v \<noteq> 1"
proof -
  have four: "length WATERMARK_MAGIC = 4"
    by (simp add: WATERMARK_MAGIC_def)
  show ?thesis
    by (auto simp: decode_watermark_def watermark_consts(1,3-) four Let_def)
qed

section \<open>Hexadecimal text\<close>

text \<open>
  \<^verbatim>\<open>preserved_tail_hex\<close> (25 bytes) and \<^verbatim>\<open>physical_id_hex\<close> (16 bytes) differ only in
  the array length; the serde error values carry text only and are the constructors of \<open>hex_error\<close>.
  The texts are the byte sequences \<^verbatim>\<open>v.as_bytes()\<close>.
\<close>

datatype hex_error = InvalidLength usize | InvalidHexCharacter u8

definition HEX_CHARS :: packet where
  "HEX_CHARS = ascii ''0123456789abcdef''"

definition hex_nibble :: "u8 \<Rightarrow> (hex_error, u8) result" where
  "hex_nibble c =
     (if 0x30 \<le> c \<and> c \<le> 0x39 then Inr (c - 0x30)
      else if 0x61 \<le> c \<and> c \<le> 0x66 then Inr (c - 0x61 + 10)
      else if 0x41 \<le> c \<and> c \<le> 0x46 then Inr (c - 0x41 + 10)
      else Inl (InvalidHexCharacter c))"

definition hex_pair :: "u8 \<Rightarrow> packet" where
  "hex_pair byte = [HEX_CHARS ! unat (drop_bit 4 byte), HEX_CHARS ! unat (byte AND 0x0f)]"

definition hex_serialize :: "packet \<Rightarrow> packet" where
  "hex_serialize bytes = concat (map hex_pair bytes)"

definition hex_byte :: "packet \<Rightarrow> nat \<Rightarrow> (hex_error, u8) result" where
  "hex_byte v i =
     tryq (hex_nibble (v ! (i * 2))) (\<lambda>hi.
     tryq (hex_nibble (v ! (i * 2 + 1))) (\<lambda>lo.
     Inr (push_bit 4 hi OR lo)))"

definition hex_deserialize :: "nat \<Rightarrow> packet \<Rightarrow> (hex_error, packet) result" where
  "hex_deserialize n v =
     (if length v \<noteq> n * 2 then Inl (InvalidLength (length v))
      else collect_results (hex_byte v) [0..<n])"

definition preserved_tail_hex_deserialize :: "packet \<Rightarrow> (hex_error, packet) result" where
  "preserved_tail_hex_deserialize = hex_deserialize WATERMARK_LENGTH"

definition physical_id_hex_deserialize :: "packet \<Rightarrow> (hex_error, physical_id) result" where
  "physical_id_hex_deserialize v =
     tryq (hex_deserialize WATERMARK_TOKEN_LENGTH v) (\<lambda>token. Inr (PhysicalId token))"

lemma HEX_CHARS_bytes: "HEX_CHARS =
  [0x30, 0x31, 0x32, 0x33, 0x34, 0x35, 0x36, 0x37, 0x38, 0x39, 0x61, 0x62, 0x63, 0x64, 0x65, 0x66]"
  by (simp add: HEX_CHARS_def ascii_def)

lemma hex_nibble_HEX_CHARS:
  assumes "n < 16"
  shows "hex_nibble (HEX_CHARS ! n) = Inr (of_nat n)"
proof -
  have "n \<in> {0, 1, 2, 3, 4, 5, 6, 7, 8, 9, 10, 11, 12, 13, 14, 15}"
    using assms unfolding insert_iff empty_iff by presburger
  then show ?thesis
    by (elim insertE emptyE) (simp_all add: HEX_CHARS_bytes hex_nibble_def)
qed

lemma high_nibble_less: "unat (drop_bit 4 (b :: u8)) < 16"
proof -
  have "unat (drop_bit 4 b) = unat b div 16"
    by (simp add: unsigned_drop_bit_eq drop_bit_eq_div unat_div)
  then show ?thesis
    using unat_u8_less [of b] by (simp add: div_less_iff_less_mult)
qed

lemma low_nibble_less: "unat (b AND 15 :: u8) < 16"
proof -
  have "b AND 15 \<le> (15 :: u8)"
    by (rule word_and_le1)
  then show ?thesis
    by (simp add: word_le_nat_alt)
qed

lemma hex_pair_nibbles:
  "hex_nibble (HEX_CHARS ! unat (drop_bit 4 b)) = Inr (drop_bit 4 b)"
  "hex_nibble (HEX_CHARS ! unat (b AND 15)) = Inr (b AND 15)"
  by (simp_all add: hex_nibble_HEX_CHARS high_nibble_less low_nibble_less)

lemma nibbles_join: "push_bit 4 (drop_bit 4 b) OR (b AND 15) = (b :: u8)"
proof (rule bit_word_eqI)
  fix n :: nat
  assume "n < LENGTH(8)"
  then have "n \<in> {0, 1, 2, 3, 4, 5, 6, 7}"
    by auto
  then show "bit (push_bit 4 (drop_bit 4 b) OR (b AND 15)) n = bit b n"
    by (elim insertE emptyE) (simp_all add: bit_simps)
qed

lemma length_hex_serialize [simp]: "length (hex_serialize bs) = 2 * length bs"
  by (induction bs) (simp_all add: hex_serialize_def hex_pair_def)

lemma nth_hex_serialize:
  "i < length bs \<Longrightarrow> hex_serialize bs ! (2 * i) = HEX_CHARS ! unat (drop_bit 4 (bs ! i))
     \<and> hex_serialize bs ! (2 * i + 1) = HEX_CHARS ! unat (bs ! i AND 15)"
proof (induction bs arbitrary: i)
  case (Cons b bs)
  then show ?case
    by (cases i) (simp_all add: hex_serialize_def hex_pair_def)
qed simp

lemma collect_results_map:
  "(\<And>x. x \<in> set xs \<Longrightarrow> f x = Inr (g x)) \<Longrightarrow> collect_results f xs = Inr (map g xs)"
  by (induction xs) simp_all

lemma hex_deserialize_serialize: "hex_deserialize (length bs) (hex_serialize bs) = Inr bs"
proof -
  have "hex_byte (hex_serialize bs) i = Inr (bs ! i)" if "i < length bs" for i
    using nth_hex_serialize [OF that]
    by (simp add: hex_byte_def mult.commute [of i] hex_pair_nibbles nibbles_join)
  then have "collect_results (hex_byte (hex_serialize bs)) [0..<length bs] = Inr (map ((!) bs) [0..<length bs])"
    by (intro collect_results_map) simp
  then show ?thesis
    by (simp add: hex_deserialize_def map_nth)
qed

lemma length_hex_deserialize: "hex_deserialize n v = Inr bs \<Longrightarrow> length bs = n \<and> length v = 2 * n"
  by (auto simp: hex_deserialize_def length_collect_results split: if_splits)

section \<open>Properties\<close>

text \<open>A preserved tail carries a valid watermark for exactly one identity: the tail decodes as valid
  with an identity if and only if the identity is a 16-byte token and the tail is its 25-byte image,
  whatever the CRC function; any other tail is absent, of an unsupported version, or malformed.\<close>

theorem watermark_decode_exact:
  "(decode_watermark crc tail = Valid i \<longleftrightarrow> wf_physical_id i \<and> tail = to_watermark_bytes crc i)
   \<and> (decode_watermark crc tail = Absent \<longleftrightarrow> \<not> (length tail = 25 \<and> take 4 tail = WATERMARK_MAGIC))
   \<and> (decode_watermark crc tail = UnsupportedVersion v \<longleftrightarrow>
        length tail = 25 \<and> take 4 tail = WATERMARK_MAGIC \<and> tail ! 4 = v \<and> v \<noteq> 1)"
  using decode_watermark_eq_Valid decode_watermark_eq_Absent [of crc tail] decode_watermark_eq_Unsupported by blast

text \<open>The hexadecimal text of a byte array parses back to the array, and a text that parses has two
  digits per byte of the array.\<close>

theorem hex_text_roundtrip:
  "hex_deserialize (length bs) (hex_serialize bs) = Inr bs
   \<and> (hex_deserialize n v = Inr cs \<longrightarrow> length cs = n \<and> length v = 2 * n)"
  using hex_deserialize_serialize length_hex_deserialize by blast

lemma hex_text_roundtrip_witness:
  "hex_deserialize 2 (hex_serialize [0x3b, 0xff]) = Inr [0x3b, 0xff]
   \<and> length (hex_serialize [0x3b, 0xff :: u8]) = 2 * 2"
  using hex_text_roundtrip [of "[0x3b, 0xff]" 2 "hex_serialize [0x3b, 0xff]" "[0x3b, 0xff]"] by (simp add: numeral_2_eq_2)

end
