(* ===== verification/X3_Dpi.thy ===== *)
theory X3_Dpi
  imports X3_Validate X3_Watermark
begin

text \<open>
  The DPI report \<open>0x04\<close> (\<^verbatim>\<open>protocol/dpi.rs\<close>): the DPI state of one profile, its 52-byte
  (compact) and 56-byte (full) wire images, and the validating decoder.
\<close>

section \<open>State\<close>

datatype lift_off_distance = OneMillimeter | TwoMillimeters

record sensor_options =
  lift_off_distance :: lift_off_distance
  ripple_control :: bool
  angle_snap :: bool
  motion_sync :: bool

definition sensor_default :: sensor_options where
  "sensor_default = \<lparr>lift_off_distance = OneMillimeter, ripple_control = False,
     angle_snap = False, motion_sync = False\<rparr>"

record dpi_state =
  dpi_profile :: profile_id
  dpi_stages :: "dpi_value list"
  dpi_active_stage :: stage_index
  dpi_sensor :: sensor_options
  dpi_preserved_tail :: packet

definition DPI_REPORT_ID :: u8 where "DPI_REPORT_ID = 0x04"
definition DPI_DECLARED_LENGTH :: u8 where "DPI_DECLARED_LENGTH = 0x38"
definition DPI_RECEIVER_DECLARED_LENGTH :: u8 where "DPI_RECEIVER_DECLARED_LENGTH = 0x3a"
definition DPI_WIRED_LENGTH :: usize where "DPI_WIRED_LENGTH = 52"
definition DPI_RECEIVER_LENGTH :: usize where "DPI_RECEIVER_LENGTH = 56"
definition DPI_CHECKSUM_OFFSET :: usize where "DPI_CHECKSUM_OFFSET = 50"
definition FIXED_TAIL_START :: usize where "FIXED_TAIL_START = 25"
definition FIXED_TAIL_LENGTH :: usize where "FIXED_TAIL_LENGTH = 25"

lemmas dpi_consts =
  DPI_REPORT_ID_def DPI_DECLARED_LENGTH_def DPI_RECEIVER_DECLARED_LENGTH_def DPI_WIRED_LENGTH_def
  DPI_RECEIVER_LENGTH_def DPI_CHECKSUM_OFFSET_def FIXED_TAIL_START_def FIXED_TAIL_LENGTH_def

definition CAPTURED_EMPTY_PROFILE_TAIL :: packet where
  "CAPTURED_EMPTY_PROFILE_TAIL =
    [0xff, 0x00, 0x00, 0x00, 0xff, 0x00, 0x00, 0x00, 0xff, 0xff, 0xff, 0x00, 0x00, 0xff, 0xff, 0xff,
     0x00, 0xff, 0xff, 0x40, 0x00, 0xff, 0xff, 0xff, 0x01]"

definition CAPTURED_STOCK_RESET_STAGES :: "u16 list" where
  "CAPTURED_STOCK_RESET_STAGES = [800, 1600, 2400, 3200, 5000, 26000]"

definition validate_stage_selection :: "usize \<Rightarrow> stage_index \<Rightarrow> unit protocol_result" where
  "validate_stage_selection stage_count active_stage =
     (if \<not> (1 \<le> stage_count \<and> stage_count \<le> 8) then Inl (InvalidStageCount stage_count)
      else if unat (stage_get active_stage) > stage_count
        then Inl (ActiveStageOutOfRange (stage_get active_stage) stage_count)
      else Inr ())"

definition dpi_state_new ::
  "profile_id \<Rightarrow> dpi_value list \<Rightarrow> stage_index \<Rightarrow> packet \<Rightarrow> dpi_state protocol_result" where
  "dpi_state_new profile stages active_stage preserved_tail =
     tryq (validate_stage_selection (length stages) active_stage) (\<lambda>_.
       Inr \<lparr>dpi_profile = profile, dpi_stages = stages, dpi_active_stage = active_stage,
            dpi_sensor = sensor_default, dpi_preserved_tail = preserved_tail\<rparr>)"

definition with_sensor :: "dpi_state \<Rightarrow> sensor_options \<Rightarrow> dpi_state" where
  "with_sensor st sensor = st\<lparr>dpi_sensor := sensor\<rparr>"

definition captured_empty_profile_one ::
  "dpi_value list \<Rightarrow> stage_index \<Rightarrow> dpi_state protocol_result" where
  "captured_empty_profile_one stages active_stage =
     tryq (profile_try_from PROFILE_MIN) (\<lambda>profile.
       dpi_state_new profile stages active_stage CAPTURED_EMPTY_PROFILE_TAIL)"

definition dpi_captured_stock_reset :: "profile_id \<Rightarrow> dpi_state protocol_result" where
  "dpi_captured_stock_reset profile =
     tryq (collect_results dpi_try_from CAPTURED_STOCK_RESET_STAGES) (\<lambda>stages.
     tryq (stage_try_from 2) (\<lambda>active_stage.
       dpi_state_new profile stages active_stage CAPTURED_EMPTY_PROFILE_TAIL))"

definition dpi_physical_id :: "(packet \<Rightarrow> u32) \<Rightarrow> dpi_state \<Rightarrow> watermark_decode" where
  "dpi_physical_id crc st = decode_watermark crc (dpi_preserved_tail st)"

definition overlay_physical_id :: "(packet \<Rightarrow> u32) \<Rightarrow> dpi_state \<Rightarrow> physical_id \<Rightarrow> dpi_state" where
  "overlay_physical_id crc st i = st\<lparr>dpi_preserved_tail := to_watermark_bytes crc i\<rparr>"

definition dpi_deserialize ::
  "profile_id \<Rightarrow> dpi_value list \<Rightarrow> stage_index \<Rightarrow> sensor_options \<Rightarrow> packet \<Rightarrow> dpi_state protocol_result" where
  "dpi_deserialize profile stages active_stage sensor preserved_tail =
     tryq (dpi_state_new profile stages active_stage preserved_tail)
       (\<lambda>st. Inr (with_sensor st sensor))"

section \<open>Framings\<close>

datatype dpi_framing = DpiCompact | DpiFull

definition dpi_transmitted_length :: "dpi_framing \<Rightarrow> usize" where
  "dpi_transmitted_length f = (case f of DpiCompact \<Rightarrow> DPI_WIRED_LENGTH | DpiFull \<Rightarrow> DPI_RECEIVER_LENGTH)"

definition dpi_supports_transport :: "dpi_framing \<Rightarrow> transport_kind \<Rightarrow> bool" where
  "dpi_supports_transport f transport =
     (case f of DpiCompact \<Rightarrow> True
      | DpiFull \<Rightarrow> (case transport of Wired \<Rightarrow> True | Receiver \<Rightarrow> True | Ble \<Rightarrow> False))"

definition dpi_valid_lengths :: "transport_kind \<Rightarrow> usize list" where
  "dpi_valid_lengths transport =
     (case transport of Ble \<Rightarrow> [DPI_WIRED_LENGTH]
      | Wired \<Rightarrow> [DPI_WIRED_LENGTH, DPI_RECEIVER_LENGTH]
      | Receiver \<Rightarrow> [DPI_WIRED_LENGTH, DPI_RECEIVER_LENGTH])"

definition dpi_expected_length_for_error :: "transport_kind \<Rightarrow> usize \<Rightarrow> usize" where
  "dpi_expected_length_for_error transport actual =
     (case transport of Ble \<Rightarrow> DPI_WIRED_LENGTH
      | _ \<Rightarrow> if actual \<le> DPI_WIRED_LENGTH then DPI_WIRED_LENGTH else DPI_RECEIVER_LENGTH)"

definition dpi_decode_framing :: "transport_kind \<Rightarrow> usize \<Rightarrow> dpi_framing protocol_result" where
  "dpi_decode_framing transport actual =
     (if actual = DPI_WIRED_LENGTH then Inr DpiCompact
      else if (transport = Wired \<or> transport = Receiver) \<and> actual = DPI_RECEIVER_LENGTH then Inr DpiFull
      else Inl (InvalidReportLength (dpi_expected_length_for_error transport actual) actual))"

section \<open>Encoding\<close>

record dpi_report =
  dpi_bytes :: packet
  dpi_length :: usize

definition dpi_as_bytes :: "dpi_report \<Rightarrow> packet" where
  "dpi_as_bytes r = take (dpi_length r) (dpi_bytes r)"

definition bool_byte :: "bool \<Rightarrow> u8" where
  "bool_byte b = (if b then 1 else 0)"

definition enabled_stage_mask_unchecked :: "usize \<Rightarrow> u8" where
  "enabled_stage_mask_unchecked stage_count =
     (if stage_count = 8 then 255 else push_bit stage_count 1 - 1)"

definition lift_off_byte :: "lift_off_distance \<Rightarrow> u8" where
  "lift_off_byte d = (case d of OneMillimeter \<Rightarrow> 0 | TwoMillimeters \<Rightarrow> 1)"

fun write_stages :: "nat \<Rightarrow> dpi_value list \<Rightarrow> packet \<Rightarrow> packet" where
  "write_stages index [] bytes = bytes"
| "write_stages index (dpi # dpis) bytes =
     (let raw = dpi_get dpi div 50 - 1;
          (low, high) = le_bytes16 raw
      in write_stages (Suc index) dpis (bytes[8 + index := low, 16 + index := high]))"

definition dpi_image :: "dpi_state \<Rightarrow> packet" where
  "dpi_image st =
     (let bytes = replicate DPI_RECEIVER_LENGTH 0;
          bytes = bytes[0 := DPI_REPORT_ID];
          bytes = bytes[1 := DPI_DECLARED_LENGTH];
          bytes = bytes[2 := profile_get (dpi_profile st)];
          bytes = bytes[3 := lift_off_byte (lift_off_distance (dpi_sensor st))];
          bytes = bytes[4 := bool_byte (ripple_control (dpi_sensor st))];
          bytes = bytes[5 := enabled_stage_mask_unchecked (length (dpi_stages st))];
          bytes = bytes[6 := bool_byte (angle_snap (dpi_sensor st))];
          bytes = bytes[7 := bool_byte (motion_sync (dpi_sensor st))];
          bytes = write_stages 0 (dpi_stages st) bytes;
          bytes = bytes[24 := stage_get (dpi_active_stage st)];
          bytes = write_at FIXED_TAIL_START (dpi_preserved_tail st) bytes;
          checksum = sum16 (slice 3 DPI_CHECKSUM_OFFSET bytes)
      in write_at DPI_CHECKSUM_OFFSET (be_bytes16 checksum) bytes)"

definition dpi_encode_framed :: "dpi_state \<Rightarrow> dpi_framing \<Rightarrow> dpi_report protocol_result" where
  "dpi_encode_framed st framing =
     tryq (validate_stage_selection (length (dpi_stages st)) (dpi_active_stage st)) (\<lambda>_.
       Inr \<lparr>dpi_bytes = dpi_image st, dpi_length = dpi_transmitted_length framing\<rparr>)"

definition dpi_encode :: "dpi_state \<Rightarrow> transport_kind \<Rightarrow> dpi_report protocol_result" where
  "dpi_encode st transport = dpi_encode_framed st DpiCompact"

definition dpi_encode_framed_for_transport ::
  "dpi_state \<Rightarrow> transport_kind \<Rightarrow> dpi_framing \<Rightarrow> dpi_report protocol_result" where
  "dpi_encode_framed_for_transport st transport framing =
     (if \<not> dpi_supports_transport framing transport
      then Inl (InvalidReportLength (dpi_transmitted_length DpiCompact) (dpi_transmitted_length framing))
      else dpi_encode_framed st framing)"

section \<open>Decoding\<close>

record decoded_dpi_report =
  decoded_dpi_state :: dpi_state
  decoded_dpi_transport :: transport_kind
  decoded_dpi_framing :: dpi_framing

definition count_ones :: "u8 \<Rightarrow> nat" where
  "count_ones m = length (filter (bit m) [0..<8])"

definition decode_stage_count :: "u8 \<Rightarrow> usize protocol_result" where
  "decode_stage_count m =
     (let count = count_ones m
      in if count = 0 \<or> enabled_stage_mask_unchecked count \<noteq> m
         then Inl (InvalidStageMask m) else Inr count)"

definition decode_toggle :: "string \<Rightarrow> u8 \<Rightarrow> bool protocol_result" where
  "decode_toggle field val =
     (if val = 0 then Inr False else if val = 1 then Inr True
      else Inl (InvalidSensorValue field val))"

definition decode_lift_off :: "u8 \<Rightarrow> lift_off_distance protocol_result" where
  "decode_lift_off val =
     (if val = 0 then Inr OneMillimeter else if val = 1 then Inr TwoMillimeters
      else Inl (InvalidSensorValue ''lift_off_distance'' val))"

definition raw_stage :: "packet \<Rightarrow> nat \<Rightarrow> u16" where
  "raw_stage packet index = ucast (packet ! (8 + index)) OR push_bit 8 (ucast (packet ! (16 + index)))"

fun decode_stages ::
  "packet \<Rightarrow> usize \<Rightarrow> nat list \<Rightarrow> dpi_value list \<Rightarrow> dpi_value list protocol_result" where
  "decode_stages packet stage_count [] stages = Inr stages"
| "decode_stages packet stage_count (index # indices) stages =
     (let raw = raw_stage packet index
      in if index \<ge> stage_count
         then if raw \<noteq> 0 then Inl (InvalidStageValue (index + 1) raw)
              else decode_stages packet stage_count indices stages
         else if raw > 519 then Inl (InvalidStageValue (index + 1) raw)
         else tryq (dpi_try_from ((raw + 1) * 50)) (\<lambda>d.
                decode_stages packet stage_count indices (stages @ [d])))"

definition dpi_decode ::
  "packet \<Rightarrow> transport_kind \<Rightarrow> profile_id \<Rightarrow> decoded_dpi_report protocol_result" where
  "dpi_decode packet transport expected_profile =
     tryq (dpi_decode_framing transport (length packet)) (\<lambda>framing.
     if packet ! 0 \<noteq> DPI_REPORT_ID then Inl (UnexpectedReportId DPI_REPORT_ID (packet ! 0))
     else let expected_declared_length =
                (case transport of Receiver \<Rightarrow> DPI_RECEIVER_DECLARED_LENGTH | _ \<Rightarrow> DPI_DECLARED_LENGTH)
     in if \<not> (packet ! 1 = expected_declared_length
              \<or> (transport = Receiver \<and> packet ! 1 = DPI_DECLARED_LENGTH))
        then Inl (UnexpectedDeclaredLength expected_declared_length (packet ! 1))
     else if packet ! 2 \<noteq> profile_get expected_profile
        then Inl (ProfileMismatch (profile_get expected_profile) (packet ! 2))
     else tryq (if framing = DpiFull
                then validate_fixed_range packet DPI_WIRED_LENGTH DPI_RECEIVER_LENGTH 0
                else Inr ()) (\<lambda>_.
     let actual_checksum = from_be16 (packet ! DPI_CHECKSUM_OFFSET) (packet ! (DPI_CHECKSUM_OFFSET + 1));
         expected_checksum = sum16 (slice 3 DPI_CHECKSUM_OFFSET packet)
     in if actual_checksum \<noteq> expected_checksum
        then Inl (ChecksumMismatch expected_checksum actual_checksum)
     else tryq (decode_lift_off (packet ! 3)) (\<lambda>lift_off.
     tryq (decode_toggle ''ripple_control'' (packet ! 4)) (\<lambda>ripple.
     tryq (decode_toggle ''angle_snap'' (packet ! 6)) (\<lambda>snap.
     tryq (decode_toggle ''motion_sync'' (packet ! 7)) (\<lambda>sync.
     tryq (decode_stage_count (packet ! 5)) (\<lambda>stage_count.
     tryq (decode_stages packet stage_count [0..<8] []) (\<lambda>stages.
     tryq (stage_try_from (packet ! 24)) (\<lambda>active_stage.
     tryq (validate_stage_selection (length stages) active_stage) (\<lambda>_.
       Inr \<lparr>decoded_dpi_state =
              \<lparr>dpi_profile = expected_profile, dpi_stages = stages, dpi_active_stage = active_stage,
               dpi_sensor = \<lparr>lift_off_distance = lift_off, ripple_control = ripple,
                 angle_snap = snap, motion_sync = sync\<rparr>,
               dpi_preserved_tail = slice FIXED_TAIL_START DPI_CHECKSUM_OFFSET packet\<rparr>,
            decoded_dpi_transport = transport,
            decoded_dpi_framing = framing\<rparr>))))))))))"

section \<open>Well-formed states\<close>

text \<open>
  \<open>typed_dpi_state\<close> is what the Rust types guarantee of any \<^verbatim>\<open>DpiState\<close> (its fields are
  public, so the stage selection is not among it); \<open>wf_dpi_state\<close> adds the checked selection.
\<close>

definition typed_dpi_state :: "dpi_state \<Rightarrow> bool" where
  "typed_dpi_state st \<longleftrightarrow> wf_profile (dpi_profile st) \<and> (\<forall>d \<in> set (dpi_stages st). wf_dpi_value d)
     \<and> wf_stage (dpi_active_stage st) \<and> length (dpi_preserved_tail st) = 25"

definition valid_selection :: "dpi_state \<Rightarrow> bool" where
  "valid_selection st \<longleftrightarrow> 1 \<le> length (dpi_stages st) \<and> length (dpi_stages st) \<le> 8
     \<and> unat (stage_get (dpi_active_stage st)) \<le> length (dpi_stages st)"

definition wf_dpi_state :: "dpi_state \<Rightarrow> bool" where
  "wf_dpi_state st \<longleftrightarrow> typed_dpi_state st \<and> valid_selection st"

lemma validate_stage_selection_eq_Inr [simp]:
  "validate_stage_selection n a = Inr u \<longleftrightarrow> 1 \<le> n \<and> n \<le> 8 \<and> unat (stage_get a) \<le> n"
  by (auto simp: validate_stage_selection_def)

lemma valid_selection_iff:
  "valid_selection st \<longleftrightarrow> validate_stage_selection (length (dpi_stages st)) (dpi_active_stage st) = Inr ()"
  by (simp add: valid_selection_def)

section \<open>Stage masks and stage values\<close>

lemma count_ones_le: "count_ones m \<le> 8"
  unfolding count_ones_def by (rule order_trans [OF length_filter_le]) simp

lemma nat_1_to_8: "1 \<le> n \<Longrightarrow> n \<le> 8 \<Longrightarrow> n \<in> {1, 2, 3, 4, 5, 6, 7, 8 :: nat}"
  unfolding insert_iff empty_iff by presburger

lemma count_ones_enabled_stage_mask:
  assumes "1 \<le> n" and "n \<le> 8"
  shows "count_ones (enabled_stage_mask_unchecked n) = n"
  using nat_1_to_8 [OF assms]
  by (elim insertE emptyE; hypsubst; code_simp)

lemma decode_stage_count_eq_Inr [simp]:
  "decode_stage_count m = Inr c \<longleftrightarrow> 1 \<le> c \<and> c \<le> 8 \<and> m = enabled_stage_mask_unchecked c"
proof
  assume "decode_stage_count m = Inr c"
  then have "c = count_ones m" and "c \<noteq> 0" and "enabled_stage_mask_unchecked c = m"
    by (auto simp: decode_stage_count_def Let_def split: if_splits)
  then show "1 \<le> c \<and> c \<le> 8 \<and> m = enabled_stage_mask_unchecked c"
    using count_ones_le [of m] by simp
next
  assume "1 \<le> c \<and> c \<le> 8 \<and> m = enabled_stage_mask_unchecked c"
  then show "decode_stage_count m = Inr c"
    by (simp add: decode_stage_count_def count_ones_enabled_stage_mask)
qed

definition stage_raw :: "dpi_value \<Rightarrow> u16" where
  "stage_raw d = dpi_get d div 50 - 1"

lemma unat_stage_raw:
  assumes "wf_dpi_value d"
  shows "unat (stage_raw d) = unat (dpi_get d) div 50 - 1"
proof -
  have u: "unat (dpi_get d div 50) = unat (dpi_get d) div 50"
    by (simp add: unat_div)
  moreover have "1 \<le> dpi_get d div 50"
    unfolding word_le_nat_alt u using assms by (auto simp: wf_dpi_value_def)
  ultimately show ?thesis
    by (simp add: stage_raw_def unat_sub)
qed

lemma stage_raw_le: "wf_dpi_value d \<Longrightarrow> stage_raw d \<le> 519"
  by (auto simp: word_le_nat_alt unat_stage_raw wf_dpi_value_def)

lemma unat_stage_value:
  assumes "raw \<le> (519 :: u16)"
  shows "unat ((raw + 1) * 50) = (unat raw + 1) * 50"
proof -
  have "unat raw \<le> 519" using assms by (simp add: word_le_nat_alt)
  then show ?thesis by (simp add: unat_word_ariths)
qed

lemma wf_stage_value: "raw \<le> (519 :: u16) \<Longrightarrow> wf_dpi_value (DpiValue ((raw + 1) * 50))"
  unfolding wf_dpi_value_def dpi_value.sel unat_stage_value by (simp add: word_le_nat_alt)

lemma stage_value_of_raw:
  assumes "wf_dpi_value d"
  shows "DpiValue ((stage_raw d + 1) * 50) = d"
proof -
  have "unat ((stage_raw d + 1) * 50) = unat (dpi_get d)"
    unfolding unat_stage_value [OF stage_raw_le [OF assms]] unat_stage_raw [OF assms]
    using assms by (auto simp: wf_dpi_value_def)
  then show ?thesis by (cases d) (simp add: word_unat_eq_iff)
qed

lemma stage_raw_of_value:
  assumes "raw \<le> (519 :: u16)"
  shows "stage_raw (DpiValue ((raw + 1) * 50)) = raw"
  using unat_stage_raw [OF wf_stage_value [OF assms]] unat_stage_value [OF assms]
  by (simp add: word_unat_eq_iff)

text \<open>The stage loop of the decoder, at any point of its index list.\<close>

lemma decode_stages_eq_Inr:
  "decode_stages p n is acc = Inr ds \<longleftrightarrow>
     (\<forall>i \<in> set is. if i < n then raw_stage p i \<le> 519 else raw_stage p i = 0)
     \<and> ds = acc @ map (\<lambda>i. DpiValue ((raw_stage p i + 1) * 50)) (filter (\<lambda>i. i < n) is)"
proof (induction "is" arbitrary: acc)
  case Nil
  show ?case by auto
next
  case (Cons i "is")
  then show ?case
    by (cases "i < n"; cases "raw_stage p i \<le> 519")
       (auto simp: Let_def wf_stage_value [simplified] not_less not_le)
qed

lemma filter_upt_less: "n \<le> m \<Longrightarrow> filter (\<lambda>i. i < n) [0..<m] = [0..<n]"
  by (induction m) (auto simp: le_Suc_eq filter_empty_conv split: if_splits)

lemma decode_stages_all_eq_Inr:
  assumes "n \<le> 8"
  shows "decode_stages p n [0..<8] [] = Inr ds \<longleftrightarrow>
     (\<forall>i < 8. if i < n then raw_stage p i \<le> 519 else raw_stage p i = 0)
     \<and> ds = map (\<lambda>i. DpiValue ((raw_stage p i + 1) * 50)) [0..<n]"
  using assms by (auto simp: decode_stages_eq_Inr filter_upt_less)

section \<open>The image, byte by byte\<close>

lemma length_write_stages [simp]: "length (write_stages index ds bs) = length bs"
  by (induction index ds bs rule: write_stages.induct) (simp_all add: Let_def le_bytes16_def)

lemma nth_write_stages:
  assumes "index + length ds \<le> 8" and "24 \<le> length bs"
  shows "write_stages index ds bs ! k =
    (if 8 + index \<le> k \<and> k < 8 + index + length ds then ucast (stage_raw (ds ! (k - 8 - index)))
     else if 16 + index \<le> k \<and> k < 16 + index + length ds
       then ucast (drop_bit 8 (stage_raw (ds ! (k - 16 - index))))
     else bs ! k)"
  using assms
proof (induction ds arbitrary: index bs)
  case Nil
  show ?case by auto
next
  case (Cons d ds)
  let ?bs = "bs[8 + index := ucast (stage_raw d), 16 + index := ucast (drop_bit 8 (stage_raw d))]"
  have step: "write_stages index (d # ds) bs = write_stages (Suc index) ds ?bs"
    by (simp add: le_bytes16_def stage_raw_def Let_def)
  have pre: "Suc index + length ds \<le> 8" "24 \<le> length ?bs"
    using Cons.prems by simp_all
  consider "k = 8 + index" | "k = 16 + index" | "k \<noteq> 8 + index" "k \<noteq> 16 + index"
    by blast
  then show ?case
  proof cases
    case 1
    then show ?thesis
      unfolding step Cons.IH [OF pre] using Cons.prems by simp
  next
    case 2
    then show ?thesis
      unfolding step Cons.IH [OF pre] using Cons.prems by simp
  next
    case 3
    then show ?thesis
      unfolding step Cons.IH [OF pre] using Cons.prems
      by (auto simp: nth_Cons' le_Suc_eq Suc_le_eq diff_diff_left add.commute)
  qed
qed

definition dpi_header :: "dpi_state \<Rightarrow> packet" where
  "dpi_header st = [0x04, 0x38, profile_get (dpi_profile st),
     lift_off_byte (lift_off_distance (dpi_sensor st)), bool_byte (ripple_control (dpi_sensor st)),
     enabled_stage_mask_unchecked (length (dpi_stages st)),
     bool_byte (angle_snap (dpi_sensor st)), bool_byte (motion_sync (dpi_sensor st))]"

text \<open>The array just before the checksum is written.\<close>

definition dpi_body :: "dpi_state \<Rightarrow> packet" where
  "dpi_body st = write_at 25 (dpi_preserved_tail st)
     ((write_stages 0 (dpi_stages st) (dpi_header st @ replicate 48 0))
        [24 := stage_get (dpi_active_stage st)])"

lemma dpi_image_body:
  "dpi_image st = write_at 50 (be_bytes16 (sum16 (slice 3 50 (dpi_body st)))) (dpi_body st)"
proof -
  have "replicate 56 (0 :: u8) = [0, 0, 0, 0, 0, 0, 0, 0] @ replicate 48 0"
    by (simp add: numeral_eq_Suc)
  then show ?thesis
    by (simp add: dpi_image_def dpi_body_def dpi_header_def dpi_consts Let_def)
qed

lemma length_dpi_body [simp]: "length (dpi_preserved_tail st) = 25 \<Longrightarrow> length (dpi_body st) = 56"
  by (simp add: dpi_body_def dpi_header_def)

lemma length_dpi_image [simp]: "length (dpi_preserved_tail st) = 25 \<Longrightarrow> length (dpi_image st) = 56"
  by (simp add: dpi_image_body)

lemma nth_dpi_body:
  assumes "typed_dpi_state st" and "valid_selection st" and "k < 56"
  shows "dpi_body st ! k =
    (if k < 8 then dpi_header st ! k
     else if k < 8 + length (dpi_stages st) then ucast (stage_raw (dpi_stages st ! (k - 8)))
     else if 16 \<le> k \<and> k < 16 + length (dpi_stages st)
       then ucast (drop_bit 8 (stage_raw (dpi_stages st ! (k - 16))))
     else if k = 24 then stage_get (dpi_active_stage st)
     else if 25 \<le> k \<and> k < 50 then dpi_preserved_tail st ! (k - 25)
     else 0)"
proof -
  have len: "length (dpi_preserved_tail st) = 25" "length (dpi_stages st) \<le> 8"
    using assms by (auto simp: typed_dpi_state_def valid_selection_def)
  have h: "length (dpi_header st) = 8"
    by (simp add: dpi_header_def)
  show ?thesis
    using assms(3) len
    by (auto simp: dpi_body_def nth_write_at nth_list_update nth_write_stages h nth_append)
qed

lemma nth_dpi_image:
  assumes "typed_dpi_state st" and "k < 50"
  shows "dpi_image st ! k = dpi_body st ! k"
  using assms by (simp add: dpi_image_body nth_write_at typed_dpi_state_def)

lemma nth_dpi_image_padding:
  assumes "typed_dpi_state st" and "valid_selection st" and "52 \<le> k" and "k < 56"
  shows "dpi_image st ! k = 0"
proof -
  have "dpi_image st ! k = dpi_body st ! k"
    using assms by (simp add: dpi_image_body nth_write_at typed_dpi_state_def)
  also have "\<dots> = 0"
    using assms by (simp add: nth_dpi_body valid_selection_def)
  finally show ?thesis .
qed

lemma dpi_image_checksum:
  assumes "typed_dpi_state st"
  shows "from_be16 (dpi_image st ! 50) (dpi_image st ! 51) = sum16 (slice 3 50 (dpi_image st))"
proof -
  have len: "length (dpi_body st) = 56"
    using assms by (simp add: typed_dpi_state_def)
  then have "slice 3 50 (dpi_image st) = slice 3 50 (dpi_body st)"
    unfolding dpi_image_body by (intro slice_write_at_before) simp_all
  with len show ?thesis
    by (simp add: dpi_image_body nth_write_at)
qed

lemma raw_stage_dpi_image:
  assumes "typed_dpi_state st" and "valid_selection st" and "i < 8"
  shows "raw_stage (dpi_image st) i =
    (if i < length (dpi_stages st) then stage_raw (dpi_stages st ! i) else 0)"
proof -
  have "length (dpi_stages st) \<le> 8"
    using assms(2) by (simp add: valid_selection_def)
  then show ?thesis
    using assms from_le16_parts [of "stage_raw (dpi_stages st ! i)"]
    by (auto simp: raw_stage_def nth_dpi_image nth_dpi_body from_le16_def or.commute)
qed

section \<open>Encode and decode\<close>

lemma dpi_encode_framed_eq_Inr [simp]:
  "dpi_encode_framed st f = Inr r \<longleftrightarrow>
     valid_selection st \<and> r = \<lparr>dpi_bytes = dpi_image st, dpi_length = dpi_transmitted_length f\<rparr>"
  by (auto simp: dpi_encode_framed_def valid_selection_def)

lemma dpi_transmitted_length_simps [simp]:
  "dpi_transmitted_length DpiCompact = 52"
  "dpi_transmitted_length DpiFull = 56"
  by (simp_all add: dpi_transmitted_length_def dpi_consts)

lemma bool_byte_inject [simp]: "bool_byte a = bool_byte b \<longleftrightarrow> a = b"
  by (simp add: bool_byte_def)

lemma lift_off_byte_inject [simp]: "lift_off_byte a = lift_off_byte b \<longleftrightarrow> a = b"
  by (cases a; cases b) (simp_all add: lift_off_byte_def)

lemma dpi_transmitted_length_inject [simp]:
  "dpi_transmitted_length f = dpi_transmitted_length g \<longleftrightarrow> f = g"
  by (cases f; cases g) simp_all

lemma decode_toggle_eq_Inr [simp]: "decode_toggle f v = Inr b \<longleftrightarrow> v = bool_byte b"
  by (auto simp: decode_toggle_def bool_byte_def)

lemma decode_lift_off_eq_Inr [simp]: "decode_lift_off v = Inr d \<longleftrightarrow> v = lift_off_byte d"
  by (cases d) (auto simp: decode_lift_off_def lift_off_byte_def)

lemma dpi_decode_framing_eq_Inr [simp]:
  "dpi_decode_framing t n = Inr f \<longleftrightarrow> n = dpi_transmitted_length f \<and> dpi_supports_transport f t"
  by (cases f; cases t) (auto simp: dpi_decode_framing_def dpi_supports_transport_def dpi_consts)

definition dpi_declared_ok :: "transport_kind \<Rightarrow> u8 \<Rightarrow> bool" where
  "dpi_declared_ok t b \<longleftrightarrow> b = 0x38 \<or> t = Receiver \<and> b = 0x3a"

lemma dpi_declared_ok_iff:
  "(b = (case t of Receiver \<Rightarrow> DPI_RECEIVER_DECLARED_LENGTH | _ \<Rightarrow> DPI_DECLARED_LENGTH)
     \<or> t = Receiver \<and> b = DPI_DECLARED_LENGTH) \<longleftrightarrow> dpi_declared_ok t b"
  by (cases t) (auto simp: dpi_declared_ok_def dpi_consts)

text \<open>What acceptance means, as one conjunction over the bytes of the packet.\<close>

definition dpi_accepts :: "packet \<Rightarrow> transport_kind \<Rightarrow> profile_id \<Rightarrow> decoded_dpi_report \<Rightarrow> bool" where
  "dpi_accepts p t e d \<longleftrightarrow>
     (let st = decoded_dpi_state d; f = decoded_dpi_framing d; n = length (dpi_stages st)
      in length p = dpi_transmitted_length f \<and> dpi_supports_transport f t
       \<and> decoded_dpi_transport d = t \<and> dpi_profile st = e
       \<and> p ! 0 = 0x04 \<and> dpi_declared_ok t (p ! 1) \<and> p ! 2 = profile_get e
       \<and> (f = DpiFull \<longrightarrow> (\<forall>i. 52 \<le> i \<and> i < 56 \<longrightarrow> p ! i = 0))
       \<and> from_be16 (p ! 50) (p ! 51) = sum16 (slice 3 50 p)
       \<and> p ! 3 = lift_off_byte (lift_off_distance (dpi_sensor st))
       \<and> p ! 4 = bool_byte (ripple_control (dpi_sensor st))
       \<and> p ! 5 = enabled_stage_mask_unchecked n
       \<and> p ! 6 = bool_byte (angle_snap (dpi_sensor st))
       \<and> p ! 7 = bool_byte (motion_sync (dpi_sensor st))
       \<and> (\<forall>i < 8. if i < n then raw_stage p i \<le> 519 else raw_stage p i = 0)
       \<and> dpi_stages st = map (\<lambda>i. DpiValue ((raw_stage p i + 1) * 50)) [0..<n]
       \<and> 1 \<le> n \<and> n \<le> 8
       \<and> p ! 24 = stage_get (dpi_active_stage st) \<and> wf_stage (dpi_active_stage st)
       \<and> unat (stage_get (dpi_active_stage st)) \<le> n
       \<and> dpi_preserved_tail st = slice 25 50 p)"

lemma dpi_decode_eq_Inr: "dpi_decode p t e = Inr d \<longleftrightarrow> dpi_accepts p t e d"
proof -
  obtain st f tr where d: "d = \<lparr>decoded_dpi_state = st, decoded_dpi_transport = tr, decoded_dpi_framing = f\<rparr>"
    by (cases d) simp
  obtain pr ds a se ta where st: "st = \<lparr>dpi_profile = pr, dpi_stages = ds, dpi_active_stage = a,
      dpi_sensor = se, dpi_preserved_tail = ta\<rparr>"
    by (cases st) simp
  obtain lo ri an mo where se: "se = \<lparr>lift_off_distance = lo, ripple_control = ri, angle_snap = an, motion_sync = mo\<rparr>"
    by (cases se) simp
  show ?thesis
    unfolding dpi_decode_def Let_def dpi_declared_ok_iff dpi_accepts_def d st se
    by (rule iffI; clarsimp simp: dpi_consts decode_stages_all_eq_Inr cong: conj_cong)
       (rule exI [of _ "length ds"], auto)
qed

lemma slice_take: "j \<le> n \<Longrightarrow> slice i j (take n xs) = slice i j xs"
  by (simp add: slice_def drop_take min_def)

lemma stage_list_of_raws:
  assumes "\<forall>d \<in> set ds. wf_dpi_value d" and "\<And>i. i < length ds \<Longrightarrow> raw_stage p i = stage_raw (ds ! i)"
  shows "map (\<lambda>i. DpiValue ((raw_stage p i + 1) * 50)) [0..<length ds] = ds"
proof (rule nth_equalityI)
  fix i
  assume "i < length (map (\<lambda>i. DpiValue ((raw_stage p i + 1) * 50)) [0..<length ds])"
  then have i: "i < length ds" by simp
  then show "map (\<lambda>i. DpiValue ((raw_stage p i + 1) * 50)) [0..<length ds] ! i = ds ! i"
    using assms stage_value_of_raw [of "ds ! i"] by (simp del: distrib_right_numeral)
qed simp

lemma dpi_accepts_image:
  assumes typed: "typed_dpi_state st" and sel: "valid_selection st" and sup: "dpi_supports_transport f t"
  shows "dpi_accepts (take (dpi_transmitted_length f) (dpi_image st)) t (dpi_profile st)
    \<lparr>decoded_dpi_state = st, decoded_dpi_transport = t, decoded_dpi_framing = f\<rparr>"
proof -
  let ?L = "dpi_transmitted_length f"
  let ?p = "take ?L (dpi_image st)"
  have L: "52 \<le> ?L" "?L \<le> 56"
    by (cases f; simp)+
  have len: "length (dpi_image st) = 56"
    using typed by (simp add: typed_dpi_state_def)
  have nth: "?p ! k = dpi_image st ! k" if "k < 52" for k
    using that L by simp
  have raw: "raw_stage ?p i = (if i < length (dpi_stages st) then stage_raw (dpi_stages st ! i) else 0)"
    if "i < 8" for i
    using that raw_stage_dpi_image [OF typed sel that] by (simp add: raw_stage_def nth)
  have n: "1 \<le> length (dpi_stages st)" "length (dpi_stages st) \<le> 8"
    using sel by (auto simp: valid_selection_def)
  have pad: "f = DpiFull \<Longrightarrow> 52 \<le> i \<Longrightarrow> i < 56 \<Longrightarrow> ?p ! i = 0" for i
    using nth_dpi_image_padding [OF typed sel] by simp
  have stages: "map (\<lambda>i. DpiValue ((raw_stage ?p i + 1) * 50)) [0..<length (dpi_stages st)] = dpi_stages st"
    using typed n raw by (intro stage_list_of_raws) (auto simp: typed_dpi_state_def)
  have stage_ok: "raw_stage ?p i \<le> 519" if "i < length (dpi_stages st)" for i
    using that n raw typed by (auto simp: typed_dpi_state_def stage_raw_le)
  have hdr: "?p ! k = dpi_header st ! k" if "k < 8" for k
    using that by (simp add: nth nth_dpi_image nth_dpi_body typed sel)
  have tail: "slice 25 50 ?p = dpi_preserved_tail st"
  proof (rule nth_equalityI)
    fix k
    assume "k < length (slice 25 50 ?p)"
    then have "k < 25" by simp
    then show "slice 25 50 ?p ! k = dpi_preserved_tail st ! k"
      using len L n by (simp add: nth nth_dpi_image nth_dpi_body typed sel)
  qed (use len L typed in \<open>simp add: typed_dpi_state_def\<close>)
  have sum: "from_be16 (?p ! 50) (?p ! 51) = sum16 (slice 3 50 ?p)"
    using dpi_image_checksum [OF typed] L by (simp add: slice_take)
  have active: "?p ! 24 = stage_get (dpi_active_stage st)"
    using n by (simp add: nth nth_dpi_image nth_dpi_body typed sel)
  have h0: "?p ! 0 = 0x04" "?p ! 1 = 0x38" "?p ! 2 = profile_get (dpi_profile st)"
    "?p ! 3 = lift_off_byte (lift_off_distance (dpi_sensor st))"
    "?p ! 4 = bool_byte (ripple_control (dpi_sensor st))"
    "?p ! 5 = enabled_stage_mask_unchecked (length (dpi_stages st))"
    "?p ! 6 = bool_byte (angle_snap (dpi_sensor st))" "?p ! 7 = bool_byte (motion_sync (dpi_sensor st))"
    by (simp_all add: hdr [of 0] hdr [of "Suc 0"] hdr [of 2] hdr [of 3] hdr [of 4] hdr [of 5] hdr [of 6]
        hdr [of 7] dpi_header_def del: nth_take)
  show ?thesis
    unfolding dpi_accepts_def Let_def
    using L len sup pad h0 sum active tail stages stage_ok raw n typed sel
    by (simp add: dpi_declared_ok_def typed_dpi_state_def valid_selection_def
        del: nth_take distrib_right_numeral)
qed

lemma dpi_accepts_wf:
  assumes "dpi_accepts p t e d" and "wf_profile e"
  shows "wf_dpi_state (decoded_dpi_state d)"
proof -
  let ?st = "decoded_dpi_state d"
  let ?n = "length (dpi_stages ?st)"
  have L: "52 \<le> length p"
    using assms(1) by (cases "decoded_dpi_framing d") (auto simp: dpi_accepts_def Let_def)
  have "\<forall>d \<in> set (dpi_stages ?st). wf_dpi_value d"
  proof
    fix v
    assume "v \<in> set (dpi_stages ?st)"
    moreover have "dpi_stages ?st = map (\<lambda>i. DpiValue ((raw_stage p i + 1) * 50)) [0..<?n]"
      using assms(1) by (simp add: dpi_accepts_def Let_def)
    ultimately obtain i where "i < ?n" "v = DpiValue ((raw_stage p i + 1) * 50)"
      by (metis (no_types, lifting) atLeastLessThan_iff imageE list.set_map set_upt)
    moreover from this have "raw_stage p i \<le> 519"
      using assms(1) by (auto simp: dpi_accepts_def Let_def)
    ultimately show "wf_dpi_value v"
      using wf_stage_value by blast
  qed
  with assms L show ?thesis
    by (auto simp: dpi_accepts_def Let_def wf_dpi_state_def typed_dpi_state_def valid_selection_def)
qed

text \<open>Nothing of an accepted packet is lost: encoding the decoded state gives it back, with the
  canonical declared length in byte 1.\<close>

lemma raw_stage_bytes:
  "p ! (8 + i) = ucast (raw_stage p i)"
  "p ! (16 + i) = ucast (drop_bit 8 (raw_stage p i))"
  by (rule bit_word_eqI; auto simp: raw_stage_def bit_simps)+

lemma dpi_accepts_raw:
  assumes acc: "dpi_accepts p t e d" and i: "i < 8"
  shows "raw_stage p i =
    (if i < length (dpi_stages (decoded_dpi_state d)) then stage_raw (dpi_stages (decoded_dpi_state d) ! i) else 0)"
proof (cases "i < length (dpi_stages (decoded_dpi_state d))")
  case True
  let ?ds = "dpi_stages (decoded_dpi_state d)"
  have "?ds = map (\<lambda>i. DpiValue ((raw_stage p i + 1) * 50)) [0..<length ?ds]" and "raw_stage p i \<le> 519"
    using acc True i by (auto simp: dpi_accepts_def Let_def)
  from arg_cong [OF this(1), of "\<lambda>xs. xs ! i"] this(2) True
  have "stage_raw (?ds ! i) = raw_stage p i"
    by (simp add: stage_raw_of_value del: distrib_right_numeral)
  with True show ?thesis by simp
next
  case False
  with acc i show ?thesis
    by (auto simp: dpi_accepts_def Let_def)
qed

lemma dpi_accepts_length:
  assumes "dpi_accepts p t e d"
  shows "length p = dpi_transmitted_length (decoded_dpi_framing d)" "52 \<le> length p" "length p \<le> 56"
  using assms by (cases "decoded_dpi_framing d"; simp add: dpi_accepts_def Let_def)+

lemma dpi_accepts_body:
  assumes acc: "dpi_accepts p t e d" and e: "wf_profile e" and k: "k < 50"
  shows "dpi_body (decoded_dpi_state d) ! k = p[1 := 0x38] ! k"
proof -
  let ?n = "length (dpi_stages (decoded_dpi_state d))"
  have typed: "typed_dpi_state (decoded_dpi_state d)" and sel: "valid_selection (decoded_dpi_state d)"
    using dpi_accepts_wf [OF acc e] by (simp_all add: wf_dpi_state_def)
  note nth = nth_dpi_body [OF typed sel]
  have n: "1 \<le> ?n" "?n \<le> 8"
    using sel by (auto simp: valid_selection_def)
  note len = dpi_accepts_length [OF acc]
  consider "k < 8" | "8 \<le> k \<and> k < 16" | "16 \<le> k \<and> k < 24" | "k = 24" | "25 \<le> k"
    by fastforce
  then show ?thesis
  proof cases
    case 1
    then have "k \<in> {0, 1, 2, 3, 4, 5, 6, 7}"
      unfolding insert_iff empty_iff by presburger
    then show ?thesis
      using acc len by (elim insertE emptyE) (simp_all add: nth dpi_header_def dpi_accepts_def Let_def)
  next
    case 2
    then show ?thesis
      using raw_stage_bytes(1) [of p "k - 8"] dpi_accepts_raw [OF acc, of "k - 8"] n
      by (auto simp: nth)
  next
    case 3
    then show ?thesis
      using raw_stage_bytes(2) [of p "k - 16"] dpi_accepts_raw [OF acc, of "k - 16"] n
      by (auto simp: nth)
  next
    case 4
    then show ?thesis
      using acc n by (simp add: nth dpi_accepts_def Let_def)
  next
    case 5
    then show ?thesis
      using acc n len k by (simp add: nth dpi_accepts_def Let_def)
  qed
qed

lemma dpi_accepts_image_back:
  assumes acc: "dpi_accepts p t e d" and e: "wf_profile e"
  shows "take (dpi_transmitted_length (decoded_dpi_framing d)) (dpi_image (decoded_dpi_state d))
    = p[1 := 0x38]"
proof (rule nth_equalityI)
  let ?st = "decoded_dpi_state d"
  let ?L = "dpi_transmitted_length (decoded_dpi_framing d)"
  have typed: "typed_dpi_state ?st" and sel: "valid_selection ?st"
    using dpi_accepts_wf [OF acc e] by (simp_all add: wf_dpi_state_def)
  have len: "length (dpi_image ?st) = 56" "length p = ?L" "52 \<le> ?L" "?L \<le> 56"
    using dpi_accepts_length [OF acc] typed by (auto simp: typed_dpi_state_def)
  show "length (take ?L (dpi_image ?st)) = length (p[1 := 0x38])"
    using len by simp
  have "sum16 (slice 3 50 (dpi_body ?st)) = sum16 (slice 3 50 p)"
    using len dpi_accepts_body [OF acc e] typed
    by (intro arg_cong [where f = sum16] slice_eqI) (auto simp: typed_dpi_state_def)
  then have chk: "be_bytes16 (sum16 (slice 3 50 (dpi_body ?st))) = [p ! 50, p ! 51]"
    using acc by (simp add: dpi_accepts_def Let_def flip: be_bytes16_from_be16)
  fix k
  assume "k < length (take ?L (dpi_image ?st))"
  then have k: "k < ?L" "k < 56"
    using len by simp_all
  consider "k < 50" | "k = 50" | "k = 51" | "52 \<le> k"
    by linarith
  then show "take ?L (dpi_image ?st) ! k = p[1 := 0x38] ! k"
  proof cases
    case 1
    then show ?thesis
      using dpi_accepts_body [OF acc e] k by (simp add: nth_dpi_image typed)
  next
    case 4
    then have "decoded_dpi_framing d = DpiFull"
      using k by (cases "decoded_dpi_framing d") simp_all
    then show ?thesis
      using acc k 4 by (simp add: nth_dpi_image_padding typed sel dpi_accepts_def Let_def)
  qed (use k typed in \<open>simp_all add: dpi_image_body chk nth_write_at typed_dpi_state_def\<close>)
qed

section \<open>The codec contract\<close>

lemma dpi_accepts_declared:
  assumes "dpi_accepts p t e d" and "dpi_declared_ok t x"
  shows "dpi_accepts (p[1 := x]) t e d"
proof -
  have L: "52 \<le> length p" by (rule dpi_accepts_length(2) [OF assms(1)])
  have s: "slice i j (p[Suc 0 := x]) = slice i j p" if "2 \<le> i" for i j
    using that by (simp add: slice_def drop_update_cancel)
  have r: "raw_stage (p[Suc 0 := x]) i = raw_stage p i" if "i < 8" for i
    by (simp add: raw_stage_def)
  have m: "map (\<lambda>i. DpiValue ((raw_stage (p[1 := x]) i + 1) * 50)) [0..<n]
      = map (\<lambda>i. DpiValue ((raw_stage p i + 1) * 50)) [0..<n]" for n
    by (simp add: raw_stage_def)
  show ?thesis
    using assms L unfolding dpi_accepts_def Let_def m by (auto simp: s r)
qed

lemma dpi_accepts_checksum:
  "dpi_accepts p t e d \<Longrightarrow> from_be16 (p ! 50) (p ! (50 + 1)) = sum16 (slice 3 50 p)"
  by (simp add: dpi_accepts_def Let_def)

definition dpi_declared :: "transport_kind \<Rightarrow> u8" where
  "dpi_declared t = (case t of Receiver \<Rightarrow> DPI_RECEIVER_DECLARED_LENGTH | _ \<Rightarrow> DPI_DECLARED_LENGTH)"

lemma dpi_declared_ok_declared: "dpi_declared_ok t (dpi_declared t)"
  by (cases t) (simp_all add: dpi_declared_def dpi_declared_ok_def dpi_consts)

interpretation dpi_codec:
  checked_codec "\<lambda>st. take 52 (dpi_image st)" "\<lambda>p. tryq (dpi_decode p kind profile) (\<lambda>d. Inr (decoded_dpi_state d))"
    "\<lambda>st. wf_dpi_state st \<and> dpi_profile st = profile" "\<lambda>p. p[1 := dpi_declared kind]"
    "\<lambda>p. take 52 (p[1 := 0x38])" "\<lambda>i. 3 \<le> i \<and> i < 52"
  for profile :: profile_id and kind :: transport_kind
proof unfold_locales
  fix st
  assume st: "wf_dpi_state st \<and> dpi_profile st = profile"
  have "dpi_accepts (take 52 (dpi_image st)) kind (dpi_profile st)
      \<lparr>decoded_dpi_state = st, decoded_dpi_transport = kind, decoded_dpi_framing = DpiCompact\<rparr>"
    using st dpi_accepts_image [of st DpiCompact kind] by (simp add: wf_dpi_state_def dpi_supports_transport_def)
  from dpi_accepts_declared [OF this dpi_declared_ok_declared] st
  have "dpi_decode ((take 52 (dpi_image st))[1 := dpi_declared kind]) kind profile
      = Inr \<lparr>decoded_dpi_state = st, decoded_dpi_transport = kind, decoded_dpi_framing = DpiCompact\<rparr>"
    unfolding dpi_decode_eq_Inr by simp
  then show "tryq (dpi_decode ((take 52 (dpi_image st))[1 := dpi_declared kind]) kind profile)
      (\<lambda>d. Inr (decoded_dpi_state d)) = Inr st"
    by simp
next
  fix p st
  assume "tryq (dpi_decode p kind profile) (\<lambda>d. Inr (decoded_dpi_state d)) = Inr st"
    and st: "wf_dpi_state st \<and> dpi_profile st = profile"
  then obtain d where d: "dpi_accepts p kind profile d" "decoded_dpi_state d = st"
    by (auto simp: dpi_decode_eq_Inr)
  have "take (dpi_transmitted_length (decoded_dpi_framing d)) (dpi_image st) = p[1 := 0x38]"
    using dpi_accepts_image_back [OF d(1)] st d(2)
    by (auto simp: wf_dpi_state_def typed_dpi_state_def)
  then show "take 52 (p[1 := 0x38]) = take 52 (dpi_image st)"
    by (metis dpi_accepts_length(1,2) [OF d(1)] min_def take_take)
next
  fix p st i b
  assume acc: "tryq (dpi_decode p kind profile) (\<lambda>d. Inr (decoded_dpi_state d)) = Inr st"
    and i: "3 \<le> i \<and> i < 52" "i < length p" "b \<noteq> p ! i"
  from acc obtain d where d: "dpi_accepts p kind profile d"
    by (auto simp: dpi_decode_eq_Inr)
  have "from_be16 (p[i := b] ! 50) (p[i := b] ! (50 + 1)) \<noteq> sum16 (slice 3 50 (p[i := b]))"
    using i dpi_accepts_length(2) [OF d] by (intro checksum_detects dpi_accepts_checksum [OF d]) auto
  then have "\<not> dpi_accepts (p[i := b]) kind profile d'" for d'
    using dpi_accepts_checksum by blast
  then show "is_ok (tryq (dpi_decode (p[i := b]) kind profile) (\<lambda>d. Inr (decoded_dpi_state d))) = False"
    by (auto simp: is_ok_iff dpi_decode_eq_Inr)
qed

section \<open>Properties\<close>

text \<open>C4: The DPI decoder accepts exactly the images of well-formed states: a packet decodes to a
  state for the expected profile on a transport if and only if it is the encoder's image of that
  state in a framing the transport supports, up to a declared length the transport reports.\<close>

theorem dpi_decode_exact:
  "wf_profile e \<and> dpi_decode p t e = Inr d \<longleftrightarrow>
     wf_dpi_state (decoded_dpi_state d) \<and> dpi_profile (decoded_dpi_state d) = e
     \<and> decoded_dpi_transport d = t
     \<and> (\<exists>report declared. dpi_encode_framed_for_transport (decoded_dpi_state d) t (decoded_dpi_framing d) = Inr report
          \<and> dpi_declared_ok t declared \<and> p = (dpi_as_bytes report)[1 := declared])"
  (is "?l \<longleftrightarrow> ?r")
proof
  let ?img = "take (dpi_transmitted_length (decoded_dpi_framing d)) (dpi_image (decoded_dpi_state d))"
  {
    assume l: ?l
    then have acc: "dpi_accepts p t e d" by (simp add: dpi_decode_eq_Inr)
    have "?img = p[1 := 0x38]"
      using l by (intro dpi_accepts_image_back [OF acc]) simp
    then have "p = ?img[1 := p ! 1]" by (simp add: list_update_id)
    then show ?r
      using l acc dpi_accepts_wf [OF acc]
      by (auto simp: dpi_encode_framed_for_transport_def dpi_as_bytes_def dpi_accepts_def wf_dpi_state_def Let_def)
  next
    assume r: ?r
    then obtain declared where p: "p = ?img[1 := declared]" and d: "dpi_declared_ok t declared"
      and sup: "dpi_supports_transport (decoded_dpi_framing d) t"
      by (auto simp: dpi_encode_framed_for_transport_def dpi_as_bytes_def split: if_splits)
    have "dpi_accepts ?img t e d"
      using dpi_accepts_image [OF _ _ sup, of "decoded_dpi_state d"] r
      by (cases d) (auto simp: wf_dpi_state_def)
    from dpi_accepts_declared [OF this d] show ?l
      using r by (auto simp: p dpi_decode_eq_Inr wf_dpi_state_def typed_dpi_state_def)
  }
qed

text \<open>Creating a DPI state checks the stage selection: it succeeds exactly for one to eight
  stages with an active stage among them, the state then carries the arguments and the default
  sensor options and is well formed when the arguments are, and otherwise the error names the
  stage count first and the active stage second.\<close>

theorem dpi_state_new_checks:
  "dpi_state_new profile stages active tail =
     (if length stages = 0 \<or> 8 < length stages then Inl (InvalidStageCount (length stages))
      else if length stages < unat (stage_get active)
      then Inl (ActiveStageOutOfRange (stage_get active) (length stages))
      else Inr \<lparr>dpi_profile = profile, dpi_stages = stages, dpi_active_stage = active,
             dpi_sensor = sensor_default, dpi_preserved_tail = tail\<rparr>)
   \<and> (\<forall>st. dpi_state_new profile stages active tail = Inr st \<longrightarrow>
        (wf_dpi_state st \<longleftrightarrow> wf_profile profile \<and> list_all wf_dpi_value stages \<and> wf_stage active \<and> length tail = 25))"
  by (auto simp: dpi_state_new_def validate_stage_selection_def wf_dpi_state_def typed_dpi_state_def
      valid_selection_def list_all_iff not_less Suc_le_eq)

lemma dpi_state_new_checks_witness:
  "dpi_state_new (ProfileId 1) [DpiValue 800] (StageIndex 1) (replicate 25 0)
     = Inr \<lparr>dpi_profile = ProfileId 1, dpi_stages = [DpiValue 800], dpi_active_stage = StageIndex 1,
            dpi_sensor = sensor_default, dpi_preserved_tail = replicate 25 0\<rparr>
   \<and> dpi_state_new (ProfileId 1) [] (StageIndex 1) [] = Inl (InvalidStageCount 0)
   \<and> dpi_state_new (ProfileId 1) [DpiValue 800] (StageIndex 2) [] = Inl (ActiveStageOutOfRange 2 1)"
  using dpi_state_new_checks [of "ProfileId 1" "[DpiValue 800]" "StageIndex 1" "replicate 25 0"]
    dpi_state_new_checks [of "ProfileId 1" "[]" "StageIndex 1" "[]"]
    dpi_state_new_checks [of "ProfileId 1" "[DpiValue 800]" "StageIndex 2" "[]"]
  by simp

text \<open>A physical identity overlaid on a DPI state changes nothing but the preserved tail, is read
  back from it, and survives the trip to the device and back: the state decoded from the encoded
  report carries the same identity.\<close>

theorem dpi_identity_roundtrip:
  assumes "wf_dpi_state st" and "wf_physical_id i" and "dpi_supports_transport f t"
  shows "overlay_physical_id crc st i = st\<lparr>dpi_preserved_tail := to_watermark_bytes crc i\<rparr>
    \<and> (\<exists>report d. dpi_encode_framed_for_transport (overlay_physical_id crc st i) t f = Inr report
      \<and> dpi_decode (dpi_as_bytes report) t (dpi_profile st) = Inr d
      \<and> decoded_dpi_state d = overlay_physical_id crc st i
      \<and> dpi_physical_id crc (decoded_dpi_state d) = Valid i)"
proof -
  let ?st = "overlay_physical_id crc st i"
  have o: "?st = st\<lparr>dpi_preserved_tail := to_watermark_bytes crc i\<rparr>"
    by (simp add: overlay_physical_id_def)
  have wf: "wf_dpi_state ?st"
    using assms by (simp add: o wf_dpi_state_def typed_dpi_state_def valid_selection_def)
  have "dpi_accepts (take (dpi_transmitted_length f) (dpi_image ?st)) t (dpi_profile ?st)
      \<lparr>decoded_dpi_state = ?st, decoded_dpi_transport = t, decoded_dpi_framing = f\<rparr>"
    using wf assms(3) by (intro dpi_accepts_image) (simp_all add: wf_dpi_state_def)
  then have "dpi_decode (take (dpi_transmitted_length f) (dpi_image ?st)) t (dpi_profile st)
      = Inr \<lparr>decoded_dpi_state = ?st, decoded_dpi_transport = t, decoded_dpi_framing = f\<rparr>"
    by (simp add: dpi_decode_eq_Inr o)
  moreover have "dpi_physical_id crc ?st = Valid i"
    using assms(2) by (simp add: o dpi_physical_id_def decode_watermark_image)
  ultimately show ?thesis
    using wf assms(3)
    by (simp add: o [symmetric] dpi_encode_framed_for_transport_def dpi_as_bytes_def wf_dpi_state_def)
qed

lemma dpi_identity_roundtrip_witness:
  "\<exists>report d. dpi_encode_framed_for_transport (overlay_physical_id (\<lambda>p. 0x01020304)
         \<lparr>dpi_profile = ProfileId 1, dpi_stages = [DpiValue 800, DpiValue 1600], dpi_active_stage = StageIndex 2,
          dpi_sensor = sensor_default, dpi_preserved_tail = CAPTURED_EMPTY_PROFILE_TAIL\<rparr>
         (PhysicalId (replicate 16 7))) Receiver DpiFull = Inr report
      \<and> dpi_decode (dpi_as_bytes report) Receiver (ProfileId 1) = Inr d
      \<and> dpi_physical_id (\<lambda>p. 0x01020304) (decoded_dpi_state d) = Valid (PhysicalId (replicate 16 7))"
  using dpi_identity_roundtrip [of "\<lparr>dpi_profile = ProfileId 1, dpi_stages = [DpiValue 800, DpiValue 1600],
      dpi_active_stage = StageIndex 2, dpi_sensor = sensor_default,
      dpi_preserved_tail = CAPTURED_EMPTY_PROFILE_TAIL\<rparr>" "PhysicalId (replicate 16 7)" DpiFull Receiver "\<lambda>p. 0x01020304"]
  by (auto simp: wf_dpi_state_def typed_dpi_state_def valid_selection_def wf_profile_def wf_dpi_value_def
      wf_stage_def wf_physical_id_def dpi_supports_transport_def CAPTURED_EMPTY_PROFILE_TAIL_def)

end
