(* ===== verification/X3_Preferences.thy ===== *)
theory X3_Preferences
  imports X3_Validate
begin

text \<open>
  The preferences report \<open>0x05\<close> (\<^verbatim>\<open>protocol/preferences.rs\<close>): the raw state, the two wire
  framings, the decoder with the receiver's second declared length, and the typed views of the
  debounce, sleep-timer and deep-sleep bytes.
\<close>

section \<open>State and framings\<close>

record preferences_state =
  prefs_profile :: profile_id
  light_mode :: u8
  configuration :: u8
  deep_sleep :: u8
  host_color :: "u8 \<times> u8 \<times> u8"
  sleep_timer :: u8
  debounce :: u8

definition PREFERENCES_REPORT_ID :: u8 where "PREFERENCES_REPORT_ID = 0x05"
definition PREFERENCES_DECLARED_LENGTH :: u8 where "PREFERENCES_DECLARED_LENGTH = 0x0f"
definition PREFERENCES_RECEIVER_DECLARED_LENGTH :: u8 where "PREFERENCES_RECEIVER_DECLARED_LENGTH = 0x11"
definition PREFERENCES_COMPACT_LENGTH :: usize where "PREFERENCES_COMPACT_LENGTH = 13"
definition PREFERENCES_FULL_LENGTH :: usize where "PREFERENCES_FULL_LENGTH = 15"
definition PREFS_CHECKSUM_OFFSET :: usize where "PREFS_CHECKSUM_OFFSET = 11"

lemmas prefs_consts =
  PREFERENCES_REPORT_ID_def PREFERENCES_DECLARED_LENGTH_def PREFERENCES_RECEIVER_DECLARED_LENGTH_def
  PREFERENCES_COMPACT_LENGTH_def PREFERENCES_FULL_LENGTH_def PREFS_CHECKSUM_OFFSET_def

definition preferences_new ::
  "profile_id \<Rightarrow> u8 \<Rightarrow> u8 \<Rightarrow> u8 \<Rightarrow> u8 \<times> u8 \<times> u8 \<Rightarrow> u8 \<Rightarrow> u8 \<Rightarrow> preferences_state" where
  "preferences_new profile lm cfg ds hc st db =
     \<lparr>prefs_profile = profile, light_mode = lm, configuration = cfg, deep_sleep = ds,
      host_color = hc, sleep_timer = st, debounce = db\<rparr>"

definition prefs_captured_stock_reset :: "profile_id \<Rightarrow> preferences_state" where
  "prefs_captured_stock_reset profile = preferences_new profile 0x00 0x03 0xa8 (0x00, 0x00, 0xff) 0x01 0x04"

definition prefs_payload :: "preferences_state \<Rightarrow> packet" where
  "prefs_payload st =
     (let (c0, c1, c2) = host_color st
      in [light_mode st, configuration st, deep_sleep st, c0, c1, c2, sleep_timer st, debounce st])"

datatype preferences_framing = PrefsCompact | PrefsFull

definition prefs_transmitted_length :: "preferences_framing \<Rightarrow> usize" where
  "prefs_transmitted_length f =
     (case f of PrefsCompact \<Rightarrow> PREFERENCES_COMPACT_LENGTH | PrefsFull \<Rightarrow> PREFERENCES_FULL_LENGTH)"

definition prefs_supports_transport :: "preferences_framing \<Rightarrow> transport_kind \<Rightarrow> bool" where
  "prefs_supports_transport f transport =
     (case f of PrefsCompact \<Rightarrow> True
      | PrefsFull \<Rightarrow> (case transport of Wired \<Rightarrow> True | Receiver \<Rightarrow> True | Ble \<Rightarrow> False))"

definition prefs_valid_lengths :: "transport_kind \<Rightarrow> usize list" where
  "prefs_valid_lengths transport =
     (case transport of Ble \<Rightarrow> [PREFERENCES_COMPACT_LENGTH]
      | Wired \<Rightarrow> [PREFERENCES_COMPACT_LENGTH, PREFERENCES_FULL_LENGTH]
      | Receiver \<Rightarrow> [PREFERENCES_COMPACT_LENGTH, PREFERENCES_FULL_LENGTH])"

section \<open>Encoding\<close>

record preferences_report =
  prefs_bytes :: packet
  prefs_length :: usize

definition prefs_as_bytes :: "preferences_report \<Rightarrow> packet" where
  "prefs_as_bytes r = take (prefs_length r) (prefs_bytes r)"

definition prefs_encode_framed :: "preferences_state \<Rightarrow> preferences_framing \<Rightarrow> preferences_report" where
  "prefs_encode_framed st framing =
     (let bytes = replicate PREFERENCES_FULL_LENGTH 0;
          bytes = bytes[0 := PREFERENCES_REPORT_ID];
          bytes = bytes[1 := PREFERENCES_DECLARED_LENGTH];
          bytes = bytes[2 := profile_get (prefs_profile st)];
          bytes = write_at 3 (prefs_payload st) bytes;
          checksum = sum16 (slice 3 PREFS_CHECKSUM_OFFSET bytes);
          bytes = write_at PREFS_CHECKSUM_OFFSET (be_bytes16 checksum) bytes
      in \<lparr>prefs_bytes = bytes, prefs_length = prefs_transmitted_length framing\<rparr>)"

definition prefs_encode_framed_for_transport ::
  "preferences_state \<Rightarrow> transport_kind \<Rightarrow> preferences_framing \<Rightarrow> preferences_report protocol_result" where
  "prefs_encode_framed_for_transport st transport framing =
     (if \<not> prefs_supports_transport framing transport
      then Inl (InvalidReportLength (prefs_transmitted_length PrefsCompact) (prefs_transmitted_length framing))
      else Inr (prefs_encode_framed st framing))"

section \<open>Decoding\<close>

record decoded_preferences_report =
  decoded_prefs_state :: preferences_state
  decoded_prefs_framing :: preferences_framing

definition expected_preferences_length_for_error :: "usize \<Rightarrow> usize" where
  "expected_preferences_length_for_error actual =
     (if actual \<le> PREFERENCES_COMPACT_LENGTH \<or> actual = PREFERENCES_FULL_LENGTH
      then PREFERENCES_COMPACT_LENGTH else PREFERENCES_FULL_LENGTH)"

definition prefs_framing_of_length :: "usize \<Rightarrow> preferences_framing protocol_result" where
  "prefs_framing_of_length actual =
     (if actual = PREFERENCES_COMPACT_LENGTH then Inr PrefsCompact
      else if actual = PREFERENCES_FULL_LENGTH then Inr PrefsFull
      else Inl (InvalidReportLength (expected_preferences_length_for_error actual) actual))"

definition prefs_decode_declared ::
  "packet \<Rightarrow> profile_id \<Rightarrow> u8 \<Rightarrow> decoded_preferences_report protocol_result" where
  "prefs_decode_declared packet expected_profile declared_length =
     tryq (prefs_framing_of_length (length packet)) (\<lambda>framing.
     if packet ! 0 \<noteq> PREFERENCES_REPORT_ID
       then Inl (UnexpectedReportId PREFERENCES_REPORT_ID (packet ! 0))
     else if packet ! 1 \<noteq> declared_length
       then Inl (UnexpectedDeclaredLength declared_length (packet ! 1))
     else if packet ! 2 \<noteq> profile_get expected_profile
       then Inl (ProfileMismatch (profile_get expected_profile) (packet ! 2))
     else tryq (if framing = PrefsFull
                then validate_fixed_range packet PREFERENCES_COMPACT_LENGTH PREFERENCES_FULL_LENGTH 0
                else Inr ()) (\<lambda>_.
     let actual_checksum = from_be16 (packet ! PREFS_CHECKSUM_OFFSET) (packet ! (PREFS_CHECKSUM_OFFSET + 1));
         expected_checksum = sum16 (slice 3 PREFS_CHECKSUM_OFFSET packet)
     in if actual_checksum \<noteq> expected_checksum
        then Inl (ChecksumMismatch expected_checksum actual_checksum)
        else Inr \<lparr>decoded_prefs_state =
               \<lparr>prefs_profile = expected_profile, light_mode = packet ! 3, configuration = packet ! 4,
                deep_sleep = packet ! 5, host_color = (packet ! 6, packet ! 7, packet ! 8),
                sleep_timer = packet ! 9, debounce = packet ! 10\<rparr>,
             decoded_prefs_framing = framing\<rparr>))"

definition prefs_decode :: "packet \<Rightarrow> profile_id \<Rightarrow> decoded_preferences_report protocol_result" where
  "prefs_decode packet expected_profile =
     prefs_decode_declared packet expected_profile PREFERENCES_DECLARED_LENGTH"

definition prefs_receiver_retry :: "packet \<Rightarrow> transport_kind \<Rightarrow> protocol_error \<Rightarrow> bool" where
  "prefs_receiver_retry packet transport err =
     (case err of UnexpectedDeclaredLength _ _ \<Rightarrow>
        transport = Receiver \<and> 1 < length packet \<and> packet ! 1 = PREFERENCES_DECLARED_LENGTH
      | _ \<Rightarrow> False)"

definition prefs_decode_for_transport ::
  "packet \<Rightarrow> transport_kind \<Rightarrow> profile_id \<Rightarrow> decoded_preferences_report protocol_result" where
  "prefs_decode_for_transport packet transport expected_profile =
     (let declared_length =
            (case transport of Receiver \<Rightarrow> PREFERENCES_RECEIVER_DECLARED_LENGTH
             | _ \<Rightarrow> PREFERENCES_DECLARED_LENGTH)
      in tryq (case prefs_decode_declared packet expected_profile declared_length of
                 Inr decoded \<Rightarrow> Inr decoded
               | Inl err \<Rightarrow>
                   if prefs_receiver_retry packet transport err
                   then prefs_decode_declared packet expected_profile PREFERENCES_DECLARED_LENGTH
                   else Inl err) (\<lambda>decoded.
         if decoded_prefs_framing decoded = PrefsFull
            \<and> \<not> prefs_supports_transport (decoded_prefs_framing decoded) transport
         then Inl (InvalidReportLength (prefs_transmitted_length PrefsCompact) (length packet))
         else Inr decoded))"

section \<open>Typed views of single bytes\<close>

datatype debounce_ms = DebounceMs (debounce_get: u8)

definition debounce_new :: "u8 \<Rightarrow> debounce_ms option" where
  "debounce_new ms = (if ms \<ge> 4 \<and> ms \<le> 50 \<and> ms mod 2 = 0 then Some (DebounceMs ms) else None)"

definition debounce_raw :: "debounce_ms \<Rightarrow> u8" where
  "debounce_raw d = (debounce_get d - 4) div 2 + 2"

definition debounce_from_raw :: "u8 \<Rightarrow> debounce_ms option" where
  "debounce_from_raw raw = (if raw \<ge> 2 \<and> raw \<le> 25 then Some (DebounceMs ((raw - 2) * 2 + 4)) else None)"

datatype sleep_timer_value = SleepTimer (sleep_get: u8)

definition sleep_new :: "u8 \<Rightarrow> sleep_timer_value option" where
  "sleep_new half_minutes =
     (if half_minutes \<ge> 1 \<and> half_minutes \<le> 60 then Some (SleepTimer half_minutes) else None)"

definition sleep_raw :: "sleep_timer_value \<Rightarrow> u8" where
  "sleep_raw t = sleep_get t"

definition sleep_from_raw :: "u8 \<Rightarrow> sleep_timer_value option" where
  "sleep_from_raw raw = (if raw \<ge> 1 \<and> raw \<le> 60 then Some (SleepTimer raw) else None)"

datatype deep_sleep_minutes = DeepSleepMinutes (deep_get: u8)

definition deep_new :: "u8 \<Rightarrow> deep_sleep_minutes option" where
  "deep_new minutes = (if minutes \<ge> 1 \<and> minutes \<le> 60 then Some (DeepSleepMinutes minutes) else None)"

definition deep_bucket :: "deep_sleep_minutes \<Rightarrow> u8" where
  "deep_bucket d = deep_get d div 16"

definition deep_sleep_byte :: "deep_sleep_minutes \<Rightarrow> u8" where
  "deep_sleep_byte d = 0x08 OR push_bit 4 (deep_get d mod 16)"

definition configuration_with :: "deep_sleep_minutes \<Rightarrow> u8 \<Rightarrow> u8" where
  "configuration_with d cfg = push_bit 4 (deep_bucket d) OR (cfg AND 0x0f)"

definition deep_from_raw :: "u8 \<Rightarrow> u8 \<Rightarrow> deep_sleep_minutes option" where
  "deep_from_raw bucket ds =
     (if ds AND 0x0f \<noteq> 0x08 then None
      else if bucket > 3 then None
      else deep_new (push_bit 4 bucket OR drop_bit 4 ds))"

definition deep_from_configuration :: "u8 \<Rightarrow> u8 \<Rightarrow> deep_sleep_minutes option" where
  "deep_from_configuration cfg ds = deep_from_raw (drop_bit 4 cfg) ds"

section \<open>The image, byte by byte\<close>

lemma prefs_transmitted_length_simps [simp]:
  "prefs_transmitted_length PrefsCompact = 13"
  "prefs_transmitted_length PrefsFull = 15"
  by (simp_all add: prefs_transmitted_length_def prefs_consts)

lemma prefs_transmitted_length_inject [simp]:
  "prefs_transmitted_length f = prefs_transmitted_length g \<longleftrightarrow> f = g"
  by (cases f; cases g) simp_all

lemma length_prefs_payload [simp]: "length (prefs_payload st) = 8"
  by (simp add: prefs_payload_def split: prod.split)

lemma prefs_bytes_layout [layout]:
  "prefs_bytes (prefs_encode_framed st f) =
     [0x05, 0x0f, profile_get (prefs_profile st)] @ prefs_payload st
       @ be_bytes16 (sum16 (prefs_payload st)) @ [0, 0]"
proof -
  have zeros: "(replicate 15 (0 :: u8))[0 := 0x05, Suc 0 := 0x0f, 2 := x] = [0x05, 0x0f, x] @ replicate 12 0" for x
    by (simp add: numeral_eq_Suc)
  have 1: "write_at 3 (prefs_payload st) ([0x05, 0x0f, x] @ replicate 12 0)
      = [0x05, 0x0f, x] @ prefs_payload st @ [0, 0, 0, 0]" for x
    by (simp add: write_at_def numeral_eq_Suc)
  have 2: "slice 3 11 ([0x05, 0x0f, x] @ prefs_payload st @ [0, 0, 0, 0]) = prefs_payload st" for x
    by (simp add: slice_def)
  have 3: "write_at 11 (be_bytes16 c) ([0x05, 0x0f, x] @ prefs_payload st @ [0, 0, 0, 0])
      = [0x05, 0x0f, x] @ prefs_payload st @ be_bytes16 c @ [0, 0]" for c x
    by (simp add: write_at_def)
  show ?thesis
    unfolding prefs_encode_framed_def prefs_consts Let_def preferences_report.simps One_nat_def
      zeros 1 2 3 ..
qed

lemma prefs_as_bytes_layout:
  "prefs_as_bytes (prefs_encode_framed st f) =
     [0x05, 0x0f, profile_get (prefs_profile st)] @ prefs_payload st
       @ be_bytes16 (sum16 (prefs_payload st)) @ (if f = PrefsFull then [0, 0] else [])"
proof -
  have "prefs_length (prefs_encode_framed st f) = prefs_transmitted_length f"
    by (simp add: prefs_encode_framed_def Let_def)
  then show ?thesis
    by (cases f) (simp_all add: prefs_as_bytes_def prefs_bytes_layout)
qed

section \<open>Acceptance\<close>

lemma prefs_framing_of_length_eq_Inr [simp]:
  "prefs_framing_of_length n = Inr f \<longleftrightarrow> n = prefs_transmitted_length f"
  by (cases f) (auto simp: prefs_framing_of_length_def prefs_consts)

lemma all_13_14: "(\<forall>i. 13 \<le> i \<and> i < 15 \<longrightarrow> P i) \<longleftrightarrow> P 13 \<and> P (14 :: nat)"
proof -
  have "13 \<le> i \<and> i < 15 \<longleftrightarrow> i = 13 \<or> i = 14" for i :: nat
    by linarith
  then show ?thesis by auto
qed

lemma prefs_decode_declared_eq_Inr:
  "prefs_decode_declared p e dl = Inr d \<longleftrightarrow>
     (\<exists>lm cfg ds c0 c1 c2 slt db hi lo.
        p = [0x05, dl, profile_get e, lm, cfg, ds, c0, c1, c2, slt, db, hi, lo]
              @ (if decoded_prefs_framing d = PrefsFull then [0, 0] else [])
      \<and> from_be16 hi lo = sum16 [lm, cfg, ds, c0, c1, c2, slt, db]
      \<and> decoded_prefs_state d = \<lparr>prefs_profile = e, light_mode = lm, configuration = cfg,
           deep_sleep = ds, host_color = (c0, c1, c2), sleep_timer = slt, debounce = db\<rparr>)"
  (is "_ \<longleftrightarrow> ?r")
proof
  assume l: "prefs_decode_declared p e dl = Inr d"
  have len: "length p = prefs_transmitted_length (decoded_prefs_framing d)"
    using l by (auto simp: prefs_decode_declared_def Let_def)
  show ?r
  proof (cases "decoded_prefs_framing d")
    case PrefsCompact
    with len have "length p = 13" by simp
    then obtain b0 b1 b2 lm cfg ds c0 c1 c2 slt db hi lo
      where p: "p = [b0, b1, b2, lm, cfg, ds, c0, c1, c2, slt, db, hi, lo]"
      by (auto simp: numeral_eq_Suc length_Suc_conv)
    show ?thesis
      using l PrefsCompact unfolding p
      by (auto simp: prefs_decode_declared_def Let_def prefs_consts slice_def)
  next
    case PrefsFull
    with len have "length p = 15" by simp
    then obtain b0 b1 b2 lm cfg ds c0 c1 c2 slt db hi lo z0 z1
      where p: "p = [b0, b1, b2, lm, cfg, ds, c0, c1, c2, slt, db, hi, lo, z0, z1]"
      by (auto simp: numeral_eq_Suc length_Suc_conv)
    show ?thesis
      using l PrefsFull unfolding p
      by (auto simp: prefs_decode_declared_def Let_def prefs_consts slice_def all_13_14)
  qed
next
  assume ?r
  then show "prefs_decode_declared p e dl = Inr d"
    by (cases d; cases "decoded_prefs_framing d")
       (auto simp: prefs_decode_declared_def Let_def prefs_consts slice_def all_13_14)
qed

text \<open>The receiver reads both declared lengths, the other transports only the canonical one.\<close>

definition prefs_declared :: "transport_kind \<Rightarrow> u8 set" where
  "prefs_declared t = (if t = Receiver then {0x0f, 0x11} else {0x0f})"

lemma prefs_declared_error:
  assumes "prefs_decode_declared p e a = Inl err" and "prefs_decode_declared p e b = Inr d" and "a \<noteq> b"
  shows "err = UnexpectedDeclaredLength a b \<and> 1 < length p \<and> p ! 1 = b"
proof -
  from assms(2) obtain lm cfg ds c0 c1 c2 slt db hi lo
    where p: "p = [0x05, b, profile_get e, lm, cfg, ds, c0, c1, c2, slt, db, hi, lo]
      @ (if decoded_prefs_framing d = PrefsFull then [0, 0] else [])"
    unfolding prefs_decode_declared_eq_Inr by blast
  then have fr: "prefs_framing_of_length (length p) = Inr (decoded_prefs_framing d)"
    by (cases "decoded_prefs_framing d") simp_all
  have b: "p ! 0 = 0x05" "p ! 1 = b" "1 < length p"
    unfolding p by simp_all
  have "prefs_decode_declared p e a = Inl (UnexpectedDeclaredLength a b)"
    unfolding prefs_decode_declared_def fr tryq_simps b using assms(3)
    by (simp add: prefs_consts)
  with assms(1) b show ?thesis by simp
qed

lemma prefs_decode_for_transport_eq_Inr:
  "prefs_decode_for_transport p t e = Inr d \<longleftrightarrow>
     (\<exists>dl \<in> prefs_declared t. prefs_decode_declared p e dl = Inr d)
     \<and> prefs_supports_transport (decoded_prefs_framing d) t"
proof -
  have sup: "f = PrefsFull \<and> \<not> prefs_supports_transport f x \<longleftrightarrow> \<not> prefs_supports_transport f x" for f x
    by (cases f) (simp_all add: prefs_supports_transport_def)
  show ?thesis
  proof (cases "t = Receiver")
    case False
    then have dl: "(case t of Receiver \<Rightarrow> PREFERENCES_RECEIVER_DECLARED_LENGTH
        | _ \<Rightarrow> PREFERENCES_DECLARED_LENGTH) = 0x0f"
      by (cases t) (simp_all add: prefs_consts)
    have retry: "\<not> prefs_receiver_retry p t err" for err
      using False by (simp add: prefs_receiver_retry_def split: protocol_error.split)
    show ?thesis
      using False unfolding prefs_decode_for_transport_def dl Let_def sup
      by (cases "prefs_decode_declared p e 15") (auto simp: retry prefs_declared_def)
  next
    case True
    show ?thesis
    proof (cases "prefs_decode_declared p e 0x11")
      case (Inr d')
      have "prefs_decode_declared p e 0x0f \<noteq> Inr d"
        using Inr unfolding prefs_decode_declared_eq_Inr by auto
      then show ?thesis
        using True Inr unfolding prefs_decode_for_transport_def sup Let_def
        by (auto simp: prefs_consts prefs_declared_def)
    next
      case (Inl err)
      have "prefs_decode_declared p e 0x0f = Inr d \<Longrightarrow> prefs_receiver_retry p t err"
        using prefs_declared_error [OF Inl, of "0x0f" d] True
        by (simp add: prefs_receiver_retry_def prefs_consts)
      then show ?thesis
        using True Inl unfolding prefs_decode_for_transport_def sup Let_def
        by (auto simp: prefs_consts prefs_declared_def)
    qed
  qed
qed

section \<open>Encode and decode\<close>

lemma prefs_reencode_lemma:
  assumes "prefs_decode_for_transport p t e = Inr d"
  shows "prefs_as_bytes (prefs_encode_framed (decoded_prefs_state d) (decoded_prefs_framing d))
    = p[1 := 0x0f] \<and> prefs_profile (decoded_prefs_state d) = e"
proof -
  from assms obtain dl where "prefs_decode_declared p e dl = Inr d"
    unfolding prefs_decode_for_transport_eq_Inr by blast
  then obtain lm cfg ds c0 c1 c2 slt db hi lo
    where p: "p = [0x05, dl, profile_get e, lm, cfg, ds, c0, c1, c2, slt, db, hi, lo]
              @ (if decoded_prefs_framing d = PrefsFull then [0, 0] else [])"
      and sum: "from_be16 hi lo = sum16 [lm, cfg, ds, c0, c1, c2, slt, db]"
      and st: "decoded_prefs_state d = \<lparr>prefs_profile = e, light_mode = lm, configuration = cfg,
           deep_sleep = ds, host_color = (c0, c1, c2), sleep_timer = slt, debounce = db\<rparr>"
    unfolding prefs_decode_declared_eq_Inr by blast
  have "be_bytes16 (sum16 [lm, cfg, ds, c0, c1, c2, slt, db]) = [hi, lo]"
    by (simp only: sum [symmetric] be_bytes16_from_be16)
  then show ?thesis
    by (simp add: prefs_as_bytes_layout st p prefs_payload_def)
qed


section \<open>The typed views\<close>

text \<open>The ranges the checked constructors guarantee.\<close>

definition wf_debounce :: "debounce_ms \<Rightarrow> bool" where
  "wf_debounce d \<longleftrightarrow> 4 \<le> debounce_get d \<and> debounce_get d \<le> 50 \<and> even (debounce_get d)"

definition wf_deep :: "deep_sleep_minutes \<Rightarrow> bool" where
  "wf_deep d \<longleftrightarrow> 1 \<le> deep_get d \<and> deep_get d \<le> 60"

lemma u8_even_mod: "(v :: u8) mod 2 = 0 \<longleftrightarrow> even v"
  by (simp add: even_iff_mod_2_eq_zero)

lemma debounce_new_eq_Some: "debounce_new v = Some d \<longleftrightarrow> d = DebounceMs v \<and> wf_debounce d"
  by (auto simp: debounce_new_def wf_debounce_def u8_even_mod)

lemma deep_new_eq_Some: "deep_new v = Some d \<longleftrightarrow> d = DeepSleepMinutes v \<and> wf_deep d"
  by (auto simp: deep_new_def wf_deep_def)

lemma debounce_bytes:
  assumes "wf_debounce d"
  shows "debounce_from_raw (debounce_raw d) = Some d"
proof -
  have "\<forall>b :: u8. 4 \<le> b \<and> b \<le> 50 \<and> b mod 2 = 0 \<longrightarrow>
      debounce_from_raw (debounce_raw (DebounceMs b)) = Some (DebounceMs b)"
    unfolding all_u8 by code_simp
  with assms show ?thesis
    by (cases d) (simp add: wf_debounce_def u8_even_mod)
qed

lemma debounce_from_raw_back:
  assumes "debounce_from_raw raw = Some d"
  shows "wf_debounce d \<and> debounce_raw d = raw"
proof -
  have "\<forall>r :: u8. 2 \<le> r \<and> r \<le> 25 \<longrightarrow>
      (let b = (r - 2) * 2 + 4 in 4 \<le> b \<and> b \<le> 50 \<and> b mod 2 = 0 \<and> debounce_raw (DebounceMs b) = r)"
    unfolding all_u8 by code_simp
  with assms show ?thesis
    by (auto simp: debounce_from_raw_def wf_debounce_def u8_even_mod Let_def split: if_splits)
qed

lemma deep_fields:
  assumes "wf_deep d"
  shows "drop_bit 4 (configuration_with d cfg) = deep_bucket d"
    and "configuration_with d cfg AND 0x0f = cfg AND 0x0f"
    and "deep_bucket d \<le> 3"
    and "deep_sleep_byte d AND 0x0f = 0x08"
    and "push_bit 4 (deep_bucket d) OR drop_bit 4 (deep_sleep_byte d) = deep_get d"
proof -
  have f: "(15 :: u8) = mask 4" by (simp add: mask_eq_exp_minus_1)
  have a: "\<forall>m :: u8. 1 \<le> m \<and> m \<le> 60 \<longrightarrow>
      (let d = DeepSleepMinutes m in
        deep_bucket d \<le> 3 \<and> deep_sleep_byte d AND 0x0f = 0x08
        \<and> push_bit 4 (deep_bucket d) OR drop_bit 4 (deep_sleep_byte d) = m
        \<and> drop_bit 4 (push_bit 4 (deep_bucket d)) = deep_bucket d)"
    unfolding all_u8 by code_simp
  have b: "drop_bit 4 (x OR (cfg AND 15)) = drop_bit 4 x" for x cfg :: u8
    unfolding f by (rule bit_word_eqI) (auto simp: bit_simps)
  have c: "(push_bit 4 x OR (cfg AND 15)) AND 15 = cfg AND 15" for x cfg :: u8
    unfolding f by (rule bit_word_eqI) (auto simp: bit_simps)
  show "configuration_with d cfg AND 0x0f = cfg AND 0x0f"
    by (simp add: configuration_with_def c)
  show "drop_bit 4 (configuration_with d cfg) = deep_bucket d" "deep_bucket d \<le> 3"
    "deep_sleep_byte d AND 0x0f = 0x08"
    "push_bit 4 (deep_bucket d) OR drop_bit 4 (deep_sleep_byte d) = deep_get d"
    using a assms by (cases d; simp add: wf_deep_def Let_def configuration_with_def b)+
qed

lemma deep_bytes:
  "wf_deep d \<Longrightarrow> deep_from_configuration (configuration_with d cfg) (deep_sleep_byte d) = Some d"
  using deep_fields [of d]
  by (cases d) (simp add: deep_from_configuration_def deep_from_raw_def deep_new_eq_Some not_less)

lemma deep_from_raw_back:
  assumes "deep_from_configuration cfg ds = Some d"
  shows "wf_deep d \<and> configuration_with d cfg = cfg \<and> deep_sleep_byte d = ds"
proof -
  let ?m = "push_bit 4 (drop_bit 4 cfg) OR drop_bit 4 ds"
  have d: "d = DeepSleepMinutes ?m" "wf_deep d" and lo: "ds AND 0x0f = 0x08"
    using assms
    by (auto simp: deep_from_configuration_def deep_from_raw_def deep_new_eq_Some split: if_splits)
  have f: "(15 :: u8) = mask 4" by (simp add: mask_eq_exp_minus_1)
  have dv: "x div 16 = drop_bit 4 x" and md: "x mod 16 = take_bit 4 x" for x :: u8
    by (simp_all add: drop_bit_eq_div take_bit_eq_mod)
  have "configuration_with d cfg = cfg"
    unfolding d(1) configuration_with_def deep_bucket_def deep_sleep_minutes.sel dv f
    by (rule bit_word_eqI) (auto simp: bit_simps)
  moreover have "deep_sleep_byte d = (ds AND 0x0f) OR push_bit 4 (drop_bit 4 ds)"
    unfolding d(1) lo deep_sleep_byte_def deep_sleep_minutes.sel md
    by (rule arg_cong [where f = "\<lambda>x. 8 OR x"], rule bit_word_eqI) (auto simp: bit_simps)
  moreover have "(ds AND 0x0f) OR push_bit 4 (drop_bit 4 ds) = ds"
    unfolding f
  proof (rule bit_word_eqI)
    show "bit ((ds AND mask 4) OR push_bit 4 (drop_bit 4 ds)) n \<longleftrightarrow> bit ds n" if "n < LENGTH(8)" for n
      using that by (cases "4 \<le> n") (auto simp: bit_simps)
  qed
  ultimately show ?thesis using d(2) by simp
qed

section \<open>The codec contract\<close>

lemma prefs_declared_checksum:
  assumes "prefs_decode_declared p e dl = Inr d"
  shows "13 \<le> length p \<and> from_be16 (p ! 11) (p ! (11 + 1)) = sum16 (slice 3 11 p)"
  using assms
  by (cases "decoded_prefs_framing d")
     (auto simp: prefs_decode_declared_def Let_def prefs_consts split: if_splits)

lemma prefs_decode_echo_framed:
  assumes "dl \<in> prefs_declared t" and "prefs_supports_transport f t"
  shows "prefs_decode_for_transport ((prefs_as_bytes (prefs_encode_framed st f))[1 := dl]) t (prefs_profile st)
    = Inr \<lparr>decoded_prefs_state = st, decoded_prefs_framing = f\<rparr>"
proof -
  obtain c0 c1 c2 where c: "host_color st = (c0, c1, c2)"
    by (metis prod_cases3)
  have pay: "prefs_payload st = [light_mode st, configuration st, deep_sleep st, c0, c1, c2,
      sleep_timer st, debounce st]"
    by (simp add: prefs_payload_def c)
  have "prefs_decode_declared ((prefs_as_bytes (prefs_encode_framed st f))[1 := dl]) (prefs_profile st) dl
      = Inr \<lparr>decoded_prefs_state = st, decoded_prefs_framing = f\<rparr>"
    unfolding prefs_decode_declared_eq_Inr prefs_as_bytes_layout pay
    by (rule exI [of _ "light_mode st"], rule exI [of _ "configuration st"], rule exI [of _ "deep_sleep st"],
        rule exI [of _ c0], rule exI [of _ c1], rule exI [of _ c2], rule exI [of _ "sleep_timer st"],
        rule exI [of _ "debounce st"]) (simp add: be_bytes16_def c [symmetric] del: sum16_Cons)
  then show ?thesis
    using assms by (auto simp: prefs_decode_for_transport_eq_Inr)
qed

definition prefs_echo_length :: "transport_kind \<Rightarrow> u8" where
  "prefs_echo_length t = (if t = Receiver then 0x11 else 0x0f)"

lemma prefs_as_bytes_take:
  "take 13 (prefs_as_bytes (prefs_encode_framed st f)) = prefs_as_bytes (prefs_encode_framed st PrefsCompact)"
  by (simp add: prefs_as_bytes_layout)

interpretation prefs_codec:
  checked_codec "\<lambda>st. prefs_as_bytes (prefs_encode_framed st PrefsCompact)"
    "\<lambda>p. tryq (prefs_decode_for_transport p kind profile) (\<lambda>d. Inr (decoded_prefs_state d))"
    "\<lambda>st. prefs_profile st = profile" "\<lambda>p. p[1 := prefs_echo_length kind]"
    "\<lambda>p. take 13 (p[1 := 0x0f])" "\<lambda>i. 3 \<le> i \<and> i < 13"
  for profile :: profile_id and kind :: transport_kind
proof unfold_locales
  fix st :: preferences_state
  assume "prefs_profile st = profile"
  then show "tryq (prefs_decode_for_transport ((prefs_as_bytes (prefs_encode_framed st PrefsCompact))[1 := prefs_echo_length kind])
      kind profile) (\<lambda>d. Inr (decoded_prefs_state d)) = Inr st"
    using prefs_decode_echo_framed [of "prefs_echo_length kind" kind PrefsCompact st]
    by (simp add: prefs_declared_def prefs_echo_length_def prefs_supports_transport_def)
next
  fix p and st :: preferences_state
  assume "tryq (prefs_decode_for_transport p kind profile) (\<lambda>d. Inr (decoded_prefs_state d)) = Inr st"
  then obtain d where d: "prefs_decode_for_transport p kind profile = Inr d" "decoded_prefs_state d = st" by auto
  from prefs_reencode_lemma [OF d(1)] d(2)
  have "prefs_as_bytes (prefs_encode_framed st (decoded_prefs_framing d)) = p[1 := 0x0f]" by simp
  then show "take 13 (p[1 := 0x0f]) = prefs_as_bytes (prefs_encode_framed st PrefsCompact)"
    using prefs_as_bytes_take [of st "decoded_prefs_framing d"] by simp
next
  fix p st i b
  assume acc: "tryq (prefs_decode_for_transport p kind profile) (\<lambda>d. Inr (decoded_prefs_state d)) = Inr st"
    and i: "3 \<le> i \<and> i < 13" "i < length p" "b \<noteq> p ! i"
  have ck: "13 \<le> length q \<and> from_be16 (q ! 11) (q ! (11 + 1)) = sum16 (slice 3 11 q)"
    if "prefs_decode_for_transport q kind profile = Inr d" for q d
    using that prefs_declared_checksum unfolding prefs_decode_for_transport_eq_Inr by blast
  from acc obtain d where "prefs_decode_for_transport p kind profile = Inr d" by auto
  from ck [OF this] have "from_be16 (p[i := b] ! 11) (p[i := b] ! (11 + 1)) \<noteq> sum16 (slice 3 11 (p[i := b]))"
    using i by (intro checksum_detects) auto
  then show "is_ok (tryq (prefs_decode_for_transport (p[i := b]) kind profile) (\<lambda>d. Inr (decoded_prefs_state d))) = False"
    using ck [of "p[i := b]"] by (auto simp: is_ok_iff)
qed

section \<open>Properties\<close>

text \<open>The preferences decoder accepts exactly the images of the raw states: a packet decodes for
  a profile on a transport if and only if it is the encoder's image of a state of that profile,
  in a framing the transport supports, with a declared length that transport reports.\<close>

theorem prefs_decode_exact:
  "prefs_decode_for_transport p t e = Inr d \<longleftrightarrow>
     prefs_profile (decoded_prefs_state d) = e
     \<and> (\<exists>report declared. prefs_encode_framed_for_transport (decoded_prefs_state d) t (decoded_prefs_framing d) = Inr report
          \<and> declared \<in> prefs_declared t \<and> p = (prefs_as_bytes report)[1 := declared])"
  (is "?l \<longleftrightarrow> ?r")
proof
  let ?img = "prefs_as_bytes (prefs_encode_framed (decoded_prefs_state d) (decoded_prefs_framing d))"
  {
    assume l: ?l
    note b = prefs_reencode_lemma [OF l]
    have "p = ?img[1 := p ! 1]" using b by (simp add: list_update_id)
    moreover have "p ! 1 \<in> prefs_declared t"
      using l by (auto simp: prefs_decode_for_transport_eq_Inr prefs_decode_declared_eq_Inr)
    moreover have "prefs_supports_transport (decoded_prefs_framing d) t"
      using l by (simp add: prefs_decode_for_transport_eq_Inr)
    ultimately show ?r
      using b by (auto simp: prefs_encode_framed_for_transport_def)
  next
    assume ?r
    then obtain declared where e: "prefs_profile (decoded_prefs_state d) = e"
      and p: "p = ?img[1 := declared]" and d: "declared \<in> prefs_declared t"
      and sup: "prefs_supports_transport (decoded_prefs_framing d) t"
      by (auto simp: prefs_encode_framed_for_transport_def split: if_splits)
    show ?l
      using prefs_decode_echo_framed [OF d sup, of "decoded_prefs_state d"] p e by (cases d) simp
  }
qed

text \<open>The typed views of the preferences bytes are exact: a deep-sleep time of one to sixty minutes
  stored in the configuration and deep-sleep bytes is read back, the low half of the configuration
  byte keeps its unrelated bits, and whatever pair of bytes reads as a time is the pair storing that
  time writes; the debounce byte likewise.\<close>

theorem typed_bytes_exact:
  "(deep_from_configuration cfg ds = Some d \<longleftrightarrow>
      wf_deep d \<and> configuration_with d cfg = cfg \<and> deep_sleep_byte d = ds)
   \<and> (wf_deep d \<longrightarrow> deep_from_configuration (configuration_with d cfg) (deep_sleep_byte d) = Some d
        \<and> configuration_with d cfg AND 0x0f = cfg AND 0x0f)
   \<and> (debounce_from_raw raw = Some b \<longleftrightarrow> wf_debounce b \<and> debounce_raw b = raw)"
  using deep_bytes [of d cfg] deep_from_raw_back [of cfg ds d] deep_fields(2) [of d cfg]
    debounce_bytes [of b] debounce_from_raw_back [of raw b]
  by auto

lemma typed_bytes_exact_witness:
  "deep_from_configuration (configuration_with (DeepSleepMinutes 37) 0x53) (deep_sleep_byte (DeepSleepMinutes 37))
     = Some (DeepSleepMinutes 37)
   \<and> configuration_with (DeepSleepMinutes 37) 0x53 AND 0x0f = 0x53 AND 0x0f"
  using typed_bytes_exact [where cfg = "0x53" and d = "DeepSleepMinutes 37"] by (auto simp: wf_deep_def)

end
