(* ===== verification/X3_Buttons.thy ===== *)
theory X3_Buttons
  imports X3_Validate
begin

text \<open>
  The button table, report \<open>0x08\<close> (\<^verbatim>\<open>protocol/buttons.rs\<close>): the raw slots, the
  typed X3 actions and their three-byte encodings, and the 59-byte report.
\<close>

section \<open>Raw slots\<close>

record button_assignment =
  slot_action :: u8
  slot_modifier :: u8
  slot_key_code :: u8

definition assignment_new :: "u8 \<Rightarrow> u8 \<Rightarrow> u8 \<Rightarrow> button_assignment" where
  "assignment_new action modifier key_code =
     \<lparr>slot_action = action, slot_modifier = modifier, slot_key_code = key_code\<rparr>"

definition assignment_as_bytes :: "button_assignment \<Rightarrow> u8 list" where
  "assignment_as_bytes s = [slot_action s, slot_modifier s, slot_key_code s]"

definition BUTTON_REPORT_ID :: u8 where "BUTTON_REPORT_ID = 0x08"
definition BUTTON_DECLARED_LENGTH :: u8 where "BUTTON_DECLARED_LENGTH = 0x3b"
definition BUTTON_RECEIVER_DECLARED_LENGTH :: u8 where "BUTTON_RECEIVER_DECLARED_LENGTH = 0x3d"
definition BUTTON_REPORT_LENGTH :: usize where "BUTTON_REPORT_LENGTH = 59"
definition BUTTON_SLOT_COUNT :: usize where "BUTTON_SLOT_COUNT = 18"
definition SLOTS_START :: usize where "SLOTS_START = 3"
definition SLOTS_END :: usize where "SLOTS_END = SLOTS_START + BUTTON_SLOT_COUNT * 3"
definition BUTTON_CHECKSUM_OFFSET :: usize where "BUTTON_CHECKSUM_OFFSET = SLOTS_END"

lemmas button_consts =
  BUTTON_REPORT_ID_def BUTTON_DECLARED_LENGTH_def BUTTON_RECEIVER_DECLARED_LENGTH_def
  BUTTON_REPORT_LENGTH_def BUTTON_SLOT_COUNT_def SLOTS_START_def SLOTS_END_def BUTTON_CHECKSUM_OFFSET_def

definition DEFAULT_BUTTON_SLOTS :: "button_assignment list" where
  "DEFAULT_BUTTON_SLOTS =
     [assignment_new 0x02 0x00 0x00, assignment_new 0x03 0x00 0x00, assignment_new 0x04 0x00 0x00,
      assignment_new 0x0d 0x00 0x00, assignment_new 0x3c 0x00 0x00, assignment_new 0x0f 0x00 0x00,
      assignment_new 0x06 0x00 0x00, assignment_new 0x05 0x00 0x00, assignment_new 0x3c 0x00 0x00,
      assignment_new 0x01 0x00 0x00, assignment_new 0x01 0x00 0x00, assignment_new 0x01 0x00 0x00,
      assignment_new 0x01 0x00 0x00, assignment_new 0x01 0x00 0x00, assignment_new 0x01 0x00 0x00,
      assignment_new 0x01 0x00 0x00, assignment_new 0x0a 0x00 0x00, assignment_new 0x09 0x00 0x00]"

section \<open>Typed actions\<close>

datatype button_action_error =
    UnsupportedAction u8 u8 u8
  | InvalidKeyboardModifiers u8
  | InvalidKeyboardUsage u8
  | UnexpectedParameters u8 u8 u8

datatype keyboard_modifiers = KeyboardModifiers (modifiers_bits: u8)

definition CTRL :: keyboard_modifiers where "CTRL = KeyboardModifiers 0x01"
definition SHIFT :: keyboard_modifiers where "SHIFT = KeyboardModifiers 0x02"
definition ALT :: keyboard_modifiers where "ALT = KeyboardModifiers 0x04"
definition WIN :: keyboard_modifiers where "WIN = KeyboardModifiers 0x08"

definition modifiers_new :: "u8 \<Rightarrow> keyboard_modifiers option" where
  "modifiers_new value = (if value AND NOT 0x0f = 0 then Some (KeyboardModifiers value) else None)"

definition wf_modifiers :: "keyboard_modifiers \<Rightarrow> bool" where
  "wf_modifiers m \<longleftrightarrow> modifiers_bits m AND NOT 0x0f = 0"

datatype hid_keyboard_usage = HidKeyboardUsage (usage_get: u8)

definition USAGE_MIN :: u8 where "USAGE_MIN = 0x04"
definition USAGE_MAX :: u8 where "USAGE_MAX = 0xe7"

definition usage_new :: "u8 \<Rightarrow> hid_keyboard_usage option" where
  "usage_new value =
     (if value \<ge> USAGE_MIN \<and> value \<le> USAGE_MAX then Some (HidKeyboardUsage value) else None)"

definition wf_usage :: "hid_keyboard_usage \<Rightarrow> bool" where
  "wf_usage k \<longleftrightarrow> 0x04 \<le> usage_get k \<and> usage_get k \<le> 0xe7"

datatype x3_button_action =
    Disable | LeftClick | RightClick | MiddleClick | Backward | Forward
  | DoubleClick | FireButton | ScrollUp | ScrollDown | DpiCycle | DpiPlus
  | DpiMinus | ProfileCycle | ProfilePlus | ProfileMinus | MediaPlayer | PreviousTrack
  | NextTrack | PlayPause | Stop | Mute | VolumeUp | VolumeDown
  | Calculator | Email | BrowserForward | BrowserBackward | BrowserStop | MyComputer
  | BrowserRefresh | BrowserHome | BrowserSearch
  | KeyboardShortcut keyboard_modifiers hid_keyboard_usage
  | Macro u8

fun to_assignment :: "x3_button_action \<Rightarrow> button_assignment" where
  "to_assignment Disable = assignment_new 0x01 0 0"
| "to_assignment LeftClick = assignment_new 0x02 0 0"
| "to_assignment RightClick = assignment_new 0x03 0 0"
| "to_assignment MiddleClick = assignment_new 0x04 0 0"
| "to_assignment Backward = assignment_new 0x05 0 0"
| "to_assignment Forward = assignment_new 0x06 0 0"
| "to_assignment DoubleClick = assignment_new 0x07 0 0"
| "to_assignment FireButton = assignment_new 0x08 0 0"
| "to_assignment ScrollUp = assignment_new 0x09 0 0"
| "to_assignment ScrollDown = assignment_new 0x0a 0 0"
| "to_assignment DpiCycle = assignment_new 0x0d 0 0"
| "to_assignment DpiPlus = assignment_new 0x0e 0 0"
| "to_assignment DpiMinus = assignment_new 0x0f 0 0"
| "to_assignment ProfileCycle = assignment_new 0x34 0 0"
| "to_assignment ProfilePlus = assignment_new 0x35 0 0"
| "to_assignment ProfileMinus = assignment_new 0x36 0 0"
| "to_assignment MediaPlayer = assignment_new 0x15 0 0"
| "to_assignment PreviousTrack = assignment_new 0x16 0 0"
| "to_assignment NextTrack = assignment_new 0x17 0 0"
| "to_assignment PlayPause = assignment_new 0x18 0 0"
| "to_assignment Stop = assignment_new 0x19 0 0"
| "to_assignment Mute = assignment_new 0x1a 0 0"
| "to_assignment VolumeUp = assignment_new 0x1b 0 0"
| "to_assignment VolumeDown = assignment_new 0x1c 0 0"
| "to_assignment Calculator = assignment_new 0x1d 0 0"
| "to_assignment Email = assignment_new 0x1e 0 0"
| "to_assignment BrowserForward = assignment_new 0x20 0 0"
| "to_assignment BrowserBackward = assignment_new 0x21 0 0"
| "to_assignment BrowserStop = assignment_new 0x22 0 0"
| "to_assignment MyComputer = assignment_new 0x23 0 0"
| "to_assignment BrowserRefresh = assignment_new 0x24 0 0"
| "to_assignment BrowserHome = assignment_new 0x25 0 0"
| "to_assignment BrowserSearch = assignment_new 0x26 0 0"
| "to_assignment (KeyboardShortcut modifiers key) = assignment_new 0x11 (modifiers_bits modifiers) (usage_get key)"
| "to_assignment (Macro reference) = assignment_new 0x12 0 reference"

definition parameterless_action :: "u8 \<Rightarrow> x3_button_action option" where
  "parameterless_action action =
     (if action = 0x01 then Some Disable
      else if action = 0x02 then Some LeftClick
      else if action = 0x03 then Some RightClick
      else if action = 0x04 then Some MiddleClick
      else if action = 0x05 then Some Backward
      else if action = 0x06 then Some Forward
      else if action = 0x07 then Some DoubleClick
      else if action = 0x08 then Some FireButton
      else if action = 0x09 then Some ScrollUp
      else if action = 0x0a then Some ScrollDown
      else if action = 0x0d then Some DpiCycle
      else if action = 0x0e then Some DpiPlus
      else if action = 0x0f then Some DpiMinus
      else if action = 0x15 then Some MediaPlayer
      else if action = 0x16 then Some PreviousTrack
      else if action = 0x17 then Some NextTrack
      else if action = 0x18 then Some PlayPause
      else if action = 0x19 then Some Stop
      else if action = 0x1a then Some Mute
      else if action = 0x1b then Some VolumeUp
      else if action = 0x1c then Some VolumeDown
      else if action = 0x1d then Some Calculator
      else if action = 0x1e then Some Email
      else if action = 0x20 then Some BrowserForward
      else if action = 0x21 then Some BrowserBackward
      else if action = 0x22 then Some BrowserStop
      else if action = 0x23 then Some MyComputer
      else if action = 0x24 then Some BrowserRefresh
      else if action = 0x25 then Some BrowserHome
      else if action = 0x26 then Some BrowserSearch
      else if action = 0x34 then Some ProfileCycle
      else if action = 0x35 then Some ProfilePlus
      else if action = 0x36 then Some ProfileMinus
      else None)"

definition action_try_from :: "button_assignment \<Rightarrow> (button_action_error, x3_button_action) result" where
  "action_try_from assignment =
     (case parameterless_action (slot_action assignment) of
        Some action \<Rightarrow>
          if slot_modifier assignment \<noteq> 0 \<or> slot_key_code assignment \<noteq> 0
          then Inl (UnexpectedParameters (slot_action assignment) (slot_modifier assignment)
                      (slot_key_code assignment))
          else Inr action
      | None \<Rightarrow>
          if slot_action assignment = 0x11 then
            tryq (ok_or (InvalidKeyboardModifiers (slot_modifier assignment))
                    (modifiers_new (slot_modifier assignment))) (\<lambda>modifiers.
            tryq (ok_or (InvalidKeyboardUsage (slot_key_code assignment))
                    (usage_new (slot_key_code assignment))) (\<lambda>key.
            Inr (KeyboardShortcut modifiers key)))
          else if slot_action assignment = 0x12 \<and> slot_modifier assignment = 0 then
            Inr (Macro (slot_key_code assignment))
          else Inl (UnsupportedAction (slot_action assignment) (slot_modifier assignment)
                      (slot_key_code assignment)))"

fun wf_action :: "x3_button_action \<Rightarrow> bool" where
  "wf_action (KeyboardShortcut modifiers key) \<longleftrightarrow> wf_modifiers modifiers \<and> wf_usage key"
| "wf_action _ \<longleftrightarrow> True"

section \<open>The table and its report\<close>

record buttons_state =
  buttons_profile :: profile_id
  buttons_slots :: "button_assignment list"

definition buttons_new :: "profile_id \<Rightarrow> button_assignment list \<Rightarrow> buttons_state" where
  "buttons_new profile slots = \<lparr>buttons_profile = profile, buttons_slots = slots\<rparr>"

definition buttons_default_for_profile :: "profile_id \<Rightarrow> buttons_state" where
  "buttons_default_for_profile profile = \<lparr>buttons_profile = profile, buttons_slots = DEFAULT_BUTTON_SLOTS\<rparr>"

text \<open>The table is a fixed array of 18 slots.\<close>

definition wf_buttons :: "buttons_state \<Rightarrow> bool" where
  "wf_buttons st \<longleftrightarrow> length (buttons_slots st) = 18"

definition write_slots :: "button_assignment list \<Rightarrow> packet \<Rightarrow> packet" where
  "write_slots slots bytes =
     foldl (\<lambda>bytes (index, slot). write_at (SLOTS_START + index * 3) (assignment_as_bytes slot) bytes)
       bytes (enumerate 0 slots)"

definition buttons_encode :: "buttons_state \<Rightarrow> packet" where
  "buttons_encode st =
     (let bytes = replicate BUTTON_REPORT_LENGTH 0;
          bytes = bytes[0 := BUTTON_REPORT_ID];
          bytes = bytes[1 := BUTTON_DECLARED_LENGTH];
          bytes = bytes[2 := profile_get (buttons_profile st)];
          bytes = write_slots (buttons_slots st) bytes;
          checksum = sum16 (slice SLOTS_START SLOTS_END bytes)
      in write_at BUTTON_CHECKSUM_OFFSET (be_bytes16 checksum) bytes)"

definition read_slots :: "packet \<Rightarrow> button_assignment list" where
  "read_slots packet =
     map (\<lambda>index. let offset = SLOTS_START + index * 3
                  in assignment_new (packet ! offset) (packet ! (offset + 1)) (packet ! (offset + 2)))
       [0..<BUTTON_SLOT_COUNT]"

definition buttons_decode_with_declared_length ::
  "packet \<Rightarrow> profile_id \<Rightarrow> u8 \<Rightarrow> buttons_state protocol_result" where
  "buttons_decode_with_declared_length packet expected_profile declared_length =
     (if length packet \<noteq> BUTTON_REPORT_LENGTH
        then Inl (InvalidReportLength BUTTON_REPORT_LENGTH (length packet))
      else if packet ! 0 \<noteq> BUTTON_REPORT_ID
        then Inl (UnexpectedReportId BUTTON_REPORT_ID (packet ! 0))
      else if packet ! 1 \<noteq> declared_length
        then Inl (UnexpectedDeclaredLength declared_length (packet ! 1))
      else if packet ! 2 \<noteq> profile_get expected_profile
        then Inl (ProfileMismatch (profile_get expected_profile) (packet ! 2))
      else let actual_checksum =
                 from_be16 (packet ! BUTTON_CHECKSUM_OFFSET) (packet ! (BUTTON_CHECKSUM_OFFSET + 1));
               expected_checksum = sum16 (slice SLOTS_START SLOTS_END packet)
           in if actual_checksum \<noteq> expected_checksum
              then Inl (ChecksumMismatch expected_checksum actual_checksum)
              else Inr (buttons_new expected_profile (read_slots packet)))"

definition buttons_decode :: "packet \<Rightarrow> profile_id \<Rightarrow> buttons_state protocol_result" where
  "buttons_decode packet expected_profile =
     buttons_decode_with_declared_length packet expected_profile BUTTON_DECLARED_LENGTH"

definition buttons_declared :: "transport_kind \<Rightarrow> u8" where
  "buttons_declared transport =
     (case transport of Receiver \<Rightarrow> BUTTON_RECEIVER_DECLARED_LENGTH
      | Wired \<Rightarrow> BUTTON_DECLARED_LENGTH | Ble \<Rightarrow> BUTTON_DECLARED_LENGTH)"

definition buttons_decode_for_transport ::
  "packet \<Rightarrow> transport_kind \<Rightarrow> profile_id \<Rightarrow> buttons_state protocol_result" where
  "buttons_decode_for_transport packet transport expected_profile =
     buttons_decode_with_declared_length packet expected_profile (buttons_declared transport)"

section \<open>Actions and slots\<close>

lemma modifiers_new_eq_Some: "modifiers_new v = Some m \<longleftrightarrow> m = KeyboardModifiers v \<and> wf_modifiers m"
  by (auto simp: modifiers_new_def wf_modifiers_def)

lemma usage_new_eq_Some: "usage_new v = Some k \<longleftrightarrow> k = HidKeyboardUsage v \<and> wf_usage k"
  by (auto simp: usage_new_def wf_usage_def USAGE_MIN_def USAGE_MAX_def)

lemma parameterless_to_assignment:
  "parameterless_action n = Some a \<Longrightarrow> to_assignment a = assignment_new n 0 0 \<and> wf_action a"
  unfolding parameterless_action_def by (auto split: if_splits)

lemma parameterless_None [simp]: "parameterless_action 0x11 = None" "parameterless_action 0x12 = None"
  by (simp_all add: parameterless_action_def)

lemma assignment_new_eq [simp]:
  "assignment_new a m k = s \<longleftrightarrow> slot_action s = a \<and> slot_modifier s = m \<and> slot_key_code s = k"
  by (cases s) (auto simp: assignment_new_def)

lemma assignment_new_sel [simp]:
  "slot_action (assignment_new a m k) = a"
  "slot_modifier (assignment_new a m k) = m"
  "slot_key_code (assignment_new a m k) = k"
  by (simp_all add: assignment_new_def)

lemma action_to_assignment_back: "wf_action a \<Longrightarrow> action_try_from (to_assignment a) = Inr a"
  by (cases a)
     (simp_all add: action_try_from_def parameterless_action_def modifiers_new_eq_Some usage_new_eq_Some)

lemma action_try_from_sound: "action_try_from s = Inr a \<Longrightarrow> to_assignment a = s \<and> wf_action a"
  using parameterless_to_assignment [of "slot_action s"]
  by (auto simp: action_try_from_def modifiers_new_eq_Some usage_new_eq_Some
      split: option.splits if_splits)

section \<open>The image of a table\<close>

lemma length_assignment_as_bytes [simp]: "length (assignment_as_bytes s) = 3"
  by (simp add: assignment_as_bytes_def)

definition slot_image :: "button_assignment list \<Rightarrow> packet" where
  "slot_image slots = concat (map assignment_as_bytes slots)"

lemma length_slot_image [simp]: "length (slot_image slots) = 3 * length slots"
  by (induction slots) (simp_all add: slot_image_def)

lemma write_slots_image:
  assumes "length body = 3 * length slots"
  shows "write_slots slots ([a, b, c] @ body @ rest) = [a, b, c] @ slot_image slots @ rest"
  using foldl_write_chunks [where xs = slots and f = assignment_as_bytes and w = 3 and pre = "[a, b, c]"
      and s = 3 and k = 0 and body = body and post = rest] assms
  by (simp add: write_slots_def slot_image_def SLOTS_START_def)

lemma buttons_encode_layout [layout]:
  assumes "wf_buttons st"
  shows "buttons_encode st = [0x08, 0x3b, profile_get (buttons_profile st)]
    @ slot_image (buttons_slots st) @ be_bytes16 (sum16 (slot_image (buttons_slots st)))"
proof -
  have zeros: "(replicate 59 (0 :: u8))[0 := 0x08, Suc 0 := 0x3b, 2 := x]
      = [0x08, 0x3b, x] @ replicate 54 0 @ replicate 2 0" for x
    by (simp add: numeral_eq_Suc)
  have len: "length (replicate 54 (0 :: u8)) = 3 * length (buttons_slots st)"
    using assms by (simp add: wf_buttons_def)
  have 2: "slice 3 57 ([x, y, z] @ slot_image (buttons_slots st) @ replicate 2 0)
      = slot_image (buttons_slots st)" for x y z
    using assms by (simp add: slice_def wf_buttons_def)
  have 3: "write_at 57 (be_bytes16 c) ([x, y, z] @ slot_image (buttons_slots st) @ replicate 2 0)
      = [x, y, z] @ slot_image (buttons_slots st) @ be_bytes16 c" for c x y z
    using assms by (simp add: write_at_def wf_buttons_def)
  have offs: "SLOTS_END = 57" "BUTTON_CHECKSUM_OFFSET = 57"
    by (simp_all add: button_consts)
  show ?thesis
    unfolding buttons_encode_def offs SLOTS_START_def BUTTON_REPORT_LENGTH_def BUTTON_REPORT_ID_def
      BUTTON_DECLARED_LENGTH_def Let_def One_nat_def zeros write_slots_image [OF len] 2 3 ..
qed

lemma read_slots_image:
  assumes "length slots = 18"
  shows "read_slots ([a, b, c] @ slot_image slots @ rest) = slots"
proof (rule nth_equalityI)
  fix i assume "i < length (read_slots ([a, b, c] @ slot_image slots @ rest))"
  then have i: "i < 18" by (simp add: read_slots_def button_consts)
  have "([a, b, c] @ slot_image slots @ rest) ! (3 + i * 3 + j) = assignment_as_bytes (slots ! i) ! j"
    if "j < 3" for j
    using nth_concat_chunks [of slots assignment_as_bytes 3 i j] that i assms
    by (simp add: nth_append slot_image_def [symmetric] add.assoc)
  from this [of 0] this [of 1] this [of 2]
  show "read_slots ([a, b, c] @ slot_image slots @ rest) ! i = slots ! i"
    using i by (simp add: read_slots_def button_consts assignment_as_bytes_def add.assoc)
qed (simp add: read_slots_def button_consts assms)

lemma slot_image_read_slots:
  assumes "length p = 59"
  shows "slot_image (read_slots p) = slice 3 57 p"
proof -
  have "slot_image (read_slots p) = concat (map (\<lambda>i. slice (3 + i * 3) (3 + i * 3 + 3) p) [0..<18])"
    unfolding slot_image_def read_slots_def map_map
    by (rule arg_cong [where f = concat], rule map_cong)
       (auto simp: button_consts assignment_as_bytes_def assms slice_def numeral_3_eq_3
         intro!: nth_equalityI simp: less_Suc_eq)
  also have "\<dots> = slice 3 57 p"
    using concat_slices [where s = 3 and w = 3 and n = 18 and xs = p] assms by simp
  finally show ?thesis .
qed

section \<open>Acceptance\<close>

lemma buttons_decode_eq_Inr:
  "buttons_decode_with_declared_length p e dl = Inr st \<longleftrightarrow>
     (\<exists>hi lo. wf_buttons st \<and> buttons_profile st = e
        \<and> p = [0x08, dl, profile_get e] @ slot_image (buttons_slots st) @ [hi, lo]
        \<and> from_be16 hi lo = sum16 (slot_image (buttons_slots st)))"
  (is "?l \<longleftrightarrow> ?r")
proof
  have offs: "SLOTS_END = 57" "BUTTON_CHECKSUM_OFFSET = 57"
    by (simp_all add: button_consts)
  note defs = buttons_decode_with_declared_length_def offs SLOTS_START_def BUTTON_REPORT_LENGTH_def
    BUTTON_REPORT_ID_def Let_def
  {
    assume ?l
    then have len: "length p = 59" and h: "p ! 0 = 0x08" "p ! 1 = dl" "p ! 2 = profile_get e"
      and sum: "from_be16 (p ! 57) (p ! (57 + 1)) = sum16 (slice 3 57 p)"
      and st: "st = buttons_new e (read_slots p)"
      unfolding defs by (auto simp: eq_commute split: if_splits)
    have "p = slice 0 3 p @ slice 3 57 p @ slice 57 59 p"
      using len by (simp add: slice_append) (simp add: slice_def)
    moreover have "slice 0 3 p = [p ! 0, p ! 1, p ! 2]" "slice 57 59 p = [p ! 57, p ! (57 + 1)]"
      using len by (auto simp: slice_eq_iff_nth less_Suc_eq numeral_3_eq_3 numeral_2_eq_2)
    ultimately have "p = [0x08, dl, profile_get e] @ slot_image (read_slots p) @ [p ! 57, p ! (57 + 1)]"
      unfolding h slot_image_read_slots [OF len] by simp
    moreover have "wf_buttons st" "buttons_profile st = e" "buttons_slots st = read_slots p"
      using st by (simp_all add: wf_buttons_def buttons_new_def read_slots_def button_consts)
    ultimately show ?r
      using sum unfolding slot_image_read_slots [OF len, symmetric] by metis
  next
    assume ?r
    then obtain hi lo where w: "wf_buttons st" "buttons_profile st = e"
      and p: "p = [0x08, dl, profile_get e] @ slot_image (buttons_slots st) @ [hi, lo]"
      and sum: "from_be16 hi lo = sum16 (slot_image (buttons_slots st))" by blast
    have n: "length (buttons_slots st) = 18" using w by (simp add: wf_buttons_def)
    have b: "length p = 59" "p ! 0 = 0x08" "p ! 1 = dl" "p ! 2 = profile_get e"
      "p ! 57 = hi" "p ! (57 + 1) = lo" "slice 3 57 p = slot_image (buttons_slots st)"
      using n unfolding p by (simp_all add: nth_append slice_def nth_Cons')
    have "read_slots p = buttons_slots st"
      unfolding p by (rule read_slots_image [OF n])
    then show ?l
      unfolding defs b using sum w(2) by (cases st) (simp add: buttons_new_def)
  }
qed

lemma buttons_encode_accepted:
  "wf_buttons st \<Longrightarrow> buttons_decode (buttons_encode st) (buttons_profile st) = Inr st"
  by (auto simp: buttons_decode_def buttons_decode_eq_Inr buttons_encode_layout be_bytes16_def button_consts)

lemma buttons_accepted_encode:
  assumes "buttons_decode_with_declared_length p e dl = Inr st"
  shows "buttons_encode st = p[1 := 0x3b]" and "wf_buttons st" and "buttons_profile st = e"
proof -
  from assms obtain hi lo where w: "wf_buttons st" "buttons_profile st = e"
    and p: "p = [0x08, dl, profile_get e] @ slot_image (buttons_slots st) @ [hi, lo]"
    and sum: "sum16 (slot_image (buttons_slots st)) = from_be16 hi lo"
    unfolding buttons_decode_eq_Inr by auto
  show "buttons_encode st = p[1 := 0x3b]"
    unfolding buttons_encode_layout [OF w(1)] sum p w(2) by simp
qed (use assms in \<open>auto simp: buttons_decode_eq_Inr\<close>)

section \<open>The codec contract\<close>

lemma buttons_decode_checksum:
  assumes "buttons_decode_with_declared_length p e dl = Inr st"
  shows "length p = 59 \<and> from_be16 (p ! 57) (p ! (57 + 1)) = sum16 (slice 3 57 p)"
proof -
  have "SLOTS_END = 57" "BUTTON_CHECKSUM_OFFSET = 57"
    by (simp_all add: button_consts)
  then show ?thesis
    using assms by (auto simp: buttons_decode_with_declared_length_def Let_def SLOTS_START_def
        BUTTON_REPORT_LENGTH_def split: if_splits)
qed

lemma buttons_decode_echo:
  assumes "wf_buttons st"
  shows "buttons_decode_with_declared_length ((buttons_encode st)[1 := dl]) (buttons_profile st) dl = Inr st"
  using assms
  by (auto simp: buttons_decode_eq_Inr buttons_encode_layout be_bytes16_def)

interpretation buttons_codec:
  checked_codec buttons_encode "\<lambda>p. buttons_decode_for_transport p kind profile"
    "\<lambda>st. wf_buttons st \<and> buttons_profile st = profile" "\<lambda>p. p[1 := buttons_declared kind]"
    "\<lambda>p. p[1 := 0x3b]" "\<lambda>i. 3 \<le> i"
  for profile :: profile_id and kind :: transport_kind
proof unfold_locales
  fix p st i b
  assume p: "buttons_decode_for_transport p kind profile = Inr st" and i: "3 \<le> i" "i < length p" "b \<noteq> p ! i"
  show "is_ok (buttons_decode_for_transport (p[i := b]) kind profile) = False"
    using checksum_detects [of 3 i 57 p b] i buttons_decode_checksum [of p profile "buttons_declared kind" st]
      buttons_decode_checksum [of "p[i := b]" profile "buttons_declared kind"] p
    by (auto simp: is_ok_iff buttons_decode_for_transport_def)
qed (auto simp: buttons_decode_for_transport_def buttons_decode_echo [simplified] buttons_accepted_encode)

section \<open>Properties\<close>

text \<open>A raw slot is a typed X3 action exactly when it is that action's encoding: decoding a slot
  yields an action if and only if the action is well formed and encodes to the slot.\<close>

theorem action_decode_exact:
  "action_try_from s = Inr a \<longleftrightarrow> wf_action a \<and> to_assignment a = s"
  using action_to_assignment_back action_try_from_sound by blast

text \<open>The button-table decoder accepts exactly the images of 18-slot tables for the expected
  profile, with the declared length of the transport.\<close>

theorem buttons_decode_exact:
  "buttons_decode_for_transport p kind e = Inr st \<longleftrightarrow>
     wf_buttons st \<and> buttons_profile st = e \<and> p = (buttons_encode st)[1 := buttons_declared kind]"
proof -
  have "p ! 1 = dl" if "buttons_decode_with_declared_length p e dl = Inr st" for dl
    using that by (auto simp: buttons_decode_eq_Inr)
  then have "p = (p[1 := 0x3b])[1 := dl]" if "buttons_decode_with_declared_length p e dl = Inr st" for dl
    using that list_update_id [of p 1] by simp
  then show ?thesis
    using buttons_decode_echo [of st] buttons_accepted_encode [of p e _ st]
    unfolding buttons_decode_for_transport_def by metis
qed

end
