(* ===== verification/X3_Profile.thy ===== *)
theory X3_Profile
  imports X3_Validate
begin

text \<open>
  Profile control (\<^verbatim>\<open>protocol/profile.rs\<close>): the current/maximum metadata, the control write
  \<open>0x0c\<close> in its two framings, the ten-byte metadata read-back, the read-back requests with the
  selector report \<open>0xa0\<close> that arms one read, and the readiness mailbox.
\<close>

section \<open>Metadata and the control write\<close>

definition PROFILE_REPORT_ID :: u8 where "PROFILE_REPORT_ID = 0x0c"
definition PROFILE_DECLARED_LENGTH :: u8 where "PROFILE_DECLARED_LENGTH = 0x0a"
definition PROFILE_RECEIVER_DECLARED_LENGTH :: u8 where "PROFILE_RECEIVER_DECLARED_LENGTH = 0x0c"
definition PROFILE_CONTROL_COMPACT_LENGTH :: usize where "PROFILE_CONTROL_COMPACT_LENGTH = 6"
definition PROFILE_REPORT_LENGTH :: usize where "PROFILE_REPORT_LENGTH = 10"
definition READ_SELECTOR_REPORT_ID :: u8 where "READ_SELECTOR_REPORT_ID = 0xa0"
definition READ_SELECTOR_LENGTH :: usize where "READ_SELECTOR_LENGTH = 8"
definition PROFILE_METADATA_SUBTYPE :: u8 where "PROFILE_METADATA_SUBTYPE = 0x01"
definition OBSERVED_UNTARGETED_PARAMETER :: u8 where "OBSERVED_UNTARGETED_PARAMETER = 0x01"

lemmas profile_consts =
  PROFILE_REPORT_ID_def PROFILE_DECLARED_LENGTH_def PROFILE_RECEIVER_DECLARED_LENGTH_def
  PROFILE_CONTROL_COMPACT_LENGTH_def PROFILE_REPORT_LENGTH_def READ_SELECTOR_REPORT_ID_def
  READ_SELECTOR_LENGTH_def PROFILE_METADATA_SUBTYPE_def OBSERVED_UNTARGETED_PARAMETER_def

record profile_metadata =
  meta_current :: profile_id
  meta_maximum :: profile_id

definition metadata_new :: "profile_id \<Rightarrow> profile_id \<Rightarrow> profile_metadata protocol_result" where
  "metadata_new current maximum =
     (if profile_get current > profile_get maximum
      then Inl (InvalidProfileRange (profile_get current) (profile_get maximum))
      else Inr \<lparr>meta_current = current, meta_maximum = maximum\<rparr>)"

definition wf_metadata :: "profile_metadata \<Rightarrow> bool" where
  "wf_metadata m \<longleftrightarrow> wf_profile (meta_current m) \<and> wf_profile (meta_maximum m)
     \<and> profile_get (meta_current m) \<le> profile_get (meta_maximum m)"

datatype profile_control_framing = ControlCompact | ControlFull

definition control_transmitted_length :: "profile_control_framing \<Rightarrow> usize" where
  "control_transmitted_length f =
     (case f of ControlCompact \<Rightarrow> PROFILE_CONTROL_COMPACT_LENGTH | ControlFull \<Rightarrow> PROFILE_REPORT_LENGTH)"

definition control_supports_transport :: "profile_control_framing \<Rightarrow> transport_kind \<Rightarrow> bool" where
  "control_supports_transport f transport =
     (case f of ControlCompact \<Rightarrow> True
      | ControlFull \<Rightarrow> (case transport of Wired \<Rightarrow> True | Receiver \<Rightarrow> True | Ble \<Rightarrow> False))"

definition control_valid_lengths :: "transport_kind \<Rightarrow> usize list" where
  "control_valid_lengths transport =
     (case transport of Ble \<Rightarrow> [PROFILE_CONTROL_COMPACT_LENGTH]
      | Wired \<Rightarrow> [PROFILE_CONTROL_COMPACT_LENGTH, PROFILE_REPORT_LENGTH]
      | Receiver \<Rightarrow> [PROFILE_CONTROL_COMPACT_LENGTH, PROFILE_REPORT_LENGTH])"

record profile_control_report =
  control_bytes :: packet
  control_length :: usize

definition control_encode :: "profile_metadata \<Rightarrow> profile_control_framing \<Rightarrow> profile_control_report" where
  "control_encode metadata framing =
     (let current = profile_get (meta_current metadata);
          maximum = profile_get (meta_maximum metadata);
          bytes = replicate PROFILE_REPORT_LENGTH 0;
          bytes = write_at 0 [PROFILE_REPORT_ID, PROFILE_DECLARED_LENGTH, current, NOT current,
                              maximum, NOT maximum] bytes
      in \<lparr>control_bytes = bytes, control_length = control_transmitted_length framing\<rparr>)"

definition control_encode_for_transport ::
  "profile_metadata \<Rightarrow> transport_kind \<Rightarrow> profile_control_framing \<Rightarrow> profile_control_report protocol_result" where
  "control_encode_for_transport metadata transport framing =
     (if \<not> control_supports_transport framing transport
      then Inl (InvalidReportLength (control_transmitted_length ControlCompact)
                  (control_transmitted_length framing))
      else Inr (control_encode metadata framing))"

definition control_as_bytes :: "profile_control_report \<Rightarrow> packet" where
  "control_as_bytes r = take (control_length r) (control_bytes r)"

section \<open>The metadata read-back\<close>

record profile_metadata_report =
  report_metadata :: profile_metadata
  report_metadata_bytes :: packet

definition metadata_decode_with_declared_length :: "packet \<Rightarrow> u8 \<Rightarrow> profile_metadata_report protocol_result" where
  "metadata_decode_with_declared_length packet declared_length =
     (if length packet \<noteq> PROFILE_REPORT_LENGTH
        then Inl (InvalidReportLength PROFILE_REPORT_LENGTH (length packet))
      else if packet ! 0 \<noteq> PROFILE_REPORT_ID
        then Inl (UnexpectedReportId PROFILE_REPORT_ID (packet ! 0))
      else if packet ! 1 \<noteq> declared_length
        then Inl (UnexpectedDeclaredLength declared_length (packet ! 1))
      else tryq (validate_fixed_byte packet 2 PROFILE_METADATA_SUBTYPE) (\<lambda>_.
           tryq (validate_complement ''current profile'' (packet ! 3) (packet ! 4)) (\<lambda>_.
           tryq (validate_complement ''maximum profile'' (packet ! 5) (packet ! 6)) (\<lambda>_.
           tryq (validate_fixed_range packet 7 PROFILE_REPORT_LENGTH 0) (\<lambda>_.
           tryq (profile_try_from (packet ! 3)) (\<lambda>current.
           tryq (profile_try_from (packet ! 5)) (\<lambda>maximum.
           tryq (metadata_new current maximum) (\<lambda>metadata.
           Inr \<lparr>report_metadata = metadata, report_metadata_bytes = packet\<rparr>))))))))"

definition metadata_decode :: "packet \<Rightarrow> profile_metadata_report protocol_result" where
  "metadata_decode packet = metadata_decode_with_declared_length packet PROFILE_DECLARED_LENGTH"

definition metadata_declared :: "transport_kind \<Rightarrow> u8" where
  "metadata_declared transport =
     (case transport of Receiver \<Rightarrow> PROFILE_RECEIVER_DECLARED_LENGTH
      | Wired \<Rightarrow> PROFILE_DECLARED_LENGTH | Ble \<Rightarrow> PROFILE_DECLARED_LENGTH)"

definition metadata_decode_for_transport ::
  "packet \<Rightarrow> transport_kind \<Rightarrow> profile_metadata_report protocol_result" where
  "metadata_decode_for_transport packet transport =
     metadata_decode_with_declared_length packet (metadata_declared transport)"

section \<open>Read requests and readiness\<close>

datatype readback_request =
    ReadVersion
  | ReadProfileMetadata
  | ReadPollingRate profile_id
  | ReadDpi profile_id
  | ReadPreferences profile_id
  | ReadButtons profile_id

fun request_report_id :: "readback_request \<Rightarrow> u8" where
  "request_report_id ReadVersion = 0x0b"
| "request_report_id (ReadPollingRate _) = 0x06"
| "request_report_id ReadProfileMetadata = PROFILE_REPORT_ID"
| "request_report_id (ReadDpi _) = 0x04"
| "request_report_id (ReadPreferences _) = 0x05"
| "request_report_id (ReadButtons _) = 0x08"

fun request_report_length :: "readback_request \<Rightarrow> u8" where
  "request_report_length ReadVersion = 0x08"
| "request_report_length ReadProfileMetadata = PROFILE_DECLARED_LENGTH"
| "request_report_length (ReadPollingRate _) = 0x09"
| "request_report_length (ReadDpi _) = 0x38"
| "request_report_length (ReadPreferences _) = 0x0f"
| "request_report_length (ReadButtons _) = 0x3b"

fun request_target_profile :: "readback_request \<Rightarrow> profile_id option" where
  "request_target_profile (ReadDpi profile) = Some profile"
| "request_target_profile (ReadPreferences profile) = Some profile"
| "request_target_profile (ReadButtons profile) = Some profile"
| "request_target_profile (ReadPollingRate profile) = Some profile"
| "request_target_profile ReadVersion = None"
| "request_target_profile ReadProfileMetadata = None"

definition request_selector_parameter :: "readback_request \<Rightarrow> u8" where
  "request_selector_parameter request =
     (case request_target_profile request of Some profile \<Rightarrow> profile_get profile
      | None \<Rightarrow> OBSERVED_UNTARGETED_PARAMETER)"

definition selector_encode :: "readback_request \<Rightarrow> packet" where
  "selector_encode request =
     [READ_SELECTOR_REPORT_ID, request_report_id request, request_report_length request, 0,
      request_selector_parameter request, 0, 0, 0]"

datatype readiness_status = NotReady | ReadyStatus

definition readiness_decode :: "packet \<Rightarrow> readiness_status protocol_result" where
  "readiness_decode packet =
     (if length packet \<noteq> READ_SELECTOR_LENGTH
        then Inl (InvalidReportLength READ_SELECTOR_LENGTH (length packet))
      else if packet ! 0 \<noteq> READ_SELECTOR_REPORT_ID
        then Inl (UnexpectedReportId READ_SELECTOR_REPORT_ID (packet ! 0))
      else tryq (validate_fixed_range packet 2 READ_SELECTOR_LENGTH 0) (\<lambda>_.
        if packet ! 1 = 0 then Inr NotReady
        else if packet ! 1 = 1 then Inr ReadyStatus
        else Inl (InvalidReadinessStatus (packet ! 1))))"

section \<open>Metadata and control images\<close>

lemma metadata_new_eq_Inr [simp]:
  "metadata_new c m = Inr x \<longleftrightarrow>
     x = \<lparr>meta_current = c, meta_maximum = m\<rparr> \<and> profile_get c \<le> profile_get m"
  by (auto simp: metadata_new_def not_less)

lemma control_as_bytes_layout [layout]:
  "control_as_bytes (control_encode m f) =
     (let c = profile_get (meta_current m); x = profile_get (meta_maximum m)
      in [0x0c, 0x0a, c, NOT c, x, NOT x] @ (if f = ControlFull then [0, 0, 0, 0] else []))"
  by (cases f) (simp_all add: control_as_bytes_def control_encode_def control_transmitted_length_def
      profile_consts write_at_def numeral_eq_Suc Let_def)

lemma packet10:
  "length p = 10 \<longleftrightarrow> (\<exists>a b c d e f g h i j. p = [a, b, c, d, e, f, g, h, i, j])"
  by (auto simp: numeral_eq_Suc length_Suc_conv)

lemma range_7_10: "(\<forall>i. 7 \<le> i \<and> i < 10 \<longrightarrow> P i) \<longleftrightarrow> P 7 \<and> P 8 \<and> P (9 :: nat)"
proof -
  have "7 \<le> i \<and> i < 10 \<longleftrightarrow> i = 7 \<or> i = 8 \<or> i = 9" for i :: nat
    by linarith
  then show ?thesis by auto
qed

lemma metadata_decode_eq_Inr:
  "metadata_decode_with_declared_length p dl = Inr r \<longleftrightarrow>
     wf_metadata (report_metadata r) \<and> report_metadata_bytes r = p
     \<and> p = (let c = profile_get (meta_current (report_metadata r));
                x = profile_get (meta_maximum (report_metadata r))
            in [0x0c, dl, 0x01, c, NOT c, x, NOT x, 0, 0, 0])"
proof (cases "length p = 10")
  case True
  then obtain a b c d e f g h i j where p: "p = [a, b, c, d, e, f, g, h, i, j]"
    unfolding packet10 by blast
  show ?thesis
    unfolding p metadata_decode_with_declared_length_def
    by (cases r; cases "report_metadata r")
       (auto simp: profile_consts range_7_10 wf_metadata_def Let_def eq_commute [of "ProfileId d"]
         eq_commute [of "ProfileId f"])
next
  case False
  then show ?thesis
    by (auto simp: metadata_decode_with_declared_length_def profile_consts Let_def)
qed

text \<open>The control write and the read-back share identifier and length but never an image.\<close>

lemma control_not_metadata:
  "is_ok (metadata_decode_with_declared_length (control_as_bytes (control_encode m f)) dl) = False"
  unfolding is_ok_iff metadata_decode_eq_Inr control_as_bytes_layout Let_def
  by (cases f) auto

section \<open>Selectors and readiness\<close>

lemma selector_inject: "selector_encode r = selector_encode s \<longleftrightarrow> r = s"
  by (cases r; cases s)
     (auto simp: selector_encode_def request_selector_parameter_def profile_consts profile_id.expand)

lemma range_2_8: "(\<forall>i. 2 \<le> i \<and> i < 8 \<longrightarrow> P i) \<longleftrightarrow> P 2 \<and> P 3 \<and> P 4 \<and> P 5 \<and> P 6 \<and> P (7 :: nat)"
proof -
  have "2 \<le> i \<and> i < 8 \<longleftrightarrow> i = 2 \<or> i = 3 \<or> i = 4 \<or> i = 5 \<or> i = 6 \<or> i = 7" for i :: nat
    by linarith
  then show ?thesis by auto
qed

lemma readiness_decode_eq_Inr:
  "readiness_decode p = Inr s \<longleftrightarrow> p = [0xa0, if s = ReadyStatus then 1 else 0, 0, 0, 0, 0, 0, 0]"
proof (cases "length p = 8")
  case True
  then obtain a b c d e f g h where p: "p = [a, b, c, d, e, f, g, h]"
    by (auto simp: numeral_eq_Suc length_Suc_conv)
  show ?thesis
    unfolding p by (cases s) (auto simp: readiness_decode_def profile_consts range_2_8)
next
  case False
  then show ?thesis by (auto simp: readiness_decode_def profile_consts)
qed

lemma selector_not_readiness: "is_ok (readiness_decode (selector_encode r)) = False"
  unfolding is_ok_iff readiness_decode_eq_Inr
  by (cases r) (auto simp: selector_encode_def profile_consts)

section \<open>Properties\<close>

text \<open>The metadata read-back decoder accepts exactly the ten-byte images, with the declared length
  of the transport, of metadata whose profiles are in range and whose current profile does not
  exceed the maximum.\<close>

theorem metadata_decode_exact:
  "metadata_decode_for_transport p kind = Inr r \<longleftrightarrow>
     wf_metadata (report_metadata r) \<and> report_metadata_bytes r = p
     \<and> p = (let c = profile_get (meta_current (report_metadata r));
                x = profile_get (meta_maximum (report_metadata r))
            in [0x0c, metadata_declared kind, 0x01, c, NOT c, x, NOT x, 0, 0, 0])"
  unfolding metadata_decode_for_transport_def by (rule metadata_decode_eq_Inr)

text \<open>The host's own writes are never mistaken for the device's answers: no profile-control write
  decodes as a metadata read-back on any transport, no read selector decodes as a readiness status,
  and distinct read requests have distinct selectors.\<close>

theorem mailbox_images_distinct:
  "is_ok (metadata_decode_for_transport (control_as_bytes (control_encode m f)) kind) = False
   \<and> is_ok (readiness_decode (selector_encode r)) = False
   \<and> (selector_encode r = selector_encode q \<longleftrightarrow> r = q)"
  unfolding metadata_decode_for_transport_def
  by (simp only: control_not_metadata selector_not_readiness selector_inject simp_thms)

end
