(* ===== verification/X3_Polling_Rate.thy ===== *)
theory X3_Polling_Rate
  imports X3_Validate
begin

text \<open>The polling rate and its report \<open>0x06\<close> (\<^verbatim>\<open>protocol/polling_rate.rs\<close>).\<close>

definition POLLING_RATE_REPORT_ID :: u8 where "POLLING_RATE_REPORT_ID = 0x06"
definition POLLING_RATE_DECLARED_LENGTH :: u8 where "POLLING_RATE_DECLARED_LENGTH = 0x09"
definition POLLING_RATE_REPORT_LENGTH :: usize where "POLLING_RATE_REPORT_LENGTH = 9"
definition PADDING_START :: usize where "PADDING_START = 5"

lemmas polling_consts =
  POLLING_RATE_REPORT_ID_def POLLING_RATE_DECLARED_LENGTH_def POLLING_RATE_REPORT_LENGTH_def PADDING_START_def

datatype polling_rate = Hz125 | Hz250 | Hz500 | Hz1000

definition rate_new :: "u16 \<Rightarrow> polling_rate option" where
  "rate_new hz =
     (if hz = 125 then Some Hz125
      else if hz = 250 then Some Hz250
      else if hz = 500 then Some Hz500
      else if hz = 1000 then Some Hz1000
      else None)"

fun rate_hz :: "polling_rate \<Rightarrow> u16" where
  "rate_hz Hz125 = 125"
| "rate_hz Hz250 = 250"
| "rate_hz Hz500 = 500"
| "rate_hz Hz1000 = 1000"

fun rate_code :: "polling_rate \<Rightarrow> u8" where
  "rate_code Hz125 = 0x08"
| "rate_code Hz250 = 0x04"
| "rate_code Hz500 = 0x02"
| "rate_code Hz1000 = 0x01"

definition rate_from_code :: "u8 \<Rightarrow> polling_rate protocol_result" where
  "rate_from_code code =
     (if code = 0x08 then Inr Hz125
      else if code = 0x04 then Inr Hz250
      else if code = 0x02 then Inr Hz500
      else if code = 0x01 then Inr Hz1000
      else Inl (InvalidPollingRateCode code))"

definition rate_try_from :: "u16 \<Rightarrow> polling_rate protocol_result" where
  "rate_try_from value = ok_or (InvalidPollingRate value) (rate_new value)"

record decoded_polling_rate_report =
  polling_profile :: profile_id
  polling_rate :: polling_rate

definition polling_encode :: "profile_id \<Rightarrow> polling_rate \<Rightarrow> packet" where
  "polling_encode profile rate =
     (let code = rate_code rate
      in [POLLING_RATE_REPORT_ID, POLLING_RATE_DECLARED_LENGTH, profile_get profile, code, NOT code,
          0, 0, 0, 0])"

definition polling_decode_with_declared_length ::
  "packet \<Rightarrow> u8 \<Rightarrow> profile_id \<Rightarrow> decoded_polling_rate_report protocol_result" where
  "polling_decode_with_declared_length packet declared_length expected_profile =
     (if length packet \<noteq> POLLING_RATE_REPORT_LENGTH
        then Inl (InvalidReportLength POLLING_RATE_REPORT_LENGTH (length packet))
      else if packet ! 0 \<noteq> POLLING_RATE_REPORT_ID
        then Inl (UnexpectedReportId POLLING_RATE_REPORT_ID (packet ! 0))
      else if packet ! 1 \<noteq> declared_length
        then Inl (UnexpectedDeclaredLength declared_length (packet ! 1))
      else tryq (profile_try_from (packet ! 2)) (\<lambda>profile.
        if profile \<noteq> expected_profile
          then Inl (ProfileMismatch (profile_get expected_profile) (packet ! 2))
        else tryq (rate_from_code (packet ! 3)) (\<lambda>rate.
             tryq (validate_complement ''polling rate'' (packet ! 3) (packet ! 4)) (\<lambda>_.
             tryq (validate_fixed_range packet PADDING_START POLLING_RATE_REPORT_LENGTH 0) (\<lambda>_.
             Inr \<lparr>polling_profile = profile, polling_rate = rate\<rparr>)))))"

definition polling_decode :: "packet \<Rightarrow> profile_id \<Rightarrow> decoded_polling_rate_report protocol_result" where
  "polling_decode packet expected_profile =
     polling_decode_with_declared_length packet POLLING_RATE_DECLARED_LENGTH expected_profile"

definition polling_declared :: "transport_kind \<Rightarrow> u8" where
  "polling_declared transport =
     (case transport of Receiver \<Rightarrow> 0x0b
      | Wired \<Rightarrow> POLLING_RATE_DECLARED_LENGTH | Ble \<Rightarrow> POLLING_RATE_DECLARED_LENGTH)"

definition polling_decode_for_transport ::
  "packet \<Rightarrow> transport_kind \<Rightarrow> profile_id \<Rightarrow> decoded_polling_rate_report protocol_result" where
  "polling_decode_for_transport packet transport expected_profile =
     polling_decode_with_declared_length packet (polling_declared transport) expected_profile"

section \<open>Rates and codes\<close>

lemma rate_new_eq_Some [simp]: "rate_new hz = Some r \<longleftrightarrow> hz = rate_hz r"
  by (cases r) (auto simp: rate_new_def)

lemma rate_from_code_eq_Inr [simp]: "rate_from_code c = Inr r \<longleftrightarrow> c = rate_code r"
  by (cases r) (auto simp: rate_from_code_def)

lemma rate_code_inject [simp]: "rate_code r = rate_code s \<longleftrightarrow> r = s"
  by (cases r; cases s) simp_all

section \<open>Acceptance\<close>

lemma range_5_9: "(\<forall>i. 5 \<le> i \<and> i < 9 \<longrightarrow> P i) \<longleftrightarrow> P 5 \<and> P 6 \<and> P 7 \<and> P (8 :: nat)"
proof -
  have "5 \<le> i \<and> i < 9 \<longleftrightarrow> i = 5 \<or> i = 6 \<or> i = 7 \<or> i = 8" for i :: nat
    by linarith
  then show ?thesis by auto
qed

lemma polling_decode_eq_Inr:
  "polling_decode_with_declared_length p dl e = Inr d \<longleftrightarrow>
     wf_profile e \<and> polling_profile d = e
     \<and> p = [0x06, dl, profile_get e, rate_code (polling_rate d), NOT (rate_code (polling_rate d)), 0, 0, 0, 0]"
proof (cases "length p = 9")
  case True
  then obtain b0 b1 b2 b3 b4 b5 b6 b7 b8 where p: "p = [b0, b1, b2, b3, b4, b5, b6, b7, b8]"
    by (auto simp: numeral_eq_Suc length_Suc_conv)
  show ?thesis
    unfolding p polling_decode_with_declared_length_def
    by (cases d; cases e) (auto simp: polling_consts range_5_9)
next
  case False
  then show ?thesis
    by (auto simp: polling_decode_with_declared_length_def polling_consts)
qed

lemma polling_encode_layout [layout]:
  "polling_encode p r = [0x06, 0x09, profile_get p, rate_code r, NOT (rate_code r), 0, 0, 0, 0]"
  by (simp add: polling_encode_def polling_consts Let_def)

lemma polling_encode_accepted:
  "wf_profile p \<Longrightarrow> polling_decode (polling_encode p r) p = Inr \<lparr>polling_profile = p, polling_rate = r\<rparr>"
  by (simp add: polling_decode_def polling_decode_eq_Inr polling_encode_layout polling_consts)

lemma polling_accepted_encode:
  "polling_decode_with_declared_length p dl e = Inr d \<Longrightarrow>
     polling_encode e (polling_rate d) = p[1 := 0x09] \<and> polling_profile d = e"
  by (auto simp: polling_decode_eq_Inr polling_encode_layout)

section \<open>The codec contract\<close>

interpretation polling_codec:
  report_codec "polling_encode profile" "\<lambda>p. tryq (polling_decode_for_transport p kind profile) (\<lambda>d. Inr (polling_rate d))"
    "\<lambda>_. wf_profile profile" "\<lambda>p. p[1 := polling_declared kind]" "\<lambda>p. p[1 := 0x09]"
  for profile :: profile_id and kind :: transport_kind
  by unfold_locales
     (auto simp: polling_decode_for_transport_def polling_decode_eq_Inr polling_encode_layout
       intro!: exI [of _ "\<lparr>polling_profile = profile, polling_rate = r\<rparr>" for r])

section \<open>Properties\<close>

text \<open>The polling-rate decoder accepts exactly the encoder's images for the expected profile, with
  the declared length of the transport; the rate code and the host-visible frequency both determine
  the rate.\<close>

theorem polling_decode_exact:
  "(polling_decode_for_transport p kind e = Inr d \<longleftrightarrow>
      wf_profile e \<and> polling_profile d = e
      \<and> p = (polling_encode e (polling_rate d))[1 := polling_declared kind])
   \<and> (rate_from_code c = Inr r \<longleftrightarrow> c = rate_code r) \<and> (rate_try_from hz = Inr r \<longleftrightarrow> hz = rate_hz r)"
  by (auto simp: polling_decode_for_transport_def polling_decode_eq_Inr polling_encode_layout rate_try_from_def)

end
