(* ===== verification/X3_Input.thy ===== *)
theory X3_Input
  imports X3_Model
begin

text \<open>
  The auxiliary input report \<open>0x03\<close> (\<^verbatim>\<open>protocol/input.rs\<close>): five bytes, an event type
  and its payload, decoded once for the DPI button, profile, battery, connection, DPI-index and
  LED-mode events.
\<close>

section \<open>Events\<close>

definition INPUT_REPORT_LENGTH :: usize where "INPUT_REPORT_LENGTH = 5"
definition INPUT_REPORT_ID :: u8 where "INPUT_REPORT_ID = 0x03"
definition PROFILE_EVENT_TYPE :: u16 where "PROFILE_EVENT_TYPE = 0x1000"
definition SECONDARY_PROFILE_EVENT_TYPE :: u16 where "SECONDARY_PROFILE_EVENT_TYPE = 0x2000"
definition BATTERY_EVENT_TYPE_X3 :: u16 where "BATTERY_EVENT_TYPE_X3 = 0x4010"
definition BATTERY_EVENT_TYPE_X11 :: u16 where "BATTERY_EVENT_TYPE_X11 = 0x4055"
definition CONNECTION_EVENT_TYPE :: u16 where "CONNECTION_EVENT_TYPE = 0x5010"
definition DPI_INDEX_EVENT_TYPE :: u16 where "DPI_INDEX_EVENT_TYPE = 0x6000"
definition LED_MODE_EVENT_TYPE :: u16 where "LED_MODE_EVENT_TYPE = 0x7000"
definition PROFILE_SYNC_EVENT_TYPE :: u16 where "PROFILE_SYNC_EVENT_TYPE = 0x8000"

lemmas input_consts =
  INPUT_REPORT_LENGTH_def INPUT_REPORT_ID_def PROFILE_EVENT_TYPE_def SECONDARY_PROFILE_EVENT_TYPE_def
  BATTERY_EVENT_TYPE_X3_def BATTERY_EVENT_TYPE_X11_def CONNECTION_EVENT_TYPE_def DPI_INDEX_EVENT_TYPE_def
  LED_MODE_EVENT_TYPE_def PROFILE_SYNC_EVENT_TYPE_def

record dpi_button_event =
  dbe_raw_report :: packet
  dbe_active_stage :: stage_index

record profile_changed_event =
  pce_raw_report :: packet
  pce_profile :: profile_id

datatype dpi_index = DpiIndex (dpi_index_get: u8)

definition DPI_INDEX_MIN :: u8 where "DPI_INDEX_MIN = 1"
definition DPI_INDEX_MAX :: u8 where "DPI_INDEX_MAX = 10"

definition dpi_index_new :: "u8 \<Rightarrow> dpi_index option" where
  "dpi_index_new value =
     (if value \<ge> DPI_INDEX_MIN \<and> value \<le> DPI_INDEX_MAX then Some (DpiIndex value) else None)"

record dpi_index_changed_event =
  die_raw_report :: packet
  die_index :: dpi_index

record connection_changed_event =
  cce_raw_report :: packet
  cce_connected :: bool

record led_mode_changed_event =
  lme_raw_report :: packet
  lme_mode :: u8

record battery_event =
  bev_raw_report :: packet
  bev_level :: u8

datatype input_event =
    ActiveDpiStageChanged dpi_button_event
  | ProfileChanged profile_changed_event
  | SecondaryProfileChanged profile_changed_event
  | BatteryChanged battery_event
  | ConnectionChanged connection_changed_event
  | DpiIndexChanged dpi_index_changed_event
  | LedModeChanged led_mode_changed_event
  | ProfileSync profile_changed_event

section \<open>The decoder\<close>

definition result_ok :: "('e, 'a) result \<Rightarrow> 'a option" where
  "result_ok r = (case r of Inl _ \<Rightarrow> None | Inr x \<Rightarrow> Some x)"

definition checked_add_u8 :: "u8 \<Rightarrow> u8 \<Rightarrow> u8 option" where
  "checked_add_u8 a b = (if unat a + unat b < 256 then Some (a + b) else None)"

definition raw_report :: "packet \<Rightarrow> packet option" where
  "raw_report packet =
     (if length packet < INPUT_REPORT_LENGTH \<or> packet ! 0 \<noteq> INPUT_REPORT_ID then None
      else Some (take INPUT_REPORT_LENGTH packet))"

definition profile_event :: "packet \<Rightarrow> profile_changed_event option" where
  "profile_event raw =
     (if raw ! 4 \<noteq> 0 then None
      else Option.bind (result_ok (profile_try_from (raw ! 3))) (\<lambda>profile.
           Some \<lparr>pce_raw_report = raw, pce_profile = profile\<rparr>))"

definition zero_indexed_profile_event :: "packet \<Rightarrow> profile_changed_event option" where
  "zero_indexed_profile_event raw =
     (if raw ! 4 \<noteq> 0 then None
      else Option.bind (checked_add_u8 (raw ! 3) 1) (\<lambda>value.
           Option.bind (result_ok (profile_try_from value)) (\<lambda>profile.
           Some \<lparr>pce_raw_report = raw, pce_profile = profile\<rparr>)))"

definition BATTERY_REPORT_PREFIX_X3 :: packet where
  "BATTERY_REPORT_PREFIX_X3 = [INPUT_REPORT_ID, 0x10, 0x40, 0x01]"

definition BATTERY_REPORT_PREFIX :: packet where
  "BATTERY_REPORT_PREFIX = [INPUT_REPORT_ID, 0x55, 0x40, 0x01]"

definition decode_battery_raw :: "packet \<Rightarrow> battery_event option" where
  "decode_battery_raw raw =
     (let level =
            (if take 4 raw = BATTERY_REPORT_PREFIX_X3 then
               (if \<not> (1 \<le> raw ! 4 \<and> raw ! 4 \<le> 10) then None else Some (raw ! 4 * 10))
             else if take 4 raw = BATTERY_REPORT_PREFIX then
               (if raw ! 4 > 100 then None else Some (raw ! 4))
             else None)
      in Option.bind level (\<lambda>l. Some \<lparr>bev_raw_report = raw, bev_level = l\<rparr>))"

definition decode_input_report :: "packet \<Rightarrow> input_event option" where
  "decode_input_report packet =
     Option.bind (raw_report packet) (\<lambda>raw.
     let event_type = from_le16 (raw ! 1) (raw ! 2)
     in if event_type = PROFILE_EVENT_TYPE then
          (if raw ! 4 \<noteq> 0 then None
           else Option.bind (result_ok (stage_try_from (raw ! 3))) (\<lambda>active_stage.
                Some (ActiveDpiStageChanged \<lparr>dbe_raw_report = raw, dbe_active_stage = active_stage\<rparr>)))
        else if event_type = SECONDARY_PROFILE_EVENT_TYPE then
          Option.bind (profile_event raw) (\<lambda>event. Some (SecondaryProfileChanged event))
        else if event_type = BATTERY_EVENT_TYPE_X3 then
          Option.bind (decode_battery_raw raw) (\<lambda>event. Some (BatteryChanged event))
        else if event_type = BATTERY_EVENT_TYPE_X11 then
          Option.bind (decode_battery_raw raw) (\<lambda>event. Some (BatteryChanged event))
        else if event_type = CONNECTION_EVENT_TYPE then
          (if raw ! 4 \<noteq> 0 \<or> raw ! 3 > 1 then None
           else Some (ConnectionChanged \<lparr>cce_raw_report = raw, cce_connected = (raw ! 3 = 0)\<rparr>))
        else if event_type = DPI_INDEX_EVENT_TYPE then
          (if raw ! 4 \<noteq> 0 then None
           else Option.bind (dpi_index_new (raw ! 3)) (\<lambda>index.
                Some (DpiIndexChanged \<lparr>die_raw_report = raw, die_index = index\<rparr>)))
        else if event_type = LED_MODE_EVENT_TYPE then
          (if raw ! 4 \<noteq> 0 \<or> raw ! 3 > 7 then None
           else Some (LedModeChanged \<lparr>lme_raw_report = raw, lme_mode = raw ! 3\<rparr>))
        else if event_type = PROFILE_SYNC_EVENT_TYPE then
          Option.bind (zero_indexed_profile_event raw) (\<lambda>event. Some (ProfileSync event))
        else None)"

definition decode_dpi_button_report :: "packet \<Rightarrow> dpi_button_event option" where
  "decode_dpi_button_report packet =
     (case decode_input_report packet of Some (ActiveDpiStageChanged event) \<Rightarrow> Some event | _ \<Rightarrow> None)"

definition decode_battery_report :: "packet \<Rightarrow> battery_event option" where
  "decode_battery_report packet =
     (case decode_input_report packet of Some (BatteryChanged event) \<Rightarrow> Some event | _ \<Rightarrow> None)"

section \<open>What the decoder accepts\<close>

lemma result_ok_eq_Some [simp]: "result_ok r = Some x \<longleftrightarrow> r = Inr x"
  by (cases r) (simp_all add: result_ok_def)

lemma from_le16_eq_iff: "from_le16 lo hi = w \<longleftrightarrow> lo = ucast w \<and> hi = ucast (drop_bit 8 w)"
proof
  assume "from_le16 lo hi = w"
  then show "lo = ucast w \<and> hi = ucast (drop_bit 8 w)"
    by (auto simp: from_le16_def bit_simps intro!: bit_word_eqI)
qed auto

text \<open>The raw report of an event, and the values each event may carry.\<close>

fun event_raw_report :: "input_event \<Rightarrow> packet" where
  "event_raw_report (ActiveDpiStageChanged e) = dbe_raw_report e"
| "event_raw_report (ProfileChanged e) = pce_raw_report e"
| "event_raw_report (SecondaryProfileChanged e) = pce_raw_report e"
| "event_raw_report (BatteryChanged e) = bev_raw_report e"
| "event_raw_report (ConnectionChanged e) = cce_raw_report e"
| "event_raw_report (DpiIndexChanged e) = die_raw_report e"
| "event_raw_report (LedModeChanged e) = lme_raw_report e"
| "event_raw_report (ProfileSync e) = pce_raw_report e"

text \<open>The report an event stands for: identifier, event type, payload, value.\<close>

fun event_image :: "input_event \<Rightarrow> packet \<Rightarrow> bool" where
  "event_image (ActiveDpiStageChanged e) raw \<longleftrightarrow>
     wf_stage (dbe_active_stage e) \<and> raw = [0x03, 0x00, 0x10, stage_get (dbe_active_stage e), 0]"
| "event_image (ProfileChanged e) raw \<longleftrightarrow> False"
| "event_image (SecondaryProfileChanged e) raw \<longleftrightarrow>
     wf_profile (pce_profile e) \<and> raw = [0x03, 0x00, 0x20, profile_get (pce_profile e), 0]"
| "event_image (BatteryChanged e) raw \<longleftrightarrow>
     (\<exists>x. raw = [0x03, 0x10, 0x40, 0x01, x] \<and> 1 \<le> x \<and> x \<le> 10 \<and> bev_level e = x * 10)
     \<or> (raw = [0x03, 0x55, 0x40, 0x01, bev_level e] \<and> bev_level e \<le> 100)"
| "event_image (ConnectionChanged e) raw \<longleftrightarrow>
     raw = [0x03, 0x10, 0x50, if cce_connected e then 0 else 1, 0]"
| "event_image (DpiIndexChanged e) raw \<longleftrightarrow>
     1 \<le> dpi_index_get (die_index e) \<and> dpi_index_get (die_index e) \<le> 10
     \<and> raw = [0x03, 0x00, 0x60, dpi_index_get (die_index e), 0]"
| "event_image (LedModeChanged e) raw \<longleftrightarrow> lme_mode e \<le> 7 \<and> raw = [0x03, 0x00, 0x70, lme_mode e, 0]"
| "event_image (ProfileSync e) raw \<longleftrightarrow>
     wf_profile (pce_profile e) \<and> raw = [0x03, 0x00, 0x80, profile_get (pce_profile e) - 1, 0]"

lemma u8_le_1: "(v :: u8) > 1 \<longleftrightarrow> v \<noteq> 0 \<and> v \<noteq> 1"
proof -
  have "\<forall>v :: u8. v > 1 \<longleftrightarrow> v \<noteq> 0 \<and> v \<noteq> 1"
    unfolding all_u8 by code_simp
  then show ?thesis by blast
qed

lemma u8_one_le: "1 \<le> (v :: u8) \<longleftrightarrow> v \<noteq> 0"
  by (simp add: word_le_nat_alt Suc_le_eq unat_gt_0)

lemma u8_256: "(256 :: u8) = 0"
  by simp

lemma checked_add_profile:
  "(\<exists>value. checked_add_u8 v 1 = Some value \<and> profile_try_from value = Inr p)
   \<longleftrightarrow> wf_profile p \<and> v = profile_get p - 1"
proof (cases p)
  case (ProfileId x)
  have a: "\<forall>v :: u8. unat v + unat (1 :: u8) < 256 \<longleftrightarrow> v \<noteq> 255"
    unfolding all_u8 by code_simp
  have "v = x - 1 \<longleftrightarrow> x = v + 1"
    by (metis add_diff_cancel_right' diff_add_cancel)
  then show ?thesis
    unfolding ProfileId checked_add_u8_def a [rule_format]
    by (auto simp: wf_profile_def u8_256)
qed

lemma raw_report_eq_Some:
  "raw_report p = Some r \<longleftrightarrow> 5 \<le> length p \<and> p ! 0 = 0x03 \<and> r = take 5 p"
  by (auto simp: raw_report_def input_consts)

lemma event_types:
  "from_le16 lo hi = 0x1000 \<longleftrightarrow> lo = 0 \<and> hi = 0x10"
  "from_le16 lo hi = 0x2000 \<longleftrightarrow> lo = 0 \<and> hi = 0x20"
  "from_le16 lo hi = 0x4010 \<longleftrightarrow> lo = 0x10 \<and> hi = 0x40"
  "from_le16 lo hi = 0x4055 \<longleftrightarrow> lo = 0x55 \<and> hi = 0x40"
  "from_le16 lo hi = 0x5010 \<longleftrightarrow> lo = 0x10 \<and> hi = 0x50"
  "from_le16 lo hi = 0x6000 \<longleftrightarrow> lo = 0 \<and> hi = 0x60"
  "from_le16 lo hi = 0x7000 \<longleftrightarrow> lo = 0 \<and> hi = 0x70"
  "from_le16 lo hi = 0x8000 \<longleftrightarrow> lo = 0 \<and> hi = 0x80"
  unfolding from_le16_eq_iff by (code_simp, simp)+

lemma profile_event_eq_Some:
  "profile_event [a, b, c, x, y] = Some e \<longleftrightarrow>
     wf_profile (pce_profile e) \<and> pce_raw_report e = [a, b, c, x, y] \<and> y = 0 \<and> x = profile_get (pce_profile e)"
  by (cases e; cases "pce_profile e") (auto simp: profile_event_def bind_eq_Some_conv)

lemma zero_indexed_profile_event_eq_Some:
  "zero_indexed_profile_event [a, b, c, x, y] = Some e \<longleftrightarrow>
     wf_profile (pce_profile e) \<and> pce_raw_report e = [a, b, c, x, y] \<and> y = 0
     \<and> x = profile_get (pce_profile e) - 1"
proof -
  have "zero_indexed_profile_event [a, b, c, x, y] = Some e \<longleftrightarrow>
      y = 0 \<and> pce_raw_report e = [a, b, c, x, y]
      \<and> (\<exists>value. checked_add_u8 x 1 = Some value \<and> profile_try_from value = Inr (pce_profile e))"
    unfolding zero_indexed_profile_event_def
    by (cases e) (auto simp: bind_eq_Some_conv simp del: profile_try_from_eq_Inr)
  then show ?thesis unfolding checked_add_profile by blast
qed

lemma decode_battery_raw_eq_Some:
  "decode_battery_raw [a, b, c, x, y] = Some e \<longleftrightarrow>
     bev_raw_report e = [a, b, c, x, y]
     \<and> (if [a, b, c, x] = [0x03, 0x10, 0x40, 0x01] then 1 \<le> y \<and> y \<le> 10 \<and> bev_level e = y * 10
        else [a, b, c, x] = [0x03, 0x55, 0x40, 0x01] \<and> y \<le> 100 \<and> bev_level e = y)"
  unfolding decode_battery_raw_def BATTERY_REPORT_PREFIX_X3_def BATTERY_REPORT_PREFIX_def
    INPUT_REPORT_ID_def Let_def
  by (cases e) (auto simp: bind_eq_Some_conv not_less not_le u8_one_le split: if_splits)

lemma event_image_head: "event_image ev (x # xs) \<Longrightarrow> x = 0x03"
  by (cases ev) auto

lemma decode_input_report_eq_Some:
  "decode_input_report p = Some ev \<longleftrightarrow>
     5 \<le> length p \<and> event_raw_report ev = take 5 p \<and> event_image ev (take 5 p)"
proof (cases "5 \<le> length p")
  case True
  then have "length (take 5 p) = 5" by simp
  then obtain b0 b1 b2 b3 b4 where r: "take 5 p = [b0, b1, b2, b3, b4]"
    by (auto simp: numeral_eq_Suc length_Suc_conv simp del: length_take)
  have p0: "p ! 0 = b0" using r True by (cases p) auto
  show ?thesis
  proof (cases "b0 = 0x03")
    case b0: True
    have raw: "raw_report p = Some [0x03, b1, b2, b3, b4]"
      using r p0 True b0 by (simp add: raw_report_def input_consts)
    have n: "[0x03, b1, b2, b3, b4] ! 1 = b1" "[0x03, b1, b2, b3, b4] ! 2 = b2"
      "[0x03, b1, b2, b3, b4] ! 3 = b3" "[0x03, b1, b2, b3, b4] ! 4 = b4"
      by simp_all
    note d = decode_input_report_def raw Let_def n input_consts event_types
    consider "b1 = 0" "b2 = 0x10" | "b1 = 0" "b2 = 0x20" | "b1 = 0x10" "b2 = 0x40" | "b1 = 0x55" "b2 = 0x40"
      | "b1 = 0x10" "b2 = 0x50" | "b1 = 0" "b2 = 0x60" | "b1 = 0" "b2 = 0x70" | "b1 = 0" "b2 = 0x80"
      | "(b1, b2) \<notin> {(0, 0x10), (0, 0x20), (0x10, 0x40), (0x55, 0x40), (0x10, 0x50), (0, 0x60), (0, 0x70), (0, 0x80)}"
      by blast
    then show ?thesis
    proof cases
      case 1
      then show ?thesis unfolding r b0 d using True
        by (cases ev) (auto simp: bind_eq_Some_conv)
    next
      case 2
      then show ?thesis unfolding r b0 d using True
        by (cases ev) (auto simp: bind_eq_Some_conv profile_event_eq_Some)
    next
      case 3
      then show ?thesis unfolding r b0 d using True
        by (cases ev) (auto simp: bind_eq_Some_conv decode_battery_raw_eq_Some)
    next
      case 4
      then show ?thesis unfolding r b0 d using True
        by (cases ev) (auto simp: bind_eq_Some_conv decode_battery_raw_eq_Some)
    next
      case 5
      then show ?thesis unfolding r b0 d using True
        by (cases ev) (auto simp: u8_le_1)
    next
      case 6
      then show ?thesis unfolding r b0 d using True
        by (cases ev) (auto simp: bind_eq_Some_conv dpi_index_new_def DPI_INDEX_MIN_def DPI_INDEX_MAX_def)
    next
      case 7
      then show ?thesis unfolding r b0 d using True
        by (cases ev) (auto simp: not_less)
    next
      case 8
      then show ?thesis unfolding r b0 d using True
        by (cases ev) (auto simp: bind_eq_Some_conv zero_indexed_profile_event_eq_Some)
    next
      case 9
      then show ?thesis unfolding r b0 d using True
        by (cases ev) auto
    qed
  next
    case False
    then show ?thesis
      using event_image_head [of ev b0] p0 by (auto simp: r decode_input_report_def raw_report_def input_consts)
  qed
next
  case False
  then show ?thesis by (simp add: decode_input_report_def raw_report_def input_consts)
qed

section \<open>Properties\<close>

text \<open>An input report decodes to an event exactly when its first five bytes are a report of that
  event: the event type, the value in the range the firmware reports, and the unused byte zero; the
  event keeps those five bytes and trailing padding is ignored.\<close>

theorem input_decode_exact:
  "decode_input_report p = Some ev \<longleftrightarrow>
     5 \<le> length p \<and> event_raw_report ev = take 5 p \<and> event_image ev (take 5 p)"
  by (rule decode_input_report_eq_Some)

text \<open>A battery report yields a percentage: the level never exceeds 100, is a positive multiple of
  ten in the X3 dialect and the reported byte in the X11 dialect, and no other report yields one.\<close>

theorem battery_level_percentage:
  "decode_battery_report p = Some e \<longleftrightarrow>
     5 \<le> length p \<and> bev_raw_report e = take 5 p
     \<and> (if take 4 p = [0x03, 0x10, 0x40, 0x01]
        then unat (bev_level e) = 10 * unat (p ! 4) \<and> 1 \<le> unat (p ! 4) \<and> unat (p ! 4) \<le> 10
        else take 4 p = [0x03, 0x55, 0x40, 0x01] \<and> bev_level e = p ! 4 \<and> unat (p ! 4) \<le> 100)"
proof -
  have mul: "\<forall>x :: u8. 1 \<le> x \<and> x \<le> 10 \<longrightarrow> (\<forall>l :: u8. l = x * 10 \<longleftrightarrow> unat l = 10 * unat x)"
  proof (intro allI impI)
    fix x l :: u8
    assume "1 \<le> x \<and> x \<le> 10"
    then have "unat x \<le> 10" by (simp add: word_le_nat_alt)
    then have "unat (x * 10) = 10 * unat x" by (simp add: unat_word_ariths)
    then show "l = x * 10 \<longleftrightarrow> unat l = 10 * unat x" by (metis word_unat_eq_iff)
  qed
  have "decode_battery_report p = Some e \<longleftrightarrow> decode_input_report p = Some (BatteryChanged e)"
    by (auto simp: decode_battery_report_def split: option.splits input_event.splits)
  also have "\<dots> \<longleftrightarrow> 5 \<le> length p \<and> bev_raw_report e = take 5 p \<and> event_image (BatteryChanged e) (take 5 p)"
    by (simp add: decode_input_report_eq_Some)
  also have "\<dots> \<longleftrightarrow> 5 \<le> length p \<and> bev_raw_report e = take 5 p
     \<and> (if take 4 p = [0x03, 0x10, 0x40, 0x01]
        then unat (bev_level e) = 10 * unat (p ! 4) \<and> 1 \<le> unat (p ! 4) \<and> unat (p ! 4) \<le> 10
        else take 4 p = [0x03, 0x55, 0x40, 0x01] \<and> bev_level e = p ! 4 \<and> unat (p ! 4) \<le> 100)"
  proof (cases "5 \<le> length p")
    case True
    then have "length (take 5 p) = 5" by simp
    then obtain a b c x y where r: "take 5 p = [a, b, c, x, y]"
      by (auto simp: numeral_eq_Suc length_Suc_conv simp del: length_take)
    have "take 4 p = take 4 (take 5 p)" "p ! 4 = take 5 p ! 4" by simp_all
    then have "take 4 p = [a, b, c, x]" "p ! 4 = y" by (simp_all add: r)
    then show ?thesis
      using mul by (auto simp: r word_le_nat_alt)
  qed simp
  finally show ?thesis .
qed

end
