(* ===== verification/X3_Worker.thy ===== *)
theory X3_Worker
  imports X3_Dpi X3_Preferences X3_Buttons X3_Profile X3_Polling_Rate X3_Input
begin

text \<open>
  The serialized HID worker (\<^verbatim>\<open>driver/worker.rs\<close>, with the policies, errors and commands of
  \<^verbatim>\<open>driver/handle.rs\<close>). The feature transport (the \<^verbatim>\<open>FeatureTransport\<close> trait) is a
  record of operations on a state of the environment; the environment also holds the monotonic
  clock. A computation maps the environment to \<open>None\<close> when a loop of it never returns, and to its
  result and the environment it leaves otherwise.
\<close>

section \<open>Policies, errors, snapshots\<close>

text \<open>\<^verbatim>\<open>Duration\<close> and \<^verbatim>\<open>Instant\<close> in nanoseconds.\<close>

type_synonym duration = nat

definition from_millis :: "nat \<Rightarrow> duration" where "from_millis ms = ms * 1000000"
definition from_secs :: "nat \<Rightarrow> duration" where "from_secs s = s * 1000000000"

definition checked_sub :: "duration \<Rightarrow> duration \<Rightarrow> duration option" where
  "checked_sub a b = (if b \<le> a then Some (a - b) else None)"

record read_policy =
  max_attempts :: u8
  readiness_timeout :: duration
  poll_interval :: duration
  write_delay :: duration

definition policy_default :: read_policy where
  "policy_default = \<lparr>max_attempts = 4, readiness_timeout = from_millis 250,
     poll_interval = from_millis 1, write_delay = from_millis 500\<rparr>"

definition policy_receiver_default :: read_policy where
  "policy_receiver_default = policy_default
     \<lparr>readiness_timeout := from_secs 2, poll_interval := from_millis 5, write_delay := from_secs 5\<rparr>"

datatype read_failure = FailureProtocol protocol_error | ReadinessTimeout

datatype driver_error =
    DriverProtocol protocol_error
  | DriverTransport string
  | BatteryUnavailable
  | BatteryTimeout
  | InputUnavailable
  | DeviceNotFound
  | AmbiguousDevice nat
  | WorkerStart string
  | WorkerUnavailable
  | WorkerBusy
  | ReadAttemptsExhausted string "profile_id option" u8 read_failure
  | WriteVerificationMismatch string profile_id
  | ProfileAlreadyActive profile_id
  | ProfileNotEnabled profile_id profile_id
  | MaximumProfileBelowCurrent profile_id profile_id

record profile_snapshot =
  snap_persistent_metadata :: profile_metadata
  snap_target_profile :: profile_id
  snap_dpi :: dpi_state
  snap_preferences :: preferences_state
  snap_buttons :: buttons_state

section \<open>The transport and computations over it\<close>

text \<open>
  \<^verbatim>\<open>get_feature_report(id, buffer)\<close> returns a length and leaves the buffer modified;
  \<^verbatim>\<open>Instant::now\<close> reads the clock of the environment, \<^verbatim>\<open>thread::sleep\<close> lets it pass.
\<close>

record 's feature_io =
  io_send :: "packet \<Rightarrow> 's \<Rightarrow> (string, unit) result \<times> 's"
  io_get :: "u8 \<Rightarrow> packet \<Rightarrow> 's \<Rightarrow> (string, nat) result \<times> packet \<times> 's"
  io_now :: "'s \<Rightarrow> duration"
  io_sleep :: "duration \<Rightarrow> 's \<Rightarrow> 's"

type_synonym ('s, 'a) comp = "'s \<Rightarrow> ((driver_error, 'a) result \<times> 's) option"

definition ret :: "'a \<Rightarrow> ('s, 'a) comp" where
  "ret x s = Some (Inr x, s)"

definition fail :: "driver_error \<Rightarrow> ('s, 'a) comp" where
  "fail e s = Some (Inl e, s)"

definition bindc :: "('s, 'a) comp \<Rightarrow> ('a \<Rightarrow> ('s, 'b) comp) \<Rightarrow> ('s, 'b) comp" where
  "bindc m f s = (case m s of None \<Rightarrow> None
     | Some (Inl e, t) \<Rightarrow> Some (Inl e, t) | Some (Inr x, t) \<Rightarrow> f x t)"

definition lift_protocol :: "'a protocol_result \<Rightarrow> ('s, 'a) comp" where
  "lift_protocol r s = Some (map_err DriverProtocol r, s)"

definition send_report :: "'s feature_io \<Rightarrow> packet \<Rightarrow> ('s, unit) comp" where
  "send_report io report s =
     (case io_send io report s of (r, t) \<Rightarrow> Some (map_err DriverTransport r, t))"

definition get_report :: "'s feature_io \<Rightarrow> u8 \<Rightarrow> packet \<Rightarrow> ('s, nat \<times> packet) comp" where
  "get_report io report_id buffer s =
     (case io_get io report_id buffer s of
        (r, buffer', t) \<Rightarrow> Some (map_err DriverTransport (map_sum id (\<lambda>n. (n, buffer')) r), t))"

definition now :: "'s feature_io \<Rightarrow> ('s, duration) comp" where
  "now io s = Some (Inr (io_now io s), s)"

definition sleep :: "'s feature_io \<Rightarrow> duration \<Rightarrow> ('s, unit) comp" where
  "sleep io d s = Some (Inr (), io_sleep io d s)"

section \<open>The worker\<close>

definition MAX_FEATURE_REPORT_LENGTH :: usize where "MAX_FEATURE_REPORT_LENGTH = 128"
definition RECEIVER_READINESS_DELAY :: duration where "RECEIVER_READINESS_DELAY = from_millis 500"

record 's worker =
  w_io :: "'s feature_io"
  w_policy :: read_policy
  w_kind :: transport_kind

text \<open>A read is \<open>Inl\<close> a retryable failure or \<open>Inr\<close> a value, inside the driver's own error.\<close>

definition read_readiness_status :: "'s worker \<Rightarrow> ('s, (read_failure, readiness_status) result) comp" where
  "read_readiness_status w =
     bindc (get_report (w_io w) 0xa0 (replicate 8 0)) (\<lambda>(status_length, status).
     if status_length > length status
     then ret (Inl (FailureProtocol (InvalidReportLength (length status) status_length)))
     else ret (map_err FailureProtocol (readiness_decode (take status_length status))))"

partial_function (option) await_readiness ::
  "'s worker \<Rightarrow> duration \<Rightarrow> 's \<Rightarrow> ((driver_error, (read_failure, unit) result) result \<times> 's) option" where
  "await_readiness w started s =
     (case read_readiness_status w s of
        None \<Rightarrow> None
      | Some (r, t) \<Rightarrow>
          (case r of
             Inl e \<Rightarrow> Some (Inl e, t)
           | Inr (Inl failure) \<Rightarrow> Some (Inr (Inl failure), t)
           | Inr (Inr ReadyStatus) \<Rightarrow> Some (Inr (Inr ()), t)
           | Inr (Inr NotReady) \<Rightarrow>
               (let remaining = checked_sub (readiness_timeout (w_policy w)) (io_now (w_io w) t - started)
                in if remaining = None \<or> remaining = Some 0
                   then Some (Inr (Inl ReadinessTimeout), t)
                   else if poll_interval (w_policy w) \<noteq> 0
                   then await_readiness w started
                          (io_sleep (w_io w) (min (poll_interval (w_policy w)) (the remaining)) t)
                   else await_readiness w started t)))"

definition read_attempt ::
  "'s worker \<Rightarrow> readback_request \<Rightarrow> (packet \<Rightarrow> 'a protocol_result) \<Rightarrow> ('s, (read_failure, 'a) result) comp" where
  "read_attempt w request decode =
     bindc (send_report (w_io w) (selector_encode request)) (\<lambda>_.
     bindc (if w_kind w = Receiver then sleep (w_io w) RECEIVER_READINESS_DELAY else ret ()) (\<lambda>_.
     bindc (now (w_io w)) (\<lambda>started.
     bindc (await_readiness w started) (\<lambda>ready.
     case ready of
       Inl failure \<Rightarrow> ret (Inl failure)
     | Inr _ \<Rightarrow>
         let expected_length = unat (request_report_length request)
         in bindc (get_report (w_io w) (request_report_id request)
                     (take expected_length (replicate MAX_FEATURE_REPORT_LENGTH 0))) (\<lambda>(actual_length, report).
            if actual_length > expected_length
            then ret (Inl (FailureProtocol (InvalidReportLength expected_length actual_length)))
            else ret (map_err FailureProtocol (decode (take actual_length report))))))))"

fun request_section :: "readback_request \<Rightarrow> string" where
  "request_section ReadVersion = ''version''"
| "request_section ReadProfileMetadata = ''profile metadata''"
| "request_section (ReadPollingRate _) = ''polling rate''"
| "request_section (ReadDpi _) = ''dpi''"
| "request_section (ReadPreferences _) = ''preferences''"
| "request_section (ReadButtons _) = ''buttons''"

fun attempt_loop ::
  "'s worker \<Rightarrow> readback_request \<Rightarrow> (packet \<Rightarrow> 'a protocol_result) \<Rightarrow> nat \<Rightarrow> read_failure \<Rightarrow>
     ('s, (read_failure, 'a) result) comp" where
  "attempt_loop w request decode 0 last_failure = ret (Inl last_failure)"
| "attempt_loop w request decode (Suc n) last_failure =
     bindc (read_attempt w request decode) (\<lambda>r.
     case r of Inr x \<Rightarrow> ret (Inr x)
     | Inl failure \<Rightarrow> attempt_loop w request decode n failure)"

definition armed_read ::
  "'s worker \<Rightarrow> readback_request \<Rightarrow> (packet \<Rightarrow> 'a protocol_result) \<Rightarrow> ('s, 'a) comp" where
  "armed_read w request decode =
     (let attempts = max_attempts (w_policy w)
      in bindc (attempt_loop w request decode (unat attempts) ReadinessTimeout) (\<lambda>r.
         case r of Inr x \<Rightarrow> ret x
         | Inl last_failure \<Rightarrow>
             fail (ReadAttemptsExhausted (request_section request) (request_target_profile request)
                     attempts last_failure)))"

definition ok_map :: "('a \<Rightarrow> 'b) \<Rightarrow> 'a protocol_result \<Rightarrow> 'b protocol_result" where
  "ok_map f r = tryq r (\<lambda>x. Inr (f x))"

definition decode_metadata_image :: "transport_kind \<Rightarrow> packet \<Rightarrow> profile_metadata protocol_result" where
  "decode_metadata_image kind packet = ok_map report_metadata (metadata_decode_for_transport packet kind)"

definition decode_dpi_image :: "transport_kind \<Rightarrow> profile_id \<Rightarrow> packet \<Rightarrow> dpi_state protocol_result" where
  "decode_dpi_image kind profile packet = ok_map decoded_dpi_state (dpi_decode packet kind profile)"

definition decode_preferences_image :: "transport_kind \<Rightarrow> profile_id \<Rightarrow> packet \<Rightarrow> preferences_state protocol_result" where
  "decode_preferences_image kind profile packet =
     ok_map decoded_prefs_state (prefs_decode_for_transport packet kind profile)"

definition decode_buttons_image :: "transport_kind \<Rightarrow> profile_id \<Rightarrow> packet \<Rightarrow> buttons_state protocol_result" where
  "decode_buttons_image kind profile packet = buttons_decode_for_transport packet kind profile"

definition decode_rate_image :: "transport_kind \<Rightarrow> profile_id \<Rightarrow> packet \<Rightarrow> polling_rate protocol_result" where
  "decode_rate_image kind alias packet = ok_map polling_rate (polling_decode_for_transport packet kind alias)"

definition read_profile_metadata :: "'s worker \<Rightarrow> ('s, profile_metadata) comp" where
  "read_profile_metadata w = armed_read w ReadProfileMetadata (decode_metadata_image (w_kind w))"

definition read_dpi :: "'s worker \<Rightarrow> profile_id \<Rightarrow> ('s, dpi_state) comp" where
  "read_dpi w profile = armed_read w (ReadDpi profile) (decode_dpi_image (w_kind w) profile)"

definition read_preferences :: "'s worker \<Rightarrow> profile_id \<Rightarrow> ('s, preferences_state) comp" where
  "read_preferences w profile =
     armed_read w (ReadPreferences profile) (decode_preferences_image (w_kind w) profile)"

definition read_buttons :: "'s worker \<Rightarrow> profile_id \<Rightarrow> ('s, buttons_state) comp" where
  "read_buttons w profile = armed_read w (ReadButtons profile) (decode_buttons_image (w_kind w) profile)"

definition read_live_polling_rate :: "'s worker \<Rightarrow> profile_id \<Rightarrow> ('s, polling_rate) comp" where
  "read_live_polling_rate w alias =
     armed_read w (ReadPollingRate alias) (decode_rate_image (w_kind w) alias)"

definition read_raw_readback :: "'s worker \<Rightarrow> readback_request \<Rightarrow> ('s, packet) comp" where
  "read_raw_readback w request = armed_read w request (\<lambda>packet. Inr packet)"

definition sleep_after_write :: "'s worker \<Rightarrow> ('s, unit) comp" where
  "sleep_after_write w =
     (if write_delay (w_policy w) \<noteq> 0 then sleep (w_io w) (write_delay (w_policy w)) else ret ())"

definition send_dpi :: "'s worker \<Rightarrow> dpi_state \<Rightarrow> ('s, unit) comp" where
  "send_dpi w st =
     bindc (lift_protocol (dpi_encode st (w_kind w))) (\<lambda>report.
     send_report (w_io w) (dpi_as_bytes report))"

definition send_preferences :: "'s worker \<Rightarrow> preferences_state \<Rightarrow> ('s, unit) comp" where
  "send_preferences w st = send_report (w_io w) (prefs_as_bytes (prefs_encode_framed st PrefsCompact))"

definition send_buttons :: "'s worker \<Rightarrow> buttons_state \<Rightarrow> ('s, unit) comp" where
  "send_buttons w st = send_report (w_io w) (buttons_encode st)"

definition send_polling_rate_unchecked :: "'s worker \<Rightarrow> profile_id \<Rightarrow> polling_rate \<Rightarrow> ('s, unit) comp" where
  "send_polling_rate_unchecked w profile rate = send_report (w_io w) (polling_encode profile rate)"

definition write_dpi :: "'s worker \<Rightarrow> dpi_state \<Rightarrow> ('s, dpi_state) comp" where
  "write_dpi w st =
     bindc (send_dpi w st) (\<lambda>_.
     bindc (sleep_after_write w) (\<lambda>_.
     bindc (read_dpi w (dpi_profile st)) (\<lambda>actual.
     if actual \<noteq> st then fail (WriteVerificationMismatch ''dpi'' (dpi_profile st))
     else ret actual)))"

definition write_preferences :: "'s worker \<Rightarrow> preferences_state \<Rightarrow> ('s, preferences_state) comp" where
  "write_preferences w st =
     bindc (send_preferences w st) (\<lambda>_.
     bindc (sleep_after_write w) (\<lambda>_.
     bindc (read_preferences w (prefs_profile st)) (\<lambda>actual.
     if actual \<noteq> st then fail (WriteVerificationMismatch ''preferences'' (prefs_profile st))
     else ret actual)))"

definition write_buttons :: "'s worker \<Rightarrow> buttons_state \<Rightarrow> ('s, buttons_state) comp" where
  "write_buttons w st =
     bindc (send_buttons w st) (\<lambda>_.
     bindc (sleep_after_write w) (\<lambda>_.
     bindc (read_buttons w (buttons_profile st)) (\<lambda>actual.
     if actual \<noteq> st then fail (WriteVerificationMismatch ''buttons'' (buttons_profile st))
     else ret actual)))"

definition write_polling_rate_unchecked :: "'s worker \<Rightarrow> profile_id \<Rightarrow> polling_rate \<Rightarrow> ('s, polling_rate) comp" where
  "write_polling_rate_unchecked w profile rate =
     bindc (send_polling_rate_unchecked w profile rate) (\<lambda>_.
     bindc (sleep_after_write w) (\<lambda>_.
     bindc (read_live_polling_rate w profile) (\<lambda>actual.
     if actual \<noteq> rate then fail (WriteVerificationMismatch ''polling rate'' profile)
     else ret actual)))"

definition control_framing_for :: "transport_kind \<Rightarrow> profile_control_framing" where
  "control_framing_for kind =
     (case kind of Receiver \<Rightarrow> ControlFull | Wired \<Rightarrow> ControlCompact | Ble \<Rightarrow> ControlCompact)"

definition set_maximum_profile :: "'s worker \<Rightarrow> profile_id \<Rightarrow> ('s, profile_metadata) comp" where
  "set_maximum_profile w maximum =
     bindc (read_profile_metadata w) (\<lambda>current.
     if profile_get maximum < profile_get (meta_current current)
     then fail (MaximumProfileBelowCurrent maximum (meta_current current))
     else if maximum = meta_maximum current then ret current
     else bindc (lift_protocol (metadata_new (meta_current current) maximum)) (\<lambda>expected.
          bindc (send_report (w_io w)
                   (control_as_bytes (control_encode expected (control_framing_for (w_kind w))))) (\<lambda>_.
          bindc (sleep_after_write w) (\<lambda>_.
          bindc (read_profile_metadata w) (\<lambda>actual.
          if actual \<noteq> expected
          then fail (WriteVerificationMismatch ''profile metadata'' (meta_current expected))
          else ret actual)))))"

definition activate_profile :: "'s worker \<Rightarrow> profile_id \<Rightarrow> ('s, profile_metadata) comp" where
  "activate_profile w profile =
     bindc (read_profile_metadata w) (\<lambda>current.
     if meta_current current = profile then fail (ProfileAlreadyActive profile)
     else if profile_get profile > profile_get (meta_maximum current)
     then fail (ProfileNotEnabled profile (meta_maximum current))
     else bindc (lift_protocol (metadata_new profile (meta_maximum current))) (\<lambda>expected.
          bindc (send_report (w_io w)
                   (control_as_bytes (control_encode expected (control_framing_for (w_kind w))))) (\<lambda>_.
          bindc (sleep_after_write w) (\<lambda>_.
          bindc (read_profile_metadata w) (\<lambda>actual.
          if actual \<noteq> expected
          then fail (WriteVerificationMismatch ''profile metadata'' profile)
          else ret actual)))))"

definition read_profile :: "'s worker \<Rightarrow> profile_id \<Rightarrow> ('s, profile_snapshot) comp" where
  "read_profile w target_profile =
     bindc (read_profile_metadata w) (\<lambda>persistent_metadata.
     bindc (read_dpi w target_profile) (\<lambda>dpi.
     bindc (read_preferences w target_profile) (\<lambda>preferences.
     bindc (read_buttons w target_profile) (\<lambda>buttons.
     ret \<lparr>snap_persistent_metadata = persistent_metadata, snap_target_profile = target_profile,
          snap_dpi = dpi, snap_preferences = preferences, snap_buttons = buttons\<rparr>))))"

section \<open>Commands\<close>

datatype command =
    CmdProfileMetadata
  | CmdDpi profile_id
  | CmdPreferences profile_id
  | CmdButtons profile_id
  | CmdLivePollingRate profile_id
  | CmdWriteDpi dpi_state
  | CmdWritePreferences preferences_state
  | CmdWriteButtons buttons_state
  | CmdSendDpi dpi_state
  | CmdSendPreferences preferences_state
  | CmdSendButtons buttons_state
  | CmdSendPollingRateUnchecked profile_id polling_rate
  | CmdWritePollingRateUnchecked profile_id polling_rate
  | CmdSetMaximumProfile profile_id
  | CmdActivateProfile profile_id
  | CmdProfile profile_id
  | CmdRawReadback readback_request
  | CmdSendRawFeatureReport packet

text \<open>The value a command's reply channel carries.\<close>

datatype reply =
    ReplyMetadata profile_metadata
  | ReplyDpi dpi_state
  | ReplyPreferences preferences_state
  | ReplyButtons buttons_state
  | ReplyRate polling_rate
  | ReplyUnit
  | ReplySnapshot profile_snapshot
  | ReplyBytes packet

definition reply_with :: "('a \<Rightarrow> reply) \<Rightarrow> ('s, 'a) comp \<Rightarrow> ('s, reply) comp" where
  "reply_with f m = bindc m (\<lambda>x. ret (f x))"

fun dispatch :: "'s worker \<Rightarrow> command \<Rightarrow> ('s, reply) comp" where
  "dispatch w CmdProfileMetadata = reply_with ReplyMetadata (read_profile_metadata w)"
| "dispatch w (CmdDpi profile) = reply_with ReplyDpi (read_dpi w profile)"
| "dispatch w (CmdPreferences profile) = reply_with ReplyPreferences (read_preferences w profile)"
| "dispatch w (CmdButtons profile) = reply_with ReplyButtons (read_buttons w profile)"
| "dispatch w (CmdLivePollingRate alias) = reply_with ReplyRate (read_live_polling_rate w alias)"
| "dispatch w (CmdWriteDpi st) = reply_with ReplyDpi (write_dpi w st)"
| "dispatch w (CmdWritePreferences st) = reply_with ReplyPreferences (write_preferences w st)"
| "dispatch w (CmdWriteButtons st) = reply_with ReplyButtons (write_buttons w st)"
| "dispatch w (CmdSendDpi st) = reply_with (\<lambda>_. ReplyUnit) (send_dpi w st)"
| "dispatch w (CmdSendPreferences st) = reply_with (\<lambda>_. ReplyUnit) (send_preferences w st)"
| "dispatch w (CmdSendButtons st) = reply_with (\<lambda>_. ReplyUnit) (send_buttons w st)"
| "dispatch w (CmdSendPollingRateUnchecked profile rate) =
     reply_with (\<lambda>_. ReplyUnit) (send_polling_rate_unchecked w profile rate)"
| "dispatch w (CmdWritePollingRateUnchecked profile rate) =
     reply_with ReplyRate (write_polling_rate_unchecked w profile rate)"
| "dispatch w (CmdSetMaximumProfile maximum) = reply_with ReplyMetadata (set_maximum_profile w maximum)"
| "dispatch w (CmdActivateProfile profile) = reply_with ReplyMetadata (activate_profile w profile)"
| "dispatch w (CmdProfile target_profile) = reply_with ReplySnapshot (read_profile w target_profile)"
| "dispatch w (CmdRawReadback request) = reply_with ReplyBytes (read_raw_readback w request)"
| "dispatch w (CmdSendRawFeatureReport bytes) =
     reply_with (\<lambda>_. ReplyUnit) (send_report (w_io w) bytes)"

text \<open>
  The worker thread serves the commands it receives one after the other and sends each reply to
  its own channel; the list holds the replies in that order.
\<close>

fun worker_run :: "'s worker \<Rightarrow> command list \<Rightarrow> 's \<Rightarrow> ((driver_error, reply) result list \<times> 's) option" where
  "worker_run w [] s = Some ([], s)"
| "worker_run w (c # cs) s =
     (case dispatch w c s of None \<Rightarrow> None
      | Some (r, t) \<Rightarrow>
          (case worker_run w cs t of None \<Rightarrow> None | Some (rs, u) \<Rightarrow> Some (r # rs, u)))"

section \<open>One turn of the readiness loop\<close>

text \<open>What the loop does with one status: return a result, or go on from a later environment.\<close>

definition await_decide ::
  "'s worker \<Rightarrow> duration \<Rightarrow> (driver_error, (read_failure, readiness_status) result) result \<Rightarrow> 's \<Rightarrow>
     (driver_error, (read_failure, unit) result) result + 's" where
  "await_decide w started r t =
     (case r of
        Inl e \<Rightarrow> Inl (Inl e)
      | Inr (Inl failure) \<Rightarrow> Inl (Inr (Inl failure))
      | Inr (Inr ReadyStatus) \<Rightarrow> Inl (Inr (Inr ()))
      | Inr (Inr NotReady) \<Rightarrow>
          (if readiness_timeout (w_policy w) \<le> io_now (w_io w) t - started
           then Inl (Inr (Inl ReadinessTimeout))
           else if poll_interval (w_policy w) \<noteq> 0
           then Inr (io_sleep (w_io w) (min (poll_interval (w_policy w))
                       (readiness_timeout (w_policy w) - (io_now (w_io w) t - started))) t)
           else Inr t))"

lemma await_turn:
  "(case r of
      Inl e \<Rightarrow> Some (Inl e, t)
    | Inr (Inl failure) \<Rightarrow> Some (Inr (Inl failure), t)
    | Inr (Inr ReadyStatus) \<Rightarrow> Some (Inr (Inr ()), t)
    | Inr (Inr NotReady) \<Rightarrow>
        (let remaining = checked_sub (readiness_timeout (w_policy w)) (io_now (w_io w) t - started)
         in if remaining = None \<or> remaining = Some 0
            then Some (Inr (Inl ReadinessTimeout), t)
            else if poll_interval (w_policy w) \<noteq> 0
            then await (io_sleep (w_io w) (min (poll_interval (w_policy w)) (the remaining)) t)
            else await t))
   = (case await_decide w started r t of Inl y \<Rightarrow> Some (y, t) | Inr u \<Rightarrow> await u)"
  by (auto simp: await_decide_def checked_sub_def Let_def split: sum.split readiness_status.split)

lemma await_unfold:
  "await_readiness w started s =
     (case read_readiness_status w s of None \<Rightarrow> None
      | Some (r, t) \<Rightarrow>
          (case await_decide w started r t of Inl y \<Rightarrow> Some (y, t) | Inr u \<Rightarrow> await_readiness w started u))"
  by (subst await_readiness.simps) (simp only: await_turn)

lemma await_induct [consumes 1, case_names finish turn]:
  assumes "await_readiness w started s = Some x"
    and "\<And>s r t y. read_readiness_status w s = Some (r, t) \<Longrightarrow> await_decide w started r t = Inl y \<Longrightarrow> P s (y, t)"
    and "\<And>s r t u x. read_readiness_status w s = Some (r, t) \<Longrightarrow> await_decide w started r t = Inr u \<Longrightarrow>
           P u x \<Longrightarrow> P s x"
  shows "P s x"
proof -
  have "w' = w \<and> started' = started \<longrightarrow> P s x" if "await_readiness w' started' s = Some x" for w' started' s x
    using that
  proof (induction w' started' s x rule: await_readiness.raw_induct [rotated 1, consumes 1, case_names step])
    case (step await w' started' s x)
    show ?case
    proof
      assume eq: "w' = w \<and> started' = started"
      from step(2) obtain r t where st: "read_readiness_status w s = Some (r, t)"
        by (auto simp: eq split: option.splits)
      have turn: "(case await_decide w started r t of Inl y \<Rightarrow> Some (y, t) | Inr u \<Rightarrow> await w started u) = Some x"
        using step(2) unfolding eq [THEN conjunct1] eq [THEN conjunct2] st option.case prod.case await_turn .
      then consider (fin) y where "await_decide w started r t = Inl y" "x = (y, t)"
        | (go) u where "await_decide w started r t = Inr u" "await w started u = Some x"
        by (auto split: sum.splits)
      then show "P s x"
        by cases (use assms(2,3) st step(1) in blast)+
    qed
  qed
  with assms(1) show ?thesis by blast
qed

end
