(* ===== verification/X3_Worker_Trace.thy ===== *)
theory X3_Worker_Trace
  imports X3_Worker
begin

text \<open>
  What the worker does on the wire. A transport is instrumented with a log of its operations; the
  lemmas describe the log each worker operation leaves: how many selectors a read sends, that a
  transport error ends the transaction, which configuration report a write emits and which
  read-back confirms it.
\<close>

section \<open>The instrumented transport\<close>

datatype io_event =
    EvSend packet
  | EvSendError packet
  | EvGot u8 packet
  | EvGetError u8
  | EvSleep duration

definition logged :: "'s feature_io \<Rightarrow> ('s \<times> io_event list) feature_io" where
  "logged io = \<lparr>
     io_send = (\<lambda>p (s, l). case io_send io p s of
        (r, t) \<Rightarrow> (r, (t, l @ [if is_ok r then EvSend p else EvSendError p]))),
     io_get = (\<lambda>i buffer (s, l). case io_get io i buffer s of
        (r, b, t) \<Rightarrow> (r, b, (t, l @ [case r of Inr n \<Rightarrow> EvGot i (take n b) | Inl _ \<Rightarrow> EvGetError i]))),
     io_now = (\<lambda>(s, l). io_now io s),
     io_sleep = (\<lambda>d (s, l). (io_sleep io d s, l @ [EvSleep d]))\<rparr>"

definition logged_worker :: "'s worker \<Rightarrow> ('s \<times> io_event list) worker" where
  "logged_worker w = \<lparr>w_io = logged (w_io w), w_policy = w_policy w, w_kind = w_kind w\<rparr>"

lemma logged_worker_sel [simp]:
  "w_io (logged_worker w) = logged (w_io w)"
  "w_policy (logged_worker w) = w_policy w"
  "w_kind (logged_worker w) = w_kind w"
  by (simp_all add: logged_worker_def)

fun emitted :: "io_event list \<Rightarrow> packet list" where
  "emitted [] = []"
| "emitted (EvSend p # evs) = p # emitted evs"
| "emitted (EvSendError p # evs) = p # emitted evs"
| "emitted (_ # evs) = emitted evs"

lemma emitted_append [simp]: "emitted (a @ b) = emitted a @ emitted b"
  by (induction a rule: emitted.induct) simp_all

text \<open>Every report but a read selector changes the configuration.\<close>

definition config_writes :: "io_event list \<Rightarrow> packet list" where
  "config_writes evs = filter (\<lambda>p. take 1 p \<noteq> [READ_SELECTOR_REPORT_ID]) (emitted evs)"

lemma config_writes_append [simp]: "config_writes (a @ b) = config_writes a @ config_writes b"
  by (simp add: config_writes_def)

lemma config_writes_selectors: "emitted evs = replicate k (selector_encode req) \<Longrightarrow> config_writes evs = []"
  by (simp add: config_writes_def selector_encode_def)

fun is_error :: "io_event \<Rightarrow> bool" where
  "is_error (EvSendError _) \<longleftrightarrow> True"
| "is_error (EvGetError _) \<longleftrightarrow> True"
| "is_error _ \<longleftrightarrow> False"

text \<open>An operation fails on the transport exactly when its last event, and no other, is an error.\<close>

definition errors_end :: "(driver_error, 'a) result \<Rightarrow> io_event list \<Rightarrow> bool" where
  "errors_end r evs \<longleftrightarrow>
     (if \<exists>m. r = Inl (DriverTransport m)
      then evs \<noteq> [] \<and> is_error (last evs) \<and> \<not> list_ex is_error (butlast evs)
      else \<not> list_ex is_error evs)"

lemma errors_end_Inr [simp]: "errors_end (Inr x) evs \<longleftrightarrow> \<not> list_ex is_error evs"
  by (simp add: errors_end_def)

lemma errors_end_append: "\<not> list_ex is_error a \<Longrightarrow> errors_end r b \<Longrightarrow> errors_end r (a @ b)"
  by (auto simp: errors_end_def butlast_append split: if_splits)

lemma errors_end_Inl: "errors_end (Inl e :: (driver_error, 'a) result) evs \<Longrightarrow> errors_end (Inl e :: (driver_error, 'b) result) evs"
  by (simp add: errors_end_def)

section \<open>Reasoning about logs\<close>

definition traces ::
  "('s \<times> io_event list, 'a) comp \<Rightarrow> ((driver_error, 'a) result \<Rightarrow> io_event list \<Rightarrow> bool) \<Rightarrow> bool" where
  "traces m P \<longleftrightarrow> (\<forall>s l r s' l'. m (s, l) = Some (r, (s', l')) \<longrightarrow> (\<exists>evs. l' = l @ evs \<and> P r evs))"

lemma tracesI:
  "(\<And>s l r s' l'. m (s, l) = Some (r, (s', l')) \<Longrightarrow> \<exists>evs. l' = l @ evs \<and> P r evs) \<Longrightarrow> traces m P"
  by (simp add: traces_def)

lemma tracesD:
  assumes "traces m P" and "m (s, l) = Some (r, (s', l'))"
  shows "\<exists>evs. l' = l @ evs \<and> P r evs"
  using assms by (simp add: traces_def)

lemma traces_weaken: "traces m P \<Longrightarrow> (\<And>r evs. P r evs \<Longrightarrow> Q r evs) \<Longrightarrow> traces m Q"
  unfolding traces_def by blast

lemma traces_ret: "P (Inr x) [] \<Longrightarrow> traces (ret x) P"
  by (auto simp: traces_def ret_def)

lemma traces_fail: "P (Inl e) [] \<Longrightarrow> traces (fail e) P"
  by (auto simp: traces_def fail_def)

lemma traces_bind:
  assumes m: "traces m P" and f: "\<And>x. traces (f x) (Q x)"
    and err: "\<And>e evs. P (Inl e) evs \<Longrightarrow> R (Inl e) evs"
    and ok: "\<And>x r a b. P (Inr x) a \<Longrightarrow> Q x r b \<Longrightarrow> R r (a @ b)"
  shows "traces (bindc m f) R"
proof (rule tracesI)
  fix s l r s' l'
  assume "bindc m f (s, l) = Some (r, (s', l'))"
  then consider (err) e where "m (s, l) = Some (Inl e, (s', l'))" "r = Inl e"
    | (ok) x t k where "m (s, l) = Some (Inr x, (t, k))" "f x (t, k) = Some (r, (s', l'))"
    by (auto simp: bindc_def split: option.splits sum.splits)
  then show "\<exists>evs. l' = l @ evs \<and> R r evs"
  proof cases
    case err
    then show ?thesis using tracesD [OF m err(1)] assms(3) by blast
  next
    case ok
    from tracesD [OF m ok(1)] obtain a where a: "k = l @ a" "P (Inr x) a" by blast
    from tracesD [OF f ok(2)] obtain b where b: "l' = k @ b" "Q x r b" by blast
    show ?thesis using a b assms(4) by auto
  qed
qed

lemma traces_send:
  "traces (send_report (logged io) p)
     (\<lambda>r evs. (r = Inr () \<and> evs = [EvSend p]) \<or> (\<exists>m. r = Inl (DriverTransport m) \<and> evs = [EvSendError p]))"
  by (rule tracesI) (auto simp: send_report_def logged_def is_ok_def split: prod.splits sum.splits)

lemma traces_get:
  "traces (get_report (logged io) i buffer)
     (\<lambda>r evs. (\<exists>n b. r = Inr (n, b) \<and> evs = [EvGot i (take n b)])
            \<or> (\<exists>m. r = Inl (DriverTransport m) \<and> evs = [EvGetError i]))"
  by (rule tracesI) (auto simp: get_report_def logged_def split: prod.splits sum.splits)

lemma traces_sleep: "traces (sleep (logged io) d) (\<lambda>r evs. r = Inr () \<and> evs = [EvSleep d])"
  by (rule tracesI) (auto simp: sleep_def logged_def)

lemma traces_now: "traces (now (logged io)) (\<lambda>r evs. (\<exists>x. r = Inr x) \<and> evs = [])"
  by (rule tracesI) (auto simp: now_def)

lemma traces_lift_protocol:
  "traces (lift_protocol m) (\<lambda>r evs. r = map_err DriverProtocol m \<and> evs = [])"
  by (rule tracesI) (auto simp: lift_protocol_def)

section \<open>Readiness and armed reads\<close>

text \<open>Polling the mailbox emits no report.\<close>

definition polling :: "(driver_error, 'a) result \<Rightarrow> io_event list \<Rightarrow> bool" where
  "polling r evs \<longleftrightarrow> errors_end r evs \<and> emitted evs = []
     \<and> (case r of Inl e \<Rightarrow> \<exists>m. e = DriverTransport m | Inr _ \<Rightarrow> True)"

lemma traces_status: "traces (read_readiness_status (logged_worker w)) polling"
  unfolding read_readiness_status_def logged_worker_sel
proof (rule traces_bind [OF traces_get])
  show "traces (case x of (n, b) \<Rightarrow>
      if length b < n then ret (Inl (FailureProtocol (InvalidReportLength (length b) n)))
      else ret (map_err FailureProtocol (readiness_decode (take n b)))) (\<lambda>r evs. (\<exists>x. r = Inr x) \<and> evs = [])" for x
    by (auto intro!: traces_ret split: prod.split)
qed (auto simp: polling_def errors_end_def)

lemma polling_cons: "polling r b \<Longrightarrow> \<not> list_ex is_error a \<Longrightarrow> emitted a = [] \<Longrightarrow> polling r (a @ b)"
  by (simp add: polling_def errors_end_append)

lemma polling_same:
  "polling r evs \<Longrightarrow> (case r of Inl e \<Rightarrow> r' = Inl e | Inr _ \<Rightarrow> \<exists>y. r' = Inr y) \<Longrightarrow> polling r' evs"
  by (auto simp: polling_def errors_end_def split: sum.splits)

lemma traces_await: "traces (await_readiness (logged_worker w) started) polling"
proof -
  have "\<exists>evs. snd (snd x) = snd a @ evs \<and> polling (fst x) evs"
    if "await_readiness (logged_worker w) started a = Some x" for a x
    using that
  proof (induction rule: await_induct)
    case (finish a r t y)
    from finish(1) obtain evs where "snd t = snd a @ evs" "polling r evs"
      using traces_status [of w] by (cases a; cases t) (auto dest: tracesD)
    moreover have "case r of Inl e \<Rightarrow> y = Inl e | Inr _ \<Rightarrow> \<exists>z. y = Inr z"
      using finish(2) by (auto simp: await_decide_def split: sum.splits readiness_status.splits if_splits)
    ultimately show ?case using polling_same by auto
  next
    case (turn a r t u x)
    from turn(1) obtain e1 where e1: "snd t = snd a @ e1" "polling r e1"
      using traces_status [of w] by (cases a; cases t) (auto dest: tracesD)
    have "\<not> list_ex is_error e1 \<and> emitted e1 = []"
      using e1(2) turn(2) by (auto simp: polling_def await_decide_def split: sum.splits)
    moreover obtain e where "snd u = snd t @ e" "\<not> list_ex is_error e" "emitted e = []"
      using turn(2) by (cases t) (auto simp: await_decide_def logged_def split: sum.splits readiness_status.splits if_splits)
    moreover from turn(3) obtain e2 where "snd (snd x) = snd u @ e2" "polling (fst x) e2" by blast
    ultimately show ?case
      using e1(1) polling_cons [of "fst x" e2 "e1 @ e"] by simp
  qed
  then show ?thesis
    by (intro tracesI) fastforce
qed

text \<open>A value a read returns is the decoding of the last packet the device sent.\<close>

definition confirmed ::
  "readback_request \<Rightarrow> (packet \<Rightarrow> 'a protocol_result) \<Rightarrow> 'a \<Rightarrow> io_event list \<Rightarrow> bool" where
  "confirmed req decode v evs \<longleftrightarrow>
     (\<exists>pre pkt. evs = pre @ [EvGot (request_report_id req) pkt] \<and> decode pkt = Inr v
        \<and> length pkt \<le> unat (request_report_length req))"

lemma confirmed_append: "confirmed req decode v b \<Longrightarrow> confirmed req decode v (a @ b)"
  by (auto simp: confirmed_def)

definition only_transport :: "(driver_error, 'a) result \<Rightarrow> bool" where
  "only_transport r \<longleftrightarrow> (\<forall>e. r = Inl e \<longrightarrow> (\<exists>m. e = DriverTransport m))"

lemma only_transport_simps [simp]:
  "only_transport (Inr x)"
  "only_transport (Inl e) \<longleftrightarrow> (\<exists>m. e = DriverTransport m)"
  by (simp_all add: only_transport_def)

definition attempt_rest ::
  "readback_request \<Rightarrow> (packet \<Rightarrow> 'a protocol_result) \<Rightarrow> (driver_error, (read_failure, 'a) result) result \<Rightarrow>
     io_event list \<Rightarrow> bool" where
  "attempt_rest req decode r evs \<longleftrightarrow> errors_end r evs \<and> emitted evs = [] \<and> only_transport r
     \<and> (\<forall>v. r = Inr (Inr v) \<longrightarrow> confirmed req decode v evs)"

lemma attempt_rest_append:
  "\<not> list_ex is_error a \<Longrightarrow> emitted a = [] \<Longrightarrow> attempt_rest req decode r b \<Longrightarrow> attempt_rest req decode r (a @ b)"
  by (simp add: attempt_rest_def errors_end_append confirmed_append)

lemma traces_fetch:
  fixes decode :: "packet \<Rightarrow> 'v protocol_result"
  shows "traces (bindc (get_report (logged io) (request_report_id req) buffer) (\<lambda>(n, report).
       if n > unat (request_report_length req)
       then ret (Inl (FailureProtocol (InvalidReportLength (unat (request_report_length req)) n)))
       else ret (map_err FailureProtocol (decode (take n report))))) (attempt_rest req decode)"
proof (rule traces_bind [OF traces_get])
  let ?len = "unat (request_report_length req)"
  show "traces (case x of (n, report) \<Rightarrow>
      if n > ?len then ret (Inl (FailureProtocol (InvalidReportLength ?len n)))
      else ret (map_err FailureProtocol (decode (take n report))))
      (\<lambda>r evs. evs = [] \<and> (\<exists>y. r = Inr y)
         \<and> (\<forall>v. r = Inr (Inr v) \<longrightarrow> fst x \<le> ?len \<and> decode (take (fst x) (snd x)) = Inr v))" for x
    by (cases x) (auto intro!: traces_ret)
next
  fix x and r :: "(driver_error, (read_failure, 'v) result) result" and a b :: "io_event list"
  assume "(\<exists>n b. Inr x = Inr (n, b) \<and> a = [EvGot (request_report_id req) (take n b)])
      \<or> (\<exists>m. (Inr x :: (driver_error, nat \<times> packet) result) = Inl (DriverTransport m) \<and> a = [EvGetError (request_report_id req)])"
    and "b = [] \<and> (\<exists>y. r = Inr y) \<and> (\<forall>v. r = Inr (Inr v) \<longrightarrow> fst x \<le> unat (request_report_length req)
        \<and> decode (take (fst x) (snd x)) = Inr v)"
  then show "attempt_rest req decode r (a @ b)"
    by (auto simp: attempt_rest_def confirmed_def)
qed (auto simp: attempt_rest_def errors_end_def)

lemma attempt_rest_Inl:
  "errors_end (Inl (DriverTransport m) :: (driver_error, 'a) result) evs \<Longrightarrow> emitted evs = []
     \<Longrightarrow> attempt_rest req decode (Inl (DriverTransport m)) evs"
  by (auto simp: attempt_rest_def errors_end_def)

lemma attempt_rest_failure:
  "\<not> list_ex is_error evs \<Longrightarrow> emitted evs = [] \<Longrightarrow> attempt_rest req decode (Inr (Inl f)) evs"
  by (simp add: attempt_rest_def)

lemma traces_attempt:
  "traces (read_attempt (logged_worker w) req decode) (\<lambda>r evs. errors_end r evs
     \<and> emitted evs = [selector_encode req] \<and> only_transport r
     \<and> (\<forall>v. r = Inr (Inr v) \<longrightarrow> confirmed req decode v evs))"
proof -
  let ?fetch = "\<lambda>ready. case ready of Inl failure \<Rightarrow> ret (Inl failure)
     | Inr _ \<Rightarrow> let expected_length = unat (request_report_length req)
         in bindc (get_report (logged (w_io w)) (request_report_id req)
                     (take expected_length (replicate MAX_FEATURE_REPORT_LENGTH 0))) (\<lambda>(actual_length, report).
            if actual_length > expected_length
            then ret (Inl (FailureProtocol (InvalidReportLength expected_length actual_length)))
            else ret (map_err FailureProtocol (decode (take actual_length report))))"
  have fetch: "traces (?fetch ready) (\<lambda>r evs. case ready of Inl f \<Rightarrow> r = Inr (Inl f) \<and> evs = []
      | Inr _ \<Rightarrow> attempt_rest req decode r evs)" for ready
    using traces_fetch [of "w_io w" req _ decode]
    by (cases ready) (auto simp: Let_def intro: traces_ret)
  have await: "traces (bindc (await_readiness (logged_worker w) started) ?fetch) (attempt_rest req decode)" for started
    by (rule traces_bind [OF traces_await fetch])
       (auto intro: attempt_rest_Inl attempt_rest_failure attempt_rest_append simp: polling_def split: sum.splits)
  have start: "traces (bindc (now (logged (w_io w))) (\<lambda>started. bindc (await_readiness (logged_worker w) started) ?fetch))
      (attempt_rest req decode)"
    by (rule traces_bind [OF traces_now await]) auto
  have pause: "traces (if w_kind w = Receiver then sleep (logged (w_io w)) RECEIVER_READINESS_DELAY else ret ())
      (\<lambda>r evs. r = Inr () \<and> \<not> list_ex is_error evs \<and> emitted evs = [])"
    by (auto intro: traces_ret intro: traces_weaken [OF traces_sleep])
  have rest: "traces (bindc (if w_kind w = Receiver then sleep (logged (w_io w)) RECEIVER_READINESS_DELAY else ret ())
      (\<lambda>_. bindc (now (logged (w_io w))) (\<lambda>started. bindc (await_readiness (logged_worker w) started) ?fetch)))
      (attempt_rest req decode)"
    by (rule traces_bind [OF pause start]) (auto intro: attempt_rest_append)
  show ?thesis
    unfolding read_attempt_def logged_worker_sel
    by (rule traces_bind [OF traces_send rest])
       (auto simp: attempt_rest_def errors_end_def butlast_append confirmed_append [of _ _ _ _ "[_]", simplified]
         split: if_splits)
qed

text \<open>A retried read: at most the policy's attempts, a transport error ends it.\<close>

definition read_trace ::
  "'s worker \<Rightarrow> readback_request \<Rightarrow> (packet \<Rightarrow> 'a protocol_result) \<Rightarrow> (driver_error, 'a) result \<Rightarrow>
     io_event list \<Rightarrow> bool" where
  "read_trace w req decode r evs \<longleftrightarrow> errors_end r evs
     \<and> (\<exists>k \<le> unat (max_attempts (w_policy w)). emitted evs = replicate k (selector_encode req))
     \<and> (case r of
          Inr v \<Rightarrow> confirmed req decode v evs
        | Inl e \<Rightarrow> (\<exists>m. e = DriverTransport m)
            \<or> ((\<exists>f. e = ReadAttemptsExhausted (request_section req) (request_target_profile req)
                          (max_attempts (w_policy w)) f)
               \<and> emitted evs = replicate (unat (max_attempts (w_policy w))) (selector_encode req)))"

lemma traces_attempt_loop:
  fixes decode :: "packet \<Rightarrow> 'v protocol_result"
  shows "traces (attempt_loop (logged_worker w) req decode n failure) (\<lambda>r evs. errors_end r evs
     \<and> (\<exists>k \<le> n. emitted evs = replicate k (selector_encode req)) \<and> only_transport r
     \<and> (\<forall>f. r = Inr (Inl f) \<longrightarrow> emitted evs = replicate n (selector_encode req))
     \<and> (\<forall>v. r = Inr (Inr v) \<longrightarrow> confirmed req decode v evs))"
proof (induction n arbitrary: failure)
  case 0
  show ?case by (simp add: traces_ret)
next
  case (Suc n)
  let ?P = "\<lambda>m (r :: (driver_error, (read_failure, 'v) result) result) evs. errors_end r evs
     \<and> (\<exists>k \<le> m. emitted evs = replicate k (selector_encode req)) \<and> only_transport r
     \<and> (\<forall>f. r = Inr (Inl f) \<longrightarrow> emitted evs = replicate m (selector_encode req))
     \<and> (\<forall>v. r = Inr (Inr v) \<longrightarrow> confirmed req decode v evs)"
  have again: "traces (case x of Inr x \<Rightarrow> ret (Inr x)
       | Inl failure \<Rightarrow> attempt_loop (logged_worker w) req decode n failure)
      (\<lambda>r evs. case x of Inr y \<Rightarrow> r = Inr (Inr y) \<and> evs = [] | Inl _ \<Rightarrow> ?P n r evs)" for x
    using Suc.IH by (cases x) (auto intro: traces_ret)
  show ?case
    unfolding attempt_loop.simps
  proof (rule traces_bind [OF traces_attempt again])
    fix e evs
    assume "errors_end (Inl e :: (driver_error, (read_failure, 'v) result) result) evs \<and> emitted evs = [selector_encode req]
      \<and> only_transport (Inl e :: (driver_error, (read_failure, 'v) result) result)
      \<and> (\<forall>v. Inl e = Inr (Inr v) \<longrightarrow> confirmed req decode v evs)"
    then show "?P (Suc n) (Inl e) evs"
      by (auto intro: exI [of _ 1] errors_end_Inl)
  next
    fix x and r :: "(driver_error, (read_failure, 'v) result) result" and a b :: "io_event list"
    assume "errors_end (Inr x :: (driver_error, (read_failure, 'v) result) result) a \<and> emitted a = [selector_encode req]
        \<and> only_transport (Inr x :: (driver_error, (read_failure, 'v) result) result)
        \<and> (\<forall>v. (Inr x :: (driver_error, (read_failure, 'v) result) result) = Inr (Inr v) \<longrightarrow> confirmed req decode v a)"
      and "case x of Inr y \<Rightarrow> r = Inr (Inr y) \<and> b = [] | Inl _ \<Rightarrow> ?P n r b"
    then show "?P (Suc n) r (a @ b)"
      by (cases x) (auto intro: errors_end_append confirmed_append exI [of _ 1] exI [of _ "Suc _"])
  qed
qed

lemma traces_armed_read: "traces (armed_read (logged_worker w) req decode) (read_trace w req decode)"
proof -
  have "traces (case x of Inr x \<Rightarrow> ret x | Inl last_failure \<Rightarrow>
      fail (ReadAttemptsExhausted (request_section req) (request_target_profile req) (max_attempts (w_policy w)) last_failure))
      (\<lambda>r evs. evs = [] \<and> (case x of Inr y \<Rightarrow> r = Inr y
         | Inl f \<Rightarrow> r = Inl (ReadAttemptsExhausted (request_section req) (request_target_profile req)
                               (max_attempts (w_policy w)) f)))" for x
    by (cases x) (auto intro: traces_ret traces_fail)
  then show ?thesis
    unfolding armed_read_def Let_def logged_worker_sel
    by (rule traces_bind [OF traces_attempt_loop])
       (auto simp: read_trace_def errors_end_def split: sum.splits if_splits)
qed

section \<open>Verified writes\<close>

text \<open>
  A verified write emits its report exactly once, before any other event, and returns only the
  value it wrote, decoded from the last packet the device sent.
\<close>

definition write_trace ::
  "packet \<Rightarrow> readback_request \<Rightarrow> (packet \<Rightarrow> 'a protocol_result) \<Rightarrow> 'a \<Rightarrow> (driver_error, 'a) result \<Rightarrow>
     io_event list \<Rightarrow> bool" where
  "write_trace report req decode x r evs \<longleftrightarrow> errors_end r evs \<and> config_writes evs = [report]
     \<and> (\<forall>v. r = Inr v \<longrightarrow> v = x \<and> hd evs = EvSend report \<and> confirmed req decode x evs)"

definition is_config_report :: "packet \<Rightarrow> bool" where
  "is_config_report p \<longleftrightarrow> take 1 p \<noteq> [READ_SELECTOR_REPORT_ID]"

lemma config_writes_send [simp]:
  "is_config_report p \<Longrightarrow> config_writes (EvSend p # evs) = p # config_writes evs"
  "is_config_report p \<Longrightarrow> config_writes (EvSendError p # evs) = p # config_writes evs"
  "config_writes (EvSleep d # evs) = config_writes evs"
  "config_writes [] = []"
  by (simp_all add: config_writes_def is_config_report_def)

lemma read_trace_config: "read_trace w req decode r evs \<Longrightarrow> config_writes evs = []"
  by (auto simp: read_trace_def intro: config_writes_selectors)

lemma traces_send_config:
  "is_config_report p \<Longrightarrow> traces (send_report (logged io) p)
     (\<lambda>r evs. errors_end r evs \<and> config_writes evs = [p] \<and> (r = Inr () \<longrightarrow> evs = [EvSend p]))"
  by (rule traces_weaken [OF traces_send]) (auto simp: errors_end_def)

lemma traces_sleep_after_write:
  "traces (sleep_after_write (logged_worker w))
     (\<lambda>r evs. r = Inr () \<and> \<not> list_ex is_error evs \<and> config_writes evs = [])"
  by (auto simp: sleep_after_write_def intro: traces_ret traces_weaken [OF traces_sleep])

lemma traces_verified_write:
  assumes "is_config_report report" and "\<And>m. err \<noteq> DriverTransport m"
  shows "traces (bindc (send_report (logged (w_io w)) report) (\<lambda>_.
      bindc (sleep_after_write (logged_worker w)) (\<lambda>_.
      bindc (armed_read (logged_worker w) req decode) (\<lambda>actual.
      if actual \<noteq> x then fail err else ret actual)))) (write_trace report req decode x)"
proof -
  let ?T = "\<lambda>r evs. errors_end r evs \<and> config_writes evs = []
      \<and> (\<forall>v. r = Inr v \<longrightarrow> v = x \<and> confirmed req decode x evs)"
  have check: "traces (if actual \<noteq> x then fail err else ret actual)
      (\<lambda>r evs. evs = [] \<and> (if actual \<noteq> x then r = Inl err else r = Inr x))" for actual
    by (auto intro: traces_ret traces_fail)
  have readback: "traces (bindc (armed_read (logged_worker w) req decode) (\<lambda>actual.
      if actual \<noteq> x then fail err else ret actual)) ?T"
    by (rule traces_bind [OF traces_armed_read check])
       (use assms(2) in \<open>auto simp: read_trace_def errors_end_def intro: config_writes_selectors
          split: if_splits\<close>)
  have paused: "traces (bindc (sleep_after_write (logged_worker w)) (\<lambda>_.
      bindc (armed_read (logged_worker w) req decode) (\<lambda>actual.
      if actual \<noteq> x then fail err else ret actual))) ?T"
    by (rule traces_bind [OF traces_sleep_after_write readback])
       (auto intro: errors_end_append confirmed_append)
  show ?thesis
  proof (rule traces_bind [OF traces_send_config [OF assms(1)] paused])
    fix u and r :: "(driver_error, 'b) result" and a b
    assume a: "errors_end (Inr u :: (driver_error, unit) result) a \<and> config_writes a = [report]
        \<and> ((Inr u :: (driver_error, unit) result) = Inr () \<longrightarrow> a = [EvSend report])" and b: "?T r b"
    from a have "a = [EvSend report]" by simp
    with a b show "write_trace report req decode x r (a @ b)"
      using errors_end_append [of a r b] confirmed_append [of req decode x b a] assms(1)
      by (auto simp: write_trace_def)
  qed (auto simp: write_trace_def errors_end_def)
qed

lemma is_config_report_images:
  "is_config_report (prefs_as_bytes (prefs_encode_framed st f))"
  "is_config_report (polling_encode profile rate)"
  "is_config_report (control_as_bytes (control_encode m g))"
  by (simp_all add: is_config_report_def prefs_as_bytes_layout polling_encode_layout
      control_as_bytes_layout Let_def profile_consts)

lemma config_writes_got [simp]: "config_writes (EvGot i p # evs) = config_writes evs"
  by (simp add: config_writes_def)

lemma write_trace_Inr:
  assumes "write_trace report req decode x (Inr v) evs" and "is_config_report report"
  shows "v = x \<and> (\<exists>mid pkt. evs = [EvSend report] @ mid @ [EvGot (request_report_id req) pkt]
    \<and> config_writes mid = [] \<and> decode pkt = Inr x)"
proof -
  from assms(1) obtain pre pkt where v: "v = x" and hd: "hd evs = EvSend report"
    and evs: "evs = pre @ [EvGot (request_report_id req) pkt]" and pkt: "decode pkt = Inr x"
    and cw: "config_writes evs = [report]"
    by (auto simp: write_trace_def confirmed_def)
  obtain mid where "pre = EvSend report # mid"
    using hd evs by (cases pre) auto
  with v evs pkt cw assms(2) show ?thesis
    by (auto simp: config_writes_append [of mid, simplified])
qed

lemma traces_write_preferences:
  "traces (write_preferences (logged_worker w) st)
     (write_trace (prefs_as_bytes (prefs_encode_framed st PrefsCompact))
        (ReadPreferences (prefs_profile st)) (decode_preferences_image (w_kind w) (prefs_profile st)) st)"
  unfolding write_preferences_def send_preferences_def read_preferences_def logged_worker_sel
  by (rule traces_verified_write) (simp_all add: is_config_report_images)

lemma traces_write_rate:
  "traces (write_polling_rate_unchecked (logged_worker w) profile rate)
     (write_trace (polling_encode profile rate) (ReadPollingRate profile)
        (decode_rate_image (w_kind w) profile) rate)"
  unfolding write_polling_rate_unchecked_def send_polling_rate_unchecked_def read_live_polling_rate_def
    logged_worker_sel
  by (rule traces_verified_write) (simp_all add: is_config_report_images)

lemma traces_write_buttons:
  assumes "wf_buttons st"
  shows "traces (write_buttons (logged_worker w) st)
    (write_trace (buttons_encode st) (ReadButtons (buttons_profile st))
       (decode_buttons_image (w_kind w) (buttons_profile st)) st)"
  unfolding write_buttons_def send_buttons_def read_buttons_def logged_worker_sel
  by (rule traces_verified_write)
     (simp_all add: is_config_report_def buttons_encode_layout [OF assms] profile_consts)

lemma is_config_report_dpi:
  assumes "typed_dpi_state st" and "dpi_encode st kind = Inr report"
  shows "is_config_report (dpi_as_bytes report)"
proof -
  from assms have sel: "valid_selection st" and len: "length (dpi_image st) = 56"
    and r: "dpi_as_bytes report = take 52 (dpi_image st)"
    by (auto simp: dpi_encode_def dpi_as_bytes_def typed_dpi_state_def)
  have "dpi_image st ! 0 = 0x04"
    using assms(1) sel by (simp add: nth_dpi_image nth_dpi_body dpi_header_def)
  with len show ?thesis
    unfolding is_config_report_def r READ_SELECTOR_REPORT_ID_def by (cases "dpi_image st") auto
qed

lemma traces_write_dpi:
  assumes "typed_dpi_state st"
  shows "traces (write_dpi (logged_worker w) st)
    (\<lambda>r evs. case dpi_encode st (w_kind w) of
       Inl e \<Rightarrow> r = Inl (DriverProtocol e) \<and> evs = []
     | Inr report \<Rightarrow> write_trace (dpi_as_bytes report) (ReadDpi (dpi_profile st))
                      (decode_dpi_image (w_kind w) (dpi_profile st)) st r evs)"
proof (cases "dpi_encode st (w_kind w)")
  case (Inl e)
  then show ?thesis
    by (auto simp: write_dpi_def send_dpi_def bindc_def lift_protocol_def traces_def)
next
  case (Inr report)
  have send: "send_dpi (logged_worker w) st = send_report (logged (w_io w)) (dpi_as_bytes report)"
    by (auto simp: send_dpi_def bindc_def lift_protocol_def Inr)
  show ?thesis
    unfolding write_dpi_def read_dpi_def logged_worker_sel Inr send sum.case
    by (rule traces_verified_write [OF is_config_report_dpi [OF assms Inr]]) simp
qed

section \<open>Profile control\<close>

text \<open>
  Both metadata operations read the current metadata, decide from it, and either stop without a
  write or write the metadata they decided on. \<open>decide\<close> is that decision: an error, the
  unchanged metadata, or the metadata to write.
\<close>

datatype metadata_decision = Refuse driver_error | Keep profile_metadata | Change profile_metadata

definition activate_decision :: "profile_id \<Rightarrow> profile_metadata \<Rightarrow> metadata_decision" where
  "activate_decision profile cur =
     (if meta_current cur = profile then Refuse (ProfileAlreadyActive profile)
      else if profile_get (meta_maximum cur) < profile_get profile
      then Refuse (ProfileNotEnabled profile (meta_maximum cur))
      else Change (cur\<lparr>meta_current := profile\<rparr>))"

definition maximum_decision :: "profile_id \<Rightarrow> profile_metadata \<Rightarrow> metadata_decision" where
  "maximum_decision maximum cur =
     (if profile_get maximum < profile_get (meta_current cur)
      then Refuse (MaximumProfileBelowCurrent maximum (meta_current cur))
      else if maximum = meta_maximum cur then Keep cur
      else Change (cur\<lparr>meta_maximum := maximum\<rparr>))"

definition control_image :: "transport_kind \<Rightarrow> profile_metadata \<Rightarrow> packet" where
  "control_image kind m = control_as_bytes (control_encode m (control_framing_for kind))"

definition metadata_trace ::
  "'s worker \<Rightarrow> (profile_metadata \<Rightarrow> metadata_decision) \<Rightarrow> (driver_error, profile_metadata) result \<Rightarrow>
     io_event list \<Rightarrow> bool" where
  "metadata_trace w decide r evs \<longleftrightarrow>
     (\<exists>pre post cur. evs = pre @ post
        \<and> read_trace w ReadProfileMetadata (decode_metadata_image (w_kind w)) cur pre
        \<and> (case cur of Inl e \<Rightarrow> r = Inl e \<and> post = []
           | Inr m \<Rightarrow> (case decide m of
               Refuse e \<Rightarrow> r = Inl e \<and> post = []
             | Keep m' \<Rightarrow> r = Inr m' \<and> post = []
             | Change expected \<Rightarrow> write_trace (control_image (w_kind w) expected) ReadProfileMetadata
                                   (decode_metadata_image (w_kind w)) expected r post)))"

lemma traces_metadata_change:
  assumes "\<And>m. traces (f m) (\<lambda>r evs. case decide m of
      Refuse e \<Rightarrow> r = Inl e \<and> evs = []
    | Keep m' \<Rightarrow> r = Inr m' \<and> evs = []
    | Change expected \<Rightarrow> write_trace (control_image (w_kind w) expected) ReadProfileMetadata
                          (decode_metadata_image (w_kind w)) expected r evs)"
  shows "traces (bindc (read_profile_metadata (logged_worker w)) f) (metadata_trace w decide)"
proof -
  have "traces (read_profile_metadata (logged_worker w))
      (read_trace w ReadProfileMetadata (decode_metadata_image (w_kind w)))"
    unfolding read_profile_metadata_def logged_worker_sel by (rule traces_armed_read)
  then show ?thesis
  proof (rule traces_bind [OF _ assms])
    fix e evs
    assume "read_trace w ReadProfileMetadata (decode_metadata_image (w_kind w)) (Inl e) evs"
    then show "metadata_trace w decide (Inl e) evs"
      unfolding metadata_trace_def by (intro exI [of _ evs] exI [of _ "[]"] exI [of _ "Inl e"]) simp
  next
    fix m and r :: "(driver_error, profile_metadata) result" and a b :: "io_event list"
    assume "read_trace w ReadProfileMetadata (decode_metadata_image (w_kind w)) (Inr m) a"
      and "case decide m of Refuse e \<Rightarrow> r = Inl e \<and> b = [] | Keep m' \<Rightarrow> r = Inr m' \<and> b = []
        | Change expected \<Rightarrow> write_trace (control_image (w_kind w) expected) ReadProfileMetadata
            (decode_metadata_image (w_kind w)) expected r b"
    then show "metadata_trace w decide r (a @ b)"
      unfolding metadata_trace_def by (intro exI [of _ a] exI [of _ b] exI [of _ "Inr m"]) simp
  qed
qed

lemma bind_lift_Inr: "bindc (lift_protocol (Inr x)) f = f x"
  by (auto simp: bindc_def lift_protocol_def)

lemma traces_write_control:
  assumes "\<And>m. err \<noteq> DriverTransport m"
  shows "traces (bindc (send_report (logged (w_io w)) (control_as_bytes (control_encode x (control_framing_for (w_kind w))))) (\<lambda>_.
      bindc (sleep_after_write (logged_worker w)) (\<lambda>_.
      bindc (read_profile_metadata (logged_worker w)) (\<lambda>actual.
      if actual \<noteq> x then fail err else ret actual))))
    (write_trace (control_image (w_kind w) x) ReadProfileMetadata (decode_metadata_image (w_kind w)) x)"
  unfolding read_profile_metadata_def control_image_def logged_worker_sel
  by (rule traces_verified_write) (simp_all add: is_config_report_images assms)

lemma traces_activate_profile:
  "traces (activate_profile (logged_worker w) profile) (metadata_trace w (activate_decision profile))"
  unfolding activate_profile_def logged_worker_sel
proof (rule traces_metadata_change, goal_cases)
  case (1 m)
  have new: "metadata_new profile (meta_maximum m) = Inr (m\<lparr>meta_current := profile\<rparr>)"
    if "\<not> profile_get (meta_maximum m) < profile_get profile"
    using that by (cases m) (simp add: metadata_new_def)
  show ?case
    by (auto simp: activate_decision_def new bind_lift_Inr intro: traces_fail traces_write_control)
qed

lemma traces_set_maximum_profile:
  "traces (set_maximum_profile (logged_worker w) maximum) (metadata_trace w (maximum_decision maximum))"
  unfolding set_maximum_profile_def logged_worker_sel
proof (rule traces_metadata_change, goal_cases)
  case (1 m)
  have new: "metadata_new (meta_current m) maximum = Inr (m\<lparr>meta_maximum := maximum\<rparr>)"
    if "\<not> profile_get maximum < profile_get (meta_current m)"
    using that by (cases m) (simp add: metadata_new_def)
  show ?case
    by (auto simp: maximum_decision_def new bind_lift_Inr intro: traces_fail traces_ret traces_write_control)
qed

section \<open>Commands\<close>

fun is_read :: "command \<Rightarrow> bool" where
  "is_read CmdProfileMetadata \<longleftrightarrow> True"
| "is_read (CmdDpi _) \<longleftrightarrow> True"
| "is_read (CmdPreferences _) \<longleftrightarrow> True"
| "is_read (CmdButtons _) \<longleftrightarrow> True"
| "is_read (CmdLivePollingRate _) \<longleftrightarrow> True"
| "is_read (CmdProfile _) \<longleftrightarrow> True"
| "is_read (CmdRawReadback _) \<longleftrightarrow> True"
| "is_read _ \<longleftrightarrow> False"

text \<open>What Rust's types guarantee of the states a command carries.\<close>

fun typed_command :: "command \<Rightarrow> bool" where
  "typed_command (CmdWriteDpi st) \<longleftrightarrow> typed_dpi_state st"
| "typed_command (CmdSendDpi st) \<longleftrightarrow> typed_dpi_state st"
| "typed_command (CmdWriteButtons st) \<longleftrightarrow> wf_buttons st"
| "typed_command (CmdSendButtons st) \<longleftrightarrow> wf_buttons st"
| "typed_command _ \<longleftrightarrow> True"

definition command_trace :: "command \<Rightarrow> (driver_error, 'a) result \<Rightarrow> io_event list \<Rightarrow> bool" where
  "command_trace c r evs \<longleftrightarrow> errors_end r evs \<and> length (config_writes evs) \<le> 1
     \<and> (is_read c \<longrightarrow> config_writes evs = [])"

lemma traces_reply:
  assumes "traces m P"
    and "\<And>r evs. P r evs \<Longrightarrow> command_trace c r evs"
  shows "traces (reply_with f m) (command_trace c)"
  unfolding reply_with_def
  by (rule traces_bind [OF assms(1), where Q = "\<lambda>x r evs. r = Inr (f x) \<and> evs = []"])
     (use assms(2) in \<open>force simp: command_trace_def errors_end_def intro: traces_ret\<close>)+

lemma command_trace_read: "read_trace w req decode r evs \<Longrightarrow> command_trace c r evs"
  using read_trace_config [of w req decode r evs] by (simp add: command_trace_def read_trace_def)

lemma command_trace_write: "write_trace report req decode x r evs \<Longrightarrow> \<not> is_read c \<Longrightarrow> command_trace c r evs"
  by (simp add: command_trace_def write_trace_def)

lemma errors_end_read_only:
  "read_trace w req decode (Inr x) a \<Longrightarrow> \<not> list_ex is_error a \<and> config_writes a = []"
  using read_trace_config [of w req decode "Inr x" a] by (simp add: read_trace_def)

lemma command_trace_metadata:
  assumes "metadata_trace w decide r evs" and "\<not> is_read c"
    and "\<And>m e. decide m = Refuse e \<Longrightarrow> \<forall>t. e \<noteq> DriverTransport t"
  shows "command_trace c r evs"
proof -
  from assms(1) obtain pre post cur where evs: "evs = pre @ post"
    and pre: "read_trace w ReadProfileMetadata (decode_metadata_image (w_kind w)) cur pre"
    and post: "case cur of Inl e \<Rightarrow> r = Inl e \<and> post = []
      | Inr m \<Rightarrow> (case decide m of Refuse e \<Rightarrow> r = Inl e \<and> post = [] | Keep m' \<Rightarrow> r = Inr m' \<and> post = []
        | Change expected \<Rightarrow> write_trace (control_image (w_kind w) expected) ReadProfileMetadata
            (decode_metadata_image (w_kind w)) expected r post)"
    unfolding metadata_trace_def by blast
  note quiet = read_trace_config [OF pre]
  show ?thesis
  proof (cases cur)
    case (Inl e)
    with post quiet pre show ?thesis
      using errors_end_Inl by (auto simp: command_trace_def evs read_trace_def)
  next
    case (Inr m)
    have ok: "\<not> list_ex is_error pre"
      using pre Inr by (simp add: read_trace_def)
    show ?thesis
      using post quiet ok assms(2) assms(3) [of m]
      by (cases "decide m")
         (auto simp: Inr command_trace_def evs errors_end_def write_trace_def butlast_append split: if_splits)
  qed
qed

lemma command_trace_send:
  assumes "traces m (\<lambda>r evs. errors_end r evs \<and> length (config_writes evs) \<le> 1)" and "\<not> is_read c"
  shows "traces (reply_with f m) (command_trace c)"
  by (rule traces_reply [OF assms(1)]) (use assms(2) in \<open>simp add: command_trace_def\<close>)

lemma traces_send_any:
  "traces (send_report (logged io) p) (\<lambda>r evs. errors_end r evs \<and> length (config_writes evs) \<le> 1)"
  by (rule traces_weaken [OF traces_send]) (auto simp: errors_end_def config_writes_def)

lemma traces_send_dpi:
  "traces (send_dpi (logged_worker w) st) (\<lambda>r evs. errors_end r evs \<and> length (config_writes evs) \<le> 1)"
  unfolding send_dpi_def logged_worker_sel
  by (rule traces_bind [OF traces_lift_protocol traces_send_any])
     (auto simp: errors_end_def map_err_def split: sum.splits)

lemma traces_read_profile:
  "traces (read_profile (logged_worker w) profile) (\<lambda>r evs. errors_end r evs \<and> config_writes evs = [])"
proof -
  let ?Q = "\<lambda>r evs. errors_end r evs \<and> config_writes evs = []"
  have one: "traces (armed_read (logged_worker w) req decode) ?Q" for req decode
    by (rule traces_weaken [OF traces_armed_read]) (auto simp: read_trace_config read_trace_def)
  have step: "traces (bindc (armed_read (logged_worker w) req decode) f) ?Q" if "\<And>x. traces (f x) ?Q"
    for req decode f
    by (rule traces_bind [OF one that]) (auto intro: errors_end_append errors_end_Inl)
  show ?thesis
    unfolding read_profile_def read_profile_metadata_def read_dpi_def read_preferences_def read_buttons_def
    by (intro step) (simp add: traces_ret)
qed

lemma traces_dispatch:
  assumes "typed_command c"
  shows "traces (dispatch (logged_worker w) c) (command_trace c)"
proof (cases c)
  case (CmdWriteDpi st)
  show ?thesis
    unfolding CmdWriteDpi dispatch.simps
  proof (rule traces_reply [OF traces_write_dpi])
    show "typed_dpi_state st" using assms CmdWriteDpi by simp
    show "command_trace (CmdWriteDpi st) r evs"
      if "case dpi_encode st (w_kind w) of Inl e \<Rightarrow> r = Inl (DriverProtocol e) \<and> evs = []
        | Inr report \<Rightarrow> write_trace (dpi_as_bytes report) (ReadDpi (dpi_profile st))
            (decode_dpi_image (w_kind w) (dpi_profile st)) st r evs" for r evs
      using that command_trace_write [of _ _ _ _ r evs "CmdWriteDpi st"]
      by (cases "dpi_encode st (w_kind w)") (simp_all add: command_trace_def errors_end_def)
  qed
next
  case (CmdProfile p)
  show ?thesis
    unfolding CmdProfile dispatch.simps
    by (rule traces_reply [OF traces_read_profile]) (simp add: command_trace_def)
qed (use assms in \<open>auto intro!: traces_reply [OF traces_armed_read] command_trace_send traces_send_any traces_send_dpi
      traces_reply [OF traces_write_preferences] traces_reply [OF traces_write_buttons]
      traces_reply [OF traces_write_rate] traces_reply [OF traces_activate_profile]
      traces_reply [OF traces_set_maximum_profile]
    elim: command_trace_read command_trace_write command_trace_metadata
    simp: read_profile_metadata_def read_dpi_def read_preferences_def read_buttons_def
      read_live_polling_rate_def read_raw_readback_def send_preferences_def send_buttons_def
      send_polling_rate_unchecked_def activate_decision_def maximum_decision_def split: if_splits\<close>)

section \<open>The log only observes\<close>

text \<open>Forgetting the log of an instrumented run gives the run itself, divergence included.\<close>

definition forget :: "('a \<times> 's \<times> io_event list) option \<Rightarrow> ('a \<times> 's) option" where
  "forget x = map_option (\<lambda>(r, t, k). (r, t)) x"

lemma forget_simps [simp]: "forget None = None" "forget (Some (r, t, k)) = Some (r, t)"
  by (simp_all add: forget_def)

definition observes :: "('s \<times> io_event list, 'a) comp \<Rightarrow> ('s, 'a) comp \<Rightarrow> bool" where
  "observes m' m \<longleftrightarrow> (\<forall>s l. forget (m' (s, l)) = m s)"

lemma observes_bind:
  assumes "observes m' m" and "\<And>x. observes (f' x) (f x)"
  shows "observes (bindc m' f') (bindc m f)"
  unfolding observes_def
proof (intro allI)
  fix s l
  have "forget (m' (s, l)) = m s" using assms(1) by (simp add: observes_def)
  then show "forget (bindc m' f' (s, l)) = bindc m f s"
    using assms(2)
    by (cases "m' (s, l)") (auto simp: bindc_def observes_def split: sum.splits option.splits)
qed

lemma observes_basic:
  "observes (ret x) (ret x)"
  "observes (fail e) (fail e)"
  "observes (lift_protocol p) (lift_protocol p)"
  "observes (now (logged io)) (now io)"
  "observes (sleep (logged io) d) (sleep io d)"
  "observes (send_report (logged io) report) (send_report io report)"
  "observes (get_report (logged io) i buffer) (get_report io i buffer)"
  by (auto simp: observes_def ret_def fail_def lift_protocol_def now_def sleep_def send_report_def
      get_report_def logged_def split: prod.splits)

lemma observes_status: "observes (read_readiness_status (logged_worker w)) (read_readiness_status w)"
  unfolding read_readiness_status_def logged_worker_sel
  by (rule observes_bind) (auto simp: observes_basic split: prod.split)

lemma observes_decide:
  "await_decide (logged_worker w) started r (t, k) =
     (case await_decide w started r t of Inl y \<Rightarrow> Inl y
      | Inr u \<Rightarrow> Inr (u, if poll_interval (w_policy w) \<noteq> 0
                     then k @ [EvSleep (min (poll_interval (w_policy w))
                        (readiness_timeout (w_policy w) - (io_now (w_io w) t - started)))] else k))"
  by (simp add: await_decide_def logged_def split: sum.split readiness_status.split)

lemma observes_await: "observes (await_readiness (logged_worker w) started) (await_readiness w started)"
proof -
  have status: "forget (read_readiness_status (logged_worker w) (s, l)) = read_readiness_status w s" for s l
    using observes_status [of w] by (simp add: observes_def)
  have A: "\<forall>l. forget (await_readiness (logged_worker w) started (s, l)) = Some x"
    if "await_readiness w started s = Some x" for s x
    using that
  proof (induction rule: await_induct)
    case (finish s r t y)
    show ?case
    proof
      fix l
      from finish(1) status [of s l] obtain k
        where "read_readiness_status (logged_worker w) (s, l) = Some (r, (t, k))"
        by (auto simp: forget_def)
      then show "forget (await_readiness (logged_worker w) started (s, l)) = Some (y, t)"
        using finish(2) by (subst await_unfold) (simp add: observes_decide)
    qed
  next
    case (turn s r t u x)
    show ?case
    proof
      fix l
      from turn(1) status [of s l] obtain k
        where "read_readiness_status (logged_worker w) (s, l) = Some (r, (t, k))"
        by (auto simp: forget_def)
      then show "forget (await_readiness (logged_worker w) started (s, l)) = Some x"
        using turn(2,3) by (subst await_unfold) (simp add: observes_decide)
    qed
  qed
  have B: "await_readiness w started (fst a) = Some (fst x, fst (snd x))"
    if "await_readiness (logged_worker w) started a = Some x" for a x
    using that
  proof (induction rule: await_induct)
    case (finish a r t y)
    have "read_readiness_status w (fst a) = Some (r, fst t)"
      using finish(1) status [of "fst a" "snd a"] by (cases t) simp
    then show ?case
      using finish(2) by (subst await_unfold) (cases t; auto simp: observes_decide split: sum.splits)
  next
    case (turn a r t u x)
    have "read_readiness_status w (fst a) = Some (r, fst t)"
      using turn(1) status [of "fst a" "snd a"] by (cases t) simp
    then show ?case
      using turn(2,3) by (subst await_unfold) (cases t; auto simp: observes_decide split: sum.splits)
  qed
  show ?thesis
    unfolding observes_def
  proof (intro allI)
    fix s l
    show "forget (await_readiness (logged_worker w) started (s, l)) = await_readiness w started s"
    proof (cases "await_readiness w started s")
      case None
      then show ?thesis
        using B [of "(s, l)"] by (cases "await_readiness (logged_worker w) started (s, l)") auto
    next
      case (Some x)
      then show ?thesis using A by simp
    qed
  qed
qed

lemma observes_attempt: "observes (read_attempt (logged_worker w) req decode) (read_attempt w req decode)"
  unfolding read_attempt_def logged_worker_sel Let_def
  by (intro observes_bind observes_await observes_basic)
     (auto simp: observes_basic split: sum.split prod.split if_split intro!: observes_bind)

lemma observes_attempt_loop:
  "observes (attempt_loop (logged_worker w) req decode n failure) (attempt_loop w req decode n failure)"
  by (induction n arbitrary: failure)
     (auto intro!: observes_bind observes_attempt simp: observes_basic split: sum.split)

lemma observes_armed_read: "observes (armed_read (logged_worker w) req decode) (armed_read w req decode)"
  unfolding armed_read_def logged_worker_sel Let_def
  by (intro observes_bind observes_attempt_loop) (auto simp: observes_basic split: sum.split)

lemma observes_sleep_after_write: "observes (sleep_after_write (logged_worker w)) (sleep_after_write w)"
  by (simp add: sleep_after_write_def observes_basic)

lemma observes_if: "observes a a' \<Longrightarrow> observes b b' \<Longrightarrow> observes (if c then a else b) (if c then a' else b')"
  by simp

lemmas observes_intros =
  observes_bind observes_if observes_armed_read observes_sleep_after_write observes_basic

lemma observes_dispatch: "observes (dispatch (logged_worker w) c) (dispatch w c)"
  by (cases c)
     (simp_all only: dispatch.simps reply_with_def read_profile_metadata_def read_dpi_def read_preferences_def
       read_buttons_def read_live_polling_rate_def read_raw_readback_def write_dpi_def write_preferences_def
       write_buttons_def write_polling_rate_unchecked_def send_dpi_def send_preferences_def send_buttons_def
       send_polling_rate_unchecked_def set_maximum_profile_def activate_profile_def read_profile_def
       logged_worker_sel, (intro observes_intros)+)

end
