(* ===== verification/X3_Worker_Live.thy ===== *)
theory X3_Worker_Live
  imports X3_Worker_Trace X3_Text
begin

text \<open>
  The worker returns. The clock laws of a transport are a locale; inside it every command is
  shown to return for a policy with a non-zero poll interval. The locale is interpreted on the
  scripted transport the worker is exercised with (\<^verbatim>\<open>ScriptedTransport\<close> in
  \<^verbatim>\<open>driver/worker.rs\<close>); the HID transport of \<^verbatim>\<open>driver/usb.rs\<close> satisfies the
  laws whenever the HID library lets time pass forward.
\<close>

section \<open>The clock of a transport\<close>

locale feature_clock =
  fixes io :: "'s feature_io"
  assumes send_forward: "io_now io s \<le> io_now io (snd (io_send io p s))"
    and get_forward: "io_now io s \<le> io_now io (snd (snd (io_get io i b s)))"
    and sleep_at_least: "io_now io s + d \<le> io_now io (io_sleep io d s)"
begin

definition returns :: "('s, 'a) comp \<Rightarrow> bool" where
  "returns m \<longleftrightarrow> (\<forall>s. \<exists>r t. m s = Some (r, t) \<and> io_now io s \<le> io_now io t)"

lemma returns_bind:
  assumes "returns m" and "\<And>x. returns (f x)"
  shows "returns (bindc m f)"
  unfolding returns_def
proof
  fix s
  from assms(1) obtain r t where m: "m s = Some (r, t)" "io_now io s \<le> io_now io t"
    unfolding returns_def by blast
  show "\<exists>r t. bindc m f s = Some (r, t) \<and> io_now io s \<le> io_now io t"
  proof (cases r)
    case (Inl e)
    with m show ?thesis by (simp add: bindc_def)
  next
    case (Inr x)
    from assms(2) [of x] obtain r' t' where "f x t = Some (r', t')" "io_now io t \<le> io_now io t'"
      unfolding returns_def by blast
    with m Inr show ?thesis by (auto simp: bindc_def)
  qed
qed

lemma returns_basic:
  "returns (ret x)" "returns (fail e)" "returns (lift_protocol p)" "returns (now io)"
  "returns (sleep io d)" "returns (send_report io report)" "returns (get_report io i b)"
proof -
  show "returns (send_report io report)"
    unfolding returns_def send_report_def
  proof
    show "\<exists>r t. (case io_send io report s of (r, t) \<Rightarrow> Some (map_err DriverTransport r, t)) = Some (r, t)
        \<and> io_now io s \<le> io_now io t" for s
      using send_forward [of s report] by (cases "io_send io report s") auto
  qed
  show "returns (get_report io i b)"
    unfolding returns_def get_report_def
  proof
    show "\<exists>r t. (case io_get io i b s of (r, b', t) \<Rightarrow>
          Some (map_err DriverTransport (map_sum id (\<lambda>n. (n, b')) r), t)) = Some (r, t)
        \<and> io_now io s \<le> io_now io t" for s
      using get_forward [of s i b] by (cases "io_get io i b s") auto
  qed
  show "returns (sleep io d)"
    unfolding returns_def sleep_def using sleep_at_least by (auto intro: add_leD1)
qed (auto simp: returns_def ret_def fail_def lift_protocol_def now_def)

lemma returns_status:
  assumes "w_io w = io"
  shows "returns (read_readiness_status w)"
  unfolding read_readiness_status_def assms
  by (auto intro!: returns_bind simp: returns_basic split: prod.split)

text \<open>Each turn that goes on has moved the clock, and not beyond the deadline.\<close>

lemma decide_progress:
  assumes "w_io w = io" and "poll_interval (w_policy w) \<noteq> 0" and "await_decide w started r t = Inr u"
  shows "io_now io t < started + readiness_timeout (w_policy w) \<and> io_now io t < io_now io u"
proof -
  let ?rest = "readiness_timeout (w_policy w) - (io_now io t - started)"
  have r: "\<not> readiness_timeout (w_policy w) \<le> io_now io t - started"
    and u: "u = io_sleep io (min (poll_interval (w_policy w)) ?rest) t"
    using assms by (auto simp: await_decide_def split: sum.splits readiness_status.splits if_splits)
  have "0 < min (poll_interval (w_policy w)) ?rest"
    using r assms(2) by simp
  then have "io_now io t < io_now io u"
    using sleep_at_least [of t "min (poll_interval (w_policy w)) ?rest"] unfolding u by linarith
  with r show ?thesis by linarith
qed

lemma returns_await:
  assumes "w_io w = io" and "poll_interval (w_policy w) \<noteq> 0"
  shows "returns (await_readiness w started)"
proof -
  have "\<exists>r t. await_readiness w started s = Some (r, t) \<and> io_now io s \<le> io_now io t" for s
  proof (induction "started + readiness_timeout (w_policy w) - io_now io s" arbitrary: s rule: less_induct)
    case less
    from returns_status [OF assms(1)] obtain r t
      where st: "read_readiness_status w s = Some (r, t)" "io_now io s \<le> io_now io t"
      unfolding returns_def by blast
    show ?case
    proof (cases "await_decide w started r t")
      case (Inl y)
      then show ?thesis using st by (subst await_unfold) simp
    next
      case (Inr u)
      note p = decide_progress [OF assms Inr]
      then have "started + readiness_timeout (w_policy w) - io_now io u
          < started + readiness_timeout (w_policy w) - io_now io s"
        using st(2) by linarith
      from less [OF this] obtain r' t' where "await_readiness w started u = Some (r', t')" "io_now io u \<le> io_now io t'"
        by blast
      then show ?thesis
        using st Inr p by (subst await_unfold) auto
    qed
  qed
  then show ?thesis by (simp add: returns_def)
qed

lemma returns_attempt:
  assumes "w_io w = io" and "poll_interval (w_policy w) \<noteq> 0"
  shows "returns (read_attempt w req decode)"
  unfolding read_attempt_def Let_def assms(1)
  by (intro returns_bind returns_await [OF assms])
     (auto simp: returns_basic split: sum.split prod.split intro!: returns_bind)

lemma returns_attempt_loop:
  assumes "w_io w = io" and "poll_interval (w_policy w) \<noteq> 0"
  shows "returns (attempt_loop w req decode n failure)"
  by (induction n arbitrary: failure)
     (auto intro!: returns_bind returns_attempt [OF assms] simp: returns_basic split: sum.split)

lemma returns_armed_read:
  assumes "w_io w = io" and "poll_interval (w_policy w) \<noteq> 0"
  shows "returns (armed_read w req decode)"
  unfolding armed_read_def Let_def
  by (intro returns_bind returns_attempt_loop [OF assms]) (auto simp: returns_basic split: sum.split)

lemma returns_if: "returns a \<Longrightarrow> returns b \<Longrightarrow> returns (if c then a else b)"
  by simp

lemma returns_dispatch:
  assumes "w_io w = io" and "poll_interval (w_policy w) \<noteq> 0"
  shows "returns (dispatch w c)"
proof -
  have sl: "returns (sleep_after_write w)"
    by (simp add: sleep_after_write_def assms(1) returns_basic)
  show ?thesis
    by (cases c)
       (simp_all only: dispatch.simps reply_with_def read_profile_metadata_def read_dpi_def read_preferences_def
         read_buttons_def read_live_polling_rate_def read_raw_readback_def write_dpi_def write_preferences_def
         write_buttons_def write_polling_rate_unchecked_def send_dpi_def send_preferences_def send_buttons_def
         send_polling_rate_unchecked_def set_maximum_profile_def activate_profile_def read_profile_def assms(1),
        (intro returns_bind returns_if returns_armed_read [OF assms] sl returns_basic)+)
qed

lemma worker_run_returns:
  assumes "w_io w = io" and "poll_interval (w_policy w) \<noteq> 0"
  shows "\<exists>replies t. worker_run w cs s = Some (replies, t) \<and> length replies = length cs
    \<and> io_now io s \<le> io_now io t"
proof (induction cs arbitrary: s)
  case (Cons c cs)
  from returns_dispatch [OF assms, of c] obtain r t
    where d: "dispatch w c s = Some (r, t)" "io_now io s \<le> io_now io t"
    unfolding returns_def by blast
  moreover from Cons [of t] obtain replies u
    where "worker_run w cs t = Some (replies, u)" "length replies = length cs" "io_now io t \<le> io_now io u"
    by blast
  ultimately show ?case by auto
qed simp

end

section \<open>The scripted transport\<close>

datatype script_step =
    StepSend packet
  | StepSendError
  | StepGet u8 usize packet

text \<open>The remaining steps; the clock is the environment's, which only sleeping moves.\<close>

record scripted =
  sc_steps :: "script_step list"
  sc_clock :: duration

definition scripted_pop :: "scripted \<Rightarrow> (string, script_step) result \<times> scripted" where
  "scripted_pop s =
     (case sc_steps s of [] \<Rightarrow> (Inl ''unexpected HID operation after script end'', s)
      | step # steps \<Rightarrow> (Inr step, s\<lparr>sc_steps := steps\<rparr>))"

definition scripted_send :: "packet \<Rightarrow> scripted \<Rightarrow> (string, unit) result \<times> scripted" where
  "scripted_send report s =
     (case scripted_pop s of
        (Inl e, t) \<Rightarrow> (Inl e, t)
      | (Inr step, t) \<Rightarrow>
          ((case step of
              StepSend expected \<Rightarrow>
                if expected = report then Inr ()
                else Inl (''selector mismatch: expected '' @ debug_bytes expected @ '', got '' @ debug_bytes report)
            | StepSendError \<Rightarrow> Inl ''injected send failure''
            | StepGet _ _ _ \<Rightarrow> Inl ''expected a feature-report read, got a write''), t))"

definition scripted_get :: "u8 \<Rightarrow> packet \<Rightarrow> scripted \<Rightarrow> (string, nat) result \<times> packet \<times> scripted" where
  "scripted_get report_id buffer s =
     (case scripted_pop s of
        (Inl e, t) \<Rightarrow> (Inl e, buffer, t)
      | (Inr step, t) \<Rightarrow>
          (case step of
             StepGet expected_id capacity response \<Rightarrow>
               if expected_id = report_id \<and> capacity = length buffer then
                 (if length response > length buffer then (Inr (length response), buffer, t)
                  else (Inr (length response), write_at 0 response buffer, t))
               else (Inl (''read mismatch: expected ID 0x'' @ show_hex2 expected_id @ ''/capacity ''
                          @ show_nat capacity @ '', got ID 0x'' @ show_hex2 report_id @ ''/capacity ''
                          @ show_nat (length buffer)), buffer, t)
           | StepSend _ \<Rightarrow> (Inl ''expected a feature-report write, got a read'', buffer, t)
           | StepSendError \<Rightarrow> (Inl ''expected a feature-report write, got a read'', buffer, t)))"

definition scripted_io :: "scripted feature_io" where
  "scripted_io = \<lparr>io_send = scripted_send, io_get = scripted_get, io_now = sc_clock,
     io_sleep = (\<lambda>d s. s\<lparr>sc_clock := sc_clock s + d\<rparr>)\<rparr>"

lemma scripted_pop_clock [simp]: "sc_clock (snd (scripted_pop s)) = sc_clock s"
  by (simp add: scripted_pop_def split: list.split)

lemma scripted_send_clock: "sc_clock (snd (scripted_send p s)) = sc_clock s"
  using scripted_pop_clock [of s]
  by (auto simp: scripted_send_def split: prod.split sum.split simp del: scripted_pop_clock)

lemma scripted_get_clock: "sc_clock (snd (snd (scripted_get i b s))) = sc_clock s"
  using scripted_pop_clock [of s]
  by (auto simp: scripted_get_def split: prod.split sum.split script_step.split simp del: scripted_pop_clock)

interpretation scripted: feature_clock scripted_io
  by unfold_locales (simp_all add: scripted_io_def scripted_send_clock scripted_get_clock)

section \<open>The HID transport\<close>

text \<open>
  The HID library (a crate, not part of the sources) is a record of the two operations the
  transport calls on an opened device; the environment supplies clock and sleep.
\<close>

record 's hid_device =
  hid_send_feature_report :: "packet \<Rightarrow> 's \<Rightarrow> (string, unit) result \<times> 's"
  hid_get_feature_report :: "packet \<Rightarrow> 's \<Rightarrow> (string, nat) result \<times> packet \<times> 's"

definition hid_get :: "'s hid_device \<Rightarrow> u8 \<Rightarrow> packet \<Rightarrow> 's \<Rightarrow> (string, nat) result \<times> packet \<times> 's" where
  "hid_get device report_id buffer =
     (let buffer = replicate (length buffer) 0;
          buffer = buffer[0 := report_id]
      in hid_get_feature_report device buffer)"

definition hid_feature_io ::
  "'s hid_device \<Rightarrow> ('s \<Rightarrow> duration) \<Rightarrow> (duration \<Rightarrow> 's \<Rightarrow> 's) \<Rightarrow> 's feature_io" where
  "hid_feature_io device clock pause =
     \<lparr>io_send = hid_send_feature_report device, io_get = hid_get device, io_now = clock, io_sleep = pause\<rparr>"

lemma hid_feature_clock:
  assumes "\<And>p s. clock s \<le> clock (snd (hid_send_feature_report device p s))"
    and "\<And>b s. clock s \<le> clock (snd (snd (hid_get_feature_report device b s)))"
    and "\<And>d s. clock s + d \<le> clock (pause d s)"
  shows "feature_clock (hid_feature_io device clock pause)"
  by unfold_locales (simp_all add: hid_feature_io_def hid_get_def Let_def assms)

section \<open>Concrete runs\<close>

text \<open>Scripted sessions the properties below are exercised on.\<close>

definition demo_worker :: "scripted worker" where
  "demo_worker = \<lparr>w_io = scripted_io,
     w_policy = \<lparr>max_attempts = 1, readiness_timeout = 3, poll_interval = 1, write_delay = 0\<rparr>, w_kind = Wired\<rparr>"

definition demo_ready :: script_step where
  "demo_ready = StepGet 0xa0 8 [0xa0, 1, 0, 0, 0, 0, 0, 0]"

definition demo_prefs :: preferences_state where
  "demo_prefs = preferences_new (ProfileId 2) 0x70 0x03 0x08 (0x00, 0xff, 0x00) 0x01 0x04"

definition demo_prefs_bytes :: packet where
  "demo_prefs_bytes = prefs_as_bytes (prefs_encode_framed demo_prefs PrefsCompact)"

definition demo_prefs_run :: scripted where
  "demo_prefs_run = \<lparr>sc_steps = [StepSend demo_prefs_bytes, StepSend [0xa0, 0x05, 0x0f, 0, 0x02, 0, 0, 0],
     StepGet 0xa0 8 [0xa0, 0, 0, 0, 0, 0, 0, 0], demo_ready, StepGet 0x05 15 demo_prefs_bytes], sc_clock = 0\<rparr>"

definition demo_dpi :: dpi_state where
  "demo_dpi = \<lparr>dpi_profile = ProfileId 1, dpi_stages = [DpiValue 800, DpiValue 1600], dpi_active_stage = StageIndex 2,
     dpi_sensor = sensor_default, dpi_preserved_tail = CAPTURED_EMPTY_PROFILE_TAIL\<rparr>"

definition demo_dpi_bytes :: packet where
  "demo_dpi_bytes = take 52 (dpi_image demo_dpi)"

definition demo_dpi_run :: scripted where
  "demo_dpi_run = \<lparr>sc_steps = [StepSend demo_dpi_bytes, StepSend [0xa0, 0x04, 0x38, 0, 0x01, 0, 0, 0],
     demo_ready, StepGet 0x04 56 demo_dpi_bytes], sc_clock = 0\<rparr>"

definition demo_profile_run :: scripted where
  "demo_profile_run = \<lparr>sc_steps =
     [StepSend [0xa0, 0x0c, 0x0a, 0, 0x01, 0, 0, 0], demo_ready,
      StepGet 0x0c 10 [0x0c, 0x0a, 0x01, 0x02, 0xfd, 0x05, 0xfa, 0, 0, 0],
      StepSend [0x0c, 0x0a, 0x01, 0xfe, 0x05, 0xfa],
      StepSend [0xa0, 0x0c, 0x0a, 0, 0x01, 0, 0, 0], demo_ready,
      StepGet 0x0c 10 [0x0c, 0x0a, 0x01, 0x01, 0xfe, 0x05, 0xfa, 0, 0, 0]], sc_clock = 0\<rparr>"

lemma demo_dpi_wf: "wf_dpi_state demo_dpi" "typed_dpi_state demo_dpi"
  by (auto simp: demo_dpi_def wf_dpi_state_def typed_dpi_state_def valid_selection_def wf_profile_def
      wf_dpi_value_def wf_stage_def CAPTURED_EMPTY_PROFILE_TAIL_def)

lemma demo_dpi_encode:
  "dpi_encode demo_dpi kind = Inr \<lparr>dpi_bytes = dpi_image demo_dpi, dpi_length = 52\<rparr>"
  using demo_dpi_wf by (simp add: dpi_encode_def wf_dpi_state_def)

lemma demo_dpi_decode: "decode_dpi_image Wired (ProfileId 1) demo_dpi_bytes = Inr demo_dpi"
  using dpi_accepts_image [of demo_dpi DpiCompact Wired] demo_dpi_wf
  by (simp add: decode_dpi_image_def ok_map_def demo_dpi_bytes_def dpi_decode_eq_Inr [symmetric] wf_dpi_state_def
      dpi_supports_transport_def) (simp add: demo_dpi_def)

lemma demo_prefs_decode: "decode_preferences_image Wired (ProfileId 2) demo_prefs_bytes = Inr demo_prefs"
  using prefs_codec.accepts_echo [of demo_prefs "ProfileId 2" Wired]
  by (simp add: demo_prefs_bytes_def decode_preferences_image_def ok_map_def prefs_echo_length_def
      prefs_as_bytes_layout) (simp add: demo_prefs_def preferences_new_def)

lemma demo_metadata_decode:
  "decode_metadata_image Wired [0x0c, 0x0a, 0x01, 0x02, 0xfd, 0x05, 0xfa, 0, 0, 0]
     = Inr \<lparr>meta_current = ProfileId 2, meta_maximum = ProfileId 5\<rparr>"
  "decode_metadata_image Wired [0x0c, 0x0a, 0x01, 0x01, 0xfe, 0x05, 0xfa, 0, 0, 0]
     = Inr \<lparr>meta_current = ProfileId 1, meta_maximum = ProfileId 5\<rparr>"
proof -
  have "metadata_decode_for_transport [0x0c, 0x0a, 0x01, x, y, 0x05, 0xfa, 0, 0, 0] Wired
      = Inr \<lparr>report_metadata = \<lparr>meta_current = ProfileId x, meta_maximum = ProfileId 5\<rparr>,
              report_metadata_bytes = [0x0c, 0x0a, 0x01, x, y, 0x05, 0xfa, 0, 0, 0]\<rparr>" if "1 \<le> x" "x \<le> 5" "y = NOT x" for x y
    using that by (simp add: metadata_decode_for_transport_def metadata_decode_eq_Inr metadata_declared_def
        profile_consts wf_metadata_def wf_profile_def)
  from this [of 2 253] this [of 1 254]
  show "decode_metadata_image Wired [0x0c, 0x0a, 0x01, 0x02, 0xfd, 0x05, 0xfa, 0, 0, 0]
     = Inr \<lparr>meta_current = ProfileId 2, meta_maximum = ProfileId 5\<rparr>"
  "decode_metadata_image Wired [0x0c, 0x0a, 0x01, 0x01, 0xfe, 0x05, 0xfa, 0, 0, 0]
     = Inr \<lparr>meta_current = ProfileId 1, meta_maximum = ProfileId 5\<rparr>"
    by (simp_all add: decode_metadata_image_def ok_map_def)
qed

lemma demo_lengths: "length demo_prefs_bytes = 13" "length demo_dpi_bytes = 52"
  using demo_dpi_wf by (simp_all add: demo_prefs_bytes_def demo_dpi_bytes_def prefs_as_bytes_layout typed_dpi_state_def)

lemma demo_readiness:
  "readiness_decode [0xa0, 1, 0, 0, 0, 0, 0, 0] = Inr ReadyStatus"
  "readiness_decode [0xa0, 0, 0, 0, 0, 0, 0, 0] = Inr NotReady"
  by (simp_all add: readiness_decode_eq_Inr)

lemmas run_simps = logged_worker_def logged_def demo_worker_def scripted_io_def scripted_send_def scripted_get_def
  scripted_pop_def write_at_def bindc_def ret_def fail_def send_report_def get_report_def now_def sleep_def
  lift_protocol_def sleep_after_write_def armed_read_def read_attempt_def MAX_FEATURE_REPORT_LENGTH_def
  read_readiness_status_def await_decide_def await_unfold selector_encode_def request_selector_parameter_def
  profile_consts Let_def demo_lengths demo_ready_def demo_readiness

lemma demo_prefs_runs:
  "\<exists>s' l'. write_preferences (logged_worker demo_worker) demo_prefs (demo_prefs_run, []) = Some (Inr demo_prefs, (s', l'))"
proof -
  have p: "prefs_profile demo_prefs = ProfileId 2" by (simp add: demo_prefs_def preferences_new_def)
  show ?thesis
    unfolding write_preferences_def send_preferences_def demo_prefs_bytes_def [symmetric] read_preferences_def p
    by (simp add: run_simps demo_prefs_decode demo_prefs_run_def)
qed

lemma demo_dpi_runs:
  "\<exists>s' l'. write_dpi (logged_worker demo_worker) demo_dpi (demo_dpi_run, []) = Some (Inr demo_dpi, (s', l'))"
proof -
  have p: "dpi_profile demo_dpi = ProfileId 1" by (simp add: demo_dpi_def)
  have b: "dpi_as_bytes \<lparr>dpi_bytes = dpi_image demo_dpi, dpi_length = 52\<rparr> = demo_dpi_bytes"
    by (simp add: dpi_as_bytes_def demo_dpi_bytes_def)
  show ?thesis
    unfolding write_dpi_def send_dpi_def read_dpi_def p demo_dpi_encode
    by (simp add: run_simps demo_dpi_decode demo_dpi_run_def b)
qed

lemma demo_profile_runs:
  "\<exists>s' l'. activate_profile (logged_worker demo_worker) (ProfileId 1) (demo_profile_run, [])
     = Some (Inr \<lparr>meta_current = ProfileId 1, meta_maximum = ProfileId 5\<rparr>, (s', l'))"
  unfolding activate_profile_def read_profile_metadata_def
  by (simp add: run_simps demo_metadata_decode demo_profile_run_def metadata_new_def control_as_bytes_layout
      control_framing_for_def)

lemma demo_read_runs:
  "\<exists>s' l'. armed_read (logged_worker demo_worker) ReadProfileMetadata (decode_metadata_image Wired) (demo_profile_run, [])
     = Some (Inr \<lparr>meta_current = ProfileId 2, meta_maximum = ProfileId 5\<rparr>, (s', l'))"
  by (simp add: run_simps demo_metadata_decode demo_profile_run_def)

section \<open>Properties\<close>

text \<open>The instrumentation only observes: for every command and environment, running the worker on
  the logging transport and forgetting the log is running the worker itself, including when it
  does not return.\<close>

theorem logging_observes:
  "forget (dispatch (logged_worker w) c (s, l)) = dispatch w c s"
  using observes_dispatch [of w c] by (simp add: observes_def)

text \<open>C5: A verified DPI write that returns has emitted the encoded report exactly once, before anything
  else, and no other configuration report; the value it returns is the requested state, and the
  last packet the device sent is, byte by byte, the written report up to its declared length.\<close>

theorem write_dpi_verified:
  assumes "write_dpi (logged_worker w) st (s, l) = Some (Inr actual, (s', l'))" and "typed_dpi_state st"
  shows "actual = st \<and> (\<exists>report mid pkt. dpi_encode st (w_kind w) = Inr report
    \<and> l' = l @ [EvSend (dpi_as_bytes report)] @ mid @ [EvGot 0x04 pkt]
    \<and> config_writes mid = [] \<and> take 52 (pkt[1 := 0x38]) = dpi_as_bytes report)"
proof -
  from tracesD [OF traces_write_dpi [OF assms(2)] assms(1)] obtain evs where l': "l' = l @ evs"
    and c: "case dpi_encode st (w_kind w) of Inl e \<Rightarrow> (Inr actual :: (driver_error, dpi_state) result) = Inl (DriverProtocol e) \<and> evs = []
      | Inr report \<Rightarrow> write_trace (dpi_as_bytes report) (ReadDpi (dpi_profile st))
          (decode_dpi_image (w_kind w) (dpi_profile st)) st (Inr actual) evs" by blast
  from c obtain report where enc: "dpi_encode st (w_kind w) = Inr report"
    and tr: "write_trace (dpi_as_bytes report) (ReadDpi (dpi_profile st))
        (decode_dpi_image (w_kind w) (dpi_profile st)) st (Inr actual) evs"
    by (cases "dpi_encode st (w_kind w)") auto
  have img: "is_config_report (dpi_as_bytes report)" by (rule is_config_report_dpi [OF assms(2) enc])
  from write_trace_Inr [OF tr img] obtain mid pkt
    where a: "actual = st" and evs: "evs = [EvSend (dpi_as_bytes report)] @ mid @ [EvGot 0x04 pkt]"
      and mid: "config_writes mid = []" and pkt: "decode_dpi_image (w_kind w) (dpi_profile st) pkt = Inr st"
    by auto
  have "wf_dpi_state st" "dpi_as_bytes report = take 52 (dpi_image st)"
    using assms(2) enc by (auto simp: dpi_encode_def wf_dpi_state_def dpi_as_bytes_def)
  then have "take 52 (pkt[1 := 0x38]) = dpi_as_bytes report"
    using dpi_codec.reencodes [of pkt "w_kind w" "dpi_profile st" st] pkt
    by (simp add: decode_dpi_image_def ok_map_def)
  with a evs mid enc l' show ?thesis by auto
qed

lemma write_dpi_verified_witness:
  "\<exists>s' l' mid pkt. write_dpi (logged_worker demo_worker) demo_dpi (demo_dpi_run, []) = Some (Inr demo_dpi, (s', l'))
     \<and> l' = [EvSend demo_dpi_bytes] @ mid @ [EvGot 0x04 pkt] \<and> config_writes mid = []"
proof -
  from demo_dpi_runs obtain s' l'
    where r: "write_dpi (logged_worker demo_worker) demo_dpi (demo_dpi_run, []) = Some (Inr demo_dpi, (s', l'))"
    by blast
  from write_dpi_verified [OF r demo_dpi_wf(2)] show ?thesis
    using r by (auto simp: demo_dpi_encode dpi_as_bytes_def demo_dpi_bytes_def)
qed

text \<open>A verified button-table write that returns has emitted the table once, before anything else,
  and no other configuration report; it returns the requested table, and the last packet the device
  sent is the written image up to its declared length. The same holds of a preferences write.\<close>

theorem write_buttons_preferences_verified:
  "(write_buttons (logged_worker w) bt (s, l) = Some (Inr actual, (s', l')) \<and> wf_buttons bt \<longrightarrow>
      actual = bt \<and> (\<exists>mid pkt. l' = l @ [EvSend (buttons_encode bt)] @ mid @ [EvGot 0x08 pkt]
        \<and> config_writes mid = [] \<and> pkt[1 := 0x3b] = buttons_encode bt))
   \<and> (write_preferences (logged_worker w) pf (s, l) = Some (Inr actual', (s', l')) \<longrightarrow>
      actual' = pf \<and> (\<exists>mid pkt. l' = l @ [EvSend (prefs_as_bytes (prefs_encode_framed pf PrefsCompact))]
          @ mid @ [EvGot 0x05 pkt]
        \<and> config_writes mid = []
        \<and> take 13 (pkt[1 := 0x0f]) = prefs_as_bytes (prefs_encode_framed pf PrefsCompact)))"
proof (intro conjI impI)
  assume a: "write_buttons (logged_worker w) bt (s, l) = Some (Inr actual, (s', l')) \<and> wf_buttons bt"
  then have wf: "wf_buttons bt" by simp
  have img: "is_config_report (buttons_encode bt)"
    using wf by (simp add: is_config_report_def buttons_encode_layout profile_consts)
  from tracesD [OF traces_write_buttons [OF wf] conjunct1 [OF a]] obtain evs where l': "l' = l @ evs"
    and tr: "write_trace (buttons_encode bt) (ReadButtons (buttons_profile bt))
      (decode_buttons_image (w_kind w) (buttons_profile bt)) bt (Inr actual) evs" by blast
  from write_trace_Inr [OF tr img] l'
    buttons_codec.reencodes [of _ "w_kind w" "buttons_profile bt" bt] wf
  show "actual = bt" "\<exists>mid pkt. l' = l @ [EvSend (buttons_encode bt)] @ mid @ [EvGot 0x08 pkt]
        \<and> config_writes mid = [] \<and> pkt[1 := 0x3b] = buttons_encode bt"
    by (auto simp: decode_buttons_image_def)
next
  assume a: "write_preferences (logged_worker w) pf (s, l) = Some (Inr actual', (s', l'))"
  let ?report = "prefs_as_bytes (prefs_encode_framed pf PrefsCompact)"
  from tracesD [OF traces_write_preferences a] obtain evs where l': "l' = l @ evs"
    and tr: "write_trace ?report (ReadPreferences (prefs_profile pf))
      (decode_preferences_image (w_kind w) (prefs_profile pf)) pf (Inr actual') evs" by blast
  from write_trace_Inr [OF tr is_config_report_images(1)] l'
    prefs_codec.reencodes [of _ "w_kind w" "prefs_profile pf" pf]
  show "actual' = pf" "\<exists>mid pkt. l' = l @ [EvSend ?report] @ mid @ [EvGot 0x05 pkt]
        \<and> config_writes mid = [] \<and> take 13 (pkt[1 := 0x0f]) = ?report"
    by (auto simp: decode_preferences_image_def ok_map_def)
qed

lemma write_buttons_preferences_verified_witness:
  "\<exists>s' l' mid pkt. write_preferences (logged_worker demo_worker) demo_prefs (demo_prefs_run, [])
       = Some (Inr demo_prefs, (s', l'))
     \<and> l' = [EvSend demo_prefs_bytes] @ mid @ [EvGot 0x05 pkt] \<and> config_writes mid = []"
proof -
  from demo_prefs_runs obtain s' l'
    where r: "write_preferences (logged_worker demo_worker) demo_prefs (demo_prefs_run, []) = Some (Inr demo_prefs, (s', l'))"
    by blast
  from write_buttons_preferences_verified [THEN conjunct2, rule_format, OF r] show ?thesis
    using r by (auto simp: demo_prefs_bytes_def)
qed

text \<open>Every command emits at most one configuration report, a read command emits none, and a
  transport error ends the command: nothing is sent, read or retried after it.\<close>

theorem command_writes_once:
  assumes "dispatch (logged_worker w) c (s, l) = Some (r, (s', l'))" and "typed_command c"
  shows "\<exists>evs. l' = l @ evs \<and> length (config_writes evs) \<le> 1 \<and> (is_read c \<longrightarrow> config_writes evs = [])
    \<and> (if \<exists>m. r = Inl (DriverTransport m)
       then evs \<noteq> [] \<and> is_error (last evs) \<and> \<not> list_ex is_error (butlast evs)
       else \<not> list_ex is_error evs)"
  using tracesD [OF traces_dispatch [OF assms(2)] assms(1)]
  unfolding command_trace_def errors_end_def by blast

lemma command_writes_once_witness:
  "\<exists>r s' l'. dispatch (logged_worker demo_worker) (CmdWritePreferences demo_prefs) (demo_prefs_run, []) = Some (r, (s', l'))
     \<and> length (config_writes l') \<le> 1"
proof -
  from demo_prefs_runs obtain s' l'
    where r: "write_preferences (logged_worker demo_worker) demo_prefs (demo_prefs_run, []) = Some (Inr demo_prefs, (s', l'))"
    by blast
  then have d: "dispatch (logged_worker demo_worker) (CmdWritePreferences demo_prefs) (demo_prefs_run, [])
      = Some (Inr (ReplyPreferences demo_prefs), (s', l'))"
    by (simp add: reply_with_def bindc_def ret_def)
  from command_writes_once [OF d] show ?thesis using d by auto
qed

text \<open>C11: An armed read is bounded: it sends its selector at most as often as the policy allows and no
  other report; it returns the decoding of the last packet, no longer than the requested report;
  and it reports exhaustion exactly when every allowed attempt was made and none succeeded.\<close>

theorem armed_read_bounded:
  assumes "armed_read (logged_worker w) req decode (s, l) = Some (r, (s', l'))"
  shows "\<exists>evs k. l' = l @ evs \<and> k \<le> unat (max_attempts (w_policy w))
    \<and> emitted evs = replicate k (selector_encode req)
    \<and> (case r of
         Inr v \<Rightarrow> \<exists>pre pkt. evs = pre @ [EvGot (request_report_id req) pkt] \<and> decode pkt = Inr v
           \<and> length pkt \<le> unat (request_report_length req)
       | Inl e \<Rightarrow> (\<exists>m. e = DriverTransport m)
           \<or> (k = unat (max_attempts (w_policy w))
              \<and> (\<exists>f. e = ReadAttemptsExhausted (request_section req) (request_target_profile req)
                            (max_attempts (w_policy w)) f)))"
proof -
  from tracesD [OF traces_armed_read assms] obtain evs where l': "l' = l @ evs"
    and tr: "read_trace w req decode r evs" by blast
  show ?thesis
  proof (cases "\<exists>f. r = Inl (ReadAttemptsExhausted (request_section req) (request_target_profile req)
      (max_attempts (w_policy w)) f)")
    case True
    with tr l' show ?thesis
      by (intro exI [of _ evs] exI [of _ "unat (max_attempts (w_policy w))"]) (auto simp: read_trace_def)
  next
    case False
    with tr obtain k where "k \<le> unat (max_attempts (w_policy w))" "emitted evs = replicate k (selector_encode req)"
      by (auto simp: read_trace_def)
    with False tr l' show ?thesis
      by (intro exI [of _ evs] exI [of _ k]) (auto simp: read_trace_def confirmed_def split: sum.splits)
  qed
qed

lemma armed_read_bounded_witness:
  "\<exists>s' l'. armed_read (logged_worker demo_worker) ReadProfileMetadata (decode_metadata_image Wired) (demo_profile_run, [])
       = Some (Inr \<lparr>meta_current = ProfileId 2, meta_maximum = ProfileId 5\<rparr>, (s', l'))
     \<and> length (emitted l') \<le> 1"
proof -
  from demo_read_runs obtain s' l'
    where r: "armed_read (logged_worker demo_worker) ReadProfileMetadata (decode_metadata_image Wired) (demo_profile_run, [])
       = Some (Inr \<lparr>meta_current = ProfileId 2, meta_maximum = ProfileId 5\<rparr>, (s', l'))" by blast
  from armed_read_bounded [OF r] show ?thesis using r by (auto simp: demo_worker_def)
qed



text \<open>C9: The worker serves every sequence of commands to the end: on a transport whose clock does not
  run backwards and with a non-zero poll interval, it answers each command, in order, whatever the
  device does; the readiness loop ends although its length is not bounded in advance.\<close>

theorem worker_answers_all:
  assumes "feature_clock (w_io w)" and "poll_interval (w_policy w) \<noteq> 0"
  shows "\<exists>replies t. worker_run w cs s = Some (replies, t) \<and> length replies = length cs"
  using feature_clock.worker_run_returns [OF assms(1) refl assms(2)] by blast

lemma worker_answers_all_witness:
  "\<exists>replies t. worker_run demo_worker [CmdProfileMetadata, CmdActivateProfile (ProfileId 3)] demo_profile_run
     = Some (replies, t) \<and> length replies = 2"
  using worker_answers_all [of demo_worker "[CmdProfileMetadata, CmdActivateProfile (ProfileId 3)]" demo_profile_run]
    scripted.feature_clock_axioms
  by (simp add: demo_worker_def numeral_2_eq_2 del: worker_run.simps)

end
