(* ===== verification/X3_Std.thy ===== *)
theory X3_Std
  imports X3_Model X3_Text "HOL-Library.List_Lexorder"
begin

text \<open>
  The two types of Rust's standard library the manager keeps its documents in. A \<^verbatim>\<open>String\<close> is
  its list of Unicode scalar values, so that \<^verbatim>\<open>chars().count()\<close> is the length, \<^verbatim>\<open>trim\<close>
  cuts the characters with the White_Space property, and the lexicographic order of the scalar values
  is the byte order of the UTF-8 text. A \<^verbatim>\<open>BTreeMap\<close> is its list of entries in strictly
  ascending key order: iteration is list order, the first entry that fails a check is the one the
  code reports.
\<close>

section \<open>Strings\<close>

type_synonym rstring = "nat list"

definition rstr :: "string \<Rightarrow> rstring" where
  "rstr s = map of_char s"

definition is_whitespace :: "nat \<Rightarrow> bool" where
  "is_whitespace c \<longleftrightarrow> (9 \<le> c \<and> c \<le> 13) \<or> c = 32 \<or> c = 133 \<or> c = 160 \<or> c = 5760
     \<or> (8192 \<le> c \<and> c \<le> 8202) \<or> c = 8232 \<or> c = 8233 \<or> c = 8239 \<or> c = 8287 \<or> c = 12288"

definition trim :: "rstring \<Rightarrow> rstring" where
  "trim s = rev (dropWhile is_whitespace (rev (dropWhile is_whitespace s)))"

definition blank :: "rstring \<Rightarrow> bool" where
  "blank s \<longleftrightarrow> trim s = []"

lemma blank_iff: "blank s \<longleftrightarrow> list_all is_whitespace s"
proof -
  have d: "dropWhile is_whitespace t = [] \<longleftrightarrow> list_all is_whitespace t" for t
    by (induction t) simp_all
  have "list_all is_whitespace (dropWhile is_whitespace s) \<longleftrightarrow> list_all is_whitespace s"
    by (induction s) simp_all
  then show ?thesis by (simp only: blank_def trim_def d list_all_rev rev_is_Nil_conv)
qed

lemma dropWhile_idem [simp]: "dropWhile P (dropWhile P xs) = dropWhile P xs"
  by (induction xs) auto

lemma trim_eq_self:
  assumes "s \<noteq> []" and "\<not> is_whitespace (hd s)" and "\<not> is_whitespace (last s)"
  shows "trim s = s"
proof -
  have d: "dropWhile is_whitespace t = t" if "t \<noteq> []" and "\<not> is_whitespace (hd t)" for t
    using that by (cases t) simp_all
  have "dropWhile is_whitespace s = s" and "dropWhile is_whitespace (rev s) = rev s"
    using assms by (simp_all add: d hd_rev)
  then show ?thesis by (simp add: trim_def)
qed

lemma trim_ends:
  assumes "trim s \<noteq> []"
  shows "\<not> is_whitespace (hd (trim s)) \<and> \<not> is_whitespace (last (trim s))"
proof -
  let ?d = "dropWhile is_whitespace s"
  have ne: "dropWhile is_whitespace (rev ?d) \<noteq> []"
    using assms by (simp add: trim_def)
  then have d: "?d \<noteq> []" by (metis dropWhile.simps(1) rev.simps(1))
  have last: "\<not> is_whitespace (last (trim s))"
    using hd_dropWhile [OF ne] by (simp add: trim_def last_rev)
  obtain pre where pre: "rev ?d = pre @ dropWhile is_whitespace (rev ?d)"
    by (metis takeWhile_dropWhile_id)
  then have "?d = trim s @ rev pre"
    by (metis rev_append rev_rev_ident trim_def)
  then have "hd ?d = hd (trim s)"
    using assms by (metis hd_append2)
  then show ?thesis using last hd_dropWhile [OF d] by simp
qed

lemma trim_idem [simp]: "trim (trim s) = trim s"
proof (cases "trim s = []")
  case True
  then show ?thesis unfolding True by (simp add: trim_def)
next
  case False
  with trim_ends [of s] show ?thesis by (simp add: trim_eq_self)
qed

lemma blank_trim [simp]: "blank (trim s) \<longleftrightarrow> blank s"
  by (simp add: blank_def)

text \<open>\<^verbatim>\<open>name.filter(|n| !n.trim().is_empty()).map(|n| n.trim().to_owned())\<close>\<close>

definition normalize_name :: "rstring option \<Rightarrow> rstring option" where
  "normalize_name name =
     (case name of None \<Rightarrow> None | Some n \<Rightarrow> if blank n then None else Some (trim n))"

lemma normalize_name_idem [simp]: "normalize_name (normalize_name n) = normalize_name n"
  by (cases n) (auto simp: normalize_name_def)

lemma normalize_name_eq_Some: "normalize_name n = Some m \<Longrightarrow> trim m = m \<and> \<not> blank m"
  by (cases n) (auto simp: normalize_name_def split: if_splits)

section \<open>Ordered maps\<close>

type_synonym ('k, 'v) btree = "('k \<times> 'v) list"

definition bt_get :: "('k, 'v) btree \<Rightarrow> 'k \<Rightarrow> 'v option" where
  "bt_get m k = map_of m k"

definition bt_contains :: "('k, 'v) btree \<Rightarrow> 'k \<Rightarrow> bool" where
  "bt_contains m k \<longleftrightarrow> bt_get m k \<noteq> None"

fun bt_insert :: "'k::linorder \<Rightarrow> 'v \<Rightarrow> ('k, 'v) btree \<Rightarrow> ('k, 'v) btree" where
  "bt_insert k v [] = [(k, v)]"
| "bt_insert k v ((k', v') # m) =
     (if k < k' then (k, v) # (k', v') # m
      else if k = k' then (k, v) # m
      else (k', v') # bt_insert k v m)"

definition bt_remove :: "'k \<Rightarrow> ('k, 'v) btree \<Rightarrow> ('k, 'v) btree" where
  "bt_remove k m = filter (\<lambda>e. fst e \<noteq> k) m"

definition bt_map_values :: "('v \<Rightarrow> 'w) \<Rightarrow> ('k, 'v) btree \<Rightarrow> ('k, 'w) btree" where
  "bt_map_values f m = map (\<lambda>(k, v). (k, f v)) m"

text \<open>\<^verbatim>\<open>get_mut\<close>, and \<^verbatim>\<open>entry(k).or_insert_with(default)\<close> followed by a change.\<close>

definition bt_adjust :: "'k \<Rightarrow> ('v \<Rightarrow> 'v) \<Rightarrow> ('k, 'v) btree \<Rightarrow> ('k, 'v) btree" where
  "bt_adjust k f m = map (\<lambda>(k', v). (k', if k' = k then f v else v)) m"

definition bt_entry :: "'k::linorder \<Rightarrow> 'v \<Rightarrow> ('v \<Rightarrow> 'v) \<Rightarrow> ('k, 'v) btree \<Rightarrow> ('k, 'v) btree" where
  "bt_entry k new f m = bt_insert k (f (case bt_get m k of None \<Rightarrow> new | Some v \<Rightarrow> v)) m"

definition bt_ok :: "('k::linorder, 'v) btree \<Rightarrow> bool" where
  "bt_ok m \<longleftrightarrow> sorted_wrt (<) (map fst m)"

lemma bt_ok_Nil [simp]: "bt_ok []"
  by (simp add: bt_ok_def)

lemma bt_ok_Cons [simp]: "bt_ok ((k, v) # m) \<longleftrightarrow> (\<forall>e \<in> set m. k < fst e) \<and> bt_ok m"
  by (auto simp: bt_ok_def)

lemma bt_get_Nil [simp]: "bt_get [] k = None"
  by (simp add: bt_get_def)

lemma bt_get_Cons [simp]: "bt_get ((k', v) # m) k = (if k' = k then Some v else bt_get m k)"
  by (auto simp: bt_get_def)

lemma bt_ok_distinct: "bt_ok m \<Longrightarrow> distinct (map fst m)"
  by (induction m) (auto simp: bt_ok_def)

lemma bt_get_eq_Some: "bt_ok m \<Longrightarrow> bt_get m k = Some v \<longleftrightarrow> (k, v) \<in> set m"
  by (simp add: bt_get_def bt_ok_distinct)

lemma bt_get_None: "(\<And>k. bt_get m k = None) \<Longrightarrow> m = []"
  by (cases m) (auto, metis option.distinct(1))

lemma bt_get_in: "bt_get m k = Some v \<Longrightarrow> (k, v) \<in> set m"
  by (simp add: bt_get_def map_of_SomeD)

lemma bt_get_eq_None: "bt_get m k = None \<longleftrightarrow> k \<notin> fst ` set m"
  by (simp add: bt_get_def map_of_eq_None_iff)

lemma bt_contains_iff: "bt_contains m k \<longleftrightarrow> k \<in> fst ` set m"
  by (simp add: bt_contains_def bt_get_eq_None)

lemma bt_get_insert: "bt_get (bt_insert k v m) k' = (if k' = k then Some v else bt_get m k')"
  by (induction k v m rule: bt_insert.induct) auto

lemma fst_set_bt_insert: "fst ` set (bt_insert k v m) = insert k (fst ` set m)"
  by (induction k v m rule: bt_insert.induct) auto

lemma bt_insert_above:
  assumes "l < k" and "\<forall>e \<in> set m. l < fst e"
  shows "\<forall>e \<in> set (bt_insert k v m). l < fst e"
  using assms by (induction k v m rule: bt_insert.induct) auto

lemma bt_ok_insert: "bt_ok m \<Longrightarrow> bt_ok (bt_insert k v m)"
proof (induction k v m rule: bt_insert.induct)
  case (2 k v k' v' m)
  then show ?case
    using bt_insert_above [of k' k m v] by (cases "k = k'") (auto intro: order.strict_trans)
qed simp

lemma bt_get_remove: "bt_get (bt_remove k m) k' = (if k' = k then None else bt_get m k')"
  by (induction m) (auto simp: bt_remove_def)

lemma bt_ok_remove: "bt_ok m \<Longrightarrow> bt_ok (bt_remove k m)"
  by (induction m) (auto simp: bt_remove_def)

lemma bt_get_map_values: "bt_get (bt_map_values f m) k = map_option f (bt_get m k)"
  by (induction m) (auto simp: bt_map_values_def)

lemma map_fst_map_values [simp]: "map fst (bt_map_values f m) = map fst m"
  by (induction m) (auto simp: bt_map_values_def)

lemma bt_ok_map_values [simp]: "bt_ok (bt_map_values f m) = bt_ok m"
  by (simp add: bt_ok_def)

lemma bt_get_adjust: "bt_get (bt_adjust k f m) k' = (if k' = k then map_option f (bt_get m k) else bt_get m k')"
  by (induction m) (auto simp: bt_adjust_def)

lemma map_fst_adjust [simp]: "map fst (bt_adjust k f m) = map fst m"
  by (induction m) (auto simp: bt_adjust_def)

lemma bt_ok_adjust [simp]: "bt_ok (bt_adjust k f m) = bt_ok m"
  by (simp add: bt_ok_def)

lemma bt_contains_adjust [simp]: "bt_contains (bt_adjust k f m) k' = bt_contains m k'"
  by (auto simp: bt_contains_def bt_get_adjust)

lemma length_adjust [simp]: "length (bt_adjust k f m) = length m"
  by (simp add: bt_adjust_def)

lemma bt_get_entry:
  "bt_get (bt_entry k d f m) k' =
     (if k' = k then Some (f (case bt_get m k of None \<Rightarrow> d | Some v \<Rightarrow> v)) else bt_get m k')"
  by (simp add: bt_entry_def bt_get_insert)

lemma bt_ok_entry: "bt_ok m \<Longrightarrow> bt_ok (bt_entry k d f m)"
  by (simp add: bt_entry_def bt_ok_insert)

lemma bt_ext:
  assumes "bt_ok m" and "bt_ok n" and "\<And>k. bt_get m k = bt_get n k"
  shows "m = n"
  using assms
proof (induction m arbitrary: n)
  case Nil
  show ?case using bt_get_None [of n] Nil.prems(3) by simp
next
  case (Cons e m)
  obtain k v where e: "e = (k, v)" by force
  have "bt_get n k = Some v" using Cons.prems(3) [of k] by (simp add: e)
  then obtain k' v' n' where n: "n = (k', v') # n'" by (cases n) auto
  have "bt_get (e # m) k' = Some v'" using Cons.prems(3) [of k'] by (simp add: n)
  then have "(k', v') \<in> set (e # m)" by (rule bt_get_in)
  moreover have "(k, v) \<in> set n" using \<open>bt_get n k = Some v\<close> by (rule bt_get_in)
  ultimately have kk: "k = k' \<and> v = v'"
    using Cons.prems(1,2) by (fastforce simp: e n)
  have "bt_get m x = bt_get n' x" for x
  proof (cases "x = k")
    case True
    have "bt_get m k = None" "bt_get n' k = None"
      using Cons.prems(1,2) kk by (auto simp: e n bt_get_eq_None)
    with True show ?thesis by simp
  next
    case False
    with Cons.prems(3) [of x] kk show ?thesis by (simp add: e n)
  qed
  then have "m = n'"
    using Cons.IH [of n'] Cons.prems(1,2) by (simp add: e n)
  with kk show ?case by (simp add: e n)
qed

text \<open>What the manager relies on of an ordered map.\<close>

locale ordered_map =
  fixes get :: "'m \<Rightarrow> 'k \<Rightarrow> 'v option"
    and ins :: "'k \<Rightarrow> 'v \<Rightarrow> 'm \<Rightarrow> 'm"
    and entries :: "'m \<Rightarrow> ('k \<times> 'v) list"
    and ok :: "'m \<Rightarrow> bool"
  assumes get_ins: "get (ins k v m) k' = (if k' = k then Some v else get m k')"
    and ok_ins: "ok m \<Longrightarrow> ok (ins k v m)"
    and get_entries: "ok m \<Longrightarrow> get m k = Some v \<longleftrightarrow> (k, v) \<in> set (entries m)"
    and distinct_keys: "ok m \<Longrightarrow> distinct (map fst (entries m))"
begin

lemma get_ins_same: "get (ins k v m) k = Some v"
  by (simp add: get_ins)

lemma all_entries_iff: "ok m \<Longrightarrow> (\<forall>(k, v) \<in> set (entries m). P k v) \<longleftrightarrow> (\<forall>k v. get m k = Some v \<longrightarrow> P k v)"
  using get_entries by fastforce

lemma all_entries_ins:
  assumes "ok m" and "\<forall>(k, v) \<in> set (entries m). P k v" and "P k v"
  shows "\<forall>(k, v) \<in> set (entries (ins k v m)). P k v"
  using assms unfolding all_entries_iff [OF assms(1)] all_entries_iff [OF ok_ins [OF assms(1)]]
  by (auto simp: get_ins)

end

interpretation bt: ordered_map bt_get bt_insert "\<lambda>m. m" bt_ok
  by unfold_locales (simp_all add: bt_get_insert bt_ok_insert bt_get_eq_Some bt_ok_distinct)

section \<open>Paths and I/O errors\<close>

text \<open>A \<^verbatim>\<open>PathBuf\<close> as its components, the kinds of \<^verbatim>\<open>std::io::Error\<close> the code tells apart
  (any other kind carries a code).\<close>

type_synonym path = "rstring list"

datatype io_kind = NotFound | AlreadyExists | WouldBlock | OtherIo nat

section \<open>Checks over every entry\<close>

text \<open>\<^verbatim>\<open>for entry in map { check(entry)?; }\<close>: the first failing entry decides.\<close>

fun check_all :: "('a \<Rightarrow> ('e, unit) result) \<Rightarrow> 'a list \<Rightarrow> ('e, unit) result" where
  "check_all f [] = Inr ()"
| "check_all f (x # xs) = tryq (f x) (\<lambda>_. check_all f xs)"

lemma check_all_eq_Inr [simp]: "check_all f xs = Inr u \<longleftrightarrow> (\<forall>x \<in> set xs. f x = Inr ())"
  by (induction xs) auto

definition require :: "bool \<Rightarrow> 'e \<Rightarrow> ('e, unit) result" where
  "require b e = (if b then Inr () else Inl e)"

lemma require_eq_Inr [simp]: "require b e = Inr u \<longleftrightarrow> b"
  by (cases u) (simp add: require_def)

lemma require_eq_Inl [simp]: "require b e = Inl e' \<longleftrightarrow> \<not> b \<and> e' = e"
  by (auto simp: require_def)

section \<open>Orders on the key types\<close>

text \<open>The derived orders: by declaration for transports, by value for profiles.\<close>

instantiation profile_id :: linorder
begin

definition less_eq_profile_id :: "profile_id \<Rightarrow> profile_id \<Rightarrow> bool" where
  "less_eq_profile_id p q \<longleftrightarrow> profile_get p \<le> profile_get q"

definition less_profile_id :: "profile_id \<Rightarrow> profile_id \<Rightarrow> bool" where
  "less_profile_id p q \<longleftrightarrow> profile_get p < profile_get q"

instance
  by standard (auto simp: less_eq_profile_id_def less_profile_id_def profile_id.expand)

end

fun transport_rank :: "transport_kind \<Rightarrow> nat" where
  "transport_rank Wired = 0"
| "transport_rank Receiver = 1"
| "transport_rank Ble = 2"

lemma transport_rank_inject [simp]: "transport_rank a = transport_rank b \<longleftrightarrow> a = b"
  by (cases a; cases b) auto

instantiation transport_kind :: linorder
begin

definition less_eq_transport_kind :: "transport_kind \<Rightarrow> transport_kind \<Rightarrow> bool" where
  "less_eq_transport_kind a b \<longleftrightarrow> transport_rank a \<le> transport_rank b"

definition less_transport_kind :: "transport_kind \<Rightarrow> transport_kind \<Rightarrow> bool" where
  "less_transport_kind a b \<longleftrightarrow> transport_rank a < transport_rank b"

instance
  by standard (auto simp: less_eq_transport_kind_def less_transport_kind_def)

end

end
