(* ===== verification/X3_Effect.thy ===== *)
theory X3_Effect
  imports X3_Std
begin

text \<open>
  Fallible stateful computations of the manager: a function from the state to a result and the
  state it leaves, also when it fails (an early return keeps the effects before it). Contracts are
  triples: from a state with \<open>P\<close>, a success leaves \<open>Q\<close> and a failure leaves \<open>R\<close>; the rules in
  \<open>effects\<close> decompose a computation along its sequencing.
\<close>

type_synonym ('s, 'e, 'a) prog = "'s \<Rightarrow> ('e, 'a) result \<times> 's"

named_theorems effects "contract rules of the sequencing operators"

definition okp :: "'a \<Rightarrow> ('s, 'e, 'a) prog" where
  "okp x s = (Inr x, s)"

definition errp :: "'e \<Rightarrow> ('s, 'e, 'a) prog" where
  "errp e s = (Inl e, s)"

text \<open>\<^verbatim>\<open>let x = m?; f(x)\<close>.\<close>

definition thenp :: "('s, 'e, 'a) prog \<Rightarrow> ('a \<Rightarrow> ('s, 'e, 'b) prog) \<Rightarrow> ('s, 'e, 'b) prog" where
  "thenp m f s = (case m s of (Inl e, s') \<Rightarrow> (Inl e, s') | (Inr x, s') \<Rightarrow> f x s')"

text \<open>A pure result, \<^verbatim>\<open>map_err\<close>, \<^verbatim>\<open>match\<close> on the result, \<^verbatim>\<open>let _ = m\<close>, reading the state.\<close>

definition liftp :: "('e, 'a) result \<Rightarrow> ('s, 'e, 'a) prog" where
  "liftp r s = (r, s)"

definition map_errp :: "('e \<Rightarrow> 'f) \<Rightarrow> ('s, 'e, 'a) prog \<Rightarrow> ('s, 'f, 'a) prog" where
  "map_errp f m s = (case m s of (r, s') \<Rightarrow> (map_err f r, s'))"

definition handlep :: "('s, 'e, 'a) prog \<Rightarrow> ('e \<Rightarrow> ('s, 'f, 'b) prog) \<Rightarrow> ('a \<Rightarrow> ('s, 'f, 'b) prog)
    \<Rightarrow> ('s, 'f, 'b) prog" where
  "handlep m h f s = (case m s of (Inl e, s') \<Rightarrow> h e s' | (Inr x, s') \<Rightarrow> f x s')"

definition ignorep :: "('s, 'e, 'a) prog \<Rightarrow> ('s, 'f, unit) prog" where
  "ignorep m s = (Inr (), snd (m s))"

definition getp :: "('s \<Rightarrow> 'a) \<Rightarrow> ('s, 'e, 'a) prog" where
  "getp f s = (Inr (f s), s)"

definition modifyp :: "('s \<Rightarrow> 's) \<Rightarrow> ('s, 'e, unit) prog" where
  "modifyp f s = (Inr (), f s)"

lemmas prog_defs = okp_def errp_def thenp_def liftp_def map_errp_def handlep_def ignorep_def getp_def
  modifyp_def

lemma thenp_liftp [simp]:
  "thenp (liftp (Inr x)) f = f x" "thenp (liftp (Inl e)) f = errp e" "thenp (okp x) f = f x"
  "thenp (errp e) f = errp e"
  by (simp_all add: fun_eq_iff prog_defs)

lemma thenp_cong [fundef_cong]:
  assumes "m s = m' s'" and "\<And>x t. m' s' = (Inr x, t) \<Longrightarrow> f x t = g x t"
  shows "thenp m f s = thenp m' g s'"
  using assms by (auto simp: thenp_def split: sum.split prod.split)

lemma handlep_cong [fundef_cong]:
  assumes "m s = m' s'" and "\<And>x t. m' s' = (Inr x, t) \<Longrightarrow> f x t = g x t"
    and "\<And>e t. m' s' = (Inl e, t) \<Longrightarrow> h e t = k e t"
  shows "handlep m h f s = handlep m' k g s'"
  using assms by (auto simp: handlep_def split: sum.split prod.split)

text \<open>\<^verbatim>\<open>for x in xs { body(x)?; }\<close>.\<close>

fun for_each :: "('a \<Rightarrow> ('s, 'e, unit) prog) \<Rightarrow> 'a list \<Rightarrow> ('s, 'e, unit) prog" where
  "for_each body [] = okp ()"
| "for_each body (x # xs) = thenp (body x) (\<lambda>_. for_each body xs)"

text \<open>A computation on a part of the state.\<close>

definition zoomp :: "('t \<Rightarrow> 's) \<Rightarrow> ('s \<Rightarrow> 't \<Rightarrow> 't) \<Rightarrow> ('s, 'e, 'a) prog \<Rightarrow> ('t, 'e, 'a) prog" where
  "zoomp part put m t = (case m (part t) of (r, s) \<Rightarrow> (r, put s t))"

section \<open>Contracts\<close>

definition triple :: "('s \<Rightarrow> bool) \<Rightarrow> ('s, 'e, 'a) prog \<Rightarrow> ('a \<Rightarrow> 's \<Rightarrow> bool) \<Rightarrow> ('e \<Rightarrow> 's \<Rightarrow> bool) \<Rightarrow> bool" where
  "triple P m Q R \<longleftrightarrow> (\<forall>s. P s \<longrightarrow> (case m s of (Inl e, s') \<Rightarrow> R e s' | (Inr x, s') \<Rightarrow> Q x s'))"

lemma tripleI:
  assumes "\<And>s x s'. P s \<Longrightarrow> m s = (Inr x, s') \<Longrightarrow> Q x s'"
    and "\<And>s e s'. P s \<Longrightarrow> m s = (Inl e, s') \<Longrightarrow> R e s'"
  shows "triple P m Q R"
  using assms by (auto simp: triple_def split: sum.split prod.split)

lemma triple_Ok: "triple P m Q R \<Longrightarrow> P s \<Longrightarrow> m s = (Inr x, s') \<Longrightarrow> Q x s'"
  by (fastforce simp: triple_def)

lemma triple_Err: "triple P m Q R \<Longrightarrow> P s \<Longrightarrow> m s = (Inl e, s') \<Longrightarrow> R e s'"
  by (fastforce simp: triple_def)

lemma triple_iff:
  "triple P m Q R \<longleftrightarrow> (\<forall>s. P s \<longrightarrow>
     (\<exists>x s'. m s = (Inr x, s') \<and> Q x s') \<or> (\<exists>e s'. m s = (Inl e, s') \<and> R e s'))"
proof -
  have "(case m s of (Inl e, s') \<Rightarrow> R e s' | (Inr x, s') \<Rightarrow> Q x s') \<longleftrightarrow>
      (\<exists>x s'. m s = (Inr x, s') \<and> Q x s') \<or> (\<exists>e s'. m s = (Inl e, s') \<and> R e s')" for s
    by (cases "m s"; cases "fst (m s)") auto
  then show ?thesis by (simp only: triple_def)
qed

lemma triple_conseq:
  assumes "triple P' m Q' R'" and "\<And>s. P s \<Longrightarrow> P' s" and "\<And>x s. Q' x s \<Longrightarrow> Q x s"
    and "\<And>e s. R' e s \<Longrightarrow> R e s"
  shows "triple P m Q R"
  using assms by (fastforce simp: triple_def split: sum.splits prod.splits)

lemma triple_pre: "triple P' m Q R \<Longrightarrow> (\<And>s. P s \<Longrightarrow> P' s) \<Longrightarrow> triple P m Q R"
  by (rule triple_conseq)

lemma triple_okp [effects]: "(\<And>s. P s \<Longrightarrow> Q x s) \<Longrightarrow> triple P (okp x) Q R"
  by (simp add: triple_def okp_def)

lemma triple_errp [effects]: "(\<And>s. P s \<Longrightarrow> R e s) \<Longrightarrow> triple P (errp e) Q R"
  by (simp add: triple_def errp_def)

lemma triple_liftp [effects]:
  "(\<And>s e. P s \<Longrightarrow> r = Inl e \<Longrightarrow> R e s) \<Longrightarrow> (\<And>s x. P s \<Longrightarrow> r = Inr x \<Longrightarrow> Q x s) \<Longrightarrow> triple P (liftp r) Q R"
  by (cases r) (simp_all add: triple_def liftp_def)

lemma triple_thenp [effects]:
  assumes "triple P m T R" and "\<And>x. triple (T x) (f x) Q R"
  shows "triple P (thenp m f) Q R"
  unfolding triple_def
proof (intro allI impI)
  fix s
  assume "P s"
  obtain r s' where m: "m s = (r, s')" by force
  show "case thenp m f s of (Inl e, s') \<Rightarrow> R e s' | (Inr x, s') \<Rightarrow> Q x s'"
  proof (cases r)
    case (Inl e)
    with m \<open>P s\<close> assms(1) show ?thesis by (fastforce simp: triple_def thenp_def)
  next
    case (Inr x)
    with m \<open>P s\<close> assms(1) have "T x s'" by (fastforce simp: triple_def)
    with m Inr assms(2) [of x] show ?thesis by (simp add: triple_def thenp_def)
  qed
qed

lemma triple_map_errp [effects]:
  "triple P m Q (\<lambda>e. R (f e)) \<Longrightarrow> triple P (map_errp f m) Q R"
  unfolding triple_iff map_errp_def by fastforce

lemma triple_handlep [effects]:
  assumes "triple P m T E" and "\<And>e. triple (E e) (h e) Q R" and "\<And>x. triple (T x) (f x) Q R"
  shows "triple P (handlep m h f) Q R"
  unfolding triple_def
proof (intro allI impI)
  fix s
  assume "P s"
  obtain r s' where m: "m s = (r, s')" by force
  show "case handlep m h f s of (Inl e, s') \<Rightarrow> R e s' | (Inr x, s') \<Rightarrow> Q x s'"
  proof (cases r)
    case (Inl e)
    with m \<open>P s\<close> assms(1) have "E e s'" by (fastforce simp: triple_def)
    with m Inl assms(2) [of e] show ?thesis by (simp add: triple_def handlep_def)
  next
    case (Inr x)
    with m \<open>P s\<close> assms(1) have "T x s'" by (fastforce simp: triple_def)
    with m Inr assms(3) [of x] show ?thesis by (simp add: triple_def handlep_def)
  qed
qed

lemma triple_ignorep [effects]:
  "triple P m (\<lambda>_. Q ()) (\<lambda>_. Q ()) \<Longrightarrow> triple P (ignorep m) Q R"
  unfolding triple_iff ignorep_def by fastforce

lemma triple_getp [effects]: "(\<And>s. P s \<Longrightarrow> Q (f s) s) \<Longrightarrow> triple P (getp f) Q R"
  by (simp add: triple_def getp_def)

lemma triple_modifyp [effects]: "(\<And>s. P s \<Longrightarrow> Q () (f s)) \<Longrightarrow> triple P (modifyp f) Q R"
  by (simp add: triple_def modifyp_def)

lemma triple_if [effects]:
  "(b \<Longrightarrow> triple P m Q R) \<Longrightarrow> (\<not> b \<Longrightarrow> triple P n Q R) \<Longrightarrow> triple P (if b then m else n) Q R"
  by simp

lemma triple_for_each:
  assumes "\<And>x. triple I (body x) (\<lambda>_. I) R"
  shows "triple I (for_each body xs) (\<lambda>_. I) R"
proof (induction xs)
  case (Cons x xs)
  show ?case unfolding for_each.simps by (rule triple_thenp [OF assms Cons])
qed (simp add: triple_okp)

text \<open>Every state of a run: an invariant of the operations is one of the whole.\<close>

definition keeps :: "('s \<Rightarrow> bool) \<Rightarrow> ('s, 'e, 'a) prog \<Rightarrow> bool" where
  "keeps I m \<longleftrightarrow> (\<forall>s. I s \<longrightarrow> I (snd (m s)))"

lemma keepsD: "keeps I m \<Longrightarrow> I s \<Longrightarrow> m s = (r, s') \<Longrightarrow> I s'"
  by (force simp: keeps_def)

lemma keeps_triple: "keeps I m \<longleftrightarrow> triple I m (\<lambda>_. I) (\<lambda>_. I)"
proof -
  have "I (snd (m s)) \<longleftrightarrow> (\<exists>x s'. m s = (Inr x, s') \<and> I s') \<or> (\<exists>e s'. m s = (Inl e, s') \<and> I s')" for s
    by (cases "m s"; cases "fst (m s)") auto
  then show ?thesis by (simp only: triple_iff keeps_def)
qed

lemma keeps_pure [effects]: "keeps I (okp x)" "keeps I (errp e)" "keeps I (liftp r)" "keeps I (getp f)"
  by (simp_all add: keeps_def okp_def errp_def liftp_def getp_def)

lemma keeps_thenp [effects]: "keeps I m \<Longrightarrow> (\<And>x. keeps I (f x)) \<Longrightarrow> keeps I (thenp m f)"
  unfolding keeps_triple by (rule triple_thenp)

lemma keeps_map_errp [effects]: "keeps I m \<Longrightarrow> keeps I (map_errp f m)"
  unfolding keeps_triple by (rule triple_map_errp)

lemma keeps_handlep [effects]:
  "keeps I m \<Longrightarrow> (\<And>e. keeps I (h e)) \<Longrightarrow> (\<And>x. keeps I (f x)) \<Longrightarrow> keeps I (handlep m h f)"
  unfolding keeps_triple by (rule triple_handlep)

lemma keeps_ignorep [effects]: "keeps I m \<Longrightarrow> keeps I (ignorep m)"
  unfolding keeps_triple by (rule triple_ignorep)

lemma keeps_if [effects]: "keeps I m \<Longrightarrow> keeps I n \<Longrightarrow> keeps I (if b then m else n)"
  by simp

end
