(* ===== verification/X3_Evidence.thy ===== *)
theory X3_Evidence
  imports X3_Std X3_Dpi X3_Preferences X3_Buttons X3_Profile X3_Polling_Rate
begin

text \<open>
  The evidence the manager keeps for every resource of a mouse (first part of
  \<^verbatim>\<open>state/model.rs\<close>): the desired value with what is known about its application and
  persistence, and the last value read back. A method on \<^verbatim>\<open>&mut self\<close> is a function that
  returns the updated record, paired with the method's result when it has one. Timestamps are
  \<^verbatim>\<open>i64\<close> seconds that the code only compares.
\<close>

section \<open>Data\<close>

datatype timestamp = Timestamp (unix_seconds: int)

datatype desired_source = UserWrite | Imported | ExplicitDefaults | CapturedBaseline

datatype observation_source = UsbReadback

datatype application_verification = NotSent | Acknowledged | ReadbackVerified | Mismatch

datatype persistence_verification =
    Unknown
  | ProfileReloadVerified timestamp
  | PowerCycleVerified timestamp

definition is_unknown :: "persistence_verification \<Rightarrow> bool" where
  "is_unknown p = (case p of Unknown \<Rightarrow> True | _ \<Rightarrow> False)"

record verification =
  ver_application :: application_verification
  ver_persistence :: persistence_verification

definition verification_not_sent :: verification where
  "verification_not_sent = \<lparr>ver_application = NotSent, ver_persistence = Unknown\<rparr>"

definition verification_invalidate :: "verification \<Rightarrow> verification" where
  "verification_invalidate v = v\<lparr>ver_persistence := Unknown\<rparr>"

record 'a desired_state =
  des_value :: 'a
  des_source :: desired_source
  des_verification :: verification
  des_updated_at :: timestamp

definition desired_invalidate :: "'a desired_state \<Rightarrow> 'a desired_state" where
  "desired_invalidate d = d\<lparr>des_verification := verification_invalidate (des_verification d)\<rparr>"

record 'a observed_state =
  obs_value :: 'a
  obs_source :: observation_source
  obs_at :: timestamp

record 'a resource_state =
  res_desired :: "'a desired_state option"
  res_observed :: "'a observed_state option"

section \<open>Operations on a resource\<close>

definition resource_empty :: "'a resource_state" where
  "resource_empty = \<lparr>res_desired = None, res_observed = None\<rparr>"

definition resource_is_empty :: "'a resource_state \<Rightarrow> bool" where
  "resource_is_empty r \<longleftrightarrow> res_desired r = None \<and> res_observed r = None"

definition invalidate_persistence :: "'a resource_state \<Rightarrow> 'a resource_state" where
  "invalidate_persistence r =
     (case res_desired r of
        None \<Rightarrow> r
      | Some desired \<Rightarrow> r\<lparr>res_desired := Some (desired_invalidate desired)\<rparr>)"

definition record_ack_write ::
  "'a resource_state \<Rightarrow> 'a \<Rightarrow> desired_source \<Rightarrow> timestamp \<Rightarrow> verification \<times> 'a resource_state" where
  "record_ack_write r v source now =
     (let verification = \<lparr>ver_application = Acknowledged, ver_persistence = Unknown\<rparr>
      in (verification,
          r\<lparr>res_desired := Some \<lparr>des_value = v, des_source = source,
              des_verification = verification, des_updated_at = now\<rparr>\<rparr>))"

definition record_readback_write ::
  "'a resource_state \<Rightarrow> 'a \<Rightarrow> 'a \<Rightarrow> desired_source \<Rightarrow> timestamp \<Rightarrow> verification \<times> 'a resource_state" where
  "record_readback_write r desired_value observed_value source now =
     (let is_match = desired_value = observed_value;
          application = (if is_match then ReadbackVerified else Mismatch);
          verification = \<lparr>ver_application = application, ver_persistence = Unknown\<rparr>;
          r = r\<lparr>res_desired := Some \<lparr>des_value = desired_value, des_source = source,
                   des_verification = verification, des_updated_at = now\<rparr>\<rparr>;
          r = r\<lparr>res_observed := Some \<lparr>obs_value = observed_value, obs_source = UsbReadback, obs_at = now\<rparr>\<rparr>
      in (verification, r))"

definition reconcile_observation ::
  "'a resource_state \<Rightarrow> 'a \<Rightarrow> timestamp \<Rightarrow> bool \<times> 'a resource_state" where
  "reconcile_observation r v now =
     (let observed = \<lparr>obs_value = v, obs_source = UsbReadback, obs_at = now\<rparr>;
          (mismatch, r) =
            (case res_desired r of
               Some desired \<Rightarrow>
                 let is_match = des_value desired = v
                       \<and> unix_seconds now \<ge> unix_seconds (des_updated_at desired);
                     verification = (des_verification desired)
                       \<lparr>ver_application := if is_match then ReadbackVerified else Mismatch,
                        ver_persistence := Unknown\<rparr>
                 in (\<not> is_match, r\<lparr>res_desired := Some (desired\<lparr>des_verification := verification\<rparr>)\<rparr>)
             | None \<Rightarrow>
                 (False, r\<lparr>res_desired := Some \<lparr>des_value = v, des_source = CapturedBaseline,
                    des_verification = \<lparr>ver_application = ReadbackVerified, ver_persistence = Unknown\<rparr>,
                    des_updated_at = now\<rparr>\<rparr>))
      in (mismatch, r\<lparr>res_observed := Some observed\<rparr>))"

definition persistence_time :: "persistence_verification \<Rightarrow> timestamp option" where
  "persistence_time p =
     (case p of ProfileReloadVerified t \<Rightarrow> Some t | PowerCycleVerified t \<Rightarrow> Some t | Unknown \<Rightarrow> None)"

definition predates :: "persistence_verification \<Rightarrow> timestamp \<Rightarrow> bool" where
  "predates p t =
     (case persistence_time p of
        Some verified_at \<Rightarrow> unix_seconds verified_at < unix_seconds t
      | None \<Rightarrow> False)"

definition try_mark_persistence ::
  "'a resource_state \<Rightarrow> persistence_verification \<Rightarrow> bool \<times> 'a resource_state" where
  "try_mark_persistence r p =
     (case res_desired r of
        None \<Rightarrow> (False, r)
      | Some desired \<Rightarrow>
     (case res_observed r of
        None \<Rightarrow> (False, r)
      | Some observed \<Rightarrow>
        if ver_application (des_verification desired) \<noteq> ReadbackVerified then (False, r)
        else if des_value desired \<noteq> obs_value observed then (False, r)
        else if unix_seconds (obs_at observed) < unix_seconds (des_updated_at desired) then (False, r)
        else if predates p (obs_at observed) then (False, r)
        else (True, r\<lparr>res_desired :=
               Some (desired\<lparr>des_verification := (des_verification desired)\<lparr>ver_persistence := p\<rparr>\<rparr>)\<rparr>)))"

definition try_mark_profile_reload_verified ::
  "'a resource_state \<Rightarrow> timestamp \<Rightarrow> bool \<times> 'a resource_state" where
  "try_mark_profile_reload_verified r verified_at =
     try_mark_persistence r (ProfileReloadVerified verified_at)"

definition try_mark_power_cycle_verified ::
  "'a resource_state \<Rightarrow> timestamp \<Rightarrow> bool \<times> 'a resource_state" where
  "try_mark_power_cycle_verified r verified_at =
     try_mark_persistence r (PowerCycleVerified verified_at)"

section \<open>Profiles\<close>

record profile_state =
  ps_dpi :: "dpi_state resource_state"
  ps_preferences :: "preferences_state resource_state"
  ps_buttons :: "buttons_state resource_state"
  ps_polling_rate :: "polling_rate resource_state"

definition profile_state_empty :: profile_state where
  "profile_state_empty = \<lparr>ps_dpi = resource_empty, ps_preferences = resource_empty,
     ps_buttons = resource_empty, ps_polling_rate = resource_empty\<rparr>"

definition profile_invalidate_persistence :: "profile_state \<Rightarrow> profile_state" where
  "profile_invalidate_persistence p =
     (let p = p\<lparr>ps_dpi := invalidate_persistence (ps_dpi p)\<rparr>;
          p = p\<lparr>ps_preferences := invalidate_persistence (ps_preferences p)\<rparr>;
          p = p\<lparr>ps_buttons := invalidate_persistence (ps_buttons p)\<rparr>
      in p\<lparr>ps_polling_rate := invalidate_persistence (ps_polling_rate p)\<rparr>)"

definition mark_all_or_invalidate ::
  "'a resource_state \<Rightarrow> timestamp \<Rightarrow> ('a resource_state \<Rightarrow> timestamp \<Rightarrow> bool \<times> 'a resource_state)
     \<Rightarrow> 'a resource_state" where
  "mark_all_or_invalidate r verified_at mark =
     (let (marked, r) = mark r verified_at in if \<not> marked then invalidate_persistence r else r)"

definition profile_mark_reload_verified :: "profile_state \<Rightarrow> timestamp \<Rightarrow> profile_state" where
  "profile_mark_reload_verified p t =
     (let p = p\<lparr>ps_dpi := mark_all_or_invalidate (ps_dpi p) t try_mark_profile_reload_verified\<rparr>;
          p = p\<lparr>ps_preferences := mark_all_or_invalidate (ps_preferences p) t try_mark_profile_reload_verified\<rparr>;
          p = p\<lparr>ps_buttons := mark_all_or_invalidate (ps_buttons p) t try_mark_profile_reload_verified\<rparr>
      in p\<lparr>ps_polling_rate := mark_all_or_invalidate (ps_polling_rate p) t try_mark_profile_reload_verified\<rparr>)"

definition profile_mark_power_cycle_verified :: "profile_state \<Rightarrow> timestamp \<Rightarrow> profile_state" where
  "profile_mark_power_cycle_verified p t =
     (let p = p\<lparr>ps_dpi := mark_all_or_invalidate (ps_dpi p) t try_mark_power_cycle_verified\<rparr>;
          p = p\<lparr>ps_preferences := mark_all_or_invalidate (ps_preferences p) t try_mark_power_cycle_verified\<rparr>;
          p = p\<lparr>ps_buttons := mark_all_or_invalidate (ps_buttons p) t try_mark_power_cycle_verified\<rparr>
      in p\<lparr>ps_polling_rate := mark_all_or_invalidate (ps_polling_rate p) t try_mark_power_cycle_verified\<rparr>)"

section \<open>Validation\<close>

text \<open>
  \<^verbatim>\<open>validate_resource_state\<close> and \<^verbatim>\<open>validate_profile_resource\<close>: one constructor
  per message; the callers of the model add the context the messages start with.
\<close>

datatype evidence_fault =
    PersistenceNeedsReadback
  | VerifiedUnobserved
  | VerifiedValuesDiffer
  | VerifiedStale
  | PersistencePredatesObservation
  | MismatchUnobserved
  | MismatchNotDiffering
  | MismatchWithPersistence
  | WrongProfile string

definition validate_resource_state :: "'a resource_state \<Rightarrow> (evidence_fault, unit) result" where
  "validate_resource_state r =
     (case res_desired r of
        None \<Rightarrow> Inr ()
      | Some desired \<Rightarrow>
     (case ver_application (des_verification desired) of
        NotSent \<Rightarrow> require (is_unknown (ver_persistence (des_verification desired))) PersistenceNeedsReadback
      | Acknowledged \<Rightarrow> require (is_unknown (ver_persistence (des_verification desired))) PersistenceNeedsReadback
      | ReadbackVerified \<Rightarrow>
          tryq (ok_or VerifiedUnobserved (res_observed r)) (\<lambda>observed.
          if des_value desired \<noteq> obs_value observed then Inl VerifiedValuesDiffer
          else if unix_seconds (obs_at observed) < unix_seconds (des_updated_at desired) then Inl VerifiedStale
          else if predates (ver_persistence (des_verification desired)) (obs_at observed)
          then Inl PersistencePredatesObservation
          else Inr ())
      | Mismatch \<Rightarrow>
          tryq (ok_or MismatchUnobserved (res_observed r)) (\<lambda>observed.
          let stale = unix_seconds (obs_at observed) < unix_seconds (des_updated_at desired)
          in if des_value desired = obs_value observed \<and> \<not> stale then Inl MismatchNotDiffering
             else if \<not> is_unknown (ver_persistence (des_verification desired)) then Inl MismatchWithPersistence
             else Inr ())))"

definition validate_profile_resource ::
  "profile_id \<Rightarrow> 'a resource_state \<Rightarrow> string \<Rightarrow> ('a \<Rightarrow> profile_id) \<Rightarrow> (evidence_fault, unit) result" where
  "validate_profile_resource profile r resource_name profile_of =
     (if (case res_desired r of None \<Rightarrow> False | Some d \<Rightarrow> profile_of (des_value d) \<noteq> profile)
         \<or> (case res_observed r of None \<Rightarrow> False | Some ob \<Rightarrow> profile_of (obs_value ob) \<noteq> profile)
      then Inl (WrongProfile resource_name)
      else tryq (validate_resource_state r) (\<lambda>_. Inr ()))"

definition validate_profile_state :: "profile_id \<Rightarrow> profile_state \<Rightarrow> (evidence_fault, unit) result" where
  "validate_profile_state profile p =
     tryq (validate_profile_resource profile (ps_dpi p) ''dpi'' dpi_profile) (\<lambda>_.
     tryq (validate_profile_resource profile (ps_preferences p) ''preferences'' prefs_profile) (\<lambda>_.
     tryq (validate_profile_resource profile (ps_buttons p) ''buttons'' buttons_profile) (\<lambda>_.
     validate_resource_state (ps_polling_rate p))))"

section \<open>Truthful evidence\<close>

text \<open>
  The contract behind \<^verbatim>\<open>validate_resource_state\<close>: what is recorded about a value is
  supported by the observation stored beside it.
\<close>

definition matches :: "'a desired_state \<Rightarrow> 'a observed_state \<Rightarrow> bool" where
  "matches d ob \<longleftrightarrow> des_value d = obs_value ob \<and> unix_seconds (des_updated_at d) \<le> unix_seconds (obs_at ob)"

definition truthful :: "'a desired_state \<Rightarrow> 'a observed_state option \<Rightarrow> bool" where
  "truthful d ob =
     (case ver_application (des_verification d) of
        NotSent \<Rightarrow> ver_persistence (des_verification d) = Unknown
      | Acknowledged \<Rightarrow> ver_persistence (des_verification d) = Unknown
      | ReadbackVerified \<Rightarrow>
          (\<exists>x. ob = Some x \<and> matches d x \<and> \<not> predates (ver_persistence (des_verification d)) (obs_at x))
      | Mismatch \<Rightarrow>
          ver_persistence (des_verification d) = Unknown \<and> (\<exists>x. ob = Some x \<and> \<not> matches d x))"

lemma is_unknown_iff [simp]: "is_unknown p \<longleftrightarrow> p = Unknown"
  by (cases p) (simp_all add: is_unknown_def)

lemma predates_simps [simp]:
  "predates Unknown t = False"
  "predates (ProfileReloadVerified v) t \<longleftrightarrow> unix_seconds v < unix_seconds t"
  "predates (PowerCycleVerified v) t \<longleftrightarrow> unix_seconds v < unix_seconds t"
  by (simp_all add: predates_def persistence_time_def)

lemma validate_resource_exact:
  "validate_resource_state r = Inr u \<longleftrightarrow>
     (case res_desired r of None \<Rightarrow> True | Some d \<Rightarrow> truthful d (res_observed r))"
  by (cases u)
    (auto simp: validate_resource_state_def truthful_def matches_def Let_def not_less
      split: option.split application_verification.split)

lemma validate_profile_resource_eq_Inr [simp]:
  "validate_profile_resource profile r name profile_of = Inr u \<longleftrightarrow>
     (\<forall>d. res_desired r = Some d \<longrightarrow> profile_of (des_value d) = profile)
     \<and> (\<forall>ob. res_observed r = Some ob \<longrightarrow> profile_of (obs_value ob) = profile)
     \<and> validate_resource_state r = Inr ()"
  by (cases u) (auto simp: validate_profile_resource_def split: option.splits)

section \<open>Each operation\<close>

lemma ack_write_valid: "validate_resource_state (snd (record_ack_write r v s t)) = Inr ()"
  by (simp add: validate_resource_exact record_ack_write_def truthful_def Let_def)

lemma readback_write_valid: "validate_resource_state (snd (record_readback_write r v x s t)) = Inr ()"
  by (simp add: validate_resource_exact record_readback_write_def truthful_def matches_def Let_def)

lemma reconcile_valid: "validate_resource_state (snd (reconcile_observation r v t)) = Inr ()"
  by (auto simp: validate_resource_exact reconcile_observation_def truthful_def matches_def Let_def
      split: option.split)

lemma invalidate_valid:
  "validate_resource_state r = Inr () \<Longrightarrow> validate_resource_state (invalidate_persistence r) = Inr ()"
  by (auto simp: validate_resource_exact invalidate_persistence_def desired_invalidate_def
      verification_invalidate_def truthful_def matches_def
      split: option.splits application_verification.splits)

text \<open>What a resource must show before a persistence claim is recorded.\<close>

definition confirms :: "persistence_verification \<Rightarrow> 'a resource_state \<Rightarrow> bool" where
  "confirms c r \<longleftrightarrow>
     (\<exists>d ob. res_desired r = Some d \<and> res_observed r = Some ob \<and> matches d ob
        \<and> ver_application (des_verification d) = ReadbackVerified \<and> \<not> predates c (obs_at ob))"

definition with_persistence :: "persistence_verification \<Rightarrow> 'a resource_state \<Rightarrow> 'a resource_state" where
  "with_persistence c r =
     r\<lparr>res_desired := map_option (\<lambda>d. d\<lparr>des_verification :=
         (des_verification d)\<lparr>ver_persistence := c\<rparr>\<rparr>) (res_desired r)\<rparr>"

lemma try_mark_eq:
  "try_mark_persistence r c = (if confirms c r then (True, with_persistence c r) else (False, r))"
  by (auto simp: try_mark_persistence_def confirms_def matches_def with_persistence_def not_less
      split: option.split)

lemma invalidate_eq: "invalidate_persistence r = with_persistence Unknown r"
  by (cases "res_desired r")
    (simp_all add: invalidate_persistence_def with_persistence_def desired_invalidate_def
      verification_invalidate_def)

lemma with_persistence_simps [simp]:
  "res_observed (with_persistence c r) = res_observed r"
  "res_desired (with_persistence c r) = map_option (\<lambda>d. d\<lparr>des_verification :=
         (des_verification d)\<lparr>ver_persistence := c\<rparr>\<rparr>) (res_desired r)"
  by (simp_all add: with_persistence_def)

lemma confirms_valid: "confirms c r \<Longrightarrow> validate_resource_state (with_persistence c r) = Inr ()"
  by (auto simp: confirms_def validate_resource_exact truthful_def matches_def)

lemma try_mark_valid:
  "validate_resource_state r = Inr () \<Longrightarrow> validate_resource_state (snd (try_mark_persistence r c)) = Inr ()"
  by (simp add: try_mark_eq confirms_valid)

section \<open>Sequences of operations\<close>

datatype 'a resource_op =
    AckWrite 'a desired_source timestamp
  | ReadbackWrite 'a 'a desired_source timestamp
  | Reconcile 'a timestamp
  | MarkReload timestamp
  | MarkPowerCycle timestamp
  | DropPersistence

fun resource_step :: "'a resource_op \<Rightarrow> 'a resource_state \<Rightarrow> 'a resource_state" where
  "resource_step (AckWrite v s t) r = snd (record_ack_write r v s t)"
| "resource_step (ReadbackWrite v x s t) r = snd (record_readback_write r v x s t)"
| "resource_step (Reconcile v t) r = snd (reconcile_observation r v t)"
| "resource_step (MarkReload t) r = snd (try_mark_profile_reload_verified r t)"
| "resource_step (MarkPowerCycle t) r = snd (try_mark_power_cycle_verified r t)"
| "resource_step DropPersistence r = invalidate_persistence r"

text \<open>The histories of a resource: it starts empty and every operation of the code may follow.\<close>

inductive evidence_run :: "'a resource_op list \<Rightarrow> 'a resource_state \<Rightarrow> bool" where
  start: "evidence_run [] resource_empty"
| step: "evidence_run ops r \<Longrightarrow> r' = resource_step op r \<Longrightarrow> evidence_run (ops @ [op]) r'"

code_pred evidence_run .

fun mark_claim :: "'a resource_op \<Rightarrow> persistence_verification option" where
  "mark_claim (MarkReload t) = Some (ProfileReloadVerified t)"
| "mark_claim (MarkPowerCycle t) = Some (PowerCycleVerified t)"
| "mark_claim _ = None"

lemma resource_step_mark:
  "mark_claim op = Some c \<Longrightarrow> resource_step op r = snd (try_mark_persistence r c)"
  by (cases op)
    (auto simp: try_mark_profile_reload_verified_def try_mark_power_cycle_verified_def)

lemma mark_claim_known: "mark_claim op = Some c \<Longrightarrow> c \<noteq> Unknown"
  by (cases op) auto

lemma resource_step_other:
  "mark_claim op = None \<Longrightarrow> res_desired (resource_step op r) = Some d
    \<Longrightarrow> ver_persistence (des_verification d) = Unknown"
  by (cases op)
    (auto simp: record_ack_write_def record_readback_write_def reconcile_observation_def invalidate_eq
      Let_def split: option.splits)

lemma resource_step_valid:
  "validate_resource_state r = Inr () \<Longrightarrow> validate_resource_state (resource_step op r) = Inr ()"
  by (cases op)
    (simp_all add: ack_write_valid readback_write_valid reconcile_valid invalidate_valid try_mark_valid
      try_mark_profile_reload_verified_def try_mark_power_cycle_verified_def)

lemma evidence_run_valid: "evidence_run ops r \<Longrightarrow> validate_resource_state r = Inr ()"
  by (induction rule: evidence_run.induct)
    (auto simp: resource_step_valid validate_resource_exact resource_empty_def)

text \<open>A claim present after a history was made by a mark that nothing but failed marks followed.\<close>

lemma claim_from_mark:
  assumes "evidence_run ops r" and "res_desired r = Some d"
    and "ver_persistence (des_verification d) = c" and "c \<noteq> Unknown"
  shows "\<exists>pre mark post q. ops = pre @ mark # post \<and> evidence_run pre q \<and> mark_claim mark = Some c
    \<and> confirms c q \<and> r = resource_step mark q \<and> (\<forall>op \<in> set post. mark_claim op \<noteq> None)"
  using assms
proof (induction arbitrary: d rule: evidence_run.induct)
  case start
  then show ?case by (simp add: resource_empty_def)
next
  case (step ops q r op)
  obtain b where b: "mark_claim op = Some b"
    using resource_step_other [of op q d] step.prems step.hyps(2) by (cases "mark_claim op") auto
  show ?case
  proof (cases "confirms b q")
    case True
    have "r = with_persistence b q"
      using True b by (simp add: step.hyps(2) resource_step_mark try_mark_eq)
    then have "b = c" using step.prems by auto
    then show ?thesis
      using True b step.hyps by (intro exI [of _ ops] exI [of _ op] exI [of _ "[]"] exI [of _ q]) simp
  next
    case False
    then have "r = q" using b by (simp add: step.hyps(2) resource_step_mark try_mark_eq)
    with step.IH [of d] step.prems obtain pre mark post q' where
      *: "ops = pre @ mark # post" "evidence_run pre q'" "mark_claim mark = Some c" "confirms c q'"
        "q = resource_step mark q'" "\<forall>op \<in> set post. mark_claim op \<noteq> None"
      by blast
    then show ?thesis
      using b \<open>r = q\<close>
      by (intro exI [of _ pre] exI [of _ mark] exI [of _ "post @ [op]"] exI [of _ q']) simp
  qed
qed

section \<open>Profiles as a whole\<close>

lemma mark_all_or_invalidate_eq:
  assumes "\<And>r. mark r t = try_mark_persistence r c"
  shows "mark_all_or_invalidate r t mark = with_persistence (if confirms c r then c else Unknown) r"
  by (simp add: mark_all_or_invalidate_def assms try_mark_eq invalidate_eq)

lemma marked_valid:
  assumes "validate_resource_state r = Inr ()"
  shows "validate_resource_state (with_persistence (if confirms c r then c else Unknown) r) = Inr ()"
  using assms invalidate_valid [of r] by (simp add: confirms_valid invalidate_eq)

lemma profile_mark_reload_eq:
  "profile_mark_reload_verified p t =
     (let mark = ProfileReloadVerified t in
      \<lparr>ps_dpi = with_persistence (if confirms mark (ps_dpi p) then mark else Unknown) (ps_dpi p),
       ps_preferences = with_persistence (if confirms mark (ps_preferences p) then mark else Unknown) (ps_preferences p),
       ps_buttons = with_persistence (if confirms mark (ps_buttons p) then mark else Unknown) (ps_buttons p),
       ps_polling_rate = with_persistence (if confirms mark (ps_polling_rate p) then mark else Unknown) (ps_polling_rate p)\<rparr>)"
  by (cases p) (simp add: profile_mark_reload_verified_def Let_def
      mark_all_or_invalidate_eq [OF try_mark_profile_reload_verified_def])

lemma profile_mark_power_cycle_eq:
  "profile_mark_power_cycle_verified p t =
     (let mark = PowerCycleVerified t in
      \<lparr>ps_dpi = with_persistence (if confirms mark (ps_dpi p) then mark else Unknown) (ps_dpi p),
       ps_preferences = with_persistence (if confirms mark (ps_preferences p) then mark else Unknown) (ps_preferences p),
       ps_buttons = with_persistence (if confirms mark (ps_buttons p) then mark else Unknown) (ps_buttons p),
       ps_polling_rate = with_persistence (if confirms mark (ps_polling_rate p) then mark else Unknown) (ps_polling_rate p)\<rparr>)"
  by (cases p) (simp add: profile_mark_power_cycle_verified_def Let_def
      mark_all_or_invalidate_eq [OF try_mark_power_cycle_verified_def])

lemma profile_invalidate_eq:
  "profile_invalidate_persistence p =
     \<lparr>ps_dpi = with_persistence Unknown (ps_dpi p), ps_preferences = with_persistence Unknown (ps_preferences p),
      ps_buttons = with_persistence Unknown (ps_buttons p), ps_polling_rate = with_persistence Unknown (ps_polling_rate p)\<rparr>"
  by (cases p) (simp add: profile_invalidate_persistence_def invalidate_eq Let_def)

lemma validate_profile_state_eq_Inr:
  "validate_profile_state profile p = Inr u \<longleftrightarrow>
     validate_profile_resource profile (ps_dpi p) ''dpi'' dpi_profile = Inr ()
     \<and> validate_profile_resource profile (ps_preferences p) ''preferences'' prefs_profile = Inr ()
     \<and> validate_profile_resource profile (ps_buttons p) ''buttons'' buttons_profile = Inr ()
     \<and> validate_resource_state (ps_polling_rate p) = Inr ()"
  by (cases u) (simp add: validate_profile_state_def)

lemma marked_profile_resource:
  assumes "validate_profile_resource profile r name profile_of = Inr ()"
  shows "validate_profile_resource profile (with_persistence (if confirms c r then c else Unknown) r)
      name profile_of = Inr ()"
    and "validate_profile_resource profile (with_persistence Unknown r) name profile_of = Inr ()"
  using assms marked_valid [of r c] invalidate_valid [of r] by (auto simp: invalidate_eq)

lemma unmarked_valid:
  "validate_resource_state r = Inr () \<Longrightarrow> validate_resource_state (with_persistence Unknown r) = Inr ()"
  using invalidate_valid [of r] by (simp add: invalidate_eq)

lemma profile_mark_valid:
  assumes "validate_profile_state profile p = Inr ()"
  shows "validate_profile_state profile (profile_mark_reload_verified p t) = Inr ()"
    and "validate_profile_state profile (profile_mark_power_cycle_verified p t) = Inr ()"
    and "validate_profile_state profile (profile_invalidate_persistence p) = Inr ()"
  using assms
  by (simp_all add: validate_profile_state_eq_Inr profile_mark_reload_eq profile_mark_power_cycle_eq
      profile_invalidate_eq Let_def marked_profile_resource marked_valid unmarked_valid
      del: validate_profile_resource_eq_Inr split del: if_split)

text \<open>A resource after a mark: the values are untouched, and the claim is the mark's where the evidence
  confirms it and no claim otherwise.\<close>

definition claims_only :: "persistence_verification \<Rightarrow> 'a resource_state \<Rightarrow> 'a resource_state \<Rightarrow> bool" where
  "claims_only c old new \<longleftrightarrow>
     res_observed new = res_observed old
     \<and> map_option des_value (res_desired new) = map_option des_value (res_desired old)
     \<and> map_option (\<lambda>d. ver_application (des_verification d)) (res_desired new)
         = map_option (\<lambda>d. ver_application (des_verification d)) (res_desired old)
     \<and> map_option (\<lambda>d. ver_persistence (des_verification d)) (res_desired new)
         = map_option (\<lambda>_. if confirms c old then c else Unknown) (res_desired old)"

lemma claims_only_with_persistence:
  "claims_only c r (with_persistence (if confirms c r then c else Unknown) r)"
  by (cases "res_desired r") (simp_all add: claims_only_def)

section \<open>Properties\<close>

text \<open>C17: Persistence is earned. Whatever sequence of writes, reads, marks and invalidations a resource
  has gone through, its record passes validation; and if it claims that the value survived a profile
  reload or a power cycle, that claim was made by a mark for which a current read-back of the very
  desired value, no later than the claim, was on record, and since then only marks that changed
  nothing followed: any write or read in between withdraws the claim.\<close>

theorem persistence_provenance:
  assumes "evidence_run ops r"
  shows "validate_resource_state r = Inr ()
    \<and> (\<forall>d c. res_desired r = Some d \<and> ver_persistence (des_verification d) = c \<and> c \<noteq> Unknown \<longrightarrow>
        (\<exists>pre mark post q ob. ops = pre @ mark # post \<and> evidence_run pre q \<and> mark_claim mark = Some c
          \<and> r = resource_step mark q \<and> (\<forall>op \<in> set post. mark_claim op \<noteq> None)
          \<and> res_observed q = Some ob \<and> res_observed r = Some ob \<and> matches d ob
          \<and> \<not> predates c (obs_at ob)))"
proof (intro conjI allI impI)
  show "validate_resource_state r = Inr ()" by (rule evidence_run_valid [OF assms])
next
  fix d c
  assume a: "res_desired r = Some d \<and> ver_persistence (des_verification d) = c \<and> c \<noteq> Unknown"
  then obtain pre mark post q where *: "ops = pre @ mark # post" "evidence_run pre q"
      "mark_claim mark = Some c" "confirms c q" "r = resource_step mark q"
      "\<forall>op \<in> set post. mark_claim op \<noteq> None"
    using claim_from_mark [OF assms] by blast
  then have r: "r = with_persistence c q" by (simp add: resource_step_mark try_mark_eq)
  obtain d' ob where d': "res_desired q = Some d'" and ob: "res_observed q = Some ob"
      "matches d' ob" "\<not> predates c (obs_at ob)"
    using *(4) by (auto simp: confirms_def)
  have "res_observed r = Some ob" using r ob by simp
  moreover have "matches d ob" using a r d' ob(2) by (auto simp: matches_def)
  ultimately show "\<exists>pre mark post q ob. ops = pre @ mark # post \<and> evidence_run pre q \<and> mark_claim mark = Some c
          \<and> r = resource_step mark q \<and> (\<forall>op \<in> set post. mark_claim op \<noteq> None)
          \<and> res_observed q = Some ob \<and> res_observed r = Some ob \<and> matches d ob
          \<and> \<not> predates c (obs_at ob)"
    using * ob by blast
qed

lemma persistence_provenance_witness:
  "\<exists>r pre mark post q. evidence_run
       [AckWrite Hz500 UserWrite (Timestamp 5), Reconcile Hz500 (Timestamp 8),
        MarkPowerCycle (Timestamp 9), MarkReload (Timestamp 7)] r
    \<and> validate_resource_state r = Inr ()
    \<and> [AckWrite Hz500 UserWrite (Timestamp 5), Reconcile Hz500 (Timestamp 8),
        MarkPowerCycle (Timestamp 9), MarkReload (Timestamp 7)] = pre @ mark # post
    \<and> mark_claim mark = Some (PowerCycleVerified (Timestamp 9)) \<and> r = resource_step mark q"
proof -
  let ?ops = "[AckWrite Hz500 UserWrite (Timestamp 5), Reconcile Hz500 (Timestamp 8),
        MarkPowerCycle (Timestamp 9), MarkReload (Timestamp 7)]"
  let ?d = "\<lparr>des_value = Hz500, des_source = UserWrite,
      des_verification = \<lparr>ver_application = ReadbackVerified, ver_persistence = PowerCycleVerified (Timestamp 9)\<rparr>,
      des_updated_at = Timestamp 5\<rparr>"
  let ?r = "\<lparr>res_desired = Some ?d,
      res_observed = Some \<lparr>obs_value = Hz500, obs_source = UsbReadback, obs_at = Timestamp 8\<rparr>\<rparr>"
  have final: "foldl (\<lambda>q op. resource_step op q) resource_empty ?ops = ?r"
    by (simp add: record_ack_write_def reconcile_observation_def try_mark_persistence_def
        try_mark_power_cycle_verified_def try_mark_profile_reload_verified_def resource_empty_def Let_def)
  have "evidence_run ops (foldl (\<lambda>q op. resource_step op q) resource_empty ops)"
    for ops :: "polling_rate resource_op list"
    by (induction ops rule: rev_induct) (auto intro: evidence_run.intros)
  from this [of ?ops] have run: "evidence_run ?ops ?r" by (simp only: final)
  have "res_desired ?r = Some ?d \<and> ver_persistence (des_verification ?d) = PowerCycleVerified (Timestamp 9)
      \<and> PowerCycleVerified (Timestamp 9) \<noteq> Unknown" by simp
  with persistence_provenance [OF run] run show ?thesis by blast
qed

text \<open>Reconciling a fresh observation is truthful: the observation is stored, the desired value is
  never changed (a missing one becomes the observed value as captured baseline), the call reports a
  mismatch exactly when a desired value differs or is newer than the observation, the application
  evidence says the same, and every persistence claim is dropped.\<close>

theorem reconcile_outcome:
  assumes "reconcile_observation r v now = (mismatch, r')"
  shows "res_observed r' = Some \<lparr>obs_value = v, obs_source = UsbReadback, obs_at = now\<rparr>
    \<and> validate_resource_state r' = Inr ()
    \<and> (mismatch \<longleftrightarrow> (\<exists>d0. res_desired r = Some d0
          \<and> (des_value d0 \<noteq> v \<or> unix_seconds now < unix_seconds (des_updated_at d0))))
    \<and> (\<exists>d. res_desired r' = Some d
        \<and> des_verification d
            = \<lparr>ver_application = (if mismatch then Mismatch else ReadbackVerified), ver_persistence = Unknown\<rparr>
        \<and> (case res_desired r of
             None \<Rightarrow> des_value d = v \<and> des_source d = CapturedBaseline \<and> des_updated_at d = now
           | Some d0 \<Rightarrow> des_value d = des_value d0 \<and> des_source d = des_source d0
                \<and> des_updated_at d = des_updated_at d0))"
proof -
  have "r' = snd (reconcile_observation r v now)" using assms by simp
  then have "validate_resource_state r' = Inr ()" using reconcile_valid [of r v now] by simp
  then show ?thesis
    using assms by (auto simp: reconcile_observation_def Let_def not_le split: option.splits)
qed

lemma reconcile_outcome_witness:
  "\<exists>r'. reconcile_observation
      \<lparr>res_desired = Some \<lparr>des_value = Hz125, des_source = UserWrite,
          des_verification = \<lparr>ver_application = ReadbackVerified,
            ver_persistence = PowerCycleVerified (Timestamp 4)\<rparr>, des_updated_at = Timestamp 3\<rparr>,
        res_observed = Some \<lparr>obs_value = Hz125, obs_source = UsbReadback, obs_at = Timestamp 3\<rparr>\<rparr>
      Hz1000 (Timestamp 9) = (True, r') \<and> validate_resource_state r' = Inr ()"
proof -
  let ?r = "\<lparr>res_desired = Some \<lparr>des_value = Hz125, des_source = UserWrite,
          des_verification = \<lparr>ver_application = ReadbackVerified,
            ver_persistence = PowerCycleVerified (Timestamp 4)\<rparr>, des_updated_at = Timestamp 3\<rparr>,
        res_observed = Some \<lparr>obs_value = Hz125, obs_source = UsbReadback, obs_at = Timestamp 3\<rparr>\<rparr>"
  have "reconcile_observation ?r Hz1000 (Timestamp 9) = (True, snd (reconcile_observation ?r Hz1000 (Timestamp 9)))"
    by (simp add: reconcile_observation_def)
  with reconcile_outcome [OF this] show ?thesis by blast
qed

text \<open>Marking a profile never overclaims: from a valid profile both marks give a valid one, and each
  of the four resources afterwards carries the mark's claim exactly when its own evidence confirms the
  desired value no later than the mark; every other resource carries no claim, and no value,
  observation or application evidence changes.\<close>

theorem profile_marks_no_overclaim:
  assumes "validate_profile_state profile p = Inr ()"
    and "(mark = ProfileReloadVerified t \<and> q = profile_mark_reload_verified p t)
      \<or> (mark = PowerCycleVerified t \<and> q = profile_mark_power_cycle_verified p t)"
  shows "validate_profile_state profile q = Inr ()
    \<and> claims_only mark (ps_dpi p) (ps_dpi q) \<and> claims_only mark (ps_preferences p) (ps_preferences q)
    \<and> claims_only mark (ps_buttons p) (ps_buttons q) \<and> claims_only mark (ps_polling_rate p) (ps_polling_rate q)"
proof -
  have "validate_profile_state profile q = Inr ()"
    using assms(2) profile_mark_valid [OF assms(1)] by blast
  with assms(2) show ?thesis
    by (elim disjE conjE)
      (simp_all add: profile_mark_reload_eq profile_mark_power_cycle_eq Let_def
        claims_only_with_persistence split del: if_split)
qed

lemma profile_marks_no_overclaim_witness:
  "claims_only (PowerCycleVerified (Timestamp 9))
     (snd (reconcile_observation resource_empty Hz250 (Timestamp 5)))
     (ps_polling_rate (profile_mark_power_cycle_verified
        (profile_state_empty\<lparr>ps_polling_rate := snd (reconcile_observation resource_empty Hz250 (Timestamp 5))\<rparr>)
        (Timestamp 9)))"
proof -
  let ?p = "profile_state_empty\<lparr>ps_polling_rate := snd (reconcile_observation resource_empty Hz250 (Timestamp 5))\<rparr>"
  have "validate_profile_state (ProfileId 1) ?p = Inr ()"
    using reconcile_valid [of resource_empty Hz250 "Timestamp 5"]
    by (simp add: validate_profile_state_eq_Inr profile_state_empty_def resource_empty_def
        validate_resource_state_def)
  from profile_marks_no_overclaim [OF this, of "PowerCycleVerified (Timestamp 9)" "Timestamp 9"]
  show ?thesis by simp
qed

end
