(* ===== verification/X3_Device.thy ===== *)
theory X3_Device
  imports X3_Std X3_Watermark
begin

text \<open>
  Logical mice and their endpoints (\<^verbatim>\<open>device.rs\<close>): the \<^verbatim>\<open>mouse-N\<close> keys,
  endpoint construction, the endpoint table of an identity with its selection rule, its validation,
  and the rebind candidates of the legacy mode.
\<close>

section \<open>Keys and locators\<close>

datatype device_id = DeviceId (device_text: rstring)

datatype device_locator = UsbPath rstring | BlePlatformId rstring

text \<open>\<^verbatim>\<open>StateError::InvalidState\<close> carries a message; one constructor per message of
  this file, with what the message interpolates.\<close>

datatype device_fault =
    BlankDeviceId
  | DeviceIdSurroundingWhitespace rstring
  | DeviceIdLeadingZeros rstring
  | DeviceIdNumberZero
  | DeviceIdNotLogical rstring
  | DeviceNumberZero
  | UsbEndpointTransport
  | UsbEndpointBlankPath
  | BleEndpointBlankId
  | EndpointKeyMismatch transport_kind transport_kind device_id
  | EndpointIncoherent device_id transport_kind
  | UsbLocatorBlank device_id transport_kind
  | BleLocatorBlank device_id
  | SerialBlank device_id transport_kind

definition ascii_digit :: "nat \<Rightarrow> bool" where
  "ascii_digit c \<longleftrightarrow> 48 \<le> c \<and> c \<le> 57"

text \<open>\<^verbatim>\<open>str::parse::<u64>\<close> on a text of ASCII digits.\<close>

definition digits_value :: "rstring \<Rightarrow> nat" where
  "digits_value s = foldl (\<lambda>n c. 10 * n + (c - 48)) 0 s"

definition parse_u64 :: "rstring \<Rightarrow> u64 option" where
  "parse_u64 s = (if digits_value s < 2 ^ 64 then Some (of_nat (digits_value s)) else None)"

text \<open>A short text of digits needs no comparison with the bound.\<close>

lemma digits_value_bound: "list_all (\<lambda>c. c < 58) s \<Longrightarrow> digits_value s < 10 ^ length s"
proof (induction s rule: rev_induct)
  case (snoc c s)
  then show ?case by (auto simp: digits_value_def)
qed (simp add: digits_value_def)

lemma parse_u64_code [code]:
  "parse_u64 s =
     (if length s < 20 \<and> list_all (\<lambda>c. c < 58) s then Some (of_nat (digits_value s))
      else if digits_value s < 2 ^ 64 then Some (of_nat (digits_value s)) else None)"
proof (cases "length s < 20 \<and> list_all (\<lambda>c. c < 58) s")
  case True
  then have "digits_value s < 10 ^ length s" by (simp add: digits_value_bound)
  also have "(10 :: nat) ^ length s \<le> 10 ^ 19" using True by (intro power_increasing) auto
  also have "(10 :: nat) ^ 19 < 2 ^ 64" by simp
  finally show ?thesis using True by (simp add: parse_u64_def)
qed (simp add: parse_u64_def)

definition show_u64 :: "u64 \<Rightarrow> rstring" where
  "show_u64 n = rstr (show_nat (unat n))"

definition mouse_prefix :: rstring where
  "mouse_prefix = rstr ''mouse-''"

definition parse_logical_number :: "rstring \<Rightarrow> u64 option" where
  "parse_logical_number s =
     (if take 6 s \<noteq> mouse_prefix then None
      else let suffix = drop 6 s
           in if suffix = [] \<or> \<not> list_all ascii_digit suffix then None
              else if 1 < length suffix \<and> hd suffix = 48 then None
              else (case parse_u64 suffix of
                      None \<Rightarrow> None
                    | Some n \<Rightarrow> if n \<noteq> 0 then Some n else None))"

definition validate_logical_id :: "rstring \<Rightarrow> (device_fault, unit) result" where
  "validate_logical_id s =
     (if blank s then Inl BlankDeviceId
      else if s \<noteq> trim s then Inl (DeviceIdSurroundingWhitespace s)
      else case parse_logical_number s of
             Some number \<Rightarrow>
               if mouse_prefix @ show_u64 number \<noteq> s then Inl (DeviceIdLeadingZeros s)
               else if number = 0 then Inl DeviceIdNumberZero
               else Inr ()
           | None \<Rightarrow> Inl (DeviceIdNotLogical s))"

definition device_id_new :: "rstring \<Rightarrow> (device_fault, device_id) result" where
  "device_id_new s = tryq (validate_logical_id s) (\<lambda>_. Inr (DeviceId s))"

definition device_from_number :: "u64 \<Rightarrow> (device_fault, device_id) result" where
  "device_from_number number =
     (if number = 0 then Inl DeviceNumberZero
      else device_id_new (mouse_prefix @ show_u64 number))"

definition device_number :: "device_id \<Rightarrow> u64 option" where
  "device_number d = parse_logical_number (device_text d)"

text \<open>The field is private, so the checked constructor made every key there is.\<close>

definition wf_device_id :: "device_id \<Rightarrow> bool" where
  "wf_device_id d \<longleftrightarrow> validate_logical_id (device_text d) = Inr ()"

section \<open>Endpoints\<close>

record device_endpoint =
  ep_transport :: transport_kind
  ep_vendor_id :: "u16 option"
  ep_product_id :: "u16 option"
  ep_serial_number :: "rstring option"
  ep_locator :: device_locator
  ep_display_name :: "rstring option"

definition endpoint_usb ::
  "transport_kind \<Rightarrow> u16 \<Rightarrow> u16 \<Rightarrow> rstring option \<Rightarrow> rstring \<Rightarrow> rstring option
     \<Rightarrow> (device_fault, device_endpoint) result" where
  "endpoint_usb transport vendor_id product_id serial_number current_path display_name =
     tryq (case transport of Wired \<Rightarrow> Inr () | Receiver \<Rightarrow> Inr () | Ble \<Rightarrow> Inl UsbEndpointTransport) (\<lambda>_.
     if blank current_path then Inl UsbEndpointBlankPath
     else let normalized_serial = normalize_name serial_number
          in Inr \<lparr>ep_transport = transport, ep_vendor_id = Some vendor_id, ep_product_id = Some product_id,
                  ep_serial_number = normalized_serial, ep_locator = UsbPath current_path,
                  ep_display_name = normalize_name display_name\<rparr>)"

definition endpoint_ble :: "rstring \<Rightarrow> rstring option \<Rightarrow> (device_fault, device_endpoint) result" where
  "endpoint_ble platform_id display_name =
     (let trimmed = trim platform_id
      in if trimmed = [] then Inl BleEndpointBlankId
         else Inr \<lparr>ep_transport = Ble, ep_vendor_id = None, ep_product_id = None,
                   ep_serial_number = None, ep_locator = BlePlatformId trimmed,
                   ep_display_name = normalize_name display_name\<rparr>)"

definition endpoint_is_coherent :: "device_endpoint \<Rightarrow> bool" where
  "endpoint_is_coherent e =
     (case (ep_transport e, ep_locator e) of
        (Wired, UsbPath _) \<Rightarrow> ep_vendor_id e \<noteq> None \<and> ep_product_id e \<noteq> None
      | (Receiver, UsbPath _) \<Rightarrow> ep_vendor_id e \<noteq> None \<and> ep_product_id e \<noteq> None
      | (Ble, BlePlatformId _) \<Rightarrow> True
      | _ \<Rightarrow> False)"

section \<open>Identities\<close>

record device_identity =
  id_device :: device_id
  id_display_name :: "rstring option"
  id_physical_id :: "physical_id option"
  id_endpoints :: "(transport_kind, device_endpoint) btree"
  id_preferred_transport :: "transport_kind option"

definition identity_new :: "device_id \<Rightarrow> rstring option \<Rightarrow> device_identity" where
  "identity_new d display_name =
     \<lparr>id_device = d, id_display_name = normalize_name display_name, id_physical_id = None,
      id_endpoints = [], id_preferred_transport = None\<rparr>"

definition upsert_endpoint :: "device_identity \<Rightarrow> device_endpoint \<Rightarrow> device_identity" where
  "upsert_endpoint i e = i\<lparr>id_endpoints := bt_insert (ep_transport e) e (id_endpoints i)\<rparr>"

definition identity_endpoint :: "device_identity \<Rightarrow> transport_kind \<Rightarrow> device_endpoint option" where
  "identity_endpoint i t = bt_get (id_endpoints i) t"

definition has_endpoint :: "device_identity \<Rightarrow> transport_kind \<Rightarrow> bool" where
  "has_endpoint i t \<longleftrightarrow> bt_contains (id_endpoints i) t"

fun first_endpoint :: "(transport_kind, device_endpoint) btree \<Rightarrow> transport_kind list \<Rightarrow> device_endpoint option" where
  "first_endpoint m [] = None"
| "first_endpoint m (kind # kinds) =
     (case bt_get m kind of Some e \<Rightarrow> Some e | None \<Rightarrow> first_endpoint m kinds)"

definition selected_endpoint :: "device_identity \<Rightarrow> device_endpoint option" where
  "selected_endpoint i =
     (case Option.bind (id_preferred_transport i) (bt_get (id_endpoints i)) of
        Some e \<Rightarrow> Some e
      | None \<Rightarrow> first_endpoint (id_endpoints i) [Wired, Receiver, Ble])"

definition selected_transport :: "device_identity \<Rightarrow> transport_kind option" where
  "selected_transport i = map_option ep_transport (selected_endpoint i)"

definition validate_endpoint ::
  "device_id \<Rightarrow> transport_kind \<times> device_endpoint \<Rightarrow> (device_fault, unit) result" where
  "validate_endpoint d = (\<lambda>(kind, e).
     if kind \<noteq> ep_transport e then Inl (EndpointKeyMismatch kind (ep_transport e) d)
     else if \<not> endpoint_is_coherent e then Inl (EndpointIncoherent d kind)
     else tryq (case ep_locator e of
                  UsbPath path \<Rightarrow> if blank path then Inl (UsbLocatorBlank d kind) else Inr ()
                | BlePlatformId pid \<Rightarrow> if blank pid then Inl (BleLocatorBlank d) else Inr ()) (\<lambda>_.
     case ep_serial_number e of
       Some serial \<Rightarrow> if blank serial then Inl (SerialBlank d kind) else Inr ()
     | None \<Rightarrow> Inr ()))"

definition identity_validate :: "device_identity \<Rightarrow> (device_fault, unit) result" where
  "identity_validate i = check_all (validate_endpoint (id_device i)) (id_endpoints i)"

section \<open>Discovery and rebinding\<close>

record discovered_endpoint =
  disc_endpoint :: device_endpoint
  disc_connected :: bool

text \<open>The derived order of locators: variants by declaration, then their texts.\<close>

fun locator_key :: "device_locator \<Rightarrow> nat \<times> rstring" where
  "locator_key (UsbPath p) = (0, p)"
| "locator_key (BlePlatformId p) = (1, p)"

lemma locator_key_inject [simp]: "locator_key a = locator_key b \<longleftrightarrow> a = b"
  by (cases a; cases b) auto

lemma locator_eqI:
  "fst (locator_key a) = fst (locator_key b) \<Longrightarrow> snd (locator_key a) = snd (locator_key b) \<Longrightarrow> a = b"
  by (metis locator_key_inject prod_eqI)

instantiation device_locator :: linorder
begin

definition less_eq_device_locator :: "device_locator \<Rightarrow> device_locator \<Rightarrow> bool" where
  "less_eq_device_locator a b \<longleftrightarrow>
     fst (locator_key a) < fst (locator_key b)
     \<or> fst (locator_key a) = fst (locator_key b) \<and> snd (locator_key a) \<le> snd (locator_key b)"

definition less_device_locator :: "device_locator \<Rightarrow> device_locator \<Rightarrow> bool" where
  "less_device_locator a b \<longleftrightarrow>
     fst (locator_key a) < fst (locator_key b)
     \<or> fst (locator_key a) = fst (locator_key b) \<and> snd (locator_key a) < snd (locator_key b)"

instance
  by standard
    (auto simp: less_eq_device_locator_def less_device_locator_def intro: locator_eqI)

end

instantiation device_id :: linorder
begin

definition less_eq_device_id :: "device_id \<Rightarrow> device_id \<Rightarrow> bool" where
  "less_eq_device_id a b \<longleftrightarrow> device_text a \<le> device_text b"

definition less_device_id :: "device_id \<Rightarrow> device_id \<Rightarrow> bool" where
  "less_device_id a b \<longleftrightarrow> device_text a < device_text b"

instance
  by standard (auto simp: less_eq_device_id_def less_device_id_def device_id.expand)

end

text \<open>\<^verbatim>\<open>Vec::dedup_by\<close>: of consecutive equal elements the first stays.\<close>

fun dedup_by :: "('a \<Rightarrow> 'a \<Rightarrow> bool) \<Rightarrow> 'a list \<Rightarrow> 'a list" where
  "dedup_by same [] = []"
| "dedup_by same [x] = [x]"
| "dedup_by same (x # y # xs) =
     (if same y x then dedup_by same (x # xs) else x # dedup_by same (y # xs))"

definition rebind_match :: "transport_kind \<Rightarrow> device_endpoint \<Rightarrow> discovered_endpoint \<Rightarrow> bool" where
  "rebind_match transport stored candidate \<longleftrightarrow>
     disc_connected candidate
     \<and> ep_transport (disc_endpoint candidate) = transport
     \<and> ep_vendor_id (disc_endpoint candidate) = ep_vendor_id stored
     \<and> ep_product_id (disc_endpoint candidate) = ep_product_id stored"

definition legacy_rebind_candidates ::
  "discovered_endpoint list \<Rightarrow> transport_kind \<Rightarrow> device_endpoint \<Rightarrow> device_endpoint list" where
  "legacy_rebind_candidates discovered transport stored =
     (let candidates = map disc_endpoint (filter (rebind_match transport stored) discovered);
          candidates = sort_key ep_locator candidates
      in dedup_by (\<lambda>a b. ep_locator a = ep_locator b) candidates)"

section \<open>Keys are exactly the canonical texts\<close>

lemma mouse_prefix_eq: "mouse_prefix = [109, 111, 117, 115, 101, 45]"
  by code_simp

lemma length_mouse_prefix [simp]: "length mouse_prefix = 6"
  by (simp add: mouse_prefix_eq)

lemma digits_value_append: "digits_value (s @ [c]) = 10 * digits_value s + (c - 48)"
  by (simp add: digits_value_def)

lemma digits_value_rstr: "digits_value (rstr s) = decimal_value s"
  by (simp add: digits_value_def decimal_value_def rstr_def foldl_map)

lemma ascii_digit_show: "list_all ascii_digit (rstr (show_nat n))"
  using show_nat_digits [of n]
  by (simp add: list_all_iff ascii_digit_def is_digit_def rstr_def)

lemma digits_value_show [simp]: "digits_value (rstr (show_nat n)) = n"
  by (simp add: digits_value_rstr decimal_value_show_nat)

lemma rstr_show_small: "n < 10 \<Longrightarrow> rstr (show_nat n) = [48 + n]"
  by (subst show_nat.simps) (simp add: rstr_def digit_char_code)

lemma rstr_show_step: "10 \<le> n \<Longrightarrow> rstr (show_nat n) = rstr (show_nat (n div 10)) @ [48 + n mod 10]"
  by (subst show_nat.simps) (simp add: rstr_def digit_char_code)

lemma hd_rstr_show: "0 < n \<Longrightarrow> hd (rstr (show_nat n)) \<noteq> 48"
proof
  assume n: "0 < n" and h: "hd (rstr (show_nat n)) = 48"
  obtain c s where s: "show_nat n = c # s" by (metis list.exhaust show_nat_not_Nil)
  with h have "of_char c = (48 :: nat)" by (simp add: rstr_def)
  then have "(of_char c :: nat) = of_char CHR ''0''" by simp
  then have "c = CHR ''0''" by (metis char_of_char)
  with hd_show_nat [OF n] s show False by simp
qed

text \<open>A canonical numeral is the numeral of its value.\<close>

lemma show_digits_value:
  assumes "s \<noteq> []" and "list_all ascii_digit s" and "1 < length s \<longrightarrow> hd s \<noteq> 48"
  shows "rstr (show_nat (digits_value s)) = s"
  using assms
proof (induction s rule: rev_induct)
  case (snoc c t)
  then have c: "48 \<le> c" "c - 48 < 10" by (auto simp: ascii_digit_def)
  then obtain k where k: "c = 48 + k" "k < 10" by (metis add_diff_cancel_left' le_Suc_ex)
  show ?case
  proof (cases "t = []")
    case True
    with c show ?thesis by (simp add: digits_value_def rstr_show_small)
  next
    case False
    with snoc have IH: "rstr (show_nat (digits_value t)) = t" by (cases t) auto
    have "digits_value t \<noteq> 0"
    proof
      assume "digits_value t = 0"
      with IH have "t = [48]" by (simp add: rstr_show_small)
      with snoc.prems False show False by simp
    qed
    then have "10 \<le> digits_value (t @ [c])" by (simp add: digits_value_append)
    moreover have "digits_value (t @ [c]) div 10 = digits_value t" "48 + digits_value (t @ [c]) mod 10 = c"
      using k by (simp_all add: digits_value_append)
    ultimately show ?thesis using IH by (simp add: rstr_show_step)
  qed
qed simp

lemma parse_show_u64 [simp]: "parse_u64 (show_u64 n) = Some n"
  using unsigned_less [of n, where ?'a = nat] by (simp add: parse_u64_def show_u64_def)

lemma show_u64_not_Nil [simp]: "show_u64 n \<noteq> []"
  by (simp add: show_u64_def rstr_def)

lemma parse_logical_show:
  assumes "n \<noteq> 0"
  shows "parse_logical_number (mouse_prefix @ show_u64 n) = Some n"
proof -
  have "hd (show_u64 n) \<noteq> 48"
    using assms by (simp add: show_u64_def hd_rstr_show unat_gt_0)
  then show ?thesis
    using assms by (simp add: parse_logical_number_def ascii_digit_show [of "unat n", folded show_u64_def])
qed

lemma parse_logical_eq_Some:
  "parse_logical_number s = Some n \<longleftrightarrow> n \<noteq> 0 \<and> s = mouse_prefix @ show_u64 n"
proof
  assume p: "parse_logical_number s = Some n"
  let ?t = "drop 6 s"
  from p have t: "take 6 s = mouse_prefix" "?t \<noteq> []" "list_all ascii_digit ?t"
      "1 < length ?t \<longrightarrow> hd ?t \<noteq> 48" "parse_u64 ?t = Some n" "n \<noteq> 0"
    by (auto simp: parse_logical_number_def Let_def split: if_splits option.splits)
  from t(5) have "n = of_nat (digits_value ?t)" "digits_value ?t < 2 ^ 64"
    by (auto simp: parse_u64_def split: if_splits)
  then have "unat n = digits_value ?t" by (simp add: unat_of_nat take_bit_nat_eq_self)
  then have "show_u64 n = ?t"
    using show_digits_value [OF t(2-4)] by (simp add: show_u64_def)
  with t show "n \<noteq> 0 \<and> s = mouse_prefix @ show_u64 n"
    by (metis append_take_drop_id)
qed (auto simp: parse_logical_show)

lemma last_show_u64: "\<not> is_whitespace (last (show_u64 n))"
proof -
  have "ascii_digit (last (show_u64 n))"
    using ascii_digit_show [of "unat n"] last_in_set [OF show_u64_not_Nil]
    by (fastforce simp: list_all_iff show_u64_def)
  then show ?thesis by (auto simp: ascii_digit_def is_whitespace_def)
qed

lemma validate_logical_id_eq_Inr:
  "validate_logical_id s = Inr u \<longleftrightarrow> (\<exists>n. n \<noteq> 0 \<and> s = mouse_prefix @ show_u64 n)"
proof
  assume "validate_logical_id s = Inr u"
  then obtain n where "parse_logical_number s = Some n"
    by (auto simp: validate_logical_id_def split: if_splits option.splits)
  then show "\<exists>n. n \<noteq> 0 \<and> s = mouse_prefix @ show_u64 n" by (auto simp: parse_logical_eq_Some)
next
  assume "\<exists>n. n \<noteq> 0 \<and> s = mouse_prefix @ show_u64 n"
  then obtain n where n: "n \<noteq> 0" "s = mouse_prefix @ show_u64 n" by blast
  have "hd s = 109" by (simp add: n(2) mouse_prefix_eq)
  then have h: "\<not> is_whitespace (hd s)" by (simp add: is_whitespace_def)
  have l: "\<not> is_whitespace (last s)" using last_show_u64 n(2) by simp
  have ne: "s \<noteq> []" by (simp add: n(2) mouse_prefix_eq)
  have "trim s = s" using trim_eq_self [OF ne h l] .
  then show "validate_logical_id s = Inr u"
    using n ne by (cases u) (simp add: validate_logical_id_def blank_def parse_logical_show)
qed

lemma wf_device_id_iff: "wf_device_id d \<longleftrightarrow> (\<exists>n. n \<noteq> 0 \<and> d = DeviceId (mouse_prefix @ show_u64 n))"
  by (cases d) (auto simp: wf_device_id_def validate_logical_id_eq_Inr)

lemma device_id_new_eq_Inr: "device_id_new s = Inr d \<longleftrightarrow> d = DeviceId s \<and> wf_device_id d"
  by (auto simp: device_id_new_def wf_device_id_def)

lemma device_from_number_eq:
  "device_from_number n = (if n = 0 then Inl DeviceNumberZero else Inr (DeviceId (mouse_prefix @ show_u64 n)))"
  by (auto simp: device_from_number_def device_id_new_eq_Inr wf_device_id_iff)

lemma device_number_eq_Some: "device_number d = Some n \<longleftrightarrow> device_from_number n = Inr d"
  by (cases d) (auto simp: device_number_def parse_logical_eq_Some device_from_number_eq)

lemma wf_device_from_number: "device_from_number n = Inr d \<Longrightarrow> wf_device_id d"
  by (auto simp: device_from_number_eq wf_device_id_iff split: if_splits)

lemma wf_device_number: "wf_device_id d \<Longrightarrow> \<exists>n. n \<noteq> 0 \<and> device_number d = Some n"
  by (auto simp: wf_device_id_iff device_number_def parse_logical_show)

section \<open>Endpoints and selection\<close>

lemma endpoint_usb_eq_Inr:
  "endpoint_usb t vid pid serial path name = Inr e \<longleftrightarrow>
     t \<noteq> Ble \<and> \<not> blank path
     \<and> e = \<lparr>ep_transport = t, ep_vendor_id = Some vid, ep_product_id = Some pid,
           ep_serial_number = normalize_name serial, ep_locator = UsbPath path,
           ep_display_name = normalize_name name\<rparr>"
  by (cases t) (auto simp: endpoint_usb_def Let_def)

lemma endpoint_ble_eq_Inr:
  "endpoint_ble pid name = Inr e \<longleftrightarrow>
     \<not> blank pid
     \<and> e = \<lparr>ep_transport = Ble, ep_vendor_id = None, ep_product_id = None, ep_serial_number = None,
           ep_locator = BlePlatformId (trim pid), ep_display_name = normalize_name name\<rparr>"
  by (auto simp: endpoint_ble_def Let_def blank_def)

lemma validate_endpoint_eq_Inr:
  "validate_endpoint d (kind, e) = Inr u \<longleftrightarrow>
     kind = ep_transport e \<and> endpoint_is_coherent e
     \<and> (case ep_locator e of UsbPath p \<Rightarrow> \<not> blank p | BlePlatformId p \<Rightarrow> \<not> blank p)
     \<and> (\<forall>s. ep_serial_number e = Some s \<longrightarrow> \<not> blank s)"
  by (cases u) (auto simp: validate_endpoint_def split: device_locator.split option.split)

lemma normalized_not_blank: "normalize_name n = Some m \<Longrightarrow> \<not> blank m"
  by (drule normalize_name_eq_Some) simp

lemma constructed_endpoint_valid:
  assumes "endpoint_usb t vid pid serial path name = Inr e \<or> endpoint_ble plat name = Inr e"
  shows "validate_endpoint d (ep_transport e, e) = Inr ()"
  using assms normalized_not_blank [of serial]
  by (cases t)
    (auto simp: validate_endpoint_eq_Inr endpoint_usb_eq_Inr endpoint_ble_eq_Inr endpoint_is_coherent_def)

lemma identity_validate_eq_Inr:
  "identity_validate i = Inr u \<longleftrightarrow>
     (\<forall>(kind, e) \<in> set (id_endpoints i). validate_endpoint (id_device i) (kind, e) = Inr ())"
  by (auto simp: identity_validate_def)

lemma identity_validate_upsert:
  assumes "bt_ok (id_endpoints i)" and "identity_validate i = Inr ()"
    and "validate_endpoint (id_device i) (ep_transport e, e) = Inr ()"
  shows "identity_validate (upsert_endpoint i e) = Inr ()"
proof -
  note all = bt.all_entries_ins [OF assms(1), of "\<lambda>k e. validate_endpoint (id_device i) (k, e) = Inr ()"]
  have "\<forall>(k, e) \<in> set (bt_insert (ep_transport e) e (id_endpoints i)). validate_endpoint (id_device i) (k, e) = Inr ()"
    by (rule all) (use assms(2,3) in \<open>simp_all only: identity_validate_eq_Inr\<close>)
  then show ?thesis unfolding identity_validate_eq_Inr upsert_endpoint_def by (cases i) simp
qed

lemma first_endpoint_eq_None: "first_endpoint m ks = None \<longleftrightarrow> (\<forall>k \<in> set ks. bt_get m k = None)"
  by (induction ks) (auto split: option.split)

lemma first_endpoint_stored: "first_endpoint m ks = Some e \<Longrightarrow> \<exists>k. bt_get m k = Some e"
  by (induction ks) (auto split: option.splits)

lemma selected_endpoint_eq_None: "selected_endpoint i = None \<longleftrightarrow> id_endpoints i = []"
proof
  assume "selected_endpoint i = None"
  then have "first_endpoint (id_endpoints i) [Wired, Receiver, Ble] = None"
    by (auto simp: selected_endpoint_def split: option.splits)
  then have "bt_get (id_endpoints i) k = None" for k
    unfolding first_endpoint_eq_None by (cases k) simp_all
  then show "id_endpoints i = []" by (rule bt_get_None)
qed (auto simp: selected_endpoint_def split: bind_splits)

lemma selected_endpoint_stored: "selected_endpoint i = Some e \<Longrightarrow> \<exists>k. identity_endpoint i k = Some e"
  by (auto simp: selected_endpoint_def identity_endpoint_def bind_eq_Some_conv
      dest: first_endpoint_stored split: option.splits)

lemma selected_endpoint_preferred:
  "id_preferred_transport i = Some t \<Longrightarrow> identity_endpoint i t = Some e \<Longrightarrow> selected_endpoint i = Some e"
  by (simp add: selected_endpoint_def identity_endpoint_def)

section \<open>Rebind candidates\<close>

lemma find_filter: "find P xs = (case filter P xs of [] \<Rightarrow> None | x # _ \<Rightarrow> Some x)"
  by (induction xs) auto

lemma find_sort_key: "find (\<lambda>x. f x = k) (sort_key f xs) = find (\<lambda>x. f x = k) xs"
  by (simp add: find_filter sort_key_stable)

lemma dedup_subset: "set (dedup_by same xs) \<subseteq> set xs"
  by (induction same xs rule: dedup_by.induct) auto

lemma dedup_find:
  assumes "sorted (map f xs)"
  shows "e \<in> set (dedup_by (\<lambda>a b. f a = f b) xs) \<longleftrightarrow> find (\<lambda>x. f x = f e) xs = Some e"
  using assms
proof (induction "\<lambda>a b. f a = f b" xs rule: dedup_by.induct)
  case (3 x y xs)
  show ?case
  proof (cases "f y = f x")
    case True
    then show ?thesis using 3 by auto
  next
    case False
    then have "f x < f z" if "z \<in> set (y # xs)" for z
      using 3(3) that by (auto simp: order_less_le)
    then have "f e \<noteq> f x" if "e \<in> set (dedup_by (\<lambda>a b. f a = f b) (y # xs))"
      using that dedup_subset by fastforce
    then show ?thesis using 3(2) 3(3) False by auto
  qed
qed auto

lemma dedup_strict:
  assumes "sorted (map f xs)"
  shows "sorted_wrt (<) (map f (dedup_by (\<lambda>a b. f a = f b) xs))"
  using assms
proof (induction "\<lambda>a b. f a = f b" xs rule: dedup_by.induct)
  case (3 x y xs)
  show ?case
  proof (cases "f y = f x")
    case True
    then show ?thesis using 3 by auto
  next
    case False
    then have "f x < f z" if "z \<in> set (y # xs)" for z
      using 3(3) that by (auto simp: order_less_le)
    then show ?thesis
      using 3(2,3) False dedup_subset [of "\<lambda>a b. f a = f b" "y # xs"] by auto
  qed
qed auto

section \<open>Properties\<close>

text \<open>Device keys are exactly the canonical texts: a text is accepted as a key if and only if it is
  \<^verbatim>\<open>mouse-\<close> followed by the decimal numeral, without leading zeros, of a non-zero 64-bit
  number; the number read from a key is the one it was allocated from, and only zero is refused.\<close>

theorem device_id_canonical:
  "(device_id_new s = Inr d \<longleftrightarrow> (\<exists>n. n \<noteq> 0 \<and> s = mouse_prefix @ show_u64 n \<and> d = DeviceId s))
   \<and> (device_number d = Some n \<longleftrightarrow> device_from_number n = Inr d)
   \<and> (device_from_number n = Inl e \<longleftrightarrow> n = 0 \<and> e = DeviceNumberZero)"
  by (auto simp: device_id_new_eq_Inr wf_device_id_iff device_number_eq_Some device_from_number_eq)

text \<open>Storing an endpoint the constructors built keeps an identity valid: the endpoint is found under
  its own transport, every other transport keeps its endpoint, the transport and locator cohere, and
  the identity opens this endpoint when its transport is the preferred one.\<close>

theorem upsert_keeps_identity_valid:
  assumes "bt_ok (id_endpoints i)" and "identity_validate i = Inr ()"
    and "endpoint_usb t vid pid serial path name = Inr e \<or> endpoint_ble plat name = Inr e"
  shows "identity_validate (upsert_endpoint i e) = Inr () \<and> bt_ok (id_endpoints (upsert_endpoint i e))
    \<and> (\<forall>k. identity_endpoint (upsert_endpoint i e) k
          = (if k = ep_transport e then Some e else identity_endpoint i k))
    \<and> endpoint_is_coherent e
    \<and> (id_preferred_transport i = Some (ep_transport e) \<longrightarrow> selected_endpoint (upsert_endpoint i e) = Some e)"
proof -
  have v: "validate_endpoint (id_device i) (ep_transport e, e) = Inr ()"
    by (rule constructed_endpoint_valid [OF assms(3)])
  have g: "identity_endpoint (upsert_endpoint i e) k
      = (if k = ep_transport e then Some e else identity_endpoint i k)" for k
    by (simp add: identity_endpoint_def upsert_endpoint_def bt_get_insert)
  have "id_preferred_transport (upsert_endpoint i e) = id_preferred_transport i"
    and "bt_ok (id_endpoints (upsert_endpoint i e))"
    using assms(1) by (simp_all add: upsert_endpoint_def bt_ok_insert)
  with v g show ?thesis
    using identity_validate_upsert [OF assms(1,2) v]
      selected_endpoint_preferred [of "upsert_endpoint i e" "ep_transport e" e]
    by (simp add: validate_endpoint_eq_Inr)
qed

lemma upsert_keeps_identity_valid_witness:
  "\<exists>e. endpoint_usb Receiver 0x1d57 0xfa60 None (rstr ''/dev/hidraw3'') None = Inr e
     \<and> identity_validate (upsert_endpoint (identity_new (DeviceId (rstr ''mouse-1'')) None) e) = Inr ()"
proof -
  let ?i = "identity_new (DeviceId (rstr ''mouse-1'')) None"
  have "bt_ok (id_endpoints ?i)" and "identity_validate ?i = Inr ()"
    by (simp_all add: identity_new_def identity_validate_def)
  moreover obtain e where e: "endpoint_usb Receiver 0x1d57 0xfa60 None (rstr ''/dev/hidraw3'') None = Inr e"
    by (auto simp: endpoint_usb_eq_Inr blank_iff rstr_def is_whitespace_def)
  ultimately show ?thesis
    using upsert_keeps_identity_valid [of ?i Receiver "0x1d57" "0xfa60" None "rstr ''/dev/hidraw3''" None e "[]"]
    by blast
qed

text \<open>The rebind candidates of the legacy mode are, in strictly ascending locator order, exactly one
  endpoint per locator among the connected discoveries of the same transport and model: the one
  discovered first.\<close>

theorem legacy_rebind_exact:
  "sorted_wrt (<) (map ep_locator (legacy_rebind_candidates discovered transport stored))
   \<and> (e \<in> set (legacy_rebind_candidates discovered transport stored) \<longleftrightarrow>
        (\<exists>d. find (\<lambda>d. rebind_match transport stored d \<and> ep_locator (disc_endpoint d) = ep_locator e) discovered
            = Some d \<and> disc_endpoint d = e))"
proof -
  let ?cs = "map disc_endpoint (filter (rebind_match transport stored) discovered)"
  have "find (\<lambda>x. ep_locator x = ep_locator e) ?cs = map_option disc_endpoint
      (find (\<lambda>d. rebind_match transport stored d \<and> ep_locator (disc_endpoint d) = ep_locator e) discovered)"
    by (induction discovered) auto
  then show ?thesis
    by (simp add: legacy_rebind_candidates_def Let_def dedup_strict dedup_find find_sort_key)
qed

end
