(* ===== verification/X3_State_File.thy ===== *)
theory X3_State_File
  imports X3_Evidence X3_Device
begin

text \<open>
  The manager's durable document (second part of \<^verbatim>\<open>state/model.rs\<close>): devices, the
  physical-identity mode, the journal of an identity ceremony, the endpoint mapping, the allocation
  of device numbers and the validation every load and store runs. \<^verbatim>\<open>InvalidState\<close> carries a
  message in the code; the model has one constructor per message, with the values it interpolates.
\<close>

section \<open>Data\<close>

definition SCHEMA_VERSION :: u32 where "SCHEMA_VERSION = 5"
definition MAX_PROFILE_NAME_CHARS :: usize where "MAX_PROFILE_NAME_CHARS = 64"

record device_state =
  ds_identity :: device_identity
  ds_profile_metadata :: "profile_metadata resource_state"
  ds_profiles :: "(profile_id, profile_state) btree"
  ds_profile_names :: "(profile_id, rstring) btree"

definition device_state_new :: "device_identity \<Rightarrow> device_state" where
  "device_state_new i = \<lparr>ds_identity = i, ds_profile_metadata = resource_empty, ds_profiles = [],
     ds_profile_names = []\<rparr>"

definition device_invalidate_persistence :: "device_state \<Rightarrow> device_state" where
  "device_invalidate_persistence d =
     (let d = d\<lparr>ds_profile_metadata := invalidate_persistence (ds_profile_metadata d)\<rparr>
      in d\<lparr>ds_profiles := bt_map_values profile_invalidate_persistence (ds_profiles d)\<rparr>)"

datatype identity_mode = LegacyMode | PersistentMode

definition is_legacy :: "identity_mode \<Rightarrow> bool" where
  "is_legacy m = (case m of LegacyMode \<Rightarrow> True | PersistentMode \<Rightarrow> False)"

datatype identity_setup_phase = InitialEnrollment | AddMouse | Restore | ForeignAdoption | BleAssociation

datatype identity_setup_stage = AwaitingCapture | Stamping | Finalizing

datatype identity_stamp_progress = StampPending | StampCaptured | StampStamped

record captured_profile_image =
  cap_profile_metadata :: "profile_metadata resource_state"
  cap_profiles :: "(profile_id, profile_state) btree"

record identity_setup_subject =
  sub_endpoint :: device_endpoint
  sub_device_id :: "device_id option"
  sub_token :: "physical_id option"
  sub_old_token :: "physical_id option"
  sub_captured :: "captured_profile_image option"
  sub_stamp_progress :: "(profile_id, identity_stamp_progress) btree"

definition is_fully_stamped :: "identity_setup_subject \<Rightarrow> bool" where
  "is_fully_stamped s =
     (case sub_captured s of
        None \<Rightarrow> False
      | Some captured \<Rightarrow>
          length (sub_stamp_progress s) = length (cap_profiles captured)
          \<and> list_all (\<lambda>profile. bt_contains (cap_profiles captured) profile) (map fst (sub_stamp_progress s))
          \<and> list_all (\<lambda>progress. progress = StampStamped) (map snd (sub_stamp_progress s)))"

record identity_setup_journal =
  jr_phase :: identity_setup_phase
  jr_stage :: identity_setup_stage
  jr_subjects :: "identity_setup_subject list"

record endpoint_mapping =
  em_endpoints :: "(rstring, device_id) btree"
  em_last_seen :: "(rstring, int) btree"

record state_file =
  sf_schema_version :: u32
  sf_next_device_number :: u64
  sf_selected_device :: "device_id option"
  sf_devices :: "(device_id, device_state) btree"
  sf_identity_mode :: identity_mode
  sf_identity_setup :: "identity_setup_journal option"
  sf_endpoint_mapping :: endpoint_mapping

definition state_file_default :: state_file where
  "state_file_default = \<lparr>sf_schema_version = SCHEMA_VERSION, sf_next_device_number = 1,
     sf_selected_device = None, sf_devices = [], sf_identity_mode = LegacyMode, sf_identity_setup = None,
     sf_endpoint_mapping = \<lparr>em_endpoints = [], em_last_seen = []\<rparr>\<rparr>"

section \<open>Errors\<close>

datatype evidence_context =
    MetadataOfDevice device_id
  | ResourceOfProfile profile_id
  | MetadataOfSubject device_locator
  | ResourceOfSubject device_locator profile_id

datatype setup_fault =
    EnrollmentNeedsLegacy | CeremonyNeedsPersistent
  | EnrollmentTooManyMice | CeremonyTooManyMice
  | AwaitingWithTwoSubjects | AwaitingUnfinishedFirst | AwaitingWithSubject
  | BleNeverStamps | StampingWithoutSubject | StampingWithoutCapture | StampingWithoutProfiles
  | StampingAlreadyComplete
  | FinalizingWithoutSubjects | FinalizingNeedsBothMice | FinalizingNeedsOneSubject
  | FinalizingWithoutToken | FinalizingNotStamped
  | StampsWithoutCapture | StampsOtherProfiles | SubjectUnknownDevice device_id | StampedWithoutToken
  | TokenReservedTwice | TokenAlreadyAssigned physical_id device_id
  | RotatesReservedToken | RotationUnbound | RotationUnknownDevice device_id
  | RotationWithoutPhysicalId device_id | RotationOtherPhysicalId device_id | RotationSameToken
  | BleWithTokens | BleWithStamps | BleWithCapture | BleWrongTransport | BleEndpointOwned device_id
  | RestoreWithoutOldToken | OldTokenOutsideRestore

datatype state_fault =
    OfDevice device_fault
  | OfEvidence evidence_context evidence_fault
  | OfSetup setup_fault
  | NextNumberZero
  | NextNumberTooSmall u64 u64
  | NextNumberOverflow
  | SelectedDeviceUnknown device_id
  | IdentityUnderOtherKey device_id device_id
  | ProfileNameBlank profile_id device_id
  | ProfileNameTooLong profile_id device_id
  | MappingBlankFingerprint
  | MappingUnknownDevice rstring device_id
  | LastSeenUnmapped rstring
  | LegacyTooManyDevices nat
  | LegacyWithPhysicalId device_id
  | PersistentWithoutPhysicalId device_id
  | PhysicalIdDuplicate physical_id device_id
  | MemoryWithoutFile
  | RefusedDiscard path

datatype state_error =
    StatePathUnavailable
  | StateIo path io_kind
  | StateJson rstring
  | LockBusy path
  | UnsupportedSchema u32 u32
  | InvalidState state_fault

type_synonym 'a state_result = "(state_error, 'a) result"

section \<open>Allocation\<close>

text \<open>\<^verbatim>\<open>loop\<close> in \<^verbatim>\<open>allocate_device_id\<close>: every turn raises the counter, so it
  ends at the latest when the counter would overflow. The counter keeps its value on an error.\<close>

function allocate_device_id :: "state_file \<Rightarrow> device_id state_result \<times> state_file" where
  "allocate_device_id sf =
     (case device_from_number (sf_next_device_number sf) of
        Inl e \<Rightarrow> (Inl (InvalidState (OfDevice e)), sf)
      | Inr candidate \<Rightarrow>
          if sf_next_device_number sf = - 1 then (Inl (InvalidState NextNumberOverflow), sf)
          else let sf = sf\<lparr>sf_next_device_number := sf_next_device_number sf + 1\<rparr>
               in if \<not> bt_contains (sf_devices sf) candidate then (Inr candidate, sf)
                  else allocate_device_id sf)"
  by pat_completeness auto

lemma unat_u64_plus_1: "(n :: u64) \<noteq> - 1 \<Longrightarrow> unat (n + 1) = unat n + 1"
  by (metis Suc_eq_plus1 add.commute eq_neg_iff_add_eq_0 unatSuc)

lemma unat_u64_less: "unat (n :: u64) < 2 ^ 64"
  using unsigned_less [of n, where ?'a = nat] by simp

termination allocate_device_id
proof (relation "measure (\<lambda>sf. 2 ^ 64 - unat (sf_next_device_number sf))")
  fix sf candidate and sf' :: state_file
  assume "sf_next_device_number sf \<noteq> - 1"
    and "sf' = sf\<lparr>sf_next_device_number := sf_next_device_number sf + 1\<rparr>"
  then show "(sf', sf) \<in> measure (\<lambda>sf. 2 ^ 64 - unat (sf_next_device_number sf))"
    using unat_u64_less [of "sf_next_device_number sf"] by (simp add: unat_u64_plus_1)
qed simp

declare allocate_device_id.simps [simp del]

section \<open>Validation\<close>

definition validate_device_entry :: "device_id \<times> device_state \<Rightarrow> unit state_result" where
  "validate_device_entry = (\<lambda>(d, device).
     if id_device (ds_identity device) \<noteq> d
     then Inl (InvalidState (IdentityUnderOtherKey (id_device (ds_identity device)) d))
     else tryq (map_err (\<lambda>e. InvalidState (OfDevice e)) (identity_validate (ds_identity device))) (\<lambda>_.
     tryq (map_err (\<lambda>e. InvalidState (OfEvidence (MetadataOfDevice d) e))
             (validate_resource_state (ds_profile_metadata device))) (\<lambda>_.
     tryq (check_all (\<lambda>(profile, p). map_err (\<lambda>e. InvalidState (OfEvidence (ResourceOfProfile profile) e))
             (validate_profile_state profile p)) (ds_profiles device)) (\<lambda>_.
     check_all (\<lambda>(profile, n).
         if blank n then Inl (InvalidState (ProfileNameBlank profile d))
         else if length n > MAX_PROFILE_NAME_CHARS then Inl (InvalidState (ProfileNameTooLong profile d))
         else Inr ()) (ds_profile_names device)))))"

fun check_physical_ids :: "physical_id list \<Rightarrow> (device_id, device_state) btree \<Rightarrow> unit state_result" where
  "check_physical_ids seen [] = Inr ()"
| "check_physical_ids seen ((d, device) # devices) =
     (case id_physical_id (ds_identity device) of
        None \<Rightarrow> Inl (InvalidState (PersistentWithoutPhysicalId d))
      | Some i \<Rightarrow>
          if i \<in> set seen then Inl (InvalidState (PhysicalIdDuplicate i d))
          else check_physical_ids (seen @ [i]) devices)"

definition validate_identity_mode :: "state_file \<Rightarrow> unit state_result" where
  "validate_identity_mode sf =
     (case sf_identity_mode sf of
        LegacyMode \<Rightarrow>
          if length (sf_devices sf) > 1 then Inl (InvalidState (LegacyTooManyDevices (length (sf_devices sf))))
          else check_all (\<lambda>(d, device).
                 if id_physical_id (ds_identity device) \<noteq> None
                 then Inl (InvalidState (LegacyWithPhysicalId d)) else Inr ()) (sf_devices sf)
      | PersistentMode \<Rightarrow> check_physical_ids [] (sf_devices sf))"

definition validate_captured_profile_image ::
  "device_locator \<Rightarrow> captured_profile_image \<Rightarrow> unit state_result" where
  "validate_captured_profile_image subject captured =
     tryq (map_err (\<lambda>e. InvalidState (OfEvidence (MetadataOfSubject subject) e))
             (validate_resource_state (cap_profile_metadata captured))) (\<lambda>_.
     check_all (\<lambda>(profile, p). map_err (\<lambda>e. InvalidState (OfEvidence (ResourceOfSubject subject profile) e))
       (validate_profile_state profile p)) (cap_profiles captured))"

definition setup_err :: "setup_fault \<Rightarrow> unit state_result" where
  "setup_err f = Inl (InvalidState (OfSetup f))"

definition setup_check_mode :: "state_file \<Rightarrow> identity_setup_journal \<Rightarrow> unit state_result" where
  "setup_check_mode sf journal =
     (case jr_phase journal of
        InitialEnrollment \<Rightarrow>
          if sf_identity_mode sf \<noteq> LegacyMode then setup_err EnrollmentNeedsLegacy else Inr ()
      | _ \<Rightarrow> if sf_identity_mode sf \<noteq> PersistentMode then setup_err CeremonyNeedsPersistent else Inr ())"

definition setup_check_counts :: "identity_setup_journal \<Rightarrow> unit state_result" where
  "setup_check_counts journal =
     (case jr_phase journal of
        InitialEnrollment \<Rightarrow>
          if length (jr_subjects journal) > 2 then setup_err EnrollmentTooManyMice else Inr ()
      | _ \<Rightarrow> if length (jr_subjects journal) > 1 then setup_err CeremonyTooManyMice else Inr ())"

definition setup_check_awaiting :: "identity_setup_journal \<Rightarrow> unit state_result" where
  "setup_check_awaiting journal =
     (case jr_phase journal of
        InitialEnrollment \<Rightarrow>
          if length (jr_subjects journal) > 1 then setup_err AwaitingWithTwoSubjects
          else (case jr_subjects journal of
                  [] \<Rightarrow> Inr ()
                | subject # _ \<Rightarrow>
                    if sub_token subject = None \<or> \<not> is_fully_stamped subject
                    then setup_err AwaitingUnfinishedFirst else Inr ())
      | _ \<Rightarrow> if jr_subjects journal \<noteq> [] then setup_err AwaitingWithSubject else Inr ())"

definition setup_check_stamping :: "identity_setup_journal \<Rightarrow> unit state_result" where
  "setup_check_stamping journal =
     (if jr_phase journal = BleAssociation then setup_err BleNeverStamps
      else if jr_subjects journal = [] then setup_err StampingWithoutSubject
      else let subject = last (jr_subjects journal)
           in case sub_captured subject of
                None \<Rightarrow> setup_err StampingWithoutCapture
              | Some captured \<Rightarrow>
                  if cap_profiles captured = [] then setup_err StampingWithoutProfiles
                  else if is_fully_stamped subject then setup_err StampingAlreadyComplete
                  else Inr ())"

definition setup_check_finalizing :: "identity_setup_journal \<Rightarrow> unit state_result" where
  "setup_check_finalizing journal =
     (if jr_subjects journal = [] then setup_err FinalizingWithoutSubjects
      else tryq (case jr_phase journal of
                   InitialEnrollment \<Rightarrow>
                     if length (jr_subjects journal) \<noteq> 2 then setup_err FinalizingNeedsBothMice else Inr ()
                 | _ \<Rightarrow> if length (jr_subjects journal) \<noteq> 1 then setup_err FinalizingNeedsOneSubject else Inr ()) (\<lambda>_.
      if jr_phase journal \<noteq> BleAssociation
      then check_all (\<lambda>subject.
             if sub_token subject = None then setup_err FinalizingWithoutToken
             else if \<not> is_fully_stamped subject then setup_err FinalizingNotStamped
             else Inr ()) (jr_subjects journal)
      else Inr ()))"

definition setup_check_stage :: "identity_setup_journal \<Rightarrow> unit state_result" where
  "setup_check_stage journal =
     (case jr_stage journal of
        AwaitingCapture \<Rightarrow> setup_check_awaiting journal
      | Stamping \<Rightarrow> setup_check_stamping journal
      | Finalizing \<Rightarrow> setup_check_finalizing journal)"

definition setup_check_progress :: "state_file \<Rightarrow> identity_setup_subject \<Rightarrow> unit state_result" where
  "setup_check_progress sf subject =
     tryq (case sub_captured subject of
             Some captured \<Rightarrow> validate_captured_profile_image (ep_locator (sub_endpoint subject)) captured
           | None \<Rightarrow> Inr ()) (\<lambda>_.
     if sub_stamp_progress subject \<noteq> [] \<and> sub_captured subject = None then setup_err StampsWithoutCapture
     else if (case sub_captured subject of
                None \<Rightarrow> False
              | Some captured \<Rightarrow>
                  sub_stamp_progress subject \<noteq> []
                  \<and> (length (sub_stamp_progress subject) \<noteq> length (cap_profiles captured)
                     \<or> \<not> list_all (\<lambda>profile. bt_contains (cap_profiles captured) profile)
                          (map fst (sub_stamp_progress subject))))
     then setup_err StampsOtherProfiles
     else tryq (case sub_device_id subject of
                  Some d \<Rightarrow> if \<not> bt_contains (sf_devices sf) d then setup_err (SubjectUnknownDevice d) else Inr ()
                | None \<Rightarrow> Inr ()) (\<lambda>_.
     if list_ex (\<lambda>progress. progress = StampStamped) (map snd (sub_stamp_progress subject))
        \<and> sub_token subject = None
     then setup_err StampedWithoutToken
     else Inr ()))"

definition setup_check_token ::
  "state_file \<Rightarrow> physical_id list \<Rightarrow> identity_setup_subject \<Rightarrow> physical_id list state_result" where
  "setup_check_token sf reserved subject =
     (case sub_token subject of
        None \<Rightarrow> Inr reserved
      | Some token \<Rightarrow>
          if token \<in> set reserved then Inl (InvalidState (OfSetup TokenReservedTwice))
          else tryq (check_all (\<lambda>(d, device).
                   if id_physical_id (ds_identity device) = Some token
                   then setup_err (TokenAlreadyAssigned token d) else Inr ()) (sf_devices sf)) (\<lambda>_.
               Inr (reserved @ [token])))"

definition setup_check_rotation ::
  "state_file \<Rightarrow> physical_id list \<Rightarrow> identity_setup_subject \<Rightarrow> unit state_result" where
  "setup_check_rotation sf reserved subject =
     (case sub_old_token subject of
        None \<Rightarrow> Inr ()
      | Some old_token \<Rightarrow>
          if old_token \<in> set reserved then setup_err RotatesReservedToken
          else case sub_device_id subject of
                 None \<Rightarrow> setup_err RotationUnbound
               | Some d \<Rightarrow>
          (case bt_get (sf_devices sf) d of
             None \<Rightarrow> setup_err (RotationUnknownDevice d)
           | Some device \<Rightarrow>
          (case id_physical_id (ds_identity device) of
             None \<Rightarrow> setup_err (RotationWithoutPhysicalId d)
           | Some current \<Rightarrow>
               if current \<noteq> old_token then setup_err (RotationOtherPhysicalId d)
               else if sub_token subject = Some old_token then setup_err RotationSameToken
               else Inr ())))"

fun setup_check_subjects ::
  "state_file \<Rightarrow> physical_id list \<Rightarrow> identity_setup_subject list \<Rightarrow> unit state_result" where
  "setup_check_subjects sf reserved [] = Inr ()"
| "setup_check_subjects sf reserved (subject # subjects) =
     tryq (setup_check_progress sf subject) (\<lambda>_.
     tryq (setup_check_token sf reserved subject) (\<lambda>reserved.
     tryq (setup_check_rotation sf reserved subject) (\<lambda>_.
     setup_check_subjects sf reserved subjects)))"

definition setup_check_ble_subject :: "state_file \<Rightarrow> identity_setup_subject \<Rightarrow> unit state_result" where
  "setup_check_ble_subject sf subject =
     (if sub_token subject \<noteq> None \<or> sub_old_token subject \<noteq> None then setup_err BleWithTokens
      else if sub_stamp_progress subject \<noteq> [] then setup_err BleWithStamps
      else if sub_captured subject \<noteq> None then setup_err BleWithCapture
      else if ep_transport (sub_endpoint subject) \<noteq> Ble then setup_err BleWrongTransport
      else check_all (\<lambda>(d, device).
             if Some d = sub_device_id subject then Inr ()
             else if list_ex (\<lambda>e. ep_locator e = ep_locator (sub_endpoint subject))
                       (map snd (id_endpoints (ds_identity device)))
             then setup_err (BleEndpointOwned d) else Inr ()) (sf_devices sf))"

definition setup_check_phase :: "state_file \<Rightarrow> identity_setup_journal \<Rightarrow> unit state_result" where
  "setup_check_phase sf journal =
     (case jr_phase journal of
        BleAssociation \<Rightarrow> check_all (setup_check_ble_subject sf) (jr_subjects journal)
      | Restore \<Rightarrow>
          check_all (\<lambda>subject. if sub_old_token subject = None then setup_err RestoreWithoutOldToken else Inr ())
            (jr_subjects journal)
      | _ \<Rightarrow>
          check_all (\<lambda>subject. if sub_old_token subject \<noteq> None then setup_err OldTokenOutsideRestore else Inr ())
            (jr_subjects journal))"

definition validate_identity_setup :: "state_file \<Rightarrow> identity_setup_journal \<Rightarrow> unit state_result" where
  "validate_identity_setup sf journal =
     tryq (setup_check_mode sf journal) (\<lambda>_.
     tryq (setup_check_counts journal) (\<lambda>_.
     tryq (setup_check_stage journal) (\<lambda>_.
     tryq (setup_check_subjects sf [] (jr_subjects journal)) (\<lambda>_.
     setup_check_phase sf journal))))"

definition validate_endpoint_mapping :: "state_file \<Rightarrow> unit state_result" where
  "validate_endpoint_mapping sf =
     tryq (check_all (\<lambda>(fingerprint, d).
         if blank fingerprint then Inl (InvalidState MappingBlankFingerprint)
         else if \<not> bt_contains (sf_devices sf) d
         then Inl (InvalidState (MappingUnknownDevice fingerprint d))
         else Inr ()) (em_endpoints (sf_endpoint_mapping sf))) (\<lambda>_.
     check_all (\<lambda>fingerprint.
         if \<not> bt_contains (em_endpoints (sf_endpoint_mapping sf)) fingerprint
         then Inl (InvalidState (LastSeenUnmapped fingerprint)) else Inr ())
       (map fst (em_last_seen (sf_endpoint_mapping sf))))"

definition max_device_number :: "state_file \<Rightarrow> u64" where
  "max_device_number sf = fold max (List.map_filter device_number (map fst (sf_devices sf))) 0"

definition validate :: "state_file \<Rightarrow> unit state_result" where
  "validate sf =
     (if sf_schema_version sf \<noteq> SCHEMA_VERSION
      then Inl (UnsupportedSchema (sf_schema_version sf) SCHEMA_VERSION)
      else if sf_next_device_number sf = 0 then Inl (InvalidState NextNumberZero)
      else if max_device_number sf \<ge> sf_next_device_number sf
      then Inl (InvalidState (NextNumberTooSmall (sf_next_device_number sf) (max_device_number sf)))
      else tryq (case sf_selected_device sf of
                   Some d \<Rightarrow> if \<not> bt_contains (sf_devices sf) d
                             then Inl (InvalidState (SelectedDeviceUnknown d)) else Inr ()
                 | None \<Rightarrow> Inr ()) (\<lambda>_.
      tryq (check_all validate_device_entry (sf_devices sf)) (\<lambda>_.
      tryq (validate_identity_mode sf) (\<lambda>_.
      tryq (case sf_identity_setup sf of
              Some journal \<Rightarrow> validate_identity_setup sf journal
            | None \<Rightarrow> Inr ()) (\<lambda>_.
      validate_endpoint_mapping sf)))))"

end
