(* ===== verification/X3_State_Facts.thy ===== *)
theory X3_State_Facts
  imports X3_State_File
begin

text \<open>
  What the validation of the manager's document accepts, stated over the document instead of over the
  order of the checks, and the guarantees that follow: identities are unique, tokens of a ceremony are
  reserved, allocation is fresh and keeps a validated document valid.
\<close>

section \<open>Well-formed documents\<close>

text \<open>The maps are ordered maps and the keys are device keys: what the types of the code guarantee.\<close>

definition wf_device_state :: "device_state \<Rightarrow> bool" where
  "wf_device_state dev \<longleftrightarrow>
     bt_ok (id_endpoints (ds_identity dev)) \<and> bt_ok (ds_profiles dev) \<and> bt_ok (ds_profile_names dev)"

definition wf_state_file :: "state_file \<Rightarrow> bool" where
  "wf_state_file sf \<longleftrightarrow>
     bt_ok (sf_devices sf) \<and> (\<forall>(d, dev) \<in> set (sf_devices sf). wf_device_id d \<and> wf_device_state dev)
     \<and> bt_ok (em_endpoints (sf_endpoint_mapping sf)) \<and> bt_ok (em_last_seen (sf_endpoint_mapping sf))"

definition logical_key :: "u64 \<Rightarrow> device_id" where
  "logical_key n = DeviceId (mouse_prefix @ show_u64 n)"

lemma device_from_number_key: "n \<noteq> 0 \<Longrightarrow> device_from_number n = Inr (logical_key n)"
  by (simp add: device_from_number_eq logical_key_def)

lemma device_number_key: "n \<noteq> 0 \<Longrightarrow> device_number (logical_key n) = Some n"
  by (simp add: device_number_eq_Some device_from_number_key)

lemma wf_logical_key: "n \<noteq> 0 \<Longrightarrow> wf_device_id (logical_key n)"
  by (auto simp: logical_key_def wf_device_id_iff)

section \<open>Allocation\<close>

definition all_taken :: "state_file \<Rightarrow> u64 \<Rightarrow> u64 \<Rightarrow> bool" where
  "all_taken sf a b \<longleftrightarrow> (\<forall>m. a \<le> m \<and> m < b \<longrightarrow> bt_contains (sf_devices sf) (logical_key m))"

definition allocation_outcome :: "state_file \<Rightarrow> device_id state_result \<times> state_file \<Rightarrow> bool" where
  "allocation_outcome sf out =
     (case out of
        (Inr d, sf') \<Rightarrow>
          \<exists>n. sf_next_device_number sf \<le> n \<and> n \<noteq> 0 \<and> n \<noteq> - 1 \<and> d = logical_key n
            \<and> \<not> bt_contains (sf_devices sf) d \<and> all_taken sf (sf_next_device_number sf) n
            \<and> sf' = sf\<lparr>sf_next_device_number := n + 1\<rparr>
      | (Inl e, sf') \<Rightarrow>
          if sf_next_device_number sf = 0
          then e = InvalidState (OfDevice DeviceNumberZero) \<and> sf' = sf
          else e = InvalidState NextNumberOverflow \<and> all_taken sf (sf_next_device_number sf) (- 1)
            \<and> sf' = sf\<lparr>sf_next_device_number := - 1\<rparr>)"

lemma all_taken_step:
  assumes "(a :: u64) \<noteq> - 1" and "bt_contains (sf_devices sf) (logical_key a)" and "all_taken sf (a + 1) b"
  shows "all_taken sf a b"
  unfolding all_taken_def
proof (intro allI impI)
  fix m
  assume m: "a \<le> m \<and> m < b"
  have "unat (a + 1) = unat a + 1" by (rule unat_u64_plus_1 [OF assms(1)])
  then have "m = a \<or> a + 1 \<le> m"
    using m by (auto simp: word_le_nat_alt word_unat_eq_iff)
  then show "bt_contains (sf_devices sf) (logical_key m)"
    using assms(2,3) m by (auto simp: all_taken_def)
qed

lemma all_taken_update [simp]: "all_taken (sf\<lparr>sf_next_device_number := n\<rparr>) = all_taken sf"
  by (simp add: all_taken_def fun_eq_iff)

lemma allocate_outcome: "allocation_outcome sf (allocate_device_id sf)"
proof (induction sf rule: allocate_device_id.induct)
  case (1 sf)
  let ?n = "sf_next_device_number sf"
  let ?sf = "sf\<lparr>sf_next_device_number := ?n + 1\<rparr>"
  show ?case
  proof (cases "?n = 0 \<or> ?n = - 1")
    case True
    then show ?thesis
      by (subst allocate_device_id.simps)
        (auto simp: allocation_outcome_def device_from_number_eq all_taken_def)
  next
    case False
    then have cand: "device_from_number ?n = Inr (logical_key ?n)" by (simp add: device_from_number_key)
    have up: "unat (?n + 1) = unat ?n + 1" using False by (simp add: unat_u64_plus_1)
    show ?thesis
    proof (cases "bt_contains (sf_devices sf) (logical_key ?n)")
      case False': False
      then show ?thesis
        using False cand
        by (subst allocate_device_id.simps) (auto simp: allocation_outcome_def all_taken_def intro!: exI [of _ ?n])
    next
      case True
      have "allocation_outcome ?sf (allocate_device_id ?sf)"
        using "1.IH" [OF cand _ refl] False True by simp
      moreover have "allocate_device_id sf = allocate_device_id ?sf"
        using False cand True by (subst allocate_device_id.simps) simp
      moreover have "?n + 1 \<noteq> 0" using up by (metis unat_0 add_is_0 one_neq_zero)
      moreover have "?n \<le> m" if "?n + 1 \<le> m" for m
        using that up by (simp add: word_le_nat_alt)
      ultimately show ?thesis
        using False all_taken_step [of ?n sf] True
        by (auto simp: allocation_outcome_def split: prod.splits sum.splits)
    qed
  qed
qed

section \<open>Devices\<close>

lemma fold_max_less: "fold max xs (a :: u64) < b \<longleftrightarrow> a < b \<and> (\<forall>x \<in> set xs. x < b)"
  by (induction xs arbitrary: a) auto

lemma max_device_number_less:
  "0 < b \<Longrightarrow> max_device_number sf < b \<longleftrightarrow>
     (\<forall>d \<in> fst ` set (sf_devices sf). \<forall>n. device_number d = Some n \<longrightarrow> n < b)"
  by (force simp: max_device_number_def fold_max_less List.map_filter_def)

text \<open>A device entry: stored under its own key, with valid endpoints, truthful evidence, images of the
  profile they are stored under, and names of one to 64 characters that are not blank.\<close>

definition valid_device :: "device_id \<Rightarrow> device_state \<Rightarrow> bool" where
  "valid_device d dev \<longleftrightarrow>
     id_device (ds_identity dev) = d
     \<and> identity_validate (ds_identity dev) = Inr ()
     \<and> validate_resource_state (ds_profile_metadata dev) = Inr ()
     \<and> (\<forall>(profile, p) \<in> set (ds_profiles dev). validate_profile_state profile p = Inr ())
     \<and> (\<forall>(profile, n) \<in> set (ds_profile_names dev). \<not> blank n \<and> length n \<le> 64)"

lemma validate_device_entry_exact: "validate_device_entry (d, dev) = Inr u \<longleftrightarrow> valid_device d dev"
  by (cases u)
    (auto simp: validate_device_entry_def valid_device_def MAX_PROFILE_NAME_CHARS_def not_less
      split: prod.splits)

section \<open>The identity mode\<close>

definition physical_of :: "device_id \<times> device_state \<Rightarrow> physical_id option" where
  "physical_of e = id_physical_id (ds_identity (snd e))"

lemma physical_of_pair [simp]: "physical_of (d, dev) = id_physical_id (ds_identity dev)"
  by (simp add: physical_of_def)

lemma not_committed_iff:
  "Some t \<notin> physical_of ` set m \<longleftrightarrow> (\<forall>(d, dev) \<in> set m. id_physical_id (ds_identity dev) \<noteq> Some t)"
  by (force simp: physical_of_def)

lemma check_physical_ids_exact:
  "check_physical_ids seen m = Inr u \<longleftrightarrow>
     (\<forall>e \<in> set m. physical_of e \<noteq> None) \<and> distinct (map physical_of m)
     \<and> (\<forall>i \<in> set seen. Some i \<notin> physical_of ` set m)"
proof (induction seen m rule: check_physical_ids.induct)
  case (2 seen d dev m)
  then show ?case by (cases "id_physical_id (ds_identity dev)") auto
qed (cases u, simp)

definition valid_mode :: "state_file \<Rightarrow> bool" where
  "valid_mode sf \<longleftrightarrow>
     (case sf_identity_mode sf of
        LegacyMode \<Rightarrow> length (sf_devices sf) \<le> 1 \<and> (\<forall>e \<in> set (sf_devices sf). physical_of e = None)
      | PersistentMode \<Rightarrow>
          (\<forall>e \<in> set (sf_devices sf). physical_of e \<noteq> None) \<and> distinct (map physical_of (sf_devices sf)))"

lemma validate_identity_mode_exact: "validate_identity_mode sf = Inr u \<longleftrightarrow> valid_mode sf"
  by (cases u)
    (auto simp: validate_identity_mode_def valid_mode_def check_physical_ids_exact physical_of_def not_less
      split: identity_mode.split prod.splits)

section \<open>The endpoint mapping\<close>

definition valid_mapping :: "state_file \<Rightarrow> bool" where
  "valid_mapping sf \<longleftrightarrow>
     (\<forall>(fp, d) \<in> set (em_endpoints (sf_endpoint_mapping sf)). \<not> blank fp \<and> bt_contains (sf_devices sf) d)
     \<and> fst ` set (em_last_seen (sf_endpoint_mapping sf)) \<subseteq> fst ` set (em_endpoints (sf_endpoint_mapping sf))"

lemma validate_endpoint_mapping_exact: "validate_endpoint_mapping sf = Inr u \<longleftrightarrow> valid_mapping sf"
  by (cases u)
    (auto simp: validate_endpoint_mapping_def valid_mapping_def bt_contains_iff split: prod.splits if_splits)

section \<open>The ceremony journal\<close>

definition valid_image :: "captured_profile_image \<Rightarrow> bool" where
  "valid_image c \<longleftrightarrow>
     validate_resource_state (cap_profile_metadata c) = Inr ()
     \<and> (\<forall>(profile, p) \<in> set (cap_profiles c). validate_profile_state profile p = Inr ())"

lemma validate_captured_exact: "validate_captured_profile_image loc c = Inr u \<longleftrightarrow> valid_image c"
  by (cases u) (auto simp: validate_captured_profile_image_def valid_image_def split: prod.splits)

text \<open>Progress is tracked for exactly the captured profiles.\<close>

definition tracks :: "identity_setup_subject \<Rightarrow> captured_profile_image \<Rightarrow> bool" where
  "tracks s c \<longleftrightarrow> length (sub_stamp_progress s) = length (cap_profiles c)
     \<and> fst ` set (sub_stamp_progress s) \<subseteq> fst ` set (cap_profiles c)"

lemma is_fully_stamped_iff:
  "is_fully_stamped s \<longleftrightarrow>
     (\<exists>c. sub_captured s = Some c \<and> tracks s c \<and> snd ` set (sub_stamp_progress s) \<subseteq> {StampStamped})"
  by (auto simp: is_fully_stamped_def tracks_def list_all_iff bt_contains_iff split: option.split)

definition valid_progress :: "state_file \<Rightarrow> identity_setup_subject \<Rightarrow> bool" where
  "valid_progress sf s \<longleftrightarrow>
     (\<forall>c. sub_captured s = Some c \<longrightarrow> valid_image c)
     \<and> (sub_stamp_progress s = [] \<or> (\<exists>c. sub_captured s = Some c \<and> tracks s c))
     \<and> (\<forall>d. sub_device_id s = Some d \<longrightarrow> bt_contains (sf_devices sf) d)
     \<and> (StampStamped \<in> snd ` set (sub_stamp_progress s) \<longrightarrow> sub_token s \<noteq> None)"

lemma setup_check_progress_exact: "setup_check_progress sf s = Inr u \<longleftrightarrow> valid_progress sf s"
  by (cases u; cases "sub_captured s"; cases "sub_device_id s")
    (auto simp: setup_check_progress_def valid_progress_def setup_err_def validate_captured_exact tracks_def
      list_ex_iff list_all_iff bt_contains_iff)

lemma setup_check_token_exact:
  "setup_check_token sf reserved s = Inr r \<longleftrightarrow>
     (case sub_token s of
        None \<Rightarrow> r = reserved
      | Some t \<Rightarrow> r = reserved @ [t] \<and> t \<notin> set reserved \<and> Some t \<notin> physical_of ` set (sf_devices sf))"
  by (auto simp: setup_check_token_def setup_err_def not_committed_iff split: option.split prod.splits if_splits)

definition valid_rotation :: "state_file \<Rightarrow> identity_setup_subject \<Rightarrow> bool" where
  "valid_rotation sf s \<longleftrightarrow>
     (\<forall>old. sub_old_token s = Some old \<longrightarrow>
        (\<exists>d dev. sub_device_id s = Some d \<and> bt_get (sf_devices sf) d = Some dev
           \<and> id_physical_id (ds_identity dev) = Some old \<and> sub_token s \<noteq> Some old))"

lemma setup_check_rotation_exact:
  "setup_check_rotation sf reserved s = Inr u \<longleftrightarrow>
     valid_rotation sf s \<and> (\<forall>old. sub_old_token s = Some old \<longrightarrow> old \<notin> set reserved)"
  by (cases u) (auto simp: setup_check_rotation_def valid_rotation_def setup_err_def split: option.split)

text \<open>The tokens a ceremony reserves.\<close>

definition tokens_of :: "identity_setup_subject list \<Rightarrow> physical_id list" where
  "tokens_of ss = List.map_filter sub_token ss"

lemma tokens_of_simps [simp]:
  "tokens_of [] = []"
  "tokens_of (s # ss) = (case sub_token s of None \<Rightarrow> tokens_of ss | Some t \<Rightarrow> t # tokens_of ss)"
  by (simp_all add: tokens_of_def map_filter_simps split: option.split)

definition uncommitted :: "state_file \<Rightarrow> physical_id list \<Rightarrow> bool" where
  "uncommitted sf ts \<longleftrightarrow> (\<forall>t \<in> set ts. Some t \<notin> physical_of ` set (sf_devices sf))"

lemma rotation_committed:
  "valid_rotation sf s \<Longrightarrow> sub_old_token s = Some old \<Longrightarrow> Some old \<in> physical_of ` set (sf_devices sf)"
  by (force simp: valid_rotation_def physical_of_def dest!: bt_get_in)

lemma setup_check_subjects_exact:
  assumes "uncommitted sf reserved" and "distinct reserved"
  shows "setup_check_subjects sf reserved ss = Inr u \<longleftrightarrow>
     (\<forall>s \<in> set ss. valid_progress sf s \<and> valid_rotation sf s)
     \<and> distinct (reserved @ tokens_of ss) \<and> uncommitted sf (tokens_of ss)"
  using assms
proof (induction ss arbitrary: reserved)
  case Nil
  then show ?case by (cases u) (simp add: uncommitted_def)
next
  case (Cons s ss)
  have rot: "setup_check_rotation sf r s = Inr () \<longleftrightarrow> valid_rotation sf s" if "uncommitted sf r" for r
    using that rotation_committed [of sf s] by (auto simp: setup_check_rotation_exact uncommitted_def)
  show ?case
  proof (cases "sub_token s")
    case None
    then show ?thesis
      using Cons.IH [OF Cons.prems] rot [OF Cons.prems(1)]
      by (auto simp: setup_check_progress_exact setup_check_token_exact)
  next
    case (Some t)
    show ?thesis
    proof (cases "t \<notin> set reserved \<and> Some t \<notin> physical_of ` set (sf_devices sf)")
      case True
      then have "uncommitted sf (reserved @ [t])" and "distinct (reserved @ [t])"
        using Cons.prems by (auto simp: uncommitted_def)
      from Cons.IH [OF this] rot [OF this(1)] True Some show ?thesis
        by (auto simp: setup_check_progress_exact setup_check_token_exact uncommitted_def)
    next
      case False
      with Some show ?thesis
        by (auto simp: setup_check_token_exact uncommitted_def)
    qed
  qed
qed

definition valid_stage :: "identity_setup_journal \<Rightarrow> bool" where
  "valid_stage j \<longleftrightarrow>
     (case jr_stage j of
        AwaitingCapture \<Rightarrow>
          (if jr_phase j = InitialEnrollment
           then length (jr_subjects j) \<le> 1 \<and> list_all (\<lambda>s. sub_token s \<noteq> None \<and> is_fully_stamped s) (jr_subjects j)
           else jr_subjects j = [])
      | Stamping \<Rightarrow>
          jr_phase j \<noteq> BleAssociation \<and> jr_subjects j \<noteq> [] \<and> \<not> is_fully_stamped (last (jr_subjects j))
          \<and> (\<exists>c. sub_captured (last (jr_subjects j)) = Some c \<and> cap_profiles c \<noteq> [])
      | Finalizing \<Rightarrow>
          length (jr_subjects j) = (if jr_phase j = InitialEnrollment then 2 else 1)
          \<and> (jr_phase j = BleAssociation
             \<or> list_all (\<lambda>s. sub_token s \<noteq> None \<and> is_fully_stamped s) (jr_subjects j)))"

lemma awaiting_subjects:
  "length ss \<le> 1 \<Longrightarrow> (case ss of [] \<Rightarrow> True | s # _ \<Rightarrow> P s) \<longleftrightarrow> list_all P ss"
  by (cases ss) auto

lemma setup_check_stage_exact: "setup_check_stage j = Inr u \<longleftrightarrow> valid_stage j"
proof (cases "jr_stage j")
  case AwaitingCapture
  then show ?thesis
    using awaiting_subjects [of "jr_subjects j" "\<lambda>s. sub_token s \<noteq> None \<and> is_fully_stamped s"]
    by (cases u; cases "jr_phase j")
      (auto simp: setup_check_stage_def setup_check_awaiting_def valid_stage_def setup_err_def
        split: list.splits)
next
  case Stamping
  then show ?thesis
    by (cases u) (auto simp: setup_check_stage_def setup_check_stamping_def valid_stage_def setup_err_def Let_def
        split: option.splits)
next
  case Finalizing
  then show ?thesis
    by (cases u; cases "jr_phase j")
      (auto simp: setup_check_stage_def setup_check_finalizing_def valid_stage_def setup_err_def list_all_iff
        split: if_splits)
qed

lemma setup_err_not_Inr [simp]: "setup_err f \<noteq> Inr u"
  by (simp add: setup_err_def)

definition valid_ble_subject :: "state_file \<Rightarrow> identity_setup_subject \<Rightarrow> bool" where
  "valid_ble_subject sf s \<longleftrightarrow>
     sub_token s = None \<and> sub_old_token s = None \<and> sub_stamp_progress s = [] \<and> sub_captured s = None
     \<and> ep_transport (sub_endpoint s) = Ble
     \<and> (\<forall>(d, dev) \<in> set (sf_devices sf). Some d = sub_device_id s
          \<or> ep_locator (sub_endpoint s) \<notin> ep_locator ` snd ` set (id_endpoints (ds_identity dev)))"

lemma setup_check_ble_subject_exact: "setup_check_ble_subject sf s = Inr u \<longleftrightarrow> valid_ble_subject sf s"
proof -
  have e: "(\<forall>x \<in> set m. (case x of (d, dev) \<Rightarrow> if Some d = o_d then Inr () else if P dev then setup_err (f d) else Inr ()) = Inr ())
      \<longleftrightarrow> (\<forall>(d, dev) \<in> set m. Some d = o_d \<or> \<not> P dev)" for m o_d P f
    by (auto simp: setup_err_def split: if_splits prod.splits)
  have l: "list_ex (\<lambda>e. ep_locator e = loc) (map snd m) \<longleftrightarrow> loc \<in> ep_locator ` snd ` set m"
    for loc and m :: "(transport_kind, device_endpoint) btree"
    by (force simp: list_ex_iff)
  show ?thesis
    by (cases u) (simp add: setup_check_ble_subject_def valid_ble_subject_def e l)
qed

lemma valid_ble_subject_no_rotation: "valid_ble_subject sf s \<Longrightarrow> sub_old_token s = None"
  by (simp add: valid_ble_subject_def)

definition valid_journal :: "state_file \<Rightarrow> identity_setup_journal \<Rightarrow> bool" where
  "valid_journal sf j \<longleftrightarrow>
     (jr_phase j = InitialEnrollment \<longleftrightarrow> sf_identity_mode sf = LegacyMode)
     \<and> length (jr_subjects j) \<le> (if jr_phase j = InitialEnrollment then 2 else 1)
     \<and> valid_stage j
     \<and> (\<forall>s \<in> set (jr_subjects j). valid_progress sf s \<and> valid_rotation sf s)
     \<and> distinct (tokens_of (jr_subjects j)) \<and> uncommitted sf (tokens_of (jr_subjects j))
     \<and> (\<forall>s \<in> set (jr_subjects j). sub_old_token s \<noteq> None \<longleftrightarrow> jr_phase j = Restore)
     \<and> (jr_phase j = BleAssociation \<longrightarrow> (\<forall>s \<in> set (jr_subjects j). valid_ble_subject sf s))"

lemma setup_check_phase_exact:
  "setup_check_phase sf j = Inr u \<longleftrightarrow>
     (\<forall>s \<in> set (jr_subjects j). sub_old_token s \<noteq> None \<longleftrightarrow> jr_phase j = Restore)
     \<and> (jr_phase j = BleAssociation \<longrightarrow> (\<forall>s \<in> set (jr_subjects j). valid_ble_subject sf s))"
  using valid_ble_subject_no_rotation [of sf]
  by (cases u; cases "jr_phase j")
    (auto simp: setup_check_phase_def setup_err_def setup_check_ble_subject_exact split: if_splits)

lemma validate_identity_setup_exact: "validate_identity_setup sf j = Inr u \<longleftrightarrow> valid_journal sf j"
proof -
  have m: "setup_check_mode sf j = Inr () \<longleftrightarrow>
      (jr_phase j = InitialEnrollment \<longleftrightarrow> sf_identity_mode sf = LegacyMode)"
    by (cases "jr_phase j"; cases "sf_identity_mode sf") (simp_all add: setup_check_mode_def setup_err_def)
  have c: "setup_check_counts j = Inr () \<longleftrightarrow>
      length (jr_subjects j) \<le> (if jr_phase j = InitialEnrollment then 2 else 1)"
    by (cases "jr_phase j") (auto simp: setup_check_counts_def setup_err_def)
  show ?thesis
    by (cases u)
      (simp add: validate_identity_setup_def valid_journal_def m c setup_check_stage_exact
        setup_check_subjects_exact uncommitted_def setup_check_phase_exact)
qed

section \<open>The document\<close>

definition valid_document :: "state_file \<Rightarrow> bool" where
  "valid_document sf \<longleftrightarrow>
     sf_schema_version sf = 5
     \<and> sf_next_device_number sf \<noteq> 0
     \<and> (\<forall>d \<in> fst ` set (sf_devices sf). \<forall>n. device_number d = Some n \<longrightarrow> n < sf_next_device_number sf)
     \<and> (\<forall>d. sf_selected_device sf = Some d \<longrightarrow> bt_contains (sf_devices sf) d)
     \<and> (\<forall>(d, dev) \<in> set (sf_devices sf). valid_device d dev)
     \<and> valid_mode sf
     \<and> (\<forall>j. sf_identity_setup sf = Some j \<longrightarrow> valid_journal sf j)
     \<and> valid_mapping sf"

lemma validate_eq_Inr: "validate sf = Inr u \<longleftrightarrow> valid_document sf"
proof -
  have n: "sf_next_device_number sf \<noteq> 0 \<Longrightarrow> sf_next_device_number sf \<le> max_device_number sf \<longleftrightarrow>
     \<not> (\<forall>d \<in> fst ` set (sf_devices sf). \<forall>n. device_number d = Some n \<longrightarrow> n < sf_next_device_number sf)"
    using max_device_number_less [of "sf_next_device_number sf" sf] by (auto simp: not_le word_gt_0)
  have e: "(\<forall>x \<in> set (sf_devices sf). validate_device_entry x = Inr ()) \<longleftrightarrow>
      (\<forall>(d, dev) \<in> set (sf_devices sf). valid_device d dev)"
    using validate_device_entry_exact by fastforce
  show ?thesis
    by (cases u; cases "sf_selected_device sf"; cases "sf_identity_setup sf")
      (simp_all add: validate_def valid_document_def SCHEMA_VERSION_def n e validate_identity_mode_exact
        validate_identity_setup_exact validate_endpoint_mapping_exact cong: conj_cong)
qed

section \<open>Which errors a check reports\<close>

definition fails_in :: "('e \<Rightarrow> bool) \<Rightarrow> ('e, 'a) result \<Rightarrow> bool" where
  "fails_in P r \<longleftrightarrow> (\<forall>e. r = Inl e \<longrightarrow> P e)"

lemma fails_in_basic [simp]: "fails_in P (Inr x)" "fails_in P (Inl e) = P e"
  by (simp_all add: fails_in_def)

lemma fails_in_setup_err [simp]: "fails_in P (setup_err f) = P (InvalidState (OfSetup f))"
  by (simp add: setup_err_def)

lemma fails_in_tryq: "fails_in P m \<Longrightarrow> (\<And>x. m = Inr x \<Longrightarrow> fails_in P (f x)) \<Longrightarrow> fails_in P (tryq m f)"
  by (cases m) auto

lemma fails_in_check_all: "(\<And>x. x \<in> set xs \<Longrightarrow> fails_in P (f x)) \<Longrightarrow> fails_in P (check_all f xs)"
  by (induction xs) (auto intro!: fails_in_tryq)

lemma fails_in_map_err: "(\<And>e. P (g e)) \<Longrightarrow> fails_in P (map_err g r)"
  by (cases r) auto

lemmas fails_intros = fails_in_tryq fails_in_check_all fails_in_map_err

text \<open>No check but the first reports the schema, and none reports \<open>RotationSameToken\<close>: the token of
  a subject has joined the reserved ones before its rotation is checked.\<close>

definition expected_fault :: "state_error \<Rightarrow> bool" where
  "expected_fault e \<longleftrightarrow> (\<exists>f. e = InvalidState f \<and> f \<noteq> OfSetup RotationSameToken)"

lemma expected_fault_simps [simp]:
  "expected_fault (InvalidState f) \<longleftrightarrow> f \<noteq> OfSetup RotationSameToken"
  "\<not> expected_fault (UnsupportedSchema a b)"
  "\<not> expected_fault (StateIo p k)" "\<not> expected_fault (LockBusy p)"
  by (simp_all add: expected_fault_def)

lemma device_entry_faults: "fails_in expected_fault (validate_device_entry e)"
  by (cases e) (auto simp: validate_device_entry_def intro!: fails_intros)

lemma mode_faults: "fails_in expected_fault (validate_identity_mode sf)"
proof -
  have "fails_in expected_fault (check_physical_ids seen m)" for seen m
    by (induction seen m rule: check_physical_ids.induct) (auto split: option.split)
  then show ?thesis
    by (auto simp: validate_identity_mode_def split: identity_mode.split intro!: fails_intros)
qed

lemma mapping_faults: "fails_in expected_fault (validate_endpoint_mapping sf)"
  by (auto simp: validate_endpoint_mapping_def intro!: fails_intros)

lemma progress_faults: "fails_in expected_fault (setup_check_progress sf s)"
  by (auto simp: setup_check_progress_def validate_captured_profile_image_def
      intro!: fails_intros split: option.split)

lemma token_faults: "fails_in expected_fault (setup_check_token sf reserved s)"
  by (auto simp: setup_check_token_def intro!: fails_intros split: option.split)

lemma rotation_faults:
  assumes "\<forall>t. sub_token s = Some t \<longrightarrow> t \<in> set reserved"
  shows "fails_in expected_fault (setup_check_rotation sf reserved s)"
  using assms by (auto simp: setup_check_rotation_def split: option.split)

lemma subjects_faults: "fails_in expected_fault (setup_check_subjects sf reserved ss)"
proof (induction ss arbitrary: reserved)
  case (Cons s ss)
  have "fails_in expected_fault (setup_check_rotation sf r s)" if "setup_check_token sf reserved s = Inr r" for r
    by (rule rotation_faults) (use that in \<open>auto simp: setup_check_token_exact split: option.splits\<close>)
  with Cons show ?case
    by (auto intro!: fails_in_tryq progress_faults token_faults)
qed simp

lemma phase_faults: "fails_in expected_fault (setup_check_phase sf j)"
proof -
  have "fails_in expected_fault (setup_check_ble_subject sf s)" for s
    by (auto simp: setup_check_ble_subject_def intro!: fails_intros)
  then show ?thesis
    by (auto simp: setup_check_phase_def split: identity_setup_phase.split intro!: fails_intros)
qed

lemma stage_faults: "fails_in expected_fault (setup_check_stage j)"
proof -
  have "fails_in expected_fault (setup_check_awaiting j)"
    by (cases "jr_phase j"; cases "jr_subjects j") (simp_all add: setup_check_awaiting_def)
  moreover have "fails_in expected_fault (setup_check_stamping j)"
    by (cases "sub_captured (last (jr_subjects j))") (simp_all add: setup_check_stamping_def)
  moreover have "fails_in expected_fault (check_all (\<lambda>s. if sub_token s = None then setup_err FinalizingWithoutToken
      else if \<not> is_fully_stamped s then setup_err FinalizingNotStamped else Inr ()) ss)" for ss
    by (rule fails_in_check_all) simp
  then have "fails_in expected_fault (setup_check_finalizing j)"
    by (cases "jr_phase j") (auto simp: setup_check_finalizing_def intro!: fails_in_tryq)
  ultimately show ?thesis
    by (cases "jr_stage j") (simp_all add: setup_check_stage_def)
qed

lemma setup_faults: "fails_in expected_fault (validate_identity_setup sf j)"
proof -
  have "fails_in expected_fault (setup_check_mode sf j)" and "fails_in expected_fault (setup_check_counts j)"
    by (simp_all add: setup_check_mode_def setup_check_counts_def split: identity_setup_phase.split)
  then show ?thesis
    by (auto simp: validate_identity_setup_def intro!: fails_in_tryq stage_faults subjects_faults phase_faults)
qed

lemma validate_faults:
  "sf_schema_version sf = SCHEMA_VERSION \<Longrightarrow> fails_in expected_fault (validate sf)"
  by (auto simp: validate_def intro!: fails_intros device_entry_faults mode_faults setup_faults mapping_faults
      split: option.split)

section \<open>Adding a device\<close>

lemma bt_insert_split:
  "\<not> bt_contains m k \<Longrightarrow> \<exists>xs ys. m = xs @ ys \<and> bt_insert k v m = xs @ (k, v) # ys"
proof (induction k v m rule: bt_insert.induct)
  case (2 k v k' v' m)
  show ?case
  proof (cases "k < k'")
    case True
    then show ?thesis by (intro exI [of _ "[]"] exI [of _ "(k', v') # m"]) simp
  next
    case False
    moreover have "k \<noteq> k'" and "\<not> bt_contains m k" using 2(2) by (auto simp: bt_contains_iff)
    ultimately obtain xs ys where "m = xs @ ys" "bt_insert k v m = xs @ (k, v) # ys"
      using 2(1) by blast
    with False \<open>k \<noteq> k'\<close> show ?thesis
      by (intro exI [of _ "(k', v') # xs"] exI [of _ ys]) simp
  qed
qed simp

lemma bt_contains_insert: "bt_contains (bt_insert k v m) k' \<longleftrightarrow> k' = k \<or> bt_contains m k'"
  by (simp add: bt_contains_def bt_get_insert)

lemma allocate_valid:
  assumes "valid_document sf" and "wf_state_file sf" and "sf_next_device_number sf \<noteq> - 1"
  shows "allocate_device_id sf = (Inr (logical_key (sf_next_device_number sf)),
      sf\<lparr>sf_next_device_number := sf_next_device_number sf + 1\<rparr>)"
    and "\<not> bt_contains (sf_devices sf) (logical_key (sf_next_device_number sf))"
proof -
  let ?n = "sf_next_device_number sf"
  have nz: "?n \<noteq> 0" using assms(1) by (simp add: valid_document_def)
  show fresh: "\<not> bt_contains (sf_devices sf) (logical_key ?n)"
    using assms(1) device_number_key [OF nz] by (auto simp: valid_document_def bt_contains_iff)
  show "allocate_device_id sf = (Inr (logical_key ?n), sf\<lparr>sf_next_device_number := ?n + 1\<rparr>)"
    using fresh nz assms(3) by (subst allocate_device_id.simps) (simp add: device_from_number_key)
qed

text \<open>What the identity mode demands of the physical identity of a new device.\<close>

definition physical_id_admitted :: "state_file \<Rightarrow> physical_id option \<Rightarrow> bool" where
  "physical_id_admitted sf i \<longleftrightarrow>
     (case sf_identity_mode sf of
        LegacyMode \<Rightarrow> sf_devices sf = [] \<and> i = None
      | PersistentMode \<Rightarrow> i \<noteq> None \<and> i \<notin> physical_of ` set (sf_devices sf))"

lemma valid_mode_add:
  assumes "valid_mode sf" and "\<not> bt_contains (sf_devices sf) d" and "physical_id_admitted sf i"
    and "id_physical_id (ds_identity dev) = i"
  shows "valid_mode (sf\<lparr>sf_next_device_number := n, sf_devices := bt_insert d dev (sf_devices sf)\<rparr>)"
proof -
  obtain xs ys where "sf_devices sf = xs @ ys" "bt_insert d dev (sf_devices sf) = xs @ (d, dev) # ys"
    using bt_insert_split [OF assms(2)] by blast
  then show ?thesis
    using assms by (auto simp: valid_mode_def physical_id_admitted_def split: identity_mode.splits)
qed

lemma add_device_valid:
  assumes "valid_document sf" and "wf_state_file sf" and "sf_next_device_number sf \<noteq> - 1"
    and "sf_identity_setup sf = None" and "physical_id_admitted sf i"
    and "d = logical_key (sf_next_device_number sf)" and "valid_device d dev"
    and "id_physical_id (ds_identity dev) = i"
  shows "valid_document (sf\<lparr>sf_next_device_number := sf_next_device_number sf + 1,
      sf_devices := bt_insert d dev (sf_devices sf)\<rparr>)" (is "valid_document ?sf")
proof -
  let ?n = "sf_next_device_number sf"
  have fresh: "\<not> bt_contains (sf_devices sf) d"
    using allocate_valid(2) [OF assms(1-3)] assms(6) by simp
  have nz: "?n \<noteq> 0" using assms(1) by (simp add: valid_document_def)
  have up: "unat (?n + 1) = unat ?n + 1" by (rule unat_u64_plus_1 [OF assms(3)])
  have "\<forall>(d, dev) \<in> set (bt_insert d dev (sf_devices sf)). valid_device d dev"
    by (rule bt.all_entries_ins) (use assms in \<open>auto simp: valid_document_def wf_state_file_def\<close>)
  moreover have "\<forall>x \<in> fst ` set (bt_insert d dev (sf_devices sf)). \<forall>m. device_number x = Some m \<longrightarrow> m < ?n + 1"
  proof (intro ballI allI impI)
    fix x m
    assume "x \<in> fst ` set (bt_insert d dev (sf_devices sf))" and m: "device_number x = Some m"
    then have "x = d \<or> x \<in> fst ` set (sf_devices sf)" by (simp add: fst_set_bt_insert)
    then have "m \<le> ?n"
      using m assms(1) device_number_key [OF nz] assms(6) by (fastforce simp: valid_document_def)
    then show "m < ?n + 1" using up by (simp add: word_le_nat_alt word_less_nat_alt)
  qed
  moreover have "?n + 1 \<noteq> 0" using up by (metis unat_0 add_is_0 one_neq_zero)
  moreover have "valid_mode ?sf"
    using valid_mode_add [OF _ fresh assms(5,8)] assms(1) by (simp add: valid_document_def)
  moreover have "valid_mapping ?sf"
    using assms(1) by (auto simp: valid_document_def valid_mapping_def bt_contains_insert)
  ultimately show ?thesis
    using assms(1,4) by (auto simp: valid_document_def bt_contains_insert)
qed

lemma new_device_valid:
  "valid_device d (device_state_new ((identity_new d n)\<lparr>id_physical_id := i\<rparr>))"
  by (simp add: valid_device_def device_state_new_def identity_new_def identity_validate_def
      resource_empty_def validate_resource_state_def)

section \<open>Properties\<close>

text \<open>C16: Validation accepts exactly the documents the data model promises: every check of the code
  together amounts to the declarative description, a ceremony's tokens and rotations included; the
  schema error is reported exactly for another schema number, before anything else.\<close>

theorem validate_exact:
  "(validate sf = Inr () \<longleftrightarrow> valid_document sf)
   \<and> (validate sf = Inl (UnsupportedSchema found expected) \<longleftrightarrow>
        found = sf_schema_version sf \<and> expected = 5 \<and> found \<noteq> 5)"
proof (cases "sf_schema_version sf = SCHEMA_VERSION")
  case True
  then have "validate sf \<noteq> Inl (UnsupportedSchema found expected)"
    using validate_faults [OF True] by (auto simp: fails_in_def)
  with True show ?thesis by (auto simp: validate_eq_Inr SCHEMA_VERSION_def)
next
  case False
  then show ?thesis by (auto simp: valid_document_def validate_def SCHEMA_VERSION_def)
qed

text \<open>The check that a restored mouse's new token differs from its old one never fires: no document
  makes validation report it, because the token of a subject is among the reserved ones when its
  rotation is examined.\<close>

theorem rotation_same_token_unreachable:
  "validate sf \<noteq> Inl (InvalidState (OfSetup RotationSameToken))"
proof (cases "sf_schema_version sf = SCHEMA_VERSION")
  case True
  from validate_faults [OF this] show ?thesis by (auto simp: fails_in_def)
qed (simp add: validate_def)

text \<open>Allocation ends and is exact: it returns the key of the least unused number not below the
  counter and advances the counter just past it, changing nothing else; it fails only for a zero
  counter, or with the overflow error when every number from the counter up to the last one but
  the largest is in use.\<close>

theorem allocate_device_id_exact: "allocation_outcome sf (allocate_device_id sf)"
  by (rule allocate_outcome)

text \<open>In a valid document a physical identity names one mouse: no two devices carry the same
  physical identity; and while a ceremony is in flight the tokens it reserves are pairwise different
  and belong to no device, and a token is rotated away only from the device that carries it.\<close>

theorem physical_identity_unique:
  assumes "validate sf = Inr ()"
  shows "(\<forall>d e x y i. bt_get (sf_devices sf) d = Some x \<and> bt_get (sf_devices sf) e = Some y
        \<and> id_physical_id (ds_identity x) = Some i \<and> id_physical_id (ds_identity y) = Some i \<longrightarrow> d = e)
    \<and> (\<forall>j. sf_identity_setup sf = Some j \<longrightarrow>
        distinct (tokens_of (jr_subjects j))
        \<and> (\<forall>t \<in> set (tokens_of (jr_subjects j)). \<forall>d x. bt_get (sf_devices sf) d = Some x
              \<longrightarrow> id_physical_id (ds_identity x) \<noteq> Some t)
        \<and> (\<forall>s \<in> set (jr_subjects j). \<forall>old. sub_old_token s = Some old \<longrightarrow>
              jr_phase j = Restore
              \<and> (\<exists>d x. sub_device_id s = Some d \<and> bt_get (sf_devices sf) d = Some x
                  \<and> id_physical_id (ds_identity x) = Some old)))"
proof -
  have v: "valid_document sf" using assms by (simp add: validate_eq_Inr)
  have mode: "valid_mode sf" using v by (simp add: valid_document_def)
  have "d = e" if g: "bt_get (sf_devices sf) d = Some x" "bt_get (sf_devices sf) e = Some y"
      and p: "id_physical_id (ds_identity x) = Some i" "id_physical_id (ds_identity y) = Some i" for d e x y i
  proof -
    have in_m: "(d, x) \<in> set (sf_devices sf)" "(e, y) \<in> set (sf_devices sf)"
      using g by (simp_all add: bt_get_in)
    then have "sf_identity_mode sf = PersistentMode"
      using mode p(1) by (cases "sf_identity_mode sf") (auto simp: valid_mode_def physical_of_def)
    then have "inj_on physical_of (set (sf_devices sf))"
      using mode by (simp add: valid_mode_def distinct_map)
    then have "(d, x) = (e, y)" using in_m p by (intro inj_onD [of physical_of]) simp_all
    then show "d = e" by simp
  qed
  moreover have "id_physical_id (ds_identity x) \<noteq> Some t"
    if "sf_identity_setup sf = Some j" "t \<in> set (tokens_of (jr_subjects j))" "bt_get (sf_devices sf) d = Some x"
    for j t d x
    using v that by (auto simp: valid_document_def valid_journal_def uncommitted_def not_committed_iff dest!: bt_get_in)
  moreover have "valid_journal sf j" if "sf_identity_setup sf = Some j" for j
    using v that by (simp add: valid_document_def)
  ultimately show ?thesis
    by (fastforce simp: valid_journal_def valid_rotation_def)
qed

text \<open>A document of two identified mice while a third one is being added.\<close>

definition demo_document :: state_file where
  "demo_document = state_file_default\<lparr>sf_next_device_number := 3, sf_identity_mode := PersistentMode,
     sf_devices := [(logical_key 1, device_state_new ((identity_new (logical_key 1) None)
                       \<lparr>id_physical_id := Some (PhysicalId (replicate 16 1))\<rparr>)),
                    (logical_key 2, device_state_new ((identity_new (logical_key 2) None)
                       \<lparr>id_physical_id := Some (PhysicalId (replicate 16 2))\<rparr>))],
     sf_identity_setup := Some \<lparr>jr_phase = AddMouse, jr_stage = Stamping, jr_subjects =
       [\<lparr>sub_endpoint = \<lparr>ep_transport = Wired, ep_vendor_id = Some 0x1d57, ep_product_id = Some 0xfa61,
           ep_serial_number = None, ep_locator = UsbPath (rstr ''/dev/hidraw0''), ep_display_name = None\<rparr>,
         sub_device_id = None, sub_token = Some (PhysicalId (replicate 16 3)), sub_old_token = None,
         sub_captured = Some \<lparr>cap_profile_metadata = resource_empty,
           cap_profiles = [(ProfileId 1, profile_state_empty)]\<rparr>,
         sub_stamp_progress = []\<rparr>]\<rparr>\<rparr>"

lemma demo_document_valid: "validate demo_document = Inr ()"
proof -
  have empty: "validate_profile_state p profile_state_empty = Inr ()" for p
    by (simp add: validate_profile_state_eq_Inr profile_state_empty_def resource_empty_def
        validate_resource_state_def)
  have "valid_journal demo_document (the (sf_identity_setup demo_document))"
    by (simp add: demo_document_def state_file_default_def valid_journal_def valid_stage_def valid_progress_def
        valid_rotation_def uncommitted_def physical_of_def device_state_new_def valid_image_def empty
        is_fully_stamped_iff tracks_def resource_empty_def validate_resource_state_def)
  moreover have "valid_device (logical_key n) (device_state_new ((identity_new (logical_key n) None)
      \<lparr>id_physical_id := i\<rparr>))" for n i
    by (rule new_device_valid)
  ultimately show "validate demo_document = Inr ()"
    by (simp add: validate_eq_Inr valid_document_def demo_document_def state_file_default_def
        SCHEMA_VERSION_def device_number_key valid_mode_def physical_of_def device_state_new_def valid_mapping_def)
qed

lemma physical_identity_unique_witness:
  "\<not> (\<exists>d x. bt_get (sf_devices demo_document) d = Some x
      \<and> id_physical_id (ds_identity x) = Some (PhysicalId (replicate 16 3)))"
proof -
  have "PhysicalId (replicate 16 3) \<in> set (tokens_of (jr_subjects (the (sf_identity_setup demo_document))))"
    and "sf_identity_setup demo_document \<noteq> None"
    by (simp_all add: demo_document_def)
  with physical_identity_unique [OF demo_document_valid] show ?thesis by auto
qed

text \<open>Registering a mouse keeps the document valid: from a valid document outside a ceremony the
  allocated key is new, and storing a fresh device under it, with the physical identity the mode
  demands (none for the first mouse of the legacy mode, one no device carries in the persistent
  mode), gives a document that validates.\<close>

theorem register_mouse_valid:
  assumes "validate sf = Inr ()" and "wf_state_file sf" and "sf_next_device_number sf \<noteq> - 1"
    and "sf_identity_setup sf = None" and "physical_id_admitted sf i"
  shows "\<exists>d sf'. allocate_device_id sf = (Inr d, sf') \<and> \<not> bt_contains (sf_devices sf) d
    \<and> validate (sf'\<lparr>sf_devices := bt_insert d (device_state_new ((identity_new d n)\<lparr>id_physical_id := i\<rparr>))
        (sf_devices sf')\<rparr>) = Inr ()"
proof -
  have v: "valid_document sf" using assms(1) by (simp add: validate_eq_Inr)
  have "id_physical_id (ds_identity (device_state_new ((identity_new d n)\<lparr>id_physical_id := i\<rparr>))) = i" for d
    by (simp add: device_state_new_def)
  from add_device_valid [OF v assms(2-5) refl new_device_valid this] allocate_valid [OF v assms(2,3)]
  show ?thesis by (auto simp: validate_eq_Inr)
qed

lemma register_mouse_valid_witness:
  "\<exists>d sf'. allocate_device_id state_file_default = (Inr d, sf')
    \<and> validate (sf'\<lparr>sf_devices := bt_insert d (device_state_new ((identity_new d None)\<lparr>id_physical_id := None\<rparr>))
        (sf_devices sf')\<rparr>) = Inr ()"
proof -
  have "validate state_file_default = Inr ()"
    by (simp add: validate_def state_file_default_def max_device_number_def map_filter_simps
        validate_identity_mode_def validate_endpoint_mapping_def)
  moreover have "wf_state_file state_file_default" and "physical_id_admitted state_file_default None"
    by (simp_all add: wf_state_file_def state_file_default_def physical_id_admitted_def)
  ultimately show ?thesis
    using register_mouse_valid [of state_file_default None None] by (auto simp: state_file_default_def)
qed

end
