(* ===== verification/X3_Ble.thy ===== *)
theory X3_Ble
  imports X3_Worker X3_Effect
begin

text \<open>
  The Bluetooth session (\<^verbatim>\<open>driver/ble.rs\<close>): errors, typed reports, application acknowledgements,
  the bounded notification inbox and the task that fills it, one write with its acknowledgement, the
  closing of a session, and the choice of device, service and characteristics when it is opened. The
  \<^verbatim>\<open>bluest\<close> crate is a record of operations; what its notification stream yields is a list of
  stream events. The Windows backend is not modelled.
\<close>

section \<open>Errors and policy\<close>

text \<open>All UUIDs of the code are short ones, written \<^verbatim>\<open>Uuid::from_u16\<close>.\<close>

type_synonym uuid = u16

definition fee0_service :: uuid where "fee0_service = 0xfee0"
definition fee3_write :: uuid where "fee3_write = 0xfee3"
definition fee4_ack :: uuid where "fee4_ack = 0xfee4"

datatype ble_error =
    BleProtocol protocol_error
  | AdapterUnavailable
  | BleBackend string
  | BleOperation string string
  | BleDeviceNotFound
  | BleAmbiguousDevice nat
  | BleDeviceOpen string
  | BleDisconnected
  | MissingService uuid
  | AmbiguousService uuid
  | MissingCharacteristic uuid
  | AmbiguousCharacteristic uuid
  | InvalidCharacteristicProperties uuid
  | UnsupportedReport u8
  | AckRejected u8
  | AckTimeout u8
  | MalformedAck
  | NotificationOverflow
  | BleNotification string

fun is_connection_lost :: "ble_error \<Rightarrow> bool" where
  "is_connection_lost BleDisconnected \<longleftrightarrow> True"
| "is_connection_lost AdapterUnavailable \<longleftrightarrow> True"
| "is_connection_lost (BleBackend _) \<longleftrightarrow> True"
| "is_connection_lost (BleDeviceOpen _) \<longleftrightarrow> True"
| "is_connection_lost (MissingService _) \<longleftrightarrow> True"
| "is_connection_lost (MissingCharacteristic _) \<longleftrightarrow> True"
| "is_connection_lost (BleNotification _) \<longleftrightarrow> True"
| "is_connection_lost _ \<longleftrightarrow> False"

record ble_policy =
  ack_timeout :: duration
  write_quiet_period :: duration

definition ble_policy_default :: ble_policy where
  "ble_policy_default = \<lparr>ack_timeout = from_secs 2, write_quiet_period = from_millis 500\<rparr>"

section \<open>Reports and acknowledgements\<close>

datatype ble_report =
    BleDpi dpi_state
  | BlePreferences preferences_state
  | BlePollingRate profile_id polling_rate
  | BleButtons buttons_state
  | BleProfileControl profile_metadata

fun ble_report_id :: "ble_report \<Rightarrow> u8" where
  "ble_report_id (BleDpi _) = 0x04"
| "ble_report_id (BlePreferences _) = 0x05"
| "ble_report_id (BlePollingRate _ _) = 0x06"
| "ble_report_id (BleButtons _) = 0x08"
| "ble_report_id (BleProfileControl _) = 0x0c"

fun ble_encode :: "ble_report \<Rightarrow> (ble_error, packet) result" where
  "ble_encode (BleDpi st) =
     tryq (map_err BleProtocol (dpi_encode st Ble)) (\<lambda>report. Inr (dpi_as_bytes report))"
| "ble_encode (BlePreferences st) = Inr (prefs_as_bytes (prefs_encode_framed st PrefsCompact))"
| "ble_encode (BlePollingRate profile rate) = Inr (polling_encode profile rate)"
| "ble_encode (BleButtons st) = Inr (buttons_encode st)"
| "ble_encode (BleProfileControl metadata) = Inr (control_as_bytes (control_encode metadata ControlCompact))"

record ble_ack =
  ack_report_id :: u8
  ack_status :: u8

definition decode_ack :: "packet \<Rightarrow> (ble_error, ble_ack option) result" where
  "decode_ack notification =
     (if length notification \<noteq> 4 \<or> take 2 notification \<noteq> [0x10, 0x50] then Inr None
      else if notification ! 2 = 0 \<or> notification ! 2 = 1
      then Inr (Some \<lparr>ack_report_id = notification ! 3, ack_status = notification ! 2\<rparr>)
      else Inl MalformedAck)"

section \<open>The notification inbox\<close>

definition NOTIFICATION_QUEUE_CAPACITY :: nat where "NOTIFICATION_QUEUE_CAPACITY = 16"

text \<open>The queue between the notification task and the session, the overflow flag, and whether the
  task still holds the sending side.\<close>

record inbox =
  ib_queue :: "(ble_error, packet) result list"
  ib_overflowed :: bool
  ib_open :: bool

definition inbox_new :: inbox where
  "inbox_new = \<lparr>ib_queue = [], ib_overflowed = False, ib_open = True\<rparr>"

definition notification_send :: "(ble_error, packet) result \<Rightarrow> inbox \<Rightarrow> inbox" where
  "notification_send notification ib =
     (if length (ib_queue ib) < NOTIFICATION_QUEUE_CAPACITY
      then ib\<lparr>ib_queue := ib_queue ib @ [notification]\<rparr>
      else ib\<lparr>ib_overflowed := True\<rparr>)"

text \<open>What the stream yields to the task: a value, an error after which the task returns, the end of
  the stream; or the task is told to shut down.\<close>

datatype stream_event = StreamValue packet | StreamError string | StreamEnd | TaskShutdown

definition task_step :: "stream_event \<Rightarrow> inbox \<Rightarrow> inbox" where
  "task_step ev ib =
     (if \<not> ib_open ib then ib
      else case ev of
        StreamValue v \<Rightarrow> notification_send (Inr v) ib
      | StreamError e \<Rightarrow> notification_send (Inl (BleNotification e)) ib\<lparr>ib_open := False\<rparr>
      | StreamEnd \<Rightarrow> notification_send (Inl BleDisconnected) ib\<lparr>ib_open := False\<rparr>
      | TaskShutdown \<Rightarrow> ib\<lparr>ib_open := False\<rparr>)"

text \<open>\<^verbatim>\<open>drain_idle\<close>: discards queued values, stops at a queued error or when the task is gone.\<close>

fun drain_queue :: "(ble_error, packet) result list \<Rightarrow> bool
    \<Rightarrow> (ble_error, unit) result \<times> (ble_error, packet) result list" where
  "drain_queue [] sender_alive = (if sender_alive then Inr () else Inl BleDisconnected, [])"
| "drain_queue (Inr _ # queue) sender_alive = drain_queue queue sender_alive"
| "drain_queue (Inl e # queue) sender_alive = (Inl e, queue)"

definition drain_idle :: "inbox \<Rightarrow> (ble_error, unit) result \<times> inbox" where
  "drain_idle ib =
     (if ib_overflowed ib then (Inl NotificationOverflow, ib)
      else case drain_queue (ib_queue ib) (ib_open ib) of
        (r, queue) \<Rightarrow> (r, ib\<lparr>ib_queue := queue\<rparr>))"

text \<open>\<^verbatim>\<open>poll_next\<close>: \<open>None\<close> is pending, \<open>Some None\<close> the end of the stream.\<close>

definition poll_next :: "inbox \<Rightarrow> (ble_error, packet) result option option \<times> inbox" where
  "poll_next ib =
     (if ib_overflowed ib then (Some (Some (Inl NotificationOverflow)), ib)
      else case ib_queue ib of
        x # queue \<Rightarrow> (Some (Some x), ib\<lparr>ib_queue := queue\<rparr>)
      | [] \<Rightarrow> (if ib_open ib then None else Some None, ib))"

section \<open>One write and its acknowledgement\<close>

text \<open>
  The connected device: a write to FEE3 with what the stream yields meanwhile, waiting for the
  stream for at most a duration (nothing when the time is up), and the clock.
\<close>

record 's ble_link =
  bl_write :: "packet \<Rightarrow> 's \<Rightarrow> (string, unit) result \<times> stream_event list \<times> 's"
  bl_wait :: "duration \<Rightarrow> 's \<Rightarrow> stream_event list \<times> 's"
  bl_sleep :: "duration \<Rightarrow> 's \<Rightarrow> stream_event list \<times> 's"
  bl_stop :: "'s \<Rightarrow> (string, unit) result \<times> 's"
  bl_disconnect :: "'s \<Rightarrow> (string, unit) result \<times> 's"
  bl_now :: "'s \<Rightarrow> duration"

type_synonym 's link_state = "inbox \<times> 's"

definition next_notification ::
  "'s ble_link \<Rightarrow> duration \<Rightarrow> 's link_state \<Rightarrow> (ble_error, packet) result option option \<times> 's link_state" where
  "next_notification link remaining st =
     (case st of (ib, s) \<Rightarrow>
        (case poll_next ib of
           (Some x, ib') \<Rightarrow> (Some x, (ib', s))
         | (None, _) \<Rightarrow>
             (case bl_wait link remaining s of (evs, s') \<Rightarrow>
                (case poll_next (fold task_step evs ib) of (r, ib') \<Rightarrow> (r, (ib', s'))))))"

record ble_write_receipt =
  receipt_report_id :: u8
  receipt_ack_status :: u8

partial_function (option) await_ack ::
  "'s ble_link \<Rightarrow> u8 \<Rightarrow> duration \<Rightarrow> 's link_state
     \<Rightarrow> ((ble_error, ble_write_receipt) result \<times> 's link_state) option" where
  "await_ack link report_id deadline st =
     (let remaining = deadline - bl_now link (snd st)
      in if remaining = 0 then Some (Inl (AckTimeout report_id), st)
         else case next_notification link remaining st of
             (None, t) \<Rightarrow> Some (Inl (AckTimeout report_id), t)
           | (Some None, t) \<Rightarrow> Some (Inl BleDisconnected, t)
           | (Some (Some (Inl e)), t) \<Rightarrow> Some (Inl e, t)
           | (Some (Some (Inr notification)), t) \<Rightarrow>
               (case decode_ack notification of
                  Inl e \<Rightarrow> Some (Inl e, t)
                | Inr None \<Rightarrow> await_ack link report_id deadline t
                | Inr (Some ack) \<Rightarrow>
                    (if ack_report_id ack \<noteq> report_id then await_ack link report_id deadline t
                     else if ack_status ack \<noteq> 0 then Some (Inl (AckRejected report_id), t)
                     else Some (Inr \<lparr>receipt_report_id = report_id, receipt_ack_status = ack_status ack\<rparr>, t))))"

definition complete_ble_write ::
  "'s ble_link \<Rightarrow> u8 \<Rightarrow> duration \<Rightarrow> packet \<Rightarrow> 's link_state
     \<Rightarrow> ((ble_error, ble_write_receipt) result \<times> 's link_state) option" where
  "complete_ble_write link report_id timeout packet st =
     (case st of (ib, s) \<Rightarrow>
        (case bl_write link packet s of (r, evs, s') \<Rightarrow>
           let t = (fold task_step evs ib, s')
           in case r of
                Inl details \<Rightarrow> Some (Inl (BleOperation ''write packet to FEE3'' details), t)
              | Inr _ \<Rightarrow> await_ack link report_id (bl_now link s' + timeout) t))"

section \<open>The session\<close>

record 's ble_session =
  bs_link :: "'s link_state"
  bs_policy :: ble_policy
  bs_task :: bool
  bs_closed :: bool
  bs_shutdown_complete :: bool

type_synonym ('s, 'a) ble_op = "'s ble_session \<Rightarrow> ((ble_error, 'a) result \<times> 's ble_session) option"

definition write_bluest :: "'s ble_link \<Rightarrow> u8 \<Rightarrow> packet \<Rightarrow> ('s, ble_write_receipt) ble_op" where
  "write_bluest link report_id packet se =
     (case bs_link se of (ib, s) \<Rightarrow>
        (case drain_idle ib of
           (Inl e, ib') \<Rightarrow> Some (Inl e, se\<lparr>bs_link := (ib', s)\<rparr>)
         | (Inr _, ib') \<Rightarrow>
             (case complete_ble_write link report_id (ack_timeout (bs_policy se)) packet (ib', s) of
                None \<Rightarrow> None
              | Some (r, t) \<Rightarrow> Some (r, se\<lparr>bs_link := t\<rparr>))))"

text \<open>Stopping the task signals it and waits for it to end.\<close>

definition stop_bluest_notifications ::
  "'s ble_link \<Rightarrow> 's ble_session \<Rightarrow> (ble_error, unit) result \<times> 's ble_session" where
  "stop_bluest_notifications link se =
     (if \<not> bs_task se then (Inr (), se)
      else case bs_link se of (ib, s) \<Rightarrow>
        (case bl_stop link s of (r, s') \<Rightarrow>
           (map_err (BleOperation ''stop FEE4 notification task'') r,
            se\<lparr>bs_task := False, bs_link := (task_step TaskShutdown ib, s')\<rparr>)))"

definition ble_session_write :: "'s ble_link \<Rightarrow> packet \<Rightarrow> ('s, ble_write_receipt) ble_op" where
  "ble_session_write link packet se =
     (if bs_closed se then Some (Inl BleDisconnected, se)
      else case write_bluest link (hd packet) packet se of
        None \<Rightarrow> None
      | Some (Inr receipt, se') \<Rightarrow>
          (if write_quiet_period (bs_policy se') \<noteq> 0
           then case bs_link se' of (ib, s) \<Rightarrow>
             (case bl_sleep link (write_quiet_period (bs_policy se')) s of (evs, s') \<Rightarrow>
                Some (Inr receipt, se'\<lparr>bs_link := (fold task_step evs ib, s')\<rparr>))
           else Some (Inr receipt, se'))
      | Some (Inl e, se') \<Rightarrow>
          (if is_connection_lost e
           then Some (Inl e, snd (stop_bluest_notifications link (se'\<lparr>bs_closed := True\<rparr>)))
           else Some (Inl e, se')))"

text \<open>\<^verbatim>\<open>BleHandle::write\<close>; the typed writes of the handle are instances of it.\<close>

definition ble_write :: "'s ble_link \<Rightarrow> ble_report \<Rightarrow> ('s, ble_write_receipt) ble_op" where
  "ble_write link report se =
     (case ble_encode report of
        Inl e \<Rightarrow> Some (Inl e, se)
      | Inr packet \<Rightarrow> ble_session_write link packet se)"

definition ble_disconnect :: "'s ble_link \<Rightarrow> 's ble_session \<Rightarrow> (ble_error, unit) result \<times> 's ble_session" where
  "ble_disconnect link se =
     (if bs_shutdown_complete se then (Inr (), se)
      else case stop_bluest_notifications link (se\<lparr>bs_closed := True\<rparr>) of
        (subscription, se1) \<Rightarrow>
          (case bl_disconnect link (snd (bs_link se1)) of (r, s) \<Rightarrow>
             let disconnected = map_err BleBackend r;
                 se2 = se1\<lparr>bs_link := (fst (bs_link se1), s)\<rparr>;
                 se3 = (if is_ok subscription \<and> is_ok disconnected
                        then se2\<lparr>bs_shutdown_complete := True\<rparr> else se2)
             in (tryq subscription (\<lambda>_. disconnected), se3)))"

section \<open>Opening a device\<close>

datatype ble_selector = UniqueConnected | BleDevice string | BleName string

record ble_device_info =
  bdi_id :: string
  bdi_name :: "string option"
  bdi_connected :: bool

record gatt_properties =
  gp_write :: bool
  gp_notify :: bool

datatype notify_start = NotifyStarted | NotifyRefused string | NotifyTaskLost string

text \<open>The operating system's adapter: devices by their identifier, services and characteristics by
  their UUID and a reference.\<close>

record 's adapter =
  ad_default :: "'s \<Rightarrow> bool \<times> 's"
  ad_wait_available :: "('s, string, unit) prog"
  ad_connected :: "('s, string, string list) prog"
  ad_name :: "string \<Rightarrow> ('s, string, string) prog"
  ad_open_device :: "string \<Rightarrow> ('s, string, string) prog"
  ad_is_connected :: "string \<Rightarrow> 's \<Rightarrow> bool \<times> 's"
  ad_connect :: "string \<Rightarrow> ('s, string, unit) prog"
  ad_services :: "string \<Rightarrow> ('s, string, (uuid \<times> nat) list) prog"
  ad_characteristics :: "nat \<Rightarrow> ('s, string, (uuid \<times> nat) list) prog"
  ad_properties :: "nat \<Rightarrow> ('s, string, gatt_properties) prog"
  ad_notify :: "nat \<Rightarrow> 's \<Rightarrow> notify_start \<times> 's"

type_synonym ('s, 'a) ble_prog = "('s, ble_error, 'a) prog"

definition query :: "('s \<Rightarrow> 'a \<times> 's) \<Rightarrow> ('s, 'e, 'a) prog" where
  "query f s = (case f s of (x, s') \<Rightarrow> (Inr x, s'))"

definition adapter_available :: "'s adapter \<Rightarrow> ('s, unit) ble_prog" where
  "adapter_available ad =
     thenp (query (ad_default ad)) (\<lambda>present.
     if \<not> present then errp AdapterUnavailable
     else map_errp BleBackend (ad_wait_available ad))"

fun name_rows :: "'s adapter \<Rightarrow> string list \<Rightarrow> ('s, ble_device_info list) ble_prog" where
  "name_rows ad [] = okp []"
| "name_rows ad (d # ds) =
     thenp (handlep (ad_name ad d) (\<lambda>_. okp None) (\<lambda>n. okp (Some n))) (\<lambda>name.
     thenp (query (ad_is_connected ad d)) (\<lambda>connected.
     thenp (name_rows ad ds) (\<lambda>rows.
     okp (\<lparr>bdi_id = d, bdi_name = name, bdi_connected = connected\<rparr> # rows))))"

definition list_connected :: "'s adapter \<Rightarrow> ('s, ble_device_info list) ble_prog" where
  "list_connected ad =
     thenp (adapter_available ad) (\<lambda>_.
     thenp (map_errp BleBackend (ad_connected ad)) (name_rows ad))"

text \<open>The devices that carry a name; one that cannot tell its name does not.\<close>

fun ble_named :: "'s adapter \<Rightarrow> string \<Rightarrow> string list \<Rightarrow> ('s, string list) ble_prog" where
  "ble_named ad name [] = okp []"
| "ble_named ad name (d # ds) =
     thenp (handlep (ad_name ad d) (\<lambda>_. okp None) (\<lambda>n. okp (Some n))) (\<lambda>found.
     thenp (ble_named ad name ds) (\<lambda>rest.
     okp (if found = Some name then d # rest else rest)))"

definition sole_device :: "string list \<Rightarrow> (ble_error, string) result" where
  "sole_device devices =
     (case devices of
        [] \<Rightarrow> Inl BleDeviceNotFound
      | [d] \<Rightarrow> Inr d
      | _ \<Rightarrow> Inl (BleAmbiguousDevice (length devices)))"

definition ble_choose_device :: "'s adapter \<Rightarrow> ble_selector \<Rightarrow> ('s, string) ble_prog" where
  "ble_choose_device ad selector =
     (case selector of
        UniqueConnected \<Rightarrow>
          thenp (map_errp BleBackend (ad_connected ad)) (\<lambda>devices. liftp (sole_device devices))
      | BleName name \<Rightarrow>
          thenp (map_errp BleBackend (ad_connected ad)) (\<lambda>devices.
          thenp (ble_named ad name devices) (\<lambda>matches. liftp (sole_device matches)))
      | BleDevice i \<Rightarrow> map_errp (\<lambda>_. BleDeviceOpen i) (ad_open_device ad i))"

definition sole_uuid :: "uuid \<Rightarrow> ble_error \<Rightarrow> ble_error \<Rightarrow> (uuid \<times> nat) list \<Rightarrow> (ble_error, nat) result" where
  "sole_uuid u missing ambiguous entries =
     (case filter (\<lambda>e. fst e = u) entries of
        [] \<Rightarrow> Inl missing
      | [e] \<Rightarrow> Inr (snd e)
      | _ \<Rightarrow> Inl ambiguous)"

definition discover_bluest_characteristics :: "'s adapter \<Rightarrow> string \<Rightarrow> ('s, nat \<times> nat) ble_prog" where
  "discover_bluest_characteristics ad device =
     thenp (map_errp (BleOperation ''discover GATT services'') (ad_services ad device)) (\<lambda>services.
     thenp (liftp (sole_uuid fee0_service (MissingService fee0_service) (AmbiguousService fee0_service)
              services)) (\<lambda>service.
     thenp (map_errp (BleOperation ''discover FEE0 characteristics'') (ad_characteristics ad service))
       (\<lambda>characteristics.
     thenp (liftp (sole_uuid fee3_write (MissingCharacteristic fee3_write)
              (AmbiguousCharacteristic fee3_write) characteristics)) (\<lambda>write_characteristic.
     thenp (liftp (sole_uuid fee4_ack (MissingCharacteristic fee4_ack)
              (AmbiguousCharacteristic fee4_ack) characteristics)) (\<lambda>ack_characteristic.
     thenp (map_errp (BleOperation ''read FEE3 properties'') (ad_properties ad write_characteristic))
       (\<lambda>write_properties.
     if \<not> gp_write write_properties then errp (InvalidCharacteristicProperties fee3_write)
     else
     thenp (map_errp (BleOperation ''read FEE4 properties'') (ad_properties ad ack_characteristic))
       (\<lambda>ack_properties.
     if \<not> gp_notify ack_properties then errp (InvalidCharacteristicProperties fee4_ack)
     else okp (write_characteristic, ack_characteristic))))))))"

definition start_bluest_notifications :: "'s adapter \<Rightarrow> nat \<Rightarrow> ('s, inbox) ble_prog" where
  "start_bluest_notifications ad ack_characteristic =
     thenp (query (ad_notify ad ack_characteristic)) (\<lambda>started.
     case started of
       NotifyStarted \<Rightarrow> okp inbox_new
     | NotifyRefused details \<Rightarrow> errp (BleOperation ''enable FEE4 notifications'' details)
     | NotifyTaskLost details \<Rightarrow> errp (BleOperation ''start FEE4 notification task'' details))"

text \<open>The opened session, with the device, its write characteristic and an empty inbox.\<close>

record opened_session =
  op_device :: string
  op_write_characteristic :: nat
  op_inbox :: inbox
  op_policy :: ble_policy

definition open_with_policy :: "'s adapter \<Rightarrow> ble_selector \<Rightarrow> ble_policy \<Rightarrow> ('s, opened_session) ble_prog" where
  "open_with_policy ad selector policy =
     thenp (adapter_available ad) (\<lambda>_.
     thenp (ble_choose_device ad selector) (\<lambda>device.
     thenp (query (ad_is_connected ad device)) (\<lambda>connected.
     thenp (if \<not> connected then map_errp (BleOperation ''connect BLE device'') (ad_connect ad device)
            else okp ()) (\<lambda>_.
     thenp (discover_bluest_characteristics ad device) (\<lambda>(write_characteristic, ack_characteristic).
     thenp (start_bluest_notifications ad ack_characteristic) (\<lambda>notifications.
     okp \<lparr>op_device = device, op_write_characteristic = write_characteristic,
          op_inbox = notifications, op_policy = policy\<rparr>))))))"

definition session_of :: "opened_session \<Rightarrow> 's \<Rightarrow> 's ble_session" where
  "session_of opened s =
     \<lparr>bs_link = (op_inbox opened, s), bs_policy = op_policy opened, bs_task = True,
      bs_closed = False, bs_shutdown_complete = False\<rparr>"

end
