(* ===== verification/X3_Operation.thy ===== *)
theory X3_Operation
  imports X3_State_Facts X3_Ble X3_Worker_Live
begin

text \<open>
  The manager's typed operations (\<^verbatim>\<open>operation.rs\<close>) and errors (\<^verbatim>\<open>error.rs\<close>):
  update policies, write outcomes, discovery rows, the decision tree that attaches an endpoint to a
  saved mouse, ceremony progress, and the input events of the manager.
\<close>

section \<open>Policies and outcomes\<close>

datatype verification_method = TransportAck | Readback

datatype baseline_source = LiveBaseline | StoredBaseline

record update_policy =
  allow_explicit_defaults :: bool
  policy_verification :: verification_method
  policy_baseline :: baseline_source

definition update_policy_default :: update_policy where
  "update_policy_default = \<lparr>allow_explicit_defaults = False, policy_verification = TransportAck,
     policy_baseline = LiveBaseline\<rparr>"

record 'a write_outcome =
  wo_desired :: 'a
  wo_observed :: "'a option"
  wo_verification :: verification

text \<open>\<^verbatim>\<open>SessionWrite\<close> of \<^verbatim>\<open>backend.rs\<close>: what a session reports of a write.\<close>

datatype 'a session_write = WriteReadback 'a | WriteAcknowledged

datatype profile_resource_kind = KindDpi | KindPreferences | KindButtons | KindPollingRate

record refreshed_profile =
  rf_dpi :: dpi_state
  rf_preferences :: preferences_state
  rf_buttons :: buttons_state
  rf_polling_rate :: polling_rate

datatype transport_selection = AutoSelection | ExactSelection transport_kind

definition is_usb_transport :: "transport_kind \<Rightarrow> bool" where
  "is_usb_transport t = (case t of Wired \<Rightarrow> True | Receiver \<Rightarrow> True | Ble \<Rightarrow> False)"

section \<open>Ceremonies\<close>

datatype ceremony_kind =
  KindInitialEnrollment | KindAddMouse | KindRestore | KindForeignAdoption | KindBleAssociation

datatype ceremony_stage =
    StageReady | StageAwaitingReconnect | StageCapturing | StageStamping | StageVerified
  | StageComplete | StageCancelled | StageFailed rstring

datatype ceremony_action =
    Begin ceremony_kind | Reconnected | Capture | Stamp | Adopt | Associate | AcceptMigration
  | SkipMigration | Cancel

record ceremony_progress =
  cp_kind :: ceremony_kind
  cp_stage :: ceremony_stage
  cp_step :: "u8 option"
  cp_total_steps :: "u8 option"
  cp_identity :: "device_id option"
  cp_physical_id :: "physical_id option"
  cp_endpoint :: "device_endpoint option"

section \<open>Errors\<close>

text \<open>The variants of \<^verbatim>\<open>ManagerError\<close> the modelled operations produce, and \<open>Panic\<close> for an
  \<^verbatim>\<open>expect\<close> or \<^verbatim>\<open>unreachable\<close> that fires; timeouts in nanoseconds. Messages become constructors or the static text of the message.\<close>

datatype manager_error =
    StateFailure state_error
  | DriverFailure driver_error
  | UnsupportedOperation string transport_kind
  | ExplicitAuthorizationRequired string transport_kind
  | MissingBaseline string "profile_id option"
  | NoSuchDevice device_id
  | AmbiguousDevices transport_selection "device_id list"
  | NoDevice transport_selection
  | DeviceDisconnected device_id
  | PowerCycleDisappearanceTimeout device_id nat
  | PowerCycleReappearanceTimeout device_id nat
  | NoAlternateProfile profile_id profile_id
  | VerificationMismatch string "profile_id option"
  | RefreshRestorationFailed manager_error
  | RefreshRestoreFailed manager_error manager_error
  | ProtocolFailure string protocol_error
  | InvalidUpdate string
  | DeviceOperationBusy device_id string nat path
  | IdentitySetupInProgress identity_setup_phase
  | NoIdentityCeremony
  | InvalidCeremonyAction ceremony_action identity_setup_phase identity_setup_stage
  | IdentityCeremonyRefused identity_setup_phase string
  | IntactIdentityMarker device_endpoint watermark_decode
  | DeviceInvolvedInSetup device_id identity_setup_phase
  | TokenGeneration
  | ReservedPhysicalId physical_id
  | AttachmentNotAuthenticated device_id device_endpoint watermark_decode
  | BleFailure ble_error
  | Panic string

type_synonym 'a manager_result = "(manager_error, 'a) result"

section \<open>Discovery rows\<close>

datatype unassociated_reason =
    ReasonAbsent | ReasonMalformed | ReasonUnsupported u8 | ReasonUnknown | ReasonDuplicate
  | ReasonReserved | ReasonReservedByJournal

datatype identity_resolution =
    Resolved device_id
  | Unassociated unassociated_reason "physical_id option"

record resolved_connection =
  rc_endpoint :: device_endpoint
  rc_connected :: bool
  rc_resolution :: identity_resolution

record discovered_device =
  dd_identity :: device_identity
  dd_connected :: bool
  dd_transports :: "transport_kind list"

section \<open>The attachment decision\<close>

record candidate =
  cand_identity :: device_id
  cand_display_name :: "rstring option"
  cand_last_transport :: "transport_kind option"
  cand_last_seen :: "int option"
  cand_has_stored_state :: bool

datatype resolution =
    SilentAttach device_id bool
  | AskNewOrMine candidate
  | AskWhich "candidate list"
  | SetupFirst

definition resolve_endpoint ::
  "bool \<Rightarrow> nat \<Rightarrow> transport_kind \<Rightarrow> candidate list \<Rightarrow> bool \<Rightarrow> resolution" where
  "resolve_endpoint fingerprint_known simultaneous_count transport candidates has_stored_state =
     (if fingerprint_known
      then case candidates of
             only # _ \<Rightarrow> SilentAttach (cand_identity only) has_stored_state
           | [] \<Rightarrow> SetupFirst
      else if simultaneous_count \<ge> 2
      then case candidates of
             [only] \<Rightarrow>
               if transport = Ble \<and> \<not> has_stored_state \<and> \<not> cand_has_stored_state only
               then AskNewOrMine only else AskWhich candidates
           | [] \<Rightarrow> SetupFirst
           | _ \<Rightarrow> AskWhich candidates
      else case transport of
             Ble \<Rightarrow>
               (case candidates of
                  [] \<Rightarrow> SetupFirst
                | [only] \<Rightarrow>
                    if has_stored_state \<or> cand_has_stored_state only
                    then SilentAttach (cand_identity only) True else AskNewOrMine only
                | _ \<Rightarrow> AskWhich candidates)
           | _ \<Rightarrow>
               (case candidates of
                  [] \<Rightarrow> SetupFirst
                | [only] \<Rightarrow> SilentAttach (cand_identity only) (has_stored_state \<or> cand_has_stored_state only)
                | _ \<Rightarrow> AskWhich candidates))"

section \<open>Input events\<close>

text \<open>\<^verbatim>\<open>DeviceEvent\<close>: the decoded reports plus the two events of the stream itself.\<close>

datatype device_event = InputReport input_event | Disconnected | Lagged u64

definition device_event_from :: "input_event \<Rightarrow> device_event" where
  "device_event_from e = InputReport e"

section \<open>Who is attached without asking\<close>

lemma resolve_endpoint_SilentAttach:
  "resolve_endpoint known count transport cs stored = SilentAttach d keep \<longleftrightarrow>
     (\<exists>c rest. cs = c # rest \<and> d = cand_identity c
        \<and> (if known then keep = stored
           else count < 2 \<and> rest = [] \<and> keep = (stored \<or> cand_has_stored_state c)
             \<and> (transport = Ble \<longrightarrow> keep)))"
  by (cases transport)
    (auto simp: resolve_endpoint_def split: list.splits if_splits)

lemma resolve_endpoint_SetupFirst:
  "resolve_endpoint known count transport cs stored = SetupFirst \<longleftrightarrow> cs = []"
  by (cases transport) (auto simp: resolve_endpoint_def split: list.splits)

lemma resolve_endpoint_AskNewOrMine:
  "resolve_endpoint known count transport cs stored = AskNewOrMine c \<longleftrightarrow>
     \<not> known \<and> transport = Ble \<and> cs = [c] \<and> \<not> stored \<and> \<not> cand_has_stored_state c"
  by (cases transport) (auto simp: resolve_endpoint_def split: list.splits)

lemma resolve_endpoint_AskWhich:
  "resolve_endpoint known count transport cs stored = AskWhich ds \<longleftrightarrow>
     ds = cs \<and> cs \<noteq> [] \<and> \<not> known
     \<and> (length cs \<ge> 2
        \<or> count \<ge> 2 \<and> \<not> (transport = Ble \<and> \<not> stored \<and> \<not> cand_has_stored_state (hd cs)))"
  by (cases transport) (auto simp: resolve_endpoint_def split: list.splits if_splits)

section \<open>Properties\<close>

text \<open>The attachment decision never guesses: an endpoint is attached without asking only to the
  first candidate of a known fingerprint, or to the only saved mouse when a single unknown endpoint
  is present, and over Bluetooth only when stored settings exist; without saved mice setup starts,
  and in every other case the user is asked, about the single Bluetooth mouse without stored
  settings or among all saved mice.\<close>

theorem resolve_endpoint_never_guesses:
  "(resolve_endpoint known count transport cs stored = SilentAttach d keep \<longleftrightarrow>
      (\<exists>c rest. cs = c # rest \<and> d = cand_identity c
        \<and> (if known then keep = stored
           else count < 2 \<and> rest = [] \<and> keep = (stored \<or> cand_has_stored_state c)
             \<and> (if transport = Ble then keep else True))))
   \<and> (resolve_endpoint known count transport cs stored = SetupFirst \<longleftrightarrow> cs = [])
   \<and> (resolve_endpoint known count transport cs stored = AskNewOrMine c \<longleftrightarrow>
        \<not> known \<and> transport = Ble \<and> cs = [c] \<and> \<not> stored \<and> \<not> cand_has_stored_state c)
   \<and> (resolve_endpoint known count transport cs stored = AskWhich ds \<longleftrightarrow>
        ds = cs \<and> cs \<noteq> [] \<and> \<not> known
        \<and> (length cs \<ge> 2 \<or> count \<ge> 2 \<and> (if transport = Ble then stored \<or> cand_has_stored_state (hd cs) else True)))"
  unfolding resolve_endpoint_SilentAttach resolve_endpoint_SetupFirst resolve_endpoint_AskNewOrMine
    resolve_endpoint_AskWhich
  by auto

end
