(* ===== verification/X3_Store.thy ===== *)
theory X3_Store
  imports X3_Effect X3_State_Facts X3_Operation
begin

text \<open>
  The durable store (\<^verbatim>\<open>state/store.rs\<close>): path resolution, loading, atomic replacement of the
  document, discarding an unreadable file, transactions of the disk and of the memory store, and the
  per-device operation locks. The file system is that of the standard library on Unix: a map from
  paths to files, with the calls the code makes; any call may fail (\<open>dk_fault\<close> says which), a failing
  write may leave a prefix. The JSON encoding of \<^verbatim>\<open>serde_json\<close> is a parameter.
\<close>

section \<open>The file system\<close>

record disk_file =
  df_bytes :: "u8 list"
  df_synced :: bool

type_synonym files = "path \<Rightarrow> disk_file option"

text \<open>\<open>dk_fault n\<close> makes the \<open>n\<close>-th call fail with an error code; a write then has stored that many
  bytes. \<open>dk_busy t\<close> are the locks other processes hold at time \<open>t\<close> (nanoseconds), \<open>dk_mine\<close>
  the ones this process holds. \<open>dk_history\<close> records the files after every call, newest first, with
  the locks held: a crash leaves one of these states.\<close>

record disk =
  dk_files :: files
  dk_calls :: nat
  dk_fault :: "nat \<Rightarrow> (nat \<times> nat) option"
  dk_busy :: "nat \<Rightarrow> path \<Rightarrow> bool"
  dk_mine :: "path set"
  dk_temp_counter :: u64
  dk_process :: nat
  dk_clock :: nat
  dk_history :: "(files \<times> path set) list"

type_synonym 'a io = "(disk, io_kind, 'a) prog"
type_synonym 'a store_op = "(disk, state_error, 'a) prog"

text \<open>\<open>.\<close> components do not change where a path leads.\<close>

definition resolve_path :: "path \<Rightarrow> path" where
  "resolve_path p = filter (\<lambda>c. c \<noteq> rstr ''.'') p"

definition record_call :: "disk \<Rightarrow> disk" where
  "record_call d = d\<lparr>dk_calls := Suc (dk_calls d),
     dk_history := (dk_files d, dk_mine d) # dk_history d\<rparr>"

definition io_call :: "(nat \<Rightarrow> disk \<Rightarrow> disk) \<Rightarrow> (disk \<Rightarrow> (io_kind, 'a) result \<times> disk) \<Rightarrow> 'a io" where
  "io_call partial_effect effect d =
     (case dk_fault d (dk_calls d) of
        Some (code, k) \<Rightarrow> (Inl (OtherIo code), record_call (partial_effect k d))
      | None \<Rightarrow> (case effect d of (r, d') \<Rightarrow> (r, record_call d')))"

abbreviation whole :: "nat \<Rightarrow> disk \<Rightarrow> disk" where "whole \<equiv> (\<lambda>_ d. d)"

definition put_file :: "path \<Rightarrow> disk_file option \<Rightarrow> disk \<Rightarrow> disk" where
  "put_file p f d = d\<lparr>dk_files := (dk_files d)(resolve_path p := f)\<rparr>"

definition file_at :: "path \<Rightarrow> disk \<Rightarrow> disk_file option" where
  "file_at p d = dk_files d (resolve_path p)"

definition fs_read :: "path \<Rightarrow> (u8 list) io" where
  "fs_read p = io_call whole (\<lambda>d. (ok_or NotFound (map_option df_bytes (file_at p d)), d))"

definition fs_create_new :: "path \<Rightarrow> unit io" where
  "fs_create_new p = io_call whole (\<lambda>d.
     (case file_at p d of
        Some _ \<Rightarrow> (Inl AlreadyExists, d)
      | None \<Rightarrow> (Inr (), put_file p (Some \<lparr>df_bytes = [], df_synced = False\<rparr>) d)))"

definition fs_open_create :: "path \<Rightarrow> unit io" where
  "fs_open_create p = io_call whole (\<lambda>d.
     (case file_at p d of
        Some _ \<Rightarrow> (Inr (), d)
      | None \<Rightarrow> (Inr (), put_file p (Some \<lparr>df_bytes = [], df_synced = False\<rparr>) d)))"

definition append_bytes :: "path \<Rightarrow> u8 list \<Rightarrow> disk \<Rightarrow> disk" where
  "append_bytes p bytes d =
     (case file_at p d of
        None \<Rightarrow> d
      | Some f \<Rightarrow> put_file p (Some \<lparr>df_bytes = df_bytes f @ bytes, df_synced = False\<rparr>) d)"

definition fs_write_all :: "path \<Rightarrow> u8 list \<Rightarrow> unit io" where
  "fs_write_all p bytes = io_call (\<lambda>k. append_bytes p (take k bytes)) (\<lambda>d. (Inr (), append_bytes p bytes d))"

definition fs_sync :: "path \<Rightarrow> unit io" where
  "fs_sync p = io_call whole (\<lambda>d.
     (Inr (), case file_at p d of None \<Rightarrow> d | Some f \<Rightarrow> put_file p (Some (f\<lparr>df_synced := True\<rparr>)) d))"

definition fs_rename :: "path \<Rightarrow> path \<Rightarrow> unit io" where
  "fs_rename a b = io_call whole (\<lambda>d.
     (case file_at a d of
        None \<Rightarrow> (Inl NotFound, d)
      | Some f \<Rightarrow> (Inr (), put_file b (Some f) (put_file a None d))))"

definition fs_remove :: "path \<Rightarrow> unit io" where
  "fs_remove p = io_call whole (\<lambda>d.
     (case file_at p d of None \<Rightarrow> (Inl NotFound, d) | Some _ \<Rightarrow> (Inr (), put_file p None d)))"

text \<open>Calls on directories and \<^verbatim>\<open>flush\<close>: they change no file.\<close>

definition fs_touch :: "unit io" where
  "fs_touch = io_call whole (\<lambda>d. (Inr (), d))"

definition fs_try_lock :: "path \<Rightarrow> unit io" where
  "fs_try_lock p = io_call whole (\<lambda>d.
     if dk_busy d (dk_clock d) (resolve_path p) \<or> resolve_path p \<in> dk_mine d then (Inl WouldBlock, d)
     else (Inr (), d\<lparr>dk_mine := insert (resolve_path p) (dk_mine d)\<rparr>))"

definition fs_unlock :: "path \<Rightarrow> unit io" where
  "fs_unlock p = modifyp (\<lambda>d. d\<lparr>dk_mine := dk_mine d - {resolve_path p}\<rparr>)"

definition fs_sleep :: "nat \<Rightarrow> unit io" where
  "fs_sleep n = modifyp (\<lambda>d. d\<lparr>dk_clock := dk_clock d + n\<rparr>)"

section \<open>Paths\<close>

definition PRODUCT_DIR :: rstring where "PRODUCT_DIR = rstr ''attack-shark-x3''"
definition STATE_FILE_NAME :: rstring where "STATE_FILE_NAME = rstr ''state.json''"
definition LOCK_FILE_NAME :: rstring where "LOCK_FILE_NAME = rstr ''state.lock''"
definition STATE_PATH_ENV :: rstring where "STATE_PATH_ENV = rstr ''ATTACK_SHARK_X3_STATE_PATH''"

definition path_parent :: "path \<Rightarrow> path" where
  "path_parent p = butlast p"

definition parent_or_dot :: "path \<Rightarrow> path" where
  "parent_or_dot p = (if path_parent p = [] then [rstr ''.''] else path_parent p)"

definition path_file_name :: "path \<Rightarrow> rstring" where
  "path_file_name p = (if p = [] then STATE_FILE_NAME else last p)"

record state_paths =
  sp_state_file :: path
  sp_lock_file :: path

definition state_paths_new :: "path \<Rightarrow> state_paths" where
  "state_paths_new p = \<lparr>sp_state_file = p, sp_lock_file = path_parent p @ [LOCK_FILE_NAME]\<rparr>"

text \<open>The environment maps a variable to its value, split into components where it is a path; an
  empty value counts as absent.\<close>

definition non_empty_var :: "(rstring \<Rightarrow> path option) \<Rightarrow> rstring \<Rightarrow> path option" where
  "non_empty_var env name = (case env name of Some v \<Rightarrow> if v = [] then None else Some v | None \<Rightarrow> None)"

definition resolve_state_file :: "(rstring \<Rightarrow> path option) \<Rightarrow> path state_result" where
  "resolve_state_file env =
     (case non_empty_var env STATE_PATH_ENV of
        Some v \<Rightarrow> Inr v
      | None \<Rightarrow>
          (case non_empty_var env (rstr ''XDG_STATE_HOME'') of
             Some xdg \<Rightarrow> Inr (xdg @ [PRODUCT_DIR, STATE_FILE_NAME])
           | None \<Rightarrow>
               (case non_empty_var env (rstr ''HOME'') of
                  Some home \<Rightarrow>
                    Inr (home @ [rstr ''.local'', rstr ''state'', PRODUCT_DIR, STATE_FILE_NAME])
                | None \<Rightarrow> Inl StatePathUnavailable)))"

definition state_paths_resolve :: "(rstring \<Rightarrow> path option) \<Rightarrow> state_paths state_result" where
  "state_paths_resolve env = tryq (resolve_state_file env) (\<lambda>p. Inr (state_paths_new p))"

definition device_lock_path :: "state_paths \<Rightarrow> device_id \<Rightarrow> path" where
  "device_lock_path sp device =
     parent_or_dot (sp_state_file sp) @ [rstr ''device-'' @ device_text device @ rstr ''.lock'']"

definition ensure_parent :: "path \<Rightarrow> unit io" where
  "ensure_parent p = (if path_parent p \<noteq> [] then fs_touch else okp ())"

definition sync_parent :: "path \<Rightarrow> unit io" where
  "sync_parent p = (if path_parent p \<noteq> [] then thenp fs_touch (\<lambda>_. fs_touch) else okp ())"

section \<open>Locks\<close>

definition is_lock_busy :: "io_kind \<Rightarrow> bool" where
  "is_lock_busy e \<longleftrightarrow> e = WouldBlock"

definition try_acquire :: "path \<Rightarrow> unit store_op" where
  "try_acquire p =
     thenp (map_errp (StateIo p) (ensure_parent p)) (\<lambda>_.
     thenp (map_errp (StateIo p) (fs_open_create p)) (\<lambda>_.
     map_errp (\<lambda>e. if is_lock_busy e then LockBusy p else StateIo p e) (fs_try_lock p)))"

text \<open>\<^verbatim>\<open>LockGuard::drop\<close> runs when the guard leaves its scope, whatever the result was.\<close>

definition with_lock :: "path \<Rightarrow> 'a store_op \<Rightarrow> 'a store_op" where
  "with_lock p body =
     thenp (try_acquire p) (\<lambda>_ d. case body d of (r, d') \<Rightarrow> (r, snd (fs_unlock p d')))"

section \<open>Encoding\<close>

record json =
  js_header :: "u8 list \<Rightarrow> (rstring, u32) result"
  js_document :: "u8 list \<Rightarrow> (rstring, state_file) result"
  js_encode :: "state_file \<Rightarrow> (rstring, u8 list) result"

definition is_loadable_bytes :: "json \<Rightarrow> u8 list \<Rightarrow> state_file state_result" where
  "is_loadable_bytes js bytes =
     tryq (map_err StateJson (js_header js bytes)) (\<lambda>found.
     if found \<noteq> SCHEMA_VERSION then Inl (UnsupportedSchema found SCHEMA_VERSION)
     else tryq (map_err StateJson (js_document js bytes)) (\<lambda>file.
       tryq (validate file) (\<lambda>_. Inr file)))"

definition load_state :: "json \<Rightarrow> path \<Rightarrow> state_file store_op" where
  "load_state js p =
     handlep (fs_read p)
       (\<lambda>e. if e = NotFound then okp state_file_default else errp (StateIo p e))
       (\<lambda>bytes.
          thenp (liftp (map_err StateJson (js_header js bytes))) (\<lambda>found.
          if found \<noteq> SCHEMA_VERSION then errp (UnsupportedSchema found SCHEMA_VERSION)
          else thenp (liftp (map_err StateJson (js_document js bytes))) (\<lambda>file.
            thenp (liftp (validate file)) (\<lambda>_. okp file))))"

section \<open>Atomic replacement\<close>

definition show_number :: "nat \<Rightarrow> rstring" where
  "show_number n = rstr (show_nat n)"

definition temp_candidate :: "path \<Rightarrow> nat \<Rightarrow> nat \<Rightarrow> u64 \<Rightarrow> path" where
  "temp_candidate target pid timestamp number =
     parent_or_dot target @ [rstr ''.'' @ path_file_name target @ rstr ''.tmp.'' @ show_number pid
       @ rstr ''.'' @ show_number timestamp @ rstr ''.'' @ show_u64 number]"

definition next_sequence :: "u64 io" where
  "next_sequence d = (Inr (dk_temp_counter d), d\<lparr>dk_temp_counter := dk_temp_counter d + 1\<rparr>)"

fun create_temp_loop :: "path \<Rightarrow> nat \<Rightarrow> u64 list \<Rightarrow> path io" where
  "create_temp_loop target timestamp [] = errp AlreadyExists"
| "create_temp_loop target timestamp (attempt # attempts) =
     thenp next_sequence (\<lambda>number.
     thenp (getp dk_process) (\<lambda>pid.
     let candidate = temp_candidate target pid timestamp (number + attempt)
     in handlep (fs_create_new candidate)
          (\<lambda>e. if e = AlreadyExists then create_temp_loop target timestamp attempts else errp e)
          (\<lambda>_. okp candidate)))"

definition create_temp_file :: "path \<Rightarrow> path io" where
  "create_temp_file target =
     thenp (getp dk_clock) (\<lambda>timestamp. create_temp_loop target timestamp (map of_nat [0..<128]))"

definition write_atomic :: "json \<Rightarrow> path \<Rightarrow> state_file \<Rightarrow> unit store_op" where
  "write_atomic js target st =
     thenp (liftp (validate st)) (\<lambda>_.
     thenp (map_errp (StateIo target) (ensure_parent target)) (\<lambda>_.
     thenp (liftp (map_err StateJson (js_encode js st))) (\<lambda>bytes.
     thenp (map_errp (StateIo target) (create_temp_file target)) (\<lambda>temp.
     handlep (thenp (fs_write_all temp bytes) (\<lambda>_. fs_sync temp))
       (\<lambda>err. thenp (ignorep (fs_remove temp)) (\<lambda>_. errp (StateIo temp err)))
       (\<lambda>_. handlep (fs_rename temp target)
          (\<lambda>err. thenp (ignorep (fs_remove temp)) (\<lambda>_. errp (StateIo target err)))
          (\<lambda>_. map_errp (StateIo target) (sync_parent target)))))))"

section \<open>Discarding an unreadable file\<close>

definition backup_stem :: "path \<Rightarrow> u32 option \<Rightarrow> rstring" where
  "backup_stem target schema =
     (case schema of
        Some found \<Rightarrow> path_file_name target @ rstr ''.unsupported-v'' @ show_number (unat found)
      | None \<Rightarrow> path_file_name target @ rstr ''.unreadable'')"

definition backup_candidate :: "path \<Rightarrow> u32 option \<Rightarrow> nat \<Rightarrow> path" where
  "backup_candidate target schema counter =
     parent_or_dot target @
       [if counter = 1 then backup_stem target schema @ rstr ''.bak''
        else backup_stem target schema @ rstr ''-'' @ show_number counter @ rstr ''.bak'']"

function backup_loop :: "path \<Rightarrow> u8 list \<Rightarrow> u32 option \<Rightarrow> nat \<Rightarrow> path store_op" where
  "backup_loop target bytes schema counter =
     (let candidate = backup_candidate target schema counter
      in handlep (fs_create_new candidate)
           (\<lambda>e. if e = AlreadyExists
                then if counter + 1 > 1000 then errp (StateIo candidate e)
                     else backup_loop target bytes schema (counter + 1)
                else errp (StateIo candidate e))
           (\<lambda>_. thenp (map_errp (StateIo candidate) (fs_write_all candidate bytes)) (\<lambda>_.
                thenp (map_errp (StateIo candidate) fs_touch) (\<lambda>_.
                thenp (map_errp (StateIo candidate) (fs_sync candidate)) (\<lambda>_.
                thenp (ignorep (sync_parent candidate)) (\<lambda>_. okp candidate))))))"
  by pat_completeness auto
termination
  by (relation "measure (\<lambda>(_, _, _, counter). 1000 - counter)") auto

declare backup_loop.simps [simp del]

definition create_backup_exclusive :: "path \<Rightarrow> u8 list \<Rightarrow> u32 option \<Rightarrow> path store_op" where
  "create_backup_exclusive target bytes schema =
     thenp (map_errp (StateIo target) (ensure_parent target)) (\<lambda>_. backup_loop target bytes schema 1)"

record state_reset =
  sr_backup :: "path option"
  sr_discarded_schema :: "u32 option"

definition discard_disk_unreadable :: "json \<Rightarrow> state_paths \<Rightarrow> state_reset store_op" where
  "discard_disk_unreadable js sp =
     (let target = sp_state_file sp
      in with_lock (sp_lock_file sp)
           (handlep (fs_read target)
              (\<lambda>e. if e = NotFound
                   then thenp (write_atomic js target state_file_default) (\<lambda>_.
                     okp \<lparr>sr_backup = None, sr_discarded_schema = None\<rparr>)
                   else errp (StateIo target e))
              (\<lambda>bytes.
                 if is_ok (is_loadable_bytes js bytes)
                 then errp (InvalidState (RefusedDiscard target))
                 else let discarded = (case js_header js bytes of Inr v \<Rightarrow> Some v | Inl _ \<Rightarrow> None)
                      in thenp (create_backup_exclusive target bytes discarded) (\<lambda>backup.
                         thenp (write_atomic js target state_file_default) (\<lambda>_.
                         okp \<lparr>sr_backup = Some backup, sr_discarded_schema = discarded\<rparr>)))))"

section \<open>Transactions\<close>

text \<open>\<^verbatim>\<open>commit\<close>: an unchanged document is not written.\<close>

definition disk_commit :: "json \<Rightarrow> state_paths \<Rightarrow> state_file \<Rightarrow> state_file \<Rightarrow> unit store_op" where
  "disk_commit js sp original st =
     (if st = original then okp () else write_atomic js (sp_state_file sp) st)"

text \<open>\<^verbatim>\<open>mutate_async\<close> commits whatever the closure returns, \<^verbatim>\<open>try_mutate_async\<close> only a
  success.\<close>

definition disk_mutate :: "json \<Rightarrow> state_paths \<Rightarrow> (state_file \<Rightarrow> 'a \<times> state_file) \<Rightarrow> 'a store_op" where
  "disk_mutate js sp f =
     with_lock (sp_lock_file sp)
       (thenp (load_state js (sp_state_file sp)) (\<lambda>original.
          case f original of (r, st) \<Rightarrow> thenp (disk_commit js sp original st) (\<lambda>_. okp r)))"

definition disk_try_mutate ::
  "json \<Rightarrow> state_paths \<Rightarrow> (state_file \<Rightarrow> 'a state_result \<times> state_file) \<Rightarrow> 'a store_op" where
  "disk_try_mutate js sp f =
     with_lock (sp_lock_file sp)
       (thenp (load_state js (sp_state_file sp)) (\<lambda>original.
          case f original of
            (Inl e, _) \<Rightarrow> errp e
          | (Inr r, st) \<Rightarrow> thenp (disk_commit js sp original st) (\<lambda>_. okp r)))"

text \<open>The memory store: the shared document behind its mutex.\<close>

record memory_backend =
  mb_state :: state_file

definition memory_backend_new :: memory_backend where
  "memory_backend_new = \<lparr>mb_state = state_file_default\<rparr>"

definition memory_load :: "(memory_backend, state_error, state_file) prog" where
  "memory_load = getp mb_state"

definition memory_commit :: "state_file \<Rightarrow> state_file \<Rightarrow> (memory_backend, state_error, unit) prog" where
  "memory_commit original st =
     (if st = original then okp ()
      else thenp (liftp (validate st)) (\<lambda>_. modifyp (mb_state_update (\<lambda>_. st))))"

definition memory_mutate ::
  "(state_file \<Rightarrow> 'a \<times> state_file) \<Rightarrow> (memory_backend, state_error, 'a) prog" where
  "memory_mutate f =
     thenp memory_load (\<lambda>original.
       case f original of (r, st) \<Rightarrow> thenp (memory_commit original st) (\<lambda>_. okp r))"

section \<open>What a call leaves alone\<close>

lemma record_call_simps [simp]:
  "dk_clock (record_call d) = dk_clock d" "dk_files (record_call d) = dk_files d"
  "dk_mine (record_call d) = dk_mine d" "file_at p (record_call d) = file_at p d"
  "dk_temp_counter (record_call d) = dk_temp_counter d" "dk_process (record_call d) = dk_process d"
  by (simp_all add: record_call_def file_at_def)

lemma put_file_simps [simp]:
  "dk_clock (put_file p f d) = dk_clock d" "dk_mine (put_file p f d) = dk_mine d"
  "dk_history (put_file p f d) = dk_history d"
  "dk_files (put_file p f d) = (dk_files d)(resolve_path p := f)"
  "file_at q (put_file p f d) = (if resolve_path q = resolve_path p then f else file_at q d)"
  by (simp_all add: put_file_def file_at_def)

lemma append_bytes_simps [simp]:
  "dk_clock (append_bytes p bytes d) = dk_clock d" "dk_mine (append_bytes p bytes d) = dk_mine d"
  "dk_history (append_bytes p bytes d) = dk_history d"
  by (simp_all add: append_bytes_def split: option.split)

lemma file_at_append_bytes:
  "file_at q (append_bytes p bytes d) =
     (if resolve_path q = resolve_path p
      then map_option (\<lambda>f. \<lparr>df_bytes = df_bytes f @ bytes, df_synced = False\<rparr>) (file_at p d)
      else file_at q d)"
  by (auto simp: append_bytes_def file_at_def put_file_def split: option.split)

lemma keeps_io_call:
  assumes "\<And>k d. I d \<Longrightarrow> I (record_call (partial_effect k d))"
    and "\<And>d. I d \<Longrightarrow> I (record_call (snd (effect d)))"
  shows "keeps I (io_call partial_effect effect)"
  using assms by (fastforce simp: keeps_def io_call_def split: option.split prod.split)

lemma keeps_clock:
  "keeps (\<lambda>d. dk_clock d = c) (fs_open_create p)" "keeps (\<lambda>d. dk_clock d = c) fs_touch"
  "keeps (\<lambda>d. dk_clock d = c) (fs_try_lock p)"
  unfolding fs_open_create_def fs_touch_def fs_try_lock_def
  by (rule keeps_io_call; simp split: option.split)+

lemma clock_try_acquire: "keeps (\<lambda>d. dk_clock d = c) (try_acquire p)"
  unfolding try_acquire_def ensure_parent_def by (intro effects keeps_clock)

lemma clock_try_acquire_eq: "try_acquire p d = (r, d') \<Longrightarrow> dk_clock d' = dk_clock d"
  using clock_try_acquire [of "dk_clock d" p] by (auto dest: keepsD)

section \<open>Operation locks\<close>

text \<open>The loop of \<^verbatim>\<open>acquire_operation_lock_disk\<close>: it sleeps between attempts, so the clock
  reaches the deadline.\<close>

function op_lock_loop ::
  "path \<Rightarrow> device_id \<Rightarrow> nat \<Rightarrow> string \<Rightarrow> nat \<Rightarrow> disk \<Rightarrow> (manager_error, unit) result \<times> disk" where
  "op_lock_loop p device timeout operation deadline d =
     (case try_acquire p d of
        (Inr _, d') \<Rightarrow> (Inr (), d')
      | (Inl e, d') \<Rightarrow>
          (case e of
             LockBusy _ \<Rightarrow>
               if dk_clock d' \<ge> deadline
               then (Inl (DeviceOperationBusy device operation timeout p), d')
               else op_lock_loop p device timeout operation deadline (snd (fs_sleep 5000000 d'))
           | _ \<Rightarrow> (Inl (StateFailure e), d')))"
  by pat_completeness auto
termination
  by (relation "measure (\<lambda>(_, _, _, _, deadline, d). deadline - dk_clock d)")
    (auto simp: fs_sleep_def modifyp_def dest: clock_try_acquire_eq [OF sym])

declare op_lock_loop.simps [simp del]

definition acquire_operation_lock_disk ::
  "state_paths \<Rightarrow> device_id \<Rightarrow> nat \<Rightarrow> string \<Rightarrow> (disk, manager_error, unit) prog" where
  "acquire_operation_lock_disk sp device timeout operation =
     (let p = device_lock_path sp device
      in thenp (map_errp (\<lambda>e. StateFailure (StateIo p e)) (ensure_parent p)) (\<lambda>_.
         thenp (getp dk_clock) (\<lambda>started.
         op_lock_loop p device timeout operation (started + timeout))))"

end
