(* ===== verification/X3_Store_Facts.thy ===== *)
theory X3_Store_Facts
  imports X3_Store
begin

text \<open>
  What the durable store promises: the target file is the old document or the complete new one at
  every point of a replacement, discarding an unreadable file preserves its bytes, a transaction on
  disk is one on the abstract document, and waiting for an operation lock is bounded.
\<close>

section \<open>Snapshots\<close>

text \<open>The states of the files recorded since \<open>d0\<close>, and a run all of whose states satisfy \<open>J\<close>.\<close>

definition since :: "disk \<Rightarrow> disk \<Rightarrow> (files \<times> path set) list" where
  "since d0 d = take (length (dk_history d) - length (dk_history d0)) (dk_history d)"

definition safe :: "(files \<Rightarrow> path set \<Rightarrow> bool) \<Rightarrow> disk \<Rightarrow> disk \<Rightarrow> bool" where
  "safe J d0 d \<longleftrightarrow> J (dk_files d) (dk_mine d)
     \<and> (\<exists>hs. dk_history d = hs @ dk_history d0 \<and> list_all (\<lambda>(fs, locks). J fs locks) hs)"

lemma safe_start: "J (dk_files d) (dk_mine d) \<Longrightarrow> safe J d d"
  by (simp add: safe_def)

lemma safe_files: "safe J d0 d \<Longrightarrow> J (dk_files d) (dk_mine d)"
  by (simp add: safe_def)

lemma safe_since: "safe J d0 d \<Longrightarrow> list_all (\<lambda>(fs, locks). J fs locks) (since d0 d)"
  by (auto simp: safe_def since_def)

text \<open>A call keeps a run safe when the files and locks it leaves satisfy \<open>J\<close>.\<close>

lemma safe_record_call:
  "safe J d0 d \<Longrightarrow> dk_history d' = dk_history d \<Longrightarrow> J (dk_files d') (dk_mine d') \<Longrightarrow>
   safe J d0 (record_call d')"
  by (auto simp: safe_def record_call_def)

lemma safe_cong:
  "safe J d0 d \<Longrightarrow> dk_history d' = dk_history d \<Longrightarrow> dk_files d' = dk_files d \<Longrightarrow>
   dk_mine d' = dk_mine d \<Longrightarrow> safe J d0 d'"
  by (simp add: safe_def)

lemma triple_io_call:
  assumes "\<And>s k code. P s \<Longrightarrow> R (OtherIo code) (record_call (partial_effect k s))"
    and "\<And>s x s'. P s \<Longrightarrow> effect s = (Inr x, s') \<Longrightarrow> Q x (record_call s')"
    and "\<And>s e s'. P s \<Longrightarrow> effect s = (Inl e, s') \<Longrightarrow> R e (record_call s')"
  shows "triple P (io_call partial_effect effect) Q R"
  by (rule tripleI)
    (auto simp: io_call_def intro: assms split: option.splits prod.splits)

section \<open>Temporary files\<close>

lemma resolve_parent_or_dot [simp]:
  "resolve_path (parent_or_dot p) = resolve_path (butlast p)"
  by (auto simp: parent_or_dot_def path_parent_def resolve_path_def)

lemma resolve_append [simp]: "resolve_path (p @ q) = resolve_path p @ resolve_path q"
  by (simp add: resolve_path_def)

lemma resolve_split:
  "p \<noteq> [] \<Longrightarrow> resolve_path p = resolve_path (butlast p) @ resolve_path [last p]"
  by (metis append_butlast_last_id resolve_append)

text \<open>A sibling whose name is longer than the target's is not the target.\<close>

lemma sibling_neq:
  assumes "length n > length (path_file_name target)" and "length n > 1"
  shows "resolve_path (parent_or_dot target @ [n]) \<noteq> resolve_path target"
proof -
  have n: "resolve_path [n] = [n]"
    using assms(2) by (auto simp: resolve_path_def rstr_def)
  show ?thesis
  proof (cases "target = []")
    case True
    with n show ?thesis by (simp add: resolve_path_def)
  next
    case False
    with assms(1) have "n \<noteq> last target" by (auto simp: path_file_name_def)
    with False n show ?thesis
      by (auto simp: resolve_split [OF False]) (auto simp: resolve_path_def split: if_splits)
  qed
qed

lemma temp_candidate_neq:
  "resolve_path (temp_candidate target pid timestamp number) \<noteq> resolve_path target"
  unfolding temp_candidate_def by (rule sibling_neq) (simp_all add: rstr_def)

section \<open>Replacing a file\<close>

text \<open>At every point the target is the old file or a complete, synchronised new one, the other files
  that existed are untouched, and the locks stay held.\<close>

definition new_file :: "json \<Rightarrow> state_file \<Rightarrow> disk_file \<Rightarrow> bool" where
  "new_file js st f \<longleftrightarrow> validate st = Inr () \<and> js_encode js st = Inr (df_bytes f) \<and> df_synced f"

definition untouched :: "path set \<Rightarrow> files \<Rightarrow> files \<Rightarrow> bool" where
  "untouched ps fs fs' \<longleftrightarrow> (\<forall>q. q \<notin> ps \<and> fs q \<noteq> None \<longrightarrow> fs' q = fs q)"

definition replacing :: "json \<Rightarrow> path \<Rightarrow> state_file \<Rightarrow> disk \<Rightarrow> files \<Rightarrow> path set \<Rightarrow> bool" where
  "replacing js target st d0 fs locks \<longleftrightarrow>
     (fs (resolve_path target) = file_at target d0
        \<or> (\<exists>f. fs (resolve_path target) = Some f \<and> new_file js st f))
     \<and> untouched {resolve_path target} (dk_files d0) fs \<and> locks = dk_mine d0"

lemma untouched_refl [simp]: "untouched ps fs fs"
  by (simp add: untouched_def)

lemma untouched_trans: "untouched {} a b \<Longrightarrow> untouched ps b c \<Longrightarrow> untouched ps a c"
  by (simp add: untouched_def)

lemma untouched_upd:
  "untouched ps fs fs' \<Longrightarrow> q \<in> ps \<or> fs q = None \<Longrightarrow> untouched ps fs (fs'(q := f))"
  by (auto simp: untouched_def)

lemma replacing_start [simp]: "replacing js target st d0 (dk_files d0) (dk_mine d0)"
  by (simp add: replacing_def file_at_def)

lemma replacing_fresh:
  "replacing js target st d0 fs locks \<Longrightarrow> q \<noteq> resolve_path target \<Longrightarrow> dk_files d0 q = None \<Longrightarrow>
   replacing js target st d0 (fs(q := f)) locks"
  by (auto simp: replacing_def intro: untouched_upd)

text \<open>A state of a replacement: its past is safe, and the target is as \<open>T\<close> says.\<close>

definition at_point :: "json \<Rightarrow> path \<Rightarrow> state_file \<Rightarrow> disk \<Rightarrow> (disk_file option \<Rightarrow> bool) \<Rightarrow> disk \<Rightarrow> bool" where
  "at_point js target st d0 T d \<longleftrightarrow> safe (replacing js target st d0) d0 d \<and> T (file_at target d)"

lemma at_point_call:
  assumes "at_point js target st d0 T d" and "dk_history d' = dk_history d"
    and "replacing js target st d0 (dk_files d') (dk_mine d')" and "T' (file_at target d')"
  shows "at_point js target st d0 T' (record_call d')"
  using assms by (auto simp: at_point_def intro: safe_record_call)

lemma at_point_same_call:
  assumes "at_point js target st d0 T d" shows "at_point js target st d0 T (record_call d)"
  using assms by (auto simp: at_point_def intro: safe_record_call dest: safe_files)

lemma touch_point:
  "triple (at_point js target st d0 T) fs_touch (\<lambda>_. at_point js target st d0 T)
     (\<lambda>_. at_point js target st d0 T)"
  unfolding fs_touch_def by (rule triple_io_call) (auto intro: at_point_same_call)

lemma touch_point_fault:
  "triple (at_point js target st d0 T) fs_touch (\<lambda>_. at_point js target st d0 T)
     (\<lambda>e d. at_point js target st d0 T d \<and> (\<exists>code. e = OtherIo code))"
  unfolding fs_touch_def by (rule triple_io_call) (auto intro: at_point_same_call)

lemma ensure_point:
  "triple (at_point js target st d0 T) (ensure_parent p) (\<lambda>_. at_point js target st d0 T)
     (\<lambda>_. at_point js target st d0 T)"
  unfolding ensure_parent_def by (intro triple_if touch_point triple_okp)

lemma sync_point:
  "triple (at_point js target st d0 T) (sync_parent p) (\<lambda>_. at_point js target st d0 T)
     (\<lambda>e d. at_point js target st d0 T d \<and> (\<exists>code. e = OtherIo code))"
  unfolding sync_parent_def
  by (rule triple_if; (rule triple_thenp [OF touch_point_fault touch_point_fault] | rule triple_okp))

text \<open>The temporary file: fresh, a sibling of the target.\<close>

definition temp_point ::
  "json \<Rightarrow> path \<Rightarrow> state_file \<Rightarrow> disk \<Rightarrow> path \<Rightarrow> (disk_file option \<Rightarrow> bool) \<Rightarrow> disk \<Rightarrow> bool" where
  "temp_point js target st d0 temp C d \<longleftrightarrow>
     at_point js target st d0 (\<lambda>f. f = file_at target d0) d
     \<and> resolve_path temp \<noteq> resolve_path target \<and> dk_files d0 (resolve_path temp) = None
     \<and> C (file_at temp d)"

abbreviation old_point :: "json \<Rightarrow> path \<Rightarrow> state_file \<Rightarrow> disk \<Rightarrow> disk \<Rightarrow> bool" where
  "old_point js target st d0 \<equiv> at_point js target st d0 (\<lambda>f. f = file_at target d0)"

lemma old_point_files:
  "old_point js target st d0 d \<Longrightarrow> replacing js target st d0 (dk_files d) (dk_mine d)"
  by (auto simp: at_point_def dest: safe_files)

lemma replacing_fresh_iff:
  "replacing js target st d0 fs locks \<Longrightarrow> fs q = None \<Longrightarrow> q \<noteq> resolve_path target \<Longrightarrow>
   dk_files d0 q = None"
  by (fastforce simp: replacing_def untouched_def)

lemma create_new_point:
  assumes neq: "resolve_path temp \<noteq> resolve_path target"
  shows "triple (old_point js target st d0) (fs_create_new temp)
    (\<lambda>_. temp_point js target st d0 temp (\<lambda>f. f = Some \<lparr>df_bytes = [], df_synced = False\<rparr>))
    (\<lambda>_. old_point js target st d0)"
  unfolding fs_create_new_def
proof (rule triple_io_call)
  fix s x s'
  assume p: "old_point js target st d0 s"
    and e: "(case file_at temp s of Some _ \<Rightarrow> (Inl AlreadyExists, s)
      | None \<Rightarrow> (Inr (), put_file temp (Some \<lparr>df_bytes = [], df_synced = False\<rparr>) s)) = (Inr x, s')"
  then have none: "file_at temp s = None"
    and s': "s' = put_file temp (Some \<lparr>df_bytes = [], df_synced = False\<rparr>) s"
    by (auto split: option.splits)
  have r: "replacing js target st d0 (dk_files s) (dk_mine s)" by (rule old_point_files [OF p])
  have fresh: "dk_files d0 (resolve_path temp) = None"
    using replacing_fresh_iff [OF r] none neq by (simp add: file_at_def)
  have "old_point js target st d0 (record_call s')"
    using p r neq fresh by (auto simp: s' at_point_def intro: at_point_call replacing_fresh
        intro!: safe_record_call)
  then show "temp_point js target st d0 temp (\<lambda>f. f = Some \<lparr>df_bytes = [], df_synced = False\<rparr>)
      (record_call s')"
    using neq fresh by (simp add: temp_point_def s')
qed (auto intro: at_point_same_call split: option.splits)

text \<open>Changing the temporary file only.\<close>

lemma temp_point_put:
  assumes "temp_point js target st d0 temp C d" and "C' f"
  shows "temp_point js target st d0 temp C' (record_call (put_file temp f d))"
proof -
  have p: "old_point js target st d0 d" and neq: "resolve_path temp \<noteq> resolve_path target"
    and fresh: "dk_files d0 (resolve_path temp) = None"
    using assms(1) by (simp_all add: temp_point_def)
  have "old_point js target st d0 (record_call (put_file temp f d))"
    using p old_point_files [OF p] neq fresh
    by (auto simp: at_point_def intro: replacing_fresh intro!: safe_record_call)
  with neq fresh assms(2) show ?thesis by (simp add: temp_point_def)
qed

lemma temp_point_call:
  "temp_point js target st d0 temp C d \<Longrightarrow> (\<And>f. C f \<Longrightarrow> C' f) \<Longrightarrow>
   temp_point js target st d0 temp C' (record_call d)"
  by (auto simp: temp_point_def intro: at_point_same_call)

lemma temp_point_append:
  assumes "temp_point js target st d0 temp (\<lambda>f. f = Some \<lparr>df_bytes = [], df_synced = False\<rparr>) d"
  shows "temp_point js target st d0 temp (\<lambda>f. f = Some \<lparr>df_bytes = bytes, df_synced = False\<rparr>)
    (record_call (append_bytes temp bytes d))"
  using assms temp_point_put [OF assms]
  by (auto simp: append_bytes_def temp_point_def)

abbreviation temp_any :: "json \<Rightarrow> path \<Rightarrow> state_file \<Rightarrow> disk \<Rightarrow> path \<Rightarrow> disk \<Rightarrow> bool" where
  "temp_any js target st d0 temp \<equiv> temp_point js target st d0 temp (\<lambda>_. True)"

lemma temp_any: "temp_point js target st d0 temp C d \<Longrightarrow> temp_any js target st d0 temp d"
  by (simp add: temp_point_def)

lemma write_all_point:
  "triple (temp_point js target st d0 temp (\<lambda>f. f = Some \<lparr>df_bytes = [], df_synced = False\<rparr>))
    (fs_write_all temp bytes)
    (\<lambda>_. temp_point js target st d0 temp (\<lambda>f. f = Some \<lparr>df_bytes = bytes, df_synced = False\<rparr>))
    (\<lambda>_. temp_any js target st d0 temp)"
  unfolding fs_write_all_def
  by (rule triple_io_call) (auto intro: temp_any temp_point_append)

lemma sync_file_point:
  "triple (temp_point js target st d0 temp (\<lambda>f. f = Some \<lparr>df_bytes = bytes, df_synced = False\<rparr>))
    (fs_sync temp)
    (\<lambda>_. temp_point js target st d0 temp (\<lambda>f. f = Some \<lparr>df_bytes = bytes, df_synced = True\<rparr>))
    (\<lambda>_. temp_any js target st d0 temp)"
  unfolding fs_sync_def
proof (rule triple_io_call)
  fix s x s'
  assume p: "temp_point js target st d0 temp (\<lambda>f. f = Some \<lparr>df_bytes = bytes, df_synced = False\<rparr>) s"
    and "(Inr (), case file_at temp s of None \<Rightarrow> s
        | Some f \<Rightarrow> put_file temp (Some (f\<lparr>df_synced := True\<rparr>)) s) = (Inr x, s')"
  then have "s' = put_file temp (Some \<lparr>df_bytes = bytes, df_synced = True\<rparr>) s"
    by (auto simp: temp_point_def split: option.splits)
  then show "temp_point js target st d0 temp (\<lambda>f. f = Some \<lparr>df_bytes = bytes, df_synced = True\<rparr>)
      (record_call s')"
    using temp_point_put [OF p] by simp
qed (auto intro: temp_point_call)

lemma remove_point:
  "triple (temp_any js target st d0 temp) (fs_remove temp) (\<lambda>_. old_point js target st d0)
     (\<lambda>_. old_point js target st d0)"
  unfolding fs_remove_def
proof (rule triple_io_call)
  fix s x s'
  assume "temp_any js target st d0 temp s"
    and "(case file_at temp s of None \<Rightarrow> (Inl NotFound, s) | Some _ \<Rightarrow> (Inr (), put_file temp None s)) = (Inr x, s')"
  then show "old_point js target st d0 (record_call s')"
    using temp_point_put [of js target st d0 temp "\<lambda>_. True" s "\<lambda>_. True" None]
    by (auto simp: temp_point_def split: option.splits)
qed (auto simp: temp_point_def intro: at_point_same_call split: option.splits)

lemma rename_point:
  assumes "validate st = Inr ()" and "js_encode js st = Inr bytes"
  shows "triple (temp_point js target st d0 temp (\<lambda>f. f = Some \<lparr>df_bytes = bytes, df_synced = True\<rparr>))
    (fs_rename temp target)
    (\<lambda>_. at_point js target st d0 (\<lambda>f. f = Some \<lparr>df_bytes = bytes, df_synced = True\<rparr>))
    (\<lambda>_. temp_any js target st d0 temp)"
  unfolding fs_rename_def
proof (rule triple_io_call)
  fix s x s'
  assume p: "temp_point js target st d0 temp (\<lambda>f. f = Some \<lparr>df_bytes = bytes, df_synced = True\<rparr>) s"
    and "(case file_at temp s of None \<Rightarrow> (Inl NotFound, s)
        | Some f \<Rightarrow> (Inr (), put_file target (Some f) (put_file temp None s))) = (Inr x, s')"
  then have s': "s' = put_file target (Some \<lparr>df_bytes = bytes, df_synced = True\<rparr>) (put_file temp None s)"
    by (auto simp: temp_point_def split: option.splits)
  have old: "old_point js target st d0 s" and neq: "resolve_path temp \<noteq> resolve_path target"
    and fresh: "dk_files d0 (resolve_path temp) = None"
    using p by (simp_all add: temp_point_def)
  have "new_file js st \<lparr>df_bytes = bytes, df_synced = True\<rparr>"
    using assms by (simp add: new_file_def)
  then have "replacing js target st d0 (dk_files s') (dk_mine s')"
    using old_point_files [OF old] fresh
    by (auto simp: s' replacing_def intro!: untouched_upd)
  then show "at_point js target st d0 (\<lambda>f. f = Some \<lparr>df_bytes = bytes, df_synced = True\<rparr>) (record_call s')"
    using old by (auto simp: s' at_point_def intro!: safe_record_call)
qed (auto simp: intro: temp_any temp_point_call split: option.splits)

abbreviation empty_temp :: "json \<Rightarrow> path \<Rightarrow> state_file \<Rightarrow> disk \<Rightarrow> path \<Rightarrow> disk \<Rightarrow> bool" where
  "empty_temp js target st d0 temp \<equiv>
     temp_point js target st d0 temp (\<lambda>f. f = Some \<lparr>df_bytes = [], df_synced = False\<rparr>)"

lemma sequence_point:
  "triple (old_point js target st d0) next_sequence (\<lambda>_. old_point js target st d0)
     (\<lambda>_. old_point js target st d0)"
  by (rule tripleI) (auto simp: next_sequence_def at_point_def file_at_def elim: safe_cong)

lemma temp_loop_point:
  "triple (old_point js target st d0) (create_temp_loop target timestamp attempts)
     (\<lambda>temp. empty_temp js target st d0 temp) (\<lambda>_. old_point js target st d0)"
proof (induction attempts)
  case Nil
  show ?case by (simp add: triple_errp)
next
  case (Cons attempt attempts)
  have body: "triple (old_point js target st d0)
      (handlep (fs_create_new (temp_candidate target pid timestamp number))
        (\<lambda>e. if e = AlreadyExists then create_temp_loop target timestamp attempts else errp e)
        (\<lambda>_. okp (temp_candidate target pid timestamp number)))
      (\<lambda>temp. empty_temp js target st d0 temp) (\<lambda>_. old_point js target st d0)" for pid number
    by (rule triple_handlep [OF create_new_point [OF temp_candidate_neq]])
      (auto intro: Cons.IH triple_errp triple_okp)
  have "triple (old_point js target st d0) (getp dk_process) (\<lambda>_. old_point js target st d0)
      (\<lambda>_. old_point js target st d0)"
    by (rule triple_getp)
  then show ?case
    unfolding create_temp_loop.simps Let_def
    by (rule triple_thenp [OF sequence_point triple_thenp [OF _ body]])
qed

lemma create_temp_point:
  "triple (old_point js target st d0) (create_temp_file target)
     (\<lambda>temp. empty_temp js target st d0 temp) (\<lambda>_. old_point js target st d0)"
proof -
  have "triple (old_point js target st d0) (getp dk_clock) (\<lambda>_. old_point js target st d0)
      (\<lambda>_. old_point js target st d0)"
    by (rule triple_getp)
  then show ?thesis
    unfolding create_temp_file_def by (rule triple_thenp [OF _ temp_loop_point])
qed

text \<open>The outcome: a success leaves the new document; after a failure the old one is in place, or
  the new one when only synchronising the directory failed.\<close>

definition replace_failed ::
  "json \<Rightarrow> path \<Rightarrow> state_file \<Rightarrow> disk \<Rightarrow> state_error \<Rightarrow> disk \<Rightarrow> bool" where
  "replace_failed js target st d0 e d \<longleftrightarrow>
     old_point js target st d0 d
     \<or> (\<exists>code. e = StateIo target (OtherIo code))
        \<and> at_point js target st d0 (\<lambda>f. \<exists>g. f = Some g \<and> new_file js st g) d"

lemma failed_old: "old_point js target st d0 d \<Longrightarrow> replace_failed js target st d0 e d"
  by (simp add: replace_failed_def)

lemma write_atomic_contract:
  "triple (old_point js target st d0) (write_atomic js target st)
     (\<lambda>_. at_point js target st d0 (\<lambda>f. \<exists>g. f = Some g \<and> new_file js st g))
     (replace_failed js target st d0)"
proof (cases "validate st")
  case (Inl err)
  then show ?thesis by (auto simp: write_atomic_def intro: triple_errp failed_old)
next
  case v: (Inr u)
  have ensure: "triple (old_point js target st d0) (map_errp (StateIo target) (ensure_parent target))
      (\<lambda>_. old_point js target st d0) (replace_failed js target st d0)"
    by (rule triple_map_errp, rule triple_conseq [OF ensure_point]) (auto intro: failed_old)
  show ?thesis
  proof (cases "js_encode js st")
    case (Inl err)
    then show ?thesis
      by (auto simp: write_atomic_def v intro!: triple_thenp [OF ensure] triple_errp failed_old)
  next
    case e: (Inr bytes)
    let ?new = "at_point js target st d0 (\<lambda>f. f = Some \<lparr>df_bytes = bytes, df_synced = True\<rparr>)"
    have new: "at_point js target st d0 (\<lambda>f. \<exists>g. f = Some g \<and> new_file js st g) d" if "?new d" for d
      using that v e by (auto simp: at_point_def new_file_def)
    have drop_temp: "triple (temp_any js target st d0 temp)
        (thenp (ignorep (fs_remove temp)) (\<lambda>_. errp err)) Q (replace_failed js target st d0)"
      for temp Q err
      by (rule triple_thenp [where T = "\<lambda>_. old_point js target st d0"])
        (auto intro: triple_ignorep remove_point triple_errp failed_old)
    have sync: "triple ?new (map_errp (StateIo target) (sync_parent target))
        (\<lambda>_. at_point js target st d0 (\<lambda>f. \<exists>g. f = Some g \<and> new_file js st g))
        (replace_failed js target st d0)"
      by (rule triple_map_errp, rule triple_conseq [OF sync_point])
        (auto simp: replace_failed_def new)
    have fill: "triple (empty_temp js target st d0 temp)
        (thenp (fs_write_all temp bytes) (\<lambda>_. fs_sync temp))
        (\<lambda>_. temp_point js target st d0 temp (\<lambda>f. f = Some \<lparr>df_bytes = bytes, df_synced = True\<rparr>))
        (\<lambda>_. temp_any js target st d0 temp)" for temp
      by (rule triple_thenp [OF write_all_point sync_file_point])
    have create: "triple (old_point js target st d0) (map_errp (StateIo target) (create_temp_file target))
        (\<lambda>temp. empty_temp js target st d0 temp) (replace_failed js target st d0)"
      by (rule triple_map_errp, rule triple_conseq [OF create_temp_point]) (auto intro: failed_old)
    have v': "validate st = Inr ()" using v by simp
    show ?thesis
      unfolding write_atomic_def v e map_err_simps thenp_liftp
      by (rule triple_thenp [OF ensure triple_thenp [OF create
            triple_handlep [OF fill drop_temp triple_handlep [OF rename_point [OF v' e] drop_temp sync]]]])
  qed
qed

section \<open>Discarding an unreadable file\<close>

lemma backup_candidate_neq:
  "resolve_path (backup_candidate target schema counter) \<noteq> resolve_path target"
  unfolding backup_candidate_def
  by (rule sibling_neq) (auto simp: backup_stem_def rstr_def split: option.split)

lemma touch_temp:
  "triple (temp_point js target st d0 temp C) fs_touch (\<lambda>_. temp_point js target st d0 temp C)
     (\<lambda>_. temp_point js target st d0 temp C)"
  unfolding fs_touch_def by (rule triple_io_call) (auto intro: temp_point_call)

lemma sync_parent_temp:
  "triple (temp_point js target st d0 temp C) (ignorep (sync_parent p))
     (\<lambda>_. temp_point js target st d0 temp C) R"
  unfolding sync_parent_def
  by (rule triple_ignorep, rule triple_if)
    (auto intro: triple_thenp [OF touch_temp touch_temp] triple_okp)

lemma temp_any_old: "temp_point js target st d0 temp C d \<Longrightarrow> old_point js target st d0 d"
  by (simp add: temp_point_def)

lemma fill_backup:
  "triple (empty_temp js target st d0 p)
     (thenp (map_errp (StateIo p) (fs_write_all p bytes)) (\<lambda>_.
      thenp (map_errp (StateIo p) fs_touch) (\<lambda>_.
      thenp (map_errp (StateIo p) (fs_sync p)) (\<lambda>_.
      thenp (ignorep (sync_parent p)) (\<lambda>_. okp p)))))
     (\<lambda>q. temp_point js target st d0 q (\<lambda>f. f = Some \<lparr>df_bytes = bytes, df_synced = True\<rparr>))
     (\<lambda>_. old_point js target st d0)"
proof -
  have w: "triple (empty_temp js target st d0 p) (map_errp (StateIo p) (fs_write_all p bytes))
      (\<lambda>_. temp_point js target st d0 p (\<lambda>f. f = Some \<lparr>df_bytes = bytes, df_synced = False\<rparr>))
      (\<lambda>_. old_point js target st d0)"
    by (rule triple_map_errp, rule triple_conseq [OF write_all_point]) (auto intro: temp_any_old)
  have t: "triple (temp_point js target st d0 p C) (map_errp (StateIo p) fs_touch)
      (\<lambda>_. temp_point js target st d0 p C) (\<lambda>_. old_point js target st d0)" for C
    by (rule triple_map_errp, rule triple_conseq [OF touch_temp]) (auto intro: temp_any_old)
  have y: "triple (temp_point js target st d0 p (\<lambda>f. f = Some \<lparr>df_bytes = bytes, df_synced = False\<rparr>))
      (map_errp (StateIo p) (fs_sync p))
      (\<lambda>_. temp_point js target st d0 p (\<lambda>f. f = Some \<lparr>df_bytes = bytes, df_synced = True\<rparr>))
      (\<lambda>_. old_point js target st d0)"
    by (rule triple_map_errp, rule triple_conseq [OF sync_file_point]) (auto intro: temp_any_old)
  show ?thesis
    by (rule triple_thenp [OF w triple_thenp [OF t triple_thenp [OF y
          triple_thenp [OF sync_parent_temp triple_okp]]]])
qed

lemma backup_loop_point:
  "triple (old_point js target st d0) (backup_loop target bytes schema counter)
     (\<lambda>q. temp_point js target st d0 q (\<lambda>f. f = Some \<lparr>df_bytes = bytes, df_synced = True\<rparr>))
     (\<lambda>_. old_point js target st d0)"
proof (induction "1000 - counter" arbitrary: counter rule: less_induct)
  case less
  have "triple (old_point js target st d0) (backup_loop target bytes schema (counter + 1))
      (\<lambda>q. temp_point js target st d0 q (\<lambda>f. f = Some \<lparr>df_bytes = bytes, df_synced = True\<rparr>))
      (\<lambda>_. old_point js target st d0)" if "\<not> counter + 1 > 1000"
    using that by (intro less) simp
  then show ?case
    by (subst backup_loop.simps, unfold Let_def,
        intro triple_handlep [OF create_new_point [OF backup_candidate_neq] _ fill_backup])
      (intro triple_if triple_errp; simp)
qed

text \<open>A copy of the file \<open>f\<close>: still at the target, or complete and synchronised at a path that was
  free before.\<close>

definition copy_kept :: "path \<Rightarrow> disk \<Rightarrow> disk_file \<Rightarrow> files \<Rightarrow> bool" where
  "copy_kept target d0 f fs \<longleftrightarrow> untouched {resolve_path target} (dk_files d0) fs
     \<and> (fs (resolve_path target) = Some f
        \<or> (\<exists>p. dk_files d0 (resolve_path p) = None
             \<and> fs (resolve_path p) = Some \<lparr>df_bytes = df_bytes f, df_synced = True\<rparr>))"

definition kept_at :: "path \<Rightarrow> disk \<Rightarrow> disk_file \<Rightarrow> disk \<Rightarrow> bool" where
  "kept_at target d0 f d \<longleftrightarrow> safe (\<lambda>fs _. copy_kept target d0 f fs) d0 d"

definition untouched_at :: "path \<Rightarrow> disk \<Rightarrow> disk_file \<Rightarrow> disk \<Rightarrow> bool" where
  "untouched_at target d0 f d \<longleftrightarrow> kept_at target d0 f d \<and> file_at target d = Some f
     \<and> untouched {} (dk_files d0) (dk_files d)"

lemma untouched_at_start: "file_at target d = Some f \<Longrightarrow> untouched_at target d f d"
  by (auto simp: untouched_at_def kept_at_def copy_kept_def file_at_def intro: safe_start)

lemma kept_at_call:
  assumes "kept_at target d0 f d" and "dk_history d' = dk_history d"
    and "copy_kept target d0 f (dk_files d')"
  shows "kept_at target d0 f (record_call d')"
  using assms unfolding kept_at_def by (auto intro: safe_record_call)

lemma untouched_at_call:
  "untouched_at target d0 f d \<Longrightarrow> untouched_at target d0 f (record_call d)"
  by (auto simp: untouched_at_def kept_at_def intro: safe_record_call dest: safe_files)

lemma untouched_at_open:
  assumes "untouched_at target d0 f d" and "file_at p d = None"
  shows "untouched_at target d0 f (record_call (put_file p g d))"
proof -
  have t: "file_at target d = Some f" and u: "untouched {} (dk_files d0) (dk_files d)"
    and k: "kept_at target d0 f d"
    using assms(1) by (simp_all add: untouched_at_def)
  have "resolve_path p \<noteq> resolve_path target" using t assms(2) by (auto simp: file_at_def)
  moreover have "dk_files d0 (resolve_path p) = None"
    using u assms(2) by (auto simp: untouched_def file_at_def)
  ultimately show ?thesis
    using t u k
    by (auto simp: untouched_at_def copy_kept_def file_at_def untouched_def
        intro!: kept_at_call [OF k])
qed

lemma acquire_untouched:
  "triple (untouched_at target d0 f) (try_acquire p) (\<lambda>_. untouched_at target d0 f)
     (\<lambda>_. untouched_at target d0 f)"
proof -
  have e: "triple (untouched_at target d0 f) (map_errp (StateIo p) (ensure_parent p))
      (\<lambda>_. untouched_at target d0 f) (\<lambda>_. untouched_at target d0 f)"
    unfolding ensure_parent_def fs_touch_def
    by (intro triple_map_errp triple_if triple_okp triple_io_call) (auto intro: untouched_at_call)
  have o: "triple (untouched_at target d0 f) (map_errp (StateIo p) (fs_open_create p))
      (\<lambda>_. untouched_at target d0 f) (\<lambda>_. untouched_at target d0 f)"
    unfolding fs_open_create_def
    by (intro triple_map_errp triple_io_call)
      (auto intro: untouched_at_call untouched_at_open split: option.splits)
  have l: "triple (untouched_at target d0 f)
      (map_errp (\<lambda>e. if is_lock_busy e then LockBusy p else StateIo p e) (fs_try_lock p))
      (\<lambda>_. untouched_at target d0 f) (\<lambda>_. untouched_at target d0 f)"
    unfolding fs_try_lock_def
    by (intro triple_map_errp triple_io_call)
      (auto simp: untouched_at_def kept_at_def file_at_def split: if_splits
        intro!: safe_record_call dest: safe_files)
  show ?thesis
    unfolding try_acquire_def by (rule triple_thenp [OF e triple_thenp [OF o l]])
qed

lemma triple_with_lock:
  assumes "triple P (try_acquire p) (\<lambda>_. M) R" and "triple M body Q R"
    and "\<And>x s. Q x s \<Longrightarrow> Q x (snd (fs_unlock p s))" and "\<And>e s. R e s \<Longrightarrow> R e (snd (fs_unlock p s))"
  shows "triple P (with_lock p body) Q R"
proof -
  have "triple M (\<lambda>d. case body d of (r, d') \<Rightarrow> (r, snd (fs_unlock p d'))) Q R"
    using assms(2-4) unfolding triple_iff by (fastforce split: prod.splits)
  with assms(1) show ?thesis
    unfolding with_lock_def by (rule triple_thenp)
qed

lemma safe_trans:
  assumes "safe J d0 d1" and "safe K d1 d2" and "\<And>fs l. K fs l \<Longrightarrow> J fs l"
  shows "safe J d0 d2"
  using assms by (fastforce simp: safe_def list_all_iff)

text \<open>Between two points: a run whose snapshots satisfy \<open>replacing\<close> from a state that keeps a copy
  at another path keeps that copy.\<close>

lemma kept_through:
  assumes k: "kept_at target d0 f d1" and u: "untouched {} (dk_files d0) (dk_files d1)"
    and c: "dk_files d1 (resolve_path p) = Some \<lparr>df_bytes = df_bytes f, df_synced = True\<rparr>"
    and neq: "resolve_path p \<noteq> resolve_path target" and fresh: "dk_files d0 (resolve_path p) = None"
    and run: "safe (replacing js target st d1) d1 d2"
  shows "kept_at target d0 f d2"
  unfolding kept_at_def
proof (rule safe_trans [OF k [unfolded kept_at_def] run])
  fix fs l
  assume "replacing js target st d1 fs l"
  then have r: "untouched {resolve_path target} (dk_files d1) fs" by (simp add: replacing_def)
  have "untouched {resolve_path target} (dk_files d0) fs"
    using u r by (rule untouched_trans)
  moreover have "fs (resolve_path p) = Some \<lparr>df_bytes = df_bytes f, df_synced = True\<rparr>"
    using r c neq by (simp add: untouched_def)
  ultimately show "copy_kept target d0 f fs"
    using fresh by (auto simp: copy_kept_def)
qed

text \<open>A document that does not validate is never written, so a replacement of it leaves the target.\<close>

definition unwritable :: state_file where
  "unwritable = state_file_default\<lparr>sf_schema_version := 0\<rparr>"

lemma unwritable [simp]: "\<not> new_file js unwritable f"
  by (simp add: new_file_def unwritable_def validate_def SCHEMA_VERSION_def state_file_default_def)

lemma unwritten:
  assumes u: "untouched_at target d0 f d1" and run: "safe (replacing js target unwritable d1) d1 d2"
  shows "untouched_at target d0 f d2"
proof -
  have same: "fs (resolve_path target) = Some f \<and> untouched {} (dk_files d0) fs"
    if "replacing js target unwritable d1 fs l" for fs l
  proof -
    have t: "fs (resolve_path target) = Some f" and r: "untouched {resolve_path target} (dk_files d1) fs"
      using that u by (auto simp: replacing_def untouched_at_def)
    have d: "dk_files d1 (resolve_path target) = Some f" and e: "untouched {} (dk_files d0) (dk_files d1)"
      using u by (auto simp: untouched_at_def file_at_def)
    have "untouched {} (dk_files d1) fs"
      using t d r unfolding untouched_def by (metis singletonD)
    with e t show ?thesis using untouched_trans by blast
  qed
  have "kept_at target d0 f d2"
    unfolding kept_at_def
    by (rule safe_trans [OF _ run])
      (use u same in \<open>auto simp: untouched_at_def kept_at_def copy_kept_def untouched_def\<close>)
  with same [OF safe_files [OF run]] show ?thesis
    by (simp add: untouched_at_def file_at_def)
qed

definition backed_up :: "path \<Rightarrow> disk \<Rightarrow> disk_file \<Rightarrow> path \<Rightarrow> disk \<Rightarrow> bool" where
  "backed_up target d0 f p d \<longleftrightarrow> untouched_at target d0 f d
     \<and> resolve_path p \<noteq> resolve_path target \<and> dk_files d0 (resolve_path p) = None
     \<and> file_at p d = Some \<lparr>df_bytes = df_bytes f, df_synced = True\<rparr>"

lemma create_backup_contract:
  "triple (untouched_at target d0 f) (create_backup_exclusive target (df_bytes f) schema)
     (\<lambda>p. backed_up target d0 f p) (\<lambda>_. untouched_at target d0 f)"
proof -
  have loop: "triple (untouched_at target d0 f) (backup_loop target (df_bytes f) schema 1)
      (\<lambda>p. backed_up target d0 f p) (\<lambda>_. untouched_at target d0 f)"
  proof (rule tripleI)
    fix d1 p d2
    assume u: "untouched_at target d0 f d1"
      and run: "backup_loop target (df_bytes f) schema 1 d1 = (Inr p, d2)"
    have "old_point undefined target unwritable d1 d1" by (simp add: at_point_def safe_start)
    from triple_Ok [OF backup_loop_point this run]
    have t: "temp_point undefined target unwritable d1 p
        (\<lambda>g. g = Some \<lparr>df_bytes = df_bytes f, df_synced = True\<rparr>) d2" .
    then have "untouched_at target d0 f d2"
      using unwritten [OF u, of undefined d2] by (simp add: temp_point_def at_point_def)
    moreover have "dk_files d0 (resolve_path p) = None"
      using t u by (auto simp: temp_point_def untouched_at_def untouched_def)
    ultimately show "backed_up target d0 f p d2"
      using t by (simp add: backed_up_def temp_point_def)
  next
    fix d1 e d2
    assume u: "untouched_at target d0 f d1"
      and run: "backup_loop target (df_bytes f) schema 1 d1 = (Inl e, d2)"
    have "old_point undefined target unwritable d1 d1" by (simp add: at_point_def safe_start)
    from triple_Err [OF backup_loop_point this run] show "untouched_at target d0 f d2"
      using unwritten [OF u, of undefined d2] by (simp add: at_point_def)
  qed
  have "triple (untouched_at target d0 f) (map_errp (StateIo target) (ensure_parent target))
      (\<lambda>_. untouched_at target d0 f) (\<lambda>_. untouched_at target d0 f)"
    unfolding ensure_parent_def fs_touch_def
    by (intro triple_map_errp triple_if triple_okp triple_io_call) (auto intro: untouched_at_call)
  then show ?thesis
    unfolding create_backup_exclusive_def using loop by (rule triple_thenp)
qed

definition replaced_with_backup ::
  "json \<Rightarrow> path \<Rightarrow> disk \<Rightarrow> disk_file \<Rightarrow> path \<Rightarrow> disk \<Rightarrow> bool" where
  "replaced_with_backup js target d0 f p d \<longleftrightarrow> kept_at target d0 f d
     \<and> dk_files d0 (resolve_path p) = None
     \<and> file_at p d = Some \<lparr>df_bytes = df_bytes f, df_synced = True\<rparr>
     \<and> (\<exists>g. file_at target d = Some g \<and> new_file js state_file_default g)"

lemma replace_backed_up:
  "triple (backed_up target d0 f p) (write_atomic js target state_file_default)
     (\<lambda>_. replaced_with_backup js target d0 f p) (\<lambda>_. kept_at target d0 f)"
proof (rule tripleI)
  fix d1 x d2
  assume b: "backed_up target d0 f p d1"
    and run: "write_atomic js target state_file_default d1 = (Inr x, d2)"
  have "old_point js target state_file_default d1 d1" by (simp add: at_point_def safe_start)
  from triple_Ok [OF write_atomic_contract this run]
  have s: "safe (replacing js target state_file_default d1) d1 d2"
    and g: "\<exists>g. file_at target d2 = Some g \<and> new_file js state_file_default g"
    by (simp_all add: at_point_def)
  have "kept_at target d0 f d2"
    by (rule kept_through [where p = p, OF _ _ _ _ _ s])
      (use b in \<open>simp_all add: backed_up_def untouched_at_def file_at_def\<close>)
  moreover have "file_at p d2 = file_at p d1"
    using safe_files [OF s] b
    by (auto simp: replacing_def untouched_def backed_up_def file_at_def)
  ultimately show "replaced_with_backup js target d0 f p d2"
    using b g by (simp add: replaced_with_backup_def backed_up_def)
next
  fix d1 e d2
  assume b: "backed_up target d0 f p d1"
    and run: "write_atomic js target state_file_default d1 = (Inl e, d2)"
  have "old_point js target state_file_default d1 d1" by (simp add: at_point_def safe_start)
  from triple_Err [OF write_atomic_contract this run]
  have s: "safe (replacing js target state_file_default d1) d1 d2"
    by (auto simp: at_point_def replace_failed_def)
  show "kept_at target d0 f d2"
    by (rule kept_through [where p = p, OF _ _ _ _ _ s])
      (use b in \<open>simp_all add: backed_up_def untouched_at_def file_at_def\<close>)
qed

lemma kept_unlock:
  "kept_at target d0 f d \<Longrightarrow> kept_at target d0 f (snd (fs_unlock p d))"
  by (auto simp: kept_at_def fs_unlock_def modifyp_def safe_def)

lemma untouched_kept: "untouched_at target d0 f d \<Longrightarrow> kept_at target d0 f d"
  by (simp add: untouched_at_def)

lemma untouched_file: "untouched_at target d0 f d \<Longrightarrow> file_at target d = Some f"
  by (simp add: untouched_at_def)

lemma read_untouched:
  "triple (untouched_at target d0 f) (fs_read target)
     (\<lambda>bytes d. bytes = df_bytes f \<and> untouched_at target d0 f d)
     (\<lambda>e d. e \<noteq> NotFound \<and> untouched_at target d0 f d)"
  unfolding fs_read_def
  by (rule triple_io_call) (auto intro: untouched_at_call simp: untouched_file)

lemma discard_contract:
  "triple (untouched_at (sp_state_file sp) d0 f) (discard_disk_unreadable js sp)
     (\<lambda>reset d. \<not> is_ok (is_loadable_bytes js (df_bytes f))
        \<and> (\<exists>p. sr_backup reset = Some p \<and> replaced_with_backup js (sp_state_file sp) d0 f p d))
     (\<lambda>_. kept_at (sp_state_file sp) d0 f)"
proof -
  let ?t = "sp_state_file sp"
  let ?Q = "\<lambda>reset d. \<not> is_ok (is_loadable_bytes js (df_bytes f))
        \<and> (\<exists>p. sr_backup reset = Some p \<and> replaced_with_backup js ?t d0 f p d)"
  have lock: "triple (untouched_at ?t d0 f) (try_acquire (sp_lock_file sp)) (\<lambda>_. untouched_at ?t d0 f)
      (\<lambda>_. kept_at ?t d0 f)"
    by (rule triple_conseq [OF acquire_untouched]) (auto intro: untouched_kept)
  have backup: "triple (untouched_at ?t d0 f) (create_backup_exclusive ?t (df_bytes f) schema)
      (\<lambda>p. backed_up ?t d0 f p) (\<lambda>_. kept_at ?t d0 f)" for schema
    by (rule triple_conseq [OF create_backup_contract]) (auto intro: untouched_kept)
  have store: "triple (backed_up ?t d0 f p)
      (thenp (write_atomic js ?t state_file_default)
        (\<lambda>_. okp \<lparr>sr_backup = Some p, sr_discarded_schema = schema\<rparr>))
      (\<lambda>reset d. \<exists>q. sr_backup reset = Some q \<and> replaced_with_backup js ?t d0 f q d)
      (\<lambda>_. kept_at ?t d0 f)" for p schema
    by (rule triple_thenp [OF replace_backed_up triple_okp]) simp
  have body: "triple (\<lambda>d. bytes = df_bytes f \<and> untouched_at ?t d0 f d)
      (if is_ok (is_loadable_bytes js bytes) then errp (InvalidState (RefusedDiscard ?t))
       else let discarded = (case js_header js bytes of Inr v \<Rightarrow> Some v | Inl _ \<Rightarrow> None)
            in thenp (create_backup_exclusive ?t bytes discarded) (\<lambda>backup.
               thenp (write_atomic js ?t state_file_default) (\<lambda>_.
               okp \<lparr>sr_backup = Some backup, sr_discarded_schema = discarded\<rparr>)))
      ?Q (\<lambda>_. kept_at ?t d0 f)" for bytes
  proof (cases "bytes = df_bytes f")
    case True
    show ?thesis
      unfolding True Let_def
      by (rule triple_if, rule triple_errp, simp add: untouched_kept,
          rule triple_conseq [OF triple_thenp [OF backup store]]) auto
  qed (simp add: triple_def)
  have missing: "triple (\<lambda>d. e \<noteq> NotFound \<and> untouched_at ?t d0 f d)
      (if e = NotFound
       then thenp (write_atomic js ?t state_file_default) (\<lambda>_.
         okp \<lparr>sr_backup = None, sr_discarded_schema = None\<rparr>)
       else errp (StateIo ?t e)) ?Q (\<lambda>_. kept_at ?t d0 f)" for e
    by (cases "e = NotFound") (auto simp: triple_def errp_def intro: untouched_kept)
  have unlock: "replaced_with_backup js ?t d0 f p (snd (fs_unlock q d))"
    if "replaced_with_backup js ?t d0 f p d" for p q d
    using that kept_unlock [of ?t d0 f d q]
    by (simp add: replaced_with_backup_def fs_unlock_def modifyp_def file_at_def)
  show ?thesis
    unfolding discard_disk_unreadable_def Let_def
    by (rule triple_with_lock [OF lock triple_handlep [OF read_untouched missing body [unfolded Let_def]]])
      (auto intro: unlock kept_unlock)
qed

section \<open>Transactions\<close>

text \<open>The document a disk holds, if it is readable.\<close>

definition disk_document :: "json \<Rightarrow> path \<Rightarrow> disk \<Rightarrow> state_file option" where
  "disk_document js target d =
     (case file_at target d of
        None \<Rightarrow> Some state_file_default
      | Some f \<Rightarrow> (case is_loadable_bytes js (df_bytes f) of Inr st \<Rightarrow> Some st | Inl _ \<Rightarrow> None))"

text \<open>What the manager relies on in the encoding: reading back what was written gives it again.\<close>

definition json_faithful :: "json \<Rightarrow> bool" where
  "json_faithful js \<longleftrightarrow> (\<forall>st bytes. js_encode js st = Inr bytes \<longrightarrow>
     js_header js bytes = Inr (sf_schema_version st) \<and> js_document js bytes = Inr st)"

lemma document_new_file:
  assumes "json_faithful js" and "file_at target d = Some g" and "new_file js st g"
  shows "disk_document js target d = Some st"
proof -
  have "sf_schema_version st = SCHEMA_VERSION"
    using assms(3) by (auto simp: new_file_def validate_def split: if_splits)
  moreover have "js_header js (df_bytes g) = Inr (sf_schema_version st)"
    "js_document js (df_bytes g) = Inr st" "validate st = Inr ()"
    using assms unfolding json_faithful_def new_file_def by blast+
  ultimately show ?thesis
    using assms(2) by (simp add: disk_document_def is_loadable_bytes_def)
qed

text \<open>A run that left the target alone, and one that may have committed \<open>st\<close> under the lock.\<close>

definition same_target :: "path \<Rightarrow> disk \<Rightarrow> disk \<Rightarrow> bool" where
  "same_target target d0 d \<longleftrightarrow> safe (\<lambda>fs _. fs (resolve_path target) = file_at target d0) d0 d"

definition committing :: "json \<Rightarrow> path \<Rightarrow> path \<Rightarrow> state_file \<Rightarrow> disk \<Rightarrow> files \<Rightarrow> path set \<Rightarrow> bool" where
  "committing js target lock st d0 fs locks \<longleftrightarrow> fs (resolve_path target) = file_at target d0
     \<or> (\<exists>g. fs (resolve_path target) = Some g \<and> new_file js st g \<and> resolve_path lock \<in> locks)"

lemma same_target_start: "same_target target d d"
  by (simp add: same_target_def file_at_def safe_start)

lemma same_target_file: "same_target target d0 d \<Longrightarrow> file_at target d = file_at target d0"
  by (drule safe_files [OF same_target_def [THEN iffD1]]) (simp add: file_at_def)

lemma same_target_call:
  "same_target target d0 d \<Longrightarrow> dk_history d' = dk_history d \<Longrightarrow> file_at target d' = file_at target d0 \<Longrightarrow>
   same_target target d0 (record_call d')"
  by (auto simp: same_target_def file_at_def intro: safe_record_call)

lemma acquire_same:
  assumes neq: "resolve_path lock \<noteq> resolve_path target"
  shows "triple (same_target target d0) (try_acquire lock)
    (\<lambda>_ d. same_target target d0 d \<and> resolve_path lock \<in> dk_mine d) (\<lambda>_. same_target target d0)"
proof -
  have e: "triple (same_target target d0) (map_errp (StateIo lock) (ensure_parent lock))
      (\<lambda>_. same_target target d0) (\<lambda>_. same_target target d0)"
    unfolding ensure_parent_def fs_touch_def
    by (intro triple_map_errp triple_if triple_okp triple_io_call)
      (auto intro: same_target_call simp: same_target_file)
  have o: "triple (same_target target d0) (map_errp (StateIo lock) (fs_open_create lock))
      (\<lambda>_. same_target target d0) (\<lambda>_. same_target target d0)"
    unfolding fs_open_create_def
    by (intro triple_map_errp triple_io_call)
      (use neq in \<open>auto intro!: same_target_call simp: same_target_file split: option.splits\<close>)
  have l: "triple (same_target target d0)
      (map_errp (\<lambda>e. if is_lock_busy e then LockBusy lock else StateIo lock e) (fs_try_lock lock))
      (\<lambda>_ d. same_target target d0 d \<and> resolve_path lock \<in> dk_mine d) (\<lambda>_. same_target target d0)"
    unfolding fs_try_lock_def
    by (intro triple_map_errp triple_io_call)
      (auto intro!: same_target_call simp: same_target_file file_at_def [of _ "_\<lparr>dk_mine := _\<rparr>"]
        simp flip: file_at_def split: if_splits)
  show ?thesis
    unfolding try_acquire_def by (rule triple_thenp [OF e triple_thenp [OF o l]])
qed

lemma load_same:
  "triple (\<lambda>d. same_target target d0 d \<and> l \<in> dk_mine d) (load_state js target)
    (\<lambda>st d. (same_target target d0 d \<and> l \<in> dk_mine d) \<and> disk_document js target d0 = Some st)
    (\<lambda>_. same_target target d0)"
proof -
  have rd: "triple (\<lambda>d. same_target target d0 d \<and> l \<in> dk_mine d) (fs_read target)
      (\<lambda>bytes d. (same_target target d0 d \<and> l \<in> dk_mine d)
        \<and> (\<exists>f. file_at target d0 = Some f \<and> bytes = df_bytes f))
      (\<lambda>e d. (same_target target d0 d \<and> l \<in> dk_mine d) \<and> (e = NotFound \<longrightarrow> file_at target d0 = None))"
    unfolding fs_read_def
    by (rule triple_io_call)
      (auto intro!: same_target_call simp: same_target_file ok_or_eq_Inl)
  show ?thesis
    unfolding load_state_def
    apply (rule triple_handlep [OF rd])
     apply (rule triple_if; intro triple_okp triple_errp; simp add: disk_document_def)
    subgoal for bytes
      by (cases "is_loadable_bytes js bytes")
        (auto simp: triple_def prog_defs disk_document_def is_loadable_bytes_def tryq_eq_Inl
          split: sum.splits prod.splits if_splits)
    done
qed

lemma commit_same:
  "triple (\<lambda>d. same_target target d0 d \<and> resolve_path lock \<in> dk_mine d) (write_atomic js target st)
    (\<lambda>_ d. safe (committing js target lock st d0) d0 d \<and> (\<exists>g. file_at target d = Some g \<and> new_file js st g))
    (\<lambda>_ d. safe (committing js target lock st d0) d0 d)"
proof -
  have s: "safe (committing js target lock st d0) d0 d2"
    if "same_target target d0 d1" and "resolve_path lock \<in> dk_mine d1"
      and "safe (replacing js target st d1) d1 d2" for d1 d2
  proof (rule safe_trans [OF _ that(3)])
    show "safe (committing js target lock st d0) d0 d1"
      using that(1) by (auto simp: same_target_def safe_def committing_def list_all_iff)
    show "committing js target lock st d0 fs l" if "replacing js target st d1 fs l" for fs l
      using that \<open>resolve_path lock \<in> dk_mine d1\<close> same_target_file [OF \<open>same_target target d0 d1\<close>]
      by (auto simp: replacing_def committing_def)
  qed
  show ?thesis
  proof (rule tripleI)
    fix d1 x d2
    assume p: "same_target target d0 d1 \<and> resolve_path lock \<in> dk_mine d1"
      and run: "write_atomic js target st d1 = (Inr x, d2)"
    have "old_point js target st d1 d1" by (simp add: at_point_def safe_start)
    from triple_Ok [OF write_atomic_contract this run] p
    show "safe (committing js target lock st d0) d0 d2 \<and> (\<exists>g. file_at target d2 = Some g \<and> new_file js st g)"
      by (auto simp: at_point_def intro: s)
  next
    fix d1 e d2
    assume p: "same_target target d0 d1 \<and> resolve_path lock \<in> dk_mine d1"
      and run: "write_atomic js target st d1 = (Inl e, d2)"
    have "old_point js target st d1 d1" by (simp add: at_point_def safe_start)
    from triple_Err [OF write_atomic_contract this run] p
    show "safe (committing js target lock st d0) d0 d2"
      by (auto simp: at_point_def replace_failed_def intro: s)
  qed
qed

definition committed :: "json \<Rightarrow> path \<Rightarrow> path \<Rightarrow> disk \<Rightarrow> state_file \<Rightarrow> state_file \<Rightarrow> disk \<Rightarrow> bool" where
  "committed js target lock d0 original st d \<longleftrightarrow>
     safe (committing js target lock st d0) d0 d
     \<and> (if st = original then file_at target d = file_at target d0
        else \<exists>g. file_at target d = Some g \<and> new_file js st g)"

lemma same_committing:
  "same_target target d0 d \<Longrightarrow> safe (committing js target lock st d0) d0 d"
  by (auto simp: same_target_def safe_def committing_def list_all_iff)

lemma disk_commit_contract:
  "triple (\<lambda>d. same_target (sp_state_file sp) d0 d \<and> resolve_path lock \<in> dk_mine d)
     (disk_commit js sp original st) (\<lambda>_. committed js (sp_state_file sp) lock d0 original st)
     (\<lambda>_. safe (committing js (sp_state_file sp) lock st d0) d0)"
proof (cases "st = original")
  case True
  then show ?thesis
    by (auto simp: disk_commit_def committed_def same_target_file intro!: triple_okp same_committing)
next
  case False
  then show ?thesis
    unfolding disk_commit_def
    by (auto intro!: triple_conseq [OF commit_same [of "sp_state_file sp" d0 lock]]
        simp: committed_def)
qed

text \<open>What a transaction does to the disk: the outcome of running \<open>f\<close> on the document found.\<close>

definition past_ok :: "json \<Rightarrow> path \<Rightarrow> path \<Rightarrow> state_file \<Rightarrow> disk \<Rightarrow> disk \<Rightarrow> bool" where
  "past_ok js target lock st d0 d \<longleftrightarrow> list_all (\<lambda>(fs, l). committing js target lock st d0 fs l) (since d0 d)
     \<and> (file_at target d = file_at target d0 \<or> (\<exists>g. file_at target d = Some g \<and> new_file js st g))"

definition mutate_outcome ::
  "json \<Rightarrow> state_paths \<Rightarrow> (state_file \<Rightarrow> 'a \<times> state_file) \<Rightarrow> disk \<Rightarrow> (state_error, 'a) result \<Rightarrow> disk \<Rightarrow> bool" where
  "mutate_outcome js sp f d0 r d \<longleftrightarrow>
     (case disk_document js (sp_state_file sp) d0 of
        None \<Rightarrow> \<not> is_ok r \<and> file_at (sp_state_file sp) d = file_at (sp_state_file sp) d0
      | Some original \<Rightarrow>
          past_ok js (sp_state_file sp) (sp_lock_file sp) (snd (f original)) d0 d
          \<and> (case r of
               Inl _ \<Rightarrow> True
             | Inr x \<Rightarrow> x = fst (f original)
                 \<and> (if snd (f original) = original
                    then file_at (sp_state_file sp) d = file_at (sp_state_file sp) d0
                    else \<exists>g. file_at (sp_state_file sp) d = Some g \<and> new_file js (snd (f original)) g)))"

lemma unlock_simps [simp]:
  "file_at q (snd (fs_unlock p d)) = file_at q d" "dk_history (snd (fs_unlock p d)) = dk_history d"
  "dk_clock (snd (fs_unlock p d)) = dk_clock d"
  by (simp_all add: fs_unlock_def modifyp_def file_at_def)

lemma since_unlock [simp]: "since d0 (snd (fs_unlock p d)) = since d0 d"
  by (simp add: since_def)

lemma past_okI:
  "safe (committing js target lock st d0) d0 d \<Longrightarrow> past_ok js target lock st d0 d"
  using safe_since safe_files unfolding past_ok_def committing_def file_at_def by fastforce

lemma past_ok_same: "same_target target d0 d \<Longrightarrow> past_ok js target lock st d0 d"
  by (rule past_okI) (rule same_committing)

lemma mutate_outcome_unlock:
  "mutate_outcome js sp f d0 r d \<Longrightarrow> mutate_outcome js sp f d0 r (snd (fs_unlock p d))"
  unfolding mutate_outcome_def past_ok_def unlock_simps since_unlock by assumption

lemma mutate_outcome_failed:
  "same_target (sp_state_file sp) d0 d \<Longrightarrow> mutate_outcome js sp f d0 (Inl e) d"
  by (auto simp: mutate_outcome_def same_target_file intro: past_ok_same split: option.split)

lemma disk_mutate_outcome:
  assumes neq: "resolve_path (sp_lock_file sp) \<noteq> resolve_path (sp_state_file sp)"
  shows "triple (\<lambda>d. d = d0) (disk_mutate js sp f)
    (\<lambda>x. mutate_outcome js sp f d0 (Inr x)) (\<lambda>e. mutate_outcome js sp f d0 (Inl e))"
proof -
  let ?t = "sp_state_file sp" and ?l = "resolve_path (sp_lock_file sp)"
  have acq: "triple (\<lambda>d. d = d0) (try_acquire (sp_lock_file sp))
      (\<lambda>_ d. same_target ?t d0 d \<and> ?l \<in> dk_mine d) (\<lambda>e. mutate_outcome js sp f d0 (Inl e))"
    by (rule triple_conseq [OF acquire_same [OF neq]])
      (auto intro: same_target_start mutate_outcome_failed)
  have ld: "triple (\<lambda>d. same_target ?t d0 d \<and> ?l \<in> dk_mine d) (load_state js ?t)
      (\<lambda>st d. (same_target ?t d0 d \<and> ?l \<in> dk_mine d) \<and> disk_document js ?t d0 = Some st)
      (\<lambda>e. mutate_outcome js sp f d0 (Inl e))"
    by (rule triple_conseq [OF load_same]) (auto intro: mutate_outcome_failed)
  have body: "triple (\<lambda>d. (same_target ?t d0 d \<and> ?l \<in> dk_mine d) \<and> disk_document js ?t d0 = Some original)
      (case f original of (r, st) \<Rightarrow> thenp (disk_commit js sp original st) (\<lambda>_. okp r))
      (\<lambda>x. mutate_outcome js sp f d0 (Inr x)) (\<lambda>e. mutate_outcome js sp f d0 (Inl e))" for original
  proof (cases "disk_document js ?t d0 = Some original")
    case True
    obtain r st where f: "f original = (r, st)" by force
    have ok: "mutate_outcome js sp f d0 (Inr r) d"
      if "committed js ?t (sp_lock_file sp) d0 original st d" for d
      using that True f by (auto simp: mutate_outcome_def committed_def intro: past_okI)
    have err: "mutate_outcome js sp f d0 (Inl e) d"
      if "safe (committing js ?t (sp_lock_file sp) st d0) d0 d" for e d
      using that True f by (auto simp: mutate_outcome_def intro: past_okI)
    have "triple (\<lambda>d. same_target ?t d0 d \<and> ?l \<in> dk_mine d) (thenp (disk_commit js sp original st) (\<lambda>_. okp r))
        (\<lambda>x. mutate_outcome js sp f d0 (Inr x)) (\<lambda>e. mutate_outcome js sp f d0 (Inl e))"
      by (rule triple_thenp [where T = "\<lambda>_. committed js ?t (sp_lock_file sp) d0 original st"],
          rule triple_conseq [OF disk_commit_contract])
        (auto intro: err ok triple_okp)
    with True f show ?thesis by simp
  qed (simp add: triple_def)
  show ?thesis
    unfolding disk_mutate_def
    by (rule triple_with_lock [OF acq triple_thenp [OF ld body]]) (auto intro: mutate_outcome_unlock)
qed

section \<open>The interface of a store\<close>

text \<open>What the manager relies on: a successful transaction ran its closure on the stored document and
  stored the result, which is valid when it changed; a failed one left the old document or the
  valid result of the closure.\<close>

locale document_store =
  fixes stored :: "'s \<Rightarrow> state_file option"
    and mutate :: "(state_file \<Rightarrow> 'a \<times> state_file) \<Rightarrow> 's \<Rightarrow> (state_error, 'a) result \<times> 's"
  assumes mutate_Ok: "mutate f s = (Inr x, s') \<Longrightarrow>
      \<exists>st. stored s = Some st \<and> x = fst (f st) \<and> stored s' = Some (snd (f st))
        \<and> (snd (f st) = st \<or> validate (snd (f st)) = Inr ())"
    and mutate_Err: "mutate f s = (Inl e, s') \<Longrightarrow>
      stored s' = stored s
        \<or> (\<exists>st. stored s = Some st \<and> stored s' = Some (snd (f st)) \<and> validate (snd (f st)) = Inr ())"
begin

lemma valid_after:
  assumes "mutate f s = (r, s')" and "stored s = Some st" and "validate st = Inr ()"
  shows "\<exists>st'. stored s' = Some st' \<and> validate st' = Inr () \<and> (st' = st \<or> st' = snd (f st))"
proof (cases r)
  case (Inl e)
  with mutate_Err [OF assms(1) [unfolded Inl]] assms show ?thesis by auto
next
  case (Inr x)
  with mutate_Ok [OF assms(1) [unfolded Inr]] assms show ?thesis by auto
qed

end

lemma memory_mutate_simps:
  "memory_mutate f m =
     (case f (mb_state m) of (r, st) \<Rightarrow>
        if st = mb_state m then (Inr r, m)
        else case validate st of Inl e \<Rightarrow> (Inl e, m) | Inr _ \<Rightarrow> (Inr r, m\<lparr>mb_state := st\<rparr>))"
  by (auto simp: memory_mutate_def memory_load_def memory_commit_def prog_defs
      split: prod.splits sum.splits)

interpretation memory: document_store "\<lambda>m. Some (mb_state m)" memory_mutate
  by unfold_locales
    (auto simp: memory_mutate_simps split: prod.splits sum.splits if_splits)

lemma disk_document_cong:
  "file_at target d' = file_at target d \<Longrightarrow> disk_document js target d' = disk_document js target d"
  by (simp add: disk_document_def)

lemma disk_document_store:
  assumes js: "json_faithful js"
    and neq: "resolve_path (sp_lock_file sp) \<noteq> resolve_path (sp_state_file sp)"
  shows "document_store (disk_document js (sp_state_file sp)) (disk_mutate js sp)"
proof
  fix f s x s'
  assume "disk_mutate js sp f s = (Inr x, s')"
  from triple_Ok [OF disk_mutate_outcome [OF neq] refl this]
  obtain st where st: "disk_document js (sp_state_file sp) s = Some st" and x: "x = fst (f st)"
    and c: "if snd (f st) = st then file_at (sp_state_file sp) s' = file_at (sp_state_file sp) s
      else \<exists>g. file_at (sp_state_file sp) s' = Some g \<and> new_file js (snd (f st)) g"
    by (auto simp: mutate_outcome_def split: option.splits)
  then show "\<exists>st. disk_document js (sp_state_file sp) s = Some st \<and> x = fst (f st)
      \<and> disk_document js (sp_state_file sp) s' = Some (snd (f st))
      \<and> (snd (f st) = st \<or> validate (snd (f st)) = Inr ())"
    using document_new_file [OF js] disk_document_cong [of "sp_state_file sp" s' s js]
    by (auto simp: new_file_def split: if_splits)
next
  fix f s e s'
  assume "disk_mutate js sp f s = (Inl e, s')"
  from triple_Err [OF disk_mutate_outcome [OF neq] refl this]
  show "disk_document js (sp_state_file sp) s' = disk_document js (sp_state_file sp) s
      \<or> (\<exists>st. disk_document js (sp_state_file sp) s = Some st
           \<and> disk_document js (sp_state_file sp) s' = Some (snd (f st))
           \<and> validate (snd (f st)) = Inr ())"
    using document_new_file [OF js] disk_document_cong [of "sp_state_file sp" s' s js]
    by (auto simp: mutate_outcome_def past_ok_def new_file_def split: option.splits)
qed

section \<open>Waiting for an operation lock\<close>

lemma sleep_clock [simp]: "dk_clock (snd (fs_sleep n d)) = dk_clock d + n"
  by (simp add: fs_sleep_def modifyp_def)

lemma acquire_mine:
  "triple (\<lambda>d. dk_mine d = m) (try_acquire p)
     (\<lambda>_ d. dk_mine d = insert (resolve_path p) m \<and> resolve_path p \<notin> m) (\<lambda>_ d. dk_mine d = m)"
proof -
  have e: "triple (\<lambda>d. dk_mine d = m) (map_errp (StateIo p) (ensure_parent p)) (\<lambda>_ d. dk_mine d = m)
      (\<lambda>_ d. dk_mine d = m)"
    unfolding ensure_parent_def fs_touch_def
    by (intro triple_map_errp triple_if triple_okp triple_io_call) auto
  have o: "triple (\<lambda>d. dk_mine d = m) (map_errp (StateIo p) (fs_open_create p)) (\<lambda>_ d. dk_mine d = m)
      (\<lambda>_ d. dk_mine d = m)"
    unfolding fs_open_create_def
    by (intro triple_map_errp triple_io_call) (auto split: option.splits)
  have l: "triple (\<lambda>d. dk_mine d = m)
      (map_errp (\<lambda>e. if is_lock_busy e then LockBusy p else StateIo p e) (fs_try_lock p))
      (\<lambda>_ d. dk_mine d = insert (resolve_path p) m \<and> resolve_path p \<notin> m) (\<lambda>_ d. dk_mine d = m)"
    unfolding fs_try_lock_def
    by (intro triple_map_errp triple_io_call) (auto split: if_splits)
  show ?thesis
    unfolding try_acquire_def by (rule triple_thenp [OF e triple_thenp [OF o l]])
qed

definition lock_outcome :: "path \<Rightarrow> disk \<Rightarrow> nat \<Rightarrow> (manager_error, unit) result \<Rightarrow> disk \<Rightarrow> bool" where
  "lock_outcome p d deadline r d' \<longleftrightarrow>
     dk_clock d' \<le> max (dk_clock d) (deadline + 5000000)
     \<and> (case r of
          Inr _ \<Rightarrow> dk_mine d' = insert (resolve_path p) (dk_mine d) \<and> resolve_path p \<notin> dk_mine d
        | Inl (DeviceOperationBusy _ _ _ _) \<Rightarrow> dk_mine d' = dk_mine d \<and> deadline \<le> dk_clock d'
        | Inl _ \<Rightarrow> dk_mine d' = dk_mine d)"

lemma op_lock_loop_outcome:
  "op_lock_loop p device timeout operation deadline d = (r, d') \<Longrightarrow> lock_outcome p d deadline r d'"
proof (induction "deadline - dk_clock d" arbitrary: d rule: less_induct)
  case less
  obtain a d1 where acq: "try_acquire p d = (a, d1)" by force
  have c: "dk_clock d1 = dk_clock d" by (rule clock_try_acquire_eq [OF acq])
  show ?case
  proof (cases a)
    case (Inr u)
    with less.prems acq have rd: "r = Inr ()" "d' = d1"
      by (simp_all add: op_lock_loop.simps [of p device timeout operation deadline d])
    from triple_Ok [OF acquire_mine refl acq [unfolded Inr]] c show ?thesis
      by (simp add: rd lock_outcome_def)
  next
    case (Inl e)
    have m: "dk_mine d1 = dk_mine d"
      using triple_Err [OF acquire_mine refl acq [unfolded Inl]] .
    note run = less.prems [unfolded op_lock_loop.simps [of p device timeout operation deadline d] acq Inl]
    show ?thesis
    proof (cases "(\<exists>q. e = LockBusy q) \<and> dk_clock d1 < deadline")
      case True
      let ?d2 = "snd (fs_sleep 5000000 d1)"
      have "op_lock_loop p device timeout operation deadline ?d2 = (r, d')"
        using run True by (auto simp del: sleep_clock)
      moreover have "deadline - dk_clock ?d2 < deadline - dk_clock d"
        using True c by (simp, linarith)
      ultimately have "lock_outcome p ?d2 deadline r d'"
        by (intro less.hyps)
      moreover have "dk_mine ?d2 = dk_mine d" using m by (simp add: fs_sleep_def modifyp_def)
      ultimately show ?thesis
        using True c by (auto simp: lock_outcome_def split: sum.splits manager_error.splits)
    next
      case False
      with run c m show ?thesis
        by (cases e) (auto simp: lock_outcome_def)
    qed
  qed
qed

lemma ensure_lock_parent:
  "triple (\<lambda>d. dk_clock d = c \<and> dk_mine d = m) (ensure_parent p) (\<lambda>_ d. dk_clock d = c \<and> dk_mine d = m)
     (\<lambda>_ d. dk_clock d = c \<and> dk_mine d = m)"
  unfolding ensure_parent_def fs_touch_def
  by (intro triple_if triple_okp triple_io_call) auto

section \<open>Properties\<close>

text \<open>C12: Replacing the document is atomic: at every point of a run, so also where it crashes, the
  target file is the file found before or the complete, synchronised encoding of the new valid
  document, no other file that existed is changed, and the locks held stay held; the run ends with
  the new document after a success, and after a failure with the old file, or with the new one when
  only synchronising the directory failed.\<close>

theorem write_atomic_crash_safe:
  "list_all (\<lambda>(fs, locks).
       (fs (resolve_path target) = file_at target d
          \<or> (\<exists>f. fs (resolve_path target) = Some f \<and> new_file js st f))
       \<and> untouched {resolve_path target} (dk_files d) fs \<and> locks = dk_mine d)
     (since d (snd (write_atomic js target st d)))
   \<and> (case write_atomic js target st d of
        (Inr _, d') \<Rightarrow> \<exists>f. file_at target d' = Some f \<and> new_file js st f
      | (Inl e, d') \<Rightarrow> file_at target d' = file_at target d
          \<or> (\<exists>code f. e = StateIo target (OtherIo code) \<and> file_at target d' = Some f \<and> new_file js st f))"
proof -
  obtain r d' where run: "write_atomic js target st d = (r, d')" by force
  have start: "old_point js target st d d"
    by (simp add: at_point_def safe_start)
  have "safe (replacing js target st d) d d' \<and> (case r of
        Inr _ \<Rightarrow> \<exists>f. file_at target d' = Some f \<and> new_file js st f
      | Inl e \<Rightarrow> file_at target d' = file_at target d
          \<or> (\<exists>code f. e = StateIo target (OtherIo code) \<and> file_at target d' = Some f \<and> new_file js st f))"
  proof (cases r)
    case (Inl e)
    from triple_Err [OF write_atomic_contract start run [unfolded Inl]] show ?thesis
      by (auto simp: Inl replace_failed_def at_point_def)
  next
    case (Inr u)
    from triple_Ok [OF write_atomic_contract start run [unfolded Inr]] show ?thesis
      by (simp add: Inr at_point_def)
  qed
  then show ?thesis
    using safe_since [of "replacing js target st d" d d'] unfolding replacing_def
    by (simp add: run split: sum.splits)
qed


text \<open>C14: Discarding an unreadable file never loses its bytes: from a disk with a file at the state
  path, every recorded point of the run still has that file in place or a complete, synchronised
  copy at a path that was free before, and no other existing file changes; a success implies that
  the file really did not load, names the copy and leaves the fresh default document.\<close>

theorem discard_preserves_bytes:
  "case file_at (sp_state_file sp) d of
     None \<Rightarrow> True
   | Some f \<Rightarrow>
       (case discard_disk_unreadable js sp d of (r, d') \<Rightarrow>
          list_all (\<lambda>(fs, _). copy_kept (sp_state_file sp) d f fs) (since d d')
          \<and> (case r of
               Inl _ \<Rightarrow> True
             | Inr reset \<Rightarrow> \<not> is_ok (is_loadable_bytes js (df_bytes f))
                 \<and> (\<exists>p g. sr_backup reset = Some p \<and> dk_files d (resolve_path p) = None
                      \<and> file_at p d' = Some \<lparr>df_bytes = df_bytes f, df_synced = True\<rparr>
                      \<and> file_at (sp_state_file sp) d' = Some g \<and> new_file js state_file_default g)))"
proof (cases "file_at (sp_state_file sp) d")
  case (Some f)
  note start = untouched_at_start [OF Some]
  obtain r d' where run: "discard_disk_unreadable js sp d = (r, d')" by force
  show ?thesis
  proof (cases r)
    case (Inl e)
    from triple_Err [OF discard_contract start run [unfolded Inl]]
    have "list_all (\<lambda>(fs, _). copy_kept (sp_state_file sp) d f fs) (since d d')"
      unfolding kept_at_def by (rule safe_since)
    with Some run Inl show ?thesis by simp
  next
    case (Inr reset)
    note post = triple_Ok [OF discard_contract start run [unfolded Inr]]
    then have "list_all (\<lambda>(fs, _). copy_kept (sp_state_file sp) d f fs) (since d d')"
      unfolding replaced_with_backup_def kept_at_def by (auto intro: safe_since)
    with Some run Inr post show ?thesis by (auto simp: replaced_with_backup_def)
  qed
qed simp


text \<open>C13: A transaction on disk is one on the document: with an encoding that reads back what it
  wrote and a lock file beside the state file, a success ran the closure on the stored document,
  exactly as the memory store does, and the disk then holds its result; after a failure the disk
  holds the old document or that result. The target file changes only to the complete encoding of
  the result, and only while the lock is held.\<close>

theorem disk_transaction_refines:
  assumes "json_faithful js"
    and "resolve_path (sp_lock_file sp) \<noteq> resolve_path (sp_state_file sp)"
    and "disk_document js (sp_state_file sp) d = Some (mb_state m)"
  shows "case disk_mutate js sp f d of (r, d') \<Rightarrow>
    list_all (\<lambda>(fs, locks). fs (resolve_path (sp_state_file sp)) = file_at (sp_state_file sp) d
       \<or> (\<exists>g. fs (resolve_path (sp_state_file sp)) = Some g \<and> new_file js (snd (f (mb_state m))) g
            \<and> resolve_path (sp_lock_file sp) \<in> locks)) (since d d')
    \<and> (case r of
         Inr x \<Rightarrow> \<exists>m'. memory_mutate f m = (Inr x, m')
           \<and> disk_document js (sp_state_file sp) d' = Some (mb_state m')
       | Inl _ \<Rightarrow> disk_document js (sp_state_file sp) d' = Some (mb_state m)
           \<or> (\<exists>x m'. memory_mutate f m = (Inr x, m')
                \<and> disk_document js (sp_state_file sp) d' = Some (mb_state m')))"
proof -
  obtain r d' where run: "disk_mutate js sp f d = (r, d')" by force
  have o: "mutate_outcome js sp f d r d'"
    using triple_Ok [OF disk_mutate_outcome [OF assms(2)] refl]
      triple_Err [OF disk_mutate_outcome [OF assms(2)] refl] run
    by (cases r) auto
  then have past: "past_ok js (sp_state_file sp) (sp_lock_file sp) (snd (f (mb_state m))) d d'"
    using assms(3) by (simp add: mutate_outcome_def)
  have step: "memory_mutate f m = (Inr (fst (f (mb_state m))), m\<lparr>mb_state := snd (f (mb_state m))\<rparr>)"
    if "snd (f (mb_state m)) = mb_state m \<or> validate (snd (f (mb_state m))) = Inr ()"
    using that by (auto simp: memory_mutate_simps split: prod.split)
  have "case r of
         Inr x \<Rightarrow> \<exists>m'. memory_mutate f m = (Inr x, m')
           \<and> disk_document js (sp_state_file sp) d' = Some (mb_state m')
       | Inl _ \<Rightarrow> disk_document js (sp_state_file sp) d' = Some (mb_state m)
           \<or> (\<exists>x m'. memory_mutate f m = (Inr x, m')
                \<and> disk_document js (sp_state_file sp) d' = Some (mb_state m'))"
  proof (cases r)
    case (Inl e)
    from document_store.mutate_Err [OF disk_document_store [OF assms(1,2)] run [unfolded Inl]] assms(3)
    show ?thesis using step by (auto simp: Inl)
  next
    case (Inr x)
    from document_store.mutate_Ok [OF disk_document_store [OF assms(1,2)] run [unfolded Inr]] assms(3)
    show ?thesis using step by (auto simp: Inr)
  qed
  with past run show ?thesis
    by (simp add: past_ok_def committing_def)
qed

text \<open>A disk without a state file, whose first write is the second document of the encoding below.\<close>

definition demo_json :: json where
  "demo_json = \<lparr>js_header = (\<lambda>bytes. if bytes = [1] \<or> bytes = [2] then Inr 5 else Inl []),
     js_document = (\<lambda>bytes. if bytes = [1] then Inr state_file_default
       else Inr (state_file_default\<lparr>sf_next_device_number := 2\<rparr>)),
     js_encode = (\<lambda>st. if st = state_file_default then Inr [1]
       else if st = state_file_default\<lparr>sf_next_device_number := 2\<rparr> then Inr [2] else Inl [])\<rparr>"

definition demo_disk :: disk where
  "demo_disk = \<lparr>dk_files = (\<lambda>_. None), dk_calls = 0, dk_fault = (\<lambda>_. None), dk_busy = (\<lambda>_ _. False),
     dk_mine = {}, dk_temp_counter = 0, dk_process = 7, dk_clock = 0, dk_history = []\<rparr>"

lemma demo_json: "json_faithful demo_json"
  by (auto simp: json_faithful_def demo_json_def state_file_default_def SCHEMA_VERSION_def split: if_splits)

abbreviation demo_paths :: state_paths where
  "demo_paths \<equiv> state_paths_new [rstr ''x'', rstr ''state.json'']"

lemma disk_transaction_refines_witness:
  "is_ok (fst (disk_mutate demo_json demo_paths (\<lambda>st. (True, st\<lparr>sf_next_device_number := 2\<rparr>)) demo_disk))
   \<and> disk_document demo_json (sp_state_file demo_paths)
        (snd (disk_mutate demo_json demo_paths (\<lambda>st. (True, st\<lparr>sf_next_device_number := 2\<rparr>)) demo_disk))
      = Some (state_file_default\<lparr>sf_next_device_number := 2\<rparr>)"
proof -
  let ?f = "\<lambda>st. (True, st\<lparr>sf_next_device_number := 2\<rparr>)"
  obtain r d' where run: "disk_mutate demo_json demo_paths ?f demo_disk = (r, d')" by force
  have neq: "resolve_path (sp_lock_file demo_paths) \<noteq> resolve_path (sp_state_file demo_paths)"
    by code_simp
  have doc: "disk_document demo_json (sp_state_file demo_paths) demo_disk
      = Some (mb_state \<lparr>mb_state = state_file_default\<rparr>)"
    by (simp add: disk_document_def file_at_def demo_disk_def)
  have "is_ok (fst (disk_mutate demo_json demo_paths ?f demo_disk))"
    by code_simp
  moreover have "validate (state_file_default\<lparr>sf_next_device_number := 2\<rparr>) = Inr ()"
    by code_simp
  ultimately show ?thesis
    using disk_transaction_refines [OF demo_json neq doc, of ?f] run
    by (cases r) (auto simp: memory_mutate_simps state_file_default_def)
qed

end
