(* ===== verification/X3_Resolution.thy ===== *)
theory X3_Resolution
  imports X3_Operation
begin

text \<open>
  How a scan is related to the saved mice (pure part of the discovery in \<^verbatim>\<open>manager.rs\<close>):
  endpoint fingerprints, the remembered mapping, resolution of a watermark, folding of duplicates,
  the decision for unknown connections, the aggregate rows, and the effect of the active ceremony.
\<close>

section \<open>Evidence of a saved mouse\<close>

definition device_has_evidence :: "device_state \<Rightarrow> bool" where
  "device_has_evidence dev \<longleftrightarrow>
     \<not> resource_is_empty (ds_profile_metadata dev)
     \<or> list_ex (\<lambda>p. \<not> resource_is_empty (ps_dpi p) \<or> \<not> resource_is_empty (ps_preferences p)
          \<or> \<not> resource_is_empty (ps_buttons p) \<or> \<not> resource_is_empty (ps_polling_rate p))
        (map snd (ds_profiles dev))"

section \<open>Fingerprints\<close>

text \<open>\<^verbatim>\<open>strip_prefix("sim:")?.split(':').next()\<close>, rejected when empty.\<close>

definition locator_text :: "device_locator \<Rightarrow> rstring" where
  "locator_text l = (case l of UsbPath p \<Rightarrow> p | BlePlatformId p \<Rightarrow> p)"

definition sim_tag_for_endpoint :: "device_endpoint \<Rightarrow> rstring option" where
  "sim_tag_for_endpoint e =
     (let locator = locator_text (ep_locator e)
      in if take 4 locator \<noteq> rstr ''sim:'' then None
         else let tag = takeWhile (\<lambda>c. c \<noteq> 58) (drop 4 locator)
              in if tag = [] then None else Some tag)"

definition show_hex4 :: "u16 \<Rightarrow> rstring" where
  "show_hex4 w = rstr (map digit_char [unat w div 4096, unat w div 256, unat w div 16, unat w])"

definition unwrap_or :: "'a \<Rightarrow> 'a option \<Rightarrow> 'a" where
  "unwrap_or d x = (case x of None \<Rightarrow> d | Some a \<Rightarrow> a)"

definition endpoint_fingerprint :: "device_endpoint \<Rightarrow> rstring" where
  "endpoint_fingerprint e =
     (case sim_tag_for_endpoint e of
        Some tag \<Rightarrow> rstr ''sim:'' @ tag @ rstr '':'' @ locator_text (ep_locator e)
      | None \<Rightarrow>
          (case ep_transport e of
             Ble \<Rightarrow> rstr ''ble:'' @ locator_text (ep_locator e)
           | kind \<Rightarrow>
               rstr ''usb:'' @ (case kind of Wired \<Rightarrow> rstr ''wired'' | _ \<Rightarrow> rstr ''receiver'')
               @ rstr '':'' @ show_hex4 (unwrap_or 0 (ep_vendor_id e))
               @ rstr '':'' @ show_hex4 (unwrap_or 0 (ep_product_id e))
               @ rstr '':'' @ unwrap_or [] (ep_serial_number e)))"

section \<open>The remembered mapping\<close>

definition remembered_device_in :: "state_file \<Rightarrow> device_endpoint \<Rightarrow> device_id option" where
  "remembered_device_in sf e =
     (case bt_get (em_endpoints (sf_endpoint_mapping sf)) (endpoint_fingerprint e) of
        None \<Rightarrow> None
      | Some remembered \<Rightarrow> if bt_contains (sf_devices sf) remembered then Some remembered else None)"

definition token_of :: "state_file \<Rightarrow> device_id \<Rightarrow> physical_id option" where
  "token_of sf d = Option.bind (bt_get (sf_devices sf) d) (\<lambda>dev. id_physical_id (ds_identity dev))"

definition remembered_mapping_agrees ::
  "state_file \<Rightarrow> device_endpoint \<Rightarrow> physical_id option \<Rightarrow> bool" where
  "remembered_mapping_agrees sf e presented =
     (case presented of
        None \<Rightarrow> True
      | Some token \<Rightarrow>
          (case remembered_device_in sf e of
             None \<Rightarrow> True
           | Some remembered \<Rightarrow>
               (case token_of sf remembered of None \<Rightarrow> True | Some owned \<Rightarrow> owned = token)))"

definition presented_token :: "resolved_connection \<Rightarrow> physical_id option" where
  "presented_token row =
     (case rc_resolution row of Unassociated ReasonUnknown (Some token) \<Rightarrow> Some token | _ \<Rightarrow> None)"

definition max_option :: "int list \<Rightarrow> int option" where
  "max_option xs = (if xs = [] then None else Some (fold max (tl xs) (hd xs)))"

definition resolution_candidates :: "state_file \<Rightarrow> candidate list" where
  "resolution_candidates sf =
     map (\<lambda>(d, dev).
       \<lparr>cand_identity = d,
        cand_display_name = id_display_name (ds_identity dev),
        cand_last_transport = selected_transport (ds_identity dev),
        cand_last_seen = max_option (map snd (em_last_seen (sf_endpoint_mapping sf))),
        cand_has_stored_state = device_has_evidence dev\<rparr>) (sf_devices sf)"

definition remember_endpoint_mapping ::
  "int \<Rightarrow> device_endpoint \<Rightarrow> device_id \<Rightarrow> state_file \<Rightarrow> state_file" where
  "remember_endpoint_mapping seen_at e d sf =
     (let fingerprint = endpoint_fingerprint e;
          m = sf_endpoint_mapping sf
      in sf\<lparr>sf_endpoint_mapping :=
           \<lparr>em_endpoints = bt_insert fingerprint d (em_endpoints m),
            em_last_seen = bt_insert fingerprint seen_at (em_last_seen m)\<rparr>\<rparr>)"

section \<open>Resolving one connection\<close>

definition journal_reserves_token :: "identity_setup_journal \<Rightarrow> physical_id \<Rightarrow> bool" where
  "journal_reserves_token j token \<longleftrightarrow>
     list_ex (\<lambda>s. sub_token s = Some token \<or> sub_old_token s = Some token) (jr_subjects j)"

definition is_reserved_token :: "physical_id \<Rightarrow> bool" where
  "is_reserved_token token \<longleftrightarrow> token_bytes token = replicate 16 0"

definition resolve_valid_token ::
  "(device_id, device_state) btree \<Rightarrow> identity_setup_journal option \<Rightarrow> physical_id \<Rightarrow> identity_resolution" where
  "resolve_valid_token devices journal token =
     (if is_reserved_token token then Unassociated ReasonReserved (Some token)
      else if (case journal of None \<Rightarrow> False | Some j \<Rightarrow> journal_reserves_token j token)
      then Unassociated ReasonReservedByJournal (Some token)
      else let owners = map (\<lambda>dev. id_device (ds_identity dev))
                 (filter (\<lambda>dev. id_physical_id (ds_identity dev) = Some token) (map snd devices))
           in (case owners of
                 [] \<Rightarrow> Unassociated ReasonUnknown (Some token)
               | [d] \<Rightarrow> Resolved d
               | _ \<Rightarrow> Unassociated ReasonDuplicate (Some token)))"

definition resolve_connection ::
  "(device_id, device_state) btree \<Rightarrow> identity_setup_journal option \<Rightarrow> device_id option
     \<Rightarrow> device_endpoint \<Rightarrow> watermark_decode option \<Rightarrow> identity_resolution" where
  "resolve_connection devices journal legacy_id e decode =
     (case legacy_id of
        Some legacy \<Rightarrow> Resolved legacy
      | None \<Rightarrow>
          (case ep_transport e of
             Ble \<Rightarrow>
               (case find (\<lambda>dev. case identity_endpoint (ds_identity dev) Ble of
                                 None \<Rightarrow> False | Some ep \<Rightarrow> ep_locator ep = ep_locator e)
                       (map snd devices) of
                  Some dev \<Rightarrow> Resolved (id_device (ds_identity dev))
                | None \<Rightarrow> Unassociated ReasonAbsent None)
           | _ \<Rightarrow>
               (case decode of
                  Some (Valid token) \<Rightarrow> resolve_valid_token devices journal token
                | Some Absent \<Rightarrow> Unassociated ReasonAbsent None
                | None \<Rightarrow> Unassociated ReasonAbsent None
                | Some Malformed \<Rightarrow> Unassociated ReasonMalformed None
                | Some (UnsupportedVersion version) \<Rightarrow> Unassociated (ReasonUnsupported version) None)))"

section \<open>Folding duplicates\<close>

definition unknown_key :: "resolved_connection \<Rightarrow> (transport_kind \<times> physical_id) option" where
  "unknown_key row =
     map_option (Pair (ep_transport (rc_endpoint row))) (presented_token row)"

definition count_key :: "resolved_connection list \<Rightarrow> transport_kind \<times> physical_id \<Rightarrow> nat" where
  "count_key rows key = length (filter (\<lambda>row. unknown_key row = Some key) rows)"

definition mark_scan_duplicates :: "resolved_connection list \<Rightarrow> resolved_connection list" where
  "mark_scan_duplicates rows =
     map (\<lambda>row. case unknown_key row of
           None \<Rightarrow> row
         | Some (transport, token) \<Rightarrow>
             if count_key rows (transport, token) > 1
             then row\<lparr>rc_resolution := Unassociated ReasonDuplicate (Some token)\<rparr> else row) rows"

section \<open>Aggregate rows\<close>

definition aggregate_row :: "state_file \<Rightarrow> resolved_connection
    \<Rightarrow> (device_id, discovered_device) btree \<Rightarrow> (device_id, discovered_device) btree" where
  "aggregate_row sf row result =
     (case rc_resolution row of
        Unassociated _ _ \<Rightarrow> result
      | Resolved d \<Rightarrow>
          (case bt_get (sf_devices sf) d of
             None \<Rightarrow> result
           | Some dev \<Rightarrow>
               bt_entry d \<lparr>dd_identity = ds_identity dev, dd_connected = False, dd_transports = []\<rparr>
                 (\<lambda>entry. entry\<lparr>dd_connected := dd_connected entry \<or> rc_connected row,
                    dd_transports := if ep_transport (rc_endpoint row) \<in> set (dd_transports entry)
                      then dd_transports entry
                      else dd_transports entry @ [ep_transport (rc_endpoint row)]\<rparr>) result))"

definition aggregate_discovered_devices ::
  "state_file \<Rightarrow> resolved_connection list \<Rightarrow> discovered_device list" where
  "aggregate_discovered_devices sf rows =
     map (\<lambda>(_, row). row\<lparr>dd_transports := sort (dd_transports row)\<rparr>) (fold (aggregate_row sf) rows [])"

section \<open>The active ceremony\<close>

definition journal_blocks_device :: "identity_setup_journal \<Rightarrow> device_id \<Rightarrow> bool" where
  "journal_blocks_device j d \<longleftrightarrow>
     jr_phase j = InitialEnrollment \<or> list_ex (\<lambda>s. sub_device_id s = Some d) (jr_subjects j)"

definition ceremony_progress_from_journal :: "identity_setup_journal \<Rightarrow> ceremony_progress" where
  "ceremony_progress_from_journal j =
     (let kind = (case jr_phase j of
            InitialEnrollment \<Rightarrow> KindInitialEnrollment | AddMouse \<Rightarrow> KindAddMouse
          | Restore \<Rightarrow> KindRestore | ForeignAdoption \<Rightarrow> KindForeignAdoption
          | BleAssociation \<Rightarrow> KindBleAssociation);
          stage = (case jr_stage j of
            AwaitingCapture \<Rightarrow> StageAwaitingReconnect | Stamping \<Rightarrow> StageStamping
          | Finalizing \<Rightarrow> StageComplete);
          (step, total_steps) =
            (if jr_phase j = InitialEnrollment
             then let step = (case jr_stage j of
                        AwaitingCapture \<Rightarrow> if jr_subjects j = [] then 1 else 2
                      | Stamping \<Rightarrow> of_nat (max (length (jr_subjects j)) 1)
                      | Finalizing \<Rightarrow> 2)
                  in (Some step, Some 2)
             else (Some 1, Some 1));
          subject = (if jr_subjects j = [] then None else Some (last (jr_subjects j)))
      in \<lparr>cp_kind = kind, cp_stage = stage, cp_step = step, cp_total_steps = total_steps,
          cp_identity = Option.bind subject sub_device_id,
          cp_physical_id = Option.bind subject
            (\<lambda>s. case sub_token s of Some t \<Rightarrow> Some t | None \<Rightarrow> sub_old_token s),
          cp_endpoint = map_option sub_endpoint subject\<rparr>)"

section \<open>Unknown connections\<close>

definition is_open_row :: "resolved_connection \<Rightarrow> bool" where
  "is_open_row row =
     (case rc_resolution row of
        Unassociated ReasonAbsent _ \<Rightarrow> True | Unassociated ReasonUnknown _ \<Rightarrow> True | _ \<Rightarrow> False)"

definition unknown_count :: "resolved_connection list \<Rightarrow> nat" where
  "unknown_count rows = length (filter (\<lambda>row. rc_connected row \<and> is_open_row row) rows)"

text \<open>The silent attachments of a scan with one unknown connection.\<close>

definition silent_of :: "state_file \<Rightarrow> nat \<Rightarrow> resolved_connection \<Rightarrow> (device_endpoint \<times> device_id \<times> bool) list" where
  "silent_of sf count row =
     (if \<not> is_open_row row \<or> \<not> rc_connected row then []
      else case (case remembered_device_in sf (rc_endpoint row) of
                   Some remembered \<Rightarrow>
                     if remembered_mapping_agrees sf (rc_endpoint row) (presented_token row)
                     then Some remembered else None
                 | None \<Rightarrow> None) of
             Some remembered \<Rightarrow>
               [(rc_endpoint row, remembered,
                 case bt_get (sf_devices sf) remembered of None \<Rightarrow> False | Some dev \<Rightarrow> device_has_evidence dev)]
           | None \<Rightarrow>
               (case resolve_endpoint False count (ep_transport (rc_endpoint row)) (resolution_candidates sf)
                       (list_ex cand_has_stored_state (resolution_candidates sf)) of
                  SilentAttach d keep \<Rightarrow> [(rc_endpoint row, d, keep)]
                | _ \<Rightarrow> []))"

text \<open>The closure that persists one silent attachment, and the second pass over the rows.\<close>

definition attach_silently :: "int \<Rightarrow> device_endpoint \<Rightarrow> device_id \<Rightarrow> state_file \<Rightarrow> state_file" where
  "attach_silently seen_at e d sf =
     (if bt_contains (sf_devices sf) d
      then remember_endpoint_mapping seen_at e d
        (sf\<lparr>sf_devices := bt_adjust d (\<lambda>dev. dev\<lparr>ds_identity := upsert_endpoint (ds_identity dev) e\<rparr>)
               (sf_devices sf)\<rparr>)
      else sf)"

definition reresolve :: "state_file \<Rightarrow> resolved_connection \<Rightarrow> resolved_connection" where
  "reresolve sf row =
     (if \<not> is_open_row row then row
      else case remembered_device_in sf (rc_endpoint row) of
             None \<Rightarrow> row
           | Some remembered \<Rightarrow>
               if remembered_mapping_agrees sf (rc_endpoint row) (presented_token row)
               then row\<lparr>rc_resolution := Resolved remembered\<rparr> else row)"

section \<open>The legacy mouse and the endpoint associations\<close>

text \<open>The closure of \<^verbatim>\<open>ensure_legacy_mouse\<close>; \<^verbatim>\<open>allocate_device_id\<close> may advance the
  counter before it fails.\<close>

definition ensure_legacy :: "discovered_endpoint list \<Rightarrow> state_file \<Rightarrow> unit state_result \<times> state_file" where
  "ensure_legacy discovered sf =
     (if sf_devices sf \<noteq> [] then (Inr (), sf)
      else case allocate_device_id sf of
             (Inl e, sf) \<Rightarrow> (Inl e, sf)
           | (Inr new_id, sf) \<Rightarrow>
               let display_name = (case discovered of [] \<Rightarrow> None | d # _ \<Rightarrow> ep_display_name (disc_endpoint d));
                   identity = fold (\<lambda>d i. upsert_endpoint i (disc_endpoint d)) discovered
                     (identity_new new_id display_name)
               in (Inr (), sf\<lparr>sf_devices := bt_insert new_id (device_state_new identity) (sf_devices sf)\<rparr>))"

definition scan_transports :: "transport_selection \<Rightarrow> transport_kind list" where
  "scan_transports selection =
     (case selection of AutoSelection \<Rightarrow> [Wired, Receiver, Ble] | ExactSelection t \<Rightarrow> [t])"

definition rows_by_device ::
  "resolved_connection list \<Rightarrow> (device_id, resolved_connection list) btree" where
  "rows_by_device rows = fold (\<lambda>row m.
     case rc_resolution row of
       Resolved d \<Rightarrow> bt_entry d [] (\<lambda>rs. rs @ [row]) m
     | Unassociated _ _ \<Rightarrow> m) rows []"

definition synced_endpoints ::
  "transport_selection \<Rightarrow> resolved_connection list \<Rightarrow> (transport_kind, device_endpoint) btree
     \<Rightarrow> (transport_kind, device_endpoint) btree" where
  "synced_endpoints selection rows old =
     fold (\<lambda>row m. bt_insert (ep_transport (rc_endpoint row)) (rc_endpoint row) m) rows
       (filter (\<lambda>(transport, _). transport = Ble \<or> transport \<notin> set (scan_transports selection)) old)"

definition sync_endpoints ::
  "transport_selection \<Rightarrow> (device_id, resolved_connection list) btree \<Rightarrow> state_file \<Rightarrow> state_file" where
  "sync_endpoints selection by_device sf =
     fold (\<lambda>(d, rows) sf.
       sf\<lparr>sf_devices := bt_adjust d (\<lambda>dev. dev\<lparr>ds_identity := (ds_identity dev)
            \<lparr>id_endpoints := synced_endpoints selection rows (id_endpoints (ds_identity dev))\<rparr>\<rparr>)
          (sf_devices sf)\<rparr>) by_device sf"

end
