(* ===== verification/X3_Manager.thy ===== *)
theory X3_Manager
  imports X3_Store_Facts X3_Resolution
begin

text \<open>
  The device manager (\<^verbatim>\<open>manager.rs\<close>, first part): its state, the sessions and factories it
  relies on (\<^verbatim>\<open>backend.rs\<close>), guarded access to one saved mouse with authentication of the
  attachment, and the discovery scan. The store is the in-memory one, which the disk store refines;
  the transports are an interface over a world \<^typ>\<open>'w\<close> the session calls act on.
\<close>

section \<open>Sessions and factories\<close>

record 'w session =
  ss_transport :: transport_kind
  ss_read_profile_metadata :: "('w, manager_error, profile_metadata) prog"
  ss_read_profile :: "profile_id \<Rightarrow> ('w, manager_error, profile_snapshot) prog"
  ss_read_dpi :: "profile_id \<Rightarrow> ('w, manager_error, dpi_state) prog"
  ss_read_preferences :: "profile_id \<Rightarrow> ('w, manager_error, preferences_state) prog"
  ss_read_buttons :: "profile_id \<Rightarrow> ('w, manager_error, buttons_state) prog"
  ss_read_live_polling_rate :: "profile_id \<Rightarrow> ('w, manager_error, polling_rate) prog"
  ss_write_dpi :: "dpi_state \<Rightarrow> verification_method \<Rightarrow> ('w, manager_error, dpi_state session_write) prog"
  ss_write_preferences ::
    "preferences_state \<Rightarrow> verification_method \<Rightarrow> ('w, manager_error, preferences_state session_write) prog"
  ss_write_buttons ::
    "buttons_state \<Rightarrow> verification_method \<Rightarrow> ('w, manager_error, buttons_state session_write) prog"
  ss_write_polling_rate_unchecked ::
    "profile_id \<Rightarrow> polling_rate \<Rightarrow> verification_method \<Rightarrow> ('w, manager_error, polling_rate session_write) prog"
  ss_write_profile_metadata ::
    "profile_metadata \<Rightarrow> ('w, manager_error, profile_metadata session_write) prog"
  ss_read_battery :: "duration \<Rightarrow> ('w, manager_error, u8) prog"

text \<open>The factory, the clock in seconds, the operation lock of a device, and the checksum of the
  \<^verbatim>\<open>crc32fast\<close> crate.\<close>

record 'w backend =
  be_list :: "transport_selection \<Rightarrow> ('w, manager_error, discovered_endpoint list) prog"
  be_open :: "device_endpoint \<Rightarrow> ('w, manager_error, 'w session) prog"
  be_now :: "'w \<Rightarrow> int"
  be_lock :: "device_id \<Rightarrow> string \<Rightarrow> ('w, manager_error, unit) prog"
  be_unlock :: "device_id \<Rightarrow> 'w \<Rightarrow> 'w"
  be_crc :: "packet \<Rightarrow> u32"

section \<open>The state of the manager\<close>

type_synonym identity_cache =
  "transport_kind \<times> device_locator \<Rightarrow> (watermark_decode \<times> device_endpoint) option"

record 'w manager =
  mn_store :: memory_backend
  mn_cache :: identity_cache
  mn_world :: 'w

type_synonym ('w, 'a) mop = "('w manager, manager_error, 'a) prog"

abbreviation doc :: "'w manager \<Rightarrow> state_file" where
  "doc m \<equiv> mb_state (mn_store m)"

definition BATTERY_READ_TIMEOUT :: duration where "BATTERY_READ_TIMEOUT = from_secs 20"

definition in_world :: "('w, manager_error, 'a) prog \<Rightarrow> ('w, 'a) mop" where
  "in_world = zoomp mn_world (\<lambda>w m. m\<lparr>mn_world := w\<rparr>)"

definition in_store :: "(memory_backend, state_error, 'a) prog \<Rightarrow> ('w, 'a) mop" where
  "in_store p = map_errp StateFailure (zoomp mn_store (\<lambda>b m. m\<lparr>mn_store := b\<rparr>) p)"

definition load_doc :: "('w, state_file) mop" where
  "load_doc = in_store memory_load"

definition mutate :: "(state_file \<Rightarrow> 'a \<times> state_file) \<Rightarrow> ('w, 'a) mop" where
  "mutate f = in_store (memory_mutate f)"

text \<open>\<^verbatim>\<open>mutate_async(f).await??\<close>: the changes are committed also when \<open>f\<close> failed.\<close>

definition mutate_inner :: "(state_file \<Rightarrow> 'a manager_result \<times> state_file) \<Rightarrow> ('w, 'a) mop" where
  "mutate_inner f = thenp (mutate f) liftp"

text \<open>A transaction dropped on the error path commits nothing.\<close>

definition transact :: "(state_file \<Rightarrow> 'a manager_result \<times> state_file) \<Rightarrow> ('w, 'a) mop" where
  "transact f =
     thenp load_doc (\<lambda>original.
       case f original of
         (Inl e, _) \<Rightarrow> errp e
       | (Inr x, st) \<Rightarrow> thenp (in_store (memory_commit original st)) (\<lambda>_. okp x))"

definition now_op :: "'w backend \<Rightarrow> ('w, timestamp) mop" where
  "now_op be = getp (\<lambda>m. Timestamp (be_now be (mn_world m)))"

section \<open>Authentication\<close>

definition current_watermark ::
  "'w backend \<Rightarrow> 'w session \<Rightarrow> ('w, manager_error, profile_id \<times> watermark_decode) prog" where
  "current_watermark be session =
     thenp (ss_read_profile_metadata session) (\<lambda>metadata.
     thenp (ss_read_dpi session (meta_current metadata)) (\<lambda>dpi.
     okp (meta_current metadata, decode_watermark (be_crc be) (dpi_preserved_tail dpi))))"

definition read_endpoint_identity ::
  "'w backend \<Rightarrow> device_endpoint \<Rightarrow> ('w, manager_error, watermark_decode) prog" where
  "read_endpoint_identity be e =
     thenp (be_open be e) (\<lambda>session.
     handlep (current_watermark be session)
       (\<lambda>err. case err of UnsupportedOperation _ _ \<Rightarrow> okp Absent | _ \<Rightarrow> errp err)
       (\<lambda>(_, decode). okp decode))"

definition cache_key :: "device_endpoint \<Rightarrow> transport_kind \<times> device_locator" where
  "cache_key e = (ep_transport e, ep_locator e)"

text \<open>A cached reading counts only for the very endpoint it was taken from.\<close>

definition cached :: "identity_cache \<Rightarrow> device_endpoint \<Rightarrow> watermark_decode option" where
  "cached cache e =
     (case cache (cache_key e) of
        Some (decode, cached_endpoint) \<Rightarrow> if cached_endpoint = e then Some decode else None
      | None \<Rightarrow> None)"

definition cache_insert :: "device_endpoint \<Rightarrow> watermark_decode \<Rightarrow> ('w, unit) mop" where
  "cache_insert e decode =
     modifyp (\<lambda>m. m\<lparr>mn_cache := (mn_cache m)(cache_key e \<mapsto> (decode, e))\<rparr>)"

definition authenticate_attachment ::
  "'w backend \<Rightarrow> device_endpoint \<Rightarrow> 'w session \<Rightarrow> ('w, watermark_decode) mop" where
  "authenticate_attachment be e session =
     thenp (getp mn_cache) (\<lambda>cache.
     case cached cache e of
       Some decode \<Rightarrow> okp decode
     | None \<Rightarrow>
         thenp (in_world (current_watermark be session)) (\<lambda>(_, decode).
         thenp (cache_insert e decode) (\<lambda>_. okp decode)))"

text \<open>The operation guard is released when the operation returns.\<close>

definition with_guard :: "'w backend \<Rightarrow> device_id \<Rightarrow> string \<Rightarrow> ('w, 'a) mop \<Rightarrow> ('w, 'a) mop" where
  "with_guard be device operation body =
     thenp (in_world (be_lock be device operation)) (\<lambda>_ m.
       case body m of (r, m') \<Rightarrow> (r, m'\<lparr>mn_world := be_unlock be device (mn_world m')\<rparr>))"

definition check_attachment ::
  "'w backend \<Rightarrow> device_id \<Rightarrow> device_identity \<Rightarrow> device_endpoint \<Rightarrow> 'w session \<Rightarrow> ('w, unit) mop" where
  "check_attachment be device identity e session =
     (case id_physical_id identity of
        Some physical_id \<Rightarrow>
          if is_usb_transport (ep_transport e)
          then thenp (authenticate_attachment be e session) (\<lambda>decode.
            if decode \<noteq> Valid physical_id then errp (AttachmentNotAuthenticated device e decode)
            else okp ())
          else okp ()
      | None \<Rightarrow> okp ())"

definition open_locked ::
  "'w backend \<Rightarrow> device_id \<Rightarrow> string \<Rightarrow> (device_identity \<Rightarrow> 'w session \<Rightarrow> ('w, 'a) mop) \<Rightarrow> ('w, 'a) mop" where
  "open_locked be device operation body =
     with_guard be device operation
       (thenp load_doc (\<lambda>st.
        thenp (case sf_identity_setup st of
                 Some journal \<Rightarrow> if journal_blocks_device journal device
                   then errp (DeviceInvolvedInSetup device (jr_phase journal)) else okp ()
               | None \<Rightarrow> okp ()) (\<lambda>_.
        thenp (liftp (ok_or (NoSuchDevice device) (bt_get (sf_devices st) device))) (\<lambda>dev.
        thenp (liftp (ok_or (NoSuchDevice device) (selected_endpoint (ds_identity dev)))) (\<lambda>e.
        thenp (in_world (be_open be e)) (\<lambda>session.
        thenp (check_attachment be device (ds_identity dev) e session) (\<lambda>_.
        body (ds_identity dev) session)))))))"

section \<open>Discovery\<close>

definition needs_read :: "identity_cache \<Rightarrow> discovered_endpoint \<Rightarrow> bool" where
  "needs_read cache d \<longleftrightarrow>
     disc_connected d \<and> is_usb_transport (ep_transport (disc_endpoint d))
     \<and> (case cache (cache_key (disc_endpoint d)) of
          Some (_, cached_endpoint) \<Rightarrow> cached_endpoint \<noteq> disc_endpoint d
        | None \<Rightarrow> True)"

definition retain_cache :: "discovered_endpoint list \<Rightarrow> identity_cache \<Rightarrow> identity_cache" where
  "retain_cache discovered cache = (\<lambda>key.
     case cache key of
       None \<Rightarrow> None
     | Some (decode, cached_endpoint) \<Rightarrow>
         if list_ex (\<lambda>d. disc_connected d \<and> is_usb_transport (ep_transport (disc_endpoint d))
                \<and> cache_key (disc_endpoint d) = key) discovered
            \<and> list_ex (\<lambda>d. disc_connected d \<and> disc_endpoint d = cached_endpoint) discovered
         then Some (decode, cached_endpoint) else None)"

definition authenticate_scan :: "'w backend \<Rightarrow> discovered_endpoint list \<Rightarrow> ('w, unit) mop" where
  "authenticate_scan be discovered =
     thenp (getp mn_cache) (\<lambda>cache.
     let to_read = map disc_endpoint (filter (needs_read cache) discovered)
     in thenp (for_each (\<lambda>e. thenp (in_world (read_endpoint_identity be e)) (cache_insert e)) to_read) (\<lambda>_.
        modifyp (\<lambda>m. m\<lparr>mn_cache := retain_cache discovered (mn_cache m)\<rparr>)))"

definition scan_row ::
  "identity_mode \<Rightarrow> state_file \<Rightarrow> identity_cache \<Rightarrow> device_id option \<Rightarrow> discovered_endpoint
     \<Rightarrow> resolved_connection" where
  "scan_row mode st identities legacy_id d =
     (let decode =
        (if \<not> is_legacy mode \<and> disc_connected d
            \<and> is_usb_transport (ep_transport (disc_endpoint d))
         then cached identities (disc_endpoint d) else None)
      in \<lparr>rc_endpoint = disc_endpoint d, rc_connected = disc_connected d,
          rc_resolution = resolve_connection (sf_devices st) (sf_identity_setup st) legacy_id
            (disc_endpoint d) decode\<rparr>)"

definition ensure_legacy_mouse :: "discovered_endpoint list \<Rightarrow> ('w, unit) mop" where
  "ensure_legacy_mouse discovered =
     mutate_inner (\<lambda>st. case ensure_legacy discovered st of (r, st') \<Rightarrow> (map_err StateFailure r, st'))"

definition auto_resolve_unknowns ::
  "'w backend \<Rightarrow> resolved_connection list \<Rightarrow> ('w, resolved_connection list) mop" where
  "auto_resolve_unknowns be rows =
     thenp load_doc (\<lambda>st.
     if sf_identity_setup st \<noteq> None then okp rows
     else if unknown_count rows = 0 then okp rows
     else if unknown_count rows \<ge> 2 then okp rows
     else let silent = concat (map (silent_of st (unknown_count rows)) rows)
          in if silent = [] then okp rows
             else thenp (for_each (\<lambda>(e, d, _).
                    thenp (now_op be) (\<lambda>time.
                    mutate_inner (\<lambda>st. (Inr (), attach_silently (unix_seconds time) e d st)))) silent) (\<lambda>_.
                  thenp load_doc (\<lambda>st. okp (map (reresolve st) rows))))"

definition sync_endpoint_associations ::
  "resolved_connection list \<Rightarrow> transport_selection \<Rightarrow> ('w, unit) mop" where
  "sync_endpoint_associations rows selection =
     (let by_device = rows_by_device rows
      in if by_device = [] then okp ()
         else mutate_inner (\<lambda>st. (Inr (), sync_endpoints selection by_device st)))"

record discovery_view =
  dv_mode :: identity_mode
  dv_devices :: "discovered_device list"
  dv_connections :: "resolved_connection list"

definition discover :: "'w backend \<Rightarrow> transport_selection \<Rightarrow> ('w, discovery_view) mop" where
  "discover be selection =
     thenp (in_world (be_list be selection)) (\<lambda>discovered.
     thenp load_doc (\<lambda>st0.
     let mode = sf_identity_mode st0 in
     thenp (if is_legacy mode \<and> discovered \<noteq> [] then ensure_legacy_mouse discovered else okp ()) (\<lambda>_.
     thenp (if \<not> is_legacy mode then authenticate_scan be discovered else okp ()) (\<lambda>_.
     thenp (getp mn_cache) (\<lambda>identities.
     thenp load_doc (\<lambda>st.
     let legacy_id = (if is_legacy mode
           then (case sf_devices st of [] \<Rightarrow> None | (_, dev) # _ \<Rightarrow> Some (id_device (ds_identity dev)))
           else None);
         rows = mark_scan_duplicates (map (scan_row mode st identities legacy_id) discovered)
     in thenp (if \<not> is_legacy mode then auto_resolve_unknowns be rows else okp rows) (\<lambda>rows.
        thenp (sync_endpoint_associations rows selection) (\<lambda>_.
        thenp load_doc (\<lambda>st.
        okp \<lparr>dv_mode = mode, dv_devices = aggregate_discovered_devices st rows,
             dv_connections = rows\<rparr>)))))))))"

end
