(* ===== verification/X3_Registry.thy ===== *)
theory X3_Registry
  imports X3_Manager
begin

text \<open>
  The saved mice: selection, registration, names and removal (\<^verbatim>\<open>manager.rs\<close>), the portable
  configuration, the local profile names and the recording of a completed write
  (\<^verbatim>\<open>resources/state.rs\<close>).
\<close>

section \<open>Selection\<close>

definition selected_device :: "('w, device_id option) mop" where
  "selected_device = thenp load_doc (\<lambda>st. okp (sf_selected_device st))"

definition resolve_connection_decision ::
  "device_endpoint \<Rightarrow> resolved_connection list \<Rightarrow> ('w, resolution) mop" where
  "resolve_connection_decision e connections =
     thenp load_doc (\<lambda>st.
     let presented = Option.bind (find (\<lambda>row. rc_endpoint row = e) connections) presented_token;
         attached = (case remembered_device_in st e of
             Some remembered \<Rightarrow> if remembered_mapping_agrees st e presented then Some remembered else None
           | None \<Rightarrow> None)
     in case attached of
          Some remembered \<Rightarrow>
            okp (SilentAttach remembered
              (case bt_get (sf_devices st) remembered of None \<Rightarrow> False | Some dev \<Rightarrow> device_has_evidence dev))
        | None \<Rightarrow>
            okp (resolve_endpoint False (max (unknown_count connections) 1) (ep_transport e)
              (resolution_candidates st) (list_ex cand_has_stored_state (resolution_candidates st))))"

definition remembered_device_for :: "device_endpoint \<Rightarrow> 'w manager \<Rightarrow> device_id option" where
  "remembered_device_for e m =
     (case load_doc m of (Inl _, _) \<Rightarrow> None | (Inr st, _) \<Rightarrow> remembered_device_in st e)"

definition is_endpoint_remembered :: "device_endpoint \<Rightarrow> 'w manager \<Rightarrow> bool" where
  "is_endpoint_remembered e m \<longleftrightarrow> remembered_device_for e m \<noteq> None"

definition device_physical_id :: "device_id \<Rightarrow> 'w manager \<Rightarrow> physical_id option" where
  "device_physical_id device m = (case load_doc m of (Inl _, _) \<Rightarrow> None | (Inr st, _) \<Rightarrow> token_of st device)"

text \<open>\<^verbatim>\<open>txn.state_mut().devices.get_mut(device).ok_or(DeviceNotFound)?\<close>, then a change of it.\<close>

definition adjust_device ::
  "device_id \<Rightarrow> (device_state \<Rightarrow> device_state) \<Rightarrow> state_file \<Rightarrow> unit manager_result \<times> state_file" where
  "adjust_device device f st =
     (if bt_contains (sf_devices st) device
      then (Inr (), st\<lparr>sf_devices := bt_adjust device f (sf_devices st)\<rparr>)
      else (Inl (NoSuchDevice device), st))"

definition remember_resolution :: "'w backend \<Rightarrow> device_endpoint \<Rightarrow> device_id \<Rightarrow> ('w, unit) mop" where
  "remember_resolution be e device =
     thenp (now_op be) (\<lambda>time.
     transact (\<lambda>st.
       case adjust_device device (\<lambda>dev. dev\<lparr>ds_identity := upsert_endpoint (ds_identity dev) e\<rparr>) st of
         (Inl err, st) \<Rightarrow> (Inl err, st)
       | (Inr _, st) \<Rightarrow> (Inr (), remember_endpoint_mapping (unix_seconds time) e device st)))"

definition choose_device :: "device_id \<Rightarrow> state_file \<Rightarrow> unit manager_result \<times> state_file" where
  "choose_device device st =
     (if bt_contains (sf_devices st) device then (Inr (), st\<lparr>sf_selected_device := Some device\<rparr>)
      else (Inl (NoSuchDevice device), st))"

definition select_device :: "device_id \<Rightarrow> ('w, unit) mop" where
  "select_device device = transact (choose_device device)"

definition set_preferred_transport :: "device_id \<Rightarrow> transport_kind \<Rightarrow> ('w, unit) mop" where
  "set_preferred_transport device transport =
     mutate_inner (adjust_device device
       (\<lambda>dev. dev\<lparr>ds_identity := (ds_identity dev)\<lparr>id_preferred_transport := Some transport\<rparr>\<rparr>))"

definition prefer_exact :: "transport_selection \<Rightarrow> device_id \<Rightarrow> ('w, unit) mop" where
  "prefer_exact selection device =
     (case selection of ExactSelection transport \<Rightarrow> set_preferred_transport device transport
      | AutoSelection \<Rightarrow> okp ())"

text \<open>The ids of the connected rows with a property, sorted and without duplicates.\<close>

definition connected_ids :: "(discovered_device \<Rightarrow> bool) \<Rightarrow> discovered_device list \<Rightarrow> device_id list" where
  "connected_ids p rows =
     remdups_adj (sort (map (\<lambda>d. id_device (dd_identity d)) (filter (\<lambda>d. dd_connected d \<and> p d) rows)))"

definition is_row_connected :: "discovered_device list \<Rightarrow> device_id \<Rightarrow> bool" where
  "is_row_connected rows device \<longleftrightarrow>
     list_ex (\<lambda>d. dd_connected d \<and> id_device (dd_identity d) = device) rows"

definition auto_select :: "transport_selection \<Rightarrow> device_id \<Rightarrow> ('w, device_id) mop" where
  "auto_select selection candidate =
     thenp (prefer_exact selection candidate) (\<lambda>_.
     thenp (mutate_inner (choose_device candidate)) (\<lambda>_. okp candidate))"

definition resolve_device ::
  "'w backend \<Rightarrow> device_id option \<Rightarrow> transport_selection \<Rightarrow> ('w, device_id) mop" where
  "resolve_device be explicit selection =
     thenp (discover be selection) (\<lambda>view.
     let discovered = dv_devices view in
     case explicit of
       Some explicit_id \<Rightarrow>
         thenp load_doc (\<lambda>st.
         if \<not> bt_contains (sf_devices st) explicit_id then errp (NoSuchDevice explicit_id)
         else if \<not> is_row_connected discovered explicit_id then errp (DeviceDisconnected explicit_id)
         else thenp (prefer_exact selection explicit_id) (\<lambda>_. okp explicit_id))
     | None \<Rightarrow>
         thenp load_doc (\<lambda>st.
         case (case sf_selected_device st of
                 Some selected \<Rightarrow> if is_row_connected discovered selected then Some selected else None
               | None \<Rightarrow> None) of
           Some selected \<Rightarrow> thenp (prefer_exact selection selected) (\<lambda>_. okp selected)
         | None \<Rightarrow>
             (case connected_ids (\<lambda>_. True) discovered of
                [] \<Rightarrow> errp (NoDevice selection)
              | [candidate] \<Rightarrow> auto_select selection candidate
              | candidates \<Rightarrow>
                  (case connected_ids (\<lambda>d. Wired \<in> set (dd_transports d)) discovered of
                     [candidate] \<Rightarrow> auto_select selection candidate
                   | _ \<Rightarrow> errp (AmbiguousDevices selection candidates)))))"

section \<open>Registration, removal and names\<close>

text \<open>The counter passes a registered number; the largest number cannot be passed.\<close>

definition pass_number :: "device_id \<Rightarrow> state_file \<Rightarrow> unit manager_result \<times> state_file" where
  "pass_number device st =
     (case device_number device of
        None \<Rightarrow> (Inr (), st)
      | Some num \<Rightarrow>
          if sf_next_device_number st \<le> num
          then if num = - 1 then (Inl (StateFailure (InvalidState NextNumberOverflow)), st)
               else (Inr (), st\<lparr>sf_next_device_number := num + 1\<rparr>)
          else (Inr (), st))"

definition select_if_none :: "device_id \<Rightarrow> state_file \<Rightarrow> state_file" where
  "select_if_none device st =
     (if sf_selected_device st = None then st\<lparr>sf_selected_device := Some device\<rparr> else st)"

definition register_closure :: "device_identity \<Rightarrow> state_file \<Rightarrow> unit manager_result \<times> state_file" where
  "register_closure identity st =
     (case pass_number (id_device identity) st of
        (Inl err, st) \<Rightarrow> (Inl err, st)
      | (Inr _, st) \<Rightarrow>
          let st = select_if_none (id_device identity) st
          in (Inr (), st\<lparr>sf_devices := bt_entry (id_device identity) (device_state_new identity)
                (\<lambda>dev. dev) (sf_devices st)\<rparr>))"

definition register_device :: "device_identity \<Rightarrow> ('w, unit) mop" where
  "register_device identity = transact (register_closure identity)"

text \<open>A transaction that returns early leaves the document as it is, so a refusal is an unchanged
  document.\<close>

definition forget_closure :: "device_id \<Rightarrow> bool \<Rightarrow> state_file \<Rightarrow> bool manager_result \<times> state_file" where
  "forget_closure device force st =
     (case bt_get (sf_devices st) device of
        None \<Rightarrow> (Inl (NoSuchDevice device), st)
      | Some dev \<Rightarrow>
          if device_has_evidence dev \<and> \<not> force then (Inr False, st)
          else let st' = st\<lparr>sf_devices := bt_remove device (sf_devices st)\<rparr>
               in (Inr True, if sf_selected_device st' = Some device
                             then st'\<lparr>sf_selected_device := None\<rparr> else st'))"

definition forget_device :: "device_id \<Rightarrow> bool \<Rightarrow> ('w, bool) mop" where
  "forget_device device force = transact (forget_closure device force)"

definition rename_device :: "device_id \<Rightarrow> rstring \<Rightarrow> ('w, unit) mop" where
  "rename_device device name =
     transact (adjust_device device (\<lambda>dev. dev\<lparr>ds_identity := (ds_identity dev)
       \<lparr>id_display_name := (if trim name = [] then None else Some (trim name))\<rparr>\<rparr>))"

text \<open>Unicode case folding is the standard library's \<^verbatim>\<open>str::to_lowercase\<close>, a parameter.\<close>

definition find_device_by_name :: "(rstring \<Rightarrow> rstring) \<Rightarrow> rstring \<Rightarrow> ('w, device_id) mop" where
  "find_device_by_name lower name =
     thenp load_doc (\<lambda>st.
     let needle = lower (trim name)
     in case map (\<lambda>dev. id_device (ds_identity dev))
            (filter (\<lambda>dev. map_option lower (id_display_name (ds_identity dev)) = Some needle)
               (map snd (sf_devices st))) of
          [d] \<Rightarrow> okp d
        | [] \<Rightarrow> errp (InvalidUpdate ''no device with display name'')
        | ds \<Rightarrow> errp (AmbiguousDevices AutoSelection ds))"

section \<open>Portable configuration\<close>

record portable_dpi =
  pd_profile :: profile_id
  pd_stages :: "dpi_value list"
  pd_active_stage :: stage_index
  pd_sensor :: sensor_options

definition from_dpi_state :: "dpi_state \<Rightarrow> portable_dpi" where
  "from_dpi_state st = \<lparr>pd_profile = dpi_profile st, pd_stages = dpi_stages st,
     pd_active_stage = dpi_active_stage st, pd_sensor = dpi_sensor st\<rparr>"

record profile_configuration =
  pc_dpi :: "portable_dpi option"
  pc_preferences :: "preferences_state option"
  pc_buttons :: "buttons_state option"
  pc_polling_rate :: "polling_rate option"

record configuration_export =
  ce_profiles :: "(profile_id, profile_configuration) btree"
  ce_profile_names :: "(profile_id, rstring) btree"

definition value_for_export :: "'a resource_state \<Rightarrow> 'a option" where
  "value_for_export r =
     (case res_desired r of
        Some desired \<Rightarrow> Some (des_value desired)
      | None \<Rightarrow> map_option obs_value (res_observed r))"

definition profile_configuration_of :: "profile_state \<Rightarrow> profile_configuration" where
  "profile_configuration_of p =
     \<lparr>pc_dpi = map_option from_dpi_state (value_for_export (ps_dpi p)),
      pc_preferences = value_for_export (ps_preferences p),
      pc_buttons = value_for_export (ps_buttons p),
      pc_polling_rate = value_for_export (ps_polling_rate p)\<rparr>"

definition configuration_is_empty :: "profile_configuration \<Rightarrow> bool" where
  "configuration_is_empty c \<longleftrightarrow>
     pc_dpi c = None \<and> pc_preferences c = None \<and> pc_buttons c = None \<and> pc_polling_rate c = None"

definition exported :: "device_state \<Rightarrow> configuration_export" where
  "exported dev =
     \<lparr>ce_profiles = fold (\<lambda>(profile, p) m.
          if configuration_is_empty (profile_configuration_of p) then m
          else bt_insert profile (profile_configuration_of p) m) (ds_profiles dev) [],
      ce_profile_names = ds_profile_names dev\<rparr>"

definition export_configuration :: "device_id \<Rightarrow> ('w, configuration_export) mop" where
  "export_configuration device =
     thenp load_doc (\<lambda>st.
     thenp (liftp (ok_or (NoSuchDevice device) (bt_get (sf_devices st) device))) (\<lambda>dev.
     okp (exported dev)))"

definition merge_portable_dpi :: "portable_dpi \<Rightarrow> dpi_state \<Rightarrow> dpi_state manager_result" where
  "merge_portable_dpi portable baseline =
     map_err (ProtocolFailure ''dpi state'')
       (tryq (dpi_state_new (pd_profile portable) (pd_stages portable) (pd_active_stage portable)
                (dpi_preserved_tail baseline))
          (\<lambda>st. Inr (with_sensor st (pd_sensor portable))))"

definition normalize_profile_name :: "rstring \<Rightarrow> rstring option manager_result" where
  "normalize_profile_name name =
     (let trimmed = trim name
      in if trimmed = [] then Inr None
         else if length trimmed > MAX_PROFILE_NAME_CHARS
         then Inl (InvalidUpdate ''profile name exceeds 64 Unicode scalar values'')
         else Inr (Some trimmed))"

definition set_imported :: "'a resource_state \<Rightarrow> 'a \<Rightarrow> timestamp \<Rightarrow> 'a resource_state" where
  "set_imported r v time =
     r\<lparr>res_desired := Some \<lparr>des_value = v, des_source = Imported,
        des_verification = verification_not_sent, des_updated_at = time\<rparr>\<rparr>"

definition invalid_profile_value :: "string \<Rightarrow> manager_error" where
  "invalid_profile_value resource =
     InvalidUpdate (resource @ '' configuration targets a different profile'')"

definition validate_profile_configuration ::
  "profile_id \<times> profile_configuration \<Rightarrow> unit manager_result" where
  "validate_profile_configuration e = (case e of (profile, values) \<Rightarrow>
     tryq (case pc_dpi values of
             None \<Rightarrow> Inr ()
           | Some dpi \<Rightarrow>
               if pd_profile dpi \<noteq> profile then Inl (invalid_profile_value ''DPI'')
               else tryq (map_err (ProtocolFailure ''dpi state'')
                      (dpi_state_new (pd_profile dpi) (pd_stages dpi) (pd_active_stage dpi) (replicate 25 0)))
                    (\<lambda>_. Inr ())) (\<lambda>_.
     if (case pc_preferences values of None \<Rightarrow> False | Some v \<Rightarrow> prefs_profile v \<noteq> profile)
     then Inl (invalid_profile_value ''preferences'')
     else if (case pc_buttons values of None \<Rightarrow> False | Some v \<Rightarrow> buttons_profile v \<noteq> profile)
     then Inl (invalid_profile_value ''buttons'')
     else Inr ()))"

definition validate_configuration :: "configuration_export \<Rightarrow> unit manager_result" where
  "validate_configuration c =
     tryq (check_all validate_profile_configuration (ce_profiles c)) (\<lambda>_.
     check_all (\<lambda>(_, name). tryq (normalize_profile_name name) (\<lambda>_. Inr ())) (ce_profile_names c))"

text \<open>\<^verbatim>\<open>for x in xs { state = step(x, state)?; }\<close>\<close>

fun fold_try :: "('a \<Rightarrow> 's \<Rightarrow> ('e, 's) result) \<Rightarrow> 'a list \<Rightarrow> 's \<Rightarrow> ('e, 's) result" where
  "fold_try f [] s = Inr s"
| "fold_try f (x # xs) s = tryq (f x s) (fold_try f xs)"

definition import_profile ::
  "timestamp \<Rightarrow> profile_id \<Rightarrow> profile_configuration \<Rightarrow> profile_state \<Rightarrow> profile_state manager_result" where
  "import_profile time profile c p =
     tryq (case pc_dpi c of
             None \<Rightarrow> Inr p
           | Some dpi \<Rightarrow>
               tryq (ok_or (MissingBaseline ''DPI'' (Some profile)) (value_for_export (ps_dpi p))) (\<lambda>baseline.
               tryq (merge_portable_dpi dpi baseline) (\<lambda>merged.
               Inr (p\<lparr>ps_dpi := set_imported (ps_dpi p) merged time\<rparr>)))) (\<lambda>p.
     let p = (case pc_preferences c of None \<Rightarrow> p
              | Some v \<Rightarrow> p\<lparr>ps_preferences := set_imported (ps_preferences p) v time\<rparr>);
         p = (case pc_buttons c of None \<Rightarrow> p
              | Some v \<Rightarrow> p\<lparr>ps_buttons := set_imported (ps_buttons p) v time\<rparr>);
         p = (case pc_polling_rate c of None \<Rightarrow> p
              | Some v \<Rightarrow> p\<lparr>ps_polling_rate := set_imported (ps_polling_rate p) v time\<rparr>)
     in Inr p)"

definition import_step ::
  "timestamp \<Rightarrow> profile_id \<times> profile_configuration \<Rightarrow> device_state \<Rightarrow> device_state manager_result" where
  "import_step time e dev = (case e of (profile, c) \<Rightarrow>
     tryq (import_profile time profile c
             (case bt_get (ds_profiles dev) profile of None \<Rightarrow> profile_state_empty | Some p \<Rightarrow> p)) (\<lambda>p.
     Inr (dev\<lparr>ds_profiles := bt_insert profile p (ds_profiles dev)\<rparr>)))"

definition import_name :: "profile_id \<times> rstring \<Rightarrow> device_state \<Rightarrow> device_state manager_result" where
  "import_name e dev = (case e of (profile, name) \<Rightarrow>
     tryq (normalize_profile_name name) (\<lambda>r.
     Inr (dev\<lparr>ds_profile_names :=
       (case r of Some name \<Rightarrow> bt_insert profile name (ds_profile_names dev)
        | None \<Rightarrow> bt_remove profile (ds_profile_names dev))\<rparr>)))"

definition imported_device ::
  "timestamp \<Rightarrow> configuration_export \<Rightarrow> device_state \<Rightarrow> device_state manager_result" where
  "imported_device time c dev =
     tryq (fold_try (import_step time) (ce_profiles c) dev) (fold_try import_name (ce_profile_names c))"

definition import_closure ::
  "timestamp \<Rightarrow> device_identity \<Rightarrow> configuration_export \<Rightarrow> state_file \<Rightarrow> unit manager_result \<times> state_file" where
  "import_closure time identity c st =
     (case pass_number (id_device identity) st of
        (Inl err, st) \<Rightarrow> (Inl err, st)
      | (Inr _, st) \<Rightarrow>
          let dev = (case bt_get (sf_devices st) (id_device identity) of
                       None \<Rightarrow> device_state_new identity | Some dev \<Rightarrow> dev)\<lparr>ds_identity := identity\<rparr>;
              st = select_if_none (id_device identity) st
          in case imported_device time c dev of
               Inl err \<Rightarrow> (Inl err, st)
             | Inr dev \<Rightarrow> (Inr (), st\<lparr>sf_devices := bt_insert (id_device identity) dev (sf_devices st)\<rparr>))"

definition import_configuration ::
  "'w backend \<Rightarrow> device_identity \<Rightarrow> configuration_export \<Rightarrow> ('w, unit) mop" where
  "import_configuration be identity c =
     thenp (liftp (validate_configuration c)) (\<lambda>_.
     thenp (now_op be) (\<lambda>time. transact (import_closure time identity c)))"

section \<open>Profile names\<close>

definition profile_names :: "device_id \<Rightarrow> ('w, (profile_id, rstring) btree) mop" where
  "profile_names device =
     thenp load_doc (\<lambda>st.
     thenp (liftp (ok_or (NoSuchDevice device) (bt_get (sf_devices st) device))) (\<lambda>dev.
     okp (ds_profile_names dev)))"

definition remove_profile_name :: "device_id \<Rightarrow> profile_id \<Rightarrow> ('w, unit) mop" where
  "remove_profile_name device profile =
     transact (adjust_device device (\<lambda>dev. dev\<lparr>ds_profile_names := bt_remove profile (ds_profile_names dev)\<rparr>))"

definition set_profile_name :: "device_id \<Rightarrow> profile_id \<Rightarrow> rstring \<Rightarrow> ('w, unit) mop" where
  "set_profile_name device profile name =
     thenp (liftp (normalize_profile_name name)) (\<lambda>r.
     case r of
       None \<Rightarrow> remove_profile_name device profile
     | Some name \<Rightarrow>
         transact (adjust_device device
           (\<lambda>dev. dev\<lparr>ds_profile_names := bt_insert profile name (ds_profile_names dev)\<rparr>)))"

definition invalidate_state :: "device_id \<Rightarrow> ('w, unit) mop" where
  "invalidate_state device = transact (adjust_device device device_invalidate_persistence)"

section \<open>Recording a write\<close>

text \<open>\<^verbatim>\<open>select\<close> borrows one resource of the profile; the model passes its change, which gives the
  verification recorded.\<close>

definition recorded_write ::
  "'a \<Rightarrow> 'a session_write \<Rightarrow> timestamp \<Rightarrow> 'a resource_state \<Rightarrow> 'a write_outcome \<times> 'a resource_state" where
  "recorded_write desired w time r =
     (case w of
        WriteReadback readback \<Rightarrow>
          (case record_readback_write r desired readback UserWrite time of (v, r) \<Rightarrow>
             (\<lparr>wo_desired = desired, wo_observed = Some readback, wo_verification = v\<rparr>, r))
      | WriteAcknowledged \<Rightarrow>
          (case record_ack_write r desired UserWrite time of (v, r) \<Rightarrow>
             (\<lparr>wo_desired = desired, wo_observed = None, wo_verification = v\<rparr>, r)))"

text \<open>\<^verbatim>\<open>get_mut(device)?.profiles.entry(profile).or_insert_with(ProfileState::empty)\<close> and a change of
  the profile that also gives a value.\<close>

definition with_profile ::
  "device_id \<Rightarrow> profile_id \<Rightarrow> (profile_state \<Rightarrow> 'r \<times> profile_state) \<Rightarrow> state_file
     \<Rightarrow> 'r manager_result \<times> state_file" where
  "with_profile device profile f st =
     (case bt_get (sf_devices st) device of
        None \<Rightarrow> (Inl (NoSuchDevice device), st)
      | Some dev \<Rightarrow>
          (case f (case bt_get (ds_profiles dev) profile of None \<Rightarrow> profile_state_empty | Some p \<Rightarrow> p) of
             (x, p) \<Rightarrow> (Inr x, st\<lparr>sf_devices := bt_insert device
                (dev\<lparr>ds_profiles := bt_insert profile p (ds_profiles dev)\<rparr>) (sf_devices st)\<rparr>)))"

definition persist_write ::
  "device_id \<Rightarrow> profile_id \<Rightarrow> (profile_state \<Rightarrow> 'a resource_state)
     \<Rightarrow> ('a resource_state \<Rightarrow> profile_state \<Rightarrow> profile_state)
     \<Rightarrow> 'a \<Rightarrow> 'a session_write \<Rightarrow> timestamp \<Rightarrow> state_file \<Rightarrow> 'a write_outcome manager_result \<times> state_file" where
  "persist_write device profile get put desired w time =
     with_profile device profile (\<lambda>p.
       case recorded_write desired w time (get p) of (outcome, r) \<Rightarrow> (outcome, put r p))"

definition finish_write :: "'a write_outcome \<Rightarrow> string \<Rightarrow> profile_id \<Rightarrow> 'a write_outcome manager_result" where
  "finish_write outcome resource profile =
     (if ver_application (wo_verification outcome) = Mismatch
      then Inl (VerificationMismatch resource (Some profile))
      else Inr outcome)"

end
