(* ===== verification/X3_Updates.thy ===== *)
theory X3_Updates
  imports X3_Registry
begin

text \<open>
  Reads and writes of the profile resources of a saved mouse (\<^verbatim>\<open>resources/dpi.rs\<close>,
  \<^verbatim>\<open>resources/buttons.rs\<close>, \<^verbatim>\<open>resources/settings.rs\<close>): partial updates merged into a
  complete baseline, the watermark overlay, the polling-rate preflight, and the evidence recorded for
  each write.
\<close>

section \<open>Resources of a profile\<close>

abbreviation put_dpi :: "dpi_state resource_state \<Rightarrow> profile_state \<Rightarrow> profile_state" where
  "put_dpi r p \<equiv> p\<lparr>ps_dpi := r\<rparr>"

abbreviation put_preferences :: "preferences_state resource_state \<Rightarrow> profile_state \<Rightarrow> profile_state" where
  "put_preferences r p \<equiv> p\<lparr>ps_preferences := r\<rparr>"

abbreviation put_buttons :: "buttons_state resource_state \<Rightarrow> profile_state \<Rightarrow> profile_state" where
  "put_buttons r p \<equiv> p\<lparr>ps_buttons := r\<rparr>"

abbreviation put_polling_rate :: "polling_rate resource_state \<Rightarrow> profile_state \<Rightarrow> profile_state" where
  "put_polling_rate r p \<equiv> p\<lparr>ps_polling_rate := r\<rparr>"

definition reconcile_observed :: "'a resource_state \<Rightarrow> 'a \<Rightarrow> timestamp \<Rightarrow> 'a resource_state" where
  "reconcile_observed r v time = snd (reconcile_observation r v time)"

text \<open>The observation of one resource, which returns the resource it leaves.\<close>

definition observe ::
  "'w backend \<Rightarrow> device_id \<Rightarrow> profile_id \<Rightarrow> (profile_state \<Rightarrow> 'a resource_state)
     \<Rightarrow> ('a resource_state \<Rightarrow> profile_state \<Rightarrow> profile_state) \<Rightarrow> 'a \<Rightarrow> ('w, 'a resource_state) mop" where
  "observe be device profile get put v =
     thenp (now_op be) (\<lambda>time.
     mutate_inner (with_profile device profile (\<lambda>p.
       let r = reconcile_observed (get p) v time in (r, put r p))))"

text \<open>\<^verbatim>\<open>persist_write\<close> in a store transaction, then \<^verbatim>\<open>finish_write\<close>.\<close>

definition record_write ::
  "'w backend \<Rightarrow> device_id \<Rightarrow> profile_id \<Rightarrow> (profile_state \<Rightarrow> 'a resource_state)
     \<Rightarrow> ('a resource_state \<Rightarrow> profile_state \<Rightarrow> profile_state) \<Rightarrow> string
     \<Rightarrow> 'a \<Rightarrow> 'a session_write \<Rightarrow> ('w, 'a write_outcome) mop" where
  "record_write be device profile get put resource desired w =
     thenp (now_op be) (\<lambda>time.
     thenp (mutate_inner (persist_write device profile get put desired w time)) (\<lambda>outcome.
     liftp (finish_write outcome resource profile)))"

text \<open>The stored value a partial update may be merged into.\<close>

definition stored_value :: "bool \<Rightarrow> 'a resource_state option \<Rightarrow> 'a option" where
  "stored_value allow resource =
     (case resource of
        None \<Rightarrow> None
      | Some r \<Rightarrow>
          (case (case res_desired r of
                   Some desired \<Rightarrow> if allow \<or> des_source desired \<noteq> ExplicitDefaults then Some (des_value desired) else None
                 | None \<Rightarrow> None) of
             Some v \<Rightarrow> Some v
           | None \<Rightarrow> map_option obs_value (res_observed r)))"

definition stored_profile :: "state_file \<Rightarrow> device_id \<Rightarrow> profile_id \<Rightarrow> profile_state option" where
  "stored_profile st device profile =
     Option.bind (bt_get (sf_devices st) device) (\<lambda>dev. bt_get (ds_profiles dev) profile)"

definition has_baseline :: "(profile_state \<Rightarrow> 'a resource_state) \<Rightarrow> profile_state option \<Rightarrow> bool" where
  "has_baseline get p =
     (case p of None \<Rightarrow> False | Some p \<Rightarrow> res_desired (get p) \<noteq> None \<or> res_observed (get p) \<noteq> None)"

section \<open>DPI\<close>

record sensor_options_delta =
  sd_lift_off_distance :: "lift_off_distance option"
  sd_ripple_control :: "bool option"
  sd_angle_snap :: "bool option"
  sd_motion_sync :: "bool option"

definition sensor_delta_is_empty :: "sensor_options_delta \<Rightarrow> bool" where
  "sensor_delta_is_empty d \<longleftrightarrow>
     sd_lift_off_distance d = None \<and> sd_ripple_control d = None \<and> sd_angle_snap d = None
     \<and> sd_motion_sync d = None"

record dpi_delta =
  dd_stages :: "dpi_value list option"
  dd_active_stage :: "stage_index option"
  dd_sensor :: "sensor_options_delta option"

definition dpi_delta_is_empty :: "dpi_delta \<Rightarrow> bool" where
  "dpi_delta_is_empty d \<longleftrightarrow>
     dd_stages d = None \<and> dd_active_stage d = None
     \<and> (case dd_sensor d of None \<Rightarrow> True | Some sensor \<Rightarrow> sensor_delta_is_empty sensor)"

definition merge_sensor :: "sensor_options_delta \<Rightarrow> sensor_options \<Rightarrow> sensor_options" where
  "merge_sensor d sensor =
     \<lparr>lift_off_distance = unwrap_or (lift_off_distance sensor) (sd_lift_off_distance d),
      ripple_control = unwrap_or (ripple_control sensor) (sd_ripple_control d),
      angle_snap = unwrap_or (angle_snap sensor) (sd_angle_snap d),
      motion_sync = unwrap_or (motion_sync sensor) (sd_motion_sync d)\<rparr>"

definition merge_dpi_delta :: "dpi_state \<Rightarrow> dpi_delta \<Rightarrow> dpi_state manager_result" where
  "merge_dpi_delta baseline d =
     (let sensor = (case dd_sensor d of None \<Rightarrow> dpi_sensor baseline
                    | Some sd \<Rightarrow> merge_sensor sd (dpi_sensor baseline))
      in map_err (ProtocolFailure ''dpi state'')
           (tryq (dpi_state_new (dpi_profile baseline) (unwrap_or (dpi_stages baseline) (dd_stages d))
                    (unwrap_or (dpi_active_stage baseline) (dd_active_stage d)) (dpi_preserved_tail baseline))
              (\<lambda>st. Inr (with_sensor st sensor))))"

definition with_physical_watermark ::
  "(packet \<Rightarrow> u32) \<Rightarrow> dpi_state \<Rightarrow> physical_id option \<Rightarrow> dpi_state" where
  "with_physical_watermark crc st physical =
     (case physical of None \<Rightarrow> st | Some token \<Rightarrow> st\<lparr>dpi_preserved_tail := to_watermark_bytes crc token\<rparr>)"

definition captured_evidence_dpi :: "profile_id \<Rightarrow> dpi_state manager_result" where
  "captured_evidence_dpi profile =
     tryq (ok_or (InvalidUpdate ''invalid captured DPI stage'') (dpi_new 800)) (\<lambda>stage.
     tryq (ok_or (InvalidUpdate ''invalid captured DPI active stage'') (stage_new 1)) (\<lambda>active.
     tryq (map_err (ProtocolFailure ''dpi state'') (captured_empty_profile_one [stage] active)) (\<lambda>captured.
     map_err (ProtocolFailure ''dpi state'')
       (dpi_state_new profile (dpi_stages captured) (dpi_active_stage captured) (dpi_preserved_tail captured)))))"

definition load_stored_dpi_baseline :: "device_id \<Rightarrow> profile_id \<Rightarrow> bool \<Rightarrow> ('w, dpi_state) mop" where
  "load_stored_dpi_baseline device profile allow =
     thenp load_doc (\<lambda>st.
     case stored_value allow (map_option ps_dpi (stored_profile st device profile)) of
       Some v \<Rightarrow> okp v
     | None \<Rightarrow> if allow then liftp (captured_evidence_dpi profile)
               else errp (MissingBaseline ''DPI'' (Some profile)))"

definition write_dpi_with_session ::
  "'w backend \<Rightarrow> device_id \<Rightarrow> profile_id \<Rightarrow> dpi_state \<Rightarrow> physical_id option \<Rightarrow> verification_method
     \<Rightarrow> 'w session \<Rightarrow> ('w, dpi_state write_outcome) mop" where
  "write_dpi_with_session be device profile desired physical verification session =
     (let stamped = with_physical_watermark (be_crc be) desired physical
      in thenp (in_world (ss_write_dpi session stamped verification))
           (record_write be device profile ps_dpi put_dpi ''DPI'' stamped))"

text \<open>The names of the manager's operations; the driver has operations of the same names.\<close>

definition manager_read_dpi ::
  "'w backend \<Rightarrow> device_id \<Rightarrow> profile_id \<Rightarrow> ('w, dpi_state resource_state) mop" where
  "manager_read_dpi be device profile =
     open_locked be device ''read_dpi'' (\<lambda>_ session.
     if ss_transport session = Ble then errp (UnsupportedOperation ''read_dpi'' Ble)
     else thenp (in_world (ss_read_dpi session profile)) (observe be device profile ps_dpi put_dpi))"

definition update_dpi ::
  "'w backend \<Rightarrow> device_id \<Rightarrow> profile_id \<Rightarrow> dpi_state \<Rightarrow> update_policy \<Rightarrow> ('w, dpi_state write_outcome) mop" where
  "update_dpi be device profile desired policy =
     (if dpi_profile desired \<noteq> profile
      then errp (InvalidUpdate ''DPI state profile does not match requested profile'')
      else open_locked be device ''update_dpi'' (\<lambda>identity session.
        thenp (if ss_transport session = Ble \<and> \<not> allow_explicit_defaults policy
               then thenp load_doc (\<lambda>st.
                 if has_baseline ps_dpi (stored_profile st device profile) then okp ()
                 else errp (MissingBaseline ''DPI'' (Some profile)))
               else okp ()) (\<lambda>_.
        write_dpi_with_session be device profile desired (id_physical_id identity)
          (policy_verification policy) session)))"

definition dpi_baseline ::
  "device_id \<Rightarrow> profile_id \<Rightarrow> update_policy \<Rightarrow> 'w session \<Rightarrow> dpi_state option \<Rightarrow> ('w, dpi_state) mop" where
  "dpi_baseline device profile policy session provided =
     (if ss_transport session = Ble
      then load_stored_dpi_baseline device profile (allow_explicit_defaults policy)
      else case policy_baseline policy of
             LiveBaseline \<Rightarrow>
               (case provided of Some v \<Rightarrow> okp v | None \<Rightarrow> in_world (ss_read_dpi session profile))
           | StoredBaseline \<Rightarrow> load_stored_dpi_baseline device profile False)"

definition update_dpi_delta ::
  "'w backend \<Rightarrow> device_id \<Rightarrow> profile_id \<Rightarrow> dpi_delta \<Rightarrow> update_policy \<Rightarrow> ('w, dpi_state write_outcome) mop" where
  "update_dpi_delta be device profile d policy =
     (if dpi_delta_is_empty d then errp (InvalidUpdate ''DPI delta must provide at least one field'')
      else open_locked be device ''update_dpi_delta'' (\<lambda>identity session.
        thenp (dpi_baseline device profile policy session None) (\<lambda>baseline.
        thenp (liftp (merge_dpi_delta baseline d)) (\<lambda>desired.
        write_dpi_with_session be device profile desired (id_physical_id identity)
          (policy_verification policy) session))))"

section \<open>Buttons\<close>

datatype safe_button_slot = SlotLeft | SlotRight | SlotMiddle | SlotDpi | SlotForward | SlotBackward

fun slot_index :: "safe_button_slot \<Rightarrow> nat" where
  "slot_index SlotLeft = 0"
| "slot_index SlotRight = 1"
| "slot_index SlotMiddle = 2"
| "slot_index SlotDpi = 3"
| "slot_index SlotForward = 6"
| "slot_index SlotBackward = 7"

datatype safe_button_action =
    SafeDisable | SafeLeftClick | SafeRightClick | SafeMiddleClick | SafeBackward | SafeForward
  | SafeDoubleClick | SafeFireButton | SafeScrollUp | SafeScrollDown | SafeDpiCycle | SafeDpiPlus
  | SafeDpiMinus | SafeProfileCycle | SafeProfilePlus | SafeProfileMinus | SafeMediaPlayer
  | SafePreviousTrack | SafeNextTrack | SafePlayPause | SafeStop | SafeMute | SafeVolumeUp
  | SafeVolumeDown | SafeCalculator | SafeEmail | SafeBrowserForward | SafeBrowserBackward
  | SafeBrowserStop | SafeMyComputer | SafeBrowserRefresh | SafeBrowserHome | SafeBrowserSearch
  | SafeBrowserFavorites | SafeCut | SafeCopy | SafePaste | SafeOpen | SafeSave | SafeFind
  | SafeRedo | SafeSelectAll | SafePrint | SafeCloseWindow | SafeSwapWindows | SafeShowDesktop
  | SafeRunCommand | SafeLockPc | SafeScreenCapture

fun firmware_byte :: "safe_button_action \<Rightarrow> u8" where
  "firmware_byte SafeDisable = 0x01"
| "firmware_byte SafeLeftClick = 0x02"
| "firmware_byte SafeRightClick = 0x03"
| "firmware_byte SafeMiddleClick = 0x04"
| "firmware_byte SafeBackward = 0x05"
| "firmware_byte SafeForward = 0x06"
| "firmware_byte SafeDoubleClick = 0x07"
| "firmware_byte SafeFireButton = 0x08"
| "firmware_byte SafeScrollUp = 0x09"
| "firmware_byte SafeScrollDown = 0x0a"
| "firmware_byte SafeDpiCycle = 0x0d"
| "firmware_byte SafeDpiPlus = 0x0e"
| "firmware_byte SafeDpiMinus = 0x0f"
| "firmware_byte SafeProfileCycle = 0x34"
| "firmware_byte SafeProfilePlus = 0x35"
| "firmware_byte SafeProfileMinus = 0x36"
| "firmware_byte SafeMediaPlayer = 0x15"
| "firmware_byte SafePreviousTrack = 0x16"
| "firmware_byte SafeNextTrack = 0x17"
| "firmware_byte SafePlayPause = 0x18"
| "firmware_byte SafeStop = 0x19"
| "firmware_byte SafeMute = 0x1a"
| "firmware_byte SafeVolumeUp = 0x1b"
| "firmware_byte SafeVolumeDown = 0x1c"
| "firmware_byte SafeCalculator = 0x1d"
| "firmware_byte SafeEmail = 0x1e"
| "firmware_byte SafeBrowserForward = 0x20"
| "firmware_byte SafeBrowserBackward = 0x21"
| "firmware_byte SafeBrowserStop = 0x22"
| "firmware_byte SafeMyComputer = 0x23"
| "firmware_byte SafeBrowserRefresh = 0x24"
| "firmware_byte SafeBrowserHome = 0x25"
| "firmware_byte SafeBrowserSearch = 0x26"
| "firmware_byte _ = 0x11"

fun safe_assignment :: "safe_button_action \<Rightarrow> button_assignment" where
  "safe_assignment SafeCut = assignment_new 0x11 0x01 0x1b"
| "safe_assignment SafeCopy = assignment_new 0x11 0x01 0x06"
| "safe_assignment SafePaste = assignment_new 0x11 0x01 0x19"
| "safe_assignment SafeOpen = assignment_new 0x11 0x01 0x12"
| "safe_assignment SafeSave = assignment_new 0x11 0x01 0x16"
| "safe_assignment SafeFind = assignment_new 0x11 0x01 0x09"
| "safe_assignment SafeRedo = assignment_new 0x11 0x01 0x1c"
| "safe_assignment SafeSelectAll = assignment_new 0x11 0x01 0x04"
| "safe_assignment SafePrint = assignment_new 0x11 0x01 0x13"
| "safe_assignment SafeCloseWindow = assignment_new 0x11 0x04 0x3d"
| "safe_assignment SafeSwapWindows = assignment_new 0x11 0x04 0x2b"
| "safe_assignment SafeShowDesktop = assignment_new 0x11 0x08 0x07"
| "safe_assignment SafeRunCommand = assignment_new 0x11 0x08 0x15"
| "safe_assignment SafeLockPc = assignment_new 0x11 0x08 0x0f"
| "safe_assignment SafeScreenCapture = assignment_new 0x11 0x0a 0x16"
| "safe_assignment SafeBrowserFavorites = assignment_new 0x11 0x03 0x12"
| "safe_assignment other = assignment_new (firmware_byte other) 0 0"

record button_slot_delta =
  bd_slot :: safe_button_slot
  bd_action :: safe_button_action

definition apply_slot :: "button_slot_delta \<Rightarrow> buttons_state \<Rightarrow> buttons_state" where
  "apply_slot d st =
     st\<lparr>buttons_slots := (buttons_slots st)[slot_index (bd_slot d) := safe_assignment (bd_action d)]\<rparr>"

definition load_stored_buttons_baseline :: "device_id \<Rightarrow> profile_id \<Rightarrow> bool \<Rightarrow> ('w, buttons_state) mop" where
  "load_stored_buttons_baseline device profile allow =
     thenp load_doc (\<lambda>st.
     case stored_value allow (map_option ps_buttons (stored_profile st device profile)) of
       Some v \<Rightarrow> okp v
     | None \<Rightarrow> if allow then okp (buttons_default_for_profile profile)
               else errp (MissingBaseline ''buttons'' (Some profile)))"

definition write_buttons_with_session ::
  "'w backend \<Rightarrow> device_id \<Rightarrow> 'w session \<Rightarrow> buttons_state \<Rightarrow> verification_method
     \<Rightarrow> ('w, buttons_state write_outcome) mop" where
  "write_buttons_with_session be device session requested verification =
     thenp (in_world (ss_write_buttons session requested verification))
       (record_write be device (buttons_profile requested) ps_buttons put_buttons ''buttons'' requested)"

definition manager_read_buttons ::
  "'w backend \<Rightarrow> device_id \<Rightarrow> profile_id \<Rightarrow> ('w, buttons_state resource_state) mop" where
  "manager_read_buttons be device profile =
     open_locked be device ''read_buttons'' (\<lambda>_ session.
     if ss_transport session = Ble then errp (UnsupportedOperation ''read_buttons'' Ble)
     else thenp (in_world (ss_read_buttons session profile)) (\<lambda>buttons.
       if buttons_profile buttons \<noteq> profile
       then errp (InvalidUpdate ''mouse-reported button settings target another profile'')
       else observe be device profile ps_buttons put_buttons buttons))"

definition buttons_baseline ::
  "device_id \<Rightarrow> profile_id \<Rightarrow> update_policy \<Rightarrow> 'w session \<Rightarrow> buttons_state option \<Rightarrow> ('w, buttons_state) mop" where
  "buttons_baseline device profile policy session provided =
     (if ss_transport session = Ble
      then load_stored_buttons_baseline device profile (allow_explicit_defaults policy)
      else case policy_baseline policy of
             LiveBaseline \<Rightarrow>
               (case provided of Some v \<Rightarrow> okp v | None \<Rightarrow> in_world (ss_read_buttons session profile))
           | StoredBaseline \<Rightarrow> load_stored_buttons_baseline device profile False)"

definition update_button_slot ::
  "'w backend \<Rightarrow> device_id \<Rightarrow> profile_id \<Rightarrow> button_slot_delta \<Rightarrow> update_policy
     \<Rightarrow> ('w, buttons_state write_outcome) mop" where
  "update_button_slot be device profile d policy =
     open_locked be device ''update_button_slot'' (\<lambda>_ session.
     thenp (buttons_baseline device profile policy session None) (\<lambda>baseline.
     write_buttons_with_session be device session (apply_slot d baseline) (policy_verification policy)))"

section \<open>Preferences\<close>

record preferences_delta =
  pf_light_mode :: "u8 option"
  pf_configuration :: "u8 option"
  pf_deep_sleep :: "u8 option"
  pf_host_color :: "(u8 \<times> u8 \<times> u8) option"
  pf_sleep_timer :: "u8 option"
  pf_debounce :: "u8 option"

definition preferences_delta_is_empty :: "preferences_delta \<Rightarrow> bool" where
  "preferences_delta_is_empty d \<longleftrightarrow>
     pf_light_mode d = None \<and> pf_configuration d = None \<and> pf_deep_sleep d = None
     \<and> pf_host_color d = None \<and> pf_sleep_timer d = None \<and> pf_debounce d = None"

definition merge_preferences_delta :: "preferences_state \<Rightarrow> preferences_delta \<Rightarrow> preferences_state" where
  "merge_preferences_delta baseline d =
     preferences_new (prefs_profile baseline) (unwrap_or (light_mode baseline) (pf_light_mode d))
       (unwrap_or (configuration baseline) (pf_configuration d))
       (unwrap_or (deep_sleep baseline) (pf_deep_sleep d))
       (unwrap_or (host_color baseline) (pf_host_color d))
       (unwrap_or (sleep_timer baseline) (pf_sleep_timer d))
       (unwrap_or (debounce baseline) (pf_debounce d))"

definition CAPTURED_EVIDENCE_LIGHT_MODE :: u8 where "CAPTURED_EVIDENCE_LIGHT_MODE = 0x02"
definition CAPTURED_EVIDENCE_CONFIGURATION :: u8 where "CAPTURED_EVIDENCE_CONFIGURATION = 0x01"
definition CAPTURED_EVIDENCE_DEEP_SLEEP :: u8 where "CAPTURED_EVIDENCE_DEEP_SLEEP = 0x00"
definition CAPTURED_EVIDENCE_HOST_COLOR :: "u8 \<times> u8 \<times> u8" where
  "CAPTURED_EVIDENCE_HOST_COLOR = (0xff, 0x00, 0x00)"
definition CAPTURED_EVIDENCE_SLEEP_TIMER :: u8 where "CAPTURED_EVIDENCE_SLEEP_TIMER = 5"
definition CAPTURED_EVIDENCE_DEBOUNCE :: u8 where "CAPTURED_EVIDENCE_DEBOUNCE = 0x00"

definition captured_evidence_preferences :: "profile_id \<Rightarrow> preferences_state" where
  "captured_evidence_preferences profile =
     preferences_new profile CAPTURED_EVIDENCE_LIGHT_MODE CAPTURED_EVIDENCE_CONFIGURATION
       CAPTURED_EVIDENCE_DEEP_SLEEP CAPTURED_EVIDENCE_HOST_COLOR CAPTURED_EVIDENCE_SLEEP_TIMER
       CAPTURED_EVIDENCE_DEBOUNCE"

definition load_stored_preferences_baseline ::
  "device_id \<Rightarrow> profile_id \<Rightarrow> bool \<Rightarrow> ('w, preferences_state) mop" where
  "load_stored_preferences_baseline device profile allow =
     thenp load_doc (\<lambda>st.
     case stored_value allow (map_option ps_preferences (stored_profile st device profile)) of
       Some v \<Rightarrow> okp v
     | None \<Rightarrow> if allow then okp (captured_evidence_preferences profile)
               else errp (MissingBaseline ''preferences'' (Some profile)))"

definition manager_read_preferences ::
  "'w backend \<Rightarrow> device_id \<Rightarrow> profile_id \<Rightarrow> ('w, preferences_state resource_state) mop" where
  "manager_read_preferences be device profile =
     open_locked be device ''read_preferences'' (\<lambda>_ session.
     if ss_transport session = Ble then errp (UnsupportedOperation ''read_preferences'' Ble)
     else thenp (in_world (ss_read_preferences session profile))
            (observe be device profile ps_preferences put_preferences))"

definition write_preferences_with_session ::
  "'w backend \<Rightarrow> device_id \<Rightarrow> profile_id \<Rightarrow> preferences_state \<Rightarrow> verification_method \<Rightarrow> 'w session
     \<Rightarrow> ('w, preferences_state write_outcome) mop" where
  "write_preferences_with_session be device profile desired verification session =
     thenp (in_world (ss_write_preferences session desired verification))
       (record_write be device profile ps_preferences put_preferences ''preferences'' desired)"

definition update_preferences ::
  "'w backend \<Rightarrow> device_id \<Rightarrow> profile_id \<Rightarrow> preferences_state \<Rightarrow> update_policy
     \<Rightarrow> ('w, preferences_state write_outcome) mop" where
  "update_preferences be device profile desired policy =
     (if prefs_profile desired \<noteq> profile
      then errp (InvalidUpdate ''preferences state profile does not match requested profile'')
      else open_locked be device ''update_preferences'' (\<lambda>_ session.
        thenp (if ss_transport session = Ble \<and> \<not> allow_explicit_defaults policy
               then thenp load_doc (\<lambda>st.
                 if has_baseline ps_preferences (stored_profile st device profile) then okp ()
                 else errp (MissingBaseline ''preferences'' (Some profile)))
               else okp ()) (\<lambda>_.
        write_preferences_with_session be device profile desired (policy_verification policy) session)))"

definition preferences_baseline ::
  "device_id \<Rightarrow> profile_id \<Rightarrow> update_policy \<Rightarrow> 'w session \<Rightarrow> preferences_state option
     \<Rightarrow> ('w, preferences_state) mop" where
  "preferences_baseline device profile policy session provided =
     (if ss_transport session = Ble
      then load_stored_preferences_baseline device profile (allow_explicit_defaults policy)
      else case policy_baseline policy of
             LiveBaseline \<Rightarrow>
               (case provided of Some v \<Rightarrow> okp v | None \<Rightarrow> in_world (ss_read_preferences session profile))
           | StoredBaseline \<Rightarrow> load_stored_preferences_baseline device profile False)"

definition update_preferences_delta ::
  "'w backend \<Rightarrow> device_id \<Rightarrow> profile_id \<Rightarrow> preferences_delta \<Rightarrow> update_policy
     \<Rightarrow> ('w, preferences_state write_outcome) mop" where
  "update_preferences_delta be device profile d policy =
     (if preferences_delta_is_empty d
      then errp (InvalidUpdate ''preferences delta must provide at least one field'')
      else open_locked be device ''update_preferences_delta'' (\<lambda>_ session.
        thenp (preferences_baseline device profile policy session None) (\<lambda>baseline.
        write_preferences_with_session be device profile (merge_preferences_delta baseline d)
          (policy_verification policy) session)))"

section \<open>Polling rate\<close>

text \<open>The complete image a safe write of report \<^verbatim>\<open>0x06\<close> is matched against.\<close>

record complete_desired_image =
  cd_dpi :: dpi_state
  cd_preferences :: preferences_state
  cd_buttons :: buttons_state

definition missing_section_baseline :: "string \<Rightarrow> profile_id \<Rightarrow> manager_error" where
  "missing_section_baseline resource profile = MissingBaseline resource (Some profile)"

definition missing_metadata_baseline :: manager_error where
  "missing_metadata_baseline = MissingBaseline ''profile metadata'' None"

definition desired_of :: "(profile_state \<Rightarrow> 'a resource_state) \<Rightarrow> profile_state option \<Rightarrow> 'a option" where
  "desired_of get p = map_option des_value (Option.bind p (\<lambda>p. res_desired (get p)))"

definition complete_desired_image_of :: "state_file \<Rightarrow> device_id \<Rightarrow> profile_id \<Rightarrow> complete_desired_image manager_result" where
  "complete_desired_image_of st device profile =
     tryq (ok_or (NoSuchDevice device) (bt_get (sf_devices st) device)) (\<lambda>dev.
     let p = bt_get (ds_profiles dev) profile in
     tryq (ok_or (missing_section_baseline ''DPI'' profile) (desired_of ps_dpi p)) (\<lambda>dpi.
     tryq (ok_or (missing_section_baseline ''preferences'' profile) (desired_of ps_preferences p)) (\<lambda>preferences.
     tryq (ok_or (missing_section_baseline ''buttons'' profile) (desired_of ps_buttons p)) (\<lambda>buttons.
     tryq (ok_or missing_metadata_baseline
             (case res_observed (ds_profile_metadata dev) of
                Some observed \<Rightarrow> Some (obs_value observed)
              | None \<Rightarrow> map_option des_value (res_desired (ds_profile_metadata dev)))) (\<lambda>metadata.
     if meta_current metadata \<noteq> profile then Inl missing_metadata_baseline
     else Inr \<lparr>cd_dpi = dpi, cd_preferences = preferences, cd_buttons = buttons\<rparr>)))))"

definition require_complete_desired_image ::
  "device_id \<Rightarrow> profile_id \<Rightarrow> ('w, complete_desired_image) mop" where
  "require_complete_desired_image device profile =
     thenp load_doc (\<lambda>st. liftp (complete_desired_image_of st device profile))"

definition check_image ::
  "profile_id \<Rightarrow> complete_desired_image \<Rightarrow> profile_snapshot \<Rightarrow> unit manager_result" where
  "check_image profile c snapshot =
     (if snap_dpi snapshot \<noteq> cd_dpi c then Inl (missing_section_baseline ''DPI'' profile)
      else if snap_preferences snapshot \<noteq> cd_preferences c
      then Inl (missing_section_baseline ''preferences'' profile)
      else if snap_buttons snapshot \<noteq> cd_buttons c then Inl (missing_section_baseline ''buttons'' profile)
      else Inr ())"

text \<open>A rate that is already live is not written; the fresh read is the evidence.\<close>

definition write_polling_rate ::
  "'w backend \<Rightarrow> device_id \<Rightarrow> profile_id \<Rightarrow> polling_rate \<Rightarrow> verification_method \<Rightarrow> 'w session
     \<Rightarrow> ('w, polling_rate write_outcome) mop" where
  "write_polling_rate be device profile desired verification session =
     thenp (in_world (ss_read_live_polling_rate session profile)) (\<lambda>current.
     thenp (if current = desired then okp (WriteReadback current)
            else in_world (ss_write_polling_rate_unchecked session profile desired verification))
       (record_write be device profile ps_polling_rate put_polling_rate ''polling rate'' desired))"

definition manager_read_polling_rate ::
  "'w backend \<Rightarrow> device_id \<Rightarrow> profile_id \<Rightarrow> ('w, polling_rate resource_state) mop" where
  "manager_read_polling_rate be device profile =
     open_locked be device ''read_polling_rate'' (\<lambda>_ session.
     if ss_transport session = Ble then errp (UnsupportedOperation ''read_live_polling_rate'' Ble)
     else thenp (in_world (ss_read_profile session profile)) (\<lambda>_.
          thenp (in_world (ss_read_live_polling_rate session profile))
            (observe be device profile ps_polling_rate put_polling_rate)))"

definition update_polling_rate ::
  "'w backend \<Rightarrow> device_id \<Rightarrow> profile_id \<Rightarrow> polling_rate \<Rightarrow> update_policy
     \<Rightarrow> ('w, polling_rate write_outcome) mop" where
  "update_polling_rate be device profile desired policy =
     open_locked be device ''update_polling_rate'' (\<lambda>_ session.
     if ss_transport session = Ble then errp (ExplicitAuthorizationRequired ''update_polling_rate'' Ble)
     else thenp (require_complete_desired_image device profile) (\<lambda>c.
          thenp (in_world (ss_read_profile session profile)) (\<lambda>snapshot.
          thenp (liftp (check_image profile c snapshot)) (\<lambda>_.
          write_polling_rate be device profile desired (policy_verification policy) session))))"

definition update_polling_rate_unverified_ble ::
  "'w backend \<Rightarrow> device_id \<Rightarrow> profile_id \<Rightarrow> polling_rate \<Rightarrow> update_policy
     \<Rightarrow> ('w, polling_rate write_outcome) mop" where
  "update_polling_rate_unverified_ble be device profile desired policy =
     open_locked be device ''update_polling_rate_unverified_ble'' (\<lambda>_ session.
     if ss_transport session \<noteq> Ble
     then errp (UnsupportedOperation ''update_polling_rate_unverified_ble'' (ss_transport session))
     else if policy_verification policy = Readback
     then errp (UnsupportedOperation ''update_polling_rate_unverified_ble'' Ble)
     else thenp (in_world (ss_write_polling_rate_unchecked session profile desired (policy_verification policy)))
            (record_write be device profile ps_polling_rate put_polling_rate ''polling rate'' desired))"

end
