(* ===== verification/X3_Manager_Ops.thy ===== *)
theory X3_Manager_Ops
  imports X3_Updates
begin

text \<open>
  The operations of the manager on one saved mouse (\<^verbatim>\<open>manager.rs\<close>, second part): status and
  profile reads, activation of a profile, and the composite profile update with its types of
  \<^verbatim>\<open>operation.rs\<close>.
\<close>

section \<open>Types\<close>

record device_status =
  st_identity :: device_identity
  st_battery :: "u8 option"
  st_profile_metadata :: "profile_metadata resource_state option"
  st_polling_rate :: "polling_rate resource_state option"

record live_profile_snapshot =
  lp_identity :: device_identity
  lp_battery :: "u8 option"
  lp_profile_metadata :: profile_metadata
  lp_profile :: profile_snapshot
  lp_polling_rate :: polling_rate

record profile_update_baseline =
  pb_dpi :: dpi_state
  pb_preferences :: preferences_state
  pb_buttons :: buttons_state

record profile_update =
  pu_dpi :: "dpi_delta option"
  pu_preferences :: "preferences_delta option"
  pu_buttons :: "button_slot_delta list"
  pu_polling_rate :: "polling_rate option"

definition update_is_empty :: "profile_update \<Rightarrow> bool" where
  "update_is_empty u \<longleftrightarrow>
     pu_dpi u = None \<and> pu_preferences u = None \<and> pu_buttons u = [] \<and> pu_polling_rate u = None"

definition has_non_rate :: "profile_update \<Rightarrow> bool" where
  "has_non_rate u \<longleftrightarrow> pu_dpi u \<noteq> None \<or> pu_preferences u \<noteq> None \<or> pu_buttons u \<noteq> []"

definition has_polling :: "profile_update \<Rightarrow> bool" where
  "has_polling u \<longleftrightarrow> pu_polling_rate u \<noteq> None"

record profile_update_outcome =
  po_dpi :: "dpi_state write_outcome option"
  po_preferences :: "preferences_state write_outcome option"
  po_buttons :: "buttons_state write_outcome option"
  po_polling_rate :: "polling_rate write_outcome option"

section \<open>Reads\<close>

definition manager_read_battery :: "'w backend \<Rightarrow> device_id \<Rightarrow> ('w, u8) mop" where
  "manager_read_battery be device =
     open_locked be device ''read_battery''
       (\<lambda>_ session. in_world (ss_read_battery session BATTERY_READ_TIMEOUT))"

text \<open>\<^verbatim>\<open>match m { Ok(x) => Some(x), Err(UnsupportedOperation) => None, Err(e) => return Err(e) }\<close>\<close>

definition optional_op :: "('s, manager_error, 'a) prog \<Rightarrow> ('s, manager_error, 'a option) prog" where
  "optional_op m = handlep m
     (\<lambda>e. case e of UnsupportedOperation _ _ \<Rightarrow> okp None | _ \<Rightarrow> errp e) (\<lambda>x. okp (Some x))"

definition update_observed_profile_metadata ::
  "'w backend \<Rightarrow> device_id \<Rightarrow> profile_metadata \<Rightarrow> ('w, profile_metadata resource_state) mop" where
  "update_observed_profile_metadata be device v =
     thenp (now_op be) (\<lambda>time.
     mutate_inner (\<lambda>st.
       case bt_get (sf_devices st) device of
         None \<Rightarrow> (Inl (NoSuchDevice device), st)
       | Some dev \<Rightarrow>
           let r = reconcile_observed (ds_profile_metadata dev) v time
           in (Inr r, st\<lparr>sf_devices := bt_insert device (dev\<lparr>ds_profile_metadata := r\<rparr>) (sf_devices st)\<rparr>)))"

definition update_observed_polling_rate ::
  "'w backend \<Rightarrow> device_id \<Rightarrow> profile_id \<Rightarrow> polling_rate \<Rightarrow> ('w, polling_rate resource_state) mop" where
  "update_observed_polling_rate be device profile v = observe be device profile ps_polling_rate put_polling_rate v"

definition read_status :: "'w backend \<Rightarrow> device_id \<Rightarrow> ('w, device_status) mop" where
  "read_status be device =
     open_locked be device ''read_status'' (\<lambda>identity session.
     let usb = is_usb_transport (ss_transport session) in
     thenp (if ss_transport session = Wired then okp None
            else optional_op (in_world (ss_read_battery session BATTERY_READ_TIMEOUT))) (\<lambda>battery.
     thenp (optional_op (in_world (ss_read_profile_metadata session))) (\<lambda>live.
     thenp (case live of
              Some metadata \<Rightarrow>
                if usb then thenp (update_observed_profile_metadata be device metadata) (\<lambda>r. okp (Some r))
                else okp None
            | None \<Rightarrow> okp None) (\<lambda>metadata.
     let current = Option.bind metadata (\<lambda>r. map_option (\<lambda>seen. meta_current (obs_value seen)) (res_observed r)) in
     thenp (case current of
              None \<Rightarrow> okp None
            | Some profile \<Rightarrow>
                if \<not> usb then okp None
                else thenp (optional_op (in_world (ss_read_profile session profile))) (\<lambda>loaded.
                     case loaded of
                       None \<Rightarrow> okp None
                     | Some _ \<Rightarrow>
                         thenp (optional_op (in_world (ss_read_live_polling_rate session profile))) (\<lambda>rate.
                         case rate of
                           None \<Rightarrow> okp None
                         | Some rate \<Rightarrow>
                             thenp (update_observed_polling_rate be device profile rate) (\<lambda>r. okp (Some r))))) (\<lambda>polling.
     okp \<lparr>st_identity = identity, st_battery = battery, st_profile_metadata = metadata,
          st_polling_rate = polling\<rparr>)))))"

text \<open>The closure of \<^verbatim>\<open>read_live_profile\<close>: every section of one read, under one time.\<close>

definition observe_live ::
  "device_id \<Rightarrow> profile_metadata \<Rightarrow> profile_id \<Rightarrow> profile_snapshot \<Rightarrow> polling_rate \<Rightarrow> timestamp
     \<Rightarrow> state_file \<Rightarrow> unit manager_result \<times> state_file" where
  "observe_live device metadata target snapshot rate time st =
     (case adjust_device device (\<lambda>dev. dev\<lparr>ds_profile_metadata :=
          reconcile_observed (ds_profile_metadata dev) metadata time\<rparr>) st of
        (Inl e, st) \<Rightarrow> (Inl e, st)
      | (Inr _, st) \<Rightarrow> with_profile device target (\<lambda>p. ((),
          p\<lparr>ps_dpi := reconcile_observed (ps_dpi p) (snap_dpi snapshot) time,
            ps_preferences := reconcile_observed (ps_preferences p) (snap_preferences snapshot) time,
            ps_buttons := reconcile_observed (ps_buttons p) (snap_buttons snapshot) time,
            ps_polling_rate := reconcile_observed (ps_polling_rate p) rate time\<rparr>)) st)"

definition live_target :: "profile_id option \<Rightarrow> profile_metadata \<Rightarrow> profile_id" where
  "live_target requested metadata =
     (case requested of
        Some profile \<Rightarrow> if profile \<le> meta_maximum metadata then profile else meta_current metadata
      | None \<Rightarrow> meta_current metadata)"

definition read_live_profile ::
  "'w backend \<Rightarrow> device_id \<Rightarrow> profile_id option \<Rightarrow> ('w, live_profile_snapshot) mop" where
  "read_live_profile be device requested =
     open_locked be device ''read_live_profile'' (\<lambda>identity session.
     if \<not> is_usb_transport (ss_transport session)
     then errp (UnsupportedOperation ''read-live-profile'' (ss_transport session))
     else
       thenp (if ss_transport session = Receiver
              then optional_op (in_world (ss_read_battery session BATTERY_READ_TIMEOUT)) else okp None) (\<lambda>battery.
       thenp (in_world (ss_read_profile_metadata session)) (\<lambda>metadata.
       let target = live_target requested metadata in
       thenp (in_world (ss_read_profile session target)) (\<lambda>snapshot.
       thenp (in_world (ss_read_live_polling_rate session target)) (\<lambda>rate.
       thenp (now_op be) (\<lambda>time.
       thenp (mutate_inner (observe_live device metadata target snapshot rate time)) (\<lambda>_.
       okp \<lparr>lp_identity = identity, lp_battery = battery, lp_profile_metadata = metadata,
            lp_profile = snapshot, lp_polling_rate = rate\<rparr>)))))))"

definition manager_read_profile :: "'w backend \<Rightarrow> device_id \<Rightarrow> profile_id \<Rightarrow> ('w, profile_snapshot) mop" where
  "manager_read_profile be device profile =
     open_locked be device ''read_profile'' (\<lambda>_ session.
     thenp (in_world (ss_read_profile session profile)) (\<lambda>snapshot.
     thenp (if is_usb_transport (ss_transport session)
            then thenp (now_op be) (\<lambda>time.
              mutate_inner (with_profile device profile (\<lambda>p. ((),
                p\<lparr>ps_dpi := reconcile_observed (ps_dpi p) (snap_dpi snapshot) time,
                  ps_preferences := reconcile_observed (ps_preferences p) (snap_preferences snapshot) time,
                  ps_buttons := reconcile_observed (ps_buttons p) (snap_buttons snapshot) time\<rparr>))))
            else okp ()) (\<lambda>_. okp snapshot)))"

section \<open>Profile metadata\<close>

definition record_metadata_write ::
  "device_id \<Rightarrow> profile_metadata \<Rightarrow> profile_metadata option \<Rightarrow> timestamp \<Rightarrow> state_file
     \<Rightarrow> unit manager_result \<times> state_file" where
  "record_metadata_write device target observed time =
     adjust_device device (\<lambda>dev. dev\<lparr>ds_profile_metadata :=
       (case observed of
          Some v \<Rightarrow> snd (record_readback_write (ds_profile_metadata dev) target v UserWrite time)
        | None \<Rightarrow> snd (record_ack_write (ds_profile_metadata dev) target UserWrite time))\<rparr>)"

definition manager_write_profile_metadata ::
  "'w backend \<Rightarrow> device_id \<Rightarrow> 'w session \<Rightarrow> profile_metadata \<Rightarrow> ('w, profile_metadata) mop" where
  "manager_write_profile_metadata be device session target =
     (let usb = is_usb_transport (ss_transport session) in
      thenp (in_world (ss_write_profile_metadata session target)) (\<lambda>w.
      let (actual, observed) = (case w of
            WriteReadback actual \<Rightarrow> (actual, if usb then Some actual else None)
          | WriteAcknowledged \<Rightarrow> (target, None))
      in thenp (now_op be) (\<lambda>time.
         thenp (mutate_inner (record_metadata_write device target observed time)) (\<lambda>_.
         if usb \<and> actual \<noteq> target
         then errp (VerificationMismatch ''profile metadata'' (Some (meta_current target)))
         else okp actual))))"

definition manager_activate_profile :: "'w backend \<Rightarrow> device_id \<Rightarrow> profile_id \<Rightarrow> ('w, profile_metadata) mop" where
  "manager_activate_profile be device profile =
     open_locked be device ''activate_profile'' (\<lambda>_ session.
     thenp (if is_usb_transport (ss_transport session)
            then thenp (in_world (ss_read_profile_metadata session)) (\<lambda>metadata.
                 okp (max (meta_maximum metadata) profile))
            else okp (ProfileId PROFILE_MAX)) (\<lambda>maximum.
     thenp (liftp (map_err (\<lambda>e. DriverFailure (DriverProtocol e)) (metadata_new profile maximum))) (\<lambda>target.
     manager_write_profile_metadata be device session target)))"

definition set_profile_metadata ::
  "'w backend \<Rightarrow> device_id \<Rightarrow> profile_id \<Rightarrow> profile_id \<Rightarrow> ('w, profile_metadata) mop" where
  "set_profile_metadata be device current maximum =
     open_locked be device ''set_profile_metadata'' (\<lambda>_ session.
     thenp (liftp (map_err (\<lambda>e. DriverFailure (DriverProtocol e)) (metadata_new current maximum))) (\<lambda>target.
     manager_write_profile_metadata be device session target))"

definition manager_device_identity :: "device_id \<Rightarrow> ('w, device_identity) mop" where
  "manager_device_identity device =
     thenp load_doc (\<lambda>st.
     liftp (ok_or (NoSuchDevice device)
       (map_option ds_identity (bt_get (sf_devices st) device))))"

section \<open>Composite updates\<close>

definition check_update :: "profile_update \<Rightarrow> unit manager_result" where
  "check_update u =
     (if update_is_empty u then Inl (InvalidUpdate ''profile update must provide at least one field'')
      else if has_polling u \<and> has_non_rate u
      then Inl (InvalidUpdate ''polling rate cannot be combined with DPI/preferences/buttons'')
      else if (case pu_dpi u of None \<Rightarrow> False | Some d \<Rightarrow> dpi_delta_is_empty d)
      then Inl (InvalidUpdate ''DPI delta must provide at least one field'')
      else if (case pu_preferences u of None \<Rightarrow> False | Some d \<Rightarrow> preferences_delta_is_empty d)
      then Inl (InvalidUpdate ''preferences delta must provide at least one field'')
      else Inr ())"

definition no_outcome :: profile_update_outcome where
  "no_outcome = \<lparr>po_dpi = None, po_preferences = None, po_buttons = None, po_polling_rate = None\<rparr>"

definition apply_rate_update ::
  "'w backend \<Rightarrow> device_id \<Rightarrow> profile_id \<Rightarrow> polling_rate \<Rightarrow> update_policy \<Rightarrow> 'w session
     \<Rightarrow> ('w, profile_update_outcome) mop" where
  "apply_rate_update be device profile rate policy session =
     (if ss_transport session = Ble then errp (ExplicitAuthorizationRequired ''update_polling_rate'' Ble)
      else thenp (require_complete_desired_image device profile) (\<lambda>c.
           thenp (in_world (ss_read_profile session profile)) (\<lambda>snapshot.
           if meta_current (snap_persistent_metadata snapshot) \<noteq> profile
           then errp (VerificationMismatch ''profile metadata'' (Some profile))
           else thenp (liftp (check_image profile c snapshot)) (\<lambda>_.
                thenp (write_polling_rate be device profile rate (policy_verification policy) session) (\<lambda>finished.
                okp (no_outcome\<lparr>po_polling_rate := Some finished\<rparr>))))))"

text \<open>Each written section with what its session reported; \<^verbatim>\<open>if let Some(delta)\<close> around a step.\<close>

definition optional_step :: "'d option \<Rightarrow> ('d \<Rightarrow> ('s, 'e, 'a) prog) \<Rightarrow> ('s, 'e, 'a option) prog" where
  "optional_step d f = (case d of None \<Rightarrow> okp None | Some d \<Rightarrow> thenp (f d) (\<lambda>x. okp (Some x)))"

definition send_dpi_update ::
  "'w backend \<Rightarrow> device_id \<Rightarrow> profile_id \<Rightarrow> device_identity \<Rightarrow> update_policy \<Rightarrow> 'w session
     \<Rightarrow> profile_update_baseline option \<Rightarrow> dpi_delta \<Rightarrow> ('w, dpi_state \<times> dpi_state session_write) mop" where
  "send_dpi_update be device profile identity policy session provided d =
     thenp (dpi_baseline device profile policy session (map_option pb_dpi provided)) (\<lambda>baseline.
     thenp (liftp (merge_dpi_delta baseline d)) (\<lambda>desired.
     let desired = with_physical_watermark (be_crc be) desired (id_physical_id identity) in
     thenp (in_world (ss_write_dpi session desired (policy_verification policy))) (\<lambda>w. okp (desired, w))))"

definition send_preferences_update ::
  "device_id \<Rightarrow> profile_id \<Rightarrow> update_policy \<Rightarrow> 'w session
     \<Rightarrow> profile_update_baseline option \<Rightarrow> preferences_delta
     \<Rightarrow> ('w, preferences_state \<times> preferences_state session_write) mop" where
  "send_preferences_update device profile policy session provided d =
     thenp (preferences_baseline device profile policy session (map_option pb_preferences provided)) (\<lambda>baseline.
     let desired = merge_preferences_delta baseline d in
     thenp (in_world (ss_write_preferences session desired (policy_verification policy))) (\<lambda>w. okp (desired, w)))"

definition send_buttons_update ::
  "device_id \<Rightarrow> profile_id \<Rightarrow> update_policy \<Rightarrow> 'w session
     \<Rightarrow> profile_update_baseline option \<Rightarrow> button_slot_delta list
     \<Rightarrow> ('w, buttons_state \<times> buttons_state session_write) mop" where
  "send_buttons_update device profile policy session provided deltas =
     thenp (buttons_baseline device profile policy session (map_option pb_buttons provided)) (\<lambda>baseline.
     let desired = fold apply_slot deltas baseline in
     thenp (in_world (ss_write_buttons session desired (policy_verification policy))) (\<lambda>w. okp (desired, w)))"

text \<open>\<^verbatim>\<open>if let Some((desired, write)) = pair { out = Some(persist_write(..)?) }\<close> on the document.\<close>

definition persist_optional ::
  "('a \<times> 'a session_write) option
     \<Rightarrow> ('a \<Rightarrow> 'a session_write \<Rightarrow> state_file \<Rightarrow> 'a write_outcome manager_result \<times> state_file)
     \<Rightarrow> (state_file, manager_error, 'a write_outcome option) prog" where
  "persist_optional pair f = optional_step pair (\<lambda>(desired, w). f desired w)"

definition persist_update ::
  "device_id \<Rightarrow> profile_id \<Rightarrow> (dpi_state \<times> dpi_state session_write) option
     \<Rightarrow> (preferences_state \<times> preferences_state session_write) option
     \<Rightarrow> (buttons_state \<times> buttons_state session_write) option \<Rightarrow> timestamp
     \<Rightarrow> (state_file, manager_error, dpi_state write_outcome option \<times> preferences_state write_outcome option
          \<times> buttons_state write_outcome option) prog" where
  "persist_update device profile dpi preferences buttons time =
     thenp (persist_optional dpi
       (\<lambda>desired w. persist_write device profile ps_dpi put_dpi desired w time)) (\<lambda>dpi_out.
     thenp (persist_optional preferences
       (\<lambda>desired w. persist_write device profile ps_preferences put_preferences desired w time)) (\<lambda>prefs_out.
     thenp (persist_optional buttons
       (\<lambda>desired w. persist_write device (buttons_profile desired) ps_buttons put_buttons desired w time)) (\<lambda>buttons_out.
     okp (dpi_out, prefs_out, buttons_out))))"

definition finish_optional ::
  "'a write_outcome option \<Rightarrow> string \<Rightarrow> profile_id \<Rightarrow> 'a write_outcome option manager_result" where
  "finish_optional out resource profile =
     (case out of None \<Rightarrow> Inr None
      | Some out \<Rightarrow> tryq (finish_write out resource profile) (\<lambda>out. Inr (Some out)))"

definition apply_sections ::
  "'w backend \<Rightarrow> device_id \<Rightarrow> profile_id \<Rightarrow> profile_update \<Rightarrow> update_policy
     \<Rightarrow> profile_update_baseline option \<Rightarrow> device_identity \<Rightarrow> 'w session \<Rightarrow> ('w, profile_update_outcome) mop" where
  "apply_sections be device profile u policy provided identity session =
     thenp (optional_step (pu_dpi u)
       (send_dpi_update be device profile identity policy session provided)) (\<lambda>dpi_pair.
     thenp (optional_step (pu_preferences u)
       (send_preferences_update device profile policy session provided)) (\<lambda>prefs_pair.
     thenp (optional_step (if pu_buttons u = [] then None else Some (pu_buttons u))
       (send_buttons_update device profile policy session provided)) (\<lambda>buttons_pair.
     thenp (now_op be) (\<lambda>time.
     thenp (mutate_inner (persist_update device profile dpi_pair prefs_pair buttons_pair time))
       (\<lambda>(dpi_out, prefs_out, buttons_out).
     thenp (liftp (finish_optional dpi_out ''DPI'' profile)) (\<lambda>dpi_final.
     thenp (liftp (finish_optional prefs_out ''preferences'' profile)) (\<lambda>prefs_final.
     thenp (liftp (finish_optional buttons_out ''buttons'' profile)) (\<lambda>buttons_final.
     okp \<lparr>po_dpi = dpi_final, po_preferences = prefs_final, po_buttons = buttons_final,
          po_polling_rate = None\<rparr>))))))))"

definition apply_profile_update_inner ::
  "'w backend \<Rightarrow> device_id \<Rightarrow> profile_id \<Rightarrow> profile_update \<Rightarrow> update_policy
     \<Rightarrow> profile_update_baseline option \<Rightarrow> ('w, profile_update_outcome) mop" where
  "apply_profile_update_inner be device profile u policy provided =
     thenp (liftp (check_update u)) (\<lambda>_.
     open_locked be device ''apply_profile_update'' (\<lambda>identity session.
       case pu_polling_rate u of
         Some rate \<Rightarrow> apply_rate_update be device profile rate policy session
       | None \<Rightarrow> apply_sections be device profile u policy provided identity session))"

definition apply_profile_update ::
  "'w backend \<Rightarrow> device_id \<Rightarrow> profile_id \<Rightarrow> profile_update \<Rightarrow> update_policy
     \<Rightarrow> ('w, profile_update_outcome) mop" where
  "apply_profile_update be device profile u policy =
     apply_profile_update_inner be device profile u policy None"

definition apply_profile_update_from_snapshot ::
  "'w backend \<Rightarrow> device_id \<Rightarrow> profile_id \<Rightarrow> profile_update \<Rightarrow> update_policy \<Rightarrow> profile_update_baseline
     \<Rightarrow> ('w, profile_update_outcome) mop" where
  "apply_profile_update_from_snapshot be device profile u policy baseline =
     (if dpi_profile (pb_dpi baseline) \<noteq> profile \<or> prefs_profile (pb_preferences baseline) \<noteq> profile
         \<or> buttons_profile (pb_buttons baseline) \<noteq> profile
      then errp (InvalidUpdate ''provided stored/profile copy does not target the profile'')
      else apply_profile_update_inner be device profile u policy (Some baseline))"

end
