(* ===== verification/X3_Discovery.thy ===== *)
theory X3_Discovery
  imports X3_Manager
begin

text \<open>
  What the discovery scan guarantees: contracts of the store operations of the manager, and that a
  connection with a valid watermark is never attached to another mouse.
\<close>

section \<open>Contracts of the store operations\<close>

lemma zoomp_run: "zoomp part put p t = (r, t') \<longleftrightarrow> (\<exists>s. p (part t) = (r, s) \<and> t' = put s t)"
  by (auto simp: zoomp_def split: prod.splits)

lemma load_doc_eq: "load_doc m = (Inr (doc m), m)"
  by (simp add: load_doc_def in_store_def map_errp_def zoomp_def memory_load_def getp_def)

lemma load_doc_contract: "triple P load_doc (\<lambda>st m. P m \<and> st = doc m) R"
  by (simp add: triple_def load_doc_eq)

lemma getp_contract: "triple P (getp f) (\<lambda>x m. P m \<and> x = f m) R"
  by (rule triple_getp) simp

text \<open>Between the store operations the document stays valid, whatever the closures do: an invalid
  result is not committed. \<open>K\<close> is what the closure keeps of a document.\<close>

definition steady :: "(state_file \<Rightarrow> bool) \<Rightarrow> identity_cache \<Rightarrow> 'w manager \<Rightarrow> bool" where
  "steady K c m \<longleftrightarrow> valid_document (doc m) \<and> K (doc m) \<and> mn_cache m = c"

lemma mutate_run:
  assumes "mutate f m = (r, m')"
  obtains r' b where "memory_mutate f (mn_store m) = (r', b)" and "m' = m\<lparr>mn_store := b\<rparr>"
    and "r = map_err StateFailure r'"
  using assms by (auto simp: mutate_def in_store_def map_errp_def zoomp_def split: prod.splits)

lemma mutate_steady:
  assumes "\<And>st. valid_document st \<Longrightarrow> K st \<Longrightarrow> K (snd (f st))"
  shows "keeps (steady K c) (mutate f)"
  unfolding keeps_def
proof (intro allI impI)
  fix m :: "'w manager"
  assume s: "steady K c m"
  obtain r m' where run: "mutate f m = (r, m')" by force
  then obtain r' b where mem: "memory_mutate f (mn_store m) = (r', b)" and m': "m' = m\<lparr>mn_store := b\<rparr>"
    by (rule mutate_run)
  from memory.valid_after [OF mem, of "doc m"] s
  have "validate (mb_state b) = Inr () \<and> (mb_state b = doc m \<or> mb_state b = snd (f (doc m)))"
    by (auto simp: steady_def validate_eq_Inr)
  then show "steady K c (snd (mutate f m))"
    using s assms [of "doc m"] by (auto simp: run m' steady_def validate_eq_Inr)
qed

lemma mutate_inner_steady:
  assumes "\<And>st. valid_document st \<Longrightarrow> K st \<Longrightarrow> K (snd (f st))"
  shows "keeps (steady K c) (mutate_inner f)"
  unfolding mutate_inner_def by (rule keeps_thenp [OF mutate_steady keeps_pure(3)]) (rule assms)

lemma keeps_in_world:
  assumes "\<And>m w. I m \<Longrightarrow> I (m\<lparr>mn_world := w\<rparr>)"
  shows "keeps I (in_world p)"
  using assms by (auto simp: keeps_def in_world_def zoomp_def split: prod.split)

lemma keeps_for_each: "(\<And>x. keeps I (body x)) \<Longrightarrow> keeps I (for_each body xs)"
  unfolding keeps_triple by (rule triple_for_each)

lemma steady_world [simp]: "steady K c (m\<lparr>mn_world := w\<rparr>) = steady K c m"
  by (simp add: steady_def)

section \<open>Tokens\<close>

definition tokens :: "state_file \<Rightarrow> (device_id \<times> physical_id option) list" where
  "tokens st = map (\<lambda>(d, dev). (d, id_physical_id (ds_identity dev))) (sf_devices st)"

lemma token_of_tokens: "token_of st d = Option.bind (map_of (tokens st) d) id"
  by (cases "map_of (sf_devices st) d")
    (simp_all add: token_of_def bt_get_def tokens_def map_of_map)

lemma tokens_adjust:
  assumes "\<And>dev. id_physical_id (ds_identity (f dev)) = id_physical_id (ds_identity dev)"
  shows "tokens (st\<lparr>sf_devices := bt_adjust d f (sf_devices st)\<rparr>) = tokens st"
  by (auto simp: tokens_def bt_adjust_def assms)

text \<open>What a persistent scan keeps: the ordered map of the mice with their tokens, and the mode.\<close>

definition same_mice :: "state_file \<Rightarrow> state_file \<Rightarrow> bool" where
  "same_mice st0 st \<longleftrightarrow> bt_ok (sf_devices st) \<and> sf_identity_mode st = PersistentMode \<and> tokens st = tokens st0"

lemma same_mice_adjust:
  assumes "same_mice st0 st"
    and "\<And>dev. id_physical_id (ds_identity (f dev)) = id_physical_id (ds_identity dev)"
  shows "same_mice st0 (st\<lparr>sf_devices := bt_adjust d f (sf_devices st)\<rparr>)"
  using assms by (simp add: same_mice_def tokens_adjust)

lemma same_mice_attach: "same_mice st0 st \<Longrightarrow> same_mice st0 (attach_silently at_time e d st)"
  using same_mice_adjust [of st0 st "\<lambda>dev. dev\<lparr>ds_identity := upsert_endpoint (ds_identity dev) e\<rparr>" d]
  by (auto simp: attach_silently_def remember_endpoint_mapping_def Let_def same_mice_def tokens_def
      upsert_endpoint_def)

lemma same_mice_sync: "same_mice st0 st \<Longrightarrow> same_mice st0 (sync_endpoints selection by_device st)"
  unfolding sync_endpoints_def
proof (induction by_device arbitrary: st)
  case (Cons x xs)
  obtain d rows where x: "x = (d, rows)" by force
  show ?case
    unfolding x fold_simps prod.case
    by (rule Cons.IH, rule same_mice_adjust [OF Cons.prems]) simp
qed simp

lemma token_persistent:
  assumes "valid_document st" and "sf_identity_mode st = PersistentMode" and "bt_contains (sf_devices st) d"
  shows "token_of st d \<noteq> None"
proof -
  obtain dev where "bt_get (sf_devices st) d = Some dev"
    using assms(3) by (auto simp: bt_contains_def)
  with bt_get_in [OF this] assms(1,2) show ?thesis
    by (fastforce simp: valid_document_def valid_mode_def token_of_def)
qed

section \<open>A row tells the truth about its watermark\<close>

definition authentic :: "state_file \<Rightarrow> identity_cache \<Rightarrow> resolved_connection \<Rightarrow> bool" where
  "authentic st c row \<longleftrightarrow>
     (\<forall>t. rc_connected row \<and> is_usb_transport (ep_transport (rc_endpoint row))
          \<and> cached c (rc_endpoint row) = Some (Valid t) \<longrightarrow>
        (case rc_resolution row of
           Resolved d \<Rightarrow> token_of st d = Some t
         | Unassociated ReasonAbsent _ \<Rightarrow> False
         | Unassociated ReasonUnknown p \<Rightarrow> p = Some t \<and> (\<forall>d. token_of st d \<noteq> Some t)
         | _ \<Rightarrow> True))"

lemma owners_of:
  assumes v: "valid_document st" and ok: "bt_ok (sf_devices st)"
  shows "map (\<lambda>dev. id_device (ds_identity dev))
      (filter (\<lambda>dev. id_physical_id (ds_identity dev) = Some t) (map snd (sf_devices st)))
    = map fst (filter (\<lambda>(d, dev). id_physical_id (ds_identity dev) = Some t) (sf_devices st))"
proof -
  have "map (\<lambda>dev. id_device (ds_identity dev)) (filter P (map snd m))
      = map fst (filter (\<lambda>(d, dev). P dev) m)"
    if "\<forall>(d, dev) \<in> set m. id_device (ds_identity dev) = d" for P and m :: "(device_id, device_state) btree"
    using that by (induction m) auto
  moreover have "\<forall>(d, dev) \<in> set (sf_devices st). id_device (ds_identity dev) = d"
    using v by (auto simp: valid_document_def valid_device_def)
  ultimately show ?thesis by blast
qed

lemma owner_token:
  assumes "bt_ok (sf_devices st)"
  shows "d \<in> set (map fst (filter (\<lambda>(d, dev). id_physical_id (ds_identity dev) = Some t) (sf_devices st)))
    \<longleftrightarrow> token_of st d = Some t"
  using bt_get_eq_Some [OF assms] by (auto simp: token_of_def bind_eq_Some_conv image_iff)

lemma resolve_valid_token_exact:
  assumes "valid_document st" and "bt_ok (sf_devices st)"
  shows "resolve_valid_token (sf_devices st) j t =
    (if is_reserved_token t then Unassociated ReasonReserved (Some t)
     else if (case j of None \<Rightarrow> False | Some journal \<Rightarrow> journal_reserves_token journal t)
     then Unassociated ReasonReservedByJournal (Some t)
     else case map fst (filter (\<lambda>(d, dev). id_physical_id (ds_identity dev) = Some t) (sf_devices st)) of
            [] \<Rightarrow> Unassociated ReasonUnknown (Some t)
          | [d] \<Rightarrow> Resolved d
          | _ \<Rightarrow> Unassociated ReasonDuplicate (Some t))"
  unfolding resolve_valid_token_def Let_def owners_of [OF assms] by simp

lemma authentic_scan_row:
  assumes "valid_document st" and "bt_ok (sf_devices st)"
  shows "authentic st c (scan_row PersistentMode st c None disc)"
proof -
  let ?os = "\<lambda>t. map fst (filter (\<lambda>(d, dev). id_physical_id (ds_identity dev) = Some t) (sf_devices st))"
  have "case resolve_valid_token (sf_devices st) j t of
           Resolved d \<Rightarrow> token_of st d = Some t
         | Unassociated ReasonAbsent _ \<Rightarrow> False
         | Unassociated ReasonUnknown p \<Rightarrow> p = Some t \<and> (\<forall>d. token_of st d \<noteq> Some t)
         | _ \<Rightarrow> True" for j t
    using owner_token [OF assms(2), of _ t]
    unfolding resolve_valid_token_exact [OF assms]
    by (cases "?os t"; cases "tl (?os t)") auto
  moreover have "ep_transport e \<noteq> Ble" if "is_usb_transport (ep_transport e)" for e
    using that by (auto simp: is_usb_transport_def)
  ultimately show ?thesis
    unfolding authentic_def
    by (cases "ep_transport (disc_endpoint disc)")
      (simp_all add: scan_row_def resolve_connection_def is_legacy_def is_usb_transport_def)
qed

lemma authentic_mark:
  assumes "\<forall>row \<in> set rows. authentic st c row" and "row \<in> set (mark_scan_duplicates rows)"
  shows "authentic st c row"
  using assms by (auto simp: mark_scan_duplicates_def authentic_def split: option.splits)

lemma authentic_cong: "tokens st' = tokens st \<Longrightarrow> authentic st' c row = authentic st c row"
proof -
  assume "tokens st' = tokens st"
  then have "token_of st' = token_of st" by (simp add: fun_eq_iff token_of_tokens)
  then show ?thesis by (simp only: authentic_def)
qed

lemma authentic_reresolve:
  assumes a: "authentic st c row" and v: "valid_document st" and p: "sf_identity_mode st = PersistentMode"
  shows "authentic st c (reresolve st row)"
proof (cases "reresolve st row = row")
  case False
  then obtain r where o: "is_open_row row" and r: "remembered_device_in st (rc_endpoint row) = Some r"
    and g: "remembered_mapping_agrees st (rc_endpoint row) (presented_token row)"
    and e: "reresolve st row = row\<lparr>rc_resolution := Resolved r\<rparr>"
    by (auto simp: reresolve_def split: if_splits option.splits)
  have "bt_contains (sf_devices st) r"
    using r by (auto simp: remembered_device_in_def split: option.splits if_splits)
  then obtain own where own: "token_of st r = Some own"
    using token_persistent [OF v p] by auto
  have "\<not> (rc_connected row \<and> is_usb_transport (ep_transport (rc_endpoint row))
      \<and> cached c (rc_endpoint row) = Some (Valid t))" for t
  proof
    assume h: "rc_connected row \<and> is_usb_transport (ep_transport (rc_endpoint row))
      \<and> cached c (rc_endpoint row) = Some (Valid t)"
    with a o have u: "rc_resolution row = Unassociated ReasonUnknown (Some t)"
      and n: "token_of st r \<noteq> Some t"
      by (auto simp: authentic_def is_open_row_def split: identity_resolution.splits unassociated_reason.splits)
    from u g r own have "own = t"
      by (simp add: presented_token_def remembered_mapping_agrees_def)
    with own n show False by simp
  qed
  then show ?thesis
    unfolding e authentic_def by simp blast
qed (use a in simp)

section \<open>The scan\<close>

abbreviation persistent_doc :: "state_file \<Rightarrow> bool" where
  "persistent_doc st \<equiv> valid_document st \<and> sf_identity_mode st = PersistentMode \<and> bt_ok (sf_devices st)"

lemma keeps_authenticate:
  "keeps (\<lambda>m. persistent_doc (doc m)) (authenticate_scan be discovered)"
  unfolding authenticate_scan_def Let_def
  by (intro keeps_thenp keeps_pure keeps_for_each keeps_in_world)
    (auto simp: cache_insert_def keeps_def modifyp_def)

text \<open>From the rows on, nothing changes which mouse owns which token.\<close>

definition scanned :: "state_file \<Rightarrow> identity_cache \<Rightarrow> resolved_connection list \<Rightarrow> 'w manager \<Rightarrow> bool" where
  "scanned st c rows m \<longleftrightarrow> steady (same_mice st) c m \<and> (\<forall>row \<in> set rows. authentic st c row)"

lemma auto_resolve_contract:
  "triple (scanned st c rows) (auto_resolve_unknowns be rows) (\<lambda>rows. scanned st c rows) (\<lambda>_ _. True)"
proof -
  have attach: "keeps (steady (same_mice st) c)
      (thenp (now_op be) (\<lambda>time.
       mutate_inner (\<lambda>st'. (Inr (), attach_silently (unix_seconds time) e d st'))))" for e d
    unfolding now_op_def
    by (intro keeps_thenp keeps_pure mutate_inner_steady) (simp add: same_mice_attach)
  have pass: "triple (scanned st c rows) (for_each (\<lambda>(e, d, _).
        thenp (now_op be) (\<lambda>time.
        mutate_inner (\<lambda>st'. (Inr (), attach_silently (unix_seconds time) e d st')))) silent)
      (\<lambda>_. scanned st c rows) (\<lambda>_ _. True)" for silent
    using keeps_for_each [of "steady (same_mice st) c" "\<lambda>(e, d, _).
        thenp (now_op be) (\<lambda>time.
        mutate_inner (\<lambda>st'. (Inr (), attach_silently (unix_seconds time) e d st')))" silent] attach
    unfolding keeps_def scanned_def triple_def by (auto simp: split_def split: sum.split prod.split)
  have again: "triple (\<lambda>m. scanned st c rows m \<and> st' = doc m) (okp (map (reresolve st') rows))
      (\<lambda>rows. scanned st c rows) (\<lambda>_ _. True)" for st'
  proof (rule triple_okp)
    fix m :: "'w manager"
    assume s: "scanned st c rows m \<and> st' = doc m"
    then have v: "valid_document st'" "sf_identity_mode st' = PersistentMode" "tokens st' = tokens st"
      by (auto simp: scanned_def steady_def same_mice_def)
    have "authentic st c (reresolve st' row)" if "row \<in> set rows" for row
      using authentic_reresolve [OF _ v(1,2), of c row] that s authentic_cong [OF v(3)]
      by (auto simp: scanned_def)
    with s show "scanned st c (map (reresolve st') rows) m"
      by (simp add: scanned_def)
  qed
  show ?thesis
    unfolding auto_resolve_unknowns_def Let_def
    by (rule triple_thenp [OF load_doc_contract])
      (intro triple_if triple_okp triple_pre [OF triple_thenp [OF pass triple_thenp [OF load_doc_contract again]]];
        simp)
qed

lemma sync_contract:
  "triple (scanned st c rows) (sync_endpoint_associations rows selection) (\<lambda>_. scanned st c rows) (\<lambda>_ _. True)"
proof -
  have "keeps (steady (same_mice st) c)
      (mutate_inner (\<lambda>st'. (Inr (), sync_endpoints selection by_device st')))" for by_device
    by (rule mutate_inner_steady) (simp add: same_mice_sync)
  then have "keeps (scanned st c rows)
      (mutate_inner (\<lambda>st'. (Inr (), sync_endpoints selection by_device st')))" for by_device
    unfolding keeps_def scanned_def by blast
  then show ?thesis
    unfolding sync_endpoint_associations_def Let_def
    by (intro triple_if triple_okp) (auto simp: keeps_triple intro: triple_conseq)
qed

lemma discover_contract:
  "triple (\<lambda>m. persistent_doc (doc m)) (discover be selection)
     (\<lambda>view m. persistent_doc (doc m)
        \<and> (\<forall>row \<in> set (dv_connections view). authentic (doc m) (mn_cache m) row)) (\<lambda>_ _. True)"
proof -
  let ?P = "\<lambda>m. persistent_doc (doc m)"
  have listing: "triple ?P (in_world p) (\<lambda>_. ?P) (\<lambda>_ _. True)" for p
    using keeps_in_world [of ?P p] by (auto simp: keeps_triple intro: triple_conseq)
  have auth: "triple ?P (authenticate_scan be discovered) (\<lambda>_. ?P) (\<lambda>_ _. True)" for discovered
    using keeps_authenticate [of be discovered] by (auto simp: keeps_triple intro: triple_conseq)
  have rows: "triple (\<lambda>m. (?P m \<and> c = mn_cache m) \<and> st = doc m)
      (thenp (auto_resolve_unknowns be (mark_scan_duplicates (map (scan_row PersistentMode st c None) discovered)))
        (\<lambda>rows. thenp (sync_endpoint_associations rows selection) (\<lambda>_.
         thenp load_doc (\<lambda>st'.
         okp \<lparr>dv_mode = PersistentMode, dv_devices = aggregate_discovered_devices st' rows,
              dv_connections = rows\<rparr>))))
      (\<lambda>view m. ?P m \<and> (\<forall>row \<in> set (dv_connections view). authentic (doc m) (mn_cache m) row))
      (\<lambda>_ _. True)" for c st discovered
  proof -
    let ?rows = "mark_scan_duplicates (map (scan_row PersistentMode st c None) discovered)"
    have start: "scanned st c ?rows m" if "(?P m \<and> c = mn_cache m) \<and> st = doc m" for m
      using that authentic_mark [OF _, of "map (scan_row PersistentMode st c None) discovered" st c]
        authentic_scan_row [of st c]
      by (auto simp: scanned_def steady_def same_mice_def)
    have fin: "triple (\<lambda>m. scanned st c rows m \<and> st' = doc m)
        (okp \<lparr>dv_mode = PersistentMode, dv_devices = aggregate_discovered_devices st' rows,
              dv_connections = rows\<rparr>)
        (\<lambda>view m. ?P m \<and> (\<forall>row \<in> set (dv_connections view). authentic (doc m) (mn_cache m) row))
        (\<lambda>_ _. True)" for st' rows
    proof (rule triple_okp)
      fix m
      assume s: "scanned st c rows m \<and> st' = doc m"
      then have "tokens (doc m) = tokens st" and c: "mn_cache m = c"
        by (auto simp: scanned_def steady_def same_mice_def)
      with s show "persistent_doc (doc m) \<and> (\<forall>row \<in> set (dv_connections \<lparr>dv_mode = PersistentMode,
            dv_devices = aggregate_discovered_devices st' rows, dv_connections = rows\<rparr>).
          authentic (doc m) (mn_cache m) row)"
        using authentic_cong [of "doc m" st c] by (auto simp: scanned_def steady_def same_mice_def)
    qed
    show ?thesis
      by (rule triple_pre [OF triple_thenp [OF auto_resolve_contract triple_thenp [OF sync_contract
              triple_thenp [OF load_doc_contract fin]]] start])
  qed
  have body: "triple (\<lambda>m. ?P m \<and> st0 = doc m)
      (let mode = sf_identity_mode st0 in
       thenp (if is_legacy mode \<and> discovered \<noteq> [] then ensure_legacy_mouse discovered else okp ()) (\<lambda>_.
       thenp (if \<not> is_legacy mode then authenticate_scan be discovered else okp ()) (\<lambda>_.
       thenp (getp mn_cache) (\<lambda>identities.
       thenp load_doc (\<lambda>st.
       let legacy_id = (if is_legacy mode
             then (case sf_devices st of [] \<Rightarrow> None | (_, dev) # _ \<Rightarrow> Some (id_device (ds_identity dev)))
             else None);
           rows = mark_scan_duplicates (map (scan_row mode st identities legacy_id) discovered)
       in thenp (if \<not> is_legacy mode then auto_resolve_unknowns be rows else okp rows) (\<lambda>rows.
          thenp (sync_endpoint_associations rows selection) (\<lambda>_.
          thenp load_doc (\<lambda>st.
          okp \<lparr>dv_mode = mode, dv_devices = aggregate_discovered_devices st rows,
               dv_connections = rows\<rparr>))))))))
      (\<lambda>view m. ?P m \<and> (\<forall>row \<in> set (dv_connections view). authentic (doc m) (mn_cache m) row))
      (\<lambda>_ _. True)" for st0 discovered
  proof (cases "sf_identity_mode st0 = PersistentMode")
    case True
    have first: "triple (\<lambda>m. ?P m \<and> st0 = doc m) (authenticate_scan be discovered) (\<lambda>_. ?P) (\<lambda>_ _. True)"
      by (rule triple_pre [OF auth]) simp
    show ?thesis
      unfolding True Let_def
      by (simp only: is_legacy_def identity_mode.case simp_thms if_True if_False thenp_liftp)
        (rule triple_thenp [OF first triple_thenp [OF getp_contract triple_thenp [OF load_doc_contract rows]]])
  next
    case False
    then show ?thesis by (auto simp: triple_def)
  qed
  show ?thesis
    unfolding discover_def
    by (rule triple_thenp [OF listing triple_thenp [OF load_doc_contract body]])
qed

section \<open>Properties\<close>

text \<open>C7: A scan in persistent mode never attaches a mouse to the wrong identity: when a connected USB
  connection whose current reading carries a valid watermark ends up resolved, it is resolved to the
  saved mouse that owns this token, and to the only one that does; neither the remembered endpoints,
  nor the silent attachments, nor the synchronisation of endpoints can make it another.\<close>

theorem discovery_never_misattaches:
  assumes "discover be selection m = (Inr view, m')"
    and "validate (doc m) = Inr ()" and "sf_identity_mode (doc m) = PersistentMode"
    and "bt_ok (sf_devices (doc m))"
    and "row \<in> set (dv_connections view)" and "rc_connected row"
    and "is_usb_transport (ep_transport (rc_endpoint row))"
    and "cached (mn_cache m') (rc_endpoint row) = Some (Valid t)"
    and "rc_resolution row = Resolved d"
  shows "token_of (doc m') d' = Some t \<longleftrightarrow> d' = d"
proof -
  have "persistent_doc (doc m)"
    using assms(2-4) by (simp add: validate_eq_Inr)
  from triple_Ok [OF discover_contract this assms(1)] assms(5)
  have p: "persistent_doc (doc m')" and a: "authentic (doc m') (mn_cache m') row" by auto
  from a assms(6-9) have d: "token_of (doc m') d = Some t"
    by (simp add: authentic_def)
  have "d' = d" if own: "token_of (doc m') d' = Some t" for d'
  proof -
    obtain x y where x: "(d', x) \<in> set (sf_devices (doc m'))" "physical_of (d', x) = Some t"
      and y: "(d, y) \<in> set (sf_devices (doc m'))" "physical_of (d, y) = Some t"
      using own d by (auto simp: token_of_def bind_eq_Some_conv dest!: bt_get_in)
    have "inj_on physical_of (set (sf_devices (doc m')))"
      using p by (auto simp: valid_document_def valid_mode_def distinct_map)
    from inj_onD [OF this, of "(d', x)" "(d, y)"] x y show ?thesis by simp
  qed
  with d show ?thesis by blast
qed

text \<open>A backend with one wired mouse whose profile 1 carries the watermark of the given token.\<close>

definition demo_endpoint :: device_endpoint where
  "demo_endpoint = \<lparr>ep_transport = Wired, ep_vendor_id = Some 0x1d57, ep_product_id = Some 0xfa61,
     ep_serial_number = None, ep_locator = UsbPath (rstr ''/dev/hidraw0''), ep_display_name = None\<rparr>"

definition demo_dpi :: "physical_id \<Rightarrow> dpi_state" where
  "demo_dpi token = \<lparr>dpi_profile = ProfileId 1, dpi_stages = [DpiValue 800], dpi_active_stage = StageIndex 1,
     dpi_sensor = \<lparr>lift_off_distance = OneMillimeter, ripple_control = False, angle_snap = False, motion_sync = False\<rparr>,
     dpi_preserved_tail = to_watermark_bytes (\<lambda>_. 7) token\<rparr>"

definition demo_session :: "physical_id \<Rightarrow> unit session" where
  "demo_session token = \<lparr>ss_transport = Wired,
     ss_read_profile_metadata = okp \<lparr>meta_current = ProfileId 1, meta_maximum = ProfileId 1\<rparr>,
     ss_read_profile = (\<lambda>_. errp (UnsupportedOperation ''read_profile'' Wired)),
     ss_read_dpi = (\<lambda>_. okp (demo_dpi token)),
     ss_read_preferences = (\<lambda>_. errp (UnsupportedOperation ''read_preferences'' Wired)),
     ss_read_buttons = (\<lambda>_. errp (UnsupportedOperation ''read_buttons'' Wired)),
     ss_read_live_polling_rate = (\<lambda>_. errp (UnsupportedOperation ''read_live_polling_rate'' Wired)),
     ss_write_dpi = (\<lambda>_ _. okp WriteAcknowledged),
     ss_write_preferences = (\<lambda>_ _. okp WriteAcknowledged),
     ss_write_buttons = (\<lambda>_ _. okp WriteAcknowledged),
     ss_write_polling_rate_unchecked = (\<lambda>_ _ _. okp WriteAcknowledged),
     ss_write_profile_metadata = (\<lambda>_. okp WriteAcknowledged),
     ss_read_battery = (\<lambda>_. errp (UnsupportedOperation ''read_battery'' Wired))\<rparr>"

definition demo_backend :: "physical_id \<Rightarrow> unit backend" where
  "demo_backend token = \<lparr>be_list = (\<lambda>_. okp [\<lparr>disc_endpoint = demo_endpoint, disc_connected = True\<rparr>]),
     be_open = (\<lambda>_. okp (demo_session token)), be_now = (\<lambda>_. 100), be_lock = (\<lambda>_ _. okp ()),
     be_unlock = (\<lambda>_ w. w), be_crc = (\<lambda>_. 7)\<rparr>"

definition demo_manager :: "state_file \<Rightarrow> unit manager" where
  "demo_manager st = \<lparr>mn_store = \<lparr>mb_state = st\<rparr>, mn_cache = (\<lambda>_. None), mn_world = ()\<rparr>"

definition two_mice :: state_file where
  "two_mice = demo_document\<lparr>sf_identity_setup := None\<rparr>"

definition scan_of :: "physical_id \<Rightarrow> state_file \<Rightarrow> (manager_error, discovery_view) result \<times> unit manager" where
  "scan_of token st = discover (demo_backend token) AutoSelection (demo_manager st)"

lemma discovery_never_misattaches_witness:
  "map rc_resolution (case fst (scan_of (PhysicalId (replicate 16 1)) two_mice) of
      Inl _ \<Rightarrow> [] | Inr view \<Rightarrow> dv_connections view) = [Resolved (logical_key 1)]
   \<and> token_of (doc (snd (scan_of (PhysicalId (replicate 16 1)) two_mice))) (logical_key 1)
      = Some (PhysicalId (replicate 16 1))"
proof -
  let ?t = "PhysicalId (replicate 16 1)"
  obtain r m' where run: "scan_of ?t two_mice = (r, m')" by force
  have rows: "(case fst (scan_of ?t two_mice) of Inl _ \<Rightarrow> [] | Inr view \<Rightarrow> dv_connections view)
      = [\<lparr>rc_endpoint = demo_endpoint, rc_connected = True, rc_resolution = Resolved (logical_key 1)\<rparr>]"
    by code_simp
  have c: "cached (mn_cache (snd (scan_of ?t two_mice))) demo_endpoint = Some (Valid ?t)"
    by code_simp
  have v: "validate two_mice = Inr ()" and k: "bt_ok (sf_devices two_mice)"
    by code_simp+
  obtain view where view: "r = Inr view"
    and conns: "dv_connections view
      = [\<lparr>rc_endpoint = demo_endpoint, rc_connected = True, rc_resolution = Resolved (logical_key 1)\<rparr>]"
    using rows run by (cases r) auto
  have "token_of (doc m') (logical_key 1) = Some ?t \<longleftrightarrow> logical_key 1 = logical_key 1"
    using run v k c view conns
    by (intro discovery_never_misattaches [of "demo_backend ?t" AutoSelection "demo_manager two_mice" view m'
          "\<lparr>rc_endpoint = demo_endpoint, rc_connected = True, rc_resolution = Resolved (logical_key 1)\<rparr>"])
      (simp_all add: scan_of_def demo_manager_def two_mice_def demo_document_def demo_endpoint_def
        is_usb_transport_def)
  with run rows show ?thesis by simp
qed


text \<open>The scan of one saved mouse that finds a foreign one.\<close>

definition one_mouse :: state_file where
  "one_mouse = two_mice\<lparr>sf_devices := [hd (sf_devices two_mice)]\<rparr>"


end
