(* ===== verification/X3_Registry_Facts.thy ===== *)
theory X3_Registry_Facts
  imports X3_Registry X3_Discovery
begin

text \<open>
  What the registry guarantees: the outcome of the store operations of the manager, which mouse an
  implicit resolution picks, when a mouse can be forgotten, and what an import changes.
\<close>

section \<open>Outcomes of the store operations\<close>

lemma thenp_eq_Inr: "thenp p f s = (Inr y, t) \<longleftrightarrow> (\<exists>x s'. p s = (Inr x, s') \<and> f x s' = (Inr y, t))"
  by (auto simp: thenp_def split: prod.splits sum.splits)

lemma adjust_device_Ok:
  "adjust_device d f st = (Inr u, st') \<longleftrightarrow>
     bt_contains (sf_devices st) d \<and> st' = st\<lparr>sf_devices := bt_adjust d f (sf_devices st)\<rparr>"
  by (auto simp: adjust_device_def)

lemma choose_device_Ok:
  "choose_device d st = (Inr u, st') \<longleftrightarrow>
     bt_contains (sf_devices st) d \<and> st' = st\<lparr>sf_selected_device := Some d\<rparr>"
  by (auto simp: choose_device_def)

lemma mutate_inner_Ok:
  assumes "mutate_inner f m = (Inr x, m')"
  shows "f (doc m) = (Inr x, doc m')" and "mn_world m' = mn_world m" and "mn_cache m' = mn_cache m"
    and "doc m' = doc m \<or> validate (doc m') = Inr ()"
proof -
  obtain y m1 where m1: "mutate f m = (Inr y, m1)" and y: "y = Inr x" "m' = m1"
    using assms by (auto simp: mutate_inner_def thenp_def liftp_def split: prod.splits sum.splits)
  from m1 obtain r b where "memory_mutate f (mn_store m) = (r, b)" "m1 = m\<lparr>mn_store := b\<rparr>"
      "Inr y = map_err StateFailure r"
    by (rule mutate_run)
  then show "f (doc m) = (Inr x, doc m')" and "mn_world m' = mn_world m" and "mn_cache m' = mn_cache m"
    and "doc m' = doc m \<or> validate (doc m') = Inr ()"
    using y by (cases r; auto simp: memory_mutate_simps split: prod.splits sum.splits if_splits)+
qed

lemma transact_eq:
  "transact f m =
     (case f (doc m) of
        (Inl e, _) \<Rightarrow> (Inl e, m)
      | (Inr x, st) \<Rightarrow>
          if st = doc m then (Inr x, m)
          else case validate st of
                 Inl e \<Rightarrow> (Inl (StateFailure e), m)
               | Inr _ \<Rightarrow> (Inr x, m\<lparr>mn_store := (mn_store m)\<lparr>mb_state := st\<rparr>\<rparr>))"
  by (auto simp: transact_def load_doc_eq memory_commit_def in_store_def zoomp_def prog_defs
      split: prod.splits sum.splits)

lemma transact_Ok:
  assumes "transact f m = (Inr x, m')"
  shows "f (doc m) = (Inr x, doc m')" and "mn_world m' = mn_world m" and "mn_cache m' = mn_cache m"
    and "doc m' = doc m \<or> validate (doc m') = Inr ()"
  using assms by (auto simp: transact_eq split: prod.splits sum.splits if_splits)

lemma transact_Err: "transact f m = (Inl e, m') \<Longrightarrow> m' = m"
  by (auto simp: transact_eq split: prod.splits sum.splits if_splits)

section \<open>Forgetting\<close>

lemma bt_contains_remove [simp]: "bt_contains (bt_remove k m) k' \<longleftrightarrow> k' \<noteq> k \<and> bt_contains m k'"
  by (simp add: bt_contains_def bt_get_remove)

lemma set_bt_remove [simp]: "set (bt_remove k m) = {e \<in> set m. fst e \<noteq> k}"
  by (simp add: bt_remove_def)

text \<open>Without a remembered endpoint and outside a ceremony the document stays valid.\<close>

lemma forgotten_valid:
  assumes "valid_document st" and "sf_identity_setup st = None"
    and "\<forall>e \<in> set (em_endpoints (sf_endpoint_mapping st)). snd e \<noteq> d"
  shows "valid_document (snd (forget_closure d force st))"
proof -
  have mode: "valid_mode (st\<lparr>sf_devices := bt_remove d (sf_devices st)\<rparr>)"
    using assms(1) distinct_map_filter [of physical_of "sf_devices st" "\<lambda>e. fst e \<noteq> d"]
    by (auto simp: valid_document_def valid_mode_def bt_remove_def
        intro: le_trans [OF length_filter_le] split: identity_mode.splits)
  then have mode': "valid_mode (st\<lparr>sf_devices := bt_remove d (sf_devices st), sf_selected_device := s\<rparr>)" for s
    by (simp add: valid_mode_def split: identity_mode.splits)
  have map: "valid_mapping (st\<lparr>sf_devices := bt_remove d (sf_devices st)\<rparr>)"
    using assms(1,3) by (fastforce simp: valid_document_def valid_mapping_def)
  then have map': "valid_mapping (st\<lparr>sf_devices := bt_remove d (sf_devices st), sf_selected_device := s\<rparr>)" for s
    by (simp add: valid_mapping_def)
  show ?thesis
    using assms(1,2) mode mode' map map'
    by (auto simp: forget_closure_def valid_document_def Let_def split: option.split)
qed

section \<open>Which mouse is resolved\<close>

definition is_connected_ids :: "(discovered_device \<Rightarrow> bool) \<Rightarrow> discovered_device list \<Rightarrow> device_id set" where
  "is_connected_ids p rows = {id_device (dd_identity r) | r. r \<in> set rows \<and> dd_connected r \<and> p r}"

lemma set_connected_ids: "set (connected_ids p rows) = is_connected_ids p rows"
  by (auto simp: connected_ids_def is_connected_ids_def)

lemma connected_ids_single: "connected_ids p rows = [d] \<Longrightarrow> is_connected_ids p rows = {d}"
  using set_connected_ids [of p rows] by simp

lemma prefer_exact_selected:
  assumes "prefer_exact sel d m = (Inr u, m')"
  shows "sf_selected_device (doc m') = sf_selected_device (doc m)"
proof (cases sel)
  case AutoSelection
  with assms show ?thesis by (simp add: prefer_exact_def okp_def)
next
  case (ExactSelection t)
  with assms have "set_preferred_transport d t m = (Inr u, m')"
    by (simp add: prefer_exact_def)
  then have "mutate_inner (adjust_device d (\<lambda>dev. dev\<lparr>ds_identity := (ds_identity dev)
      \<lparr>id_preferred_transport := Some t\<rparr>\<rparr>)) m = (Inr u, m')"
    by (simp add: set_preferred_transport_def)
  from mutate_inner_Ok(1) [OF this] show ?thesis by (simp add: adjust_device_Ok)
qed

lemma auto_select_Ok:
  assumes "auto_select sel c m = (Inr d, m')"
  shows "d = c \<and> sf_selected_device (doc m') = Some c"
proof -
  obtain m1 where "mutate_inner (choose_device c) m1 = (Inr (), m')" and "d = c"
    using assms by (simp add: auto_select_def thenp_eq_Inr okp_def) blast
  with mutate_inner_Ok(1) [OF this(1)] show ?thesis by (simp add: choose_device_Ok)
qed

section \<open>Imports\<close>

definition profile_of :: "device_state \<Rightarrow> profile_id \<Rightarrow> profile_state" where
  "profile_of dev profile =
     (case bt_get (ds_profiles dev) profile of None \<Rightarrow> profile_state_empty | Some p \<Rightarrow> p)"

definition over :: "'a option \<Rightarrow> 'a option \<Rightarrow> 'a option" where
  "over new old = (case new of None \<Rightarrow> old | Some v \<Rightarrow> Some v)"

lemma over_simps [simp]: "over None old = old" "over (Some v) old = Some v"
  by (simp_all add: over_def)

definition overlaid :: "profile_configuration \<Rightarrow> profile_configuration \<Rightarrow> profile_configuration" where
  "overlaid new old = \<lparr>pc_dpi = over (pc_dpi new) (pc_dpi old),
     pc_preferences = over (pc_preferences new) (pc_preferences old),
     pc_buttons = over (pc_buttons new) (pc_buttons old),
     pc_polling_rate = over (pc_polling_rate new) (pc_polling_rate old)\<rparr>"

definition no_configuration :: profile_configuration where
  "no_configuration = \<lparr>pc_dpi = None, pc_preferences = None, pc_buttons = None, pc_polling_rate = None\<rparr>"

lemma overlaid_none [simp]: "overlaid no_configuration old = old"
  by (simp add: overlaid_def no_configuration_def)

definition dpi_tail :: "profile_state \<Rightarrow> packet option" where
  "dpi_tail p = map_option dpi_preserved_tail (value_for_export (ps_dpi p))"

lemma export_set_imported [simp]: "value_for_export (set_imported r v time) = Some v"
  by (simp add: value_for_export_def set_imported_def)

lemma observed_set_imported [simp]: "res_observed (set_imported r v time) = res_observed r"
  by (simp add: set_imported_def)

lemma merge_portable_Ok:
  "merge_portable_dpi dpi baseline = Inr st \<Longrightarrow>
     from_dpi_state st = dpi \<and> dpi_preserved_tail st = dpi_preserved_tail baseline"
  by (auto simp: merge_portable_dpi_def dpi_state_new_def with_sensor_def from_dpi_state_def)

lemma import_profile_Ok:
  assumes "import_profile time profile c p = Inr p'"
  shows "profile_configuration_of p' = overlaid c (profile_configuration_of p) \<and> dpi_tail p' = dpi_tail p
    \<and> (res_observed (ps_dpi p'), res_observed (ps_preferences p'), res_observed (ps_buttons p'),
       res_observed (ps_polling_rate p')) =
      (res_observed (ps_dpi p), res_observed (ps_preferences p), res_observed (ps_buttons p),
       res_observed (ps_polling_rate p))"
proof -
  let ?rest = "\<lambda>p. let p = (case pc_preferences c of None \<Rightarrow> p
              | Some v \<Rightarrow> p\<lparr>ps_preferences := set_imported (ps_preferences p) v time\<rparr>);
         p = (case pc_buttons c of None \<Rightarrow> p
              | Some v \<Rightarrow> p\<lparr>ps_buttons := set_imported (ps_buttons p) v time\<rparr>)
     in (case pc_polling_rate c of None \<Rightarrow> p
              | Some v \<Rightarrow> p\<lparr>ps_polling_rate := set_imported (ps_polling_rate p) v time\<rparr>)"
  obtain q where q: "q = p \<and> pc_dpi c = None
      \<or> (\<exists>dpi baseline merged. pc_dpi c = Some dpi \<and> value_for_export (ps_dpi p) = Some baseline
         \<and> merge_portable_dpi dpi baseline = Inr merged \<and> q = p\<lparr>ps_dpi := set_imported (ps_dpi p) merged time\<rparr>)"
    and p': "p' = ?rest q"
  proof (cases "pc_dpi c")
    case None
    then show ?thesis using assms that [of p] by (simp add: import_profile_def Let_def)
  next
    case (Some dpi)
    then obtain baseline merged where b: "value_for_export (ps_dpi p) = Some baseline"
        "merge_portable_dpi dpi baseline = Inr merged"
      using assms by (auto simp: import_profile_def)
    with Some assms that [of "p\<lparr>ps_dpi := set_imported (ps_dpi p) merged time\<rparr>"] show ?thesis
      by (simp add: import_profile_def Let_def)
  qed
  have "profile_configuration_of q = (profile_configuration_of p)\<lparr>pc_dpi := over (pc_dpi c) (pc_dpi (profile_configuration_of p))\<rparr>
      \<and> dpi_tail q = dpi_tail p \<and> res_observed (ps_dpi q) = res_observed (ps_dpi p)
      \<and> ps_preferences q = ps_preferences p \<and> ps_buttons q = ps_buttons p \<and> ps_polling_rate q = ps_polling_rate p"
    using q by (auto simp: profile_configuration_of_def dpi_tail_def dest: merge_portable_Ok)
  then show ?thesis
    unfolding p'
    by (auto simp: profile_configuration_of_def overlaid_def dpi_tail_def Let_def split: option.split)
qed

definition configuration_for :: "configuration_export \<Rightarrow> profile_id \<Rightarrow> profile_configuration" where
  "configuration_for c profile =
     (case bt_get (ce_profiles c) profile of None \<Rightarrow> no_configuration | Some v \<Rightarrow> v)"

text \<open>What an import does to each profile, and what it leaves.\<close>

definition imported_over :: "(profile_id, profile_configuration) btree \<Rightarrow> device_state \<Rightarrow> device_state \<Rightarrow> bool" where
  "imported_over m dev dev' \<longleftrightarrow>
     ds_identity dev' = ds_identity dev \<and> ds_profile_metadata dev' = ds_profile_metadata dev
     \<and> (\<forall>q. profile_configuration_of (profile_of dev' q) =
              overlaid (case bt_get m q of None \<Rightarrow> no_configuration | Some v \<Rightarrow> v)
                (profile_configuration_of (profile_of dev q))
          \<and> dpi_tail (profile_of dev' q) = dpi_tail (profile_of dev q))"

lemma import_steps_Ok:
  assumes "fold_try (import_step time) m dev = Inr dev'" and "bt_ok m"
  shows "imported_over m dev dev'"
  using assms
proof (induction m arbitrary: dev)
  case Nil
  then show ?case by (simp add: imported_over_def)
next
  case (Cons e m)
  obtain profile c where e: "e = (profile, c)" by force
  obtain dev1 where step: "import_step time e dev = Inr dev1"
    and rest: "fold_try (import_step time) m dev1 = Inr dev'"
    using Cons.prems(1) by auto
  from step obtain p where p: "import_profile time profile c (profile_of dev profile) = Inr p"
    and dev1: "dev1 = dev\<lparr>ds_profiles := bt_insert profile p (ds_profiles dev)\<rparr>"
    by (auto simp: import_step_def e profile_of_def)
  have of1: "profile_of dev1 q = (if q = profile then p else profile_of dev q)" for q
    by (simp add: dev1 profile_of_def bt_get_insert)
  have fresh: "bt_get m profile = None"
    using Cons.prems(2) by (auto simp: e bt_get_eq_None)
  have "imported_over m dev1 dev'" using Cons.IH [OF rest] Cons.prems(2) by (simp add: e)
  then show ?case
    using import_profile_Ok [OF p] fresh
    unfolding imported_over_def of1 by (auto simp: e dev1)
qed

lemma import_names_Ok:
  assumes "fold_try import_name m dev = Inr dev'"
  shows "ds_identity dev' = ds_identity dev \<and> ds_profile_metadata dev' = ds_profile_metadata dev
    \<and> ds_profiles dev' = ds_profiles dev"
  using assms
proof (induction m arbitrary: dev)
  case (Cons e m)
  obtain dev1 where dev1: "import_name e dev = Inr dev1" and "fold_try import_name m dev1 = Inr dev'"
    using Cons.prems by auto
  moreover have "ds_identity dev1 = ds_identity dev \<and> ds_profile_metadata dev1 = ds_profile_metadata dev
      \<and> ds_profiles dev1 = ds_profiles dev"
    using dev1 by (auto simp: import_name_def split: prod.splits)
  ultimately show ?case using Cons.IH [of dev1] by simp
qed simp

lemma imported_device_Ok:
  assumes "imported_device time c dev = Inr dev'" and "bt_ok (ce_profiles c)"
  shows "imported_over (ce_profiles c) dev dev'"
proof -
  obtain dev1 where "fold_try (import_step time) (ce_profiles c) dev = Inr dev1"
    and "fold_try import_name (ce_profile_names c) dev1 = Inr dev'"
    using assms(1) by (auto simp: imported_device_def)
  with import_steps_Ok [OF this(1) assms(2)] import_names_Ok [OF this(2)] show ?thesis
    by (simp add: imported_over_def profile_of_def)
qed

lemma pass_number_devices: "pass_number d st = (r, st') \<Longrightarrow> sf_devices st' = sf_devices st"
  by (auto simp: pass_number_def split: option.splits if_splits)

section \<open>Properties\<close>

text \<open>C21: A saved mouse can be forgotten exactly when no endpoint mapping remembers it: outside a
  ceremony, an unknown mouse is an error, a mouse with stored evidence is kept unless the caller
  forces it, and otherwise the mouse and its selection are gone. When an endpoint was remembered for
  the mouse, which every silent attachment does, the removal always fails with a state error and
  changes nothing.\<close>

theorem forget_device_exact:
  assumes "validate (doc m) = Inr ()" and "sf_identity_setup (doc m) = None"
  shows "case bt_get (sf_devices (doc m)) d of
      None \<Rightarrow> forget_device d force m = (Inl (NoSuchDevice d), m)
    | Some dev \<Rightarrow>
        if device_has_evidence dev \<and> \<not> force then forget_device d force m = (Inr False, m)
        else if list_ex (\<lambda>e. snd e = d) (em_endpoints (sf_endpoint_mapping (doc m)))
        then \<exists>fault. forget_device d force m = (Inl (StateFailure fault), m)
        else \<exists>m'. forget_device d force m = (Inr True, m')
          \<and> doc m' = (doc m)\<lparr>sf_devices := bt_remove d (sf_devices (doc m)),
              sf_selected_device := (if sf_selected_device (doc m) = Some d then None
                else sf_selected_device (doc m))\<rparr>"
proof (cases "bt_get (sf_devices (doc m)) d")
  case None
  then show ?thesis by (simp add: forget_device_def transact_eq forget_closure_def)
next
  case (Some dev)
  show ?thesis
  proof (cases "device_has_evidence dev \<and> \<not> force")
    case True
    with Some show ?thesis by (simp add: forget_device_def transact_eq forget_closure_def)
  next
    case False
    obtain st where st: "forget_closure d force (doc m) = (Inr True, st)"
      and eq: "st = (doc m)\<lparr>sf_devices := bt_remove d (sf_devices (doc m)),
              sf_selected_device := (if sf_selected_device (doc m) = Some d then None
                else sf_selected_device (doc m))\<rparr>"
      using Some False by (auto simp: forget_closure_def Let_def)
    have devices: "sf_devices st = bt_remove d (sf_devices (doc m))"
      and mapping: "sf_endpoint_mapping st = sf_endpoint_mapping (doc m)"
      by (simp_all add: eq)
    have "bt_contains (sf_devices (doc m)) d" and "\<not> bt_contains (sf_devices st) d"
      using Some devices by (simp_all add: bt_contains_def bt_get_remove)
    then have "st \<noteq> doc m" by auto
    then have run: "forget_device d force m = (case validate st of
        Inl e \<Rightarrow> (Inl (StateFailure e), m) | Inr _ \<Rightarrow> (Inr True, m\<lparr>mn_store := (mn_store m)\<lparr>mb_state := st\<rparr>\<rparr>))"
      by (simp add: forget_device_def transact_eq st)
    have "\<exists>fault. validate st = Inl fault"
      if "list_ex (\<lambda>e. snd e = d) (em_endpoints (sf_endpoint_mapping (doc m)))"
    proof -
      have "\<not> valid_mapping st"
        using that \<open>\<not> bt_contains (sf_devices st) d\<close> by (auto simp: valid_mapping_def mapping list_ex_iff)
      then have "validate st \<noteq> Inr ()" by (simp add: validate_eq_Inr valid_document_def)
      then show ?thesis by (cases "validate st") auto
    qed
    moreover have "validate st = Inr ()"
      if "\<not> list_ex (\<lambda>e. snd e = d) (em_endpoints (sf_endpoint_mapping (doc m)))"
      using forgotten_valid [of "doc m" d force] that assms by (auto simp: st validate_eq_Inr list_ex_iff)
    ultimately show ?thesis
      using Some False run by (auto simp flip: eq)
  qed
qed

text \<open>Two saved mice, the first remembered for an endpoint.\<close>

definition remembered_mice :: state_file where
  "remembered_mice = two_mice\<lparr>sf_endpoint_mapping :=
     \<lparr>em_endpoints = [([97], logical_key 1)], em_last_seen = []\<rparr>\<rparr>"

lemma forget_device_exact_witness:
  "(\<exists>fault. forget_device (logical_key 1) True (demo_manager remembered_mice)
      = (Inl (StateFailure fault), demo_manager remembered_mice))
   \<and> (\<exists>m'. forget_device (logical_key 2) True (demo_manager remembered_mice) = (Inr True, m')
      \<and> map fst (sf_devices (doc m')) = [logical_key 1])"
proof -
  have v: "validate remembered_mice = Inr ()" by code_simp
  have s: "sf_identity_setup remembered_mice = None"
    by (simp add: remembered_mice_def two_mice_def)
  have d: "bt_get (sf_devices remembered_mice) (logical_key 1) \<noteq> None"
      "bt_get (sf_devices remembered_mice) (logical_key 2) \<noteq> None"
    by code_simp+
  have e: "list_ex (\<lambda>e. snd e = logical_key 1) (em_endpoints (sf_endpoint_mapping remembered_mice))"
      "\<not> list_ex (\<lambda>e. snd e = logical_key 2) (em_endpoints (sf_endpoint_mapping remembered_mice))"
    by code_simp+
  have r: "map fst (bt_remove (logical_key 2) (sf_devices remembered_mice)) = [logical_key 1]"
    by code_simp
  show ?thesis
    using forget_device_exact [of "demo_manager remembered_mice" "logical_key 1" True]
      forget_device_exact [of "demo_manager remembered_mice" "logical_key 2" True] v s d e r
    by (auto simp: demo_manager_def)
qed

text \<open>C8: A portable configuration travels without the watermark: after a successful import each
  profile of the target has the imported value of every resource the document carries and keeps its
  own value of every other resource, the opaque tail of its DPI report, which holds the physical
  identity, stays the target's own, the identity is the one the caller supplied, and no other saved
  mouse changes.\<close>

theorem import_keeps_own_watermark:
  assumes "import_configuration be identity c m = (Inr (), m')" and "bt_ok (ce_profiles c)"
  shows "\<exists>dev'. bt_get (sf_devices (doc m')) (id_device identity) = Some dev' \<and> ds_identity dev' = identity
    \<and> (\<forall>profile.
        let old = profile_of (case bt_get (sf_devices (doc m)) (id_device identity) of
              None \<Rightarrow> device_state_new identity | Some dev \<Rightarrow> dev) profile
        in profile_configuration_of (profile_of dev' profile)
             = overlaid (configuration_for c profile) (profile_configuration_of old)
           \<and> dpi_tail (profile_of dev' profile) = dpi_tail old)
    \<and> (\<forall>d. bt_get (sf_devices (doc m')) d = bt_get (sf_devices (doc m)) d \<or> d = id_device identity)"
proof -
  let ?d = "id_device identity"
  let ?old = "case bt_get (sf_devices (doc m)) ?d of None \<Rightarrow> device_state_new identity | Some dev \<Rightarrow> dev"
  obtain time where "transact (import_closure time identity c) m = (Inr (), m')"
    using assms(1) by (auto simp: import_configuration_def thenp_eq_Inr now_op_def getp_def liftp_def)
  then have "import_closure time identity c (doc m) = (Inr (), doc m')"
    by (rule transact_Ok)
  then obtain st1 dev' where st1: "pass_number ?d (doc m) = (Inr (), st1)"
    and dev': "imported_device time c ((case bt_get (sf_devices st1) ?d of
        None \<Rightarrow> device_state_new identity | Some dev \<Rightarrow> dev)\<lparr>ds_identity := identity\<rparr>) = Inr dev'"
    and m': "doc m' = (select_if_none ?d st1)\<lparr>sf_devices := bt_insert ?d dev' (sf_devices (select_if_none ?d st1))\<rparr>"
    by (auto simp: import_closure_def Let_def split: prod.splits sum.splits)
  have devices: "sf_devices st1 = sf_devices (doc m)"
    using st1 by (rule pass_number_devices)
  have "imported_over (ce_profiles c) (?old\<lparr>ds_identity := identity\<rparr>) dev'"
    using imported_device_Ok [OF dev' assms(2)] by (simp add: devices)
  then have "ds_identity dev' = identity \<and> (\<forall>q. profile_configuration_of (profile_of dev' q)
        = overlaid (configuration_for c q) (profile_configuration_of (profile_of ?old q))
      \<and> dpi_tail (profile_of dev' q) = dpi_tail (profile_of ?old q))"
    by (simp add: imported_over_def profile_of_def configuration_for_def)
  then show ?thesis
    by (auto simp: m' bt_get_insert select_if_none_def devices)
qed

text \<open>A mouse with its own watermark, and a document from another mouse.\<close>

definition owned_token :: physical_id where
  "owned_token = PhysicalId (replicate 16 1)"

definition configured_mouse :: state_file where
  "configured_mouse = two_mice\<lparr>sf_devices := bt_adjust (logical_key 1)
     (\<lambda>dev. dev\<lparr>ds_profiles := [(ProfileId 1, profile_state_empty
        \<lparr>ps_dpi := set_imported resource_empty (demo_dpi owned_token) (Timestamp 5)\<rparr>)]\<rparr>) (sf_devices two_mice)\<rparr>"

definition demo_identity :: device_identity where
  "demo_identity = (identity_new (logical_key 1) None)\<lparr>id_physical_id := Some owned_token\<rparr>"

definition portable_document :: configuration_export where
  "portable_document = \<lparr>ce_profiles = [(ProfileId 1, no_configuration
     \<lparr>pc_dpi := Some \<lparr>pd_profile = ProfileId 1, pd_stages = [DpiValue 1600], pd_active_stage = StageIndex 1,
        pd_sensor = sensor_default\<rparr>\<rparr>)], ce_profile_names = []\<rparr>"

definition import_demo :: "(manager_error, unit) result \<times> unit manager" where
  "import_demo = import_configuration (demo_backend owned_token) demo_identity portable_document
     (demo_manager configured_mouse)"

lemma import_keeps_own_watermark_witness:
  "\<exists>dev'. bt_get (sf_devices (doc (snd import_demo))) (logical_key 1) = Some dev'
     \<and> map_option pd_stages (pc_dpi (profile_configuration_of (profile_of dev' (ProfileId 1)))) = Some [DpiValue 1600]
     \<and> dpi_tail (profile_of dev' (ProfileId 1)) = Some (to_watermark_bytes (\<lambda>_. 7) owned_token)"
proof -
  have "fst import_demo = Inr ()" by code_simp
  then have run: "import_demo = (Inr (), snd import_demo)" by (metis prod.collapse)
  have ok: "bt_ok (ce_profiles portable_document)" by (simp add: portable_document_def)
  have dev: "bt_get (sf_devices configured_mouse) (logical_key 1) = Some ((device_state_new demo_identity)
      \<lparr>ds_profiles := [(ProfileId 1, profile_state_empty
        \<lparr>ps_dpi := set_imported resource_empty (demo_dpi owned_token) (Timestamp 5)\<rparr>)]\<rparr>)"
    by (simp add: configured_mouse_def two_mice_def demo_document_def bt_adjust_def demo_identity_def
        owned_token_def)
  have key: "id_device demo_identity = logical_key 1" by (simp add: demo_identity_def identity_new_def)
  show ?thesis
    using import_keeps_own_watermark [OF run [unfolded import_demo_def] ok] dev
    by (auto simp: demo_manager_def key import_demo_def Let_def profile_of_def overlaid_def dpi_tail_def
        configuration_for_def portable_document_def no_configuration_def demo_dpi_def
        dest!: spec [where x = "ProfileId 1"])
qed

text \<open>C22: A command without an explicit mouse never guesses: the mouse it resolves is connected in
  the scan it just made; it is the named mouse, or the stored selection, or the only connected mouse,
  or, of several, the only one connected by cable; and without a name the stored selection is that
  mouse afterwards.\<close>

theorem resolve_device_never_guesses:
  assumes "resolve_device be explicit selection m = (Inr d, m')"
  shows "\<exists>view m1. discover be selection m = (Inr view, m1)
    \<and> d \<in> is_connected_ids (\<lambda>_. True) (dv_devices view)
    \<and> (case explicit of
         Some named \<Rightarrow> d = named \<and> bt_contains (sf_devices (doc m1)) named
       | None \<Rightarrow>
           (sf_selected_device (doc m1) = Some d
            \<or> is_connected_ids (\<lambda>_. True) (dv_devices view) = {d}
            \<or> is_connected_ids (\<lambda>row. Wired \<in> set (dd_transports row)) (dv_devices view) = {d})
           \<and> sf_selected_device (doc m') = Some d)"
proof -
  obtain view m1 where scan: "discover be selection m = (Inr view, m1)"
    using assms by (auto simp: resolve_device_def thenp_eq_Inr)
  let ?rows = "dv_devices view"
  have row: "x \<in> is_connected_ids (\<lambda>_. True) ?rows" if "is_row_connected ?rows x" for x
    using that by (auto simp: is_row_connected_def list_ex_iff is_connected_ids_def)
  show ?thesis
  proof (cases explicit)
    case (Some named)
    then have "bt_contains (sf_devices (doc m1)) named" and "is_row_connected ?rows named" and "d = named"
      using assms scan
      by (auto simp: resolve_device_def thenp_eq_Inr load_doc_eq errp_def okp_def Let_def split: if_splits)
    with scan row Some show ?thesis by auto
  next
    case None
    let ?kept = "case sf_selected_device (doc m1) of
        Some s \<Rightarrow> if is_row_connected ?rows s then Some s else None | None \<Rightarrow> None"
    show ?thesis
    proof (cases ?kept)
      case (Some s)
      then have s: "sf_selected_device (doc m1) = Some s" and "is_row_connected ?rows s"
        by (auto split: option.splits if_splits)
      moreover have "d = s" and "prefer_exact selection s m1 = (Inr (), m')"
        using assms scan None Some
        by (auto simp: resolve_device_def thenp_eq_Inr load_doc_eq okp_def Let_def)
      ultimately show ?thesis
        using scan None row prefer_exact_selected [of selection s m1 "()" m'] by auto
    next
      case kept: None
      have "auto_select selection d m1 = (Inr d, m')
          \<and> (connected_ids (\<lambda>_. True) ?rows = [d]
             \<or> connected_ids (\<lambda>row. Wired \<in> set (dd_transports row)) ?rows = [d])"
        using assms scan None kept auto_select_Ok [of selection _ m1 d m']
        by (auto simp: resolve_device_def thenp_eq_Inr load_doc_eq errp_def Let_def split: list.splits)
      moreover have "is_connected_ids (\<lambda>row. Wired \<in> set (dd_transports row)) ?rows
          \<subseteq> is_connected_ids (\<lambda>_. True) ?rows"
        by (auto simp: is_connected_ids_def)
      ultimately show ?thesis
        using scan None auto_select_Ok [of selection d m1 d m'] connected_ids_single by fastforce
    qed
  qed
qed

definition selected_mice :: state_file where
  "selected_mice = two_mice\<lparr>sf_selected_device := Some (logical_key 1)\<rparr>"

lemma resolve_device_never_guesses_witness:
  "sf_selected_device (doc (snd (resolve_device (demo_backend owned_token) None AutoSelection
     (demo_manager selected_mice)))) = Some (logical_key 1)"
proof -
  let ?run = "resolve_device (demo_backend owned_token) None AutoSelection (demo_manager selected_mice)"
  have "fst ?run = Inr (logical_key 1)" by code_simp
  then have "?run = (Inr (logical_key 1), snd ?run)" by (metis prod.collapse)
  from resolve_device_never_guesses [OF this] show ?thesis
    unfolding option.case by blast
qed

end
