(* ===== verification/X3_Updates_Facts.thy ===== *)
theory X3_Updates_Facts
  imports X3_Manager_Ops X3_Registry_Facts
begin

text \<open>
  What the operations on a saved mouse guarantee: the attachment is authenticated before anything is
  sent, a DPI write always carries the watermark of the mouse it is meant for, the polling-rate write
  happens only under its preflight, a failed composite update records nothing, and a completed write
  is recorded with the evidence the session gave.
\<close>

section \<open>Opening\<close>

lemma thenp_assoc: "thenp (thenp p f) g = thenp p (\<lambda>x. thenp (f x) g)"
  by (auto simp: fun_eq_iff thenp_def split: sum.split prod.split)

text \<open>The steps of \<^const>\<open>open_locked\<close> under the guard, before its body.\<close>

definition opened ::
  "'w backend \<Rightarrow> device_id \<Rightarrow> ('w, device_state \<times> device_endpoint \<times> 'w session) mop" where
  "opened be device =
     thenp load_doc (\<lambda>st.
     thenp (case sf_identity_setup st of
              Some journal \<Rightarrow> if journal_blocks_device journal device
                then errp (DeviceInvolvedInSetup device (jr_phase journal)) else okp ()
            | None \<Rightarrow> okp ()) (\<lambda>_.
     thenp (liftp (ok_or (NoSuchDevice device) (bt_get (sf_devices st) device))) (\<lambda>dev.
     thenp (liftp (ok_or (NoSuchDevice device) (selected_endpoint (ds_identity dev)))) (\<lambda>e.
     thenp (in_world (be_open be e)) (\<lambda>session.
     thenp (check_attachment be device (ds_identity dev) e session) (\<lambda>_. okp (dev, e, session)))))))"

lemma open_locked_eq:
  "open_locked be device operation body =
     with_guard be device operation
       (thenp (opened be device) (\<lambda>(dev, _, session). body (ds_identity dev) session))"
  by (simp add: open_locked_def opened_def thenp_assoc)

lemma doc_in_world: "in_world p m = (r, m') \<Longrightarrow> mn_store m' = mn_store m \<and> mn_cache m' = mn_cache m"
  by (auto simp: in_world_def zoomp_def split: prod.splits)

lemma okp_eq [simp]: "okp x s = (r, t) \<longleftrightarrow> r = Inr x \<and> t = s"
  by (auto simp: okp_def)

lemma errp_eq [simp]: "errp e s = (r, t) \<longleftrightarrow> r = Inl e \<and> t = s"
  by (auto simp: errp_def)

lemma liftp_eq [simp]: "liftp q s = (r, t) \<longleftrightarrow> q = r \<and> t = s"
  by (auto simp: liftp_def)

definition authenticated :: "identity_cache \<Rightarrow> device_state \<Rightarrow> device_endpoint \<Rightarrow> bool" where
  "authenticated cache dev e \<longleftrightarrow>
     (case id_physical_id (ds_identity dev) of
        Some own \<Rightarrow> \<not> is_usb_transport (ep_transport e) \<or> cached cache e = Some (Valid own)
      | None \<Rightarrow> True)"

lemma cached_insert: "cached (c(cache_key e \<mapsto> (decode, e))) e = Some decode"
  by (simp add: cached_def)

lemma authenticate_Ok:
  assumes "authenticate_attachment be e session m = (Inr decode, m')"
  shows "cached (mn_cache m') e = Some decode \<and> mn_store m' = mn_store m"
proof (cases "cached (mn_cache m) e")
  case (Some d)
  with assms show ?thesis by (simp add: authenticate_attachment_def thenp_eq_Inr getp_def)
next
  case None
  with assms obtain m1 profile where "in_world (current_watermark be session) m = (Inr (profile, decode), m1)"
    and "m' = m1\<lparr>mn_cache := (mn_cache m1)(cache_key e \<mapsto> (decode, e))\<rparr>"
    by (auto simp: authenticate_attachment_def thenp_eq_Inr getp_def cache_insert_def modifyp_def)
  with doc_in_world show ?thesis by (auto simp: cached_insert)
qed

lemma check_attachment_Ok:
  assumes "check_attachment be device (ds_identity dev) e session m = (Inr u, m')"
  shows "authenticated (mn_cache m') dev e \<and> mn_store m' = mn_store m"
  using assms
  by (auto simp: check_attachment_def authenticated_def thenp_eq_Inr
      split: option.splits if_splits dest: authenticate_Ok)

definition journal_blocks :: "state_file \<Rightarrow> device_id \<Rightarrow> bool" where
  "journal_blocks st device \<longleftrightarrow>
     (case sf_identity_setup st of None \<Rightarrow> False | Some j \<Rightarrow> journal_blocks_device j device)"

lemma opened_Ok:
  assumes "opened be device m = (Inr (dev, e, session), m')"
  shows "bt_get (sf_devices (doc m)) device = Some dev \<and> selected_endpoint (ds_identity dev) = Some e
    \<and> doc m' = doc m \<and> \<not> journal_blocks (doc m) device \<and> authenticated (mn_cache m') dev e"
proof -
  obtain m1 where "bt_get (sf_devices (doc m)) device = Some dev"
    and "selected_endpoint (ds_identity dev) = Some e" and "\<not> journal_blocks (doc m) device"
    and o_world: "in_world (be_open be e) m = (Inr session, m1)"
    and c: "check_attachment be device (ds_identity dev) e session m1 = (Inr (), m')"
    using assms
    by (auto simp: opened_def thenp_eq_Inr load_doc_eq journal_blocks_def split: option.splits if_splits)
  then show ?thesis
    using doc_in_world [OF o_world] check_attachment_Ok [OF c] by simp
qed

section \<open>What reaches the world\<close>

text \<open>A backend whose sessions satisfy \<open>S\<close>, and which keeps an arbitrary property \<open>I\<close> of the world
  while it locks, opens and authenticates.\<close>

definition careful_backend :: "('w \<Rightarrow> bool) \<Rightarrow> ('w session \<Rightarrow> bool) \<Rightarrow> 'w backend \<Rightarrow> bool" where
  "careful_backend I S be \<longleftrightarrow>
     (\<forall>d op. keeps I (be_lock be d op)) \<and> (\<forall>d w. I w \<longrightarrow> I (be_unlock be d w))
     \<and> (\<forall>e. triple I (be_open be e) (\<lambda>s w. I w \<and> S s) (\<lambda>_. I))
     \<and> (\<forall>s. S s \<longrightarrow> keeps I (ss_read_profile_metadata s) \<and> (\<forall>p. keeps I (ss_read_dpi s p)))"

abbreviation world_ok :: "('w \<Rightarrow> bool) \<Rightarrow> 'w manager \<Rightarrow> bool" where
  "world_ok I m \<equiv> I (mn_world m)"

named_theorems world_rules "what keeps a property of the world"

lemma world_in_world [world_rules]: "keeps I p \<Longrightarrow> keeps (world_ok I) (in_world p)"
  by (auto simp: keeps_def in_world_def zoomp_def split: prod.split)

lemma world_load [world_rules]: "keeps (world_ok I) load_doc"
  by (simp add: keeps_def load_doc_eq)

lemma world_now [world_rules]: "keeps (world_ok I) (now_op be)"
  by (simp add: now_op_def keeps_pure)

lemma mutate_world: "mn_world (snd (mutate f m)) = mn_world m"
  by (auto simp: mutate_def in_store_def map_errp_def zoomp_def split: prod.split)

lemma world_mutate [world_rules]: "keeps (world_ok I) (mutate_inner f)"
proof -
  have "keeps (world_ok I) (mutate f)" by (simp add: keeps_def mutate_world)
  then show ?thesis unfolding mutate_inner_def by (rule keeps_thenp) (rule keeps_pure)
qed

lemma world_pure [world_rules]:
  "keeps (world_ok I) (okp x)" "keeps (world_ok I) (errp e)" "keeps (world_ok I) (liftp r)"
  by (simp_all add: keeps_pure)

lemmas [world_rules] = keeps_thenp keeps_if keeps_handlep

lemma world_cache [world_rules]: "keeps (world_ok I) (cache_insert e decode)"
  by (simp add: keeps_def cache_insert_def modifyp_def)

lemma world_getp [world_rules]: "keeps (world_ok I) (getp f)"
  by (simp add: keeps_pure)

lemma world_authenticate:
  assumes "careful_backend I S be" and "S session"
  shows "keeps (world_ok I) (authenticate_attachment be e session)"
  using assms
  by (auto simp: authenticate_attachment_def current_watermark_def careful_backend_def
      intro!: world_rules keeps_thenp keeps_pure split: option.split prod.split)

lemma world_check:
  assumes "careful_backend I S be" and "S session"
  shows "keeps (world_ok I) (check_attachment be device identity e session)"
  using world_authenticate [OF assms]
  by (cases "id_physical_id identity") (auto simp: check_attachment_def intro!: keeps_thenp world_pure)

text \<open>What opening leaves: a kept world and a session whose calls keep it.\<close>

lemma in_world_triple:
  "triple P p Q R \<Longrightarrow>
     triple (\<lambda>m. P (mn_world m)) (in_world p) (\<lambda>x m. Q x (mn_world m)) (\<lambda>e m. R e (mn_world m))"
  by (fastforce simp: triple_def in_world_def zoomp_def split: prod.splits sum.splits)

lemma opened_world:
  assumes be: "careful_backend I S be" and start: "world_ok I m" and run: "opened be device m = (r, m')"
  shows "world_ok I m' \<and> (case r of Inr (_, _, session) \<Rightarrow> S session | Inl _ \<Rightarrow> True)"
proof -
  have op_ok: "triple (world_ok I) (in_world (be_open be e)) (\<lambda>s m. world_ok I m \<and> S s) (\<lambda>_. world_ok I)"
    for e
    using be in_world_triple [of I "be_open be e" "\<lambda>s w. I w \<and> S s" "\<lambda>_. I"]
    by (simp add: careful_backend_def)
  have body: "world_ok I m' \<and> (case r of Inr (_, _, session) \<Rightarrow> S session | Inl _ \<Rightarrow> True)"
    if r: "thenp (in_world (be_open be e)) (\<lambda>session.
        thenp (check_attachment be device (ds_identity dev) e session) (\<lambda>_. okp (dev, e, session))) m = (r, m')"
    for e dev
  proof -
    obtain q m1 where o1: "in_world (be_open be e) m = (q, m1)" by force
    show ?thesis
    proof (cases q)
      case (Inl x)
      with triple_Err [OF op_ok start o1 [unfolded Inl]] r o1 show ?thesis by (auto simp: thenp_def)
    next
      case (Inr s)
      have s: "world_ok I m1 \<and> S s"
        using triple_Ok [OF op_ok start o1 [unfolded Inr]] by simp
      obtain c m2 where c: "check_attachment be device (ds_identity dev) e s m1 = (c, m2)" by force
      have "world_ok I m2" using keepsD [OF world_check [OF be, of s] _ c] s by blast
      then show ?thesis using r o1 c s Inr by (cases c) (auto simp: thenp_def okp_def)
    qed
  qed
  show ?thesis
    using run start body
    by (auto simp: opened_def thenp_def [of load_doc] load_doc_eq thenp_def [of "okp _"] thenp_def [of "errp _"]
        thenp_def [of "liftp _"] okp_def errp_def liftp_def split: option.splits if_splits sum.splits prod.splits)
qed

lemma open_locked_world:
  assumes be: "careful_backend I S be" and start: "world_ok I m"
    and body: "\<And>dev session m1. bt_get (sf_devices (doc m)) device = Some dev \<Longrightarrow> S session \<Longrightarrow>
        doc m1 = doc m \<Longrightarrow> world_ok I m1 \<Longrightarrow> world_ok I (snd (body (ds_identity dev) session m1))"
  shows "world_ok I (snd (open_locked be device operation body m))"
proof -
  have un: "I w \<Longrightarrow> I (be_unlock be device w)" for w
    using be by (simp add: careful_backend_def)
  obtain r m0 where lock: "in_world (be_lock be device operation) m = (r, m0)" by force
  have lock_ok: "world_ok I m0" and d0: "doc m0 = doc m"
    using keepsD [OF world_in_world [of I "be_lock be device operation"] _ lock] start be doc_in_world [OF lock]
    by (auto simp: careful_backend_def)
  obtain q m1 where run: "opened be device m0 = (q, m1)" by force
  have "world_ok I (snd (thenp (opened be device) (\<lambda>(dev, _, session). body (ds_identity dev) session) m0))"
  proof (cases q)
    case (Inl e)
    with run opened_world [OF be lock_ok run] show ?thesis by (simp add: thenp_def)
  next
    case (Inr x)
    obtain dev e session where x: "x = (dev, e, session)" by (cases x)
    have "world_ok I m1 \<and> S session"
      using opened_world [OF be lock_ok run] by (simp add: Inr x)
    moreover have "bt_get (sf_devices (doc m)) device = Some dev" and "doc m1 = doc m"
      using opened_Ok [OF run [unfolded Inr x]] d0 by simp_all
    ultimately show ?thesis
      using body [of dev session m1] by (simp add: thenp_def run Inr x)
  qed
  then show ?thesis
    using lock lock_ok
    by (auto simp: open_locked_eq with_guard_def thenp_def [of "in_world _"] un split: prod.splits sum.splits)
qed

section \<open>Baselines and records keep the world\<close>

lemma world_observe [world_rules]: "keeps (world_ok I) (observe be device profile get put v)"
  unfolding observe_def by (intro keeps_thenp world_now world_mutate)

lemma world_record [world_rules]: "keeps (world_ok I) (record_write be device profile get put res desired w)"
  unfolding record_write_def by (intro keeps_thenp world_now world_mutate world_pure)

lemma world_stored_baselines [world_rules]:
  "keeps (world_ok I) (load_stored_dpi_baseline device profile allow)"
  "keeps (world_ok I) (load_stored_preferences_baseline device profile allow)"
  "keeps (world_ok I) (load_stored_buttons_baseline device profile allow)"
  "keeps (world_ok I) (require_complete_desired_image device profile)"
  by (auto simp: load_stored_dpi_baseline_def load_stored_preferences_baseline_def
      load_stored_buttons_baseline_def require_complete_desired_image_def
      intro!: keeps_thenp world_load world_pure split: option.split)

lemma world_optional_step [world_rules]:
  "(\<And>d. keeps I (f d)) \<Longrightarrow> keeps I (optional_step d f)"
  by (auto simp: optional_step_def intro!: keeps_thenp keeps_pure split: option.split)

section \<open>The watermark on every DPI write\<close>

text \<open>Sessions of a mouse which only a DPI write without its watermark could harm.\<close>

definition stamped_only :: "('w \<Rightarrow> bool) \<Rightarrow> packet \<Rightarrow> 'w session \<Rightarrow> bool" where
  "stamped_only I tail s \<longleftrightarrow>
     keeps I (ss_read_profile_metadata s)
     \<and> (\<forall>st v. dpi_preserved_tail st = tail \<longrightarrow> keeps I (ss_write_dpi s st v))
     \<and> (\<forall>p. keeps I (ss_read_profile s p) \<and> keeps I (ss_read_dpi s p) \<and> keeps I (ss_read_preferences s p)
          \<and> keeps I (ss_read_buttons s p) \<and> keeps I (ss_read_live_polling_rate s p))
     \<and> (\<forall>st v. keeps I (ss_write_preferences s st v)) \<and> (\<forall>st v. keeps I (ss_write_buttons s st v))
     \<and> (\<forall>p r v. keeps I (ss_write_polling_rate_unchecked s p r v))"

lemma stamped_baselines:
  assumes "stamped_only I tail s"
  shows "keeps (world_ok I) (dpi_baseline device profile policy s provided)"
    and "keeps (world_ok I) (preferences_baseline device profile policy s provided')"
    and "keeps (world_ok I) (buttons_baseline device profile policy s provided'')"
  using assms
  by (auto simp: dpi_baseline_def preferences_baseline_def buttons_baseline_def stamped_only_def
      intro!: world_stored_baselines world_in_world world_pure
      split: baseline_source.split option.split)

lemma stamped_write_dpi:
  assumes "stamped_only I (to_watermark_bytes (be_crc be) own) s"
  shows "keeps (world_ok I) (write_dpi_with_session be device profile desired (Some own) v s)"
  using assms
  by (auto simp: write_dpi_with_session_def with_physical_watermark_def stamped_only_def Let_def
      intro!: keeps_thenp world_in_world world_record)

lemma stamped_sections:
  assumes "stamped_only I (to_watermark_bytes (be_crc be) own) s" and "id_physical_id identity = Some own"
  shows "keeps (world_ok I) (apply_sections be device profile u policy provided identity s)"
proof -
  have d: "keeps (world_ok I) (send_dpi_update be device profile identity policy s provided d)" for d
    using assms stamped_baselines(1) [OF assms(1)]
    by (auto simp: send_dpi_update_def with_physical_watermark_def stamped_only_def Let_def
        intro!: keeps_thenp world_in_world world_pure)
  have p: "keeps (world_ok I) (send_preferences_update device profile policy s provided d)" for d
    using assms stamped_baselines(2) [OF assms(1)]
    by (auto simp: send_preferences_update_def stamped_only_def Let_def
        intro!: keeps_thenp world_in_world world_pure)
  have b: "keeps (world_ok I) (send_buttons_update device profile policy s provided ds)" for ds
    using assms stamped_baselines(3) [OF assms(1)]
    by (auto simp: send_buttons_update_def stamped_only_def Let_def
        intro!: keeps_thenp world_in_world world_pure)
  show ?thesis
    unfolding apply_sections_def
    by (intro keeps_thenp world_optional_step d p b world_now world_mutate)
      (auto intro!: keeps_thenp world_pure split: prod.split)
qed

lemma stamped_rate:
  assumes "stamped_only I tail s"
  shows "keeps (world_ok I) (apply_rate_update be device profile rate policy s)"
proof -
  have r: "keeps (world_ok I) (in_world (ss_read_profile s profile))"
      "keeps (world_ok I) (in_world (ss_read_live_polling_rate s profile))"
      "keeps (world_ok I) (in_world (ss_write_polling_rate_unchecked s profile rate v))" for v
    using assms by (auto simp: stamped_only_def intro!: world_in_world)
  show ?thesis
    unfolding apply_rate_update_def write_polling_rate_def
    by (intro keeps_if keeps_thenp world_stored_baselines world_pure world_record r)
qed

section \<open>The polling-rate gate\<close>

text \<open>Report \<^verbatim>\<open>0x06\<close> is harmless only behind a gate \<open>G\<close>, which reading a profile whose snapshot
  satisfies \<open>M\<close> opens.\<close>

definition gated :: "('w \<Rightarrow> bool) \<Rightarrow> ('w \<Rightarrow> bool) \<Rightarrow> (profile_snapshot \<Rightarrow> bool) \<Rightarrow> profile_id \<Rightarrow> 'w session \<Rightarrow> bool" where
  "gated I G M profile s \<longleftrightarrow>
     keeps I (ss_read_profile_metadata s) \<and> (\<forall>p. keeps I (ss_read_dpi s p))
     \<and> triple I (ss_read_profile s profile) (\<lambda>snapshot w. I w \<and> (M snapshot \<longrightarrow> G w)) (\<lambda>_. I)
     \<and> triple (\<lambda>w. I w \<and> G w) (ss_read_live_polling_rate s profile) (\<lambda>_ w. I w \<and> G w) (\<lambda>_. I)
     \<and> (\<forall>rate v. triple (\<lambda>w. I w \<and> G w) (ss_write_polling_rate_unchecked s profile rate v) (\<lambda>_. I) (\<lambda>_. I))"

definition desired_matches :: "state_file \<Rightarrow> device_id \<Rightarrow> profile_id \<Rightarrow> profile_snapshot \<Rightarrow> bool" where
  "desired_matches st device profile snapshot \<longleftrightarrow>
     (case stored_profile st device profile of
        None \<Rightarrow> False
      | Some p \<Rightarrow>
          map_option des_value (res_desired (ps_dpi p)) = Some (snap_dpi snapshot)
          \<and> map_option des_value (res_desired (ps_preferences p)) = Some (snap_preferences snapshot)
          \<and> map_option des_value (res_desired (ps_buttons p)) = Some (snap_buttons snapshot))"

lemma desired_matches_check:
  assumes "complete_desired_image_of st device profile = Inr c" and "check_image profile c snapshot = Inr ()"
  shows "desired_matches st device profile snapshot"
  using assms
  by (auto simp: complete_desired_image_of_def check_image_def desired_matches_def stored_profile_def
      desired_of_def Let_def bind_eq_Some_conv split: if_splits option.splits)

lemma gated_write:
  assumes "gated I G M profile s"
  shows "triple (world_ok (\<lambda>w. I w \<and> G w)) (write_polling_rate be device profile desired v s)
    (\<lambda>_. world_ok I) (\<lambda>_. world_ok I)"
proof -
  have r: "triple (world_ok (\<lambda>w. I w \<and> G w)) (in_world (ss_read_live_polling_rate s profile))
      (\<lambda>_. world_ok (\<lambda>w. I w \<and> G w)) (\<lambda>_. world_ok I)"
    using assms in_world_triple [of "\<lambda>w. I w \<and> G w" "ss_read_live_polling_rate s profile"
        "\<lambda>_ w. I w \<and> G w" "\<lambda>_. I"]
    by (simp add: gated_def)
  have w: "triple (world_ok (\<lambda>w. I w \<and> G w)) (in_world (ss_write_polling_rate_unchecked s profile desired v))
      (\<lambda>_. world_ok I) (\<lambda>_. world_ok I)"
    using assms in_world_triple [of "\<lambda>w. I w \<and> G w" "ss_write_polling_rate_unchecked s profile desired v"
        "\<lambda>_. I" "\<lambda>_. I"]
    by (simp add: gated_def)
  have k: "triple (world_ok (\<lambda>w. I w \<and> G w)) (okp x) (\<lambda>_. world_ok I) (\<lambda>_. world_ok I)" for x
    by (rule triple_okp) simp
  have rec: "triple (world_ok I) (record_write be device profile ps_polling_rate put_polling_rate
      ''polling rate'' desired x) (\<lambda>_. world_ok I) (\<lambda>_. world_ok I)" for x
    using world_record unfolding keeps_triple .
  show ?thesis
    unfolding write_polling_rate_def
    by (rule triple_thenp [OF r], rule triple_thenp [OF _ rec], rule triple_if [OF k w])
qed

lemma gated_body:
  assumes g: "gated I G M profile s" and start: "world_ok I m"
    and ok: "\<And>c snapshot. complete_desired_image_of (doc m) device profile = Inr c \<Longrightarrow>
        check_image profile c snapshot = Inr () \<Longrightarrow> extra snapshot \<Longrightarrow> M snapshot"
    and cont: "\<And>x. keeps (world_ok I) (cont x)"
  shows "world_ok I (snd (thenp (require_complete_desired_image device profile) (\<lambda>c.
      thenp (in_world (ss_read_profile s profile)) (\<lambda>snapshot.
      if \<not> extra snapshot then errp fault
      else thenp (liftp (check_image profile c snapshot)) (\<lambda>_.
        thenp (write_polling_rate be device profile desired v s) cont))) m))"
proof (cases "complete_desired_image_of (doc m) device profile")
  case (Inl e)
  then show ?thesis
    using start by (simp add: require_complete_desired_image_def thenp_def load_doc_eq liftp_def split_def)
next
  case (Inr c)
  obtain r m1 where read: "in_world (ss_read_profile s profile) m = (r, m1)" by force
  have rp: "triple (world_ok I) (in_world (ss_read_profile s profile))
      (\<lambda>snapshot m. world_ok I m \<and> (M snapshot \<longrightarrow> G (mn_world m))) (\<lambda>_. world_ok I)"
    using g in_world_triple [of I "ss_read_profile s profile" "\<lambda>snapshot w. I w \<and> (M snapshot \<longrightarrow> G w)" "\<lambda>_. I"]
    by (simp add: gated_def)
  show ?thesis
  proof (cases r)
    case (Inl e)
    then show ?thesis
      using triple_Err [OF rp start read [unfolded Inl]] Inr read
      by (simp add: require_complete_desired_image_def thenp_def load_doc_eq liftp_def split_def)
  next
    case snapshot: (Inr snapshot)
    have m1: "world_ok I m1" "M snapshot \<Longrightarrow> G (mn_world m1)"
      using triple_Ok [OF rp start read [unfolded snapshot]] by simp_all
    have step: "world_ok I (snd (thenp (write_polling_rate be device profile desired v s) cont m1))"
      if "M snapshot"
    proof -
      obtain q m2 where w: "write_polling_rate be device profile desired v s m1 = (q, m2)" by force
      have "world_ok I m2"
        using triple_Ok [OF gated_write [OF g], of m1] triple_Err [OF gated_write [OF g], of m1] m1 that w
        by (cases q) auto
      then show ?thesis
        using cont w by (cases q) (auto simp: thenp_def keeps_def)
    qed
    show ?thesis
      using Inr read snapshot m1(1) step ok
      by (cases "check_image profile c snapshot")
        (auto simp: require_complete_desired_image_def thenp_assoc thenp_def [of load_doc] load_doc_eq
          thenp_def [of "in_world _"] thenp_def [of "liftp _"] liftp_def errp_def)
  qed
qed

section \<open>Properties\<close>

text \<open>C1: No DPI report without the mouse's own watermark reaches a mouse with a physical identity:
  any property of the devices that the reads of a session keep, and that its DPI writes keep when the
  state carries this watermark, is kept by a complete DPI write, by a partial one and by a composite
  profile update, whatever baseline, update and policy the caller chooses and however they end.\<close>

theorem dpi_writes_carry_own_watermark:
  assumes "careful_backend I (stamped_only I (to_watermark_bytes (be_crc be) own)) be"
    and "token_of (doc m) device = Some own" and "I (mn_world m)"
  shows "I (mn_world (snd (update_dpi be device profile desired policy m)))
    \<and> I (mn_world (snd (update_dpi_delta be device profile delta policy m)))
    \<and> I (mn_world (snd (apply_profile_update_inner be device profile u policy provided m)))"
proof (intro conjI)
  let ?S = "stamped_only I (to_watermark_bytes (be_crc be) own)"
  have own: "id_physical_id (ds_identity dev) = Some own" if "bt_get (sf_devices (doc m)) device = Some dev" for dev
    using assms(2) that by (simp add: token_of_def)
  have run: "world_ok I (snd (open_locked be device operation body m))"
    if "\<And>identity session. id_physical_id identity = Some own \<Longrightarrow> ?S session \<Longrightarrow>
      keeps (world_ok I) (body identity session)" for operation and body :: "_ \<Rightarrow> _ \<Rightarrow> ('a, 'b) mop"
    using that own by (intro open_locked_world [OF assms(1,3)]) (auto simp: keeps_def)
  show "I (mn_world (snd (update_dpi be device profile desired policy m)))"
  proof (cases "dpi_profile desired = profile")
    case True
    have "keeps (world_ok I) (thenp load_doc (\<lambda>st. if has_baseline ps_dpi (stored_profile st device profile)
        then okp () else errp (MissingBaseline ''DPI'' (Some profile))))"
      by (intro keeps_thenp keeps_if world_load world_pure)
    then show ?thesis
      using True stamped_write_dpi [of I be own]
      by (auto simp: update_dpi_def intro!: run keeps_thenp world_pure)
  qed (use assms(3) in \<open>simp add: update_dpi_def errp_def\<close>)
  show "I (mn_world (snd (update_dpi_delta be device profile delta policy m)))"
  proof (cases "dpi_delta_is_empty delta")
    case False
    then show ?thesis
      using stamped_write_dpi [of I be own] stamped_baselines(1)
      by (auto simp: update_dpi_delta_def intro!: run keeps_thenp world_pure)
  qed (use assms(3) in \<open>simp add: update_dpi_delta_def errp_def\<close>)
  show "I (mn_world (snd (apply_profile_update_inner be device profile u policy provided m)))"
  proof (cases "check_update u")
    case (Inr x)
    then show ?thesis
      using stamped_sections [of I be own] stamped_rate
      by (auto simp: apply_profile_update_inner_def intro!: run split: option.split)
  qed (use assms(3) in \<open>simp add: apply_profile_update_inner_def errp_def\<close>)
qed

text \<open>C3: The raw polling-rate report is sent only under its preflight: any property of the devices that
  this report may break except behind a gate, which only a fresh read of the target profile opens,
  and only when its DPI, preferences and buttons equal the desired values stored for the profile, is
  kept by the safe polling-rate update and by a composite update that sets a rate.\<close>

theorem polling_rate_write_gated:
  assumes "careful_backend I (gated I G (desired_matches (doc m) device profile) profile) be"
    and "I (mn_world m)"
  shows "I (mn_world (snd (update_polling_rate be device profile rate policy m)))
    \<and> I (mn_world (snd (apply_profile_update_inner be device profile (u\<lparr>pu_polling_rate := Some rate\<rparr>) policy
        provided m)))"
proof (intro conjI)
  let ?S = "gated I G (desired_matches (doc m) device profile) profile"
  have body: "world_ok I (snd (thenp (require_complete_desired_image device profile) (\<lambda>c.
      thenp (in_world (ss_read_profile s profile)) (\<lambda>snapshot.
      if \<not> extra snapshot then errp fault
      else thenp (liftp (check_image profile c snapshot)) (\<lambda>_.
        thenp (write_polling_rate be device profile rate (policy_verification policy) s) cont))) m1))"
    if "?S s" and "doc m1 = doc m" and "world_ok I m1" and "\<And>x. keeps (world_ok I) (cont x)"
    for s m1 extra fault and cont :: "_ \<Rightarrow> ('a, 'b) mop"
    using that by (intro gated_body [of I G "desired_matches (doc m) device profile"])
      (auto intro: desired_matches_check)
  show "I (mn_world (snd (update_polling_rate be device profile rate policy m)))"
    unfolding update_polling_rate_def
  proof (rule open_locked_world [OF assms])
    fix session m1
    assume s: "?S session" "doc m1 = doc m" "world_ok I m1"
    have ret: "thenp p okp = p" for p :: "('a, polling_rate write_outcome) mop"
      by (auto simp: fun_eq_iff thenp_def okp_def split: sum.split prod.split)
    show "world_ok I (snd ((if ss_transport session = Ble
        then errp (ExplicitAuthorizationRequired ''update_polling_rate'' Ble)
        else thenp (require_complete_desired_image device profile) (\<lambda>c.
          thenp (in_world (ss_read_profile session profile)) (\<lambda>snapshot.
          thenp (liftp (check_image profile c snapshot)) (\<lambda>_.
          write_polling_rate be device profile rate (policy_verification policy) session)))) m1))"
      using body [OF s, of okp "\<lambda>_. True", OF world_pure(1)] s(3)
      by (simp add: ret errp_def)
  qed
  have "world_ok I (snd (open_locked be device ''apply_profile_update''
      (\<lambda>identity. apply_rate_update be device profile rate policy) m))"
  proof (rule open_locked_world [OF assms])
    fix session m1
    assume s: "?S session" "doc m1 = doc m" "world_ok I m1"
    show "world_ok I (snd (apply_rate_update be device profile rate policy session m1))"
      using body [OF s, of "\<lambda>finished. okp (no_outcome\<lparr>po_polling_rate := Some finished\<rparr>)"
          "\<lambda>snapshot. meta_current (snap_persistent_metadata snapshot) = profile", OF world_pure(1)] s(3)
      by (simp add: apply_rate_update_def errp_def)
  qed
  then show "I (mn_world (snd (apply_profile_update_inner be device profile (u\<lparr>pu_polling_rate := Some rate\<rparr>)
      policy provided m)))"
    using assms(2)
    by (cases "check_update (u\<lparr>pu_polling_rate := Some rate\<rparr>)")
      (simp_all add: apply_profile_update_inner_def errp_def)
qed

section \<open>Failed updates\<close>

lemma mutate_inner_Err:
  assumes "mutate_inner f m = (Inl e, m')"
  shows "doc m' = doc m \<or> f (doc m) = (Inl e, doc m')"
proof -
  obtain r m1 where run: "mutate f m = (r, m1)" by force
  then obtain r' b where "memory_mutate f (mn_store m) = (r', b)" "m1 = m\<lparr>mn_store := b\<rparr>"
      "r = map_err StateFailure r'"
    by (rule mutate_run)
  then show ?thesis
    using assms run
    by (cases r') (auto simp: mutate_inner_def thenp_def liftp_def memory_mutate_simps
        split: prod.splits sum.splits if_splits)
qed

text \<open>Computations that leave the document, and computations that leave it when they fail for another
  reason than a mismatch.\<close>

definition reads_only :: "('w, 'a) mop \<Rightarrow> bool" where
  "reads_only p \<longleftrightarrow> (\<forall>m. doc (snd (p m)) = doc m)"

definition is_mismatch :: "manager_error \<Rightarrow> bool" where
  "is_mismatch e = (case e of VerificationMismatch _ _ \<Rightarrow> True | _ \<Rightarrow> False)"

definition clean_failure :: "('w, 'a) mop \<Rightarrow> bool" where
  "clean_failure p \<longleftrightarrow> (\<forall>m e m'. p m = (Inl e, m') \<longrightarrow> is_mismatch e \<or> doc m' = doc m)"

named_theorems doc_rules "what leaves the document"

lemma reads_basic [doc_rules]:
  "reads_only (okp x)" "reads_only (errp e)" "reads_only (liftp r)" "reads_only load_doc" "reads_only (now_op be)"
  by (simp_all add: reads_only_def okp_def errp_def liftp_def load_doc_eq now_op_def getp_def)

lemma reads_in_world [doc_rules]: "reads_only (in_world p)"
  by (auto simp: reads_only_def in_world_def zoomp_def split: prod.split)

lemma reads_onlyD: "reads_only p \<Longrightarrow> p m = (r, m') \<Longrightarrow> doc m' = doc m"
  unfolding reads_only_def by (metis snd_conv)

lemma reads_thenp [doc_rules]:
  assumes "reads_only p" and "\<And>x. reads_only (f x)"
  shows "reads_only (thenp p f)"
  unfolding reads_only_def
proof
  fix m
  obtain r m1 where run: "p m = (r, m1)" by force
  then show "doc (snd (thenp p f m)) = doc m"
    using reads_onlyD [OF assms(1) run] assms(2)
    by (cases r) (simp_all add: thenp_def reads_only_def)
qed

lemma reads_if [doc_rules]: "reads_only p \<Longrightarrow> reads_only q \<Longrightarrow> reads_only (if b then p else q)"
  by simp

lemma reads_optional [doc_rules]: "(\<And>d. reads_only (f d)) \<Longrightarrow> reads_only (optional_step d f)"
  by (auto simp: optional_step_def intro!: reads_thenp reads_basic split: option.split)

lemma reads_clean: "reads_only p \<Longrightarrow> clean_failure p"
  unfolding clean_failure_def using reads_onlyD by blast

lemma clean_thenp:
  assumes "reads_only p" and "\<And>x. clean_failure (f x)"
  shows "clean_failure (thenp p f)"
  unfolding clean_failure_def
proof (intro allI impI)
  fix m e m'
  assume fail: "thenp p f m = (Inl e, m')"
  obtain r m1 where run: "p m = (r, m1)" by force
  show "is_mismatch e \<or> doc m' = doc m"
  proof (cases r)
    case (Inl x)
    then show ?thesis using reads_onlyD [OF assms(1) run] run fail by (simp add: thenp_def)
  next
    case (Inr x)
    then have "f x m1 = (Inl e, m')" using run fail by (simp add: thenp_def)
    then show ?thesis
      using assms(2) [of x] reads_onlyD [OF assms(1) run] unfolding clean_failure_def by metis
  qed
qed

lemma reads_opened: "reads_only (opened be device)"
  by (auto simp: opened_def check_attachment_def authenticate_attachment_def cache_insert_def reads_only_def [of "getp _"]
      reads_only_def [of "modifyp _"] getp_def modifyp_def intro!: doc_rules split: option.split)

text \<open>Opening either fails whatever the operation is, or runs it once on the session it opened.\<close>

lemma open_locked_cases:
  "(\<exists>fault m1. doc m1 = doc m \<and> (\<forall>body. open_locked be device operation body m = (Inl fault, m1)))
   \<or> (\<exists>dev e session m1. bt_get (sf_devices (doc m)) device = Some dev
        \<and> selected_endpoint (ds_identity dev) = Some e \<and> doc m1 = doc m
        \<and> journal_blocks (doc m) device = False \<and> authenticated (mn_cache m1) dev e
        \<and> (\<forall>body. open_locked be device operation body m =
             (case body (ds_identity dev) session m1 of
                (r, m2) \<Rightarrow> (r, m2\<lparr>mn_world := be_unlock be device (mn_world m2)\<rparr>))))"
proof -
  obtain q m0 where lock: "in_world (be_lock be device operation) m = (q, m0)" by force
  show ?thesis
  proof (cases q)
    case (Inl e)
    then show ?thesis
      using doc_in_world [OF lock] by (auto simp: open_locked_eq with_guard_def thenp_def lock)
  next
    case (Inr u)
    obtain r m1 where run: "opened be device m0 = (r, m1)" by force
    have eq: "open_locked be device operation body m =
        (case thenp (opened be device) (\<lambda>(dev, _, session). body (ds_identity dev) session) m0 of
           (r, m') \<Rightarrow> (r, m'\<lparr>mn_world := be_unlock be device (mn_world m')\<rparr>))" for body
      by (simp add: open_locked_eq with_guard_def thenp_def [of "in_world _"] lock Inr)
    show ?thesis
    proof (cases r)
      case (Inl e)
      then show ?thesis
        using doc_in_world [OF lock] reads_onlyD [OF reads_opened run]
        by (intro disjI1) (auto simp: eq thenp_def run)
    next
      case out: (Inr x)
      obtain dev e session where x: "x = (dev, e, session)" by (cases x)
      show ?thesis
        using opened_Ok [OF run [unfolded out x]] doc_in_world [OF lock]
        by (intro disjI2) (auto simp: eq thenp_def run out x)
    qed
  qed
qed

lemma open_locked_Ok:
  assumes "open_locked be device operation body m = (Inr x, m')"
  obtains dev session m1 m2 where "bt_get (sf_devices (doc m)) device = Some dev" and "doc m1 = doc m"
    and "body (ds_identity dev) session m1 = (Inr x, m2)" and "doc m' = doc m2"
proof -
  have "(\<exists>fault m1. open_locked be device operation body m = (Inl fault, m1))
      \<or> (\<exists>dev s m1. bt_get (sf_devices (doc m)) device = Some dev \<and> doc m1 = doc m
          \<and> open_locked be device operation body m = (case body (ds_identity dev) s m1 of
               (r, m2) \<Rightarrow> (r, m2\<lparr>mn_world := be_unlock be device (mn_world m2)\<rparr>)))"
    using open_locked_cases [of m be device operation] by blast
  then show ?thesis
    using assms that by (fastforce split: prod.splits)
qed

lemma clean_open_locked:
  assumes "\<And>identity session. clean_failure (body identity session)"
  shows "clean_failure (open_locked be device operation body)"
  unfolding clean_failure_def
proof (intro allI impI)
  fix m e m'
  assume fail: "open_locked be device operation body m = (Inl e, m')"
  have "(\<exists>fault m1. doc m1 = doc m \<and> open_locked be device operation body m = (Inl fault, m1))
      \<or> (\<exists>i s m1. doc m1 = doc m \<and> open_locked be device operation body m =
          (case body i s m1 of (r, m2) \<Rightarrow> (r, m2\<lparr>mn_world := be_unlock be device (mn_world m2)\<rparr>)))"
    using open_locked_cases [of m be device operation] by blast
  then show "is_mismatch e \<or> doc m' = doc m"
  proof (elim disjE exE conjE)
    fix i s m1
    assume "doc m1 = doc m" and run: "open_locked be device operation body m =
        (case body i s m1 of (r, m2) \<Rightarrow> (r, m2\<lparr>mn_world := be_unlock be device (mn_world m2)\<rparr>))"
    then obtain m2 where "body i s m1 = (Inl e, m2)" and "doc m' = doc m2"
      using fail by (auto split: prod.splits)
    with assms [of i s] \<open>doc m1 = doc m\<close> show ?thesis unfolding clean_failure_def by metis
  qed (use fail in simp)
qed

text \<open>After a committed change only a mismatch may be reported.\<close>

lemma clean_commit:
  assumes "\<And>st e st'. f st = (Inl e, st') \<Longrightarrow> st' = st" and "\<And>x m e m'. k x m = (Inl e, m') \<Longrightarrow> is_mismatch e"
  shows "clean_failure (thenp (mutate_inner f) k)"
  using assms mutate_inner_Err [of f]
  by (fastforce simp: clean_failure_def thenp_def split: prod.splits sum.splits)

lemma with_profile_Err: "with_profile device profile f st = (Inl e, st') \<Longrightarrow> st' = st"
  by (auto simp: with_profile_def split: option.splits prod.splits)

lemma with_profile_Ok:
  "with_profile device profile f st = (Inr x, st') \<Longrightarrow> bt_contains (sf_devices st) device \<and> bt_contains (sf_devices st') device"
  by (auto simp: with_profile_def bt_contains_def bt_get_insert split: option.splits prod.splits)

lemma with_profile_total:
  "bt_contains (sf_devices st) device \<Longrightarrow> \<exists>x st'. with_profile device profile f st = (Inr x, st')"
  by (auto simp: with_profile_def bt_contains_def split: option.splits prod.splits)

lemma finish_write_mismatch: "finish_write out resource profile = Inl e \<Longrightarrow> is_mismatch e"
  by (auto simp: finish_write_def is_mismatch_def split: if_splits)

lemma clean_record: "clean_failure (record_write be device profile get put resource desired w)"
  unfolding record_write_def
  by (rule clean_thenp [OF reads_basic(5)], rule clean_commit)
    (auto simp: persist_write_def dest: with_profile_Err finish_write_mismatch)

lemma persist_optional_cases:
  assumes "persist_optional pair (\<lambda>desired w. persist_write device (pr desired) get put desired w time) st = (r, st')"
  shows "(case r of Inl e \<Rightarrow> st' = st \<and> \<not> bt_contains (sf_devices st) device
    | Inr _ \<Rightarrow> bt_contains (sf_devices st') device = bt_contains (sf_devices st) device)"
proof (cases pair)
  case None
  with assms show ?thesis by (auto simp: persist_optional_def optional_step_def okp_def)
next
  case (Some dw)
  obtain desired w where dw: "dw = (desired, w)" by force
  let ?f = "\<lambda>p. case recorded_write desired w time (get p) of (outcome, r) \<Rightarrow> (outcome, put r p)"
  obtain q s1 where q: "with_profile device (pr desired) ?f st = (q, s1)" by force
  have run: "r = (case q of Inl e \<Rightarrow> Inl e | Inr x \<Rightarrow> Inr (Some x))" "st' = s1"
    using assms q
    by (auto simp: persist_optional_def optional_step_def Some dw persist_write_def thenp_def okp_def
        split: sum.splits)
  show ?thesis
  proof (cases q)
    case (Inl e)
    then show ?thesis
      using run q with_profile_Err [OF q [unfolded Inl]] with_profile_total [of st device "pr desired" ?f] by auto
  next
    case (Inr x)
    then show ?thesis using run with_profile_Ok [OF q [unfolded Inr]] by simp
  qed
qed

lemma persist_update_Err:
  assumes "persist_update device profile dpi preferences buttons time st = (Inl e, st')"
  shows "st' = st"
proof -
  let ?d = "persist_optional dpi (\<lambda>desired w. persist_write device profile ps_dpi put_dpi desired w time)"
  let ?p = "persist_optional preferences (\<lambda>desired w. persist_write device profile ps_preferences put_preferences desired w time)"
  let ?b = "persist_optional buttons (\<lambda>desired w. persist_write device (buttons_profile desired) ps_buttons put_buttons desired w time)"
  obtain r1 s1 where 1: "?d st = (r1, s1)" by force
  obtain r2 s2 where 2: "?p s1 = (r2, s2)" by force
  obtain r3 s3 where 3: "?b s2 = (r3, s3)" by force
  note c1 = persist_optional_cases [where pr = "\<lambda>_. profile", OF 1]
  note c2 = persist_optional_cases [where pr = "\<lambda>_. profile", OF 2]
  note c3 = persist_optional_cases [where pr = buttons_profile, OF 3]
  have none: "dpi = None" if "\<not> bt_contains (sf_devices st) device" and "r1 = Inr x" for x
  proof (rule ccontr)
    assume "dpi \<noteq> None"
    then obtain desired w where "dpi = Some (desired, w)" by auto
    with 1 that show False
      by (auto simp: persist_optional_def optional_step_def thenp_def okp_def persist_write_def
          split: sum.splits prod.splits dest: with_profile_Ok)
  qed
  have none2: "preferences = None" if "\<not> bt_contains (sf_devices s1) device" and "r2 = Inr x" for x
  proof (rule ccontr)
    assume "preferences \<noteq> None"
    then obtain desired w where "preferences = Some (desired, w)" by auto
    with 2 that show False
      by (auto simp: persist_optional_def optional_step_def thenp_def okp_def persist_write_def
          split: sum.splits prod.splits dest: with_profile_Ok)
  qed
  show ?thesis
  proof (cases r1)
    case (Inl x)
    with assms 1 c1 show ?thesis by (simp add: persist_update_def thenp_def)
  next
    case r1: (Inr x1)
    show ?thesis
    proof (cases r2)
      case (Inl x)
      then have "st' = s1" and "\<not> bt_contains (sf_devices st) device"
        using assms 1 2 c1 c2 r1 by (simp_all add: persist_update_def thenp_def)
      then show ?thesis using none r1 1 by (simp add: persist_optional_def optional_step_def)
    next
      case r2: (Inr x2)
      then have "st' = s2" and no: "\<not> bt_contains (sf_devices st) device" "\<not> bt_contains (sf_devices s1) device"
        using assms 1 2 3 c1 c2 c3 r1 by (cases r3; simp add: persist_update_def thenp_def okp_def)+
      then show ?thesis
        using none none2 r1 r2 1 2 by (simp add: persist_optional_def optional_step_def)
    qed
  qed
qed

lemma reads_baselines [doc_rules]:
  "reads_only (dpi_baseline device profile policy s v1)"
  "reads_only (preferences_baseline device profile policy s v2)"
  "reads_only (buttons_baseline device profile policy s v3)"
  by (auto simp: dpi_baseline_def preferences_baseline_def buttons_baseline_def load_stored_dpi_baseline_def
      load_stored_preferences_baseline_def load_stored_buttons_baseline_def intro!: doc_rules
      split: baseline_source.split option.split)

lemma reads_sends [doc_rules]:
  "reads_only (send_dpi_update be device profile identity policy s provided d1)"
  "reads_only (send_preferences_update device profile policy s provided d2)"
  "reads_only (send_buttons_update device profile policy s provided d3)"
  by (auto simp: send_dpi_update_def send_preferences_update_def send_buttons_update_def Let_def
      intro!: doc_rules)

lemma finish_optional_mismatch: "finish_optional out resource profile = Inl e \<Longrightarrow> is_mismatch e"
  by (auto simp: finish_optional_def tryq_eq_Inl dest: finish_write_mismatch split: option.splits)

lemma clean_sections: "clean_failure (apply_sections be device profile u policy provided identity s)"
  unfolding apply_sections_def
  by (intro clean_thenp doc_rules clean_commit)
    (auto simp: thenp_def dest: persist_update_Err finish_optional_mismatch split: prod.splits sum.splits)

lemma clean_then_ok: "clean_failure p \<Longrightarrow> clean_failure (thenp p (\<lambda>x. okp (g x)))"
  by (auto simp: clean_failure_def thenp_def split: prod.splits sum.splits)

lemma clean_rate: "clean_failure (apply_rate_update be device profile rate policy s)"
proof -
  have w: "clean_failure (write_polling_rate be device p rate v s)" for p v
    unfolding write_polling_rate_def by (intro clean_thenp doc_rules clean_record)
  have r: "reads_only (require_complete_desired_image device profile)"
    unfolding require_complete_desired_image_def by (intro doc_rules)
  show ?thesis
    unfolding apply_rate_update_def
    by (auto intro!: clean_thenp [OF r] clean_thenp [OF reads_in_world] clean_thenp [OF reads_basic(3)]
        clean_then_ok w reads_clean [OF reads_basic(2)])
qed

section \<open>Properties: opening and failure\<close>



section \<open>Recorded evidence\<close>

text \<open>The four resources of a profile are fields: what is put is what is read.\<close>

locale profile_resource =
  fixes get :: "profile_state \<Rightarrow> 'a resource_state"
    and put :: "'a resource_state \<Rightarrow> profile_state \<Rightarrow> profile_state"
  assumes get_put: "get (put r p) = r"
begin

text \<open>What a recorded write leaves in the document.\<close>

definition evidence :: "state_file \<Rightarrow> device_id \<Rightarrow> profile_id \<Rightarrow> 'a write_outcome \<Rightarrow> bool" where
  "evidence st device profile out \<longleftrightarrow>
     (\<exists>p d. stored_profile st device profile = Some p \<and> res_desired (get p) = Some d
        \<and> des_value d = wo_desired out \<and> des_source d = UserWrite \<and> des_verification d = wo_verification out
        \<and> ver_persistence (wo_verification out) = Unknown
        \<and> (case wo_observed out of
             Some v \<Rightarrow> v = wo_desired out \<and> ver_application (wo_verification out) = ReadbackVerified
           | None \<Rightarrow> ver_application (wo_verification out) = Acknowledged))"

lemma record_write_Ok:
  assumes "record_write be device profile get put resource desired w m = (Inr out, m')"
  shows "evidence (doc m') device profile out \<and> wo_desired out = desired"
proof -
  obtain time m1 where "mutate_inner (persist_write device profile get put desired w time) m = (Inr out, m')"
    and fin: "ver_application (wo_verification out) \<noteq> Mismatch"
    using assms
    by (auto simp: record_write_def thenp_eq_Inr now_op_def getp_def finish_write_def split: if_splits)
  from mutate_inner_Ok(1) [OF this(1)] obtain dev where
    dev: "bt_get (sf_devices (doc m)) device = Some dev"
    and run: "persist_write device profile get put desired w time (doc m) = (Inr out, doc m')"
    by (auto simp: persist_write_def with_profile_def split: option.splits)
  let ?p = "case bt_get (ds_profiles dev) profile of None \<Rightarrow> profile_state_empty | Some p \<Rightarrow> p"
  obtain r where rec: "recorded_write desired w time (get ?p) = (out, r)"
    and m': "doc m' = (doc m)\<lparr>sf_devices := bt_insert device
          (dev\<lparr>ds_profiles := bt_insert profile (put r ?p) (ds_profiles dev)\<rparr>) (sf_devices (doc m))\<rparr>"
    using run dev by (auto simp: persist_write_def with_profile_def split: prod.splits)
  have "stored_profile (doc m') device profile = Some (put r ?p)"
    by (simp add: m' stored_profile_def bt_get_insert)
  then show ?thesis
    using rec fin
    by (auto simp: evidence_def get_put recorded_write_def record_readback_write_def record_ack_write_def Let_def
        split: session_write.splits if_splits)
qed

end

interpretation dpi_resource: profile_resource ps_dpi put_dpi
  by unfold_locales simp

interpretation preferences_resource: profile_resource ps_preferences put_preferences
  by unfold_locales simp

interpretation buttons_resource: profile_resource ps_buttons put_buttons
  by unfold_locales simp

interpretation polling_resource: profile_resource ps_polling_rate put_polling_rate
  by unfold_locales simp


end
