(* ===== verification/X3_Updates_Demo.thy ===== *)
theory X3_Updates_Demo
  imports X3_Updates_Facts
begin

text \<open>
  The guarantees of the updates at concrete runs: a wired mouse that logs the DPI states it is sent,
  and one that logs polling-rate writes and whether a matching profile was read before.
\<close>

section \<open>A mouse that logs its DPI writes\<close>

definition log_session :: "physical_id \<Rightarrow> bool \<Rightarrow> dpi_state list session" where
  "log_session token broken = \<lparr>ss_transport = Wired,
     ss_read_profile_metadata = okp \<lparr>meta_current = ProfileId 1, meta_maximum = ProfileId 1\<rparr>,
     ss_read_profile = (\<lambda>_. errp (UnsupportedOperation ''read_profile'' Wired)),
     ss_read_dpi = (\<lambda>_. okp (demo_dpi token)),
     ss_read_preferences = (\<lambda>p. okp (captured_evidence_preferences p)),
     ss_read_buttons = (\<lambda>p. okp (buttons_default_for_profile p)),
     ss_read_live_polling_rate = (\<lambda>_. okp Hz1000),
     ss_write_dpi = (\<lambda>st _ w. (Inr WriteAcknowledged, w @ [st])),
     ss_write_preferences = (\<lambda>_ _. if broken then errp (DeviceDisconnected (logical_key 1))
        else okp WriteAcknowledged),
     ss_write_buttons = (\<lambda>_ _. okp WriteAcknowledged),
     ss_write_polling_rate_unchecked = (\<lambda>_ _ _. okp WriteAcknowledged),
     ss_write_profile_metadata = (\<lambda>_. okp WriteAcknowledged),
     ss_read_battery = (\<lambda>_. errp (UnsupportedOperation ''read_battery'' Wired))\<rparr>"

definition log_backend :: "physical_id \<Rightarrow> bool \<Rightarrow> dpi_state list backend" where
  "log_backend token broken = \<lparr>be_list = (\<lambda>_. okp [\<lparr>disc_endpoint = demo_endpoint, disc_connected = True\<rparr>]),
     be_open = (\<lambda>_. okp (log_session token broken)), be_now = (\<lambda>_. 100), be_lock = (\<lambda>_ _. okp ()),
     be_unlock = (\<lambda>_ w. w), be_crc = (\<lambda>_. 7)\<rparr>"

definition attached_mouse :: state_file where
  "attached_mouse = configured_mouse\<lparr>sf_devices := bt_adjust (logical_key 1)
     (\<lambda>dev. dev\<lparr>ds_identity := upsert_endpoint (ds_identity dev) demo_endpoint\<rparr>) (sf_devices configured_mouse)\<rparr>"

definition log_manager :: "dpi_state list manager" where
  "log_manager = \<lparr>mn_store = \<lparr>mb_state = attached_mouse\<rparr>, mn_cache = (\<lambda>_. None), mn_world = []\<rparr>"

definition demo_delta :: dpi_delta where
  "demo_delta = \<lparr>dd_stages = Some [DpiValue 1600], dd_active_stage = None, dd_sensor = None\<rparr>"

definition all_stamped :: "physical_id \<Rightarrow> dpi_state list \<Rightarrow> bool" where
  "all_stamped token w \<longleftrightarrow> list_all (\<lambda>st. dpi_preserved_tail st = to_watermark_bytes (\<lambda>_. 7) token) w"

lemma log_session_stamped:
  "stamped_only (all_stamped token) (to_watermark_bytes (\<lambda>_. 7) token) (log_session token broken)"
  by (auto simp: stamped_only_def log_session_def keeps_def all_stamped_def okp_def errp_def)

lemma log_careful:
  "careful_backend (all_stamped token) (stamped_only (all_stamped token) (to_watermark_bytes (\<lambda>_. 7) token))
     (log_backend token broken)"
  using log_session_stamped [of token broken]
  by (simp add: careful_backend_def log_backend_def triple_def okp_def keeps_def [of _ "okp _"])
    (simp add: stamped_only_def)

lemma dpi_writes_carry_own_watermark_witness:
  "\<exists>st. mn_world (snd (update_dpi_delta (log_backend owned_token False) (logical_key 1) (ProfileId 1)
        demo_delta update_policy_default log_manager)) = [st]
     \<and> dpi_preserved_tail st = to_watermark_bytes (\<lambda>_. 7) owned_token"
proof -
  let ?be = "log_backend owned_token False"
  let ?run = "update_dpi_delta ?be (logical_key 1) (ProfileId 1) demo_delta update_policy_default log_manager"
  have "length (mn_world (snd ?run)) = 1" by code_simp
  moreover have "token_of (doc log_manager) (logical_key 1) = Some owned_token" by code_simp
  moreover have "all_stamped owned_token (mn_world log_manager)" by (simp add: log_manager_def all_stamped_def)
  moreover have "be_crc ?be = (\<lambda>_. 7)" by (simp add: log_backend_def)
  ultimately show ?thesis
    using dpi_writes_carry_own_watermark [where I = "all_stamped owned_token" and be = ?be and own = owned_token
        and m = log_manager and device = "logical_key 1" and profile = "ProfileId 1"
        and policy = update_policy_default and delta = demo_delta] log_careful
    by (auto simp: all_stamped_def length_Suc_conv)
qed

definition two_sections :: profile_update where
  "two_sections = \<lparr>pu_dpi = Some demo_delta,
     pu_preferences = Some \<lparr>pf_light_mode = Some 1, pf_configuration = None, pf_deep_sleep = None,
        pf_host_color = None, pf_sleep_timer = None, pf_debounce = None\<rparr>,
     pu_buttons = [], pu_polling_rate = None\<rparr>"



section \<open>A mouse that logs its polling-rate writes\<close>

text \<open>The world: whether a matching profile was read, and the rates written.\<close>

type_synonym rate_world = "bool \<times> polling_rate list"

definition rate_snapshot :: profile_snapshot where
  "rate_snapshot = \<lparr>snap_persistent_metadata = \<lparr>meta_current = ProfileId 1, meta_maximum = ProfileId 1\<rparr>,
     snap_target_profile = ProfileId 1, snap_dpi = demo_dpi owned_token,
     snap_preferences = captured_evidence_preferences (ProfileId 1),
     snap_buttons = buttons_default_for_profile (ProfileId 1)\<rparr>"

definition complete_mouse :: state_file where
  "complete_mouse = attached_mouse\<lparr>sf_devices := bt_adjust (logical_key 1)
     (\<lambda>dev. dev\<lparr>ds_profile_metadata := resource_empty\<lparr>res_observed :=
          Some \<lparr>obs_value = snap_persistent_metadata rate_snapshot, obs_source = UsbReadback, obs_at = Timestamp 5\<rparr>\<rparr>,
        ds_profiles := [(ProfileId 1, profile_state_empty
          \<lparr>ps_dpi := set_imported resource_empty (snap_dpi rate_snapshot) (Timestamp 5),
           ps_preferences := set_imported resource_empty (snap_preferences rate_snapshot) (Timestamp 5),
           ps_buttons := set_imported resource_empty (snap_buttons rate_snapshot) (Timestamp 5)\<rparr>)]\<rparr>)
     (sf_devices attached_mouse)\<rparr>"

definition rate_session :: "rate_world session" where
  "rate_session = \<lparr>ss_transport = Wired,
     ss_read_profile_metadata = okp (snap_persistent_metadata rate_snapshot),
     ss_read_profile = (\<lambda>_ w. (Inr rate_snapshot, (True, snd w))),
     ss_read_dpi = (\<lambda>_. okp (snap_dpi rate_snapshot)),
     ss_read_preferences = (\<lambda>_. okp (snap_preferences rate_snapshot)),
     ss_read_buttons = (\<lambda>_. okp (snap_buttons rate_snapshot)),
     ss_read_live_polling_rate = (\<lambda>_. okp Hz1000),
     ss_write_dpi = (\<lambda>_ _. okp WriteAcknowledged),
     ss_write_preferences = (\<lambda>_ _. okp WriteAcknowledged),
     ss_write_buttons = (\<lambda>_ _. okp WriteAcknowledged),
     ss_write_polling_rate_unchecked = (\<lambda>_ rate _ w. (Inr WriteAcknowledged, (fst w, snd w @ [rate]))),
     ss_write_profile_metadata = (\<lambda>_. okp WriteAcknowledged),
     ss_read_battery = (\<lambda>_. errp (UnsupportedOperation ''read_battery'' Wired))\<rparr>"

definition rate_backend :: "rate_world backend" where
  "rate_backend = \<lparr>be_list = (\<lambda>_. okp []), be_open = (\<lambda>_. okp rate_session), be_now = (\<lambda>_. 100),
     be_lock = (\<lambda>_ _. okp ()), be_unlock = (\<lambda>_ w. w), be_crc = (\<lambda>_. 7)\<rparr>"

definition rate_manager :: "rate_world manager" where
  "rate_manager = \<lparr>mn_store = \<lparr>mb_state = complete_mouse\<rparr>, mn_cache = (\<lambda>_. None), mn_world = (False, [])\<rparr>"

definition written_after_read :: "rate_world \<Rightarrow> bool" where
  "written_after_read w \<longleftrightarrow> fst w \<or> snd w = []"

lemma rate_session_gated: "gated written_after_read fst M (ProfileId 1) rate_session"
  by (auto simp: rate_session_def gated_def keeps_def triple_def written_after_read_def okp_def)

lemma rate_careful:
  "careful_backend written_after_read (gated written_after_read fst M (ProfileId 1)) rate_backend"
  using rate_session_gated [of M]
  by (simp add: careful_backend_def rate_backend_def triple_def okp_def keeps_def [of _ "okp _"])
    (simp add: gated_def)

lemma polling_rate_write_gated_witness:
  "snd (mn_world (snd (update_polling_rate rate_backend (logical_key 1) (ProfileId 1) Hz500
      update_policy_default rate_manager))) = [Hz500]
   \<and> written_after_read (mn_world (snd (update_polling_rate rate_backend (logical_key 1) (ProfileId 1) Hz500
      update_policy_default rate_manager)))"
proof -
  have "snd (mn_world (snd (update_polling_rate rate_backend (logical_key 1) (ProfileId 1) Hz500
      update_policy_default rate_manager))) = [Hz500]"
    by code_simp
  moreover have "written_after_read (mn_world rate_manager)"
    by (simp add: rate_manager_def written_after_read_def)
  ultimately show ?thesis
    using polling_rate_write_gated [OF rate_careful, of rate_manager "logical_key 1"] by blast
qed

end
