(* ===== verification/X3_Ble_Facts.thy ===== *)
theory X3_Ble_Facts
  imports X3_Ble X3_Worker_Trace
begin

text \<open>
  What a Bluetooth write promises. A link is instrumented with the packets written and with what the
  notification stream has yielded since the last of them; an acknowledged write is shown to have
  emitted exactly its packet and to have received the matching acknowledgement after that, a closed
  or overflowed session to refuse every write, and a write to return when time passes.
\<close>

section \<open>The instrumented link\<close>

type_synonym 's recorded = "'s \<times> packet list \<times> stream_event list"

definition recorded :: "'s ble_link \<Rightarrow> 's recorded ble_link" where
  "recorded link = \<lparr>
     bl_write = (\<lambda>p (s, ps, _). case bl_write link p s of (r, evs, s') \<Rightarrow> (r, evs, (s', ps @ [p], evs))),
     bl_wait = (\<lambda>d (s, ps, l). case bl_wait link d s of (evs, s') \<Rightarrow> (evs, (s', ps, l @ evs))),
     bl_sleep = (\<lambda>d (s, ps, l). case bl_sleep link d s of (evs, s') \<Rightarrow> (evs, (s', ps, l @ evs))),
     bl_stop = (\<lambda>(s, ps, l). case bl_stop link s of (r, s') \<Rightarrow> (r, (s', ps, l))),
     bl_disconnect = (\<lambda>(s, ps, l). case bl_disconnect link s of (r, s') \<Rightarrow> (r, (s', ps, l))),
     bl_now = (\<lambda>(s, _). bl_now link s)\<rparr>"

definition packets_written :: "'s recorded ble_session \<Rightarrow> packet list" where
  "packets_written se = fst (snd (snd (bs_link se)))"

definition yielded :: "'s recorded ble_session \<Rightarrow> stream_event list" where
  "yielded se = snd (snd (snd (bs_link se)))"

section \<open>Where queued values come from\<close>

definition explained :: "stream_event list \<Rightarrow> inbox \<Rightarrow> bool" where
  "explained l ib \<longleftrightarrow> (\<forall>v. Inr v \<in> set (ib_queue ib) \<longrightarrow> StreamValue v \<in> set l)"

lemma explained_step: "explained l ib \<Longrightarrow> explained (l @ [ev]) (task_step ev ib)"
  by (auto simp: explained_def task_step_def notification_send_def split: stream_event.splits)

lemma explained_fold: "explained l ib \<Longrightarrow> explained (l @ evs) (fold task_step evs ib)"
proof (induction evs arbitrary: l ib)
  case (Cons ev evs)
  from Cons.IH [OF explained_step [OF Cons.prems, of ev]] show ?case by simp
qed simp

lemma poll_next_explained:
  assumes "explained l ib" and "poll_next ib = (r, ib')"
  shows "explained l ib' \<and> (\<forall>v. r = Some (Some (Inr v)) \<longrightarrow> StreamValue v \<in> set l)"
  using assms by (auto simp: poll_next_def explained_def split: if_splits list.splits)

lemma next_notification_explained:
  assumes "next_notification (recorded link) d (ib, (s, ps, l)) = (r, (ib', (s', ps', l')))"
    and "explained l ib"
  shows "ps' = ps \<and> explained l' ib' \<and> (\<forall>v. r = Some (Some (Inr v)) \<longrightarrow> StreamValue v \<in> set l')
    \<and> set l \<subseteq> set l'"
proof (cases "poll_next ib")
  case (Pair x ib1)
  show ?thesis
  proof (cases x)
    case None
    obtain evs s1 where w: "bl_wait link d s = (evs, s1)" by force
    obtain r2 ib2 where p: "poll_next (fold task_step evs ib) = (r2, ib2)" by force
    from assms(1) Pair None w p have eq: "r = r2" "ib' = ib2" "ps' = ps" "l' = l @ evs"
      by (simp_all add: next_notification_def recorded_def)
    from poll_next_explained [OF explained_fold [OF assms(2)] p] eq show ?thesis by simp
  next
    case (Some y)
    with assms(1) Pair have "r = Some y" "ib' = ib1" "ps' = ps" "l' = l"
      by (simp_all add: next_notification_def)
    with poll_next_explained [OF assms(2) Pair] Some show ?thesis by simp
  qed
qed

section \<open>The acknowledgement that ends a write\<close>

definition link_log :: "'s recorded link_state \<Rightarrow> stream_event list" where
  "link_log st = snd (snd (snd st))"

definition link_packets :: "'s recorded link_state \<Rightarrow> packet list" where
  "link_packets st = fst (snd (snd st))"

definition acknowledged :: "u8 \<Rightarrow> (ble_error, ble_write_receipt) result \<Rightarrow> stream_event list \<Rightarrow> bool" where
  "acknowledged rid r l \<longleftrightarrow> (\<forall>receipt. r = Inr receipt \<longrightarrow>
     receipt = \<lparr>receipt_report_id = rid, receipt_ack_status = 0\<rparr>
     \<and> StreamValue [0x10, 0x50, 0, rid] \<in> set l)"

lemma acknowledged_Inl [simp]: "acknowledged rid (Inl e) l"
  by (simp add: acknowledged_def)

lemma decode_ack_ok:
  assumes "decode_ack v = Inr (Some ack)"
  shows "v = [0x10, 0x50, ack_status ack, ack_report_id ack]"
proof -
  from assms have len: "length v = 4" and t: "take 2 v = [0x10, 0x50]"
    and a: "ack = \<lparr>ack_report_id = v ! 3, ack_status = v ! 2\<rparr>"
    by (auto simp: decode_ack_def split: if_splits)
  from len obtain a b c d where v: "v = [a, b, c, d]"
    by (auto simp: numeral_eq_Suc length_Suc_conv)
  with t a show ?thesis by simp
qed

lemma next_notification_log:
  assumes "next_notification (recorded link) d st = (r, t)" and "explained (link_log st) (fst st)"
  shows "link_packets t = link_packets st" "explained (link_log t) (fst t)"
    "\<And>v. r = Some (Some (Inr v)) \<Longrightarrow> StreamValue v \<in> set (link_log t)"
  using next_notification_explained [of link d "fst st" "fst (snd st)" "link_packets st" "link_log st"
      r "fst t" "fst (snd t)" "link_packets t" "link_log t"] assms
  by (simp_all add: link_log_def link_packets_def)

text \<open>One turn of the loop: a result, or another turn from a later state.\<close>

definition ack_decide ::
  "u8 \<Rightarrow> (ble_error, packet) result option option \<Rightarrow> (ble_error, ble_write_receipt) result option" where
  "ack_decide rid r =
     (case r of None \<Rightarrow> Some (Inl (AckTimeout rid)) | Some None \<Rightarrow> Some (Inl BleDisconnected)
      | Some (Some (Inl e)) \<Rightarrow> Some (Inl e)
      | Some (Some (Inr v)) \<Rightarrow>
          (case decode_ack v of Inl e \<Rightarrow> Some (Inl e) | Inr None \<Rightarrow> None
           | Inr (Some ack) \<Rightarrow>
               (if ack_report_id ack \<noteq> rid then None
                else if ack_status ack \<noteq> 0 then Some (Inl (AckRejected rid))
                else Some (Inr \<lparr>receipt_report_id = rid, receipt_ack_status = ack_status ack\<rparr>))))"

lemma ack_turn:
  "(case x of
      (None, t) \<Rightarrow> Some (Inl (AckTimeout rid), t)
    | (Some None, t) \<Rightarrow> Some (Inl BleDisconnected, t)
    | (Some (Some (Inl e)), t) \<Rightarrow> Some (Inl e, t)
    | (Some (Some (Inr notification)), t) \<Rightarrow>
        (case decode_ack notification of
           Inl e \<Rightarrow> Some (Inl e, t)
         | Inr None \<Rightarrow> await t
         | Inr (Some ack) \<Rightarrow>
             (if ack_report_id ack \<noteq> rid then await t
              else if ack_status ack \<noteq> 0 then Some (Inl (AckRejected rid), t)
              else Some (Inr \<lparr>receipt_report_id = rid, receipt_ack_status = ack_status ack\<rparr>, t))))
   = (case ack_decide rid (fst x) of Some y \<Rightarrow> Some (y, snd x) | None \<Rightarrow> await (snd x))"
  by (cases x) (auto simp: ack_decide_def split: option.splits sum.splits)

lemma await_ack_unfold:
  "await_ack link rid deadline st =
     (if deadline - bl_now link (snd st) = 0 then Some (Inl (AckTimeout rid), st)
      else case next_notification link (deadline - bl_now link (snd st)) st of
        (r, t) \<Rightarrow> (case ack_decide rid r of Some y \<Rightarrow> Some (y, t) | None \<Rightarrow> await_ack link rid deadline t))"
  by (subst await_ack.simps, simp only: Let_def ack_turn, simp only: case_prod_unfold)

lemma ack_decide_Ok:
  assumes "ack_decide rid r = Some (Inr receipt)"
  shows "r = Some (Some (Inr [0x10, 0x50, 0, rid]))
    \<and> receipt = \<lparr>receipt_report_id = rid, receipt_ack_status = 0\<rparr>"
  using assms
  by (auto simp: ack_decide_def split: option.splits sum.splits if_splits dest!: decode_ack_ok)

lemma await_ack_induct [consumes 1, case_names expired finish turn]:
  assumes "await_ack link rid deadline st = Some x"
    and "\<And>st. P st (Inl (AckTimeout rid), st)"
    and "\<And>st d r t y. next_notification link d st = (r, t) \<Longrightarrow> ack_decide rid r = Some y \<Longrightarrow> P st (y, t)"
    and "\<And>st d r t x. next_notification link d st = (r, t) \<Longrightarrow> ack_decide rid r = None \<Longrightarrow>
           P t x \<Longrightarrow> P st x"
  shows "P st x"
proof -
  have "link' = link \<and> rid' = rid \<and> deadline' = deadline \<longrightarrow> P st x"
    if "await_ack link' rid' deadline' st = Some x" for link' rid' deadline' st x
    using that
  proof (induction link' rid' deadline' st x rule: await_ack.raw_induct [rotated 1, consumes 1, case_names step])
    case (step await link' rid' deadline' st x)
    show ?case
    proof
      assume eq: "link' = link \<and> rid' = rid \<and> deadline' = deadline"
      obtain r t where n: "next_notification link (deadline - bl_now link (snd st)) st = (r, t)"
        by (metis surj_pair)
      have "(if deadline - bl_now link (snd st) = 0 then Some (Inl (AckTimeout rid), st)
          else case ack_decide rid r of Some y \<Rightarrow> Some (y, t) | None \<Rightarrow> await link rid deadline t) = Some x"
        using step(2) unfolding eq [THEN conjunct1] eq [THEN conjunct2, THEN conjunct1]
          eq [THEN conjunct2, THEN conjunct2] Let_def ack_turn n fst_conv snd_conv .
      then consider (exp) "x = (Inl (AckTimeout rid), st)"
        | (turn) "(case ack_decide rid r of Some y \<Rightarrow> Some (y, t) | None \<Rightarrow> await link rid deadline t) = Some x"
        by (cases "deadline - bl_now link (snd st) = 0") (metis option.inject)+
      then show "P st x"
      proof cases
        case exp
        then show ?thesis using assms(2) by simp
      next
        case turn
        then consider y where "ack_decide rid r = Some y" "x = (y, t)"
          | "ack_decide rid r = None" "await link rid deadline t = Some x"
          by (auto split: option.splits)
        then show ?thesis
          by cases (use n assms(3,4) step(1) in blast)+
      qed
    qed
  qed
  with assms(1) show ?thesis by blast
qed

lemma await_ack_acknowledged:
  assumes "await_ack (recorded link) rid deadline st = Some x" and "explained (link_log st) (fst st)"
  shows "link_packets (snd x) = link_packets st \<and> acknowledged rid (fst x) (link_log (snd x))"
  using assms
proof (induction rule: await_ack_induct)
  case (finish st d r t y)
  note n = next_notification_log [OF finish(1,3)]
  show ?case
  proof (cases y)
    case (Inr receipt)
    with ack_decide_Ok [of rid r receipt] finish(2) n(1) n(3) show ?thesis
      by (simp add: acknowledged_def)
  qed (simp add: n(1))
next
  case (turn st d r t x)
  from next_notification_log [OF turn(1) turn.prems] turn.IH show ?case by simp
qed simp

lemma drain_queue_Ok: "drain_queue q alive = (Inr (), q') \<Longrightarrow> q' = []"
  by (induction q alive rule: drain_queue.induct) (auto split: if_splits)

lemma drain_idle_Ok: "drain_idle ib = (Inr (), ib') \<Longrightarrow> ib_queue ib' = []"
  by (auto simp: drain_idle_def dest!: drain_queue_Ok split: if_splits prod.splits)

lemma explained_empty: "ib_queue ib = [] \<Longrightarrow> explained l ib"
  by (simp add: explained_def)

lemma complete_ble_write_acknowledged:
  assumes "complete_ble_write (recorded link) rid timeout packet st = Some (r, t)"
    and "ib_queue (fst st) = []"
  shows "link_packets t = link_packets st @ [packet] \<and> acknowledged rid r (link_log t)"
proof -
  obtain ib s ps l where st: "st = (ib, (s, ps, l))" by (metis prod.collapse)
  obtain w evs s' where w: "bl_write link packet s = (w, evs, s')" by (metis prod.collapse)
  have e: "explained (link_log (fold task_step evs ib, (s', ps @ [packet], evs))) (fold task_step evs ib)"
    using explained_fold [of "[]" ib evs] explained_empty assms(2) st by (simp add: link_log_def)
  show ?thesis
  proof (cases w)
    case (Inl details)
    with assms(1) st w show ?thesis
      by (auto simp: complete_ble_write_def recorded_def Let_def link_packets_def)
  next
    case (Inr u)
    with assms(1) st w have "await_ack (recorded link) rid (bl_now (recorded link) (s', ps @ [packet], evs) + timeout)
        (fold task_step evs ib, (s', ps @ [packet], evs)) = Some (r, t)"
      by (simp add: complete_ble_write_def recorded_def Let_def)
    from await_ack_acknowledged [OF this] e show ?thesis
      by (simp add: st link_packets_def)
  qed
qed

lemma write_bluest_acknowledged:
  assumes "write_bluest (recorded link) rid packet se = Some (Inr receipt, se')"
  shows "packets_written se' = packets_written se @ [packet]
    \<and> receipt = \<lparr>receipt_report_id = rid, receipt_ack_status = 0\<rparr>
    \<and> StreamValue [0x10, 0x50, 0, rid] \<in> set (yielded se')"
proof -
  obtain ib s where l: "bs_link se = (ib, s)" by (metis surj_pair)
  from assms l obtain ib' t where d: "drain_idle ib = (Inr (), ib')"
    and c: "complete_ble_write (recorded link) rid (ack_timeout (bs_policy se)) packet (ib', s) = Some (Inr receipt, t)"
    and se': "se' = se\<lparr>bs_link := t\<rparr>"
    by (auto simp: write_bluest_def split: prod.splits sum.splits option.splits)
  from complete_ble_write_acknowledged [OF c] drain_idle_Ok [OF d]
  have "link_packets t = link_packets (ib', s) @ [packet] \<and> acknowledged rid (Inr receipt) (link_log t)"
    by simp
  then show ?thesis
    by (simp add: se' l packets_written_def yielded_def link_packets_def link_log_def acknowledged_def)
qed

lemma session_write_acknowledged:
  assumes "ble_session_write (recorded link) packet se = Some (Inr receipt, se')"
  shows "packets_written se' = packets_written se @ [packet]
    \<and> receipt = \<lparr>receipt_report_id = hd packet, receipt_ack_status = 0\<rparr>
    \<and> StreamValue [0x10, 0x50, 0, hd packet] \<in> set (yielded se')"
proof -
  from assms obtain se1 where w: "write_bluest (recorded link) (hd packet) packet se = Some (Inr receipt, se1)"
    and q: "se' = se1 \<or> (\<exists>ib s ps l d evs s'. bs_link se1 = (ib, (s, ps, l))
        \<and> bl_sleep link d s = (evs, s')
        \<and> se' = se1\<lparr>bs_link := (fold task_step evs ib, (s', ps, l @ evs))\<rparr>)"
    by (fastforce simp: ble_session_write_def recorded_def split: if_splits option.splits prod.splits sum.splits)
  from q have "packets_written se' = packets_written se1 \<and> set (yielded se1) \<subseteq> set (yielded se')"
    by (auto simp: packets_written_def yielded_def)
  with write_bluest_acknowledged [OF w] show ?thesis by auto
qed

fun typed_report :: "ble_report \<Rightarrow> bool" where
  "typed_report (BleDpi st) \<longleftrightarrow> typed_dpi_state st"
| "typed_report (BleButtons st) \<longleftrightarrow> wf_buttons st"
| "typed_report _ \<longleftrightarrow> True"

lemma dpi_encode_head:
  assumes "typed_dpi_state st" and "dpi_encode st kind = Inr report"
  shows "hd (dpi_as_bytes report) = 0x04"
proof -
  from assms have sel: "valid_selection st" and len: "length (dpi_image st) = 56"
    and r: "dpi_as_bytes report = take 52 (dpi_image st)"
    by (auto simp: dpi_encode_def dpi_as_bytes_def typed_dpi_state_def)
  have "dpi_image st ! 0 = 0x04"
    using assms(1) sel by (simp add: nth_dpi_image nth_dpi_body dpi_header_def)
  with len show ?thesis
    unfolding r by (cases "dpi_image st") auto
qed

lemma ble_encode_head:
  assumes "typed_report report" and "ble_encode report = Inr packet"
  shows "hd packet = ble_report_id report"
proof (cases report)
  case (BleDpi st)
  with assms dpi_encode_head [of st Ble] show ?thesis
    by (auto simp: tryq_eq_Inr map_err_def split: sum.splits)
next
  case (BleButtons st)
  with assms have "wf_buttons st" "packet = buttons_encode st" by simp_all
  with BleButtons show ?thesis by (simp add: buttons_encode_layout)
next
  case (BleProfileControl m)
  with assms show ?thesis
    by (auto simp: control_as_bytes_def control_encode_def control_transmitted_length_def write_at_def
        profile_consts Let_def)
qed (use assms in \<open>auto simp: prefs_as_bytes_layout polling_encode_def POLLING_RATE_REPORT_ID_def Let_def\<close>)

lemma ble_write_packet:
  assumes "ble_write (recorded link) report se = Some (Inr receipt, se')" and "typed_report report"
  obtains packet where "ble_encode report = Inr packet"
    and "packets_written se' = packets_written se @ [packet]"
    and "receipt = \<lparr>receipt_report_id = ble_report_id report, receipt_ack_status = 0\<rparr>"
    and "StreamValue [0x10, 0x50, 0, ble_report_id report] \<in> set (yielded se')"
proof -
  from assms(1) obtain packet where e: "ble_encode report = Inr packet"
    and w: "ble_session_write (recorded link) packet se = Some (Inr receipt, se')"
    by (auto simp: ble_write_def split: sum.splits)
  from session_write_acknowledged [OF w] ble_encode_head [OF assms(2) e] that [OF e] show ?thesis
    by simp
qed

section \<open>Failing closed\<close>

text \<open>A closed session, an overflowed inbox and an ended notification task stay so.\<close>

definition refuses :: "'s ble_session \<Rightarrow> bool" where
  "refuses se \<longleftrightarrow> bs_closed se \<or> ib_overflowed (fst (bs_link se)) \<or> \<not> ib_open (fst (bs_link se))"

lemma drain_queue_closed: "\<exists>e. fst (drain_queue q False) = Inl e"
  by (induction q "False" rule: drain_queue.induct) auto

lemma drain_idle_refuses:
  assumes "ib_overflowed ib \<or> \<not> ib_open ib"
  obtains e ib' where "drain_idle ib = (Inl e, ib')" "ib_overflowed ib' = ib_overflowed ib" "ib_open ib' = ib_open ib"
proof (cases "ib_overflowed ib")
  case False
  with assms have "\<not> ib_open ib" by simp
  moreover obtain r q where d: "drain_queue (ib_queue ib) (ib_open ib) = (r, q)" by force
  moreover obtain e where "r = Inl e"
    using drain_queue_closed [of "ib_queue ib"] d calculation(1) by auto
  ultimately show ?thesis using False that [of e "ib\<lparr>ib_queue := q\<rparr>"] by (simp add: drain_idle_def)
qed (use that in \<open>simp add: drain_idle_def\<close>)

lemma task_step_closed: "ib_overflowed (task_step ev ib) \<longleftrightarrow> ib_overflowed ib \<or> ib_overflowed (task_step ev ib)"
  "\<not> ib_open ib \<Longrightarrow> task_step ev ib = ib"
  by (auto simp: task_step_def notification_send_def split: stream_event.split)

lemma session_write_refused:
  assumes "refuses se"
  obtains e se' where "ble_session_write (recorded link) packet se = Some (Inl e, se')"
    and "refuses se'" and "packets_written se' = packets_written se"
proof (cases "bs_closed se")
  case True
  with that [of BleDisconnected se] assms show ?thesis by (simp add: ble_session_write_def)
next
  case False
  obtain ib s where l: "bs_link se = (ib, s)" by (metis surj_pair)
  with assms False have "ib_overflowed ib \<or> \<not> ib_open ib" by (simp add: refuses_def)
  then obtain e ib' where d: "drain_idle ib = (Inl e, ib')" "ib_overflowed ib' = ib_overflowed ib"
      "ib_open ib' = ib_open ib"
    by (rule drain_idle_refuses)
  let ?se1 = "se\<lparr>bs_link := (ib', s)\<rparr>"
  have w: "write_bluest (recorded link) (hd packet) packet se = Some (Inl e, ?se1)"
    using d l by (simp add: write_bluest_def)
  have r1: "refuses ?se1" using assms d l by (auto simp: refuses_def)
  have p1: "packets_written ?se1 = packets_written se" by (simp add: packets_written_def l)
  show ?thesis
  proof (cases "is_connection_lost e")
    case True
    let ?se2 = "snd (stop_bluest_notifications (recorded link) (?se1\<lparr>bs_closed := True\<rparr>))"
    have "bs_closed ?se2" "packets_written ?se2 = packets_written ?se1"
      by (auto simp: stop_bluest_notifications_def packets_written_def recorded_def split: prod.splits)
    with that [of e ?se2] True w False p1 show ?thesis by (simp add: ble_session_write_def refuses_def)
  next
    case False
    with that [of e ?se1] w r1 p1 \<open>\<not> bs_closed se\<close> show ?thesis by (simp add: ble_session_write_def)
  qed
qed

text \<open>An error that means the connection is lost closes the session.\<close>

lemma session_write_closes:
  assumes "ble_session_write link packet se = Some (Inl e, se')" and "is_connection_lost e"
  shows "bs_closed se'"
  using assms
  by (auto simp: ble_session_write_def stop_bluest_notifications_def split: if_splits option.splits prod.splits sum.splits)

section \<open>Returning\<close>

text \<open>The law: the clock does not go back, and waiting for a notification takes time.\<close>

locale ble_clock =
  fixes link :: "'s ble_link"
  assumes wait_forward: "bl_now link s < bl_now link (snd (bl_wait link d s)) \<or> fst (bl_wait link d s) = []"
    and wait_monotone: "bl_now link s \<le> bl_now link (snd (bl_wait link d s))"
begin

lemma next_notification_progress:
  assumes "next_notification link d st = (Some (Some x), t)"
  shows "bl_now link (snd st) \<le> bl_now link (snd t)
    \<and> (bl_now link (snd st) < bl_now link (snd t) \<or> length (ib_queue (fst t)) < length (ib_queue (fst st))
       \<or> ib_overflowed (fst t))"
proof -
  obtain ib s where st: "st = (ib, s)" by force
  obtain evs s' where w: "bl_wait link d s = (evs, s')" by force
  have "bl_now link s < bl_now link s' \<or> evs = []" "bl_now link s \<le> bl_now link s'"
    using wait_forward [of s d] wait_monotone [of s d] w by auto
  with assms st w show ?thesis
    by (auto simp: next_notification_def poll_next_def split: if_splits list.splits prod.splits option.splits)
qed

lemma next_notification_value:
  assumes "next_notification link d st = (Some (Some (Inr v)), t)"
  shows "\<not> ib_overflowed (fst t)"
  using assms by (auto simp: next_notification_def poll_next_def split: if_splits list.splits prod.splits option.splits)

lemma await_ack_returns: "await_ack link rid deadline st \<noteq> None"
proof (induction "(deadline - bl_now link (snd st), length (ib_queue (fst st)))" arbitrary: st
    rule: wf_induct_rule [OF wf_lex_prod [OF wf_less_than wf_less_than]])
  case less: (1 st)
  let ?d = "deadline - bl_now link (snd st)"
  show ?case
  proof (cases "?d = 0")
    case False
    obtain r t where n: "next_notification link ?d st = (r, t)" by (metis surj_pair)
    show ?thesis
    proof (cases "ack_decide rid r")
      case None
      then obtain v where r: "r = Some (Some (Inr v))"
        by (auto simp: ack_decide_def split: option.splits sum.splits)
      note p = next_notification_progress [OF n [unfolded r]] and q = next_notification_value [OF n [unfolded r]]
      have "await_ack link rid deadline t \<noteq> None"
        by (rule less) (use p q False in \<open>auto simp: in_lex_prod\<close>)
      with False n None show ?thesis by (subst await_ack_unfold) simp
    next
      case (Some y)
      with False n show ?thesis by (subst await_ack_unfold) simp
    qed
  qed (subst await_ack_unfold, simp)
qed

lemma ble_write_returns: "ble_write link report se \<noteq> None"
proof -
  have c: "complete_ble_write link rid timeout packet st = None \<longleftrightarrow> False" for rid timeout packet st
    using await_ack_returns by (auto simp: complete_ble_write_def Let_def split: prod.split sum.split)
  have d: "write_bluest link rid packet se = None \<longleftrightarrow> False" for rid packet
    by (simp add: write_bluest_def c split: prod.split sum.split option.split)
  have "ble_session_write link packet se \<noteq> None" for packet
    by (simp add: ble_session_write_def d split: prod.split sum.split option.split)
  then show ?thesis by (auto simp: ble_write_def split: sum.split)
qed

end

section \<open>A scripted link\<close>

text \<open>What the stream yields at each wait; a write yields the first batch. The clock moves by a
  millisecond at each wait.\<close>

record ble_script =
  bsc_batches :: "stream_event list list"
  bsc_clock :: duration

definition bsc_pop :: "ble_script \<Rightarrow> stream_event list \<times> ble_script" where
  "bsc_pop s = (case bsc_batches s of [] \<Rightarrow> ([], s) | b # bs \<Rightarrow> (b, s\<lparr>bsc_batches := bs\<rparr>))"

definition scripted_link :: "ble_script ble_link" where
  "scripted_link = \<lparr>
     bl_write = (\<lambda>p s. case bsc_pop s of (evs, s') \<Rightarrow> (Inr (), evs, s')),
     bl_wait = (\<lambda>d s. case bsc_pop s of (evs, s') \<Rightarrow> (evs, s'\<lparr>bsc_clock := bsc_clock s + 1000000\<rparr>)),
     bl_sleep = (\<lambda>d s. case bsc_pop s of (evs, s') \<Rightarrow> (evs, s'\<lparr>bsc_clock := bsc_clock s + d\<rparr>)),
     bl_stop = (\<lambda>s. (Inr (), s)),
     bl_disconnect = (\<lambda>s. (Inr (), s)),
     bl_now = bsc_clock\<rparr>"

interpretation sl: ble_clock scripted_link
  by unfold_locales (simp_all add: scripted_link_def bsc_pop_def split: list.split)

definition ble_demo :: "stream_event list list \<Rightarrow> ble_script recorded ble_session" where
  "ble_demo batches = \<lparr>bs_link = (inbox_new, (\<lparr>bsc_batches = batches, bsc_clock = 0\<rparr>, [], [])),
     bs_policy = ble_policy_default, bs_task = True, bs_closed = False, bs_shutdown_complete = False\<rparr>"

section \<open>Properties\<close>

text \<open>C28: A Bluetooth write that succeeds has put exactly one packet on the link, the encoding of its
  report, its receipt names that report with status zero, and after the packet was written the
  notification stream has yielded the application acknowledgement \<open>10 50 00 <report id>\<close>: neither an
  acknowledgement left from an earlier write nor the one of another report counts.\<close>

theorem ble_write_acknowledged:
  assumes "ble_write (recorded link) report se = Some (Inr receipt, se')" and "typed_report report"
  shows "\<exists>packet. ble_encode report = Inr packet
    \<and> packets_written se' = packets_written se @ [packet]
    \<and> receipt = \<lparr>receipt_report_id = ble_report_id report, receipt_ack_status = 0\<rparr>
    \<and> StreamValue [0x10, 0x50, 0, ble_report_id report] \<in> set (yielded se')"
  using ble_write_packet [OF assms] by metis

text \<open>A Bluetooth session fails closed: once it is closed, its inbox has overflowed or its
  notification task has ended, every write fails without putting anything on the link, and the
  session stays in that condition.\<close>

theorem ble_session_fails_closed:
  assumes "refuses se"
  shows "\<exists>e se'. ble_write (recorded link) report se = Some (Inl e, se')
    \<and> refuses se' \<and> packets_written se' = packets_written se"
proof (cases "ble_encode report")
  case (Inr packet)
  obtain e se' where "ble_session_write (recorded link) packet se = Some (Inl e, se')" "refuses se'"
      "packets_written se' = packets_written se"
    using session_write_refused [OF assms] by metis
  with Inr show ?thesis by (simp add: ble_write_def)
qed (simp add: ble_write_def assms)

text \<open>A Bluetooth write returns whatever the mouse sends: the loop that waits for the
  acknowledgement ends because waiting takes time and the deadline is fixed when the packet has
  been written (on the scripted link, for every script).\<close>

theorem ble_write_terminates: "ble_write scripted_link report se \<noteq> None"
  by (rule sl.ble_write_returns)

section \<open>Witnesses\<close>

definition ble_rate_report :: ble_report where
  "ble_rate_report = BlePollingRate (ProfileId 1) Hz1000"

definition ble_demo_se :: "ble_script recorded ble_session" where
  "ble_demo_se = ble_demo [[StreamValue [0, 0x80, 0, 0]], [StreamValue [0x10, 0x50, 0, 6]]]"

lemmas ble_demo_defs = ble_demo_se_def ble_demo_def ble_rate_report_def ble_session_write_def
  write_bluest_def drain_idle_def complete_ble_write_def recorded_def scripted_link_def bsc_pop_def
  inbox_new_def task_step_def notification_send_def NOTIFICATION_QUEUE_CAPACITY_def
  ble_policy_default_def polling_encode_def POLLING_RATE_REPORT_ID_def from_secs_def from_millis_def

lemma ble_demo_encoded: "ble_write (recorded scripted_link) ble_rate_report ble_demo_se
    = ble_session_write (recorded scripted_link) (polling_encode (ProfileId 1) Hz1000) ble_demo_se"
  by (simp add: ble_write_def ble_rate_report_def)

lemma ble_demo_write:
  "\<exists>se'. ble_write (recorded scripted_link) ble_rate_report ble_demo_se
     = Some (Inr \<lparr>receipt_report_id = 6, receipt_ack_status = 0\<rparr>, se')"
  unfolding ble_demo_encoded
  apply (simp add: ble_demo_defs Let_def)
  apply (subst await_ack_unfold)
  apply (simp add: next_notification_def poll_next_def ack_decide_def decode_ack_def bsc_pop_def)
  apply (subst await_ack_unfold)
  apply (simp add: next_notification_def poll_next_def ack_decide_def decode_ack_def bsc_pop_def ble_demo_defs)
  done

lemma ble_write_acknowledged_witness:
  "\<exists>se'. ble_write (recorded scripted_link) ble_rate_report ble_demo_se
     = Some (Inr \<lparr>receipt_report_id = 6, receipt_ack_status = 0\<rparr>, se')
     \<and> StreamValue [0x10, 0x50, 0, 6] \<in> set (yielded se')"
proof -
  obtain se' where w: "ble_write (recorded scripted_link) ble_rate_report ble_demo_se
     = Some (Inr \<lparr>receipt_report_id = 6, receipt_ack_status = 0\<rparr>, se')"
    using ble_demo_write by blast
  from ble_write_acknowledged [OF w] have "StreamValue [0x10, 0x50, 0, 6] \<in> set (yielded se')"
    by (simp add: ble_rate_report_def)
  with w show ?thesis by blast
qed

lemma ble_session_fails_closed_witness:
  "\<exists>e se'. ble_write (recorded scripted_link) ble_rate_report
      (ble_demo_se\<lparr>bs_link := (inbox_new\<lparr>ib_overflowed := True\<rparr>, (\<lparr>bsc_batches = [], bsc_clock = 0\<rparr>, [], []))\<rparr>)
     = Some (Inl e, se') \<and> packets_written se' = []"
  using ble_session_fails_closed [of "ble_demo_se\<lparr>bs_link := (inbox_new\<lparr>ib_overflowed := True\<rparr>,
      (\<lparr>bsc_batches = [], bsc_clock = 0\<rparr>, [], []))\<rparr>" scripted_link ble_rate_report]
  by (auto simp: refuses_def packets_written_def)

end
