(* ===== verification/X3_Usb.thy ===== *)
theory X3_Usb
  imports X3_Worker_Live X3_Effect
begin

text \<open>
  USB discovery (\<^verbatim>\<open>driver/usb.rs\<close>): which enumerated HID collections are the configuration
  and the input collection of a mouse, and which one an open selects. Enumeration and opening belong
  to the \<^verbatim>\<open>hidapi\<close> crate and are parameters; paths are byte strings.
\<close>

section \<open>Device kinds\<close>

definition ATTACK_SHARK_VENDOR_ID :: u16 where "ATTACK_SHARK_VENDOR_ID = 0x1d57"
definition FA61_PRODUCT_ID :: u16 where "FA61_PRODUCT_ID = 0xfa61"
definition FA60_PRODUCT_ID :: u16 where "FA60_PRODUCT_ID = 0xfa60"
definition CONFIG_INTERFACE_NUMBER :: int where "CONFIG_INTERFACE_NUMBER = 2"
definition WINDOWS_CONFIG_COLLECTION :: string where "WINDOWS_CONFIG_COLLECTION = ''col04''"
definition AUXILIARY_USAGE_PAGE :: u16 where "AUXILIARY_USAGE_PAGE = 0x000a"

datatype usb_device_kind = UsbWired | UsbReceiver

fun usb_product_id :: "usb_device_kind \<Rightarrow> u16" where
  "usb_product_id UsbWired = FA61_PRODUCT_ID"
| "usb_product_id UsbReceiver = FA60_PRODUCT_ID"

fun usb_transport_kind :: "usb_device_kind \<Rightarrow> transport_kind" where
  "usb_transport_kind UsbWired = Wired"
| "usb_transport_kind UsbReceiver = Receiver"

text \<open>What the HID library tells of one enumerated collection.\<close>

record hid_info =
  hi_path :: string
  hi_vendor :: u16
  hi_product :: u16
  hi_interface :: int
  hi_usage_page :: u16
  hi_product_string :: "string option"
  hi_serial :: "string option"

record device_info =
  di_path :: string
  di_vendor_id :: u16
  di_product_id :: u16
  di_interface_number :: int
  di_product :: "string option"
  di_serial_number :: "string option"

definition to_public_info :: "hid_info \<Rightarrow> device_info" where
  "to_public_info d = \<lparr>di_path = hi_path d, di_vendor_id = hi_vendor d, di_product_id = hi_product d,
     di_interface_number = hi_interface d, di_product = hi_product_string d, di_serial_number = hi_serial d\<rparr>"

datatype device_selector = UniqueDevice | DevicePath string

section \<open>Text comparison\<close>

definition ascii_lower :: "char \<Rightarrow> char" where
  "ascii_lower c = (if 65 \<le> (of_char c :: nat) \<and> (of_char c :: nat) \<le> 90
     then char_of ((of_char c :: nat) + 32) else c)"

definition eq_ignore_ascii_case :: "string \<Rightarrow> string \<Rightarrow> bool" where
  "eq_ignore_ascii_case a b \<longleftrightarrow> map ascii_lower a = map ascii_lower b"

definition windows_of :: "nat \<Rightarrow> 'a list \<Rightarrow> 'a list list" where
  "windows_of n xs = map (\<lambda>i. take n (drop i xs)) [0..<Suc (length xs) - n]"

definition contains_ignore_ascii_case :: "string \<Rightarrow> string \<Rightarrow> bool" where
  "contains_ignore_ascii_case haystack needle \<longleftrightarrow>
     (if needle = [] then True
      else if length haystack < length needle then False
      else list_ex (\<lambda>w. eq_ignore_ascii_case w needle) (windows_of (length needle) haystack))"

section \<open>Collections\<close>

definition is_configuration_identity :: "string \<Rightarrow> int \<Rightarrow> bool \<Rightarrow> bool" where
  "is_configuration_identity path interface_number windows \<longleftrightarrow>
     (if interface_number \<noteq> CONFIG_INTERFACE_NUMBER then False
      else if \<not> windows then True
      else contains_ignore_ascii_case path WINDOWS_CONFIG_COLLECTION)"

definition is_configuration_collection :: "bool \<Rightarrow> hid_info \<Rightarrow> bool" where
  "is_configuration_collection windows d =
     is_configuration_identity (hi_path d) (hi_interface d) windows"

definition configuration_collections :: "bool \<Rightarrow> hid_info list \<Rightarrow> usb_device_kind \<Rightarrow> hid_info list" where
  "configuration_collections windows devices kind =
     filter (\<lambda>d. hi_vendor d = ATTACK_SHARK_VENDOR_ID \<and> hi_product d = usb_product_id kind
        \<and> is_configuration_collection windows d) devices"

definition is_input_collection :: "bool \<Rightarrow> hid_info \<Rightarrow> usb_device_kind \<Rightarrow> bool" where
  "is_input_collection windows d kind \<longleftrightarrow>
     hi_vendor d = ATTACK_SHARK_VENDOR_ID \<and> hi_product d = usb_product_id kind
     \<and> \<not> is_configuration_collection windows d \<and> hi_usage_page d = AUXILIARY_USAGE_PAGE"

text \<open>\<^verbatim>\<open>family_end\<close>: the first position of \<open>&col\<close>, or the end of the path.\<close>

fun family_end :: "string \<Rightarrow> nat" where
  "family_end (a # b # c # d # rest) =
     (if a = CHR ''&'' \<and> ascii_lower b = CHR ''c'' \<and> ascii_lower c = CHR ''o'' \<and> ascii_lower d = CHR ''l''
      then 0 else Suc (family_end (b # c # d # rest)))"
| "family_end path = length path"

definition same_device_family :: "string \<Rightarrow> string \<Rightarrow> bool" where
  "same_device_family left right \<longleftrightarrow>
     eq_ignore_ascii_case (take (family_end left) left) (take (family_end right) right)"

text \<open>\<^verbatim>\<open>iter().position(p)\<close>.\<close>

fun position :: "('a \<Rightarrow> bool) \<Rightarrow> 'a list \<Rightarrow> nat option" where
  "position P [] = None"
| "position P (x # xs) = (if P x then Some 0 else map_option Suc (position P xs))"

lemma position_Some: "position P xs = Some i \<Longrightarrow> i < length xs \<and> P (xs ! i) \<and> (\<forall>j < i. \<not> P (xs ! j))"
proof (induction xs arbitrary: i)
  case (Cons x xs)
  then show ?case by (cases i) (auto split: if_splits simp: less_Suc_eq_0_disj)
qed simp

definition select_device_candidate :: "bool \<Rightarrow> device_selector \<Rightarrow> hid_info list \<Rightarrow> (driver_error, nat) result" where
  "select_device_candidate windows selector candidates =
     (case selector of
        UniqueDevice \<Rightarrow>
          (if length candidates = 0 then Inl DeviceNotFound
           else if length candidates = 1 then Inr 0
           else Inl (AmbiguousDevice (length candidates)))
      | DevicePath expected_path \<Rightarrow>
          ok_or DeviceNotFound (position (\<lambda>d.
            if windows then eq_ignore_ascii_case (hi_path d) expected_path
            else hi_path d = expected_path) candidates))"

section \<open>Opening\<close>

text \<open>The HID library: enumeration, and opening the collection at a path as a device.\<close>

record ('s, 'd) hid_api =
  ha_enumerate :: "('s, string, hid_info list) prog"
  ha_open :: "string \<Rightarrow> ('s, string, 'd) prog"

definition list_devices_for ::
  "bool \<Rightarrow> ('s, 'd) hid_api \<Rightarrow> usb_device_kind \<Rightarrow> ('s, driver_error, device_info list) prog" where
  "list_devices_for windows api kind =
     thenp (map_errp DriverTransport (ha_enumerate api)) (\<lambda>devices.
     okp (map to_public_info (configuration_collections windows devices kind)))"

definition list_devices :: "bool \<Rightarrow> ('s, 'd) hid_api \<Rightarrow> ('s, driver_error, device_info list) prog" where
  "list_devices windows api = list_devices_for windows api UsbWired"

definition open_transport ::
  "bool \<Rightarrow> ('s, 'd) hid_api \<Rightarrow> device_selector \<Rightarrow> usb_device_kind \<Rightarrow> ('s, driver_error, 'd) prog" where
  "open_transport windows api selector kind =
     thenp (map_errp DriverTransport (ha_enumerate api)) (\<lambda>devices.
     let candidates = configuration_collections windows devices kind
     in thenp (liftp (select_device_candidate windows selector candidates)) (\<lambda>i.
        map_errp DriverTransport (ha_open api (hi_path (candidates ! i)))))"

definition select_input :: "bool \<Rightarrow> hid_info list \<Rightarrow> usb_device_kind \<Rightarrow> device_selector \<Rightarrow> (driver_error, hid_info) result" where
  "select_input windows devices kind selector =
     (let configurations = configuration_collections windows devices kind;
          unambiguous_input_fallback = (length configurations = 1)
      in tryq (select_device_candidate windows selector configurations) (\<lambda>i.
         let configuration_path = hi_path (configurations ! i);
             inputs = filter (\<lambda>d. is_input_collection windows d kind) devices
         in ok_or DeviceNotFound
              (case find (\<lambda>d. same_device_family configuration_path (hi_path d)) inputs of
                 Some d \<Rightarrow> Some d
               | None \<Rightarrow>
                   (if unambiguous_input_fallback \<and> length inputs = 1 then Some (hd inputs) else None))))"

definition open_input_transport ::
  "bool \<Rightarrow> ('s, 'd) hid_api \<Rightarrow> device_selector \<Rightarrow> usb_device_kind \<Rightarrow> ('s, driver_error, 'd) prog" where
  "open_input_transport windows api selector kind =
     thenp (map_errp DriverTransport (ha_enumerate api)) (\<lambda>devices.
     thenp (liftp (select_input windows devices kind selector)) (\<lambda>d.
     map_errp DriverTransport (ha_open api (hi_path d))))"

section \<open>What is selected\<close>

lemma select_device_candidate_Ok:
  assumes "select_device_candidate windows selector candidates = Inr i"
  shows "i < length candidates"
    and "selector = UniqueDevice \<Longrightarrow> candidates = [candidates ! i]"
    and "\<And>path. selector = DevicePath path \<Longrightarrow>
      (if windows then eq_ignore_ascii_case (hi_path (candidates ! i)) path else hi_path (candidates ! i) = path)"
  using assms position_Some [of _ candidates i]
  by (auto simp: select_device_candidate_def length_Suc_conv split: device_selector.splits if_splits)

text \<open>The collection an open may select: the configuration collection of one mouse of the kind.\<close>

definition selected_for :: "bool \<Rightarrow> device_selector \<Rightarrow> usb_device_kind \<Rightarrow> hid_info list \<Rightarrow> hid_info \<Rightarrow> bool" where
  "selected_for windows selector kind devices d \<longleftrightarrow>
     d \<in> set devices \<and> hi_vendor d = 0x1d57 \<and> hi_interface d = 2
     \<and> hi_product d = (case kind of UsbWired \<Rightarrow> 0xfa61 | UsbReceiver \<Rightarrow> 0xfa60)
     \<and> (case selector of
          UniqueDevice \<Rightarrow> configuration_collections windows devices kind = [d]
        | DevicePath path \<Rightarrow>
            (if windows then eq_ignore_ascii_case (hi_path d) path else hi_path d = path))"

lemma configuration_collections_mem:
  assumes "d \<in> set (configuration_collections windows devices kind)"
  shows "d \<in> set devices" "hi_vendor d = 0x1d57" "hi_interface d = 2"
    "hi_product d = (case kind of UsbWired \<Rightarrow> 0xfa61 | UsbReceiver \<Rightarrow> 0xfa60)"
  using assms
  by (cases kind; auto simp: configuration_collections_def is_configuration_collection_def
      is_configuration_identity_def ATTACK_SHARK_VENDOR_ID_def CONFIG_INTERFACE_NUMBER_def
      FA61_PRODUCT_ID_def FA60_PRODUCT_ID_def split: if_splits)+

lemma select_configuration:
  assumes "select_device_candidate windows selector (configuration_collections windows devices kind) = Inr i"
  shows "selected_for windows selector kind devices (configuration_collections windows devices kind ! i)"
proof -
  note s = select_device_candidate_Ok [OF assms]
  then have "configuration_collections windows devices kind ! i \<in> set (configuration_collections windows devices kind)"
    by simp
  from configuration_collections_mem [OF this] s show ?thesis
    by (auto simp: selected_for_def split: device_selector.split)
qed

text \<open>The family of a path ends at its first collection marker.\<close>

lemma ascii_lower_idem [simp]: "ascii_lower (ascii_lower c) = ascii_lower c"
  by (auto simp: ascii_lower_def)

lemma family_end_le: "family_end path \<le> length path"
  by (induction path rule: family_end.induct) auto

lemma same_device_family_equiv:
  "same_device_family p p" "same_device_family p q \<Longrightarrow> same_device_family q p"
  "same_device_family p q \<Longrightarrow> same_device_family q r \<Longrightarrow> same_device_family p r"
  by (simp_all add: same_device_family_def eq_ignore_ascii_case_def)

lemma family_end_marker: "family_end p = length p \<Longrightarrow> family_end (p @ ''&col'' @ x) = length p"
proof (induction p rule: family_end.induct)
  case (1 a b c d rest)
  then show ?case by (auto split: if_splits)
qed (simp_all add: ascii_lower_def)

text \<open>Two collections of one interface, \<open>...&col04...\<close> and \<open>...&col05...\<close>, are of one family.\<close>

lemma same_family_collections:
  assumes "family_end p = length p"
  shows "same_device_family (p @ ''&col'' @ x) (p @ ''&col'' @ y)"
  using family_end_marker [OF assms] by (simp add: same_device_family_def eq_ignore_ascii_case_def)

text \<open>An input collection is selected only for the family of the selected configuration, or when
  there is exactly one of each.\<close>

lemma select_input_Ok:
  assumes "select_input windows devices kind selector = Inr d"
  shows "\<exists>info. selected_for windows selector kind devices info \<and> is_input_collection windows d kind
    \<and> d \<in> set devices
    \<and> (same_device_family (hi_path info) (hi_path d)
       \<or> configuration_collections windows devices kind = [info]
         \<and> filter (\<lambda>d. is_input_collection windows d kind) devices = [d])"
proof -
  let ?conf = "configuration_collections windows devices kind"
  let ?inputs = "filter (\<lambda>d. is_input_collection windows d kind) devices"
  from assms obtain i where i: "select_device_candidate windows selector ?conf = Inr i"
    and d: "find (\<lambda>d. same_device_family (hi_path (?conf ! i)) (hi_path d)) ?inputs = Some d
      \<or> (length ?conf = 1 \<and> length ?inputs = 1 \<and> d = hd ?inputs)"
    by (auto simp: select_input_def Let_def split: option.splits if_splits)
  note s = select_configuration [OF i] and l = select_device_candidate_Ok(1) [OF i]
  from d show ?thesis
  proof
    assume "find (\<lambda>d. same_device_family (hi_path (?conf ! i)) (hi_path d)) ?inputs = Some d"
    then have "d \<in> set ?inputs" "same_device_family (hi_path (?conf ! i)) (hi_path d)"
      unfolding find_Some_iff by (metis nth_mem, blast)
    with s show ?thesis by auto
  next
    assume u: "length ?conf = 1 \<and> length ?inputs = 1 \<and> d = hd ?inputs"
    then have "?inputs = [d]" by (cases ?inputs) auto
    moreover from u l have "?conf = [?conf ! i]" by (cases ?conf) auto
    moreover have "d \<in> set devices \<and> is_input_collection windows d kind"
      using calculation(1) by (metis (no_types, lifting) list.set_intros(1) mem_Collect_eq set_filter)
    ultimately show ?thesis using s by metis
  qed
qed

section \<open>Properties\<close>

text \<open>Opening a mouse over USB opens a configuration collection of the requested product: a
  collection with the vendor of the mouse, interface 2 and the product number of the kind; with the
  unique selector it is the only one enumerated, with a path selector the one with that path.\<close>

theorem open_transport_selects:
  assumes "open_transport windows api selector kind s = (Inr d, s')"
  shows "\<exists>devices s1 info. ha_enumerate api s = (Inr devices, s1)
    \<and> selected_for windows selector kind devices info \<and> ha_open api (hi_path info) s1 = (Inr d, s')"
proof -
  from assms obtain devices s1 where e: "ha_enumerate api s = (Inr devices, s1)"
    by (auto simp: open_transport_def prog_defs map_err_def split: prod.splits sum.splits)
  with assms obtain i where
    i: "select_device_candidate windows selector (configuration_collections windows devices kind) = Inr i"
    and o: "ha_open api (hi_path (configuration_collections windows devices kind ! i)) s1 = (Inr d, s')"
    by (auto simp: open_transport_def prog_defs map_err_def Let_def split: prod.splits sum.splits)
  from select_configuration [OF i] e o show ?thesis by blast
qed

section \<open>Witness\<close>

definition demo_hid :: "hid_info list" where
  "demo_hid = [
     \<lparr>hi_path = ''a&col01'', hi_vendor = 0x1d57, hi_product = 0xfa60, hi_interface = 1, hi_usage_page = 1,
      hi_product_string = None, hi_serial = None\<rparr>,
     \<lparr>hi_path = ''b&col04'', hi_vendor = 0x1d57, hi_product = 0xfa60, hi_interface = 2, hi_usage_page = 1,
      hi_product_string = None, hi_serial = None\<rparr>]"

definition demo_api :: "(string list, nat) hid_api" where
  "demo_api = \<lparr>ha_enumerate = okp demo_hid,
     ha_open = (\<lambda>path opened. (Inr (length opened), opened @ [path]))\<rparr>"

lemma demo_open: "open_transport True demo_api UniqueDevice UsbReceiver [] = (Inr 0, [''b&col04''])"
  by code_simp

lemma open_transport_selects_witness:
  "\<exists>info. selected_for True UniqueDevice UsbReceiver demo_hid info \<and> hi_path info = ''b&col04''"
  using open_transport_selects [OF demo_open] by (auto simp: demo_api_def okp_def)

end
