(* ===== verification/X3_Handle.thy ===== *)
theory X3_Handle
  imports X3_Usb
begin

text \<open>
  The handle of a mouse (\<^verbatim>\<open>driver/handle.rs\<close>) and the threads it talks to
  (\<^verbatim>\<open>spawn_worker\<close> and \<^verbatim>\<open>spawn_input_worker\<close> in \<^verbatim>\<open>driver/worker.rs\<close>): the bounded
  command queue as a step relation, with one reply channel per command; the input thread, turn by
  turn; and the battery read. A ticket stands for the reply channel of a command.
\<close>

section \<open>The command queue\<close>

definition COMMAND_QUEUE_CAPACITY :: nat where "COMMAND_QUEUE_CAPACITY = 32"

record 's mouse =
  mh_env :: 's
  mh_queue :: "(nat \<times> command) list"
  mh_alive :: bool
  mh_next :: nat
  mh_served :: "(nat \<times> command \<times> (driver_error, reply) result) list"
  mh_lost :: "nat list"

text \<open>\<^verbatim>\<open>try_send\<close>: a full queue and a worker that is gone are errors; otherwise the command waits.\<close>

definition request_submit :: "command \<Rightarrow> 's mouse \<Rightarrow> (driver_error, nat) result \<times> 's mouse" where
  "request_submit c h =
     (if \<not> mh_alive h then (Inl WorkerUnavailable, h)
      else if length (mh_queue h) \<ge> COMMAND_QUEUE_CAPACITY then (Inl WorkerBusy, h)
      else (Inr (mh_next h), h\<lparr>mh_queue := mh_queue h @ [(mh_next h, c)], mh_next := Suc (mh_next h)\<rparr>))"

text \<open>The worker takes the oldest command and answers it; \<open>None\<close> when it never returns.\<close>

definition worker_serve :: "'s worker \<Rightarrow> 's mouse \<Rightarrow> 's mouse option" where
  "worker_serve w h =
     (if \<not> mh_alive h then None
      else case mh_queue h of
        [] \<Rightarrow> None
      | (ticket, c) # queue \<Rightarrow>
          (case dispatch w c (mh_env h) of
             None \<Rightarrow> None
           | Some (r, env) \<Rightarrow> Some (h\<lparr>mh_env := env, mh_queue := queue,
                 mh_served := mh_served h @ [(ticket, c, r)]\<rparr>)))"

text \<open>A worker that ends drops the queue, and with it the reply channels of the waiting commands.\<close>

definition worker_end :: "'s mouse \<Rightarrow> 's mouse" where
  "worker_end h = h\<lparr>mh_alive := False, mh_queue := [], mh_lost := mh_lost h @ map fst (mh_queue h)\<rparr>"

text \<open>What the future of a ticket resolves to; \<open>None\<close> while it waits.\<close>

definition response :: "'s mouse \<Rightarrow> nat \<Rightarrow> (driver_error, reply) result option" where
  "response h ticket =
     (case map_of (mh_served h) ticket of
        Some (_, r) \<Rightarrow> Some r
      | None \<Rightarrow> if ticket \<in> set (mh_lost h) then Some (Inl WorkerUnavailable) else None)"

inductive mouse_step :: "'s worker \<Rightarrow> 's mouse \<Rightarrow> 's mouse \<Rightarrow> bool" for w where
  submit: "request_submit c h = (r, h') \<Longrightarrow> mouse_step w h h'"
| serve: "worker_serve w h = Some h' \<Longrightarrow> mouse_step w h h'"
| finish: "mh_alive h \<Longrightarrow> mouse_step w h (worker_end h)"

inductive_cases mouse_stepE: "mouse_step w h h'"

text \<open>\<^verbatim>\<open>spawn_worker\<close>: the thread opens the transport and reports before it serves.\<close>

definition mouse_new :: "'s \<Rightarrow> 's mouse" where
  "mouse_new s = \<lparr>mh_env = s, mh_queue = [], mh_alive = True, mh_next = 0, mh_served = [], mh_lost = []\<rparr>"

definition spawn_worker ::
  "(string, unit) result \<Rightarrow> ('s, driver_error, 'd) prog \<Rightarrow> ('s, driver_error, 'd) prog" where
  "spawn_worker thread opening =
     thenp (liftp (map_err WorkerStart thread)) (\<lambda>_. opening)"

definition default_policy_for :: "usb_device_kind \<Rightarrow> read_policy" where
  "default_policy_for kind = (case kind of UsbWired \<Rightarrow> policy_default | UsbReceiver \<Rightarrow> policy_receiver_default)"

text \<open>Opening a handle: the configuration collection must open, the input collection may fail.\<close>

definition open_for_kind_with_policy ::
  "bool \<Rightarrow> ('s, 'd) hid_api \<Rightarrow> (string, unit) result \<Rightarrow> (string, unit) result \<Rightarrow> device_selector
     \<Rightarrow> usb_device_kind \<Rightarrow> read_policy \<Rightarrow> ('s, driver_error, 'd \<times> 'd option \<times> read_policy \<times> transport_kind) prog" where
  "open_for_kind_with_policy windows api thread input_thread selector kind policy =
     thenp (spawn_worker thread (open_transport windows api selector kind)) (\<lambda>device.
     thenp (liftp (map_err WorkerStart input_thread)) (\<lambda>_.
     handlep (open_input_transport windows api selector kind)
       (\<lambda>_. okp (device, None, policy, usb_transport_kind kind))
       (\<lambda>input. okp (device, Some input, policy, usb_transport_kind kind))))"

definition open_for_kind ::
  "bool \<Rightarrow> ('s, 'd) hid_api \<Rightarrow> (string, unit) result \<Rightarrow> (string, unit) result \<Rightarrow> device_selector
     \<Rightarrow> usb_device_kind \<Rightarrow> ('s, driver_error, 'd \<times> 'd option \<times> read_policy \<times> transport_kind) prog" where
  "open_for_kind windows api thread input_thread selector kind =
     open_for_kind_with_policy windows api thread input_thread selector kind (default_policy_for kind)"

section \<open>The input thread\<close>

text \<open>The cached battery level, whether input is available, the events broadcast, and whether the
  thread still runs.\<close>

record input_thread =
  it_battery :: "u8 option"
  it_available :: bool
  it_events :: "input_event list"
  it_running :: bool

definition INPUT_BUFFER_LENGTH :: nat where "INPUT_BUFFER_LENGTH = 64"

text \<open>One turn: the result of \<^verbatim>\<open>read_input_report\<close> (a length and the buffer, or an error).\<close>

definition input_turn :: "(string, nat \<times> packet) result \<Rightarrow> input_thread \<Rightarrow> input_thread" where
  "input_turn read it =
     (if \<not> it_running it then it
      else case read of
        Inl _ \<Rightarrow> it\<lparr>it_available := False, it_running := False\<rparr>
      | Inr (n, buffer) \<Rightarrow>
          (if n = 0 \<or> n > INPUT_BUFFER_LENGTH then it
           else case decode_input_report (take n buffer) of
             None \<Rightarrow> it
           | Some event \<Rightarrow>
               (let it = (case event of
                      BatteryChanged battery \<Rightarrow> it\<lparr>it_battery := Some (bev_level battery)\<rparr>
                    | _ \<Rightarrow> it)
                in it\<lparr>it_events := it_events it @ [event]\<rparr>)))"

definition input_thread_new :: input_thread where
  "input_thread_new = \<lparr>it_battery = None, it_available = True, it_events = [], it_running = True\<rparr>"

text \<open>What the subscription receives before the timeout.\<close>

datatype received = ReceivedEvent input_event | ReceivedLagged nat | ReceivedClosed

fun await_battery :: "received list \<Rightarrow> (driver_error, u8) result" where
  "await_battery [] = Inl BatteryTimeout"
| "await_battery (ReceivedEvent (BatteryChanged event) # rest) = Inr (bev_level event)"
| "await_battery (ReceivedEvent _ # rest) = await_battery rest"
| "await_battery (ReceivedLagged _ # rest) = await_battery rest"
| "await_battery (ReceivedClosed # rest) = Inl InputUnavailable"

definition handle_read_battery :: "transport_kind \<Rightarrow> input_thread \<Rightarrow> received list \<Rightarrow> (driver_error, u8) result" where
  "handle_read_battery kind it receipts =
     (if kind \<noteq> Receiver then Inl BatteryUnavailable
      else case it_battery it of
        Some level \<Rightarrow> Inr level
      | None \<Rightarrow> (if \<not> it_available it then Inl InputUnavailable else await_battery receipts))"

section \<open>The queue answers in order\<close>

lemma worker_run_snoc:
  "worker_run w (cs @ [c]) s =
     (case worker_run w cs s of None \<Rightarrow> None
      | Some (rs, t) \<Rightarrow> (case dispatch w c t of None \<Rightarrow> None | Some (r, u) \<Rightarrow> Some (rs @ [r], u)))"
  by (induction cs arbitrary: s) (auto split: option.split prod.split)

definition mouse_inv :: "'s worker \<Rightarrow> 's \<Rightarrow> 's mouse \<Rightarrow> bool" where
  "mouse_inv w s0 h \<longleftrightarrow>
     length (mh_queue h) \<le> COMMAND_QUEUE_CAPACITY
     \<and> (mh_alive h \<longrightarrow> mh_lost h = []) \<and> (\<not> mh_alive h \<longrightarrow> mh_queue h = [])
     \<and> map fst (mh_served h) @ mh_lost h @ map fst (mh_queue h) = [0..<mh_next h]
     \<and> worker_run w (map (fst \<circ> snd) (mh_served h)) s0 = Some (map (snd \<circ> snd) (mh_served h), mh_env h)"

lemma mouse_inv_new: "mouse_inv w s0 (mouse_new s0)"
  by (simp add: mouse_inv_def mouse_new_def)

lemma mouse_inv_submit:
  assumes "mouse_inv w s0 h" and "request_submit c h = (r, h')"
  shows "mouse_inv w s0 h'"
proof (cases "mh_alive h \<and> length (mh_queue h) < COMMAND_QUEUE_CAPACITY")
  case True
  with assms have h': "h' = h\<lparr>mh_queue := mh_queue h @ [(mh_next h, c)], mh_next := Suc (mh_next h)\<rparr>"
    by (auto simp: request_submit_def split: if_splits)
  from True assms(1) have "mh_lost h = []" "map fst (mh_served h) @ map fst (mh_queue h) = [0..<mh_next h]"
    by (auto simp: mouse_inv_def)
  with True assms(1) show ?thesis unfolding h' by (simp add: mouse_inv_def)
next
  case False
  with assms have "h' = h" by (auto simp: request_submit_def split: if_splits)
  with assms(1) show ?thesis by simp
qed

lemma mouse_inv_serve:
  assumes "mouse_inv w s0 h" and "worker_serve w h = Some h'"
  shows "mouse_inv w s0 h'"
proof -
  from assms(2) obtain ticket c queue r env where alive: "mh_alive h" and q: "mh_queue h = (ticket, c) # queue"
    and d: "dispatch w c (mh_env h) = Some (r, env)"
    and h': "h' = h\<lparr>mh_env := env, mh_queue := queue, mh_served := mh_served h @ [(ticket, c, r)]\<rparr>"
    by (auto simp: worker_serve_def split: if_splits list.splits option.splits)
  from assms(1) alive q d show ?thesis
    unfolding h' by (auto simp: mouse_inv_def worker_run_snoc)
qed

lemma mouse_inv_end: "mouse_inv w s0 h \<Longrightarrow> mh_alive h \<Longrightarrow> mouse_inv w s0 (worker_end h)"
  by (auto simp: mouse_inv_def worker_end_def)

lemma mouse_inv_reachable:
  assumes "(mouse_step w)\<^sup>*\<^sup>* (mouse_new s0) h"
  shows "mouse_inv w s0 h"
  using assms
proof (induction rule: rtranclp_induct)
  case base
  show ?case by (rule mouse_inv_new)
next
  case (step h h')
  from step(2,3) show ?case
    by (cases rule: mouse_stepE)
       (auto intro: mouse_inv_submit mouse_inv_serve mouse_inv_end)
qed

text \<open>Every accepted command is answered at most once, and has an answer once it has left the queue.\<close>

lemma mouse_inv_response:
  assumes "mouse_inv w s0 h" and "ticket < mh_next h" and "ticket \<notin> set (map fst (mh_queue h))"
  shows "response h ticket \<noteq> None"
proof -
  from assms have "ticket \<in> set (map fst (mh_served h) @ mh_lost h @ map fst (mh_queue h))"
    by (simp add: mouse_inv_def)
  with assms(3) have "ticket \<in> fst ` set (mh_served h) \<or> ticket \<in> set (mh_lost h)" by auto
  then show ?thesis
    by (auto simp: response_def split: option.splits dest!: weak_map_of_SomeI)
qed

text \<open>With a clock that moves, a live worker empties its queue.\<close>

context feature_clock
begin

lemma worker_drains:
  assumes "w_io w = io" and "poll_interval (w_policy w) \<noteq> 0" and "mh_alive h"
  shows "\<exists>h'. (mouse_step w)\<^sup>*\<^sup>* h h' \<and> mh_queue h' = [] \<and> mh_next h' = mh_next h \<and> mh_alive h'"
  using assms(3)
proof (induction "mh_queue h" arbitrary: h)
  case Nil
  then show ?case by (metis rtranclp.rtrancl_refl)
next
  case (Cons x queue)
  obtain ticket c where x: "x = (ticket, c)" by force
  from returns_dispatch [OF assms(1,2), of c] obtain r env where d: "dispatch w c (mh_env h) = Some (r, env)"
    unfolding returns_def by blast
  let ?h = "h\<lparr>mh_env := env, mh_queue := queue, mh_served := mh_served h @ [(ticket, c, r)]\<rparr>"
  have s: "worker_serve w h = Some ?h"
    using Cons d x by (simp add: worker_serve_def flip: Cons.hyps(2))
  from Cons.hyps(1) [of ?h] Cons.prems obtain h' where
    h': "(mouse_step w)\<^sup>*\<^sup>* ?h h'" "mh_queue h' = []" "mh_next h' = mh_next h" "mh_alive h'" by auto
  from mouse_step.serve [OF s] h'(1) have "(mouse_step w)\<^sup>*\<^sup>* h h'" by (rule converse_rtranclp_into_rtranclp)
  with h' show ?case by blast
qed

end

section \<open>The battery\<close>

text \<open>The cache holds the level of the last battery event broadcast, and levels are percentages.\<close>

definition last_level :: "input_event list \<Rightarrow> u8 option" where
  "last_level events =
     fold (\<lambda>e acc. case e of BatteryChanged b \<Rightarrow> Some (bev_level b) | _ \<Rightarrow> acc) events None"

lemma last_level_snoc: "last_level (events @ [e]) =
    (case e of BatteryChanged b \<Rightarrow> Some (bev_level b) | _ \<Rightarrow> last_level events)"
  by (simp add: last_level_def split: input_event.split)

definition percentages :: "input_event list \<Rightarrow> bool" where
  "percentages events \<longleftrightarrow> (\<forall>b. BatteryChanged b \<in> set events \<longrightarrow> bev_level b \<le> 100)"

lemma decoded_level:
  assumes "decode_input_report p = Some (BatteryChanged b)"
  shows "bev_level b \<le> 100"
proof -
  have ten: "\<forall>x :: u8. x \<le> 10 \<longrightarrow> x * 10 \<le> 100" unfolding all_u8 by code_simp
  from assms have "event_image (BatteryChanged b) (take 5 p)" by (simp add: decode_input_report_eq_Some)
  with ten show ?thesis by auto
qed

definition input_inv :: "input_thread \<Rightarrow> bool" where
  "input_inv it \<longleftrightarrow> it_battery it = last_level (it_events it) \<and> percentages (it_events it)"

lemma input_inv_turn: "input_inv it \<Longrightarrow> input_inv (input_turn read it)"
  using decoded_level
  by (fastforce simp: input_inv_def input_turn_def percentages_def last_level_snoc Let_def
      split: sum.split prod.split option.split input_event.split)

lemma input_inv_run: "input_inv (fold input_turn reads input_thread_new)"
proof (induction reads rule: rev_induct)
  case Nil
  show ?case by (simp add: input_inv_def input_thread_new_def last_level_def percentages_def)
qed (simp add: input_inv_turn)

lemma last_level_le: "percentages events \<Longrightarrow> last_level events = Some level \<Longrightarrow> level \<le> 100"
proof (induction events arbitrary: level rule: rev_induct)
  case (snoc e events)
  then show ?case
    by (auto simp: last_level_snoc percentages_def split: input_event.splits)
qed (simp add: last_level_def)

lemma await_battery_Ok:
  "await_battery receipts = Inr level \<Longrightarrow> \<exists>b. ReceivedEvent (BatteryChanged b) \<in> set receipts \<and> level = bev_level b"
  by (induction receipts rule: await_battery.induct) auto

section \<open>Properties\<close>

text \<open>C29: In every reachable state of a handle the command queue is bounded by 32 and the tickets of the
  answered, the lost and the waiting commands are, in this order, exactly the tickets handed out: no
  command is answered twice, overtaken or forgotten; and the answers are those the worker gives when
  it serves the answered commands one after the other from the initial environment.\<close>

theorem commands_answered_in_order:
  assumes "(mouse_step w)\<^sup>*\<^sup>* (mouse_new s0) h"
  shows "length (mh_queue h) \<le> 32
    \<and> map fst (mh_served h) @ mh_lost h @ map fst (mh_queue h) = [0..<mh_next h]
    \<and> worker_run w (map (fst \<circ> snd) (mh_served h)) s0 = Some (map (snd \<circ> snd) (mh_served h), mh_env h)"
  using mouse_inv_reachable [OF assms] by (simp add: mouse_inv_def COMMAND_QUEUE_CAPACITY_def)

text \<open>A battery read over the handle succeeds only on the receiver, and the level is a percentage:
  that of the last battery report the input thread decoded, or of one it broadcast while the read
  waited.\<close>

theorem battery_read_level:
  assumes "handle_read_battery kind (fold input_turn reads input_thread_new) receipts = Inr level"
    and "\<forall>e. ReceivedEvent e \<in> set receipts \<longrightarrow> (\<exists>p. decode_input_report p = Some e)"
  shows "kind = Receiver \<and> level \<le> 100
    \<and> (last_level (it_events (fold input_turn reads input_thread_new)) = Some level
       \<or> (\<exists>b. ReceivedEvent (BatteryChanged b) \<in> set receipts \<and> level = bev_level b))"
proof -
  let ?it = "fold input_turn reads input_thread_new"
  from assms(1) have k: "kind = Receiver"
    and c: "it_battery ?it = Some level \<or> await_battery receipts = Inr level"
    by (auto simp: handle_read_battery_def split: if_splits option.splits)
  note inv = input_inv_run [of reads, unfolded input_inv_def]
  from c show ?thesis
  proof
    assume "it_battery ?it = Some level"
    then show ?thesis using k inv last_level_le by metis
  next
    assume "await_battery receipts = Inr level"
    from await_battery_Ok [OF this] obtain b where
      b: "ReceivedEvent (BatteryChanged b) \<in> set receipts" "level = bev_level b" by blast
    with assms(2) decoded_level have "level \<le> 100" by blast
    with b k show ?thesis by blast
  qed
qed

section \<open>Witnesses\<close>

lemma commands_answered_in_order_witness:
  "\<exists>h. (mouse_step (\<lparr>w_io = scripted_io, w_policy = policy_default, w_kind = Wired\<rparr>))\<^sup>*\<^sup>*
         (mouse_new \<lparr>sc_steps = [], sc_clock = 0\<rparr>) h
    \<and> mh_queue h = [(0, CmdProfileMetadata)] \<and> map fst (mh_served h) @ mh_lost h @ [0] = [0..<1]"
proof -
  let ?w = "\<lparr>w_io = scripted_io, w_policy = policy_default, w_kind = Wired\<rparr>"
  let ?s = "\<lparr>sc_steps = [], sc_clock = 0\<rparr>"
  let ?h = "(mouse_new ?s)\<lparr>mh_queue := [(0, CmdProfileMetadata)], mh_next := 1\<rparr>"
  have "request_submit CmdProfileMetadata (mouse_new ?s) = (Inr 0, ?h)"
    by (simp add: request_submit_def mouse_new_def COMMAND_QUEUE_CAPACITY_def)
  then have "(mouse_step ?w)\<^sup>*\<^sup>* (mouse_new ?s) ?h" by (intro r_into_rtranclp mouse_step.submit)
  moreover from commands_answered_in_order [OF this]
  have "map fst (mh_served ?h) @ mh_lost ?h @ [0] = [0..<1]" by simp
  ultimately show ?thesis by force
qed

lemma battery_read_level_witness:
  "handle_read_battery Receiver (fold input_turn [Inr (5, [0x03, 0x10, 0x40, 0x01, 7])] input_thread_new) []
     = Inr 70 \<and> (70 :: u8) \<le> 100"
proof -
  have "handle_read_battery Receiver (fold input_turn [Inr (5, [0x03, 0x10, 0x40, 0x01, 7])] input_thread_new) []
     = Inr 70" by code_simp
  with battery_read_level [OF this] show ?thesis by simp
qed

end
