(* ===== verification/X3_Capture.thy ===== *)
theory X3_Capture
  imports X3_Manager_Ops X3_Registry_Facts
begin

text \<open>
  Capturing every profile of a mouse (\<^verbatim>\<open>refresh.rs\<close>) and the exact metadata write it rests on
  (\<^verbatim>\<open>verification.rs\<close>). A capture enables and activates each profile in turn, reads its complete
  image and always writes the original metadata back.
\<close>

section \<open>Running to a result\<close>

text \<open>\<^verbatim>\<open>let r = async { m }.await\<close>: the result as a value.\<close>

definition attemptp :: "('s, 'e, 'a) prog \<Rightarrow> ('s, 'f, ('e, 'a) result) prog" where
  "attemptp m s = (case m s of (r, s') \<Rightarrow> (Inr r, s'))"

lemma thenp_attemptp: "thenp (attemptp m) f s = (case m s of (r, s') \<Rightarrow> f r s')"
  by (simp add: thenp_def attemptp_def split: prod.split)

definition all_profiles :: "profile_id list" where
  "all_profiles = map ProfileId [1, 2, 3, 4, 5]"

definition MAX_PROFILE :: profile_id where
  "MAX_PROFILE = ProfileId PROFILE_MAX"

definition metadata_for :: "profile_id \<Rightarrow> profile_id \<Rightarrow> profile_metadata manager_result" where
  "metadata_for current maximum = map_err (ProtocolFailure ''profile metadata'') (metadata_new current maximum)"

lemma wf_profile_mem: "wf_profile p \<longleftrightarrow> p \<in> set all_profiles"
proof (cases p)
  case (ProfileId v)
  have "\<forall>v :: u8. 1 \<le> v \<and> v \<le> 5 \<longleftrightarrow> v \<in> {1, 2, 3, 4, 5}" unfolding all_u8 by code_simp
  with ProfileId show ?thesis by (auto simp: wf_profile_def all_profiles_def)
qed

section \<open>Exact metadata writes\<close>

definition write_exact_metadata :: "'w session \<Rightarrow> profile_metadata \<Rightarrow> ('w, manager_error, profile_metadata) prog" where
  "write_exact_metadata session expected =
     thenp (ss_write_profile_metadata session expected) (\<lambda>w.
     case w of
       WriteReadback actual \<Rightarrow>
         if actual = expected then okp actual
         else errp (VerificationMismatch ''profile metadata'' (Some (meta_current expected)))
     | WriteAcknowledged \<Rightarrow>
         errp (VerificationMismatch ''profile metadata'' (Some (meta_current expected))))"

section \<open>The capture\<close>

record profile_capture =
  pc_original_metadata :: profile_metadata
  pc_restored_metadata :: profile_metadata
  pc_temporarily_expanded :: bool
  pc_profiles :: "(profile_id, refreshed_profile) btree"

definition observed_only :: "'a \<Rightarrow> timestamp \<Rightarrow> 'a resource_state" where
  "observed_only v time =
     resource_empty\<lparr>res_observed := Some \<lparr>obs_value = v, obs_source = UsbReadback, obs_at = time\<rparr>\<rparr>"

definition evidence_of :: "timestamp \<Rightarrow> refreshed_profile \<Rightarrow> profile_state" where
  "evidence_of time refreshed =
     profile_state_empty
       \<lparr>ps_dpi := observed_only (rf_dpi refreshed) time,
        ps_preferences := observed_only (rf_preferences refreshed) time,
        ps_buttons := observed_only (rf_buttons refreshed) time,
        ps_polling_rate := observed_only (rf_polling_rate refreshed) time\<rparr>"

definition into_evidence :: "profile_capture \<Rightarrow> timestamp \<Rightarrow> captured_profile_image" where
  "into_evidence c time =
     \<lparr>cap_profile_metadata = observed_only (pc_restored_metadata c) time,
      cap_profiles = bt_map_values (evidence_of time) (pc_profiles c)\<rparr>"

text \<open>The loop over the profiles, with the profile the mouse is on.\<close>

fun capture_loop ::
  "'w session \<Rightarrow> profile_id \<Rightarrow> profile_id list \<Rightarrow> profile_id \<Rightarrow> (profile_id, refreshed_profile) btree
     \<Rightarrow> ('w, manager_error, (profile_id, refreshed_profile) btree) prog" where
  "capture_loop session maximum [] current profiles = okp profiles"
| "capture_loop session maximum (target # targets) current profiles =
     thenp (if current \<noteq> target
            then thenp (liftp (metadata_for target maximum)) (\<lambda>metadata.
                 thenp (write_exact_metadata session metadata) (\<lambda>actual. okp (meta_current actual)))
            else okp current) (\<lambda>current.
     thenp (ss_read_profile session target) (\<lambda>snapshot.
     if meta_current (snap_persistent_metadata snapshot) \<noteq> target
        \<or> meta_maximum (snap_persistent_metadata snapshot) \<noteq> maximum
     then errp (VerificationMismatch ''complete profile refresh'' (Some target))
     else thenp (ss_read_live_polling_rate session target) (\<lambda>polling_rate.
       capture_loop session maximum targets current
         (bt_insert target \<lparr>rf_dpi = snap_dpi snapshot, rf_preferences = snap_preferences snapshot,
            rf_buttons = snap_buttons snapshot, rf_polling_rate = polling_rate\<rparr> profiles))))"

definition capture_all_profile_images ::
  "'w session \<Rightarrow> profile_id \<Rightarrow> profile_id \<Rightarrow> ('w, manager_error, (profile_id, refreshed_profile) btree) prog" where
  "capture_all_profile_images session original_current maximum =
     capture_loop session maximum
       (original_current # filter (\<lambda>profile. profile \<noteq> original_current) all_profiles) original_current []"

definition capture_all_profiles :: "'w session \<Rightarrow> ('w, manager_error, profile_capture) prog" where
  "capture_all_profiles session =
     (if ss_transport session = Ble
      then errp (UnsupportedOperation ''capture-all-profiles'' (ss_transport session))
      else
        thenp (ss_read_profile_metadata session) (\<lambda>original.
        thenp (liftp (metadata_for (meta_current original) MAX_PROFILE)) (\<lambda>expanded.
        let temporarily_expanded = (meta_maximum original \<noteq> MAX_PROFILE)
        in thenp (attemptp
             (thenp (if temporarily_expanded
                     then thenp (write_exact_metadata session expanded) (\<lambda>_. okp ()) else okp ()) (\<lambda>_.
              capture_all_profile_images session (meta_current original) MAX_PROFILE))) (\<lambda>captured.
           thenp (attemptp (write_exact_metadata session original)) (\<lambda>restored.
           case (captured, restored) of
             (Inr profiles, Inr restored_metadata) \<Rightarrow>
               okp \<lparr>pc_original_metadata = original, pc_restored_metadata = restored_metadata,
                    pc_temporarily_expanded = temporarily_expanded, pc_profiles = profiles\<rparr>
           | (Inl refresh, Inr _) \<Rightarrow> errp refresh
           | (Inr _, Inl restore) \<Rightarrow> errp (RefreshRestorationFailed restore)
           | (Inl refresh, Inl restore) \<Rightarrow> errp (RefreshRestoreFailed refresh restore))))))"

section \<open>Refreshing the document\<close>

record full_refresh_outcome =
  fr_original_metadata :: profile_metadata
  fr_restored_metadata :: profile_metadata
  fr_temporarily_expanded :: bool
  fr_profiles :: "(profile_id, refreshed_profile) btree"
  fr_drift :: "(profile_id, profile_resource_kind list) btree"
  fr_profile_metadata_drift :: bool

text \<open>One profile of a refresh: every resource reconciled, the resources that drifted in order.\<close>

definition refresh_profile ::
  "refreshed_profile \<Rightarrow> timestamp \<Rightarrow> profile_state \<Rightarrow> profile_resource_kind list \<times> profile_state" where
  "refresh_profile refreshed time p =
     (let (dpi_drift, dpi) = reconcile_observation (ps_dpi p) (rf_dpi refreshed) time;
          (prefs_drift, prefs) = reconcile_observation (ps_preferences p) (rf_preferences refreshed) time;
          (buttons_drift, buttons) = reconcile_observation (ps_buttons p) (rf_buttons refreshed) time;
          (rate_drift, rate) = reconcile_observation (ps_polling_rate p) (rf_polling_rate refreshed) time
      in ((if dpi_drift then [KindDpi] else []) @ (if prefs_drift then [KindPreferences] else [])
            @ (if buttons_drift then [KindButtons] else []) @ (if rate_drift then [KindPollingRate] else []),
          p\<lparr>ps_dpi := dpi, ps_preferences := prefs, ps_buttons := buttons, ps_polling_rate := rate\<rparr>))"

definition refresh_entry ::
  "timestamp \<Rightarrow> profile_id \<times> refreshed_profile
     \<Rightarrow> (profile_id, profile_resource_kind list) btree \<times> (profile_id, profile_state) btree
     \<Rightarrow> (profile_id, profile_resource_kind list) btree \<times> (profile_id, profile_state) btree" where
  "refresh_entry time entry acc =
     (case (entry, acc) of ((profile, refreshed), (drift, profiles)) \<Rightarrow>
        (case refresh_profile refreshed time
                (case bt_get profiles profile of Some p \<Rightarrow> p | None \<Rightarrow> profile_state_empty) of
           (mismatches, p) \<Rightarrow>
             (if mismatches = [] then drift else bt_insert profile mismatches drift,
              bt_insert profile p profiles)))"

definition apply_refresh ::
  "device_id \<Rightarrow> profile_capture \<Rightarrow> timestamp \<Rightarrow> state_file \<Rightarrow> full_refresh_outcome manager_result \<times> state_file" where
  "apply_refresh device c time st =
     (case bt_get (sf_devices st) device of
        None \<Rightarrow> (Inl (NoSuchDevice device), st)
      | Some dev \<Rightarrow>
          (let (metadata_drift, metadata) =
                 reconcile_observation (ds_profile_metadata dev) (pc_restored_metadata c) time;
               (drift, profiles) = fold (refresh_entry time) (pc_profiles c) ([], ds_profiles dev)
           in (Inr \<lparr>fr_original_metadata = pc_original_metadata c,
                   fr_restored_metadata = pc_restored_metadata c,
                   fr_temporarily_expanded = pc_temporarily_expanded c, fr_profiles = pc_profiles c,
                   fr_drift = drift, fr_profile_metadata_drift = metadata_drift\<rparr>,
               st\<lparr>sf_devices := bt_insert device
                   (dev\<lparr>ds_profile_metadata := metadata, ds_profiles := profiles\<rparr>) (sf_devices st)\<rparr>)))"

definition persist_profile_refresh ::
  "'w backend \<Rightarrow> device_id \<Rightarrow> profile_capture \<Rightarrow> ('w, full_refresh_outcome) mop" where
  "persist_profile_refresh be device c =
     thenp (now_op be) (\<lambda>time. mutate_inner (apply_refresh device c time))"

definition refresh_all_profiles :: "'w backend \<Rightarrow> device_id \<Rightarrow> ('w, full_refresh_outcome) mop" where
  "refresh_all_profiles be device =
     open_locked be device ''refresh_all_profiles'' (\<lambda>_ session.
     if ss_transport session = Ble
     then errp (UnsupportedOperation ''refresh-all-profiles'' (ss_transport session))
     else thenp (in_world (capture_all_profiles session)) (\<lambda>c.
          persist_profile_refresh be device c))"

section \<open>A capture restores the metadata\<close>

lemma write_exact_metadata_Ok:
  "write_exact_metadata session expected s = (Inr actual, s') \<longleftrightarrow>
     actual = expected \<and> ss_write_profile_metadata session expected s = (Inr (WriteReadback expected), s')"
  by (auto simp: write_exact_metadata_def prog_defs split: prod.splits sum.splits session_write.splits if_splits)

lemma write_exact_metadata_world:
  "snd (write_exact_metadata session expected s) = snd (ss_write_profile_metadata session expected s)"
  by (auto simp: write_exact_metadata_def prog_defs split: prod.splits sum.splits session_write.splits if_splits)

lemma capture_loop_step:
  assumes "capture_loop session maximum (target # targets) current profiles s = (Inr out, s')"
  obtains current' rate s1 and snapshot :: profile_snapshot where
    "capture_loop session maximum targets current'
       (bt_insert target \<lparr>rf_dpi = snap_dpi snapshot, rf_preferences = snap_preferences snapshot,
          rf_buttons = snap_buttons snapshot, rf_polling_rate = rate\<rparr> profiles) s1 = (Inr out, s')"
proof -
  from assms obtain current' s3 and snapshot :: profile_snapshot where
    body: "(if meta_current (snap_persistent_metadata snapshot) \<noteq> target
        \<or> meta_maximum (snap_persistent_metadata snapshot) \<noteq> maximum
     then errp (VerificationMismatch ''complete profile refresh'' (Some target))
     else thenp (ss_read_live_polling_rate session target) (\<lambda>polling_rate.
       capture_loop session maximum targets current'
         (bt_insert target \<lparr>rf_dpi = snap_dpi snapshot, rf_preferences = snap_preferences snapshot,
            rf_buttons = snap_buttons snapshot, rf_polling_rate = polling_rate\<rparr> profiles))) s3 = (Inr out, s')"
    unfolding capture_loop.simps thenp_eq_Inr by blast
  have ok: "\<not> (meta_current (snap_persistent_metadata snapshot) \<noteq> target
        \<or> meta_maximum (snap_persistent_metadata snapshot) \<noteq> maximum)"
    using body by (auto simp only: errp_def if_True split: if_split_asm)
  from body obtain rate s4 where "capture_loop session maximum targets current'
       (bt_insert target \<lparr>rf_dpi = snap_dpi snapshot, rf_preferences = snap_preferences snapshot,
          rf_buttons = snap_buttons snapshot, rf_polling_rate = rate\<rparr> profiles) s4 = (Inr out, s')"
    unfolding if_not_P [OF ok] thenp_eq_Inr by blast
  then show ?thesis by (rule that)
qed

lemma capture_loop_keys:
  assumes "capture_loop session maximum targets current profiles s = (Inr out, s')"
  shows "fst ` set out = fst ` set profiles \<union> set targets"
  using assms
proof (induction targets arbitrary: current profiles s)
  case (Cons target targets)
  from capture_loop_step [OF Cons.prems] obtain current' r s1 where
    "capture_loop session maximum targets current' (bt_insert target r profiles) s1 = (Inr out, s')" by metis
  from Cons.IH [OF this] show ?case by (simp add: fst_set_bt_insert)
qed (auto simp: okp_def)

lemma capture_loop_ok:
  assumes "capture_loop session maximum targets current profiles s = (Inr out, s')" and "bt_ok profiles"
  shows "bt_ok out"
  using assms
proof (induction targets arbitrary: current profiles s)
  case (Cons target targets)
  from capture_loop_step [OF Cons.prems(1)] obtain current' r s1 where
    "capture_loop session maximum targets current' (bt_insert target r profiles) s1 = (Inr out, s')" by metis
  from Cons.IH [OF this] Cons.prems(2) show ?case by (simp add: bt_ok_insert)
qed (auto simp: okp_def)

lemma capture_images_keys:
  assumes "capture_all_profile_images session current maximum s = (Inr out, s')" and "current \<in> set all_profiles"
  shows "map fst out = all_profiles"
proof -
  from assms(1) have run: "capture_loop session maximum
      (current # filter (\<lambda>p. p \<noteq> current) all_profiles) current [] s = (Inr out, s')"
    by (simp add: capture_all_profile_images_def)
  from capture_loop_ok [OF run] have "bt_ok out" by (simp add: bt_ok_def)
  then have sorted: "sorted (map fst out)" "distinct (map fst out)"
    by (simp_all add: bt_ok_def strict_sorted_iff)
  from capture_loop_keys [OF run] assms(2) have "set (map fst out) = set all_profiles" by auto
  moreover have "sorted all_profiles" "distinct all_profiles" by (code_simp+)
  ultimately show ?thesis using sorted by (metis sorted_distinct_set_unique)
qed

text \<open>How a capture ends: unless it failed before its first write, its last act is a write of the
  original metadata, and unless the error names the restoration, that write has been read back.\<close>

definition restores :: "'w session \<Rightarrow> profile_metadata \<Rightarrow> (manager_error, profile_capture) result \<Rightarrow> 'w \<Rightarrow> bool" where
  "restores session original r s' \<longleftrightarrow>
     (\<exists>w s2. ss_write_profile_metadata session original s2 = (w, s')
        \<and> ((\<exists>e. r = Inl (RefreshRestorationFailed e)) \<or> (\<exists>e e'. r = Inl (RefreshRestoreFailed e e'))
           \<or> w = Inr (WriteReadback original)))"

lemma write_exact_result:
  assumes "write_exact_metadata session original s2 = (r, s')"
  obtains w where "ss_write_profile_metadata session original s2 = (w, s')"
    and "\<And>x. r = Inr x \<Longrightarrow> w = Inr (WriteReadback original)"
proof -
  obtain w where w: "ss_write_profile_metadata session original s2 = (w, s')"
    using write_exact_metadata_world [of session original s2] assms by (metis prod.collapse snd_conv)
  show ?thesis
    by (rule that [OF w]) (use assms w write_exact_metadata_Ok in \<open>metis prod.inject\<close>)
qed

lemma metadata_for_max:
  assumes "wf_metadata original"
  shows "metadata_for (meta_current original) MAX_PROFILE
    = Inr \<lparr>meta_current = meta_current original, meta_maximum = MAX_PROFILE\<rparr>"
proof -
  have "metadata_new (meta_current original) MAX_PROFILE
      = Inr \<lparr>meta_current = meta_current original, meta_maximum = MAX_PROFILE\<rparr>"
    using assms by (simp add: wf_metadata_def MAX_PROFILE_def wf_profile_def PROFILE_MAX_def)
  then show ?thesis by (simp only: metadata_for_def map_err_def sum.case)
qed

definition capture_result ::
  "profile_metadata \<Rightarrow> (manager_error, (profile_id, refreshed_profile) btree) result
     \<Rightarrow> (manager_error, profile_metadata) result \<Rightarrow> (manager_error, profile_capture) result" where
  "capture_result original captured restored =
     (case (captured, restored) of
        (Inr profiles, Inr restored_metadata) \<Rightarrow>
          Inr \<lparr>pc_original_metadata = original, pc_restored_metadata = restored_metadata,
               pc_temporarily_expanded = (meta_maximum original \<noteq> MAX_PROFILE), pc_profiles = profiles\<rparr>
      | (Inl refresh, Inr _) \<Rightarrow> Inl refresh
      | (Inr _, Inl restore) \<Rightarrow> Inl (RefreshRestorationFailed restore)
      | (Inl refresh, Inl restore) \<Rightarrow> Inl (RefreshRestoreFailed refresh restore))"

lemma capture_run:
  assumes "ss_transport session \<noteq> Ble" and "ss_read_profile_metadata session s = (Inr original, s1)"
    and "wf_metadata original"
  obtains captured restored s2 s3 where
    "thenp (if meta_maximum original \<noteq> MAX_PROFILE
        then thenp (write_exact_metadata session \<lparr>meta_current = meta_current original, meta_maximum = MAX_PROFILE\<rparr>)
               (\<lambda>_. okp ()) else okp ())
       (\<lambda>_. capture_all_profile_images session (meta_current original) MAX_PROFILE) s1 = (captured, s2)"
    and "write_exact_metadata session original s2 = (restored, s3)"
    and "capture_all_profiles session s = (capture_result original captured restored, s3)"
proof -
  let ?expanded = "\<lparr>meta_current = meta_current original, meta_maximum = MAX_PROFILE\<rparr>"
  let ?body = "thenp (if meta_maximum original \<noteq> MAX_PROFILE
                     then thenp (write_exact_metadata session ?expanded) (\<lambda>_. okp ()) else okp ()) (\<lambda>_.
              capture_all_profile_images session (meta_current original) MAX_PROFILE)"
  obtain captured s2 where b: "?body s1 = (captured, s2)" by (metis surj_pair)
  obtain restored s3 where w: "write_exact_metadata session original s2 = (restored, s3)" by (metis surj_pair)
  have "capture_all_profiles session s = (capture_result original captured restored, s3)"
    using assms(1,2) b w
    by (auto simp: capture_all_profiles_def thenp_def metadata_for_max [OF assms(3)] liftp_def attemptp_def
        Let_def okp_def errp_def capture_result_def split: sum.split)
  with that b w show ?thesis by blast
qed

lemma capture_restores:
  assumes "ss_transport session \<noteq> Ble" and "ss_read_profile_metadata session s = (Inr original, s1)"
    and "wf_metadata original"
  shows "restores session original (fst (capture_all_profiles session s)) (snd (capture_all_profiles session s))"
proof -
  obtain captured restored s2 s3 where w: "write_exact_metadata session original s2 = (restored, s3)"
    and run: "capture_all_profiles session s = (capture_result original captured restored, s3)"
    by (rule capture_run [OF assms])
  from write_exact_result [OF w] obtain r where r: "ss_write_profile_metadata session original s2 = (r, s3)"
    and v: "\<And>x. restored = Inr x \<Longrightarrow> r = Inr (WriteReadback original)" by blast
  show ?thesis unfolding run restores_def
    by (cases captured; cases restored) (use r v in \<open>auto simp: capture_result_def\<close>)
qed

lemma capture_complete:
  assumes "ss_transport session \<noteq> Ble" and "ss_read_profile_metadata session s = (Inr original, s1)"
    and "wf_metadata original" and "fst (capture_all_profiles session s) = Inr c"
  shows "pc_original_metadata c = original \<and> pc_restored_metadata c = original
    \<and> map fst (pc_profiles c) = all_profiles"
proof -
  obtain captured restored s2 s3 where
    body: "thenp (if meta_maximum original \<noteq> MAX_PROFILE
        then thenp (write_exact_metadata session \<lparr>meta_current = meta_current original, meta_maximum = MAX_PROFILE\<rparr>)
               (\<lambda>_. okp ()) else okp ())
       (\<lambda>_. capture_all_profile_images session (meta_current original) MAX_PROFILE) s1 = (captured, s2)"
    and w: "write_exact_metadata session original s2 = (restored, s3)"
    and run: "capture_all_profiles session s = (capture_result original captured restored, s3)"
    by (rule capture_run [OF assms(1-3)])
  from run assms(4) obtain profiles actual where cr: "captured = Inr profiles" "restored = Inr actual"
    and c: "pc_original_metadata c = original" "pc_restored_metadata c = actual" "pc_profiles c = profiles"
    by (auto simp: capture_result_def split: sum.splits)
  from body obtain sa where images:
      "capture_all_profile_images session (meta_current original) MAX_PROFILE sa = (Inr profiles, s2)"
    unfolding cr thenp_eq_Inr by blast
  have "meta_current original \<in> set all_profiles"
    using assms(3) by (simp add: wf_metadata_def wf_profile_mem)
  from capture_images_keys [OF images this] w c cr show ?thesis
    by (auto simp: write_exact_metadata_Ok)
qed

section \<open>Properties\<close>

text \<open>C24: Capturing every profile of a mouse always ends by writing the original metadata back: whatever
  fails on the way, the last thing the session is asked is that write, and unless the reported error
  says that the restoration failed, the mouse has read it back. A capture that succeeds holds all five
  profiles and the original metadata.\<close>

theorem capture_restores_metadata:
  assumes "ss_transport session \<noteq> Ble" and "ss_read_profile_metadata session s = (Inr original, s1)"
    and "wf_metadata original" and "capture_all_profiles session s = (r, s')"
  shows "(\<exists>w s2. ss_write_profile_metadata session original s2 = (w, s')
      \<and> (w = Inr (WriteReadback original)
         \<or> (\<exists>e. r = Inl (RefreshRestorationFailed e)) \<or> (\<exists>e e'. r = Inl (RefreshRestoreFailed e e'))))
    \<and> (case r of Inl _ \<Rightarrow> True | Inr c \<Rightarrow> pc_restored_metadata c = original
         \<and> map fst (pc_profiles c) = map ProfileId [1, 2, 3, 4, 5])"
  using capture_restores [OF assms(1-3)] capture_complete [OF assms(1-3)] assms(4)
  by (auto simp: restores_def all_profiles_def split: sum.split)

section \<open>A bench mouse\<close>

text \<open>A wired mouse that holds its metadata and one DPI image per profile, reads back what it is
  written, and keeps the DPI states written.\<close>

record bench =
  bm_metadata :: profile_metadata
  bm_dpis :: "(profile_id, dpi_state) btree"
  bm_writes :: "dpi_state list"

definition bench_dpi :: "bench \<Rightarrow> profile_id \<Rightarrow> dpi_state" where
  "bench_dpi b p = (case bt_get (bm_dpis b) p of Some st \<Rightarrow> st | None \<Rightarrow> (demo_dpi (PhysicalId []))
     \<lparr>dpi_profile := p, dpi_preserved_tail := replicate 25 0\<rparr>)"

definition bench_preferences :: "profile_id \<Rightarrow> preferences_state" where
  "bench_preferences p = \<lparr>prefs_profile = p, light_mode = 0, configuration = 0, deep_sleep = 0,
     host_color = (0, 0, 0), sleep_timer = 0, debounce = 0\<rparr>"

definition bench_buttons :: "profile_id \<Rightarrow> buttons_state" where
  "bench_buttons p = \<lparr>buttons_profile = p, buttons_slots = []\<rparr>"

definition bench_session :: "bench session" where
  "bench_session = \<lparr>ss_transport = Wired,
     ss_read_profile_metadata = getp bm_metadata,
     ss_read_profile = (\<lambda>p. getp (\<lambda>b. \<lparr>snap_persistent_metadata = bm_metadata b, snap_target_profile = p,
        snap_dpi = bench_dpi b p, snap_preferences = bench_preferences p,
        snap_buttons = bench_buttons p\<rparr>)),
     ss_read_dpi = (\<lambda>p. getp (\<lambda>b. bench_dpi b p)),
     ss_read_preferences = (\<lambda>p. okp (bench_preferences p)),
     ss_read_buttons = (\<lambda>p. okp (bench_buttons p)),
     ss_read_live_polling_rate = (\<lambda>_. okp Hz1000),
     ss_write_dpi = (\<lambda>st _ b. (Inr (WriteReadback st),
        b\<lparr>bm_dpis := bt_insert (dpi_profile st) st (bm_dpis b), bm_writes := bm_writes b @ [st]\<rparr>)),
     ss_write_preferences = (\<lambda>st _. okp (WriteReadback st)),
     ss_write_buttons = (\<lambda>st _. okp (WriteReadback st)),
     ss_write_polling_rate_unchecked = (\<lambda>_ rate _. okp (WriteReadback rate)),
     ss_write_profile_metadata = (\<lambda>m b. (Inr (WriteReadback m), b\<lparr>bm_metadata := m\<rparr>)),
     ss_read_battery = (\<lambda>_. errp (UnsupportedOperation ''read_battery'' Wired))\<rparr>"

definition bench_mouse :: bench where
  "bench_mouse = \<lparr>bm_metadata = \<lparr>meta_current = ProfileId 2, meta_maximum = ProfileId 3\<rparr>, bm_dpis = [],
     bm_writes = []\<rparr>"

lemma bench_sel [simp]:
  "ss_transport bench_session = Wired"
  "ss_read_profile_metadata bench_session b = (Inr (bm_metadata b), b)"
  "ss_read_profile bench_session p b = (Inr \<lparr>snap_persistent_metadata = bm_metadata b, snap_target_profile = p,
     snap_dpi = bench_dpi b p, snap_preferences = bench_preferences p, snap_buttons = bench_buttons p\<rparr>, b)"
  "ss_read_dpi bench_session p b = (Inr (bench_dpi b p), b)"
  "ss_read_live_polling_rate bench_session p b = (Inr Hz1000, b)"
  "ss_write_profile_metadata bench_session m b = (Inr (WriteReadback m), b\<lparr>bm_metadata := m\<rparr>)"
  "ss_write_dpi bench_session st v b = (Inr (WriteReadback st),
     b\<lparr>bm_dpis := bt_insert (dpi_profile st) st (bm_dpis b), bm_writes := bm_writes b @ [st]\<rparr>)"
  by (simp_all add: bench_session_def getp_def okp_def)

lemma bench_dpi_metadata [simp]: "bench_dpi (b\<lparr>bm_metadata := m\<rparr>) p = bench_dpi b p"
  by (simp add: bench_dpi_def)

lemma bench_same: "bm_metadata b = m \<Longrightarrow> b\<lparr>bm_metadata := m\<rparr> = b"
  by (cases b) simp

lemma bench_write_exact: "write_exact_metadata bench_session m b = (Inr m, b\<lparr>bm_metadata := m\<rparr>)"
  by (simp add: write_exact_metadata_def thenp_def okp_def)

lemma bench_loop:
  assumes "set targets \<subseteq> set all_profiles" and "bm_metadata b = \<lparr>meta_current = current, meta_maximum = MAX_PROFILE\<rparr>"
  shows "\<exists>out b'. capture_loop bench_session MAX_PROFILE targets current profiles b = (Inr out, b')"
  using assms
proof (induction targets arbitrary: current profiles b)
  case Nil
  then show ?case by (simp add: okp_def)
next
  case (Cons target targets)
  let ?m = "\<lparr>meta_current = target, meta_maximum = MAX_PROFILE\<rparr>"
  let ?r = "\<lparr>rf_dpi = bench_dpi b target, rf_preferences = bench_preferences target,
      rf_buttons = bench_buttons target, rf_polling_rate = Hz1000\<rparr>"
  have "wf_profile target" using Cons.prems(1) by (simp add: wf_profile_mem)
  then have new: "metadata_for target MAX_PROFILE = Inr ?m"
    using metadata_for_max [of ?m] by (simp add: wf_metadata_def MAX_PROFILE_def wf_profile_def PROFILE_MAX_def)
  have "capture_loop bench_session MAX_PROFILE (target # targets) current profiles b
      = capture_loop bench_session MAX_PROFILE targets target (bt_insert target ?r profiles)
          (b\<lparr>bm_metadata := ?m\<rparr>)"
    using Cons.prems(2) by (cases "current = target") (simp_all add: thenp_def liftp_def new bench_write_exact okp_def bench_same)
  with Cons.IH [of "b\<lparr>bm_metadata := ?m\<rparr>" target "bt_insert target ?r profiles"] Cons.prems(1)
  show ?case by simp
qed

lemma bench_capture:
  assumes "wf_metadata (bm_metadata b)"
  shows "\<exists>c b'. capture_all_profiles bench_session b = (Inr c, b')"
proof -
  let ?o = "bm_metadata b"
  let ?e = "\<lparr>meta_current = meta_current ?o, meta_maximum = MAX_PROFILE\<rparr>"
  have t: "ss_transport bench_session \<noteq> Ble" "ss_read_profile_metadata bench_session b = (Inr ?o, b)"
    by simp_all
  obtain captured restored s2 s3 where
    body: "thenp (if meta_maximum ?o \<noteq> MAX_PROFILE
        then thenp (write_exact_metadata bench_session ?e) (\<lambda>_. okp ()) else okp ())
       (\<lambda>_. capture_all_profile_images bench_session (meta_current ?o) MAX_PROFILE) b = (captured, s2)"
    and w: "write_exact_metadata bench_session ?o s2 = (restored, s3)"
    and run: "capture_all_profiles bench_session b = (capture_result ?o captured restored, s3)"
    by (rule capture_run [OF t assms])
  have start: "thenp (if meta_maximum ?o \<noteq> MAX_PROFILE
        then thenp (write_exact_metadata bench_session ?e) (\<lambda>_. okp ()) else okp ())
       (\<lambda>_. capture_all_profile_images bench_session (meta_current ?o) MAX_PROFILE) b
     = capture_all_profile_images bench_session (meta_current ?o) MAX_PROFILE (b\<lparr>bm_metadata := ?e\<rparr>)"
  proof (cases "meta_maximum ?o = MAX_PROFILE")
    case True
    then have e: "b\<lparr>bm_metadata := ?e\<rparr> = b" by (intro bench_same) (cases ?o, simp)
    show ?thesis unfolding e using True by (simp add: thenp_def okp_def)
  next
    case False
    then show ?thesis by (simp add: thenp_def bench_write_exact okp_def)
  qed
  have "\<exists>out b'. capture_all_profile_images bench_session (meta_current ?o) MAX_PROFILE (b\<lparr>bm_metadata := ?e\<rparr>)
      = (Inr out, b')"
    unfolding capture_all_profile_images_def
    by (rule bench_loop) (use assms in \<open>auto simp: wf_metadata_def wf_profile_mem\<close>)
  with body start obtain out where "captured = Inr out" by auto
  with run w show ?thesis by (auto simp: bench_write_exact capture_result_def)
qed

lemma capture_restores_metadata_witness:
  "\<exists>c. fst (capture_all_profiles bench_session bench_mouse) = Inr c
     \<and> map fst (pc_profiles c) = map ProfileId [1, 2, 3, 4, 5]"
proof -
  let ?run = "capture_all_profiles bench_session bench_mouse"
  let ?m = "\<lparr>meta_current = ProfileId 2, meta_maximum = ProfileId 3\<rparr>"
  have wf: "wf_metadata (bm_metadata bench_mouse)"
    by (simp add: bench_mouse_def wf_metadata_def wf_profile_def)
  obtain c where c: "?run = (Inr c, snd ?run)"
    using bench_capture [OF wf] by auto
  have "ss_transport bench_session \<noteq> Ble" "ss_read_profile_metadata bench_session bench_mouse = (Inr ?m, bench_mouse)"
    "wf_metadata ?m"
    by (simp_all add: bench_mouse_def wf_metadata_def wf_profile_def)
  from capture_restores_metadata [OF this c] have "map fst (pc_profiles c) = map ProfileId [1, 2, 3, 4, 5]" by simp
  with c show ?thesis by (metis fst_conv)
qed

definition bench_backend :: "bench backend" where
  "bench_backend = \<lparr>be_list = (\<lambda>_. okp [\<lparr>disc_endpoint = demo_endpoint, disc_connected = True\<rparr>]),
     be_open = (\<lambda>_. okp bench_session), be_now = (\<lambda>_. 100), be_lock = (\<lambda>_ _. okp ()),
     be_unlock = (\<lambda>_ w. w), be_crc = (\<lambda>_. 7)\<rparr>"

end
