(* ===== verification/X3_Verify.thy ===== *)
theory X3_Verify
  imports X3_Capture
begin

text \<open>
  The verification workflows (\<^verbatim>\<open>verification.rs\<close>): a profile reload and an interactive power
  cycle, with the two waiting loops. A wait that never ended would have no value; the monotonic clock
  and the sleep of the async runtime are a parameter.
\<close>

section \<open>Computations that may not return\<close>

type_synonym ('s, 'e, 'a) loopp = "'s \<Rightarrow> (('e, 'a) result \<times> 's) option"

definition returnp :: "('s, 'e, 'a) prog \<Rightarrow> ('s, 'e, 'a) loopp" where
  "returnp m s = Some (m s)"

definition thenl :: "('s, 'e, 'a) loopp \<Rightarrow> ('a \<Rightarrow> ('s, 'e, 'b) loopp) \<Rightarrow> ('s, 'e, 'b) loopp" where
  "thenl m f s = (case m s of None \<Rightarrow> None
     | Some (Inl e, s') \<Rightarrow> Some (Inl e, s') | Some (Inr x, s') \<Rightarrow> f x s')"

record 'w timer =
  tm_now :: "'w \<Rightarrow> duration"
  tm_sleep :: "duration \<Rightarrow> 'w \<Rightarrow> 'w"

definition POWER_CYCLE_POLL_INTERVAL :: duration where "POWER_CYCLE_POLL_INTERVAL = from_millis 250"
definition POWER_CYCLE_TIMEOUT :: duration where "POWER_CYCLE_TIMEOUT = from_secs 30"

section \<open>Reading and comparing a complete profile\<close>

definition alternate_profile :: "profile_metadata \<Rightarrow> profile_id \<Rightarrow> profile_id option" where
  "alternate_profile original target =
     (if meta_current original \<noteq> target then Some (meta_current original)
      else find (\<lambda>candidate. candidate \<noteq> target)
             (filter (\<lambda>p. p \<le> meta_maximum original) all_profiles))"

definition read_complete_profile ::
  "'w session \<Rightarrow> profile_id \<Rightarrow> ('w, manager_error, profile_snapshot \<times> polling_rate) prog" where
  "read_complete_profile session target =
     thenp (ss_read_profile session target) (\<lambda>snapshot.
     thenp (ss_read_live_polling_rate session target) (\<lambda>rate. okp (snapshot, rate)))"

definition first_mismatch ::
  "profile_snapshot \<Rightarrow> polling_rate \<Rightarrow> profile_snapshot \<Rightarrow> polling_rate \<Rightarrow> string option" where
  "first_mismatch initial initial_rate reloaded reloaded_rate =
     (if meta_maximum (snap_persistent_metadata initial) \<noteq> meta_maximum (snap_persistent_metadata reloaded)
      then Some ''profile metadata''
      else if snap_dpi initial \<noteq> snap_dpi reloaded then Some ''dpi''
      else if snap_preferences initial \<noteq> snap_preferences reloaded then Some ''preferences''
      else if snap_buttons initial \<noteq> snap_buttons reloaded then Some ''buttons''
      else if initial_rate \<noteq> reloaded_rate then Some ''polling rate''
      else None)"

section \<open>Recording an observation\<close>

definition observe_profile ::
  "profile_snapshot \<Rightarrow> polling_rate \<Rightarrow> persistence_verification option \<Rightarrow> timestamp \<Rightarrow> profile_state \<Rightarrow> profile_state" where
  "observe_profile snapshot rate persistence verified_at p =
     (let p = p\<lparr>ps_dpi := snd (reconcile_observation (ps_dpi p) (snap_dpi snapshot) verified_at)\<rparr>;
          p = p\<lparr>ps_preferences := snd (reconcile_observation (ps_preferences p) (snap_preferences snapshot) verified_at)\<rparr>;
          p = p\<lparr>ps_buttons := snd (reconcile_observation (ps_buttons p) (snap_buttons snapshot) verified_at)\<rparr>;
          p = p\<lparr>ps_polling_rate := snd (reconcile_observation (ps_polling_rate p) rate verified_at)\<rparr>
      in case persistence of
           Some (ProfileReloadVerified t) \<Rightarrow> profile_mark_reload_verified p t
         | Some (PowerCycleVerified t) \<Rightarrow> profile_mark_power_cycle_verified p t
         | _ \<Rightarrow> p)"

definition persist_profile_observation ::
  "device_id \<Rightarrow> profile_id \<Rightarrow> profile_snapshot \<Rightarrow> polling_rate \<Rightarrow> persistence_verification option
     \<Rightarrow> timestamp \<Rightarrow> ('w, unit) mop" where
  "persist_profile_observation device target snapshot rate persistence verified_at =
     mutate_inner (with_profile device target (\<lambda>p. ((),
       observe_profile snapshot rate persistence verified_at p)))"

record profile_verification_outcome =
  pv_profile :: profile_id
  pv_dpi :: "dpi_state write_outcome"
  pv_preferences :: "preferences_state write_outcome"
  pv_buttons :: "buttons_state write_outcome"
  pv_polling_rate :: "polling_rate write_outcome"

definition verification_outcome ::
  "profile_id \<Rightarrow> profile_snapshot \<Rightarrow> polling_rate \<Rightarrow> profile_snapshot \<Rightarrow> polling_rate \<Rightarrow> persistence_verification
     \<Rightarrow> profile_verification_outcome" where
  "verification_outcome target initial initial_rate reloaded reloaded_rate persistence =
     (let verification = \<lparr>ver_application = ReadbackVerified, ver_persistence = persistence\<rparr>
      in \<lparr>pv_profile = target,
          pv_dpi = \<lparr>wo_desired = snap_dpi initial, wo_observed = Some (snap_dpi reloaded),
            wo_verification = verification\<rparr>,
          pv_preferences = \<lparr>wo_desired = snap_preferences initial,
            wo_observed = Some (snap_preferences reloaded), wo_verification = verification\<rparr>,
          pv_buttons = \<lparr>wo_desired = snap_buttons initial, wo_observed = Some (snap_buttons reloaded),
            wo_verification = verification\<rparr>,
          pv_polling_rate = \<lparr>wo_desired = initial_rate, wo_observed = Some reloaded_rate,
            wo_verification = verification\<rparr>\<rparr>)"

text \<open>The common end of both workflows: compare, record, and answer.\<close>

definition conclude_verification ::
  "'w backend \<Rightarrow> device_id \<Rightarrow> profile_id \<Rightarrow> (timestamp \<Rightarrow> persistence_verification)
     \<Rightarrow> profile_snapshot \<times> polling_rate \<Rightarrow> profile_snapshot \<times> polling_rate
     \<Rightarrow> ('w, profile_verification_outcome) mop" where
  "conclude_verification be device target claim before after =
     (case (before, after) of ((initial, initial_rate), (reloaded, reloaded_rate)) \<Rightarrow>
        let mismatch = first_mismatch initial initial_rate reloaded reloaded_rate
        in thenp (now_op be) (\<lambda>verified_at.
           thenp (persist_profile_observation device target reloaded reloaded_rate
                    (if mismatch = None then Some (claim verified_at) else None) verified_at) (\<lambda>_.
           case mismatch of
             Some resource \<Rightarrow> errp (VerificationMismatch resource (Some target))
           | None \<Rightarrow> okp (verification_outcome target initial initial_rate reloaded reloaded_rate
                            (claim verified_at)))))"

section \<open>Profile reload\<close>

text \<open>The part between the first transition and the restoration.\<close>

definition reload_target ::
  "'w session \<Rightarrow> profile_id \<Rightarrow> profile_metadata \<Rightarrow> ('w, manager_error, profile_snapshot \<times> polling_rate) prog" where
  "reload_target session target target_metadata =
     thenp (write_exact_metadata session target_metadata) (\<lambda>_. read_complete_profile session target)"

definition reload_profile ::
  "'w session \<Rightarrow> profile_id
     \<Rightarrow> ('w, manager_error, (profile_snapshot \<times> polling_rate) \<times> (profile_snapshot \<times> polling_rate)) prog" where
  "reload_profile session target =
     thenp (ss_read_profile_metadata session) (\<lambda>original.
     if meta_maximum original < target then errp (NoAlternateProfile target (meta_maximum original))
     else
     thenp (liftp (ok_or (NoAlternateProfile target (meta_maximum original)) (alternate_profile original target)))
       (\<lambda>away.
     thenp (read_complete_profile session target) (\<lambda>before.
     thenp (liftp (metadata_for away (meta_maximum original))) (\<lambda>away_metadata.
     handlep (write_exact_metadata session away_metadata)
       (\<lambda>e. thenp (write_exact_metadata session original) (\<lambda>_. errp e))
       (\<lambda>_.
     thenp (liftp (metadata_for target (meta_maximum original))) (\<lambda>target_metadata.
     thenp (attemptp (reload_target session target target_metadata)) (\<lambda>reloaded.
     thenp (write_exact_metadata session original) (\<lambda>_.
     thenp (liftp reloaded) (\<lambda>after. okp (before, after))))))))))"

definition verify_profile_reload ::
  "'w backend \<Rightarrow> device_id \<Rightarrow> profile_id \<Rightarrow> ('w, profile_verification_outcome) mop" where
  "verify_profile_reload be device target =
     open_locked be device ''verify_profile_reload'' (\<lambda>_ session.
     if ss_transport session = Ble
     then errp (UnsupportedOperation ''profile-reload-verification'' (ss_transport session))
     else thenp (in_world (reload_profile session target)) (\<lambda>(before, after).
          conclude_verification be device target ProfileReloadVerified before after))"

section \<open>Power cycle\<close>

definition still_present :: "device_endpoint \<Rightarrow> discovered_endpoint list \<Rightarrow> bool" where
  "still_present old_endpoint discovered \<longleftrightarrow>
     list_ex (\<lambda>d. disc_connected d \<and> ep_locator (disc_endpoint d) = ep_locator old_endpoint) discovered"

text \<open>One turn of a wait: a result, or another turn after the poll interval.\<close>

definition wait_turn ::
  "'w timer \<Rightarrow> duration \<Rightarrow> manager_error \<Rightarrow> ('w, 'a option) mop
     \<Rightarrow> 'w manager \<Rightarrow> ((manager_error, 'a) result \<times> 'w manager) + 'w manager" where
  "wait_turn tm started timeout probe m =
     (case probe m of
        (Inl e, m') \<Rightarrow> Inl (Inl e, m')
      | (Inr (Some x), m') \<Rightarrow> Inl (Inr x, m')
      | (Inr None, m') \<Rightarrow>
          (if POWER_CYCLE_TIMEOUT \<le> tm_now tm (mn_world m') - started then Inl (Inl timeout, m')
           else Inr (m'\<lparr>mn_world := tm_sleep tm POWER_CYCLE_POLL_INTERVAL (mn_world m')\<rparr>)))"

partial_function (option) wait_loop ::
  "'w timer \<Rightarrow> duration \<Rightarrow> manager_error \<Rightarrow> ('w, 'a option) mop
     \<Rightarrow> 'w manager \<Rightarrow> ((manager_error, 'a) result \<times> 'w manager) option" where
  "wait_loop tm started timeout probe m =
     (case wait_turn tm started timeout probe m of
        Inl out \<Rightarrow> Some out
      | Inr m' \<Rightarrow> wait_loop tm started timeout probe m')"

definition disappearance_probe :: "'w backend \<Rightarrow> transport_kind \<Rightarrow> device_endpoint \<Rightarrow> ('w, unit option) mop" where
  "disappearance_probe be transport old_endpoint =
     thenp (in_world (be_list be (ExactSelection transport))) (\<lambda>discovered.
     okp (if still_present old_endpoint discovered then None else Some ()))"

definition wait_for_disappearance ::
  "'w backend \<Rightarrow> 'w timer \<Rightarrow> device_id \<Rightarrow> transport_kind \<Rightarrow> device_endpoint
     \<Rightarrow> ('w manager, manager_error, unit) loopp" where
  "wait_for_disappearance be tm device transport old_endpoint m =
     wait_loop tm (tm_now tm (mn_world m)) (PowerCycleDisappearanceTimeout device POWER_CYCLE_TIMEOUT)
       (disappearance_probe be transport old_endpoint) m"

definition update_locator :: "device_id \<Rightarrow> device_endpoint \<Rightarrow> ('w, unit) mop" where
  "update_locator device e =
     mutate_inner (adjust_device device (\<lambda>dev. dev\<lparr>ds_identity := upsert_endpoint (ds_identity dev) e\<rparr>))"

text \<open>A candidate that cannot be opened or read counts for nothing in this round.\<close>

definition candidate_watermark ::
  "'w backend \<Rightarrow> device_endpoint \<Rightarrow> ('w, manager_error, watermark_decode option) prog" where
  "candidate_watermark be e =
     handlep (be_open be e) (\<lambda>_. okp None) (\<lambda>session.
     handlep (current_watermark be session)
       (\<lambda>err. okp (case err of UnsupportedOperation _ _ \<Rightarrow> Some Absent | _ \<Rightarrow> None))
       (\<lambda>(_, decode). okp (Some decode)))"

fun collect_matches ::
  "'w backend \<Rightarrow> physical_id \<Rightarrow> discovered_endpoint list \<Rightarrow> ('w, manager_error, device_endpoint list) prog" where
  "collect_matches be token [] = okp []"
| "collect_matches be token (d # ds) =
     (if \<not> disc_connected d then collect_matches be token ds
      else thenp (candidate_watermark be (disc_endpoint d)) (\<lambda>decode.
           thenp (collect_matches be token ds) (\<lambda>rest.
           okp (if decode = Some (Valid token) then disc_endpoint d # rest else rest))))"

definition authenticated_candidate ::
  "'w backend \<Rightarrow> physical_id \<Rightarrow> discovered_endpoint list \<Rightarrow> ('w, manager_error, device_endpoint option) prog" where
  "authenticated_candidate be token discovered =
     thenp (collect_matches be token discovered) (\<lambda>matches.
     okp (case dedup_by (\<lambda>a b. ep_locator a = ep_locator b) (sort_key ep_locator matches) of
            [e] \<Rightarrow> Some e | _ \<Rightarrow> None))"

definition reappearance_probe ::
  "'w backend \<Rightarrow> device_id \<Rightarrow> transport_kind \<Rightarrow> device_endpoint \<Rightarrow> physical_id option
     \<Rightarrow> ('w, device_endpoint option) mop" where
  "reappearance_probe be device transport old_endpoint physical =
     thenp (in_world (be_list be (ExactSelection transport))) (\<lambda>discovered.
     case physical of
       Some token \<Rightarrow>
         thenp (in_world (authenticated_candidate be token discovered)) (\<lambda>found.
         case found of
           Some e \<Rightarrow> thenp (update_locator device e) (\<lambda>_. okp (Some e))
         | None \<Rightarrow> okp None)
     | None \<Rightarrow>
         (case find (\<lambda>d. disc_connected d \<and> ep_locator (disc_endpoint d) = ep_locator old_endpoint) discovered of
            Some d \<Rightarrow> okp (Some (disc_endpoint d))
          | None \<Rightarrow>
              (case legacy_rebind_candidates discovered transport old_endpoint of
                 [e] \<Rightarrow> thenp (update_locator device e) (\<lambda>_. okp (Some e))
               | _ \<Rightarrow> okp None)))"

definition wait_for_reappearance ::
  "'w backend \<Rightarrow> 'w timer \<Rightarrow> device_id \<Rightarrow> transport_kind \<Rightarrow> device_endpoint \<Rightarrow> physical_id option
     \<Rightarrow> ('w manager, manager_error, device_endpoint) loopp" where
  "wait_for_reappearance be tm device transport old_endpoint physical m =
     wait_loop tm (tm_now tm (mn_world m)) (PowerCycleReappearanceTimeout device POWER_CYCLE_TIMEOUT)
       (reappearance_probe be device transport old_endpoint physical) m"

definition power_cycle_capture ::
  "'w backend \<Rightarrow> device_id \<Rightarrow> profile_id \<Rightarrow> ('w, transport_kind \<times> (profile_snapshot \<times> polling_rate)) mop" where
  "power_cycle_capture be device target =
     open_locked be device ''verify_power_cycle'' (\<lambda>_ session.
     if ss_transport session = Ble
     then errp (UnsupportedOperation ''power-cycle-verification'' (ss_transport session))
     else thenp (in_world (read_complete_profile session target)) (\<lambda>before.
          okp (ss_transport session, before)))"

definition power_cycle_identity ::
  "device_id \<Rightarrow> transport_kind \<Rightarrow> ('w, device_endpoint \<times> physical_id option) mop" where
  "power_cycle_identity device transport =
     thenp load_doc (\<lambda>st.
     thenp (liftp (ok_or (NoSuchDevice device) (bt_get (sf_devices st) device))) (\<lambda>dev.
     thenp (liftp (ok_or (NoSuchDevice device) (identity_endpoint (ds_identity dev) transport))) (\<lambda>e.
     okp (e, id_physical_id (ds_identity dev)))))"

definition power_cycle_compare ::
  "'w backend \<Rightarrow> device_id \<Rightarrow> profile_id \<Rightarrow> transport_kind \<Rightarrow> profile_snapshot \<times> polling_rate
     \<Rightarrow> ('w, profile_verification_outcome) mop" where
  "power_cycle_compare be device target transport before =
     open_locked be device ''verify_power_cycle_reopen'' (\<lambda>_ session.
     if ss_transport session \<noteq> transport
     then errp (VerificationMismatch ''device identity'' (Some target))
     else thenp (in_world (read_complete_profile session target)) (\<lambda>after.
          conclude_verification be device target PowerCycleVerified before after))"

definition verify_power_cycle ::
  "'w backend \<Rightarrow> 'w timer \<Rightarrow> device_id \<Rightarrow> profile_id
     \<Rightarrow> ('w manager, manager_error, profile_verification_outcome) loopp" where
  "verify_power_cycle be tm device target =
     thenl (returnp (power_cycle_capture be device target)) (\<lambda>(transport, before).
     thenl (returnp (power_cycle_identity device transport)) (\<lambda>(old_endpoint, physical).
     thenl (wait_for_disappearance be tm device transport old_endpoint) (\<lambda>_.
     thenl (wait_for_reappearance be tm device transport old_endpoint physical) (\<lambda>_.
     returnp (power_cycle_compare be device target transport before)))))"

end
