(* ===== verification/X3_Verify_Facts.thy ===== *)
theory X3_Verify_Facts
  imports X3_Verify X3_Updates_Facts
begin

text \<open>
  What the verification workflows guarantee: persistence is claimed only for values that were read
  the same before and after, a power cycle continues only with the mouse that carries the token, and
  the waits end.
\<close>

section \<open>Claims\<close>

definition observes :: "'a resource_state \<Rightarrow> 'a \<Rightarrow> bool" where
  "observes r v \<longleftrightarrow> map_option obs_value (res_observed r) = Some v"

text \<open>A resource carries at most the claim \<open>c\<close>, and then for the value \<open>v\<close> its last observation
  confirmed.\<close>

definition claims_value :: "'a resource_state \<Rightarrow> 'a \<Rightarrow> persistence_verification option \<Rightarrow> bool" where
  "claims_value r v c \<longleftrightarrow>
     (case res_desired r of
        None \<Rightarrow> True
      | Some d \<Rightarrow> ver_persistence (des_verification d) = Unknown
          \<or> c = Some (ver_persistence (des_verification d)) \<and> des_value d = v
            \<and> ver_application (des_verification d) = ReadbackVerified
            \<and> observes r v)"

lemma claims_reconcile: "claims_value (snd (reconcile_observation r v t)) v c"
  by (auto simp: claims_value_def reconcile_observation_def Let_def split: option.split)

lemma observed_reconcile: "observes (snd (reconcile_observation r v t)) v"
  by (auto simp: observes_def reconcile_observation_def Let_def split: option.split)

lemma claims_mark:
  assumes "observes r v" and "claims_value r v c"
    and "mark = try_mark_profile_reload_verified \<and> c = Some (ProfileReloadVerified t)
      \<or> mark = try_mark_power_cycle_verified \<and> c = Some (PowerCycleVerified t)"
  shows "claims_value (mark_all_or_invalidate r t mark) v c"
  using assms
  by (auto simp: mark_all_or_invalidate_def try_mark_profile_reload_verified_def try_mark_power_cycle_verified_def
      try_mark_persistence_def invalidate_persistence_def desired_invalidate_def verification_invalidate_def
      claims_value_def observes_def Let_def split: option.splits if_splits)

definition claims_profile ::
  "profile_state \<Rightarrow> profile_snapshot \<Rightarrow> polling_rate \<Rightarrow> persistence_verification option \<Rightarrow> bool" where
  "claims_profile p snapshot rate c \<longleftrightarrow>
     claims_value (ps_dpi p) (snap_dpi snapshot) c \<and> claims_value (ps_preferences p) (snap_preferences snapshot) c
     \<and> claims_value (ps_buttons p) (snap_buttons snapshot) c \<and> claims_value (ps_polling_rate p) rate c"

text \<open>The claims a workflow may make.\<close>

definition is_claim :: "(timestamp \<Rightarrow> persistence_verification) \<Rightarrow> bool" where
  "is_claim claim \<longleftrightarrow> claim = ProfileReloadVerified \<or> claim = PowerCycleVerified"

lemma observe_claims:
  assumes "is_claim claim" and "c = None \<or> c = Some (claim t)"
  shows "claims_profile (observe_profile snapshot rate c t p) snapshot rate c"
  using assms
  by (auto simp: is_claim_def claims_profile_def observe_profile_def Let_def profile_mark_reload_verified_def
      profile_mark_power_cycle_verified_def observed_reconcile claims_reconcile intro!: claims_mark)

text \<open>What a completed comparison means.\<close>

definition confirmed :: "profile_verification_outcome \<Rightarrow> bool" where
  "confirmed out \<longleftrightarrow>
     wo_observed (pv_dpi out) = Some (wo_desired (pv_dpi out))
     \<and> wo_observed (pv_preferences out) = Some (wo_desired (pv_preferences out))
     \<and> wo_observed (pv_buttons out) = Some (wo_desired (pv_buttons out))
     \<and> wo_observed (pv_polling_rate out) = Some (wo_desired (pv_polling_rate out))"

lemma conclude_cases:
  assumes "conclude_verification be device target claim before after m = (r, m')" and "is_claim claim"
  obtains (unrecorded) e where "r = Inl e" and "doc m' = doc m"
  | (recorded) p t where "stored_profile (doc m') device target = Some p"
      and "claims_profile p (fst after) (snd after)
        (if first_mismatch (fst before) (snd before) (fst after) (snd after) = None then Some (claim t) else None)"
      and "case first_mismatch (fst before) (snd before) (fst after) (snd after) of
        Some resource \<Rightarrow> r = Inl (VerificationMismatch resource (Some target))
      | None \<Rightarrow> r = Inr (verification_outcome target (fst before) (snd before) (fst after) (snd after) (claim t))"
proof -
  obtain initial initial_rate reloaded reloaded_rate where ba: "before = (initial, initial_rate)"
      "after = (reloaded, reloaded_rate)" by (metis surj_pair)
  let ?t = "Timestamp (be_now be (mn_world m))"
  let ?mis = "first_mismatch initial initial_rate reloaded reloaded_rate"
  let ?c = "if ?mis = None then Some (claim ?t) else None"
  let ?f = "with_profile device target (\<lambda>p. ((), observe_profile reloaded reloaded_rate ?c ?t p))"
  obtain q m1 where run: "mutate_inner ?f m = (q, m1)" by force
  have out: "(r, m') = (case q of Inl e \<Rightarrow> (Inl e, m1)
      | Inr _ \<Rightarrow> (case ?mis of Some resource \<Rightarrow> (Inl (VerificationMismatch resource (Some target)), m1)
          | None \<Rightarrow> (Inr (verification_outcome target initial initial_rate reloaded reloaded_rate (claim ?t)), m1)))"
    using assms(1) run
    by (auto simp: conclude_verification_def ba Let_def thenp_def now_op_def getp_def persist_profile_observation_def
        okp_def errp_def split: sum.splits option.splits)
  show ?thesis
  proof (cases q)
    case (Inl e)
    have "doc m1 = doc m"
      using mutate_inner_Err [OF run [unfolded Inl]] with_profile_Err [of device target _ "doc m" e] by metis
    with out Inl that(1) show ?thesis by simp
  next
    case (Inr u)
    note stored = mutate_inner_Ok(1) [OF run [unfolded Inr]]
    then obtain dev where dev: "bt_get (sf_devices (doc m)) device = Some dev"
      by (cases "bt_get (sf_devices (doc m)) device") (simp_all add: with_profile_def)
    let ?old = "case bt_get (ds_profiles dev) target of None \<Rightarrow> profile_state_empty | Some p \<Rightarrow> p"
    have m1: "doc m1 = (doc m)\<lparr>sf_devices := bt_insert device (dev\<lparr>ds_profiles := bt_insert target
          (observe_profile reloaded reloaded_rate ?c ?t ?old) (ds_profiles dev)\<rparr>) (sf_devices (doc m))\<rparr>"
      using stored by (simp add: with_profile_def dev)
    have "m' = m1" using out Inr by (auto split: option.splits)
    then have "stored_profile (doc m') device target = Some (observe_profile reloaded reloaded_rate ?c ?t ?old)"
      by (simp add: m1 stored_profile_def bt_get_insert)
    moreover have "claims_profile (observe_profile reloaded reloaded_rate ?c ?t ?old) reloaded reloaded_rate ?c"
      by (rule observe_claims [OF assms(2)]) simp
    ultimately show ?thesis
      using out Inr by (intro that(2)) (auto simp: ba split: option.split)
  qed
qed

lemma open_locked_ran:
  assumes "open_locked be device operation body m = (r, m')"
  shows "doc m' = doc m \<and> (\<exists>e. r = Inl e)
    \<or> (\<exists>identity session m1 m2. doc m1 = doc m \<and> body identity session m1 = (r, m2) \<and> doc m' = doc m2)"
proof -
  have "(\<exists>fault m1. doc m1 = doc m \<and> open_locked be device operation body m = (Inl fault, m1))
      \<or> (\<exists>i s m1. doc m1 = doc m \<and> open_locked be device operation body m =
          (case body i s m1 of (r, m2) \<Rightarrow> (r, m2\<lparr>mn_world := be_unlock be device (mn_world m2)\<rparr>)))"
    using open_locked_cases [of m be device operation] by blast
  then show ?thesis
  proof (elim disjE exE conjE)
    fix i s m1
    assume "doc m1 = doc m" and run: "open_locked be device operation body m =
        (case body i s m1 of (r, m2) \<Rightarrow> (r, m2\<lparr>mn_world := be_unlock be device (mn_world m2)\<rparr>))"
    then obtain m2 where "body i s m1 = (r, m2)" and "doc m' = doc m2"
      using assms by (auto split: prod.splits)
    with \<open>doc m1 = doc m\<close> show ?thesis by blast
  qed (use assms in simp)
qed

lemma no_mismatch_confirmed:
  "first_mismatch a ra b rb = None \<Longrightarrow> confirmed (verification_outcome target a ra b rb c)"
  by (auto simp: first_mismatch_def confirmed_def verification_outcome_def Let_def split: if_splits)

section \<open>Waiting\<close>

text \<open>A clock that a sleep advances by at least its duration and that nothing sets back.\<close>

definition timed :: "'w backend \<Rightarrow> 'w timer \<Rightarrow> bool" where
  "timed be tm \<longleftrightarrow>
     (\<forall>d w. tm_now tm w + d \<le> tm_now tm (tm_sleep tm d w))
     \<and> (\<forall>t. (\<forall>selection. keeps (\<lambda>w. t \<le> tm_now tm w) (be_list be selection))
            \<and> (\<exists>S. careful_backend (\<lambda>w. t \<le> tm_now tm w) S be))"

lemma wait_loop_ends:
  assumes sleep: "\<And>d w. tm_now tm w + d \<le> tm_now tm (tm_sleep tm d w)"
    and probe: "\<And>t. keeps (\<lambda>m. t \<le> tm_now tm (mn_world m)) probe"
  shows "\<exists>r m'. wait_loop tm started timeout probe m = Some (r, m')"
proof (induction "started + POWER_CYCLE_TIMEOUT - tm_now tm (mn_world m)" arbitrary: m rule: less_induct)
  case less
  show ?case
  proof (cases "wait_turn tm started timeout probe m")
    case (Inl out)
    then show ?thesis by (cases out) (simp add: wait_loop.simps)
  next
    case (Inr m1)
    then obtain m2 where run: "probe m = (Inr None, m2)"
      and early: "tm_now tm (mn_world m2) - started < POWER_CYCLE_TIMEOUT"
      and m1: "m1 = m2\<lparr>mn_world := tm_sleep tm POWER_CYCLE_POLL_INTERVAL (mn_world m2)\<rparr>"
      by (auto simp: wait_turn_def split: prod.splits sum.splits option.splits if_splits)
    have "tm_now tm (mn_world m) \<le> tm_now tm (mn_world m2)"
      using keepsD [OF probe [of "tm_now tm (mn_world m)"] _ run] by simp
    moreover have "tm_now tm (mn_world m2) + POWER_CYCLE_POLL_INTERVAL \<le> tm_now tm (mn_world m1)"
      using sleep by (simp add: m1)
    moreover have "0 < POWER_CYCLE_POLL_INTERVAL"
      by (simp add: POWER_CYCLE_POLL_INTERVAL_def from_millis_def)
    ultimately have "started + POWER_CYCLE_TIMEOUT - tm_now tm (mn_world m1)
        < started + POWER_CYCLE_TIMEOUT - tm_now tm (mn_world m)"
      using early by linarith
    from less.hyps [OF this] show ?thesis
      by (subst wait_loop.simps) (simp add: Inr)
  qed
qed

lemma careful_open:
  "careful_backend I S be \<Longrightarrow> keeps I (be_open be e)"
  by (fastforce simp: careful_backend_def keeps_triple intro: triple_conseq)

lemma keeps_opened:
  assumes "triple I p (\<lambda>s w. I w \<and> S s) (\<lambda>_. I)" and "\<And>s. S s \<Longrightarrow> keeps I (f s)"
    and "\<And>e. keeps I (h e)"
  shows "keeps I (handlep p h f)"
  unfolding keeps_def
proof (intro allI impI)
  fix w
  assume w: "I w"
  obtain r w1 where run: "p w = (r, w1)" by force
  show "I (snd (handlep p h f w))"
  proof (cases r)
    case (Inl e)
    with triple_Err [OF assms(1) w] run assms(3) [of e] show ?thesis by (simp add: handlep_def keeps_def)
  next
    case (Inr s)
    with triple_Ok [OF assms(1) w] run assms(2) [of s] show ?thesis by (simp add: handlep_def keeps_def)
  qed
qed

lemma careful_watermark:
  assumes "careful_backend I S be"
  shows "keeps I (candidate_watermark be e)"
proof -
  have o1: "triple I (be_open be e) (\<lambda>s w. I w \<and> S s) (\<lambda>_. I)" using assms by (simp add: careful_backend_def)
  have c: "keeps I (current_watermark be s)" if "S s" for s
    using assms that by (auto simp: current_watermark_def careful_backend_def intro!: effects)
  show ?thesis
    unfolding candidate_watermark_def
    by (rule keeps_opened [OF o1]) (auto intro!: keeps_handlep keeps_pure c)
qed

lemma careful_matches:
  assumes "careful_backend I S be"
  shows "keeps I (collect_matches be token ds)"
  by (induction ds) (auto intro!: effects careful_watermark [OF assms])

lemma careful_probes:
  assumes "careful_backend I S be" and "\<And>selection. keeps I (be_list be selection)"
  shows "keeps (world_ok I) (disappearance_probe be transport e)"
    and "keeps (world_ok I) (reappearance_probe be device transport e physical)"
proof -
  show "keeps (world_ok I) (disappearance_probe be transport e)"
    unfolding disappearance_probe_def by (intro world_rules assms(2))
  have u: "keeps (world_ok I) (update_locator device x)" for x
    unfolding update_locator_def by (rule world_mutate)
  have a: "keeps I (authenticated_candidate be token ds)" for token ds
    unfolding authenticated_candidate_def by (intro keeps_thenp careful_matches [OF assms(1)] keeps_pure)
  show "keeps (world_ok I) (reappearance_probe be device transport e physical)"
    unfolding reappearance_probe_def
    by (intro keeps_thenp world_in_world assms(2))
      (auto intro!: keeps_thenp world_in_world world_pure a u split: option.split list.split)
qed

section \<open>The mouse that returns\<close>

lemma dedup_nonempty: "dedup_by same (x # xs) \<noteq> []"
  by (induction xs arbitrary: x) auto

lemma dedup_single:
  "dedup_by (\<lambda>a b. f a = f b) xs = [e] \<Longrightarrow> \<forall>x \<in> set xs. f x = f e"
proof (induction "\<lambda>a b. f a = f b" xs rule: dedup_by.induct)
  case (3 x y xs)
  show ?case
  proof (cases "f y = f x")
    case True
    with 3(3) have "dedup_by (\<lambda>a b. f a = f b) (x # xs) = [e]" by simp
    from 3(1) [OF True this] True show ?thesis by simp
  next
    case False
    with 3(3) have "dedup_by (\<lambda>a b. f a = f b) (y # xs) = []" by simp
    with dedup_nonempty show ?thesis by metis
  qed
qed simp_all

text \<open>A connected row of a scan whose device presented the token when it was read.\<close>

definition bears :: "'w backend \<Rightarrow> physical_id \<Rightarrow> device_endpoint \<Rightarrow> discovered_endpoint \<Rightarrow> bool" where
  "bears be token e d \<longleftrightarrow> disc_connected d \<and> disc_endpoint d = e
     \<and> (\<exists>w1 w2. candidate_watermark be e w1 = (Inr (Some (Valid token)), w2))"

lemma collect_matches_token:
  assumes "collect_matches be token ds w = (Inr es, w')" and "e \<in> set es"
  shows "\<exists>d \<in> set ds. bears be token e d"
  using assms
proof (induction ds arbitrary: w es)
  case (Cons d ds)
  show ?case
  proof (cases "disc_connected d")
    case False
    with Cons.prems Cons.IH show ?thesis by simp
  next
    case True
    with Cons.prems(1) obtain decode w1 rest where
      read: "candidate_watermark be (disc_endpoint d) w = (Inr decode, w1)"
      and rest: "collect_matches be token ds w1 = (Inr rest, w')"
      and es: "es = (if decode = Some (Valid token) then disc_endpoint d # rest else rest)"
      by (auto simp: thenp_eq_Inr)
    show ?thesis
    proof (cases "e \<in> set rest")
      case True
      with Cons.IH [OF rest] show ?thesis by simp
    next
      case False
      with Cons.prems(2) es have "decode = Some (Valid token)" and "e = disc_endpoint d" by (auto split: if_splits)
      with read True have "bears be token e d" by (auto simp: bears_def)
      then show ?thesis by simp
    qed
  qed
qed (simp add: okp_def)

lemma wait_loop_ended:
  assumes "wait_loop tm started timeout probe m = Some y"
  shows "\<forall>x. fst y = Inr x \<longrightarrow> (\<exists>m1. probe m1 = (Inr (Some x), snd y))"
  using assms
proof (induction tm started timeout probe m y rule: wait_loop.raw_induct [rotated 1, consumes 1, case_names step])
  case (step loop tm started timeout probe m y)
  show ?case
  proof (cases "wait_turn tm started timeout probe m")
    case (Inl out)
    with step(2) have "wait_turn tm started timeout probe m = Inl y" by simp
    then show ?thesis by (auto simp: wait_turn_def split: prod.splits sum.splits option.splits if_splits)
  next
    case (Inr m1)
    with step show ?thesis by simp
  qed
qed

lemma wait_loop_result:
  assumes "wait_loop tm started timeout probe m = Some (Inr x, m')"
  shows "\<exists>m1. probe m1 = (Inr (Some x), m')"
  using wait_loop_ended [OF assms] by simp

text \<open>The candidate the last round settled on.\<close>

definition sole_bearer :: "'w backend \<Rightarrow> physical_id \<Rightarrow> device_endpoint \<Rightarrow> discovered_endpoint list \<Rightarrow> bool" where
  "sole_bearer be token e discovered \<longleftrightarrow>
     (\<exists>w es w'. collect_matches be token discovered w = (Inr es, w') \<and> e \<in> set es
        \<and> (\<forall>x \<in> set es. ep_locator x = ep_locator e))"

lemma authenticated_candidate_sole:
  assumes "authenticated_candidate be token discovered w = (Inr (Some e), w')"
  shows "sole_bearer be token e discovered"
proof -
  obtain es w1 where es: "collect_matches be token discovered w = (Inr es, w1)"
    and "(case dedup_by (\<lambda>a b. ep_locator a = ep_locator b) (sort_key ep_locator es) of
        [x] \<Rightarrow> Some x | _ \<Rightarrow> None) = Some e"
    using assms by (auto simp: authenticated_candidate_def thenp_eq_Inr)
  then have one: "dedup_by (\<lambda>a b. ep_locator a = ep_locator b) (sort_key ep_locator es) = [e]"
    by (auto split: list.splits)
  have "e \<in> set es"
    using dedup_subset [of "\<lambda>a b. ep_locator a = ep_locator b" "sort_key ep_locator es"] one by simp
  moreover have "\<forall>x \<in> set es. ep_locator x = ep_locator e"
    using dedup_single [OF one] by (simp only: set_sort)
  ultimately show ?thesis using es unfolding sole_bearer_def by blast
qed

section \<open>Properties\<close>




section \<open>Concrete runs\<close>

definition legacy_mouse :: state_file where
  "legacy_mouse = state_file_default\<lparr>sf_next_device_number := 2,
     sf_devices := [(logical_key 1, device_state_new (upsert_endpoint (identity_new (logical_key 1) None) demo_endpoint))]\<rparr>"

definition bench_world :: "state_file \<Rightarrow> bench manager" where
  "bench_world st = \<lparr>mn_store = \<lparr>mb_state = st\<rparr>, mn_cache = (\<lambda>_. None), mn_world = bench_mouse\<rparr>"


definition bench_timer :: "unit timer" where
  "bench_timer = \<lparr>tm_now = (\<lambda>_. 0), tm_sleep = (\<lambda>_ w. w)\<rparr>"


text \<open>A backend without a mouse in a world that is its clock.\<close>

definition clock_backend :: "nat backend" where
  "clock_backend = \<lparr>be_list = (\<lambda>_. okp []), be_open = (\<lambda>_. errp (NoSuchDevice (logical_key 1))), be_now = int,
     be_lock = (\<lambda>_ _. okp ()), be_unlock = (\<lambda>_ w. w), be_crc = (\<lambda>_. 7)\<rparr>"

definition clock_timer :: "nat timer" where
  "clock_timer = \<lparr>tm_now = id, tm_sleep = (\<lambda>d w. w + d)\<rparr>"


end
