(* ===== verification/X3_Ceremony.thy ===== *)
theory X3_Ceremony
  imports X3_Capture
begin

text \<open>
  The physical-identity ceremonies (\<^verbatim>\<open>manager.rs\<close>): a durable journal in the document drives
  enrollment, adding, restoring, adopting and associating a mouse. Every watermark write is preceded
  by a journal that reserves its token; the random generator of the operating system is a parameter.
\<close>

section \<open>Beginning\<close>

definition phase_of :: "ceremony_kind \<Rightarrow> identity_setup_phase" where
  "phase_of kind = (case kind of
      KindInitialEnrollment \<Rightarrow> InitialEnrollment | KindAddMouse \<Rightarrow> AddMouse | KindRestore \<Rightarrow> Restore
    | KindForeignAdoption \<Rightarrow> ForeignAdoption | KindBleAssociation \<Rightarrow> BleAssociation)"

definition identity_ceremony_progress :: "('w, ceremony_progress option) mop" where
  "identity_ceremony_progress =
     thenp load_doc (\<lambda>st. okp (map_option ceremony_progress_from_journal (sf_identity_setup st)))"

text \<open>The checks against the document, in the order of the code.\<close>

definition check_begin_mode :: "identity_setup_phase \<Rightarrow> identity_mode \<Rightarrow> unit manager_result" where
  "check_begin_mode phase mode =
     (if phase = InitialEnrollment
      then (if mode \<noteq> LegacyMode then Inl (IdentityCeremonyRefused phase ''already-persistent'') else Inr ())
      else (if mode \<noteq> PersistentMode then Inl (IdentityCeremonyRefused phase ''requires-persistent'') else Inr ()))"

definition check_begin_target ::
  "identity_setup_phase \<Rightarrow> device_id option \<Rightarrow> state_file \<Rightarrow> unit manager_result" where
  "check_begin_target phase target st =
     (if phase = Restore \<or> phase = BleAssociation
      then tryq (ok_or (IdentityCeremonyRefused phase ''requires-target'') target) (\<lambda>d.
           tryq (ok_or (NoSuchDevice d) (bt_get (sf_devices st) d)) (\<lambda>dev.
           if phase = Restore \<and> id_physical_id (ds_identity dev) = None
           then Inl (IdentityCeremonyRefused phase ''requires-physical-id'') else Inr ()))
      else Inr ())"

text \<open>The connected locators of both USB transports, wired first.\<close>

definition connected_usb_locators :: "'w backend \<Rightarrow> ('w, manager_error, device_locator list) prog" where
  "connected_usb_locators be =
     thenp (be_list be (ExactSelection Wired)) (\<lambda>wired.
     thenp (be_list be (ExactSelection Receiver)) (\<lambda>receiver.
     okp (map (\<lambda>d. ep_locator (disc_endpoint d)) (filter disc_connected wired @ filter disc_connected receiver))))"

definition has_locator :: "device_state \<Rightarrow> device_locator \<Rightarrow> bool" where
  "has_locator dev locator \<longleftrightarrow> list_ex (\<lambda>e. ep_locator (snd e) = locator) (id_endpoints (ds_identity dev))"

definition check_restore_disconnected ::
  "'w backend \<Rightarrow> identity_setup_phase \<Rightarrow> device_id option \<Rightarrow> state_file \<Rightarrow> ('w, unit) mop" where
  "check_restore_disconnected be phase target st =
     (if phase = Restore
      then thenp (in_world (connected_usb_locators be)) (\<lambda>locators.
           case Option.bind target (bt_get (sf_devices st)) of
             Some dev \<Rightarrow>
               if list_ex (has_locator dev) locators
               then errp (IdentityCeremonyRefused phase ''device-connected'') else okp ()
           | None \<Rightarrow> okp ())
      else okp ())"

text \<open>\<^verbatim>\<open>state.identity_setup.as_ref().expect(message)\<close> on a fresh copy of the document.\<close>

definition the_journal :: "string \<Rightarrow> ('w, identity_setup_journal) mop" where
  "the_journal message =
     thenp load_doc (\<lambda>st. liftp (ok_or (Panic message) (sf_identity_setup st)))"

definition begin_identity_ceremony ::
  "'w backend \<Rightarrow> ceremony_kind \<Rightarrow> device_id option \<Rightarrow> ('w, ceremony_progress) mop" where
  "begin_identity_ceremony be kind target =
     (let phase = phase_of kind in
      thenp load_doc (\<lambda>st.
      thenp (case sf_identity_setup st of
               Some journal \<Rightarrow> errp (IdentitySetupInProgress (jr_phase journal)) | None \<Rightarrow> okp ()) (\<lambda>_.
      thenp (liftp (check_begin_mode phase (sf_identity_mode st))) (\<lambda>_.
      thenp (liftp (check_begin_target phase target st)) (\<lambda>_.
      thenp (check_restore_disconnected be phase target st) (\<lambda>_.
      let journal = \<lparr>jr_phase = phase, jr_stage = AwaitingCapture, jr_subjects = []\<rparr> in
      thenp (mutate (\<lambda>st. ((), st\<lparr>sf_identity_setup := Some journal\<rparr>))) (\<lambda>_.
      thenp (the_journal ''journal just created'') (\<lambda>j.
      okp (ceremony_progress_from_journal j)))))))))"

section \<open>Finalizing\<close>

definition legacy_capture_matches :: "device_state \<Rightarrow> captured_profile_image \<Rightarrow> bool" where
  "legacy_capture_matches legacy captured \<longleftrightarrow>
     ds_profile_metadata legacy = cap_profile_metadata captured \<and> ds_profiles legacy = cap_profiles captured"

definition apply_captured_image :: "captured_profile_image option \<Rightarrow> device_state \<Rightarrow> device_state" where
  "apply_captured_image captured dev =
     (case captured of
        None \<Rightarrow> dev
      | Some c \<Rightarrow> dev\<lparr>ds_profile_metadata := cap_profile_metadata c, ds_profiles := cap_profiles c\<rparr>)"

text \<open>\<^verbatim>\<open>(0..n).map(|_| state.allocate_device_id()).collect::<Result<_, _>>()?\<close>\<close>

fun allocate_ids :: "nat \<Rightarrow> state_file \<Rightarrow> device_id list manager_result \<times> state_file" where
  "allocate_ids 0 st = (Inr [], st)"
| "allocate_ids (Suc n) st =
     (case allocate_device_id st of
        (Inl e, st) \<Rightarrow> (Inl (StateFailure e), st)
      | (Inr i, st) \<Rightarrow>
          (case allocate_ids n st of (Inl e, st) \<Rightarrow> (Inl e, st) | (Inr ids, st) \<Rightarrow> (Inr (i # ids), st)))"

definition mouse_name :: "nat \<Rightarrow> rstring" where
  "mouse_name index = rstr ''Mouse '' @ rstr (show_nat (index + 1))"

definition unique_legacy_match ::
  "bool \<Rightarrow> device_state option \<Rightarrow> identity_setup_subject list \<Rightarrow> nat option" where
  "unique_legacy_match skip_migration legacy subjects =
     (if skip_migration then None
      else case legacy of
        None \<Rightarrow> None
      | Some legacy \<Rightarrow>
          (case filter (\<lambda>i. case sub_captured (subjects ! i) of
                 None \<Rightarrow> False | Some captured \<Rightarrow> legacy_capture_matches legacy captured)
               [0..<length subjects] of
             [index] \<Rightarrow> Some index | _ \<Rightarrow> None))"

definition enrolled_device ::
  "rstring option \<Rightarrow> device_id \<Rightarrow> identity_setup_subject \<Rightarrow> device_state" where
  "enrolled_device display_name i subject =
     apply_captured_image (sub_captured subject)
       (device_state_new (upsert_endpoint
          ((identity_new i display_name)\<lparr>id_physical_id := sub_token subject\<rparr>) (sub_endpoint subject)))"

definition enroll_subject ::
  "device_state option \<Rightarrow> nat option \<Rightarrow> nat \<times> identity_setup_subject \<times> device_id
     \<Rightarrow> (device_id, device_state) btree \<Rightarrow> (device_id, device_state) btree" where
  "enroll_subject legacy unique_match entry devices =
     (case entry of (index, subject, i) \<Rightarrow>
        let display_name = (if unique_match = Some index
              then Option.bind legacy (\<lambda>legacy. id_display_name (ds_identity legacy))
              else Some (mouse_name index))
        in bt_insert i (enrolled_device display_name i subject) devices)"

definition finalize_initial_enrollment ::
  "identity_setup_journal \<Rightarrow> bool \<Rightarrow> state_file \<Rightarrow> unit manager_result \<times> state_file" where
  "finalize_initial_enrollment journal skip_migration st =
     (let legacy = (case sf_devices st of [] \<Rightarrow> None | (_, dev) # _ \<Rightarrow> Some dev);
          subjects = jr_subjects journal;
          unique_match = unique_legacy_match skip_migration legacy subjects
      in case allocate_ids (length subjects) st of
           (Inl e, st) \<Rightarrow> (Inl e, st)
         | (Inr ids, st) \<Rightarrow>
             (Inr (), st\<lparr>
                sf_devices := fold (enroll_subject legacy unique_match)
                  (zip [0..<length subjects] (zip subjects ids)) [],
                sf_identity_mode := PersistentMode,
                sf_selected_device := (case ids of [] \<Rightarrow> None | i # _ \<Rightarrow> Some i)\<rparr>))"

text \<open>The first subject, its target and its token, with the reasons the code refuses for.\<close>

definition first_subject :: "identity_setup_journal \<Rightarrow> identity_setup_subject manager_result" where
  "first_subject j =
     (case jr_subjects j of
        [] \<Rightarrow> Inl (IdentityCeremonyRefused (jr_phase j) ''no-subject'') | s # _ \<Rightarrow> Inr s)"

definition subject_token :: "identity_setup_journal \<Rightarrow> identity_setup_subject \<Rightarrow> physical_id manager_result" where
  "subject_token j s = ok_or (IdentityCeremonyRefused (jr_phase j) ''no-token'') (sub_token s)"

definition subject_target :: "identity_setup_journal \<Rightarrow> identity_setup_subject \<Rightarrow> device_id manager_result" where
  "subject_target j s = ok_or (IdentityCeremonyRefused (jr_phase j) ''requires-target'') (sub_device_id s)"

definition finalize_new_mouse :: "identity_setup_journal \<Rightarrow> state_file \<Rightarrow> unit manager_result \<times> state_file" where
  "finalize_new_mouse j st =
     (case tryq (first_subject j) (\<lambda>s. tryq (subject_token j s) (\<lambda>token. Inr (s, token))) of
        Inl e \<Rightarrow> (Inl e, st)
      | Inr (s, token) \<Rightarrow>
          (case allocate_device_id st of
             (Inl e, st) \<Rightarrow> (Inl (StateFailure e), st)
           | (Inr i, st) \<Rightarrow>
               (Inr (), st\<lparr>sf_devices := bt_insert i
                  (apply_captured_image (sub_captured s)
                     (device_state_new (upsert_endpoint
                        ((identity_new i None)\<lparr>id_physical_id := Some token\<rparr>) (sub_endpoint s))))
                  (sf_devices st)\<rparr>)))"

definition finalize_restore :: "identity_setup_journal \<Rightarrow> state_file \<Rightarrow> unit manager_result \<times> state_file" where
  "finalize_restore j st =
     (case tryq (first_subject j) (\<lambda>s. tryq (subject_target j s) (\<lambda>d.
           tryq (subject_token j s) (\<lambda>token. Inr (s, d, token)))) of
        Inl e \<Rightarrow> (Inl e, st)
      | Inr (s, d, token) \<Rightarrow>
          adjust_device d (\<lambda>dev. apply_captured_image (sub_captured s)
            (dev\<lparr>ds_identity := (ds_identity dev)\<lparr>id_physical_id := Some token,
               id_preferred_transport := None,
               id_endpoints := [(ep_transport (sub_endpoint s), sub_endpoint s)]\<rparr>\<rparr>)) st)"

definition finalize_ble :: "identity_setup_journal \<Rightarrow> state_file \<Rightarrow> unit manager_result \<times> state_file" where
  "finalize_ble j st =
     (case tryq (first_subject j) (\<lambda>s. tryq (subject_target j s) (\<lambda>d. Inr (s, d))) of
        Inl e \<Rightarrow> (Inl e, st)
      | Inr (s, d) \<Rightarrow>
          adjust_device d (\<lambda>dev. dev\<lparr>ds_identity := upsert_endpoint (ds_identity dev) (sub_endpoint s)\<rparr>) st)"

definition finalize_ceremony :: "bool \<Rightarrow> state_file \<Rightarrow> unit manager_result \<times> state_file" where
  "finalize_ceremony skip_migration st =
     (case sf_identity_setup st of
        None \<Rightarrow> (Inl NoIdentityCeremony, st)
      | Some journal \<Rightarrow>
          (case (case jr_phase journal of
                   InitialEnrollment \<Rightarrow> finalize_initial_enrollment journal skip_migration st
                 | AddMouse \<Rightarrow> finalize_new_mouse journal st
                 | ForeignAdoption \<Rightarrow> finalize_new_mouse journal st
                 | Restore \<Rightarrow> finalize_restore journal st
                 | BleAssociation \<Rightarrow> finalize_ble journal st) of
             (Inl e, st) \<Rightarrow> (Inl e, st)
           | (Inr _, st) \<Rightarrow> (Inr (), st\<lparr>sf_identity_setup := None\<rparr>)))"

section \<open>A presented mouse\<close>

definition check_reconnect :: "identity_setup_journal \<Rightarrow> device_endpoint \<Rightarrow> unit manager_result" where
  "check_reconnect j e =
     (let refused = InvalidCeremonyAction Reconnected (jr_phase j) (jr_stage j)
      in if jr_stage j \<noteq> AwaitingCapture then Inl refused
         else if jr_phase j \<noteq> InitialEnrollment \<and> jr_subjects j \<noteq> [] then Inl refused
         else if jr_phase j = InitialEnrollment \<and> length (jr_subjects j) > 1 then Inl refused
         else if \<not> is_usb_transport (ep_transport e)
         then Inl (IdentityCeremonyRefused (jr_phase j) ''requires-usb'')
         else Inr ())"

definition token_known :: "state_file \<Rightarrow> physical_id \<Rightarrow> bool" where
  "token_known st token \<longleftrightarrow>
     list_ex (\<lambda>dev. id_physical_id (ds_identity dev) = Some token) (map snd (sf_devices st))"

text \<open>The token to adopt, when the marker of the mouse admits the ceremony.\<close>

definition eligibility ::
  "state_file \<Rightarrow> identity_setup_journal \<Rightarrow> device_endpoint \<Rightarrow> watermark_decode
     \<Rightarrow> physical_id option manager_result" where
  "eligibility st j e decode =
     (case decode of
        Valid token \<Rightarrow>
          (if is_reserved_token token then Inl (ReservedPhysicalId token)
           else case jr_phase j of
             ForeignAdoption \<Rightarrow>
               (if token_known st token then Inl (IdentityCeremonyRefused (jr_phase j) ''already-registered'')
                else if journal_reserves_token j token
                then Inl (IdentityCeremonyRefused (jr_phase j) ''reserved-by-journal'')
                else Inr (Some token))
           | InitialEnrollment \<Rightarrow> Inl (IntactIdentityMarker e decode)
           | BleAssociation \<Rightarrow> Inl (Panic ''BLE association never reconnects a USB mouse'')
           | _ \<Rightarrow> Inl (IdentityCeremonyRefused (jr_phase j)
               (if token_known st token then ''already-registered'' else ''adopt-instead'')))
      | UnsupportedVersion version \<Rightarrow> Inl (IntactIdentityMarker e decode)
      | Absent \<Rightarrow> Inr None
      | Malformed \<Rightarrow> Inr None)"

definition restore_target ::
  "identity_setup_phase \<Rightarrow> device_id option \<Rightarrow> state_file
     \<Rightarrow> (device_id option \<times> physical_id option) manager_result" where
  "restore_target phase target st =
     (if phase = Restore
      then tryq (ok_or (IdentityCeremonyRefused phase ''requires-target'') target) (\<lambda>d.
           tryq (ok_or (NoSuchDevice d) (bt_get (sf_devices st) d)) (\<lambda>dev.
           tryq (ok_or (IdentityCeremonyRefused phase ''requires-physical-id'')
                   (id_physical_id (ds_identity dev))) (\<lambda>old. Inr (Some d, Some old))))
      else Inr (None, None))"

text \<open>The stamp plan of an adoption: profiles with the adopted token need no write.\<close>

fun adoption_plan ::
  "(packet \<Rightarrow> u32) \<Rightarrow> physical_id \<Rightarrow> (profile_id, profile_state) btree
     \<Rightarrow> (profile_id, identity_stamp_progress) btree \<Rightarrow> (profile_id, identity_stamp_progress) btree manager_result" where
  "adoption_plan crc adopted [] plan = Inr plan"
| "adoption_plan crc adopted ((profile, p) # profiles) plan =
     (case map_option (\<lambda>seen. decode_watermark crc (dpi_preserved_tail (obs_value seen))) (res_observed (ps_dpi p)) of
        None \<Rightarrow> adoption_plan crc adopted profiles (bt_insert profile StampCaptured plan)
      | Some Absent \<Rightarrow> adoption_plan crc adopted profiles (bt_insert profile StampCaptured plan)
      | Some (Valid token) \<Rightarrow>
          (if token = adopted then adoption_plan crc adopted profiles (bt_insert profile StampStamped plan)
           else Inl (IdentityCeremonyRefused ForeignAdoption ''token-disagreement''))
      | Some _ \<Rightarrow> Inl (IdentityCeremonyRefused ForeignAdoption ''token-disagreement''))"

definition stamp_plan ::
  "(packet \<Rightarrow> u32) \<Rightarrow> identity_setup_phase \<Rightarrow> physical_id option \<Rightarrow> captured_profile_image
     \<Rightarrow> (profile_id, identity_stamp_progress) btree manager_result" where
  "stamp_plan crc phase adopted captured =
     (if phase = ForeignAdoption
      then case adopted of
             None \<Rightarrow> Inl (Panic ''validated: adoption requires a valid token'')
           | Some token \<Rightarrow> adoption_plan crc token (cap_profiles captured) []
      else Inr (fold (\<lambda>profile. bt_insert profile StampCaptured) (map fst (cap_profiles captured)) []))"

definition record_subject ::
  "identity_setup_phase \<Rightarrow> identity_setup_subject \<Rightarrow> bool \<Rightarrow> state_file \<Rightarrow> unit manager_result \<times> state_file" where
  "record_subject phase subject all_valid st =
     (case sf_identity_setup st of
        None \<Rightarrow> (Inl NoIdentityCeremony, st)
      | Some current \<Rightarrow>
          (if jr_phase current \<noteq> phase \<or> jr_stage current \<noteq> AwaitingCapture
           then (Inl (InvalidCeremonyAction Reconnected (jr_phase current) (jr_stage current)), st)
           else
             let pushed = current\<lparr>jr_subjects := jr_subjects current @ [subject]\<rparr>
             in if all_valid
                then finalize_ceremony False (st\<lparr>sf_identity_setup := Some (pushed\<lparr>jr_stage := Finalizing\<rparr>)\<rparr>)
                else (Inr (), st\<lparr>sf_identity_setup := Some (pushed\<lparr>jr_stage := Stamping\<rparr>)\<rparr>)))"

definition completed :: "identity_setup_journal \<Rightarrow> ceremony_progress" where
  "completed j = (ceremony_progress_from_journal j)\<lparr>cp_stage := StageComplete\<rparr>"

definition ceremony_reconnected ::
  "'w backend \<Rightarrow> device_endpoint \<Rightarrow> device_id option \<Rightarrow> ('w, ceremony_progress) mop" where
  "ceremony_reconnected be e target =
     thenp load_doc (\<lambda>st.
     thenp (liftp (ok_or NoIdentityCeremony (sf_identity_setup st))) (\<lambda>journal.
     let phase = jr_phase journal in
     thenp (liftp (check_reconnect journal e)) (\<lambda>_.
     thenp (in_world (be_open be e)) (\<lambda>session.
     thenp (in_world (current_watermark be session)) (\<lambda>(_, decode).
     thenp (liftp (eligibility st journal e decode)) (\<lambda>adopted_token.
     thenp (liftp (restore_target phase target st)) (\<lambda>(device_id, old_token).
     thenp (in_world (capture_all_profiles session)) (\<lambda>c.
     thenp (now_op be) (\<lambda>time.
     let evidence = into_evidence c time in
     thenp (liftp (stamp_plan (be_crc be) phase adopted_token evidence)) (\<lambda>stamp_progress.
     let subject = \<lparr>sub_endpoint = e, sub_device_id = device_id, sub_token = adopted_token,
           sub_old_token = old_token, sub_captured = Some evidence, sub_stamp_progress = stamp_progress\<rparr>;
         all_valid = (phase = ForeignAdoption \<and> is_fully_stamped subject)
     in thenp (mutate_inner (record_subject phase subject all_valid)) (\<lambda>_.
        if all_valid
        then okp (completed \<lparr>jr_phase = phase, jr_stage = Finalizing, jr_subjects = [subject]\<rparr>)
        else thenp (the_journal ''journal persisted'') (\<lambda>j. okp (ceremony_progress_from_journal j)))))))))))))"

section \<open>Tokens\<close>

type_synonym 'w entropy = "('w, unit, packet) prog"

fun mint_loop ::
  "'w entropy \<Rightarrow> state_file \<Rightarrow> identity_setup_phase \<Rightarrow> physical_id option \<Rightarrow> nat
     \<Rightarrow> ('w, manager_error, physical_id) prog" where
  "mint_loop fill st phase old_token 0 = errp (IdentityCeremonyRefused phase ''token-generation'')"
| "mint_loop fill st phase old_token (Suc n) =
     thenp (map_errp (\<lambda>_. TokenGeneration) fill) (\<lambda>bytes.
     let token = PhysicalId bytes in
     if is_reserved_token token then mint_loop fill st phase old_token n
     else if token_known st token then mint_loop fill st phase old_token n
     else if (case sf_identity_setup st of None \<Rightarrow> False | Some j \<Rightarrow> journal_reserves_token j token)
     then mint_loop fill st phase old_token n
     else if old_token = Some token then mint_loop fill st phase old_token n
     else okp token)"

definition mint_unique_token ::
  "'w entropy \<Rightarrow> state_file \<Rightarrow> identity_setup_phase \<Rightarrow> physical_id option \<Rightarrow> ('w, manager_error, physical_id) prog" where
  "mint_unique_token fill st phase old_token = mint_loop fill st phase old_token 16"

section \<open>Stamping\<close>

definition presents :: "'w backend \<Rightarrow> physical_id \<Rightarrow> dpi_state \<Rightarrow> bool" where
  "presents be token st \<longleftrightarrow> decode_watermark (be_crc be) (dpi_preserved_tail st) = Valid token"

definition stamp_one_profile ::
  "'w backend \<Rightarrow> 'w session \<Rightarrow> profile_id \<Rightarrow> physical_id \<Rightarrow> dpi_state \<Rightarrow> ('w, manager_error, unit) prog" where
  "stamp_one_profile be session profile token dpi =
     thenp (ss_read_profile_metadata session) (\<lambda>current.
     thenp (liftp (metadata_for profile (max (meta_maximum current) profile))) (\<lambda>metadata.
     thenp (write_exact_metadata session metadata) (\<lambda>_.
     thenp (ss_write_dpi session (with_physical_watermark (be_crc be) dpi (Some token)) Readback) (\<lambda>w.
     thenp (case w of
              WriteReadback actual \<Rightarrow> okp (presents be token actual)
            | WriteAcknowledged \<Rightarrow> thenp (ss_read_dpi session profile) (\<lambda>actual. okp (presents be token actual)))
       (\<lambda>verified.
     if \<not> verified then errp (VerificationMismatch ''physical identity watermark'' (Some profile))
     else okp ())))))"

text \<open>A change of the last subject of the journal.\<close>

definition last_subject ::
  "(identity_setup_subject \<Rightarrow> identity_setup_subject) \<Rightarrow> state_file \<Rightarrow> unit manager_result \<times> state_file" where
  "last_subject f st =
     (case sf_identity_setup st of
        None \<Rightarrow> (Inl NoIdentityCeremony, st)
      | Some current \<Rightarrow>
          (if jr_subjects current = []
           then (Inl (InvalidCeremonyAction Stamp (jr_phase current) (jr_stage current)), st)
           else (Inr (), st\<lparr>sf_identity_setup := Some (current
                  \<lparr>jr_subjects := butlast (jr_subjects current) @ [f (last (jr_subjects current))]\<rparr>)\<rparr>)))"

definition mark_stamped :: "profile_id \<Rightarrow> identity_setup_subject \<Rightarrow> identity_setup_subject" where
  "mark_stamped profile s = s\<lparr>sub_stamp_progress := bt_insert profile StampStamped (sub_stamp_progress s)\<rparr>"

definition check_stamp :: "identity_setup_journal \<Rightarrow> unit manager_result" where
  "check_stamp j =
     (if jr_stage j \<noteq> Stamping \<or> jr_phase j = BleAssociation \<or> jr_subjects j = []
      then Inl (InvalidCeremonyAction Stamp (jr_phase j) (jr_stage j)) else Inr ())"

definition reserve_token :: "'w entropy \<Rightarrow> state_file \<Rightarrow> identity_setup_journal \<Rightarrow> ('w, unit) mop" where
  "reserve_token fill st j =
     (let subject = last (jr_subjects j) in
      if sub_token subject = None
      then thenp (in_world (mint_unique_token fill st (jr_phase j) (sub_old_token subject))) (\<lambda>token.
           mutate_inner (last_subject (\<lambda>s. s\<lparr>sub_token := Some token\<rparr>)))
      else okp ())"

definition captured_dpi :: "captured_profile_image \<Rightarrow> profile_id \<Rightarrow> dpi_state manager_result" where
  "captured_dpi captured profile =
     ok_or (VerificationMismatch ''physical identity watermark capture'' (Some profile))
       (map_option obs_value (Option.bind (bt_get (cap_profiles captured) profile) (\<lambda>p. res_observed (ps_dpi p))))"

text \<open>The profiles that are still to be stamped; the last one is recorded with the transition.\<close>

definition pending_profiles :: "identity_setup_subject \<Rightarrow> captured_profile_image \<Rightarrow> profile_id list" where
  "pending_profiles subject captured =
     filter (\<lambda>profile. bt_get (sub_stamp_progress subject) profile \<noteq> Some StampStamped)
       (map fst (cap_profiles captured))"

fun stamp_pending ::
  "'w backend \<Rightarrow> 'w session \<Rightarrow> physical_id \<Rightarrow> captured_profile_image \<Rightarrow> profile_id list \<Rightarrow> ('w, unit) mop" where
  "stamp_pending be session token captured [] = okp ()"
| "stamp_pending be session token captured (profile # pending) =
     thenp (liftp (captured_dpi captured profile)) (\<lambda>dpi.
     thenp (in_world (stamp_one_profile be session profile token dpi)) (\<lambda>_.
     thenp (if pending \<noteq> [] then mutate_inner (last_subject (mark_stamped profile)) else okp ()) (\<lambda>_.
     stamp_pending be session token captured pending)))"

definition stamp_transition ::
  "identity_setup_phase \<Rightarrow> bool \<Rightarrow> profile_id option \<Rightarrow> state_file \<Rightarrow> unit manager_result \<times> state_file" where
  "stamp_transition phase await_second pending_last st =
     (case last_subject (\<lambda>s. case pending_last of None \<Rightarrow> s | Some p \<Rightarrow> mark_stamped p s) st of
        (Inl e, st) \<Rightarrow> (Inl e, st)
      | (Inr _, st) \<Rightarrow>
          let at = (\<lambda>stage. st\<lparr>sf_identity_setup := map_option (\<lambda>j. j\<lparr>jr_stage := stage\<rparr>) (sf_identity_setup st)\<rparr>)
          in if await_second then (Inr (), at AwaitingCapture)
             else if phase = InitialEnrollment then (Inr (), at Finalizing)
             else finalize_ceremony False (at Finalizing))"

definition ceremony_stamp :: "'w backend \<Rightarrow> 'w entropy \<Rightarrow> ('w, ceremony_progress) mop" where
  "ceremony_stamp be fill =
     thenp load_doc (\<lambda>st.
     thenp (liftp (ok_or NoIdentityCeremony (sf_identity_setup st))) (\<lambda>journal.
     thenp (liftp (check_stamp journal)) (\<lambda>_.
     let phase = jr_phase journal in
     thenp (reserve_token fill st journal) (\<lambda>_.
     thenp load_doc (\<lambda>st.
     thenp (liftp (ok_or NoIdentityCeremony (sf_identity_setup st))) (\<lambda>journal.
     let subject = last (jr_subjects journal) in
     thenp (liftp (if jr_subjects journal = [] then Inl (Panic ''validated: a subject exists'') else Inr ())) (\<lambda>_.
     thenp (liftp (ok_or (Panic ''persisted above'') (sub_token subject))) (\<lambda>token.
     thenp (liftp (ok_or (Panic ''validated: stamping requires a captured image'') (sub_captured subject))) (\<lambda>captured.
     let pending = pending_profiles subject captured;
         await_second = (phase = InitialEnrollment \<and> length (jr_subjects journal) = 1)
     in
     thenp (in_world (be_open be (sub_endpoint subject))) (\<lambda>session.
     thenp (stamp_pending be session token captured pending) (\<lambda>_.
     thenp (case map_option obs_value (res_observed (cap_profile_metadata captured)) of
              None \<Rightarrow> okp ()
            | Some original \<Rightarrow>
                map_errp RefreshRestorationFailed (in_world
                  (thenp (write_exact_metadata session original) (\<lambda>_. okp ())))) (\<lambda>_.
     thenp (mutate_inner (stamp_transition phase await_second
              (if pending = [] then None else Some (last pending)))) (\<lambda>_.
     thenp load_doc (\<lambda>st.
     okp (case sf_identity_setup st of
            Some j \<Rightarrow> ceremony_progress_from_journal j
          | None \<Rightarrow> completed journal)))))))))))))))"

section \<open>The other actions\<close>

definition ceremony_adopt :: "'w backend \<Rightarrow> 'w entropy \<Rightarrow> ('w, ceremony_progress) mop" where
  "ceremony_adopt be fill =
     thenp load_doc (\<lambda>st.
     thenp (liftp (ok_or NoIdentityCeremony (sf_identity_setup st))) (\<lambda>journal.
     if jr_phase journal \<noteq> ForeignAdoption
     then errp (InvalidCeremonyAction Adopt (jr_phase journal) (jr_stage journal))
     else ceremony_stamp be fill))"

definition ready_to_finalize :: "identity_setup_journal \<Rightarrow> bool" where
  "ready_to_finalize j \<longleftrightarrow>
     jr_phase j = InitialEnrollment \<and> jr_stage j = Finalizing \<and> length (jr_subjects j) = 2
     \<and> list_all is_fully_stamped (jr_subjects j)"

definition ceremony_finalize_migration :: "ceremony_action \<Rightarrow> ('w, ceremony_progress) mop" where
  "ceremony_finalize_migration action =
     thenp load_doc (\<lambda>st.
     thenp (liftp (ok_or NoIdentityCeremony (sf_identity_setup st))) (\<lambda>journal.
     if \<not> ready_to_finalize journal
     then errp (InvalidCeremonyAction action (jr_phase journal) (jr_stage journal))
     else thenp (mutate_inner (finalize_ceremony (action = SkipMigration))) (\<lambda>_. okp (completed journal))))"

definition associate_subject ::
  "device_endpoint \<Rightarrow> device_id \<Rightarrow> state_file \<Rightarrow> ceremony_progress manager_result \<times> state_file" where
  "associate_subject e device st =
     (case sf_identity_setup st of
        None \<Rightarrow> (Inl NoIdentityCeremony, st)
      | Some current \<Rightarrow>
          (if jr_phase current \<noteq> BleAssociation \<or> jr_stage current \<noteq> AwaitingCapture \<or> jr_subjects current \<noteq> []
           then (Inl (InvalidCeremonyAction Associate (jr_phase current) (jr_stage current)), st)
           else if list_ex (\<lambda>(other_id, other). other_id \<noteq> device \<and> has_locator other (ep_locator e)) (sf_devices st)
           then (Inl (IdentityCeremonyRefused BleAssociation ''endpoint-taken''), st)
           else
             let subject = \<lparr>sub_endpoint = e, sub_device_id = Some device, sub_token = None,
                   sub_old_token = None, sub_captured = None, sub_stamp_progress = []\<rparr>
             in case finalize_ceremony False (st\<lparr>sf_identity_setup := Some (current
                    \<lparr>jr_subjects := jr_subjects current @ [subject], jr_stage := Finalizing\<rparr>)\<rparr>) of
                  (Inl err, st) \<Rightarrow> (Inl err, st)
                | (Inr _, st) \<Rightarrow>
                    (Inr \<lparr>cp_kind = KindBleAssociation, cp_stage = StageComplete, cp_step = Some 1,
                       cp_total_steps = Some 1, cp_identity = Some device, cp_physical_id = None,
                       cp_endpoint = Some e\<rparr>, st)))"

definition ceremony_associate :: "device_endpoint \<Rightarrow> device_id option \<Rightarrow> ('w, ceremony_progress) mop" where
  "ceremony_associate e target =
     (if ep_transport e \<noteq> Ble then errp (IdentityCeremonyRefused BleAssociation ''requires-ble'')
      else thenp (liftp (ok_or (IdentityCeremonyRefused BleAssociation ''requires-target'') target)) (\<lambda>device.
           mutate_inner (associate_subject e device)))"

definition irreversible :: "identity_setup_journal \<Rightarrow> bool" where
  "irreversible j \<longleftrightarrow>
     list_ex (\<lambda>s. list_ex (\<lambda>progress. progress = StampStamped) (map snd (sub_stamp_progress s))) (jr_subjects j)"

definition ceremony_cancel :: "('w, ceremony_progress) mop" where
  "ceremony_cancel =
     thenp load_doc (\<lambda>st.
     thenp (liftp (ok_or NoIdentityCeremony (sf_identity_setup st))) (\<lambda>journal.
     if irreversible journal then errp (IdentityCeremonyRefused (jr_phase journal) ''stamps-irreversible'')
     else thenp (mutate (\<lambda>st. ((), st\<lparr>sf_identity_setup := None\<rparr>))) (\<lambda>_.
          okp ((ceremony_progress_from_journal journal)\<lparr>cp_stage := StageCancelled\<rparr>))))"

definition identity_ceremony_action ::
  "'w backend \<Rightarrow> 'w entropy \<Rightarrow> ceremony_action \<Rightarrow> device_endpoint option \<Rightarrow> device_id option
     \<Rightarrow> ('w, ceremony_progress) mop" where
  "identity_ceremony_action be fill action e target =
     (case action of
        Begin kind \<Rightarrow> begin_identity_ceremony be kind target
      | Reconnected \<Rightarrow>
          thenp (liftp (ok_or (InvalidUpdate ''Reconnected requires the presented endpoint'') e))
            (\<lambda>e. ceremony_reconnected be e target)
      | Capture \<Rightarrow>
          thenp (liftp (ok_or (InvalidUpdate ''Capture requires the presented endpoint'') e))
            (\<lambda>e. ceremony_reconnected be e target)
      | Stamp \<Rightarrow> ceremony_stamp be fill
      | Adopt \<Rightarrow> ceremony_adopt be fill
      | Associate \<Rightarrow>
          thenp (liftp (ok_or (InvalidUpdate ''associate requires the BLE endpoint'') e))
            (\<lambda>e. ceremony_associate e target)
      | AcceptMigration \<Rightarrow> ceremony_finalize_migration action
      | SkipMigration \<Rightarrow> ceremony_finalize_migration action
      | Cancel \<Rightarrow> ceremony_cancel)"

end
