(* ===== verification/X3_Ceremony_Facts.thy ===== *)
theory X3_Ceremony_Facts
  imports X3_Ceremony X3_Updates_Facts
begin

text \<open>
  What the ceremonies guarantee: a minted token is new, every watermark a stamping writes is the one
  the journal reserves, a finalized journal leaves a valid document, and what the code does where a
  caller leaves the expected order.
\<close>

section \<open>Tokens\<close>

definition fresh_token :: "state_file \<Rightarrow> physical_id option \<Rightarrow> physical_id \<Rightarrow> bool" where
  "fresh_token st old token \<longleftrightarrow>
     \<not> is_reserved_token token \<and> Some token \<notin> physical_of ` set (sf_devices st)
     \<and> (\<forall>j. sf_identity_setup st = Some j \<longrightarrow> \<not> journal_reserves_token j token) \<and> old \<noteq> Some token"

lemma token_known_iff: "token_known st token \<longleftrightarrow> Some token \<in> physical_of ` set (sf_devices st)"
  by (force simp: token_known_def list_ex_iff physical_of_def)

lemma mint_loop_fresh:
  assumes "mint_loop fill st phase old n s = (Inr token, s')"
  shows "fresh_token st old token"
  using assms
proof (induction n arbitrary: s)
  case (Suc n)
  then show ?case
    by (auto simp: thenp_eq_Inr Let_def fresh_token_def token_known_iff split: if_splits option.splits)
qed simp

lemma mint_loop_keeps: "keeps I fill \<Longrightarrow> keeps I (mint_loop fill st phase old n)"
  by (induction n) (auto simp: Let_def intro!: effects)

section \<open>Stamping\<close>

text \<open>Sessions of mice which only a DPI write with a tail outside \<open>T\<close> could harm.\<close>

definition marks_only :: "('w \<Rightarrow> bool) \<Rightarrow> packet set \<Rightarrow> 'w session \<Rightarrow> bool" where
  "marks_only I T s \<longleftrightarrow>
     keeps I (ss_read_profile_metadata s) \<and> (\<forall>p. keeps I (ss_read_dpi s p))
     \<and> (\<forall>metadata. keeps I (ss_write_profile_metadata s metadata))
     \<and> (\<forall>st v. dpi_preserved_tail st \<in> T \<longrightarrow> keeps I (ss_write_dpi s st v))"

lemma marks_write_exact: "marks_only I T s \<Longrightarrow> keeps I (write_exact_metadata s metadata)"
  by (auto simp: marks_only_def write_exact_metadata_def intro!: effects split: session_write.split)

lemma marks_stamp_one:
  assumes "marks_only I T s" and "to_watermark_bytes (be_crc be) token \<in> T"
  shows "keeps I (stamp_one_profile be s profile token dpi)"
  using assms marks_write_exact [OF assms(1)]
  by (auto simp: stamp_one_profile_def marks_only_def with_physical_watermark_def intro!: effects
      split: session_write.split)

lemma marks_stamp_pending:
  assumes "marks_only I T s" and "to_watermark_bytes (be_crc be) token \<in> T"
  shows "keeps (world_ok I) (stamp_pending be s token captured pending)"
proof (induction pending)
  case (Cons profile pending)
  show ?case
    unfolding stamp_pending.simps
    by (intro keeps_thenp keeps_if world_pure world_mutate world_in_world marks_stamp_one [OF assms] Cons.IH)
qed (simp add: world_pure)

lemma marks_open:
  assumes "careful_backend I S be"
  shows "triple (world_ok I) (in_world (be_open be e)) (\<lambda>s m. world_ok I m \<and> S s) (\<lambda>_. world_ok I)"
  using assms in_world_triple [of I "be_open be e" "\<lambda>s w. I w \<and> S s" "\<lambda>_. I"]
  by (simp add: careful_backend_def)

text \<open>The tokens a stamping may write: the one reserved on the last subject, or else a new one.\<close>

definition stampable :: "state_file \<Rightarrow> physical_id \<Rightarrow> bool" where
  "stampable st token \<longleftrightarrow>
     (case sf_identity_setup st of
        None \<Rightarrow> False
      | Some j \<Rightarrow>
          jr_subjects j \<noteq> []
          \<and> (case sub_token (last (jr_subjects j)) of
               Some reserved \<Rightarrow> token = reserved
             | None \<Rightarrow> fresh_token st (sub_old_token (last (jr_subjects j))) token))"

lemma reserve_token_stampable:
  assumes "reserve_token fill (doc m) j m = (Inr u, m')" and "sf_identity_setup (doc m) = Some j"
    and "jr_subjects j \<noteq> []" and "sf_identity_setup (doc m') = Some j'" and "jr_subjects j' \<noteq> []"
    and "sub_token (last (jr_subjects j')) = Some token"
  shows "stampable (doc m) token"
proof (cases "sub_token (last (jr_subjects j))")
  case None
  with assms(1) obtain token' m1 where
    mint: "in_world (mint_unique_token fill (doc m) (jr_phase j) (sub_old_token (last (jr_subjects j)))) m
      = (Inr token', m1)"
    and put: "mutate_inner (last_subject (\<lambda>s. s\<lparr>sub_token := Some token'\<rparr>)) m1 = (Inr u, m')"
    by (auto simp: reserve_token_def Let_def thenp_eq_Inr)
  have "fresh_token (doc m) (sub_old_token (last (jr_subjects j))) token'"
    using mint mint_loop_fresh
    by (fastforce simp: in_world_def zoomp_def mint_unique_token_def split: prod.splits)
  moreover have "doc m' = doc m\<lparr>sf_identity_setup := Some (j\<lparr>jr_subjects :=
      butlast (jr_subjects j) @ [last (jr_subjects j)\<lparr>sub_token := Some token'\<rparr>]\<rparr>)\<rparr>"
    using mutate_inner_Ok(1) [OF put] doc_in_world [OF mint] assms(2,3) by (auto simp: last_subject_def)
  then have "token' = token" using assms(4-6) by auto
  ultimately show ?thesis using assms(2,3) None by (simp add: stampable_def)
next
  case (Some reserved)
  then have "m' = m" using assms(1) by (simp add: reserve_token_def)
  with assms(2-6) Some show ?thesis by (auto simp: stampable_def)
qed

lemma journal_step:
  "thenp load_doc (\<lambda>st. thenp (liftp (ok_or NoIdentityCeremony (sf_identity_setup st))) (f st)) m =
     (case sf_identity_setup (doc m) of
        None \<Rightarrow> (Inl NoIdentityCeremony, m) | Some j \<Rightarrow> f (doc m) j m)"
  by (simp add: thenp_def [of load_doc] load_doc_eq errp_def split: option.split)

lemma keeps_step:
  assumes "keeps J p" and "J m" and "\<And>x m1. p m = (Inr x, m1) \<Longrightarrow> J m1 \<Longrightarrow> J (snd (f x m1))"
  shows "J (snd (thenp p f m))"
proof -
  obtain r m1 where run: "p m = (r, m1)" by force
  with keepsD [OF assms(1,2) run] assms(3) show ?thesis by (cases r) (auto simp: thenp_def)
qed

lemma keeps_guarded: "(S \<Longrightarrow> keeps J p) \<Longrightarrow> triple (\<lambda>m. J m \<and> S) p (\<lambda>_. J) (\<lambda>_. J)"
  by (auto simp: triple_iff keeps_triple)

text \<open>What follows the reservation, for a token that may be written.\<close>

lemma marks_stamp_tail:
  assumes "careful_backend I (marks_only I T) be" and "to_watermark_bytes (be_crc be) token \<in> T"
  shows "keeps (world_ok I) (thenp (in_world (be_open be e)) (\<lambda>session.
     thenp (stamp_pending be session token captured pending) (\<lambda>_.
     thenp (case md of
              None \<Rightarrow> okp ()
            | Some original \<Rightarrow>
                map_errp RefreshRestorationFailed (in_world
                  (thenp (write_exact_metadata session original) (\<lambda>_. okp ())))) (\<lambda>_.
     thenp (mutate_inner f) (\<lambda>_. thenp load_doc (\<lambda>st. okp (g st)))))))"
  unfolding keeps_triple
proof (rule triple_thenp [OF marks_open [OF assms(1)]], rule keeps_guarded)
  fix session
  assume s: "marks_only I T session"
  have r: "keeps (world_ok I) (case md of
              None \<Rightarrow> okp ()
            | Some original \<Rightarrow>
                map_errp RefreshRestorationFailed (in_world
                  (thenp (write_exact_metadata session original) (\<lambda>_. okp ()))))"
    using marks_write_exact [OF s]
    by (auto intro!: keeps_map_errp world_in_world keeps_thenp keeps_pure split: option.split)
  show "keeps (world_ok I) (thenp (stamp_pending be session token captured pending) (\<lambda>_.
     thenp (case md of
              None \<Rightarrow> okp ()
            | Some original \<Rightarrow>
                map_errp RefreshRestorationFailed (in_world
                  (thenp (write_exact_metadata session original) (\<lambda>_. okp ())))) (\<lambda>_.
     thenp (mutate_inner f) (\<lambda>_. thenp load_doc (\<lambda>st. okp (g st))))))"
    by (intro keeps_thenp marks_stamp_pending [OF s assms(2)] r world_mutate world_load world_pure)
qed

lemma stamp_marks:
  assumes be: "careful_backend I (marks_only I {to_watermark_bytes (be_crc be) token | token. stampable (doc m) token}) be"
    and fill: "keeps I fill" and start: "I (mn_world m)"
  shows "I (mn_world (snd (ceremony_stamp be fill m)))"
proof (cases "sf_identity_setup (doc m)")
  case None
  with start show ?thesis by (simp add: ceremony_stamp_def journal_step)
next
  case (Some j)
  let ?T = "{to_watermark_bytes (be_crc be) token | token. stampable (doc m) token}"
  show ?thesis
  proof (cases "check_stamp j")
    case (Inl e)
    with start Some show ?thesis by (simp add: ceremony_stamp_def journal_step errp_def)
  next
    case (Inr u)
    then have subjects: "jr_subjects j \<noteq> []" by (auto simp: check_stamp_def split: if_splits)
    have res: "keeps (world_ok I) (reserve_token fill (doc m) j)"
      unfolding reserve_token_def Let_def mint_unique_token_def
      by (intro keeps_if keeps_thenp world_in_world mint_loop_keeps fill world_mutate world_pure)
    show ?thesis
      unfolding ceremony_stamp_def
      unfolding journal_step Some option.case Inr thenp_liftp Let_def
    proof (rule keeps_step [OF res start], goal_cases)
      case (1 u m1)
      note run = 1(1) and ok = 1(2)
      show ?case
      proof (cases "sf_identity_setup (doc m1)")
        case None
        with ok show ?thesis by (simp add: journal_step)
      next
        case journal: (Some j')
        show ?thesis
        proof (cases "jr_subjects j' = [] \<or> sub_token (last (jr_subjects j')) = None
            \<or> sub_captured (last (jr_subjects j')) = None")
          case True
          with ok journal show ?thesis
            by (cases "jr_subjects j' = []"; cases "sub_token (last (jr_subjects j'))")
              (simp_all add: journal_step errp_def)
        next
          case False
          then obtain token captured where t: "jr_subjects j' \<noteq> []"
              "sub_token (last (jr_subjects j')) = Some token" "sub_captured (last (jr_subjects j')) = Some captured"
            by auto
          have "to_watermark_bytes (be_crc be) token \<in> ?T"
            using reserve_token_stampable [OF run Some subjects journal t(1,2)] by blast
          note tail = marks_stamp_tail [OF be this, unfolded keeps_def, rule_format, OF ok]
          show ?thesis
            by (simp only: journal_step journal option.case t if_False ok_or_simps thenp_liftp tail)
        qed
      qed
    qed
  qed
qed

section \<open>Finalizing\<close>

text \<open>An endpoint any identity may hold.\<close>

definition sound_endpoint :: "device_endpoint \<Rightarrow> bool" where
  "sound_endpoint e \<longleftrightarrow> validate_endpoint (DeviceId []) (ep_transport e, e) = Inr ()"

lemma sound_endpoint_any: "sound_endpoint e \<Longrightarrow> validate_endpoint d (ep_transport e, e) = Inr ()"
  by (simp add: sound_endpoint_def validate_endpoint_eq_Inr)

lemma bt_adjust_split:
  assumes "bt_ok m" and "bt_get m d = Some dev"
  obtains xs ys where "m = xs @ (d, dev) # ys" and "bt_adjust d f m = xs @ (d, f dev) # ys"
proof -
  obtain xs ys where m: "m = xs @ (d, dev) # ys" using bt_get_in [OF assms(2)] by (meson split_list)
  have "distinct (map fst m)" using assms(1) by (simp add: bt_ok_def strict_sorted_iff)
  then have "d \<notin> fst ` set xs" and "d \<notin> fst ` set ys" by (auto simp: m)
  then have "bt_adjust d f xs = xs" and "bt_adjust d f ys = ys"
    by (force simp: bt_adjust_def intro: map_idI)+
  with m that show ?thesis by (simp add: bt_adjust_def)
qed

lemma adjust_valid:
  assumes "valid_document sf" and "bt_ok (sf_devices sf)" and "bt_get (sf_devices sf) d = Some dev"
    and "valid_device d (f dev)"
    and "physical_of (d, f dev) = physical_of (d, dev)
      \<or> sf_identity_mode sf = PersistentMode \<and> physical_of (d, f dev) \<noteq> None
        \<and> physical_of (d, f dev) \<notin> physical_of ` set (sf_devices sf)"
  shows "valid_document (sf\<lparr>sf_devices := bt_adjust d f (sf_devices sf), sf_identity_setup := None\<rparr>)"
proof -
  obtain xs ys where m: "sf_devices sf = xs @ (d, dev) # ys" "bt_adjust d f (sf_devices sf) = xs @ (d, f dev) # ys"
    by (rule bt_adjust_split [OF assms(2,3)])
  note m = m m(2) [unfolded m(1)]
  have "valid_mode (sf\<lparr>sf_devices := bt_adjust d f (sf_devices sf), sf_identity_setup := None\<rparr>)"
  proof -
    have old: "valid_mode sf" using assms(1) by (simp add: valid_document_def)
    have out: "Some i \<notin> physical_of ` set l \<Longrightarrow> e \<in> set l \<Longrightarrow> physical_of e \<noteq> Some i" for i e l
      by (metis imageI)
    show ?thesis
    proof (cases "sf_identity_mode sf")
      case LegacyMode
      have "bt_adjust d f [(d, dev)] = [(d, f dev)]" by (simp add: bt_adjust_def)
      with old assms(5) LegacyMode show ?thesis by (auto simp: valid_mode_def m simp del: physical_of_pair)
    next
      case PersistentMode
      with old assms(5) out show ?thesis by (auto simp: valid_mode_def m simp del: physical_of_pair)
    qed
  qed
  moreover have "\<forall>(k, v) \<in> set (bt_adjust d f (sf_devices sf)). valid_device k v"
    using assms(1,4) by (auto simp: valid_document_def m)
  moreover have "fst ` set (bt_adjust d f (sf_devices sf)) = fst ` set (sf_devices sf)"
    by (metis map_fst_adjust set_map)
  ultimately show ?thesis
    using assms(1) by (simp add: valid_document_def valid_mapping_def)
qed

lemma apply_image_valid:
  assumes "valid_device d dev" and "\<And>c. captured = Some c \<Longrightarrow> valid_image c"
  shows "valid_device d (apply_captured_image captured dev)"
  using assms by (auto simp: apply_captured_image_def valid_device_def valid_image_def split: option.split)

lemma apply_image_identity [simp]: "ds_identity (apply_captured_image captured dev) = ds_identity dev"
  by (simp add: apply_captured_image_def split: option.split)

lemma fresh_device_valid:
  assumes "sound_endpoint e"
  shows "valid_device d (device_state_new (upsert_endpoint ((identity_new d n)\<lparr>id_physical_id := i\<rparr>) e))"
proof -
  have "identity_validate (upsert_endpoint ((identity_new d n)\<lparr>id_physical_id := i\<rparr>) e) = Inr ()"
    using sound_endpoint_any [OF assms, of d]
    by (intro identity_validate_upsert) (simp_all add: identity_new_def identity_validate_def)
  then show ?thesis
    by (simp add: valid_device_def device_state_new_def upsert_endpoint_def identity_new_def
        resource_empty_def validate_resource_state_def)
qed

text \<open>A journal whose work is done: what a finalization starts from.\<close>

definition finalizing :: "state_file \<Rightarrow> identity_setup_journal \<Rightarrow> bool" where
  "finalizing st j \<longleftrightarrow> valid_document st \<and> wf_state_file st \<and> sf_identity_setup st = Some j
     \<and> jr_stage j = Finalizing \<and> (\<forall>s \<in> set (jr_subjects j). sound_endpoint (sub_endpoint s))"

lemma without_journal: "valid_document st \<Longrightarrow> valid_document (st\<lparr>sf_identity_setup := None\<rparr>)"
  by (cases "sf_identity_mode st") (simp_all add: valid_document_def valid_mode_def valid_mapping_def)

lemma finalizing_subject:
  assumes "finalizing st j" and "jr_phase j \<noteq> InitialEnrollment"
  obtains s where "jr_subjects j = [s]" and "valid_progress st s" and "valid_rotation st s"
    and "sub_old_token s \<noteq> None \<longleftrightarrow> jr_phase j = Restore" and "sound_endpoint (sub_endpoint s)"
    and "sf_identity_mode st = PersistentMode"
    and "jr_phase j \<noteq> BleAssociation \<Longrightarrow> \<exists>t. sub_token s = Some t \<and> Some t \<notin> physical_of ` set (sf_devices st)"
    and "jr_phase j = BleAssociation \<Longrightarrow> valid_ble_subject st s"
proof -
  have j: "valid_journal st j" and stage: "jr_stage j = Finalizing"
    using assms(1) by (simp_all add: finalizing_def valid_document_def)
  then have "length (jr_subjects j) = 1"
    using assms(2) by (simp add: valid_journal_def valid_stage_def)
  then obtain s where s: "jr_subjects j = [s]" by (cases "jr_subjects j") auto
  have mode: "sf_identity_mode st = PersistentMode"
    using j assms(2) by (cases "sf_identity_mode st") (simp_all add: valid_journal_def)
  show ?thesis
    by (rule that [OF s]) (use assms j stage s mode in
      \<open>auto simp: finalizing_def valid_journal_def valid_stage_def uncommitted_def split: option.splits\<close>)
qed

lemma finalize_new_valid:
  assumes "finalizing st j" and "jr_phase j = AddMouse \<or> jr_phase j = ForeignAdoption"
    and "sf_next_device_number st \<noteq> - 1"
  shows "\<exists>st'. finalize_new_mouse j st = (Inr (), st') \<and> valid_document (st'\<lparr>sf_identity_setup := None\<rparr>)"
proof -
  have phase: "jr_phase j \<noteq> InitialEnrollment" "jr_phase j \<noteq> BleAssociation" using assms(2) by auto
  obtain s where s: "jr_subjects j = [s]" "valid_progress st s" "sound_endpoint (sub_endpoint s)"
    and mode: "sf_identity_mode st = PersistentMode"
    and tok: "\<exists>t. sub_token s = Some t \<and> Some t \<notin> physical_of ` set (sf_devices st)"
    using finalizing_subject [OF assms(1) phase(1)] phase(2) by metis
  then obtain t where t: "sub_token s = Some t" "Some t \<notin> physical_of ` set (sf_devices st)" by auto
  let ?st = "st\<lparr>sf_identity_setup := None\<rparr>"
  let ?d = "logical_key (sf_next_device_number st)"
  let ?dev = "apply_captured_image (sub_captured s)
      (device_state_new (upsert_endpoint ((identity_new ?d None)\<lparr>id_physical_id := Some t\<rparr>) (sub_endpoint s)))"
  have v: "valid_document st" and wf: "wf_state_file st" using assms(1) by (simp_all add: finalizing_def)
  have dev: "valid_device ?d ?dev"
    using s(2) by (intro apply_image_valid fresh_device_valid s(3)) (auto simp: valid_progress_def)
  have added: "valid_document (?st\<lparr>sf_next_device_number := sf_next_device_number ?st + 1,
      sf_devices := bt_insert ?d ?dev (sf_devices ?st)\<rparr>)"
    by (rule add_device_valid [where i = "Some t"])
      (use wf dev assms(3) mode t(2) in \<open>simp_all add: without_journal [OF v] wf_state_file_def
        physical_id_admitted_def device_state_new_def upsert_endpoint_def\<close>)
  have alloc: "allocate_device_id st = (Inr ?d, st\<lparr>sf_next_device_number := sf_next_device_number st + 1\<rparr>)"
    by (rule allocate_valid [OF v wf assms(3)])
  let ?out = "st\<lparr>sf_next_device_number := sf_next_device_number st + 1,
      sf_devices := bt_insert ?d ?dev (sf_devices st)\<rparr>"
  have "finalize_new_mouse j st = (Inr (), ?out)"
    by (simp add: finalize_new_mouse_def first_subject_def subject_token_def s(1) t(1) alloc)
  moreover have "valid_document (?out\<lparr>sf_identity_setup := None\<rparr>)"
    using added by (cases st) simp
  ultimately show ?thesis by blast
qed

lemma finalize_restore_valid:
  assumes "finalizing st j" and "jr_phase j = Restore"
  shows "\<exists>st'. finalize_restore j st = (Inr (), st') \<and> valid_document (st'\<lparr>sf_identity_setup := None\<rparr>)"
proof -
  have phase: "jr_phase j \<noteq> InitialEnrollment" "jr_phase j \<noteq> BleAssociation" using assms(2) by auto
  obtain s where s: "jr_subjects j = [s]" "valid_progress st s" "valid_rotation st s" "sub_old_token s \<noteq> None"
      "sound_endpoint (sub_endpoint s)" "sf_identity_mode st = PersistentMode"
    and tok: "\<exists>t. sub_token s = Some t \<and> Some t \<notin> physical_of ` set (sf_devices st)"
    using finalizing_subject [OF assms(1) phase(1)] phase(2) assms(2) by metis
  then obtain t where t: "sub_token s = Some t" "Some t \<notin> physical_of ` set (sf_devices st)" by auto
  obtain d dev where d: "sub_device_id s = Some d" "bt_get (sf_devices st) d = Some dev"
    using s(3,4) by (auto simp: valid_rotation_def)
  let ?f = "\<lambda>dev. apply_captured_image (sub_captured s)
      (dev\<lparr>ds_identity := (ds_identity dev)\<lparr>id_physical_id := Some t, id_preferred_transport := None,
         id_endpoints := [(ep_transport (sub_endpoint s), sub_endpoint s)]\<rparr>\<rparr>)"
  have v: "valid_document st" and ok: "bt_ok (sf_devices st)"
    using assms(1) by (simp_all add: finalizing_def wf_state_file_def)
  have "valid_device d dev" using v bt_get_in [OF d(2)] by (auto simp: valid_document_def)
  then have "valid_device d (dev\<lparr>ds_identity := (ds_identity dev)\<lparr>id_physical_id := Some t,
      id_preferred_transport := None, id_endpoints := [(ep_transport (sub_endpoint s), sub_endpoint s)]\<rparr>\<rparr>)"
    using sound_endpoint_any [OF s(5), of d] by (simp add: valid_device_def identity_validate_eq_Inr)
  then have "valid_device d (?f dev)"
    using s(2) by (intro apply_image_valid) (auto simp: valid_progress_def)
  from adjust_valid [where f = ?f, OF v ok d(2) this] t(2) s(6)
  have "valid_document (st\<lparr>sf_devices := bt_adjust d ?f (sf_devices st), sf_identity_setup := None\<rparr>)" by simp
  then show ?thesis
    using d s(1) t(1)
    by (simp add: finalize_restore_def first_subject_def subject_target_def subject_token_def adjust_device_def
        bt_contains_def)
qed

lemma finalize_ble_valid:
  assumes "finalizing st j" and "jr_phase j = BleAssociation"
    and "\<forall>s \<in> set (jr_subjects j). sub_device_id s \<noteq> None"
  shows "\<exists>st'. finalize_ble j st = (Inr (), st') \<and> valid_document (st'\<lparr>sf_identity_setup := None\<rparr>)"
proof -
  have phase: "jr_phase j \<noteq> InitialEnrollment" using assms(2) by auto
  obtain s where s: "jr_subjects j = [s]" "valid_progress st s" "sound_endpoint (sub_endpoint s)"
    using finalizing_subject [OF assms(1) phase] by metis
  obtain d where d: "sub_device_id s = Some d" using assms(3) s(1) by auto
  then obtain dev where dev: "bt_get (sf_devices st) d = Some dev"
    using s(2) by (auto simp: valid_progress_def bt_contains_def)
  let ?f = "\<lambda>dev. dev\<lparr>ds_identity := upsert_endpoint (ds_identity dev) (sub_endpoint s)\<rparr>"
  have v: "valid_document st" and wf: "wf_state_file st" using assms(1) by (simp_all add: finalizing_def)
  have old: "valid_device d dev" using v bt_get_in [OF dev] by (auto simp: valid_document_def)
  have "bt_ok (id_endpoints (ds_identity dev))"
    using wf bt_get_in [OF dev] by (auto simp: wf_state_file_def wf_device_state_def)
  then have "identity_validate (upsert_endpoint (ds_identity dev) (sub_endpoint s)) = Inr ()"
    using old sound_endpoint_any [OF s(3)] by (intro identity_validate_upsert) (simp_all add: valid_device_def)
  then have "valid_device d (?f dev)"
    using old by (simp add: valid_device_def upsert_endpoint_def)
  from adjust_valid [where f = ?f, OF v _ dev this] wf
  have "valid_document (st\<lparr>sf_devices := bt_adjust d ?f (sf_devices st), sf_identity_setup := None\<rparr>)"
    by (simp add: wf_state_file_def upsert_endpoint_def)
  then show ?thesis
    using d s(1) dev
    by (simp add: finalize_ble_def first_subject_def subject_target_def adjust_device_def bt_contains_def)
qed

text \<open>The enrollment: the two new mice replace the old one, so whatever endpoint was remembered for it
  keeps pointing at a mouse that is gone.\<close>

lemma raise_number_valid:
  assumes "valid_document sf" and "sf_next_device_number sf \<noteq> - 1"
  shows "valid_document (sf\<lparr>sf_next_device_number := sf_next_device_number sf + 1\<rparr>)"
proof -
  let ?n = "sf_next_device_number sf"
  have up: "unat (?n + 1) = unat ?n + 1" by (rule unat_u64_plus_1 [OF assms(2)])
  have "m < ?n \<Longrightarrow> m < ?n + 1" for m using up by (simp add: word_less_nat_alt)
  moreover have "?n + 1 \<noteq> 0" using up by (metis unat_0 add_is_0 one_neq_zero)
  moreover have "valid_journal (sf\<lparr>sf_next_device_number := ?n + 1\<rparr>) j \<longleftrightarrow> valid_journal sf j" for j
    by (simp add: valid_journal_def valid_progress_def valid_rotation_def uncommitted_def valid_ble_subject_def)
  moreover have "valid_mode (sf\<lparr>sf_next_device_number := ?n + 1\<rparr>) \<longleftrightarrow> valid_mode sf"
    and "valid_mapping (sf\<lparr>sf_next_device_number := ?n + 1\<rparr>) \<longleftrightarrow> valid_mapping sf"
    by (simp_all add: valid_mode_def valid_mapping_def split: identity_mode.split)
  ultimately show ?thesis using assms(1) by (simp add: valid_document_def)
qed

lemma allocate_two:
  assumes "valid_document st" and "wf_state_file st" and "unat (sf_next_device_number st) + 2 < 2 ^ 64"
  defines "n \<equiv> sf_next_device_number st"
  shows "allocate_ids 2 st = (Inr [logical_key n, logical_key (n + 1)], st\<lparr>sf_next_device_number := n + 1 + 1\<rparr>)"
    and "\<not> bt_contains (sf_devices st) (logical_key n)" and "\<not> bt_contains (sf_devices st) (logical_key (n + 1))"
    and "valid_document (st\<lparr>sf_next_device_number := n + 1 + 1\<rparr>)" and "n \<noteq> 0" and "n + 1 \<noteq> 0"
    and "n < n + 1" and "n + 1 < n + 1 + 1"
proof -
  let ?st = "st\<lparr>sf_next_device_number := n + 1\<rparr>"
  have m1: "unat (- 1 :: u64) = 2 ^ 64 - 1" by (simp add: unsigned_minus_1_eq_mask mask_eq_exp_minus_1)
  have n1: "n \<noteq> - 1" using assms(3) m1 by (auto simp: n_def)
  have un: "unat (n + 1) = unat n + 1" by (rule unat_u64_plus_1 [OF n1])
  have n2: "n + 1 \<noteq> - 1"
  proof
    assume "n + 1 = - 1"
    with un m1 have "unat n + 1 = 2 ^ 64 - 1" by (simp only:)
    with assms(3) show False by (simp add: n_def)
  qed
  have un2: "unat (n + 1 + 1) = unat n + 2" using unat_u64_plus_1 [OF n2] un by simp
  have v1: "valid_document ?st" using raise_number_valid [OF assms(1)] n1 by (simp add: n_def)
  have v2: "valid_document (?st\<lparr>sf_next_device_number := n + 1 + 1\<rparr>)"
    using raise_number_valid [OF v1] n2 by simp
  have wf: "wf_state_file ?st" using assms(2) by (simp add: wf_state_file_def)
  have a1: "allocate_device_id st = (Inr (logical_key n), ?st)"
    using allocate_valid(1) [OF assms(1,2)] n1 by (simp add: n_def)
  have a2: "allocate_device_id ?st = (Inr (logical_key (n + 1)), ?st\<lparr>sf_next_device_number := n + 1 + 1\<rparr>)"
    using allocate_valid(1) [OF v1 wf] n2 by simp
  show "allocate_ids 2 st = (Inr [logical_key n, logical_key (n + 1)], st\<lparr>sf_next_device_number := n + 1 + 1\<rparr>)"
    using a1 a2 by (simp add: numeral_2_eq_2)
  show "\<not> bt_contains (sf_devices st) (logical_key n)"
    using allocate_valid(2) [OF assms(1,2)] n1 by (simp add: n_def)
  show "\<not> bt_contains (sf_devices st) (logical_key (n + 1))"
    using allocate_valid(2) [OF v1 wf] n2 by simp
  show "valid_document (st\<lparr>sf_next_device_number := n + 1 + 1\<rparr>)" using v2 by simp
  show "n \<noteq> 0" using assms(1) by (simp add: valid_document_def n_def)
  show "n + 1 \<noteq> 0" using un by (metis unat_0 add_is_0 one_neq_zero)
  show "n < n + 1" and "n + 1 < n + 1 + 1" using un un2 by (simp_all add: word_less_nat_alt)
qed

lemma enrolled_valid:
  assumes "valid_progress st s" and "sound_endpoint (sub_endpoint s)"
  shows "valid_device d (enrolled_device n d s)"
  unfolding enrolled_device_def
  by (rule apply_image_valid [OF fresh_device_valid [OF assms(2)]])
    (use assms(1) in \<open>simp add: valid_progress_def\<close>)

lemma enrolled_physical: "physical_of (d, enrolled_device n d s) = sub_token s"
  by (simp add: enrolled_device_def device_state_new_def upsert_endpoint_def)

lemma finalizing_pair:
  assumes "finalizing st j" and "jr_phase j = InitialEnrollment"
  obtains a b t u where "jr_subjects j = [a, b]" and "valid_progress st a" and "valid_progress st b"
    and "sound_endpoint (sub_endpoint a)" and "sound_endpoint (sub_endpoint b)"
    and "sub_token a = Some t" and "sub_token b = Some u" and "t \<noteq> u"
proof -
  have j: "valid_journal st j" and stage: "jr_stage j = Finalizing"
    using assms(1) by (simp_all add: finalizing_def valid_document_def)
  then have "length (jr_subjects j) = 2"
    using assms(2) by (simp add: valid_journal_def valid_stage_def)
  then obtain a b where ab: "jr_subjects j = [a, b]"
    by (auto simp: numeral_2_eq_2 length_Suc_conv)
  moreover obtain t u where "sub_token a = Some t" "sub_token b = Some u"
  proof -
    have "list_all (\<lambda>s. sub_token s \<noteq> None) (jr_subjects j)"
      using j stage assms(2) by (simp add: valid_journal_def valid_stage_def list_all_iff)
    then show ?thesis using ab that by auto
  qed
  moreover have "distinct (tokens_of (jr_subjects j))" and "\<forall>s \<in> set (jr_subjects j). valid_progress st s"
    using j by (simp_all add: valid_journal_def)
  moreover have "\<forall>s \<in> set (jr_subjects j). sound_endpoint (sub_endpoint s)"
    using assms(1) by (simp add: finalizing_def)
  ultimately show ?thesis by (intro that) simp_all
qed

lemma enrollment_outcome:
  assumes "finalizing st j" and "jr_phase j = InitialEnrollment"
    and "unat (sf_next_device_number st) + 2 < 2 ^ 64"
  shows "\<exists>st'. finalize_initial_enrollment j skip st = (Inr (), st')
    \<and> (valid_document (st'\<lparr>sf_identity_setup := None\<rparr>) \<longleftrightarrow> em_endpoints (sf_endpoint_mapping st) = [])"
proof -
  let ?n = "sf_next_device_number st"
  let ?d = "logical_key ?n" and ?e = "logical_key (?n + 1)"
  obtain a b t u where ab: "jr_subjects j = [a, b]" "valid_progress st a" "valid_progress st b"
      "sound_endpoint (sub_endpoint a)" "sound_endpoint (sub_endpoint b)" "sub_token a = Some t"
      "sub_token b = Some u" "t \<noteq> u"
    by (rule finalizing_pair [OF assms(1,2)])
  have v: "valid_document st" and wf: "wf_state_file st" using assms(1) by (simp_all add: finalizing_def)
  note two = allocate_two [OF v wf assms(3)]
  have ne: "?d \<noteq> ?e" using two(5-7) device_number_key by (metis option.inject order_less_irrefl)
  define devices where "devices = fold (enroll_subject (case sf_devices st of [] \<Rightarrow> None | (_, dev) # _ \<Rightarrow> Some dev)
      (unique_legacy_match skip (case sf_devices st of [] \<Rightarrow> None | (_, dev) # _ \<Rightarrow> Some dev) [a, b]))
      (zip [0..<2] (zip [a, b] [?d, ?e])) []"
  obtain n1 n2 where devs: "devices = bt_insert ?e (enrolled_device n2 ?e b) [(?d, enrolled_device n1 ?d a)]"
    by (simp add: devices_def enroll_subject_def Let_def numeral_2_eq_2)
  let ?st = "st\<lparr>sf_next_device_number := ?n + 1 + 1, sf_devices := devices,
      sf_identity_mode := PersistentMode, sf_selected_device := Some ?d\<rparr>"
  have run: "finalize_initial_enrollment j skip st = (Inr (), ?st)"
    using two(1) by (simp add: finalize_initial_enrollment_def Let_def ab(1) devices_def numeral_2_eq_2)
  have keys: "bt_contains devices k \<longleftrightarrow> k = ?d \<or> k = ?e" for k
    by (auto simp: devs bt_contains_iff fst_set_bt_insert)
  have all: "\<forall>(k, dev) \<in> set devices. valid_device k dev"
    using enrolled_valid [OF ab(2,4)] enrolled_valid [OF ab(3,5)] ne
    by (auto simp: devs)
  have phys: "set (map physical_of devices) = {Some t, Some u} \<and> length devices = 2"
    using ne ab(6,7) by (auto simp: devs enrolled_physical simp del: physical_of_pair)
  have "valid_mode (?st\<lparr>sf_identity_setup := None\<rparr>)"
  proof -
    have "distinct (map physical_of devices)"
      using phys ab(8) by (intro card_distinct) simp
    moreover have "\<forall>e \<in> set devices. physical_of e \<noteq> None"
      using phys by (metis empty_iff insert_iff list.set_map imageI option.distinct(1))
    ultimately show ?thesis by (simp add: valid_mode_def)
  qed
  moreover have "\<forall>d \<in> fst ` set devices. \<forall>m. device_number d = Some m \<longrightarrow> m < ?n + 1 + 1"
    using two(5-8) by (auto simp: devs device_number_key split: if_splits)
  moreover have "valid_mapping (?st\<lparr>sf_identity_setup := None\<rparr>) \<longleftrightarrow> em_endpoints (sf_endpoint_mapping st) = []"
  proof (cases "em_endpoints (sf_endpoint_mapping st)")
    case Nil
    then show ?thesis using v by (simp add: valid_document_def valid_mapping_def)
  next
    case (Cons e es)
    obtain fp d where e: "e = (fp, d)" by (cases e)
    have "bt_contains (sf_devices st) d" using v Cons e by (simp add: valid_document_def valid_mapping_def)
    then have "\<not> bt_contains devices d" using two(2,3) by (auto simp: keys)
    then show ?thesis using Cons e by (simp add: valid_mapping_def)
  qed
  moreover have "sf_schema_version st = 5" and "?n + 1 + 1 \<noteq> 0"
    using two(4) v by (simp_all add: valid_document_def)
  ultimately have "valid_document (?st\<lparr>sf_identity_setup := None\<rparr>) \<longleftrightarrow> em_endpoints (sf_endpoint_mapping st) = []"
    using all by (simp add: valid_document_def keys)
  with run show ?thesis by blast
qed

section \<open>Properties\<close>

text \<open>C23: A stamping never writes a watermark that could belong to another mouse: any property of the
  devices that a DPI write may break unless its tail is the watermark of the token the journal
  already reserves for the last subject, or, when none is reserved yet, of a token that is neither
  the reserved value nor that of a saved mouse, of the journal or the one being rotated away, is kept
  by the stamping and by the confirmation of an adoption, whatever the random generator returns and
  however they end.\<close>

theorem stamping_writes_reserved_token:
  assumes "careful_backend I (marks_only I {to_watermark_bytes (be_crc be) token | token. stampable (doc m) token}) be"
    and "keeps I fill" and "I (mn_world m)"
  shows "I (mn_world (snd (ceremony_stamp be fill m))) \<and> I (mn_world (snd (ceremony_adopt be fill m)))"
proof
  show stamp: "I (mn_world (snd (ceremony_stamp be fill m)))" by (rule stamp_marks [OF assms])
  show "I (mn_world (snd (ceremony_adopt be fill m)))"
    using assms(3) stamp by (simp add: ceremony_adopt_def journal_step errp_def split: option.split)
qed


text \<open>C31: The first-time enrollment commits exactly when no endpoint was ever remembered: the two new
  mice replace the old one, while the endpoint mapping keeps pointing at it, so with a remembered
  endpoint the final step fails in the validation, whichever migration is chosen, and the
  ceremony stays in flight.\<close>

theorem enrollment_commits_iff_nothing_remembered:
  assumes "finalizing (doc m) j" and "jr_phase j = InitialEnrollment"
    and "unat (sf_next_device_number (doc m)) + 2 < 2 ^ 64"
    and "ceremony_finalize_migration action m = (r, m')"
  shows "if em_endpoints (sf_endpoint_mapping (doc m)) = []
    then r = Inr (completed j) \<and> validate (doc m') = Inr () \<and> sf_identity_setup (doc m') = None
    else (\<exists>e. r = Inl (StateFailure e)) \<and> doc m' = doc m"
proof -
  obtain st' where fin: "finalize_initial_enrollment j (action = SkipMigration) (doc m) = (Inr (), st')"
    and v: "valid_document (st'\<lparr>sf_identity_setup := None\<rparr>)
      \<longleftrightarrow> em_endpoints (sf_endpoint_mapping (doc m)) = []"
    using enrollment_outcome [OF assms(1-3)] by metis
  have j: "sf_identity_setup (doc m) = Some j" "valid_journal (doc m) j" "jr_stage j = Finalizing"
    using assms(1) by (simp_all add: finalizing_def valid_document_def)
  then have "ready_to_finalize j"
    using assms(2) by (simp add: ready_to_finalize_def valid_journal_def valid_stage_def list_all_iff)
  moreover have "finalize_ceremony (action = SkipMigration) (doc m) = (Inr (), st'\<lparr>sf_identity_setup := None\<rparr>)"
    using fin by (simp add: finalize_ceremony_def j(1) assms(2))
  moreover have "st'\<lparr>sf_identity_setup := None\<rparr> \<noteq> doc m"
  proof
    assume "st'\<lparr>sf_identity_setup := None\<rparr> = doc m"
    then have "sf_identity_setup (st'\<lparr>sf_identity_setup := None\<rparr>) = sf_identity_setup (doc m)" by (rule arg_cong)
    with j(1) show False by simp
  qed
  moreover have "ceremony_finalize_migration action m =
      thenp (mutate_inner (finalize_ceremony (action = SkipMigration))) (\<lambda>_. okp (completed j)) m"
    if "ready_to_finalize j"
    using that by (simp add: ceremony_finalize_migration_def journal_step j(1))
  moreover have "validate (st'\<lparr>sf_identity_setup := None\<rparr>) = Inr ()
      \<longleftrightarrow> em_endpoints (sf_endpoint_mapping (doc m)) = []"
    using v by (simp add: validate_eq_Inr)
  ultimately show ?thesis
    using assms(4)
    by (cases "validate (st'\<lparr>sf_identity_setup := None\<rparr>)")
      (auto simp: mutate_inner_def mutate_def in_store_def map_errp_def zoomp_def memory_mutate_simps
        thenp_def liftp_def okp_def)
qed

text \<open>C32: Presenting a mouse can panic: while a BLE association waits, a USB mouse with a valid
  watermark reaches a branch the code declares unreachable; while an adoption waits, a mouse without
  a watermark is captured completely and then the missing token is unwrapped.\<close>

theorem ceremony_reconnect_panics:
  assumes "sf_identity_setup (doc m) = Some j" and "jr_stage j = AwaitingCapture" and "jr_subjects j = []"
    and "is_usb_transport (ep_transport e)"
    and "in_world (be_open be e) m = (Inr session, m1)"
    and "in_world (current_watermark be session) m1 = (Inr (profile, decode), m2)"
  shows "(jr_phase j = BleAssociation \<and> decode = Valid token \<and> \<not> is_reserved_token token \<longrightarrow>
        ceremony_reconnected be e target m = (Inl (Panic ''BLE association never reconnects a USB mouse''), m2))
    \<and> (jr_phase j = ForeignAdoption \<and> decode = Absent \<and> is_ok (fst (capture_all_profiles session (mn_world m2))) \<longrightarrow>
        fst (ceremony_reconnected be e target m) = Inl (Panic ''validated: adoption requires a valid token''))"
proof -
  have ok: "check_reconnect j e = Inr ()" if "jr_phase j \<noteq> InitialEnrollment"
    using assms(2-4) that by (simp add: check_reconnect_def Let_def)
  have run: "ceremony_reconnected be e target m =
      thenp (liftp (eligibility (doc m) j e decode)) (\<lambda>adopted_token.
      thenp (liftp (restore_target (jr_phase j) target (doc m))) (\<lambda>(device_id, old_token).
      thenp (in_world (capture_all_profiles session)) (\<lambda>c.
      thenp (now_op be) (\<lambda>time.
      let evidence = into_evidence c time in
      thenp (liftp (stamp_plan (be_crc be) (jr_phase j) adopted_token evidence)) (\<lambda>stamp_progress.
      let subject = \<lparr>sub_endpoint = e, sub_device_id = device_id, sub_token = adopted_token,
            sub_old_token = old_token, sub_captured = Some evidence, sub_stamp_progress = stamp_progress\<rparr>;
          all_valid = (jr_phase j = ForeignAdoption \<and> is_fully_stamped subject)
      in thenp (mutate_inner (record_subject (jr_phase j) subject all_valid)) (\<lambda>_.
         if all_valid
         then okp (completed \<lparr>jr_phase = jr_phase j, jr_stage = Finalizing, jr_subjects = [subject]\<rparr>)
         else thenp (the_journal ''journal persisted'') (\<lambda>j. okp (ceremony_progress_from_journal j)))))))) m2"
    if "jr_phase j \<noteq> InitialEnrollment"
    unfolding ceremony_reconnected_def journal_step assms(1) option.case
    using assms(5,6) by (simp add: ok [OF that] Let_def thenp_def [of "in_world (be_open be e)"]
        thenp_def [of "in_world (current_watermark be session)"])
  show ?thesis
  proof (intro conjI impI)
    assume "jr_phase j = BleAssociation \<and> decode = Valid token \<and> \<not> is_reserved_token token"
    then show "ceremony_reconnected be e target m =
        (Inl (Panic ''BLE association never reconnects a USB mouse''), m2)"
      by (subst run) (simp_all add: eligibility_def errp_def)
  next
    assume a: "jr_phase j = ForeignAdoption \<and> decode = Absent \<and> is_ok (fst (capture_all_profiles session (mn_world m2)))"
    then obtain c w where "capture_all_profiles session (mn_world m2) = (Inr c, w)"
      by (metis is_ok_iff prod.collapse)
    then show "fst (ceremony_reconnected be e target m) = Inl (Panic ''validated: adoption requires a valid token'')"
      using a by (subst run)
        (simp_all add: eligibility_def restore_target_def stamp_plan_def Let_def thenp_def liftp_def
          in_world_def zoomp_def now_op_def getp_def errp_def)
  qed
qed

text \<open>An adoption cannot be cancelled: the stamp plan of a captured foreign mouse marks a profile
  that already carries the adopted token as stamped, so cancelling is refused as irreversible
  although nothing has been written, and the document stays as it is.\<close>

theorem adoption_cannot_be_cancelled:
  assumes "stamp_plan crc ForeignAdoption (Some token) captured = Inr plan"
    and "(profile, p) \<in> set (cap_profiles captured)" and "res_observed (ps_dpi p) = Some seen"
    and "decode_watermark crc (dpi_preserved_tail (obs_value seen)) = Valid token"
    and "bt_ok (cap_profiles captured)" and "sf_identity_setup (doc m) = Some j"
    and "subject \<in> set (jr_subjects j)" and "sub_stamp_progress subject = plan"
  shows "ceremony_cancel m = (Inl (IdentityCeremonyRefused (jr_phase j) ''stamps-irreversible''), m)"
proof -
  have plan: "bt_get plan profile = Some StampStamped"
    if "adoption_plan crc token profiles acc = Inr plan" "distinct (map fst profiles)"
      "(profile, p) \<in> set profiles \<or> bt_get acc profile = Some StampStamped \<and> profile \<notin> fst ` set profiles"
    for profiles acc
    using that assms(3,4)
  proof (induction profiles arbitrary: acc)
    case (Cons q profiles)
    obtain k v where q: "q = (k, v)" by (cases q)
    from Cons.prems(1) obtain mark where next_acc: "adoption_plan crc token profiles (bt_insert k mark acc) = Inr plan"
      and mark: "k = profile \<and> v = p \<Longrightarrow> mark = StampStamped"
      using Cons.prems(4,5)
      by (fastforce simp: q split: option.splits watermark_decode.splits if_splits)
    show ?case
      by (rule Cons.IH [OF next_acc]) (use Cons.prems mark in \<open>auto simp: q bt_get_insert rev_image_eqI\<close>)
  qed simp
  have "distinct (map fst (cap_profiles captured))"
    using assms(5) by (simp add: bt_ok_def strict_sorted_iff)
  with plan [of "cap_profiles captured" "[]"] assms(1,2) have "bt_get plan profile = Some StampStamped"
    by (simp add: stamp_plan_def)
  then have "irreversible j"
    using assms(7,8) bt_get_in [of plan profile StampStamped] by (force simp: irreversible_def list_ex_iff)
  then show ?thesis by (simp add: ceremony_cancel_def journal_step assms(6) errp_def)
qed

section \<open>Concrete ceremonies\<close>

definition bench_manager :: "identity_setup_journal \<Rightarrow> bench \<Rightarrow> bench manager" where
  "bench_manager j b = \<lparr>mn_store = \<lparr>mb_state = two_mice\<lparr>sf_identity_setup := Some j\<rparr>\<rparr>,
     mn_cache = (\<lambda>_. None), mn_world = b\<rparr>"

definition third_token :: physical_id where
  "third_token = PhysicalId (replicate 16 3)"

definition bench_image :: "dpi_state \<Rightarrow> captured_profile_image" where
  "bench_image dpi = \<lparr>cap_profile_metadata = resource_empty,
     cap_profiles = [(ProfileId 1, profile_state_empty\<lparr>ps_dpi := observed_only dpi (Timestamp 5)\<rparr>)]\<rparr>"

definition blank_dpi :: dpi_state where
  "blank_dpi = (demo_dpi third_token)\<lparr>dpi_preserved_tail := replicate 25 0\<rparr>"

definition adding :: identity_setup_journal where
  "adding = \<lparr>jr_phase = AddMouse, jr_stage = Stamping, jr_subjects =
     [\<lparr>sub_endpoint = demo_endpoint, sub_device_id = None, sub_token = Some third_token, sub_old_token = None,
       sub_captured = Some (bench_image blank_dpi), sub_stamp_progress = [(ProfileId 1, StampCaptured)]\<rparr>]\<rparr>"

definition written_tails :: "bench \<Rightarrow> packet list" where
  "written_tails b = map dpi_preserved_tail (bm_writes b)"

lemma bench_marks:
  assumes "\<And>b m. I (b\<lparr>bm_metadata := m\<rparr>) = I b"
    and "\<And>b st. I b \<Longrightarrow> dpi_preserved_tail st \<in> T \<Longrightarrow>
      I (b\<lparr>bm_dpis := bt_insert (dpi_profile st) st (bm_dpis b), bm_writes := bm_writes b @ [st]\<rparr>)"
  shows "marks_only I T bench_session"
  using assms by (simp add: marks_only_def keeps_def)

lemma bench_careful: "marks_only I T bench_session \<Longrightarrow> careful_backend I (marks_only I T) bench_backend"
  by (auto simp: careful_backend_def bench_backend_def keeps_def triple_def okp_def marks_only_def)

lemma stamping_writes_reserved_token_witness:
  "length (written_tails (mn_world (snd (ceremony_stamp bench_backend (errp ()) (bench_manager adding bench_mouse))))) = 1
   \<and> set (written_tails (mn_world (snd (ceremony_stamp bench_backend (errp ()) (bench_manager adding bench_mouse)))))
     \<subseteq> {to_watermark_bytes (\<lambda>_. 7) third_token}"
proof -
  let ?m = "bench_manager adding bench_mouse"
  let ?T = "{to_watermark_bytes (be_crc bench_backend) token | token. stampable (doc ?m) token}"
  let ?I = "\<lambda>b. set (written_tails b) \<subseteq> ?T"
  have T: "?T = {to_watermark_bytes (\<lambda>_. 7) third_token}"
    by (auto simp: stampable_def bench_manager_def adding_def bench_backend_def)
  have "marks_only ?I ?T bench_session"
    by (rule bench_marks) (simp_all add: written_tails_def)
  then have "careful_backend ?I (marks_only ?I ?T) bench_backend"
    by (rule bench_careful)
  moreover have "?I (mn_world ?m)" by (simp add: bench_manager_def bench_mouse_def written_tails_def)
  moreover have "keeps ?I (errp ())" by (simp add: keeps_def errp_def)
  ultimately have "?I (mn_world (snd (ceremony_stamp bench_backend (errp ()) ?m)))"
    using stamping_writes_reserved_token [of ?I bench_backend ?m "errp ()"] by blast
  moreover have "length (written_tails (mn_world (snd (ceremony_stamp bench_backend (errp ()) ?m)))) = 1"
  proof -
    have w: "mutate_inner f m = (r, m') \<Longrightarrow> mn_world m' = mn_world m" for f and m :: "bench manager" and r m'
      using world_mutate [of "\<lambda>w. w = mn_world m" f] by (auto dest: keepsD)
    have larger: "max (ProfileId 3) (ProfileId 1) = ProfileId 3"
      and metadata: "metadata_new (ProfileId 1) (ProfileId 3)
        = Inr \<lparr>meta_current = ProfileId 1, meta_maximum = ProfileId 3\<rparr>"
      by code_simp+
    show ?thesis
      by (auto simp: larger metadata map_err_def ceremony_stamp_def journal_step bench_manager_def adding_def check_stamp_def reserve_token_def
          bench_image_def pending_profiles_def bench_backend_def thenp_def in_world_def zoomp_def okp_def liftp_def
          captured_dpi_def observed_only_def stamp_one_profile_def bench_write_exact bench_mouse_def metadata_for_def
          presents_def with_physical_watermark_def resource_empty_def written_tails_def load_doc_eq Let_def
          split: prod.split sum.split dest!: w)
  qed
  ultimately show ?thesis unfolding T by blast
qed

definition added :: state_file where
  "added = two_mice\<lparr>sf_identity_setup := Some (adding\<lparr>jr_stage := Finalizing, jr_subjects :=
     map (\<lambda>s. s\<lparr>sub_stamp_progress := [(ProfileId 1, StampStamped)]\<rparr>) (jr_subjects adding)\<rparr>)\<rparr>"

lemma sound_demo_endpoint: "sound_endpoint demo_endpoint"
proof -
  have "\<not> blank (rstr ''/dev/hidraw0'')" unfolding blank_iff by code_simp
  then show ?thesis
    by (simp add: sound_endpoint_def validate_endpoint_eq_Inr demo_endpoint_def endpoint_is_coherent_def)
qed

lemma valid_bench_image: "valid_image (bench_image blank_dpi)"
  by (simp add: valid_image_def bench_image_def validate_profile_state_eq_Inr profile_state_empty_def
      resource_empty_def observed_only_def validate_resource_state_def blank_dpi_def demo_dpi_def)

lemma two_mice_valid: "validate two_mice = Inr ()"
  by code_simp

lemma finalizing_added: "finalizing added (the (sf_identity_setup added))"
proof -
  let ?j = "the (sf_identity_setup added)"
  have devs: "sf_devices added = sf_devices demo_document" "sf_identity_mode added = PersistentMode"
      "sf_next_device_number added = 3" "sf_selected_device added = sf_selected_device demo_document"
      "sf_endpoint_mapping added = sf_endpoint_mapping demo_document" "sf_schema_version added = 5"
    by (simp_all add: added_def two_mice_def demo_document_def state_file_default_def SCHEMA_VERSION_def)
  have "valid_journal added ?j"
    using valid_bench_image
    by (simp add: valid_journal_def devs)
      (simp add: added_def adding_def valid_stage_def valid_progress_def valid_rotation_def uncommitted_def
        physical_of_def is_fully_stamped_iff tracks_def bench_image_def third_token_def demo_document_def
        two_mice_def device_state_new_def)
  moreover have "valid_document (added\<lparr>sf_identity_setup := None\<rparr>)"
    using two_mice_valid by (simp add: validate_eq_Inr added_def two_mice_def)
  ultimately have "valid_document added"
    by (simp add: valid_document_def valid_mode_def valid_mapping_def added_def split: identity_mode.splits)
  moreover have "logical_key 1 < logical_key 2" by code_simp
  then have "wf_state_file added"
    by (simp add: wf_state_file_def devs) (simp add: demo_document_def state_file_default_def device_state_new_def
        wf_device_state_def identity_new_def wf_logical_key)
  ultimately show ?thesis
    by (simp add: finalizing_def added_def adding_def sound_demo_endpoint)
qed


text \<open>The enrollment of a second and a third token in place of a mouse whose endpoint is remembered.\<close>

definition enrolled_subject :: "physical_id \<Rightarrow> identity_setup_subject" where
  "enrolled_subject token = \<lparr>sub_endpoint = demo_endpoint, sub_device_id = None, sub_token = Some token,
     sub_old_token = None, sub_captured = Some (bench_image blank_dpi),
     sub_stamp_progress = [(ProfileId 1, StampStamped)]\<rparr>"

definition enrolling :: identity_setup_journal where
  "enrolling = \<lparr>jr_phase = InitialEnrollment, jr_stage = Finalizing,
     jr_subjects = [enrolled_subject (PhysicalId (replicate 16 2)), enrolled_subject third_token]\<rparr>"

definition legacy_document :: state_file where
  "legacy_document = state_file_default\<lparr>sf_next_device_number := 2,
     sf_devices := [(logical_key 1, device_state_new (identity_new (logical_key 1) None))],
     sf_identity_setup := Some enrolling,
     sf_endpoint_mapping := \<lparr>em_endpoints = [(rstr ''usb'', logical_key 1)], em_last_seen = []\<rparr>\<rparr>"

definition legacy_manager :: "unit manager" where
  "legacy_manager = demo_manager legacy_document"

lemma finalizing_legacy: "finalizing legacy_document enrolling"
proof -
  have blank: "\<not> blank (rstr ''usb'')" unfolding blank_iff by code_simp
  have "valid_journal legacy_document enrolling"
    using valid_bench_image
    by (simp add: valid_journal_def enrolling_def enrolled_subject_def legacy_document_def state_file_default_def
        valid_stage_def valid_progress_def valid_rotation_def uncommitted_def physical_of_def
        is_fully_stamped_iff tracks_def bench_image_def third_token_def device_state_new_def identity_new_def)
  moreover have "valid_device (logical_key 1) (device_state_new (identity_new (logical_key 1) None))"
    using new_device_valid [of "logical_key 1" None None] by (simp add: identity_new_def)
  ultimately show ?thesis
    using blank
    by (simp add: finalizing_def legacy_document_def valid_document_def state_file_default_def SCHEMA_VERSION_def
        valid_mode_def valid_mapping_def physical_of_def device_state_new_def identity_new_def wf_state_file_def
        wf_device_state_def wf_logical_key bt_contains_def device_number_key enrolling_def enrolled_subject_def
        sound_demo_endpoint bt_ok_def)
qed

lemma enrollment_commits_iff_nothing_remembered_witness:
  "\<exists>e m'. ceremony_finalize_migration SkipMigration legacy_manager = (Inl (StateFailure e), m')
     \<and> sf_identity_setup (doc m') = Some enrolling"
proof -
  obtain r m' where run: "ceremony_finalize_migration SkipMigration legacy_manager = (r, m')" by force
  have d: "doc legacy_manager = legacy_document" by (simp add: legacy_manager_def demo_manager_def)
  have journal: "sf_identity_setup legacy_document = Some enrolling" by (simp add: legacy_document_def)
  have "(\<exists>e. r = Inl (StateFailure e)) \<and> doc m' = doc legacy_manager"
  proof -
    have "jr_phase enrolling = InitialEnrollment" "unat (sf_next_device_number legacy_document) + 2 < 2 ^ 64"
      "em_endpoints (sf_endpoint_mapping legacy_document) \<noteq> []"
      by (simp_all add: legacy_document_def enrolling_def)
    then show ?thesis
      using enrollment_commits_iff_nothing_remembered [OF _ _ _ run, unfolded d, of enrolling] finalizing_legacy
      by (simp add: d)
  qed
  then show ?thesis using run d journal by auto
qed

text \<open>A mouse that carries a watermark while a BLE association waits, a blank one while an adoption
  waits, and an adoption of a mouse whose second profile is still blank.\<close>

definition waiting :: "identity_setup_phase \<Rightarrow> identity_setup_journal" where
  "waiting phase = \<lparr>jr_phase = phase, jr_stage = AwaitingCapture, jr_subjects = []\<rparr>"

definition marked_mouse :: bench where
  "marked_mouse = bench_mouse\<lparr>bm_dpis := [(ProfileId 2, (demo_dpi third_token)\<lparr>dpi_profile := ProfileId 2\<rparr>)]\<rparr>"

lemma ceremony_reconnect_panics_witness:
  "fst (ceremony_reconnected bench_backend demo_endpoint None (bench_manager (waiting BleAssociation) marked_mouse))
      = Inl (Panic ''BLE association never reconnects a USB mouse'')
   \<and> fst (ceremony_reconnected bench_backend demo_endpoint None (bench_manager (waiting ForeignAdoption) bench_mouse))
      = Inl (Panic ''validated: adoption requires a valid token'')"
proof -
  have op: "in_world (be_open bench_backend demo_endpoint) m = (Inr bench_session, m)" for m
    by (simp add: in_world_def zoomp_def bench_backend_def okp_def)
  have mark: "in_world (current_watermark bench_backend bench_session) m
      = (Inr (meta_current (bm_metadata (mn_world m)),
           decode_watermark (\<lambda>_. 7) (dpi_preserved_tail
             (bench_dpi (mn_world m) (meta_current (bm_metadata (mn_world m)))))), m)" for m
    by (simp add: in_world_def zoomp_def bench_backend_def current_watermark_def thenp_def okp_def)
  have usb: "is_usb_transport (ep_transport demo_endpoint)" by (simp add: demo_endpoint_def is_usb_transport_def)
  have decoded: "decode_watermark (\<lambda>_. 7) (dpi_preserved_tail (bench_dpi marked_mouse (ProfileId 2))) = Valid third_token"
    "decode_watermark (\<lambda>_. 7) (dpi_preserved_tail (bench_dpi bench_mouse (ProfileId 2))) = Absent"
    "\<not> is_reserved_token third_token"
    by code_simp+
  have captured: "is_ok (fst (capture_all_profiles bench_session bench_mouse))"
    using bench_capture [of bench_mouse] by (auto simp: bench_mouse_def wf_metadata_def wf_profile_def)
  have at: "meta_current (bm_metadata marked_mouse) = ProfileId 2" "meta_current (bm_metadata bench_mouse) = ProfileId 2"
    by (simp_all add: marked_mouse_def bench_mouse_def)
  let ?m = "bench_manager (waiting BleAssociation) marked_mouse"
  let ?n = "bench_manager (waiting ForeignAdoption) bench_mouse"
  note ble = ceremony_reconnect_panics [OF _ _ _ usb op mark [of ?m], of "waiting BleAssociation" third_token None]
  note adopt = ceremony_reconnect_panics [OF _ _ _ usb op mark [of ?n], of "waiting ForeignAdoption" third_token None]
  show ?thesis
    using ble adopt decoded captured at by (simp add: bench_manager_def waiting_def)
qed

definition half_marked :: captured_profile_image where
  "half_marked = \<lparr>cap_profile_metadata = resource_empty,
     cap_profiles = [(ProfileId 1, profile_state_empty\<lparr>ps_dpi := observed_only (demo_dpi third_token) (Timestamp 5)\<rparr>),
       (ProfileId 2, profile_state_empty\<lparr>ps_dpi := observed_only
          (blank_dpi\<lparr>dpi_profile := ProfileId 2\<rparr>) (Timestamp 5)\<rparr>)]\<rparr>"

definition adopting :: identity_setup_journal where
  "adopting = \<lparr>jr_phase = ForeignAdoption, jr_stage = Stamping, jr_subjects =
     [\<lparr>sub_endpoint = demo_endpoint, sub_device_id = None, sub_token = Some third_token, sub_old_token = None,
       sub_captured = Some half_marked,
       sub_stamp_progress = [(ProfileId 1, StampStamped), (ProfileId 2, StampCaptured)]\<rparr>]\<rparr>"

lemma adoption_cannot_be_cancelled_witness:
  "fst (ceremony_cancel (bench_manager adopting bench_mouse))
     = Inl (IdentityCeremonyRefused ForeignAdoption ''stamps-irreversible'')"
proof -
  let ?p = "profile_state_empty\<lparr>ps_dpi := observed_only (demo_dpi third_token) (Timestamp 5)\<rparr>"
  have plan: "stamp_plan (\<lambda>_. 7) ForeignAdoption (Some third_token) half_marked
      = Inr [(ProfileId 1, StampStamped), (ProfileId 2, StampCaptured)]"
    by code_simp
  have seen: "res_observed (ps_dpi ?p) = Some \<lparr>obs_value = demo_dpi third_token, obs_source = UsbReadback, obs_at = Timestamp 5\<rparr>"
    by (simp add: observed_only_def)
  have mark: "decode_watermark (\<lambda>_. 7) (dpi_preserved_tail (demo_dpi third_token)) = Valid third_token" by code_simp
  show ?thesis
    using adoption_cannot_be_cancelled [OF plan, where p = ?p and profile = "ProfileId 1"
        and m = "bench_manager adopting bench_mouse", OF _ seen, of adopting "hd (jr_subjects adopting)"] mark
    by (simp add: half_marked_def bt_ok_def bench_manager_def adopting_def less_profile_id_def)
qed

end
