(* ===== verification/X3_Session.thy ===== *)
theory X3_Session
  imports X3_Manager X3_Ble_Facts X3_Handle
begin

text \<open>
  The sessions of the manager over the driver (\<^verbatim>\<open>backend.rs\<close>): \<^verbatim>\<open>UsbSession\<close>
  calls the handle of a mouse, \<^verbatim>\<open>BleSession\<close> the Bluetooth handle; and the endpoints the
  production factory lists and opens. A call of the handle submits its command, and the worker serves
  the queue until the reply of that command has come; a reply channel carries one type of value, which
  the selectors below read. That the reply a command gets always has this type is the first property.
\<close>

section \<open>Calls of the handle\<close>

fun serve_queue :: "'s worker \<Rightarrow> nat \<Rightarrow> 's mouse \<Rightarrow> 's mouse option" where
  "serve_queue w 0 h = Some h"
| "serve_queue w (Suc n) h = (case worker_serve w h of None \<Rightarrow> None | Some h' \<Rightarrow> serve_queue w n h')"

text \<open>\<open>None\<close>: the worker never answers.\<close>

definition handle_call ::
  "'s worker \<Rightarrow> command \<Rightarrow> 's mouse \<Rightarrow> ((driver_error, reply) result \<times> 's mouse) option" where
  "handle_call w c h =
     (case request_submit c h of
        (Inl e, h1) \<Rightarrow> Some (Inl e, h1)
      | (Inr ticket, h1) \<Rightarrow>
          (case serve_queue w (length (mh_queue h1)) h1 of
             None \<Rightarrow> None
           | Some h2 \<Rightarrow> map_option (\<lambda>r. (r, h2)) (response h2 ticket)))"

fun as_metadata :: "reply \<Rightarrow> profile_metadata option" where
  "as_metadata (ReplyMetadata m) = Some m"
| "as_metadata _ = None"

fun as_dpi :: "reply \<Rightarrow> dpi_state option" where
  "as_dpi (ReplyDpi st) = Some st"
| "as_dpi _ = None"

fun as_preferences :: "reply \<Rightarrow> preferences_state option" where
  "as_preferences (ReplyPreferences st) = Some st"
| "as_preferences _ = None"

fun as_buttons :: "reply \<Rightarrow> buttons_state option" where
  "as_buttons (ReplyButtons st) = Some st"
| "as_buttons _ = None"

fun as_rate :: "reply \<Rightarrow> polling_rate option" where
  "as_rate (ReplyRate r) = Some r"
| "as_rate _ = None"

fun as_unit :: "reply \<Rightarrow> unit option" where
  "as_unit ReplyUnit = Some ()"
| "as_unit _ = None"

fun as_snapshot :: "reply \<Rightarrow> profile_snapshot option" where
  "as_snapshot (ReplySnapshot s) = Some s"
| "as_snapshot _ = None"

text \<open>One awaited call with \<^verbatim>\<open>?\<close>: the driver's error becomes the manager's.\<close>

definition usb_call :: "'s worker \<Rightarrow> command \<Rightarrow> (reply \<Rightarrow> 'a option) \<Rightarrow> ('s mouse, manager_error, 'a) prog" where
  "usb_call w c pick h =
     (case the (handle_call w c h) of
        (r, h') \<Rightarrow> (tryq (map_err DriverFailure r) (\<lambda>reply. Inr (the (pick reply))), h'))"

section \<open>The USB session\<close>

definition usb_write ::
  "'s worker \<Rightarrow> command \<Rightarrow> command \<Rightarrow> (reply \<Rightarrow> 'a option) \<Rightarrow> verification_method
     \<Rightarrow> ('s mouse, manager_error, 'a session_write) prog" where
  "usb_write w send verify pick verification =
     (case verification of
        TransportAck \<Rightarrow> thenp (usb_call w send as_unit) (\<lambda>_. okp WriteAcknowledged)
      | Readback \<Rightarrow> thenp (usb_call w verify pick) (\<lambda>st. okp (WriteReadback st)))"

definition usb_write_profile_metadata ::
  "'s worker \<Rightarrow> profile_metadata \<Rightarrow> ('s mouse, manager_error, profile_metadata session_write) prog" where
  "usb_write_profile_metadata w metadata =
     thenp (usb_call w CmdProfileMetadata as_metadata) (\<lambda>actual.
     thenp (if profile_get (meta_maximum metadata) > profile_get (meta_maximum actual)
            then usb_call w (CmdSetMaximumProfile (meta_maximum metadata)) as_metadata
            else okp actual) (\<lambda>actual.
     thenp (if meta_current metadata \<noteq> meta_current actual
            then usb_call w (CmdActivateProfile (meta_current metadata)) as_metadata
            else okp actual) (\<lambda>actual.
     thenp (if meta_maximum metadata \<noteq> meta_maximum actual
            then usb_call w (CmdSetMaximumProfile (meta_maximum metadata)) as_metadata
            else okp actual) (\<lambda>actual.
     okp (WriteReadback actual)))))"

text \<open>The input thread and the events it broadcasts within a timeout are parts of the environment.\<close>

definition usb_session ::
  "'s worker \<Rightarrow> ('s \<Rightarrow> input_thread) \<Rightarrow> (duration \<Rightarrow> 's \<Rightarrow> received list) \<Rightarrow> 's mouse session" where
  "usb_session w input receipts = \<lparr>
     ss_transport = w_kind w,
     ss_read_profile_metadata = usb_call w CmdProfileMetadata as_metadata,
     ss_read_profile = (\<lambda>profile. usb_call w (CmdProfile profile) as_snapshot),
     ss_read_dpi = (\<lambda>profile. usb_call w (CmdDpi profile) as_dpi),
     ss_read_preferences = (\<lambda>profile. usb_call w (CmdPreferences profile) as_preferences),
     ss_read_buttons = (\<lambda>profile. usb_call w (CmdButtons profile) as_buttons),
     ss_read_live_polling_rate = (\<lambda>alias. usb_call w (CmdLivePollingRate alias) as_rate),
     ss_write_dpi = (\<lambda>st. usb_write w (CmdSendDpi st) (CmdWriteDpi st) as_dpi),
     ss_write_preferences = (\<lambda>st. usb_write w (CmdSendPreferences st) (CmdWritePreferences st) as_preferences),
     ss_write_buttons = (\<lambda>st. usb_write w (CmdSendButtons st) (CmdWriteButtons st) as_buttons),
     ss_write_polling_rate_unchecked = (\<lambda>profile rate.
       usb_write w (CmdSendPollingRateUnchecked profile rate) (CmdWritePollingRateUnchecked profile rate) as_rate),
     ss_write_profile_metadata = usb_write_profile_metadata w,
     ss_read_battery = (\<lambda>timeout h. (map_err DriverFailure
       (handle_read_battery (w_kind w) (input (mh_env h)) (receipts timeout (mh_env h))), h))\<rparr>"

section \<open>The Bluetooth session\<close>

definition ble_unsupported :: "string \<Rightarrow> ('s, manager_error, 'a) prog" where
  "ble_unsupported operation = errp (UnsupportedOperation operation Ble)"

definition ble_call :: "'s ble_link \<Rightarrow> ble_report \<Rightarrow> ('s ble_session, manager_error, ble_write_receipt) prog" where
  "ble_call link report se = (case the (ble_write link report se) of (r, se') \<Rightarrow> (map_err BleFailure r, se'))"

definition ble_write_verified ::
  "'s ble_link \<Rightarrow> string \<Rightarrow> ble_report \<Rightarrow> verification_method
     \<Rightarrow> ('s ble_session, manager_error, 'a session_write) prog" where
  "ble_write_verified link operation report verification =
     (case verification of
        TransportAck \<Rightarrow> thenp (ble_call link report) (\<lambda>_. okp WriteAcknowledged)
      | Readback \<Rightarrow> ble_unsupported operation)"

definition ble_device_session :: "'s ble_link \<Rightarrow> 's ble_session session" where
  "ble_device_session link = \<lparr>
     ss_transport = Ble,
     ss_read_profile_metadata = ble_unsupported ''read_profile_metadata'',
     ss_read_profile = (\<lambda>_. ble_unsupported ''read_profile''),
     ss_read_dpi = (\<lambda>_. ble_unsupported ''read_dpi''),
     ss_read_preferences = (\<lambda>_. ble_unsupported ''read_preferences''),
     ss_read_buttons = (\<lambda>_. ble_unsupported ''read_buttons''),
     ss_read_live_polling_rate = (\<lambda>_. ble_unsupported ''read_live_polling_rate''),
     ss_write_dpi = (\<lambda>st. ble_write_verified link ''write_dpi'' (BleDpi st)),
     ss_write_preferences = (\<lambda>st. ble_write_verified link ''write_preferences'' (BlePreferences st)),
     ss_write_buttons = (\<lambda>st. ble_write_verified link ''write_buttons'' (BleButtons st)),
     ss_write_polling_rate_unchecked = (\<lambda>profile rate.
       ble_write_verified link ''write_polling_rate_unchecked'' (BlePollingRate profile rate)),
     ss_write_profile_metadata = (\<lambda>metadata.
       thenp (ble_call link (BleProfileControl metadata)) (\<lambda>_. okp WriteAcknowledged)),
     ss_read_battery = (\<lambda>_. ble_unsupported ''read_battery'')\<rparr>"

section \<open>Listing\<close>

definition device_failure :: "device_fault \<Rightarrow> manager_error" where
  "device_failure fault = StateFailure (InvalidState (OfDevice fault))"

definition list_usb_devices ::
  "bool \<Rightarrow> ('s, 'd) hid_api \<Rightarrow> usb_device_kind \<Rightarrow> ('s, manager_error, discovered_endpoint list) prog" where
  "list_usb_devices windows api kind =
     thenp (map_errp DriverFailure (list_devices_for windows api kind)) (\<lambda>infos.
     liftp (collect_results (\<lambda>info.
       tryq (map_err device_failure
               (endpoint_usb (usb_transport_kind kind) (di_vendor_id info) (di_product_id info)
                  (map_option rstr (di_serial_number info)) (rstr (di_path info))
                  (map_option rstr (di_product info)))) (\<lambda>endpoint.
       Inr \<lparr>disc_endpoint = endpoint, disc_connected = True\<rparr>)) infos))"

text \<open>\<open>to_json\<close> is the serialization of a platform identifier (serde).\<close>

definition list_ble_devices ::
  "(string \<Rightarrow> (state_error, rstring) result) \<Rightarrow> 's adapter
     \<Rightarrow> ('s, manager_error, discovered_endpoint list) prog" where
  "list_ble_devices to_json ad =
     thenp (map_errp BleFailure (list_connected ad)) (\<lambda>infos.
     liftp (collect_results (\<lambda>info.
       tryq (map_err StateFailure (to_json (bdi_id info))) (\<lambda>stable_id.
       tryq (map_err device_failure (endpoint_ble stable_id (map_option rstr (bdi_name info)))) (\<lambda>endpoint.
       Inr \<lparr>disc_endpoint = endpoint, disc_connected = bdi_connected info\<rparr>))) infos))"

section \<open>Opening\<close>

text \<open>
  A locator of the wrong kind is refused (a debug build panics first). The clock, the sleep and what
  the input thread does meanwhile belong to the environment of the opened device.
\<close>

definition unrstr :: "rstring \<Rightarrow> string" where
  "unrstr s = map char_of s"

definition open_usb_session ::
  "bool \<Rightarrow> ('s, 's hid_device) hid_api \<Rightarrow> (string, unit) result \<Rightarrow> (string, unit) result
     \<Rightarrow> ('s \<Rightarrow> duration) \<Rightarrow> (duration \<Rightarrow> 's \<Rightarrow> 's) \<Rightarrow> ('s \<Rightarrow> input_thread) \<Rightarrow> (duration \<Rightarrow> 's \<Rightarrow> received list)
     \<Rightarrow> device_endpoint \<Rightarrow> usb_device_kind \<Rightarrow> ('s, manager_error, 's mouse session) prog" where
  "open_usb_session windows api thread input_thread clock pause input receipts endpoint kind =
     (case ep_locator endpoint of
        BlePlatformId _ \<Rightarrow> errp (InvalidUpdate ''USB open expected UsbPath locator'')
      | UsbPath path \<Rightarrow>
          thenp (map_errp DriverFailure
                   (open_for_kind windows api thread input_thread (DevicePath (unrstr path)) kind))
            (\<lambda>(device, _, policy, transport).
            okp (usb_session \<lparr>w_io = hid_feature_io device clock pause, w_policy = policy, w_kind = transport\<rparr>
                   input receipts)))"

definition open_ble_session ::
  "(rstring \<Rightarrow> (state_error, string) result) \<Rightarrow> 's adapter \<Rightarrow> device_endpoint
     \<Rightarrow> ('s, manager_error, opened_session) prog" where
  "open_ble_session from_json ad endpoint =
     (case ep_locator endpoint of
        UsbPath _ \<Rightarrow> errp (InvalidUpdate ''BLE open expected BlePlatformId locator'')
      | BlePlatformId serialized_id \<Rightarrow>
          thenp (liftp (map_err StateFailure (from_json serialized_id))) (\<lambda>i.
          map_errp BleFailure (open_with_policy ad (BleDevice i) ble_policy_default)))"

section \<open>The factory\<close>

text \<open>The three ways to list and to open, as the production build has them; the simulated one is
  \<^verbatim>\<open>open_sim_session\<close>, which passes on endpoints it did not register.\<close>

definition factory_list ::
  "(usb_device_kind \<Rightarrow> ('w, manager_error, discovered_endpoint list) prog)
     \<Rightarrow> ('w, manager_error, discovered_endpoint list) prog
     \<Rightarrow> (transport_selection \<Rightarrow> (manager_error, discovered_endpoint list) result)
     \<Rightarrow> transport_selection \<Rightarrow> ('w, manager_error, discovered_endpoint list) prog" where
  "factory_list usb ble sim selection =
     (case selection of
        AutoSelection \<Rightarrow>
          thenp (usb UsbWired) (\<lambda>wired.
          thenp (usb UsbReceiver) (\<lambda>receiver.
          thenp ble (\<lambda>connected.
          thenp (liftp (sim selection)) (\<lambda>simulated.
          okp (wired @ receiver @ connected @ simulated)))))
      | ExactSelection Wired \<Rightarrow>
          thenp (usb UsbWired) (\<lambda>devices. thenp (liftp (sim selection)) (\<lambda>simulated. okp (devices @ simulated)))
      | ExactSelection Receiver \<Rightarrow>
          thenp (usb UsbReceiver) (\<lambda>devices. thenp (liftp (sim selection)) (\<lambda>simulated. okp (devices @ simulated)))
      | ExactSelection Ble \<Rightarrow>
          thenp ble (\<lambda>devices. thenp (liftp (sim selection)) (\<lambda>simulated. okp (devices @ simulated))))"

definition factory_open ::
  "(device_endpoint \<Rightarrow> ('w, manager_error, 'h option) prog)
     \<Rightarrow> (device_endpoint \<Rightarrow> usb_device_kind \<Rightarrow> ('w, manager_error, 'h) prog)
     \<Rightarrow> (device_endpoint \<Rightarrow> ('w, manager_error, 'h) prog)
     \<Rightarrow> device_endpoint \<Rightarrow> ('w, manager_error, 'h) prog" where
  "factory_open sim usb ble endpoint =
     thenp (if sim_tag_for_endpoint endpoint \<noteq> None then sim endpoint else okp None) (\<lambda>simulated.
     case simulated of
       Some session \<Rightarrow> okp session
     | None \<Rightarrow>
         (case ep_transport endpoint of
            Wired \<Rightarrow> usb endpoint UsbWired
          | Receiver \<Rightarrow> usb endpoint UsbReceiver
          | Ble \<Rightarrow> ble endpoint))"

end
