(* ===== verification/X3_Session_Facts.thy ===== *)
theory X3_Session_Facts
  imports X3_Session
begin

text \<open>
  What the sessions guarantee the manager: every reply of the worker has the type its command asks for
  and is well-formed; a call on an idle handle is exactly one turn of the worker; and the three steps
  of a metadata write reach the requested metadata without ever asking for an invalid one.
\<close>

section \<open>Successful reads\<close>

lemma bindc_Ok:
  "bindc m f s = Some (Inr y, t) \<longleftrightarrow> (\<exists>x u. m s = Some (Inr x, u) \<and> f x u = Some (Inr y, t))"
  by (auto simp: bindc_def split: option.splits sum.splits prod.splits)

lemma ret_Ok [simp]: "ret x s = Some (Inr y, t) \<longleftrightarrow> y = x \<and> t = s"
  by (auto simp: ret_def)

lemma fail_Ok [simp]: "fail e s \<noteq> Some (Inr y, t)"
  by (simp add: fail_def)

lemma lift_protocol_Ok [simp]: "lift_protocol r s = Some (Inr x, t) \<longleftrightarrow> r = Inr x \<and> t = s"
  by (cases r) (auto simp: lift_protocol_def)

lemma sum_unit_cases: "(\<forall>e. x \<noteq> Inl e) \<Longrightarrow> x \<noteq> Inr () \<Longrightarrow> False"
  by (cases x) auto

lemma read_attempt_Ok:
  assumes "read_attempt w req decode s = Some (Inr (Inr x), t)"
  shows "\<exists>pkt. decode pkt = Inr x \<and> length pkt \<le> unat (request_report_length req)"
proof -
  have short: "\<exists>pkt. decode pkt = Inr x \<and> length pkt \<le> unat (request_report_length req)"
    if "Inr x = map_err FailureProtocol (decode (take n p))" and "\<not> unat (request_report_length req) < n"
    for n :: nat and p :: packet
  proof (intro exI conjI)
    from that(1) show "decode (take n p) = Inr x" by (cases "decode (take n p)") simp_all
    from that(2) show "length (take n p) \<le> unat (request_report_length req)" by simp
  qed
  show ?thesis
    using assms
    by (auto simp: read_attempt_def bindc_Ok Let_def split: sum.split_asm if_split_asm
        dest: short sum_unit_cases)
qed

lemma attempt_loop_Ok:
  assumes "attempt_loop w req decode n failed s = Some (Inr (Inr x), t)"
  shows "\<exists>pkt. decode pkt = Inr x \<and> length pkt \<le> unat (request_report_length req)"
  using assms
proof (induction n arbitrary: failed s)
  case (Suc n)
  from Suc.prems obtain r u where r: "read_attempt w req decode s = Some (Inr r, u)"
    and rest: "(case r of Inr x \<Rightarrow> ret (Inr x) | Inl failure \<Rightarrow> attempt_loop w req decode n failure) u
      = Some (Inr (Inr x), t)"
    by (auto simp: bindc_Ok)
  show ?case
  proof (cases r)
    case (Inl failure)
    with rest Suc.IH show ?thesis by simp
  next
    case (Inr y)
    with r rest read_attempt_Ok show ?thesis by fastforce
  qed
qed simp

lemma armed_read_Ok:
  assumes "armed_read w req decode s = Some (Inr x, t)"
  obtains pkt where "decode pkt = Inr x" and "length pkt \<le> unat (request_report_length req)"
proof -
  from assms obtain n failed r u where "attempt_loop w req decode n failed s = Some (Inr r, u)"
    and "(case r of Inl last_failure \<Rightarrow> fail (ReadAttemptsExhausted (request_section req)
        (request_target_profile req) (max_attempts (w_policy w)) last_failure) | Inr x \<Rightarrow> ret x) u = Some (Inr x, t)"
    by (auto simp: armed_read_def bindc_Ok Let_def)
  then have "attempt_loop w req decode n failed s = Some (Inr (Inr x), u)" by (cases r) simp_all
  from attempt_loop_Ok [OF this] that show ?thesis by blast
qed

lemma ok_map_eq_Inr [simp]: "ok_map f r = Inr y \<longleftrightarrow> (\<exists>x. r = Inr x \<and> y = f x)"
  by (cases r) (auto simp: ok_map_def)

lemma read_metadata_Ok: "read_profile_metadata w s = Some (Inr m, t) \<Longrightarrow> wf_metadata m"
  by (auto simp: read_profile_metadata_def decode_metadata_image_def metadata_decode_for_transport_def
      metadata_decode_eq_Inr elim!: armed_read_Ok)

lemma read_dpi_Ok:
  "read_dpi w p s = Some (Inr st, t) \<Longrightarrow> wf_profile p \<Longrightarrow> wf_dpi_state st \<and> dpi_profile st = p"
  by (auto simp: read_dpi_def decode_dpi_image_def dpi_decode_eq_Inr dpi_accepts_wf elim!: armed_read_Ok)
    (simp add: dpi_accepts_def Let_def)

lemma read_preferences_Ok: "read_preferences w p s = Some (Inr st, t) \<Longrightarrow> prefs_profile st = p"
  by (auto simp: read_preferences_def decode_preferences_image_def prefs_decode_for_transport_eq_Inr
      prefs_decode_declared_eq_Inr elim!: armed_read_Ok)

lemma read_buttons_Ok: "read_buttons w p s = Some (Inr st, t) \<Longrightarrow> wf_buttons st \<and> buttons_profile st = p"
  by (auto simp: read_buttons_def decode_buttons_image_def buttons_decode_for_transport_def
      buttons_decode_eq_Inr elim!: armed_read_Ok split: if_splits)

section \<open>The types of the replies\<close>

text \<open>What the types of Rust guarantee of the profiles a command names.\<close>

fun wf_command :: "command \<Rightarrow> bool" where
  "wf_command (CmdDpi p) \<longleftrightarrow> wf_profile p"
| "wf_command (CmdProfile p) \<longleftrightarrow> wf_profile p"
| "wf_command (CmdSetMaximumProfile p) \<longleftrightarrow> wf_profile p"
| "wf_command (CmdActivateProfile p) \<longleftrightarrow> wf_profile p"
| "wf_command _ \<longleftrightarrow> True"

fun reply_fits :: "command \<Rightarrow> reply \<Rightarrow> bool" where
  "reply_fits CmdProfileMetadata r \<longleftrightarrow> (\<exists>m. r = ReplyMetadata m \<and> wf_metadata m)"
| "reply_fits (CmdDpi p) r \<longleftrightarrow> (\<exists>st. r = ReplyDpi st \<and> wf_dpi_state st \<and> dpi_profile st = p)"
| "reply_fits (CmdPreferences p) r \<longleftrightarrow> (\<exists>st. r = ReplyPreferences st \<and> prefs_profile st = p)"
| "reply_fits (CmdButtons p) r \<longleftrightarrow> (\<exists>st. r = ReplyButtons st \<and> wf_buttons st \<and> buttons_profile st = p)"
| "reply_fits (CmdLivePollingRate _) r \<longleftrightarrow> (\<exists>rate. r = ReplyRate rate)"
| "reply_fits (CmdWriteDpi st) r \<longleftrightarrow> r = ReplyDpi st"
| "reply_fits (CmdWritePreferences st) r \<longleftrightarrow> r = ReplyPreferences st"
| "reply_fits (CmdWriteButtons st) r \<longleftrightarrow> r = ReplyButtons st"
| "reply_fits (CmdSendDpi _) r \<longleftrightarrow> r = ReplyUnit"
| "reply_fits (CmdSendPreferences _) r \<longleftrightarrow> r = ReplyUnit"
| "reply_fits (CmdSendButtons _) r \<longleftrightarrow> r = ReplyUnit"
| "reply_fits (CmdSendPollingRateUnchecked _ _) r \<longleftrightarrow> r = ReplyUnit"
| "reply_fits (CmdWritePollingRateUnchecked _ rate) r \<longleftrightarrow> r = ReplyRate rate"
| "reply_fits (CmdSetMaximumProfile p) r \<longleftrightarrow> (\<exists>m. r = ReplyMetadata m \<and> wf_metadata m \<and> meta_maximum m = p)"
| "reply_fits (CmdActivateProfile p) r \<longleftrightarrow> (\<exists>m. r = ReplyMetadata m \<and> wf_metadata m \<and> meta_current m = p)"
| "reply_fits (CmdProfile p) r \<longleftrightarrow> (\<exists>s. r = ReplySnapshot s \<and> snap_target_profile s = p
     \<and> wf_metadata (snap_persistent_metadata s)
     \<and> wf_dpi_state (snap_dpi s) \<and> dpi_profile (snap_dpi s) = p
     \<and> prefs_profile (snap_preferences s) = p
     \<and> wf_buttons (snap_buttons s) \<and> buttons_profile (snap_buttons s) = p)"
| "reply_fits (CmdRawReadback req) r \<longleftrightarrow>
     (\<exists>bytes. r = ReplyBytes bytes \<and> length bytes \<le> unat (request_report_length req))"
| "reply_fits (CmdSendRawFeatureReport _) r \<longleftrightarrow> r = ReplyUnit"

lemma reply_with_Ok:
  "reply_with f m s = Some (Inr r, t) \<longleftrightarrow> (\<exists>x. m s = Some (Inr x, t) \<and> r = f x)"
  by (auto simp: reply_with_def bindc_Ok)

lemma dispatch_fits:
  assumes "dispatch w c s = Some (Inr r, t)" and "wf_command c"
  shows "reply_fits c r"
  using assms
proof (cases c)
  case (CmdSetMaximumProfile p)
  with assms show ?thesis
    by (auto simp: reply_with_Ok set_maximum_profile_def bindc_Ok wf_metadata_def split: if_splits
        dest!: read_metadata_Ok)
next
  case (CmdActivateProfile p)
  with assms show ?thesis
    by (auto simp: reply_with_Ok activate_profile_def bindc_Ok wf_metadata_def split: if_splits
        dest!: read_metadata_Ok)
next
  case (CmdProfile p)
  with assms show ?thesis
    by (auto simp: reply_with_Ok read_profile_def bindc_Ok
        dest: read_metadata_Ok read_dpi_Ok read_preferences_Ok read_buttons_Ok)
next
  case (CmdRawReadback req)
  with assms show ?thesis
    by (auto simp: reply_with_Ok read_raw_readback_def elim!: armed_read_Ok)
qed (auto simp: reply_with_Ok write_dpi_def write_preferences_def write_buttons_def
      write_polling_rate_unchecked_def bindc_Ok split: if_splits
      dest: read_metadata_Ok read_dpi_Ok read_preferences_Ok read_buttons_Ok)

section \<open>Calls on an idle handle\<close>

definition idle :: "'s mouse \<Rightarrow> bool" where
  "idle h \<longleftrightarrow> mh_alive h \<and> mh_queue h = [] \<and> mh_lost h = [] \<and> map fst (mh_served h) = [0..<mh_next h]"

lemma idle_reachable:
  assumes "(mouse_step w)\<^sup>*\<^sup>* (mouse_new s0) h" and "mh_alive h" and "mh_queue h = []"
  shows "idle h"
  using mouse_inv_reachable [OF assms(1)] assms(2,3) by (auto simp: idle_def mouse_inv_def)

lemma idle_new: "idle (mouse_new s)"
  by (simp add: idle_def mouse_new_def)

definition after_answer :: "command \<Rightarrow> (driver_error, reply) result \<Rightarrow> 's \<Rightarrow> 's mouse \<Rightarrow> 's mouse" where
  "after_answer c r env h = h\<lparr>mh_env := env, mh_next := Suc (mh_next h),
     mh_served := mh_served h @ [(mh_next h, c, r)]\<rparr>"

lemma after_answer_sel [simp]:
  "mh_env (after_answer c r env h) = env" "mh_served (after_answer c r env h) = mh_served h @ [(mh_next h, c, r)]"
  by (simp_all add: after_answer_def)

lemma idle_after: "idle h \<Longrightarrow> idle (after_answer c r env h)"
  by (simp add: idle_def after_answer_def)

lemma handle_call_idle:
  assumes "idle h"
  shows "handle_call w c h =
    (case dispatch w c (mh_env h) of None \<Rightarrow> None | Some (r, env) \<Rightarrow> Some (r, after_answer c r env h))"
proof -
  let ?h1 = "h\<lparr>mh_queue := [(mh_next h, c)], mh_next := Suc (mh_next h)\<rparr>"
  from assms have alive: "mh_alive h" and q: "mh_queue h = []"
    and log: "map fst (mh_served h) = [0..<mh_next h]"
    by (simp_all add: idle_def)
  from arg_cong [OF log, of set] have fresh: "map_of (mh_served h) (mh_next h) = None"
    by (simp add: map_of_eq_None_iff)
  have submit: "request_submit c h = (Inr (mh_next h), ?h1)"
    using alive q by (simp add: request_submit_def COMMAND_QUEUE_CAPACITY_def)
  show ?thesis
  proof (cases "dispatch w c (mh_env h)")
    case None
    with submit alive show ?thesis by (simp add: handle_call_def worker_serve_def)
  next
    case (Some x)
    obtain r env where x: "x = (r, env)" by force
    have served: "worker_serve w ?h1 = Some (after_answer c r env h)"
      using alive q by (simp add: worker_serve_def Some x after_answer_def)
    have "response (after_answer c r env h) (mh_next h) = Some r"
      by (simp add: response_def fresh map_add_def)
    with submit served show ?thesis by (simp add: handle_call_def Some x)
  qed
qed

lemma usb_call_idle:
  assumes "idle h" and "dispatch w c (mh_env h) = Some (r, env)"
  shows "usb_call w c pick h =
    (tryq (map_err DriverFailure r) (\<lambda>reply. Inr (the (pick reply))), after_answer c r env h)"
  using assms by (simp add: usb_call_def handle_call_idle)

section \<open>A mouse that keeps its metadata\<close>

text \<open>The firmware: a read returns the stored metadata and changes nothing, a control write stores it.\<close>

definition steady :: "'s worker \<Rightarrow> ('s \<Rightarrow> profile_metadata) \<Rightarrow> bool" where
  "steady w stored \<longleftrightarrow>
     (\<forall>s. wf_metadata (stored s) \<longrightarrow>
        (\<exists>t. read_profile_metadata w s = Some (Inr (stored s), t) \<and> stored t = stored s))
     \<and> (\<forall>s m. wf_metadata m \<longrightarrow>
        (\<exists>t. io_send (w_io w) (control_as_bytes (control_encode m (control_framing_for (w_kind w)))) s = (Inr (), t)
           \<and> stored t = m))
     \<and> (\<forall>d s. stored (io_sleep (w_io w) d s) = stored s)"

lemma steady_read:
  assumes "steady w stored" and "wf_metadata (stored s)"
  obtains t where "read_profile_metadata w s = Some (Inr (stored s), t)" and "stored t = stored s"
  using assms unfolding steady_def by blast

text \<open>A control write, its delay and the read that verifies it.\<close>

lemma steady_write:
  assumes "steady w stored" and "wf_metadata m"
  obtains t where "bindc (send_report (w_io w) (control_as_bytes (control_encode m (control_framing_for (w_kind w)))))
      (\<lambda>_. bindc (sleep_after_write w) (\<lambda>_. bindc (read_profile_metadata w) f)) s = f m t"
    and "stored t = m"
proof -
  from assms obtain u where u: "io_send (w_io w) (control_as_bytes (control_encode m (control_framing_for (w_kind w)))) s
      = (Inr (), u)" "stored u = m"
    unfolding steady_def by blast
  have "stored (io_sleep (w_io w) (write_delay (w_policy w)) u) = m"
    using assms(1) u(2) unfolding steady_def by simp
  with u(2) obtain v where v: "sleep_after_write w u = Some (Inr (), v)" "stored v = m"
    by (cases "write_delay (w_policy w) = 0") (simp_all add: sleep_after_write_def sleep_def ret_def)
  from v(2) assms(2) steady_read [OF assms(1), of v] obtain t
    where t: "read_profile_metadata w v = Some (Inr m, t)" "stored t = m" by metis
  from u(1) v(1) t(1) show thesis
    by (intro that [OF _ t(2)]) (simp add: bindc_def send_report_def)
qed

lemma steady_set_maximum:
  assumes "steady w stored" and "wf_metadata (stored s)" and "wf_profile p"
    and "profile_get (meta_current (stored s)) \<le> profile_get p"
  obtains t where "set_maximum_profile w p s = Some (Inr (\<lparr>meta_current = meta_current (stored s), meta_maximum = p\<rparr>), t)"
    and "stored t = \<lparr>meta_current = meta_current (stored s), meta_maximum = p\<rparr>"
proof -
  let ?m = "\<lparr>meta_current = meta_current (stored s), meta_maximum = p\<rparr>"
  obtain u where u: "read_profile_metadata w s = Some (Inr (stored s), u)" "stored u = stored s"
    by (rule steady_read [OF assms(1,2)])
  have wf: "wf_metadata ?m" using assms(2-4) by (simp add: wf_metadata_def)
  have new: "metadata_new (meta_current (stored s)) p = Inr ?m"
    using assms(4) by simp
  show thesis
  proof (cases "p = meta_maximum (stored s)")
    case True
    with u assms(4) show thesis
      by (intro that [of u]) (simp_all add: set_maximum_profile_def bindc_def ret_def)
  next
    case False
    let ?f = "\<lambda>actual. if actual \<noteq> ?m then fail (WriteVerificationMismatch ''profile metadata'' (meta_current ?m)) else ret actual"
    obtain t where t: "bindc (send_report (w_io w) (control_as_bytes (control_encode ?m (control_framing_for (w_kind w)))))
        (\<lambda>_. bindc (sleep_after_write w) (\<lambda>_. bindc (read_profile_metadata w) ?f)) u = ?f ?m t" "stored t = ?m"
      by (rule steady_write [OF assms(1) wf])
    from t(1) u(1) assms(4) False show thesis
      by (intro that [OF _ t(2)])
        (simp add: set_maximum_profile_def bindc_def [of "read_profile_metadata w"] new bindc_def [of "lift_protocol _"]
          lift_protocol_def ret_def not_less)
  qed
qed

lemma steady_activate:
  assumes "steady w stored" and "wf_metadata (stored s)" and "wf_profile p"
    and "p \<noteq> meta_current (stored s)" and "profile_get p \<le> profile_get (meta_maximum (stored s))"
  obtains t where "activate_profile w p s = Some (Inr (\<lparr>meta_current = p, meta_maximum = meta_maximum (stored s)\<rparr>), t)"
    and "stored t = \<lparr>meta_current = p, meta_maximum = meta_maximum (stored s)\<rparr>"
proof -
  let ?m = "\<lparr>meta_current = p, meta_maximum = meta_maximum (stored s)\<rparr>"
  obtain u where u: "read_profile_metadata w s = Some (Inr (stored s), u)" "stored u = stored s"
    by (rule steady_read [OF assms(1,2)])
  have wf: "wf_metadata ?m" using assms(2-5) by (simp add: wf_metadata_def)
  have new: "metadata_new p (meta_maximum (stored s)) = Inr ?m"
    using assms(5) by simp
  let ?f = "\<lambda>actual. if actual \<noteq> ?m then fail (WriteVerificationMismatch ''profile metadata'' p) else ret actual"
  obtain t where t: "bindc (send_report (w_io w) (control_as_bytes (control_encode ?m (control_framing_for (w_kind w)))))
      (\<lambda>_. bindc (sleep_after_write w) (\<lambda>_. bindc (read_profile_metadata w) ?f)) u = ?f ?m t" "stored t = ?m"
    by (rule steady_write [OF assms(1) wf])
  from t(1) u(1) assms(4,5) show thesis
    by (intro that [OF _ t(2)])
      (simp add: activate_profile_def bindc_def [of "read_profile_metadata w"] new bindc_def [of "lift_protocol _"]
        lift_protocol_def ret_def not_less)
qed

text \<open>The same three operations as calls of the handle.\<close>

lemma metadata_call:
  assumes "idle h" and "dispatch w c = reply_with ReplyMetadata m" and "m (mh_env h) = Some (Inr x, env)"
  obtains h' where "usb_call w c as_metadata h = (Inr x, h')" and "idle h'" and "mh_env h' = env"
    and "map (fst \<circ> snd) (mh_served h') = map (fst \<circ> snd) (mh_served h) @ [c]"
proof -
  have "dispatch w c (mh_env h) = Some (Inr (ReplyMetadata x), env)"
    using assms(2,3) by (simp add: reply_with_def bindc_def ret_def)
  from usb_call_idle [OF assms(1) this, of as_metadata] show thesis
    by (intro that [of "after_answer c (Inr (ReplyMetadata x)) env h"]) (simp_all add: idle_after assms(1))
qed

definition metadata_commands :: "profile_metadata \<Rightarrow> profile_metadata \<Rightarrow> command list" where
  "metadata_commands actual wanted =
     [CmdProfileMetadata]
     @ (if profile_get (meta_maximum actual) < profile_get (meta_maximum wanted)
        then [CmdSetMaximumProfile (meta_maximum wanted)] else [])
     @ (if meta_current wanted \<noteq> meta_current actual then [CmdActivateProfile (meta_current wanted)] else [])
     @ (if profile_get (meta_maximum wanted) < profile_get (meta_maximum actual)
        then [CmdSetMaximumProfile (meta_maximum wanted)] else [])"

lemma profile_get_eq: "profile_get p = profile_get q \<longleftrightarrow> p = q"
  by (cases p; cases q) simp

lemma thenp_runI: "m s = (Inr x, t) \<Longrightarrow> f x t = r \<Longrightarrow> thenp m f s = r"
  by (simp add: thenp_def)

section \<open>Properties\<close>

text \<open>C33: Every reply of the worker has the type its command asks for and is well-formed: metadata is a
  valid range, a DPI setting has 1 to 8 stages and a valid selection, a button table has 18 slots, each
  belongs to the requested profile, a verified write returns exactly the written value, and a changed
  maximum or active profile is the requested one.\<close>

theorem worker_replies_typed:
  assumes "dispatch w c s = Some (Inr r, t)" and "wf_command c"
  shows "reply_fits c r"
  by (rule dispatch_fits [OF assms])

text \<open>C34: On a mouse that keeps its metadata, a metadata write over USB always succeeds, whatever range was
  set before: it reaches the requested metadata with at most two writes and reports what it read back.
  The maximum is raised before and lowered after the activation, so no step asks for a current profile
  above the maximum.\<close>

theorem usb_metadata_write_reaches:
  assumes "steady w stored" and "wf_metadata (stored (mh_env h))" and "wf_metadata metadata"
    and "(mouse_step w)\<^sup>*\<^sup>* (mouse_new s0) h" and "mh_alive h" and "mh_queue h = []"
  shows "\<exists>h'. usb_write_profile_metadata w metadata h = (Inr (WriteReadback metadata), h')
    \<and> stored (mh_env h') = metadata
    \<and> map (fst \<circ> snd) (mh_served h') =
        map (fst \<circ> snd) (mh_served h) @ metadata_commands (stored (mh_env h)) metadata"
proof -
  let ?m0 = "stored (mh_env h)"
  obtain c x where wanted: "metadata = \<lparr>meta_current = c, meta_maximum = x\<rparr>" by (cases metadata) simp
  have wf: "wf_profile c" "wf_profile x" "profile_get c \<le> profile_get x"
    using assms(3) by (simp_all add: wanted wf_metadata_def)
  have wf0: "profile_get (meta_current ?m0) \<le> profile_get (meta_maximum ?m0)" "wf_profile (meta_maximum ?m0)"
    using assms(2) by (simp_all add: wf_metadata_def)
  have h: "idle h" by (rule idle_reachable [OF assms(4-6)])
  obtain t0 where t0: "read_profile_metadata w (mh_env h) = Some (Inr ?m0, t0)" "stored t0 = ?m0"
    by (rule steady_read [OF assms(1,2)])
  obtain h0 where h0: "usb_call w CmdProfileMetadata as_metadata h = (Inr ?m0, h0)" "idle h0" "mh_env h0 = t0"
      "map (fst \<circ> snd) (mh_served h0) = map (fst \<circ> snd) (mh_served h) @ [CmdProfileMetadata]"
    by (rule metadata_call [where h = h and c = CmdProfileMetadata and m = "read_profile_metadata w", OF h _ t0(1)]) simp_all
  let ?raise = "profile_get (meta_maximum ?m0) < profile_get x"
  let ?m1 = "\<lparr>meta_current = meta_current ?m0, meta_maximum = if ?raise then x else meta_maximum ?m0\<rparr>"
  have wf1: "wf_metadata ?m1" using assms(2) wf by (auto simp: wf_metadata_def)
  obtain h1 where h1: "(if profile_get x > profile_get (meta_maximum ?m0)
        then usb_call w (CmdSetMaximumProfile x) as_metadata else okp ?m0) h0 = (Inr ?m1, h1)"
      "idle h1" "stored (mh_env h1) = ?m1"
      "map (fst \<circ> snd) (mh_served h1) = map (fst \<circ> snd) (mh_served h0) @ (if ?raise then [CmdSetMaximumProfile x] else [])"
  proof (cases ?raise)
    case True
    have "wf_metadata (stored (mh_env h0))" "profile_get (meta_current (stored (mh_env h0))) \<le> profile_get x"
      using True wf0 assms(2) by (simp_all add: h0 t0)
    from steady_set_maximum [OF assms(1) this(1) wf(2) this(2)] obtain t1
      where t1: "set_maximum_profile w x (mh_env h0) = Some (Inr ?m1, t1)" "stored t1 = ?m1"
      using True by (auto simp: h0 t0)
    show thesis
      by (rule metadata_call [where h = h0 and c = "CmdSetMaximumProfile x" and m = "set_maximum_profile w x", OF h0(2) _ t1(1)]) (use True t1 in \<open>auto intro: that\<close>)
  next
    case False
    with h0 t0 show thesis by (intro that [of h0]) (simp_all add: okp_def)
  qed
  let ?m2 = "\<lparr>meta_current = c, meta_maximum = meta_maximum ?m1\<rparr>"
  have le: "profile_get c \<le> profile_get (meta_maximum ?m1)" using wf by auto
  obtain h2 where h2: "(if c \<noteq> meta_current ?m1 then usb_call w (CmdActivateProfile c) as_metadata else okp ?m1) h1
        = (Inr ?m2, h2)"
      "idle h2" "stored (mh_env h2) = ?m2"
      "map (fst \<circ> snd) (mh_served h2) = map (fst \<circ> snd) (mh_served h1)
         @ (if c \<noteq> meta_current ?m0 then [CmdActivateProfile c] else [])"
  proof (cases "c = meta_current ?m0")
    case False
    then have "c \<noteq> meta_current (stored (mh_env h1))" "profile_get c \<le> profile_get (meta_maximum (stored (mh_env h1)))"
      and "wf_metadata (stored (mh_env h1))"
      using le wf1 by (simp_all add: h1)
    from steady_activate [OF assms(1) this(3) wf(1) this(1,2)] obtain t2
      where t2: "activate_profile w c (mh_env h1) = Some (Inr ?m2, t2)" "stored t2 = ?m2"
      by (auto simp: h1)
    show thesis
      by (rule metadata_call [where h = h1 and c = "CmdActivateProfile c" and m = "activate_profile w c", OF h1(2) _ t2(1)]) (use False t2 in \<open>auto intro: that\<close>)
  next
    case True
    with h1 show thesis by (intro that [of h1]) (simp_all add: okp_def)
  qed
  obtain h3 where h3: "(if x \<noteq> meta_maximum ?m2 then usb_call w (CmdSetMaximumProfile x) as_metadata else okp ?m2) h2
        = (Inr metadata, h3)"
      "stored (mh_env h3) = metadata"
      "map (fst \<circ> snd) (mh_served h3) = map (fst \<circ> snd) (mh_served h2)
         @ (if profile_get x < profile_get (meta_maximum ?m0) then [CmdSetMaximumProfile x] else [])"
  proof (cases "x = meta_maximum ?m2")
    case False
    then have low: "profile_get x < profile_get (meta_maximum ?m0)" "\<not> ?raise"
      by (auto simp: profile_get_eq split: if_splits intro: le_neq_trans)
    have "wf_metadata (stored (mh_env h2))" "profile_get (meta_current (stored (mh_env h2))) \<le> profile_get x"
      using wf le wf1 by (simp_all add: h2 wf_metadata_def)
    from steady_set_maximum [OF assms(1) this(1) wf(2) this(2)] obtain t3
      where t3: "set_maximum_profile w x (mh_env h2) = Some (Inr metadata, t3)" "stored t3 = metadata"
      by (auto simp: h2 wanted)
    show thesis
      by (rule metadata_call [where h = h2 and c = "CmdSetMaximumProfile x" and m = "set_maximum_profile w x", OF h2(2) _ t3(1)]) (use False low t3 in \<open>auto intro: that\<close>)
  next
    case True
    with h2 show thesis
      by (intro that [of h2]) (auto simp: okp_def wanted split: if_splits)
  qed
  have "usb_write_profile_metadata w metadata h = (Inr (WriteReadback metadata), h3)"
    unfolding usb_write_profile_metadata_def
    by (rule thenp_runI, rule h0(1), unfold wanted profile_metadata.select_convs)
      (rule thenp_runI, rule h1(1), rule thenp_runI, rule h2(1), rule thenp_runI, rule h3(1) [unfolded wanted],
        simp add: okp_def)
  moreover have "map (fst \<circ> snd) (mh_served h3) = map (fst \<circ> snd) (mh_served h) @ metadata_commands ?m0 metadata"
    by (simp add: h0(4) h1(4) h2(4) h3(3) metadata_commands_def wanted)
  ultimately show ?thesis using h3(2) by blast
qed

section \<open>Witnesses\<close>

text \<open>A wired mouse that is always ready and keeps nothing but its metadata.\<close>

definition keeper_io :: "profile_metadata feature_io" where
  "keeper_io = \<lparr>
     io_send = (\<lambda>p s. (Inr (), if take 2 p = [0x0c, 0x0a]
        then \<lparr>meta_current = ProfileId (p ! 2), meta_maximum = ProfileId (p ! 4)\<rparr> else s)),
     io_get = (\<lambda>i b s. if i = 0xa0 then (Inr 8, [0xa0, 1, 0, 0, 0, 0, 0, 0], s)
        else (Inr 10, (let c = profile_get (meta_current s); x = profile_get (meta_maximum s)
                       in [0x0c, 0x0a, 0x01, c, NOT c, x, NOT x, 0, 0, 0]), s)),
     io_now = (\<lambda>s. 0), io_sleep = (\<lambda>d s. s)\<rparr>"

definition keeper :: "profile_metadata worker" where
  "keeper = \<lparr>w_io = keeper_io,
     w_policy = \<lparr>max_attempts = 1, readiness_timeout = 3, poll_interval = 1, write_delay = 0\<rparr>, w_kind = Wired\<rparr>"

lemma keeper_decode:
  assumes "wf_metadata s"
  shows "decode_metadata_image Wired (let c = profile_get (meta_current s); x = profile_get (meta_maximum s)
    in [0x0c, 0x0a, 0x01, c, NOT c, x, NOT x, 0, 0, 0]) = Inr s"
proof -
  let ?p = "let c = profile_get (meta_current s); x = profile_get (meta_maximum s)
    in [0x0c, 0x0a, 0x01, c, NOT c, x, NOT x, 0, 0, 0]"
  have "metadata_decode_with_declared_length ?p 0x0a = Inr \<lparr>report_metadata = s, report_metadata_bytes = ?p\<rparr>"
    unfolding metadata_decode_eq_Inr using assms by (simp add: Let_def)
  then show ?thesis
    by (simp add: decode_metadata_image_def metadata_decode_for_transport_def metadata_declared_def profile_consts)
qed

lemma keeper_steady: "steady keeper id"
proof -
  have ready: "readiness_decode [0xa0, 1, 0, 0, 0, 0, 0, 0] = Inr ReadyStatus" by code_simp
  have report: "request_report_length ReadProfileMetadata = 10" "request_report_id ReadProfileMetadata = 0x0c"
    "take 2 (selector_encode ReadProfileMetadata) \<noteq> [0x0c, 0x0a]"
    by code_simp+
  have "read_profile_metadata keeper s = Some (Inr s, s)" if "wf_metadata s" for s
    using keeper_decode [OF that]
    by (simp add: read_profile_metadata_def keeper_def keeper_io_def run_simps)
  moreover have "io_send keeper_io (control_as_bytes (control_encode m ControlCompact)) s = (Inr (), m)" for s m
    by (cases m) (simp add: keeper_io_def control_as_bytes_layout Let_def)
  ultimately show ?thesis
    by (simp add: steady_def keeper_def control_framing_for_def) (simp add: keeper_io_def)
qed

lemma worker_replies_typed_witness:
  "reply_fits (CmdWritePreferences demo_prefs) (ReplyPreferences demo_prefs)"
proof -
  from demo_prefs_runs obtain s' l' where run: "write_preferences (logged_worker demo_worker) demo_prefs (demo_prefs_run, [])
      = Some (Inr demo_prefs, (s', l'))" by blast
  have "dispatch (logged_worker demo_worker) (CmdWritePreferences demo_prefs) (demo_prefs_run, [])
      = Some (Inr (ReplyPreferences demo_prefs), (s', l'))"
    unfolding dispatch.simps reply_with_def bindc_def run by (simp add: ret_def)
  from worker_replies_typed [OF this] show ?thesis unfolding wf_command.simps by blast
qed

lemma usb_metadata_write_reaches_witness:
  "\<exists>h'. usb_write_profile_metadata keeper \<lparr>meta_current = ProfileId 2, meta_maximum = ProfileId 3\<rparr>
      (mouse_new \<lparr>meta_current = ProfileId 4, meta_maximum = ProfileId 5\<rparr>)
        = (Inr (WriteReadback \<lparr>meta_current = ProfileId 2, meta_maximum = ProfileId 3\<rparr>), h')
    \<and> map (fst \<circ> snd) (mh_served h') =
        [CmdProfileMetadata, CmdActivateProfile (ProfileId 2), CmdSetMaximumProfile (ProfileId 3)]"
proof -
  let ?h = "mouse_new \<lparr>meta_current = ProfileId 4, meta_maximum = ProfileId 5\<rparr>"
  let ?m = "\<lparr>meta_current = ProfileId 2, meta_maximum = ProfileId 3\<rparr>"
  have wf: "wf_metadata (id (mh_env ?h))" "wf_metadata ?m"
    by (simp_all add: mouse_new_def wf_metadata_def wf_profile_def)
  have up: "mh_alive ?h" "mh_queue ?h = []" by (simp_all add: mouse_new_def)
  have "id (mh_env ?h) = \<lparr>meta_current = ProfileId 4, meta_maximum = ProfileId 5\<rparr>"
    and "map (fst \<circ> snd) (mh_served ?h) = []"
    by (simp_all add: mouse_new_def)
  with usb_metadata_write_reaches [OF keeper_steady wf rtranclp.rtrancl_refl up]
  show ?thesis by (auto simp: metadata_commands_def)
qed

end
