(* ===== verification/X3_Sim.thy ===== *)
theory X3_Sim
  imports X3_Manager
begin

text \<open>
  The simulated mice (\<^verbatim>\<open>sim/mod.rs\<close>, \<^verbatim>\<open>sim/fixtures.rs\<close>, \<^verbatim>\<open>sim/replay.rs\<close>,
  \<^verbatim>\<open>sim_model.rs\<close>): the value of \<^verbatim>\<open>X3_SIM\<close>, the loader of scenario files, the replay of
  recorded images and the in-memory mouse. A scenario file is the value the \<^verbatim>\<open>toml\<close> crate makes of
  it; files are parameters. Messages are identified by the constructor and what they interpolate.
\<close>

section \<open>Gaps\<close>

type_synonym profile_image = "dpi_state \<times> preferences_state \<times> buttons_state"

text \<open>\<open>GapPanic\<close> stands for a thread that panics, not for a \<^verbatim>\<open>SimGap\<close>.\<close>

datatype sim_gap =
    GapReplayUnnamed rstring
  | GapModelUnnamed rstring
  | GapUnknownBackend rstring rstring
  | GapEnvNotUnicode
  | GapCannotRead rstring string
  | GapParse rstring
  | GapNotTable string
  | GapNotArray string
  | GapTransport
  | GapUnknownTransport rstring
  | GapBattery
  | GapProfileNumber rstring
  | GapProfileNotTable rstring
  | GapField string
  | GapDpiStage int
  | GapActiveStage int
  | GapDpiImage protocol_error
  | GapCount string nat nat
  | GapHexLength nat nat
  | GapHexByte nat
  | GapNoEndpoint rstring nat nat
  | GapUnknownScenario rstring
  | GapUnknownPreset rstring
  | GapInvalidProfile u8
  | GapBleRead u8
  | GapNoImage u8
  | GapNoPostWrite u8
  | GapPostWriteMismatch u8
  | GapSectionProfile string profile_id profile_id
  | GapImageRejected string protocol_error
  | GapMissingCapture string
  | GapMalformedLocator
  | GapEnvUnset
  | GapStaleEndpoint rstring rstring
  | GapPanic string

type_synonym 'a sim_result = "(sim_gap, 'a) result"

section \<open>The value of the variable\<close>

definition SIM_REPLAY_TAG :: rstring where "SIM_REPLAY_TAG = rstr ''[SIM-REPLAY]''"
definition SIM_MODEL_TAG :: rstring where "SIM_MODEL_TAG = rstr ''[SIM-MODEL]''"

datatype sim_spec = SpecReplay rstring | SpecModel rstring

definition split_once :: "nat \<Rightarrow> rstring \<Rightarrow> (rstring \<times> rstring) option" where
  "split_once c s =
     (case dropWhile (\<lambda>x. x \<noteq> c) s of [] \<Rightarrow> None | _ # rest \<Rightarrow> Some (takeWhile (\<lambda>x. x \<noteq> c) s, rest))"

definition ends_with :: "rstring \<Rightarrow> rstring \<Rightarrow> bool" where
  "ends_with suffix s \<longleftrightarrow> length suffix \<le> length s \<and> drop (length s - length suffix) s = suffix"

definition looks_like_path :: "rstring \<Rightarrow> bool" where
  "looks_like_path v \<longleftrightarrow> 47 \<in> set v \<or> 92 \<in> set v \<or> ends_with (rstr ''.toml'') v"

definition parse_sim_spec :: "rstring \<Rightarrow> sim_spec option sim_result" where
  "parse_sim_spec raw =
     (let raw = trim raw
      in if raw = [] then Inr None
         else case split_once 58 raw of
           None \<Rightarrow> Inr (Some (SpecReplay raw))
         | Some (kind, name) \<Rightarrow>
             (let kind = trim kind; name = trim name
              in if kind = rstr ''replay''
                 then if name = [] then Inl (GapReplayUnnamed raw) else Inr (Some (SpecReplay name))
                 else if kind = rstr ''model''
                 then if name = [] then Inl (GapModelUnnamed raw) else Inr (Some (SpecModel name))
                 else if looks_like_path raw then Inr (Some (SpecReplay raw))
                 else Inl (GapUnknownBackend kind raw)))"

text \<open>The environment lookup: a value, an absent variable, or one that is not Unicode.\<close>

datatype env_var = EnvPresent rstring | EnvNotPresent | EnvNotUnicode

definition sim_spec_from_var :: "env_var \<Rightarrow> sim_spec option sim_result" where
  "sim_spec_from_var lookup =
     (case lookup of
        EnvNotPresent \<Rightarrow> Inr None
      | EnvNotUnicode \<Rightarrow> Inl GapEnvNotUnicode
      | EnvPresent raw \<Rightarrow> parse_sim_spec raw)"

section \<open>Scenario files\<close>

text \<open>A table of the \<^verbatim>\<open>toml\<close> crate is a sorted map.\<close>

datatype toml =
    TomlString rstring
  | TomlInteger int
  | TomlArray "toml list"
  | TomlTable "(rstring \<times> toml) list"
  | TomlOther

fun toml_str :: "toml \<Rightarrow> rstring option" where
  "toml_str (TomlString s) = Some s" | "toml_str _ = None"

fun toml_integer :: "toml \<Rightarrow> int option" where
  "toml_integer (TomlInteger i) = Some i" | "toml_integer _ = None"

fun toml_array :: "toml \<Rightarrow> toml list option" where
  "toml_array (TomlArray xs) = Some xs" | "toml_array _ = None"

fun toml_table :: "toml \<Rightarrow> (rstring, toml) btree option" where
  "toml_table (TomlTable t) = Some t" | "toml_table _ = None"

definition toml_get :: "(rstring, toml) btree \<Rightarrow> string \<Rightarrow> toml option" where
  "toml_get t key = bt_get t (rstr key)"

record scenario =
  scn_endpoints :: "transport_kind list"
  scn_profiles :: "(u8, profile_image) btree"
  scn_post_write :: "(u8, profile_image) btree"
  scn_battery :: "u8 option"

definition parse_transport :: "rstring \<Rightarrow> transport_kind sim_result" where
  "parse_transport t =
     (if t = rstr ''wired'' then Inr Wired
      else if t = rstr ''ble'' then Inr Ble
      else Inl (GapUnknownTransport t))"

text \<open>\<^verbatim>\<open>u8::try_from\<close> and \<^verbatim>\<open>u16::try_from\<close> on an integer.\<close>

definition u8_of_int :: "int \<Rightarrow> u8 option" where
  "u8_of_int i = (if 0 \<le> i \<and> i < 256 then Some (of_int i) else None)"

definition u16_of_int :: "int \<Rightarrow> u16 option" where
  "u16_of_int i = (if 0 \<le> i \<and> i < 65536 then Some (of_int i) else None)"

text \<open>\<^verbatim>\<open>str::parse::<u8>\<close>: an optional plus sign and decimal digits.\<close>

definition parse_small :: "nat \<Rightarrow> rstring \<Rightarrow> nat option" where
  "parse_small bound s =
     (let digits = (case s of [] \<Rightarrow> [] | c # cs \<Rightarrow> if c = 43 then cs else s)
      in if digits \<noteq> [] \<and> list_all ascii_digit digits \<and> digits_value digits < bound
         then Some (digits_value digits) else None)"

definition utf8_len :: "nat \<Rightarrow> nat" where
  "utf8_len c = (if c < 128 then 1 else if c < 2048 then 2 else if c < 65536 then 3 else 4)"

definition byte_len :: "rstring \<Rightarrow> nat" where
  "byte_len s = sum_list (map utf8_len s)"

text \<open>Cutting a text at a byte position; \<open>None\<close> inside a character, where slicing panics.\<close>

fun split_at_byte :: "nat \<Rightarrow> rstring \<Rightarrow> (rstring \<times> rstring) option" where
  "split_at_byte n [] = (if n = 0 then Some ([], []) else None)"
| "split_at_byte n (c # cs) =
     (if n = 0 then Some ([], c # cs)
      else if n < utf8_len c then None
      else map_option (\<lambda>(a, b). (c # a, b)) (split_at_byte (n - utf8_len c) cs))"

definition byte_slice :: "nat \<Rightarrow> nat \<Rightarrow> rstring \<Rightarrow> rstring option" where
  "byte_slice i j s =
     (case split_at_byte i s of
        None \<Rightarrow> None
      | Some (_, rest) \<Rightarrow> map_option fst (split_at_byte (j - i) rest))"

definition hex_digit_value :: "nat \<Rightarrow> nat option" where
  "hex_digit_value c =
     (if 48 \<le> c \<and> c \<le> 57 then Some (c - 48)
      else if 97 \<le> c \<and> c \<le> 102 then Some (c - 87)
      else if 65 \<le> c \<and> c \<le> 70 then Some (c - 55)
      else None)"

text \<open>\<^verbatim>\<open>u8::from_str_radix(pair, 16)\<close> on two bytes.\<close>

definition hex_byte_value :: "rstring \<Rightarrow> u8 option" where
  "hex_byte_value pair =
     (case pair of
        [a, b] \<Rightarrow>
          (if a = 43 then map_option of_nat (hex_digit_value b)
           else case (hex_digit_value a, hex_digit_value b) of
             (Some x, Some y) \<Rightarrow> Some (of_nat (16 * x + y))
           | _ \<Rightarrow> None)
      | _ \<Rightarrow> None)"

definition parse_hex_bytes :: "rstring \<Rightarrow> packet sim_result" where
  "parse_hex_bytes hex =
     (if byte_len hex \<noteq> WATERMARK_LENGTH * 2 then Inl (GapHexLength (WATERMARK_LENGTH * 2) (byte_len hex))
      else collect_results (\<lambda>index.
        case byte_slice (index * 2) (index * 2 + 2) hex of
          None \<Rightarrow> Inl (GapPanic ''byte index is not a char boundary'')
        | Some pair \<Rightarrow> ok_or (GapHexByte index) (hex_byte_value pair)) [0..<WATERMARK_LENGTH])"


definition toml_byte :: "toml \<Rightarrow> u8 option" where
  "toml_byte v = Option.bind (toml_integer v) u8_of_int"

definition parse_button_triple :: "toml \<Rightarrow> button_assignment sim_result" where
  "parse_button_triple entry =
     tryq (ok_or (GapField ''buttons'') (toml_array entry)) (\<lambda>triple.
     if length triple \<noteq> 3 then Inl (GapCount ''buttons'' 3 (length triple))
     else tryq (collect_results (\<lambda>v. ok_or (GapField ''buttons'') (toml_byte v)) triple) (\<lambda>raw.
     Inr (assignment_new (raw ! 0) (raw ! 1) (raw ! 2))))"

definition parse_button_slots :: "toml \<Rightarrow> button_assignment list sim_result" where
  "parse_button_slots v =
     tryq (ok_or (GapNotArray ''buttons'') (toml_array v)) (\<lambda>entries.
     if length entries \<noteq> BUTTON_SLOT_COUNT then Inl (GapCount ''buttons'' BUTTON_SLOT_COUNT (length entries))
     else collect_results parse_button_triple entries)"

definition parse_dpi_stage :: "toml \<Rightarrow> dpi_value sim_result" where
  "parse_dpi_stage stage =
     tryq (ok_or (GapField ''dpi_stages'') (toml_integer stage)) (\<lambda>raw.
     ok_or (GapDpiStage raw) (Option.bind (u16_of_int raw) dpi_new))"

definition get_byte :: "(rstring, toml) btree \<Rightarrow> string \<Rightarrow> u8 sim_result" where
  "get_byte t key = ok_or (GapField key) (Option.bind (toml_get t key) toml_byte)"

definition parse_profile_image :: "u8 \<Rightarrow> (rstring, toml) btree \<Rightarrow> profile_image sim_result" where
  "parse_profile_image profile t =
     tryq (map_err (\<lambda>_. GapInvalidProfile profile) (profile_try_from profile)) (\<lambda>i.
     tryq (ok_or (GapField ''dpi_stages'') (Option.bind (toml_get t ''dpi_stages'') toml_array)) (\<lambda>stages.
     tryq (collect_results parse_dpi_stage stages) (\<lambda>dpi_stages.
     tryq (ok_or (GapField ''active_stage'') (Option.bind (toml_get t ''active_stage'') toml_integer)) (\<lambda>active_raw.
     tryq (ok_or (GapActiveStage active_raw) (Option.bind (u8_of_int active_raw) stage_new)) (\<lambda>active.
     tryq (ok_or (GapField ''dpi_tail'') (Option.bind (toml_get t ''dpi_tail'') toml_str)) (\<lambda>tail_hex.
     tryq (parse_hex_bytes tail_hex) (\<lambda>tail.
     tryq (map_err GapDpiImage (dpi_state_new i dpi_stages active tail)) (\<lambda>dpi.
     tryq (ok_or (GapField ''host_color'') (Option.bind (toml_get t ''host_color'') toml_array)) (\<lambda>host_color.
     if length host_color \<noteq> 3 then Inl (GapCount ''host_color'' 3 (length host_color))
     else
     tryq (collect_results (\<lambda>v. ok_or (GapField ''host_color'') (toml_byte v)) host_color) (\<lambda>color.
     tryq (get_byte t ''light_mode'') (\<lambda>light_mode.
     tryq (get_byte t ''configuration'') (\<lambda>configuration.
     tryq (get_byte t ''deep_sleep'') (\<lambda>deep_sleep.
     tryq (get_byte t ''sleep_timer'') (\<lambda>sleep_timer.
     tryq (get_byte t ''debounce'') (\<lambda>debounce.
     let preferences = preferences_new i light_mode configuration deep_sleep
           (color ! 0, color ! 1, color ! 2) sleep_timer debounce
     in tryq (case toml_get t ''buttons'' of
               Some v \<Rightarrow>
                 (if toml_str v = Some (rstr ''default'') then Inr (buttons_slots (buttons_default_for_profile i))
                  else parse_button_slots v)
             | None \<Rightarrow> Inl (GapField ''buttons'')) (\<lambda>slots.
        Inr (dpi, preferences, \<lparr>buttons_profile = i, buttons_slots = slots\<rparr>)))))))))))))))))"

text \<open>One of the two sections, \<^verbatim>\<open>profiles\<close> and \<^verbatim>\<open>post_write\<close>; two keys that
  name one number keep the later image.\<close>

fun parse_images :: "(rstring, toml) btree \<Rightarrow> (u8, profile_image) btree \<Rightarrow> (u8, profile_image) btree sim_result" where
  "parse_images [] images = Inr images"
| "parse_images ((key, v) # entries) images =
     tryq (ok_or (GapProfileNumber key) (parse_small 256 key)) (\<lambda>number.
     if profile_new (of_nat number) = None then Inl (GapProfileNumber key)
     else tryq (ok_or (GapProfileNotTable key) (toml_table v)) (\<lambda>profile_table.
          tryq (parse_profile_image (of_nat number) profile_table) (\<lambda>img.
          parse_images entries (bt_insert (of_nat number) img images))))"

definition parse_section :: "(rstring, toml) btree \<Rightarrow> string \<Rightarrow> (u8, profile_image) btree sim_result" where
  "parse_section t key =
     (case toml_get t key of
        None \<Rightarrow> Inr []
      | Some section \<Rightarrow>
          tryq (ok_or (GapNotTable key) (toml_table section)) (\<lambda>section_table. parse_images section_table []))"

definition parse_endpoint :: "toml \<Rightarrow> transport_kind sim_result" where
  "parse_endpoint entry =
     tryq (ok_or (GapNotTable ''endpoints'') (toml_table entry)) (\<lambda>entry_table.
     tryq (ok_or GapTransport (Option.bind (toml_get entry_table ''transport'') toml_str)) parse_transport)"

definition parse_scenario :: "toml option \<Rightarrow> rstring \<Rightarrow> scenario sim_result" where
  "parse_scenario parsed name =
     tryq (ok_or (GapParse name) parsed) (\<lambda>v.
     tryq (ok_or (GapNotTable ''scenario'') (toml_table v)) (\<lambda>t.
     tryq (case toml_get t ''endpoints'' of
             None \<Rightarrow> Inr []
           | Some x \<Rightarrow> tryq (ok_or (GapNotArray ''endpoints'') (toml_array x)) (collect_results parse_endpoint))
       (\<lambda>endpoints.
     let endpoints = (if endpoints = [] then [Wired] else endpoints)
     in tryq (case toml_get t ''battery'' of
               None \<Rightarrow> Inr None
             | Some x \<Rightarrow> (case toml_integer x of
                  None \<Rightarrow> Inl GapBattery
                | Some level \<Rightarrow> if 0 \<le> level \<and> level \<le> 100 then Inr (Some (of_int level)) else Inl GapBattery))
          (\<lambda>battery.
        tryq (parse_section t ''profiles'') (\<lambda>profiles.
        tryq (parse_section t ''post_write'') (\<lambda>post_write.
        Inr \<lparr>scn_endpoints = endpoints, scn_profiles = profiles, scn_post_write = post_write,
             scn_battery = battery\<rparr>))))))"

text \<open>Files: reading one, what the \<^verbatim>\<open>toml\<close> crate makes of it, whether a path is a file, and the
  path of a shipped scenario.\<close>

record sim_files =
  xf_read :: "rstring \<Rightarrow> (string, rstring) result"
  xf_toml :: "rstring \<Rightarrow> toml option"
  xf_is_file :: "rstring \<Rightarrow> bool"
  xf_fixture :: "rstring \<Rightarrow> rstring"

definition load_scenario :: "sim_files \<Rightarrow> rstring \<Rightarrow> scenario sim_result" where
  "load_scenario files path =
     tryq (map_err (GapCannotRead path) (xf_read files path)) (\<lambda>text.
     parse_scenario (xf_toml files text) path)"

section \<open>Replay\<close>

record sim_replay =
  rp_transports :: "transport_kind list"
  rp_transport :: transport_kind
  rp_profiles :: "(u8, profile_image) btree"
  rp_post_write :: "(u8, profile_image) btree"
  rp_battery :: "u8 option"

definition resolve_scenario_path :: "sim_files \<Rightarrow> rstring \<Rightarrow> rstring sim_result" where
  "resolve_scenario_path files scenario =
     (if scenario \<in> {rstr ''stock'', rstr ''tuned'', rstr ''foreign-token'', rstr ''two-ble-unknown''}
      then Inr (xf_fixture files scenario)
      else if xf_is_file files scenario then Inr scenario
      else Inl (GapUnknownScenario scenario))"

definition replay_from_scenario :: "scenario \<Rightarrow> rstring \<Rightarrow> nat \<Rightarrow> sim_replay sim_result" where
  "replay_from_scenario loaded name endpoint =
     (let transports = scn_endpoints loaded
      in if endpoint < length transports
         then Inr \<lparr>rp_transports = transports, rp_transport = transports ! endpoint,
                   rp_profiles = scn_profiles loaded, rp_post_write = scn_post_write loaded,
                   rp_battery = scn_battery loaded\<rparr>
         else Inl (GapNoEndpoint name (length transports) endpoint))"

definition replay_load_endpoint :: "sim_files \<Rightarrow> rstring \<Rightarrow> nat \<Rightarrow> sim_replay sim_result" where
  "replay_load_endpoint files scenario endpoint =
     tryq (resolve_scenario_path files scenario) (\<lambda>path.
     tryq (load_scenario files path) (\<lambda>loaded.
     replay_from_scenario loaded scenario endpoint))"

definition replay_endpoint_transports :: "sim_files \<Rightarrow> rstring \<Rightarrow> transport_kind list sim_result" where
  "replay_endpoint_transports files scenario =
     tryq (resolve_scenario_path files scenario) (\<lambda>path.
     tryq (load_scenario files path) (\<lambda>loaded. Inr (scn_endpoints loaded)))"

definition replay_read_profile :: "sim_replay \<Rightarrow> u8 \<Rightarrow> profile_image sim_result" where
  "replay_read_profile rp profile =
     tryq (map_err (\<lambda>_. GapInvalidProfile profile) (profile_try_from profile)) (\<lambda>_.
     if rp_transport rp = Ble then Inl (GapBleRead profile)
     else ok_or (GapNoImage profile) (bt_get (rp_profiles rp) profile))"

definition replay_write_profile :: "sim_replay \<Rightarrow> u8 \<Rightarrow> profile_image \<Rightarrow> unit sim_result" where
  "replay_write_profile rp profile img =
     tryq (map_err (\<lambda>_. GapInvalidProfile profile) (profile_try_from profile)) (\<lambda>_.
     tryq (ok_or (GapNoPostWrite profile) (bt_get (rp_post_write rp) profile)) (\<lambda>expected.
     if img \<noteq> expected then Inl (GapPostWriteMismatch profile) else Inr ()))"

section \<open>The in-memory mouse\<close>

definition TUNED_STAGES :: "u16 list" where "TUNED_STAGES = [400, 800, 1600, 3200, 6400]"
definition TUNED_ACTIVE_STAGE :: u8 where "TUNED_ACTIVE_STAGE = 3"
definition TUNED_REMAPPED_SLOT :: nat where "TUNED_REMAPPED_SLOT = 3"
definition DEFAULT_BATTERY :: u8 where "DEFAULT_BATTERY = 100"
definition DEFAULT_WRITES_PER_PERCENT :: u32 where "DEFAULT_WRITES_PER_PERCENT = 10"

record sim_model =
  sm_profiles :: "profile_image list"
  sm_active_profile :: profile_id
  sm_transport :: transport_kind
  sm_battery :: "u8 option"
  sm_writes_per_percent :: u32
  sm_writes :: u64

text \<open>\<^verbatim>\<open>expect\<close> on the constants of the protocol; no call of it below fails (see the facts).\<close>

definition expect_ok :: "'a protocol_result \<Rightarrow> 'a" where
  "expect_ok r = (case r of Inr x \<Rightarrow> x)"

definition stock_image :: "profile_id \<Rightarrow> profile_image" where
  "stock_image i = (expect_ok (dpi_captured_stock_reset i), prefs_captured_stock_reset i,
     buttons_default_for_profile i)"

definition stock_images :: "profile_image list" where
  "stock_images = map (\<lambda>n. stock_image (expect_ok (profile_try_from n))) [1, 2, 3, 4, 5]"

definition tuned_images :: "profile_image list" where
  "tuned_images =
     (let i = expect_ok (profile_try_from 1);
          stages = expect_ok (collect_results dpi_try_from TUNED_STAGES);
          active = expect_ok (stage_try_from TUNED_ACTIVE_STAGE);
          dpi = expect_ok (dpi_state_new i stages active (replicate WATERMARK_LENGTH 0));
          slots = (buttons_slots (buttons_default_for_profile i))[TUNED_REMAPPED_SLOT := assignment_new 0x0f 0x00 0x00]
      in stock_images[0 := (dpi, prefs_captured_stock_reset i, \<lparr>buttons_profile = i, buttons_slots = slots\<rparr>)])"

definition model_with_images :: "profile_image list \<Rightarrow> transport_kind \<Rightarrow> sim_model" where
  "model_with_images images transport =
     \<lparr>sm_profiles = images, sm_active_profile = ProfileId PROFILE_MIN, sm_transport = transport,
      sm_battery = Some DEFAULT_BATTERY, sm_writes_per_percent = DEFAULT_WRITES_PER_PERCENT, sm_writes = 0\<rparr>"

definition model_load :: "rstring \<Rightarrow> sim_model sim_result" where
  "model_load preset =
     (if preset = rstr ''stock'' then Inr (model_with_images stock_images Wired)
      else if preset = rstr ''tuned'' then Inr (model_with_images tuned_images Wired)
      else Inl (GapUnknownPreset preset))"

definition model_endpoint_transports :: "rstring \<Rightarrow> transport_kind list sim_result" where
  "model_endpoint_transports preset =
     (if preset = rstr ''stock'' \<or> preset = rstr ''tuned'' then Inr [Wired] else Inl (GapUnknownPreset preset))"

definition set_active_profile :: "u8 \<Rightarrow> sim_model \<Rightarrow> unit sim_result \<times> sim_model" where
  "set_active_profile profile m =
     (case profile_try_from profile of
        Inl _ \<Rightarrow> (Inl (GapInvalidProfile profile), m)
      | Inr i \<Rightarrow> (Inr (), m\<lparr>sm_active_profile := i\<rparr>))"

definition record_sim_write :: "sim_model \<Rightarrow> sim_model" where
  "record_sim_write m =
     (let m = m\<lparr>sm_writes := sm_writes m + 1\<rparr>
      in if sm_writes_per_percent m = 0 then m
         else if sm_writes m mod ucast (sm_writes_per_percent m) = 0
         then m\<lparr>sm_battery := map_option (\<lambda>level. if level = 0 then 0 else level - 1) (sm_battery m)\<rparr>
         else m)"

definition model_read_profile :: "sim_model \<Rightarrow> u8 \<Rightarrow> profile_image sim_result" where
  "model_read_profile m profile =
     tryq (map_err (\<lambda>_. GapInvalidProfile profile) (profile_try_from profile)) (\<lambda>_.
     if sm_transport m = Ble then Inl (GapBleRead profile)
     else Inr (sm_profiles m ! (unat profile - 1)))"

definition validate_profile_image :: "profile_id \<Rightarrow> profile_image \<Rightarrow> transport_kind \<Rightarrow> unit sim_result" where
  "validate_profile_image target img transport =
     (case img of (dpi, preferences, buttons) \<Rightarrow>
        tryq (check_all (\<lambda>(section, actual).
                if actual \<noteq> target then Inl (GapSectionProfile section actual target) else Inr ())
              [(''dpi'', dpi_profile dpi), (''preferences'', prefs_profile preferences),
               (''buttons'', buttons_profile buttons)]) (\<lambda>_.
        tryq (map_err (GapImageRejected ''dpi'') (dpi_encode dpi transport)) (\<lambda>_.
        tryq (map_err (GapImageRejected ''preferences'')
                (prefs_encode_framed_for_transport preferences transport PrefsCompact)) (\<lambda>_.
        Inr ()))))"

definition model_write_profile :: "u8 \<Rightarrow> profile_image \<Rightarrow> sim_model \<Rightarrow> unit sim_result \<times> sim_model" where
  "model_write_profile profile img m =
     (case tryq (map_err (\<lambda>_. GapInvalidProfile profile) (profile_try_from profile)) (\<lambda>target.
             validate_profile_image target img (sm_transport m)) of
        Inl e \<Rightarrow> (Inl e, m)
      | Inr _ \<Rightarrow> (Inr (), record_sim_write (m\<lparr>sm_profiles := (sm_profiles m)[unat profile - 1 := img]\<rparr>)))"

end
