(* ===== verification/X3_Sim_Session.thy ===== *)
theory X3_Sim_Session
  imports X3_Sim X3_Session
begin

text \<open>
  The sessions over the simulated mice (\<^verbatim>\<open>backend.rs\<close>): the endpoints an \<^verbatim>\<open>X3_SIM\<close>
  value registers, their locators, the identity of a simulated mouse, the process-wide slots of the
  in-memory mice, and the two sessions. The world of a session is the registry of the slots; a session
  holds the key of its slot, which the registry never gives up.
\<close>

section \<open>Errors\<close>

text \<open>The fixed part of a message.\<close>

fun gap_text :: "sim_gap \<Rightarrow> string" where
  "gap_text (GapReplayUnnamed _) = ''sim gap: replay needs a scenario name''"
| "gap_text (GapModelUnnamed _) = ''sim gap: model needs a preset name''"
| "gap_text (GapUnknownBackend _ _) = ''sim gap: unknown backend''"
| "gap_text GapEnvNotUnicode = ''sim gap: not valid Unicode''"
| "gap_text (GapCannotRead _ _) = ''sim gap: cannot read scenario''"
| "gap_text (GapParse _) = ''sim gap: parse error''"
| "gap_text (GapUnknownScenario _) = ''sim gap: unknown scenario''"
| "gap_text (GapUnknownPreset _) = ''sim gap: unknown preset''"
| "gap_text (GapNoEndpoint _ _ _) = ''sim gap: no endpoint''"
| "gap_text (GapInvalidProfile _) = ''sim gap: invalid profile''"
| "gap_text (GapBleRead _) = ''sim gap: read_profile is not supported over Ble''"
| "gap_text (GapNoImage _) = ''sim gap: no recorded image''"
| "gap_text (GapNoPostWrite _) = ''sim gap: no recorded post-write image''"
| "gap_text (GapPostWriteMismatch _) = ''sim gap: write does not match the recorded post-write image''"
| "gap_text (GapSectionProfile _ _ _) = ''sim gap: image targets another profile''"
| "gap_text (GapImageRejected _ _) = ''sim gap: image rejected''"
| "gap_text (GapMissingCapture _) = ''sim gap: no recorded capture''"
| "gap_text GapMalformedLocator = ''sim gap: malformed sim locator''"
| "gap_text GapEnvUnset = ''sim gap: endpoint needs X3_SIM set''"
| "gap_text (GapStaleEndpoint _ _) = ''sim gap: refresh discovery''"
| "gap_text _ = ''sim gap: scenario''"

definition gap_invalid :: "sim_gap \<Rightarrow> manager_error" where
  "gap_invalid gap = (case gap of GapPanic m \<Rightarrow> Panic m | _ \<Rightarrow> InvalidUpdate (gap_text gap))"

definition sim_gap_error :: "transport_kind \<Rightarrow> sim_gap \<Rightarrow> manager_error" where
  "sim_gap_error transport gap =
     (case transport of Ble \<Rightarrow> UnsupportedOperation ''read_profile'' Ble | _ \<Rightarrow> gap_invalid gap)"

definition sim_write_outcome :: "'a \<Rightarrow> verification_method \<Rightarrow> 'a session_write" where
  "sim_write_outcome v verification =
     (case verification of TransportAck \<Rightarrow> WriteAcknowledged | Readback \<Rightarrow> WriteReadback v)"

section \<open>Endpoints\<close>

fun spec_tag :: "sim_spec \<Rightarrow> rstring" where
  "spec_tag (SpecReplay _) = SIM_REPLAY_TAG"
| "spec_tag (SpecModel _) = SIM_MODEL_TAG"

fun spec_name :: "sim_spec \<Rightarrow> rstring" where
  "spec_name (SpecReplay scenario) = scenario"
| "spec_name (SpecModel preset) = preset"

fun spec_transports :: "sim_files \<Rightarrow> sim_spec \<Rightarrow> transport_kind list sim_result" where
  "spec_transports files (SpecReplay scenario) = replay_endpoint_transports files scenario"
| "spec_transports files (SpecModel preset) = model_endpoint_transports preset"

definition sim_locator :: "rstring \<Rightarrow> nat \<Rightarrow> rstring" where
  "sim_locator tag index = rstr ''sim:'' @ tag @ rstr '':'' @ rstr (show_nat index)"

definition sim_endpoint :: "sim_spec \<Rightarrow> bool \<Rightarrow> nat \<Rightarrow> transport_kind \<Rightarrow> (device_fault, device_endpoint) result" where
  "sim_endpoint spec multiple index transport =
     (let tag = spec_tag spec; name = spec_name spec;
          display = (if multiple then tag @ rstr '' '' @ name @ rstr '' '' @ rstr (show_nat (index + 1))
                     else tag @ rstr '' '' @ name);
          locator = sim_locator tag index
      in case transport of
           Ble \<Rightarrow> endpoint_ble locator (Some display)
         | _ \<Rightarrow> endpoint_usb transport 0x1d57 (if transport = Receiver then 0xfa60 else 0xfa61) None locator
                 (Some display))"

definition sim_endpoints_for_spec ::
  "sim_files \<Rightarrow> sim_spec option \<Rightarrow> transport_selection \<Rightarrow> (manager_error, discovered_endpoint list) result" where
  "sim_endpoints_for_spec files spec selection =
     (case spec of
        None \<Rightarrow> Inr []
      | Some spec \<Rightarrow>
          tryq (map_err gap_invalid (spec_transports files spec)) (\<lambda>transports.
          let wanted = (\<lambda>transport. case selection of
                AutoSelection \<Rightarrow> True | ExactSelection exact \<Rightarrow> exact = transport);
              multiple = (1 < length transports)
          in collect_results (\<lambda>(index, transport).
               tryq (map_err device_failure (sim_endpoint spec multiple index transport)) (\<lambda>endpoint.
               Inr \<lparr>disc_endpoint = endpoint, disc_connected = True\<rparr>))
             (filter (\<lambda>(index, transport). wanted transport) (enumerate 0 transports))))"

definition sim_discovered_endpoints ::
  "sim_files \<Rightarrow> env_var \<Rightarrow> transport_selection \<Rightarrow> (manager_error, discovered_endpoint list) result" where
  "sim_discovered_endpoints files lookup selection =
     tryq (map_err gap_invalid (sim_spec_from_var lookup)) (\<lambda>spec. sim_endpoints_for_spec files spec selection)"

text \<open>\<^verbatim>\<open>rsplit(':').next()?.parse().ok()\<close>.\<close>

definition sim_locator_index :: "device_endpoint \<Rightarrow> nat option" where
  "sim_locator_index e =
     (let locator = locator_text (ep_locator e)
      in if take 4 locator \<noteq> rstr ''sim:'' then None
         else parse_small (2 ^ 64) (rev (takeWhile (\<lambda>c. c \<noteq> 58) (rev (drop 4 locator)))))"

definition is_sim_endpoint :: "device_endpoint \<Rightarrow> bool" where
  "is_sim_endpoint e \<longleftrightarrow> sim_tag_for_endpoint e \<noteq> None"

text \<open>The UTF-8 bytes of the name, cut after eleven, and the index as one byte.\<close>

definition utf8_bytes :: "nat \<Rightarrow> packet" where
  "utf8_bytes c =
     (if c < 128 then [of_nat c]
      else if c < 2048 then [of_nat (192 + c div 64), of_nat (128 + c mod 64)]
      else if c < 65536 then [of_nat (224 + c div 4096), of_nat (128 + c div 64 mod 64), of_nat (128 + c mod 64)]
      else [of_nat (240 + c div 262144), of_nat (128 + c div 4096 mod 64),
            of_nat (128 + c div 64 mod 64), of_nat (128 + c mod 64)])"

definition sim_token_for :: "rstring \<Rightarrow> nat \<Rightarrow> physical_id" where
  "sim_token_for name index =
     (let token = [0x53, 0x49, 0x4d, 0x3a] @ replicate 12 0;
          bytes = concat (map utf8_bytes name);
          copy = min (length bytes) 11;
          token = write_at 4 (take copy bytes) token
      in PhysicalId (token[15 := of_nat index]))"

section \<open>The slots of the in-memory mice\<close>

record sim_slot =
  sl_model :: sim_model
  sl_host_images :: "(u8, profile_image) btree"

type_synonym slot_key = "rstring \<times> transport_kind"
type_synonym sim_slots = "slot_key \<Rightarrow> sim_slot option"

text \<open>The images of the preset a host can read, gathered over the profiles 1 to 5.\<close>

fun reference_images :: "sim_model \<Rightarrow> u8 list \<Rightarrow> (u8, profile_image) btree \<Rightarrow> (u8, profile_image) btree" where
  "reference_images reference [] images = images"
| "reference_images reference (profile # profiles) images =
     reference_images reference profiles
       (case model_read_profile reference profile of
          Inr img \<Rightarrow> bt_insert profile img images
        | Inl _ \<Rightarrow> images)"

definition sim_model_slot :: "rstring \<Rightarrow> transport_kind \<Rightarrow> (sim_slots, sim_gap, slot_key) prog" where
  "sim_model_slot preset transport slots =
     (let key = (preset, transport)
      in case slots key of
           Some slot \<Rightarrow> (Inr key, slots)
         | None \<Rightarrow>
             (case model_load preset of
                Inl e \<Rightarrow> (Inl e, slots)
              | Inr reference \<Rightarrow>
                  let model = reference\<lparr>sm_transport := transport\<rparr>;
                      host_images = (if sm_transport reference \<noteq> Ble
                        then reference_images reference [1, 2, 3, 4, 5] [] else [])
                  in (Inr key, slots(key \<mapsto> \<lparr>sl_model = model, sl_host_images = host_images\<rparr>))))"

definition sim_base_image :: "sim_slot \<Rightarrow> profile_id \<Rightarrow> transport_kind \<Rightarrow> (manager_error, profile_image) result" where
  "sim_base_image slot profile transport =
     (case bt_get (sl_host_images slot) (profile_get profile) of
        Some img \<Rightarrow> Inr img
      | None \<Rightarrow> map_err (sim_gap_error transport) (model_read_profile (sl_model slot) (profile_get profile)))"

text \<open>Locking the slot of a session.\<close>

definition with_slot :: "slot_key \<Rightarrow> (sim_slot, manager_error, 'a) prog \<Rightarrow> (sim_slots, manager_error, 'a) prog" where
  "with_slot key f slots =
     (case slots key of
        None \<Rightarrow> (Inl (Panic ''sim model slot missing''), slots)
      | Some slot \<Rightarrow> (case f slot of (r, slot') \<Rightarrow> (r, slots(key \<mapsto> slot'))))"

section \<open>The session over the in-memory mouse\<close>

definition overlay_image :: "(packet \<Rightarrow> u32) \<Rightarrow> physical_id \<Rightarrow> profile_image \<Rightarrow> profile_image" where
  "overlay_image crc token img = (case img of (d, p, b) \<Rightarrow> (overlay_physical_id crc d token, p, b))"

definition model_image ::
  "(packet \<Rightarrow> u32) \<Rightarrow> transport_kind \<Rightarrow> physical_id \<Rightarrow> profile_id \<Rightarrow> (sim_slot, manager_error, profile_image) prog" where
  "model_image crc transport token profile slot =
     (map_err (sim_gap_error transport)
        (tryq (model_read_profile (sl_model slot) (profile_get profile)) (\<lambda>img. Inr (overlay_image crc token img))),
      slot)"

definition model_store ::
  "transport_kind \<Rightarrow> profile_id \<Rightarrow> (profile_image \<Rightarrow> profile_image) \<Rightarrow> (sim_slot, manager_error, profile_image) prog" where
  "model_store transport profile mutate_img slot =
     (case sim_base_image slot profile transport of
        Inl e \<Rightarrow> (Inl e, slot)
      | Inr base \<Rightarrow>
          let img = mutate_img base
          in case model_write_profile (profile_get profile) img (sl_model slot) of
               (Inl gap, model) \<Rightarrow> (Inl (sim_gap_error transport gap), slot\<lparr>sl_model := model\<rparr>)
             | (Inr _, model) \<Rightarrow>
                 (Inr img, slot\<lparr>sl_model := model,
                    sl_host_images := bt_insert (profile_get profile) img (sl_host_images slot)\<rparr>))"

definition model_metadata :: "(sim_slot, manager_error, profile_metadata) prog" where
  "model_metadata slot =
     (map_err (ProtocolFailure ''sim profile metadata'')
        (metadata_new (sm_active_profile (sl_model slot)) (ProfileId PROFILE_MAX)), slot)"

definition model_write_metadata ::
  "transport_kind \<Rightarrow> profile_metadata \<Rightarrow> (sim_slot, manager_error, profile_metadata session_write) prog" where
  "model_write_metadata transport metadata slot =
     (case set_active_profile (profile_get (meta_current metadata)) (sl_model slot) of
        (Inl gap, model) \<Rightarrow> (Inl (sim_gap_error transport gap), slot\<lparr>sl_model := model\<rparr>)
      | (Inr _, model) \<Rightarrow>
          (tryq (map_err (ProtocolFailure ''sim profile metadata'')
                   (metadata_new (meta_current metadata) (ProfileId PROFILE_MAX))) (\<lambda>actual.
           Inr (WriteReadback actual)), slot\<lparr>sl_model := model\<rparr>))"

definition model_read_battery :: "transport_kind \<Rightarrow> (sim_slot, manager_error, u8) prog" where
  "model_read_battery transport slot =
     (ok_or (UnsupportedOperation ''read_battery'' transport) (sm_battery (sl_model slot)), slot)"

definition sim_model_session ::
  "(packet \<Rightarrow> u32) \<Rightarrow> slot_key \<Rightarrow> transport_kind \<Rightarrow> physical_id \<Rightarrow> sim_slots session" where
  "sim_model_session crc key transport token = \<lparr>
     ss_transport = transport,
     ss_read_profile_metadata = with_slot key model_metadata,
     ss_read_profile = (\<lambda>profile.
       thenp (with_slot key (model_image crc transport token profile)) (\<lambda>(d, p, b).
       thenp (with_slot key model_metadata) (\<lambda>metadata.
       okp \<lparr>snap_persistent_metadata = metadata, snap_target_profile = profile,
            snap_dpi = d, snap_preferences = p, snap_buttons = b\<rparr>))),
     ss_read_dpi = (\<lambda>profile.
       thenp (with_slot key (model_image crc transport token profile)) (\<lambda>(d, p, b). okp d)),
     ss_read_preferences = (\<lambda>profile.
       thenp (with_slot key (model_image crc transport token profile)) (\<lambda>(d, p, b). okp p)),
     ss_read_buttons = (\<lambda>profile.
       thenp (with_slot key (model_image crc transport token profile)) (\<lambda>(d, p, b). okp b)),
     ss_read_live_polling_rate = (\<lambda>_. okp Hz1000),
     ss_write_dpi = (\<lambda>st verification.
       thenp (with_slot key (model_store transport (dpi_profile st) (\<lambda>(d, p, b). (st, p, b))))
         (\<lambda>(d, p, b). okp (sim_write_outcome d verification))),
     ss_write_preferences = (\<lambda>st verification.
       thenp (with_slot key (model_store transport (prefs_profile st) (\<lambda>(d, p, b). (d, st, b))))
         (\<lambda>(d, p, b). okp (sim_write_outcome p verification))),
     ss_write_buttons = (\<lambda>st verification.
       thenp (with_slot key (model_store transport (buttons_profile st) (\<lambda>(d, p, b). (d, p, st))))
         (\<lambda>(d, p, b). okp (sim_write_outcome b verification))),
     ss_write_polling_rate_unchecked = (\<lambda>_ rate verification. okp (sim_write_outcome rate verification)),
     ss_write_profile_metadata = (\<lambda>metadata. with_slot key (model_write_metadata transport metadata)),
     ss_read_battery = (\<lambda>_. with_slot key (model_read_battery transport))\<rparr>"

section \<open>The session over a replay\<close>

definition replay_image ::
  "(packet \<Rightarrow> u32) \<Rightarrow> sim_replay \<Rightarrow> physical_id \<Rightarrow> profile_id \<Rightarrow> (manager_error, profile_image) result" where
  "replay_image crc rp token profile =
     map_err (sim_gap_error (rp_transport rp))
       (tryq (replay_read_profile rp (profile_get profile)) (\<lambda>img. Inr (overlay_image crc token img)))"

definition replay_store ::
  "sim_replay \<Rightarrow> profile_id \<Rightarrow> (profile_image \<Rightarrow> profile_image) \<Rightarrow> (manager_error, profile_image) result" where
  "replay_store rp profile mutate_img =
     map_err (sim_gap_error (rp_transport rp))
       (tryq (replay_read_profile rp (profile_get profile)) (\<lambda>base.
        let img = mutate_img base
        in tryq (replay_write_profile rp (profile_get profile) img) (\<lambda>_. Inr img)))"

definition missing_capture :: "sim_replay \<Rightarrow> string \<Rightarrow> manager_error" where
  "missing_capture rp detail = sim_gap_error (rp_transport rp) (GapMissingCapture detail)"

definition replay_metadata :: "(manager_error, profile_metadata) result" where
  "replay_metadata =
     map_err (ProtocolFailure ''sim profile metadata'') (metadata_new (ProfileId PROFILE_MIN) (ProfileId PROFILE_MAX))"

definition sim_replay_session :: "(packet \<Rightarrow> u32) \<Rightarrow> sim_replay \<Rightarrow> physical_id \<Rightarrow> 'w session" where
  "sim_replay_session crc rp token = \<lparr>
     ss_transport = rp_transport rp,
     ss_read_profile_metadata = liftp replay_metadata,
     ss_read_profile = (\<lambda>profile.
       thenp (liftp (replay_image crc rp token profile)) (\<lambda>(d, p, b).
       thenp (liftp replay_metadata) (\<lambda>metadata.
       okp \<lparr>snap_persistent_metadata = metadata, snap_target_profile = profile,
            snap_dpi = d, snap_preferences = p, snap_buttons = b\<rparr>))),
     ss_read_dpi = (\<lambda>profile. thenp (liftp (replay_image crc rp token profile)) (\<lambda>(d, p, b). okp d)),
     ss_read_preferences = (\<lambda>profile. thenp (liftp (replay_image crc rp token profile)) (\<lambda>(d, p, b). okp p)),
     ss_read_buttons = (\<lambda>profile. thenp (liftp (replay_image crc rp token profile)) (\<lambda>(d, p, b). okp b)),
     ss_read_live_polling_rate = (\<lambda>_. okp Hz1000),
     ss_write_dpi = (\<lambda>st verification.
       thenp (liftp (replay_store rp (dpi_profile st) (\<lambda>(d, p, b). (st, p, b))))
         (\<lambda>(d, p, b). okp (sim_write_outcome d verification))),
     ss_write_preferences = (\<lambda>st verification.
       thenp (liftp (replay_store rp (prefs_profile st) (\<lambda>(d, p, b). (d, st, b))))
         (\<lambda>(d, p, b). okp (sim_write_outcome p verification))),
     ss_write_buttons = (\<lambda>st verification.
       thenp (liftp (replay_store rp (buttons_profile st) (\<lambda>(d, p, b). (d, p, st))))
         (\<lambda>(d, p, b). okp (sim_write_outcome b verification))),
     ss_write_polling_rate_unchecked = (\<lambda>_ _ _. errp (missing_capture rp ''polling rate'')),
     ss_write_profile_metadata = (\<lambda>_. errp (missing_capture rp ''profile activation'')),
     ss_read_battery = (\<lambda>_. liftp (ok_or (UnsupportedOperation ''read_battery'' (rp_transport rp)) (rp_battery rp)))\<rparr>"

section \<open>Opening a simulated mouse\<close>

definition open_sim_session_for_spec ::
  "(packet \<Rightarrow> u32) \<Rightarrow> sim_files \<Rightarrow> sim_spec option \<Rightarrow> device_endpoint
     \<Rightarrow> (sim_slots, sim_gap, sim_slots session option) prog" where
  "open_sim_session_for_spec crc files spec endpoint =
     (if \<not> is_sim_endpoint endpoint then okp None
      else thenp (liftp (ok_or GapMalformedLocator (sim_locator_index endpoint))) (\<lambda>index.
           thenp (liftp (ok_or GapEnvUnset spec)) (\<lambda>spec.
           let expected = spec_tag spec;
               registered = unwrap_or [] (sim_tag_for_endpoint endpoint)
           in if registered \<noteq> expected then errp (GapStaleEndpoint registered expected)
              else case spec of
                SpecReplay scenario \<Rightarrow>
                  thenp (liftp (replay_load_endpoint files scenario index)) (\<lambda>backend.
                  okp (Some (sim_replay_session crc backend (sim_token_for scenario index))))
              | SpecModel preset \<Rightarrow>
                  thenp (sim_model_slot preset (ep_transport endpoint)) (\<lambda>key.
                  okp (Some (sim_model_session crc key (ep_transport endpoint) (sim_token_for preset index)))))))"

definition open_sim_session ::
  "(packet \<Rightarrow> u32) \<Rightarrow> sim_files \<Rightarrow> env_var \<Rightarrow> device_endpoint
     \<Rightarrow> (sim_slots, manager_error, sim_slots session option) prog" where
  "open_sim_session crc files lookup endpoint =
     map_errp gap_invalid
       (thenp (liftp (sim_spec_from_var lookup)) (\<lambda>spec. open_sim_session_for_spec crc files spec endpoint))"

end
