(* ===== verification/X3_Sim_Facts.thy ===== *)
theory X3_Sim_Facts
  imports X3_Sim_Session
begin

text \<open>
  What the simulated mice guarantee: an in-memory mouse is five images, of which each accepted write
  replaces one resource, over every transport; the endpoints a scenario registers open under the same
  value of \<^verbatim>\<open>X3_SIM\<close>; the identities of short names are distinct; the hexadecimal tail of a
  scenario is read back as written.
\<close>

section \<open>Images\<close>

definition images_of :: "sim_slot \<Rightarrow> profile_id \<Rightarrow> profile_image" where
  "images_of slot p = sm_profiles (sl_model slot) ! (unat (profile_get p) - 1)"

definition image_fits :: "profile_id \<Rightarrow> profile_image \<Rightarrow> bool" where
  "image_fits p img \<longleftrightarrow> (case img of (d, pr, b) \<Rightarrow>
     dpi_profile d = p \<and> prefs_profile pr = p \<and> buttons_profile b = p \<and> valid_selection d)"

lemma validate_profile_image_eq_Inr [simp]:
  "validate_profile_image p img t = Inr u \<longleftrightarrow> image_fits p img"
  by (cases img)
    (auto simp: validate_profile_image_def image_fits_def dpi_encode_def valid_selection_iff
      prefs_encode_framed_for_transport_def prefs_supports_transport_def)

text \<open>The images of the mouse and the images the host remembers are the same five, and each fits.\<close>

definition slot_ok :: "transport_kind \<Rightarrow> sim_slot \<Rightarrow> bool" where
  "slot_ok transport slot \<longleftrightarrow>
     length (sm_profiles (sl_model slot)) = 5 \<and> sm_transport (sl_model slot) = transport
     \<and> wf_profile (sm_active_profile (sl_model slot))
     \<and> (\<forall>p. wf_profile p \<longrightarrow> image_fits p (images_of slot p)
          \<and> bt_get (sl_host_images slot) (profile_get p) = Some (images_of slot p))"

lemma profile_index:
  assumes "wf_profile p" and "wf_profile q"
  shows "unat (profile_get p) - 1 < 5"
    and "unat (profile_get p) - 1 = unat (profile_get q) - 1 \<longleftrightarrow> p = q"
proof -
  have range: "1 \<le> unat (profile_get x) \<and> unat (profile_get x) \<le> 5" if "wf_profile x" for x
    using that by (cases x) (simp add: wf_profile_def PROFILE_MIN_def PROFILE_MAX_def word_le_nat_alt)
  from range [OF assms(1)] show "unat (profile_get p) - 1 < 5" by auto
  from range [OF assms(1)] range [OF assms(2)]
  show "unat (profile_get p) - 1 = unat (profile_get q) - 1 \<longleftrightarrow> p = q"
    by (cases p; cases q) (auto simp: word_unat_eq_iff)
qed

lemma record_sim_write_sel [simp]:
  "sm_profiles (record_sim_write m) = sm_profiles m" "sm_transport (record_sim_write m) = sm_transport m"
  "sm_active_profile (record_sim_write m) = sm_active_profile m"
  by (auto simp: record_sim_write_def Let_def)

text \<open>Storing one image.\<close>

lemma model_store_cases:
  fixes f :: "profile_image \<Rightarrow> profile_image"
  assumes "slot_ok transport slot" and "wf_profile p"
  defines "img \<equiv> f (images_of slot p)"
  shows "if image_fits p img
    then \<exists>slot'. model_store transport p f slot = (Inr img, slot') \<and> slot_ok transport slot'
      \<and> (\<forall>q. wf_profile q \<longrightarrow> images_of slot' q = (if q = p then img else images_of slot q))
    else \<exists>e. model_store transport p f slot = (Inl e, slot)"
proof -
  have len: "length (sm_profiles (sl_model slot)) = 5" and fits: "\<And>q. wf_profile q \<Longrightarrow> image_fits q (images_of slot q)"
    and host: "\<And>q. wf_profile q \<Longrightarrow> bt_get (sl_host_images slot) (profile_get q) = Some (images_of slot q)"
    and t: "sm_transport (sl_model slot) = transport" and active: "wf_profile (sm_active_profile (sl_model slot))"
    using assms(1) by (auto simp: slot_ok_def)
  have base: "sim_base_image slot p transport = Inr (images_of slot p)"
    by (simp add: sim_base_image_def host assms(2))
  note parse = profile_try_from_get [OF assms(2)]
  show ?thesis
  proof (cases "image_fits p img")
    case True
    then have v: "validate_profile_image p img transport = Inr ()" by simp
    let ?m = "record_sim_write ((sl_model slot)\<lparr>sm_profiles := (sm_profiles (sl_model slot))[unat (profile_get p) - 1 := img]\<rparr>)"
    let ?slot = "slot\<lparr>sl_model := ?m, sl_host_images := bt_insert (profile_get p) img (sl_host_images slot)\<rparr>"
    define slot1 where "slot1 = ?slot"
    have new: "images_of slot1 q = (if q = p then img else images_of slot q)" if "wf_profile q" for q
      using profile_index [OF assms(2) that] len by (auto simp: images_of_def slot1_def)
    have get: "profile_get q = profile_get p \<longleftrightarrow> q = p" for q by (cases q; cases p) simp
    have "length (sm_profiles (sl_model slot1)) = 5" "sm_transport (sl_model slot1) = transport"
      "wf_profile (sm_active_profile (sl_model slot1))"
      by (simp_all add: slot1_def len t active)
    moreover have "bt_get (sl_host_images slot1) (profile_get q) = Some (if q = p then img else images_of slot q)"
      if "wf_profile q" for q
      using host [OF that] by (simp add: slot1_def bt_get_insert get)
    ultimately have "slot_ok transport slot1"
      using True fits unfolding slot_ok_def by (simp add: new)
    moreover have "model_store transport p f slot = (Inr img, slot1)"
      by (simp add: model_store_def base model_write_profile_def parse t slot1_def v flip: img_def)
    ultimately show ?thesis using True new by auto
  next
    case False
    then obtain e where v: "validate_profile_image p img transport = Inl e"
      by (metis validate_profile_image_eq_Inr sumE)
    have "model_store transport p f slot = (Inl (sim_gap_error transport e), slot)"
      by (simp add: model_store_def base model_write_profile_def parse t v flip: img_def)
    then show ?thesis using False by simp
  qed
qed

section \<open>Sequences of writes\<close>

datatype sim_request =
    ReqDpi dpi_state
  | ReqPreferences preferences_state
  | ReqButtons buttons_state

fun req_profile :: "sim_request \<Rightarrow> profile_id" where
  "req_profile (ReqDpi st) = dpi_profile st"
| "req_profile (ReqPreferences st) = prefs_profile st"
| "req_profile (ReqButtons st) = buttons_profile st"

text \<open>What the driver refuses to encode is refused by the mouse.\<close>

fun req_accepted :: "sim_request \<Rightarrow> bool" where
  "req_accepted (ReqDpi st) \<longleftrightarrow> valid_selection st"
| "req_accepted _ \<longleftrightarrow> True"

fun req_put :: "sim_request \<Rightarrow> profile_image \<Rightarrow> profile_image" where
  "req_put (ReqDpi st) (d, p, b) = (st, p, b)"
| "req_put (ReqPreferences st) (d, p, b) = (d, st, b)"
| "req_put (ReqButtons st) (d, p, b) = (d, p, st)"

text \<open>The abstract mouse: a function from profiles to images.\<close>

definition req_apply :: "sim_request \<Rightarrow> (profile_id \<Rightarrow> profile_image) \<Rightarrow> profile_id \<Rightarrow> profile_image" where
  "req_apply r images =
     (if req_accepted r then images(req_profile r := req_put r (images (req_profile r))) else images)"

fun session_request :: "'w session \<Rightarrow> verification_method \<Rightarrow> sim_request \<Rightarrow> ('w, manager_error, unit) prog" where
  "session_request s v (ReqDpi st) = thenp (ss_write_dpi s st v) (\<lambda>_. okp ())"
| "session_request s v (ReqPreferences st) = thenp (ss_write_preferences s st v) (\<lambda>_. okp ())"
| "session_request s v (ReqButtons st) = thenp (ss_write_buttons s st v) (\<lambda>_. okp ())"

fun session_requests :: "'w session \<Rightarrow> verification_method \<Rightarrow> sim_request list \<Rightarrow> 'w \<Rightarrow> 'w" where
  "session_requests s v [] w = w"
| "session_requests s v (r # rs) w = session_requests s v rs (snd (session_request s v r w))"

lemma req_fits:
  assumes "image_fits (req_profile r) img"
  shows "image_fits (req_profile r) (req_put r img) \<longleftrightarrow> req_accepted r"
  using assms by (cases r; cases img) (auto simp: image_fits_def)

lemma thenp_forget: "thenp (thenp m (\<lambda>(d, p, b). okp (g d p b))) (\<lambda>_. okp ()) = thenp m (\<lambda>_. okp ())"
  by (auto simp: thenp_def okp_def fun_eq_iff split: sum.split prod.split)

lemma session_request_model:
  "session_request (sim_model_session crc key transport token) v r slots =
     thenp (with_slot key (model_store transport (req_profile r) (req_put r))) (\<lambda>_. okp ()) slots"
proof -
  have put: "(\<lambda>(d, y). (st, y)) = req_put (ReqDpi st)" for st
    by (auto simp: fun_eq_iff)
  have put': "(\<lambda>(d, p, b). (d, st, b)) = req_put (ReqPreferences st)" for st
    by (simp add: fun_eq_iff)
  have put'': "(\<lambda>(d, p, b). (d, p, st)) = req_put (ReqButtons st)" for st
    by (simp add: fun_eq_iff)
  show ?thesis
    by (cases r) (simp_all add: sim_model_session_def put put' put'' thenp_forget)
qed

lemma session_request_step:
  assumes "slots key = Some slot" and "slot_ok transport slot" and "wf_profile (req_profile r)"
  obtains slot' where "snd (session_request (sim_model_session crc key transport token) v r slots) = slots(key \<mapsto> slot')"
    and "slot_ok transport slot'" and "\<And>p. wf_profile p \<Longrightarrow> images_of slot' p = req_apply r (images_of slot) p"
    and "is_ok (fst (session_request (sim_model_session crc key transport token) v r slots)) \<longleftrightarrow> req_accepted r"
proof -
  have "image_fits (req_profile r) (images_of slot (req_profile r))"
    using assms(2,3) by (simp add: slot_ok_def)
  note iff = req_fits [OF this]
  note store = model_store_cases [OF assms(2,3), of "req_put r"]
  show thesis
  proof (cases "req_accepted r")
    case True
    with store iff obtain slot' where slot': "model_store transport (req_profile r) (req_put r) slot
        = (Inr (req_put r (images_of slot (req_profile r))), slot')" "slot_ok transport slot'"
      "\<forall>q. wf_profile q \<longrightarrow> images_of slot' q
          = (if q = req_profile r then req_put r (images_of slot (req_profile r)) else images_of slot q)"
      by auto
    have "session_request (sim_model_session crc key transport token) v r slots = (Inr (), slots(key \<mapsto> slot'))"
      by (simp add: session_request_model with_slot_def thenp_def okp_def assms(1) slot'(1))
    with True slot'(2,3) show thesis by (intro that [of slot']) (simp_all add: req_apply_def)
  next
    case False
    with store iff obtain e where e: "model_store transport (req_profile r) (req_put r) slot = (Inl e, slot)" by auto
    have "session_request (sim_model_session crc key transport token) v r slots = (Inl e, slots(key \<mapsto> slot))"
      by (simp add: session_request_model with_slot_def thenp_def assms(1) e)
    with False assms(2) show thesis by (intro that [of slot]) (simp_all add: req_apply_def)
  qed
qed

lemma fold_req_cong:
  assumes "\<And>p. wf_profile p \<Longrightarrow> f p = g p" and "\<forall>r \<in> set rs. wf_profile (req_profile r)" and "wf_profile p"
  shows "fold req_apply rs f p = fold req_apply rs g p"
  using assms
proof (induction rs arbitrary: f g)
  case (Cons r rs)
  have "req_apply r f q = req_apply r g q" if "wf_profile q" for q
    using Cons.prems(1) [OF that] Cons.prems(1) [of "req_profile r"] Cons.prems(2) by (simp add: req_apply_def)
  from Cons.IH [of "req_apply r f" "req_apply r g", OF this] Cons.prems(2,3) show ?case by simp
qed simp

lemma session_requests_refine:
  assumes "slots key = Some slot" and "slot_ok transport slot" and "\<forall>r \<in> set rs. wf_profile (req_profile r)"
  shows "\<exists>slot'. session_requests (sim_model_session crc key transport token) v rs slots = slots(key \<mapsto> slot')
    \<and> slot_ok transport slot' \<and> (\<forall>p. wf_profile p \<longrightarrow> images_of slot' p = fold req_apply rs (images_of slot) p)"
  using assms
proof (induction rs arbitrary: slots slot)
  case Nil
  then show ?case by (intro exI [of _ slot]) (auto simp: fun_upd_idem)
next
  case (Cons r rs)
  have wf: "wf_profile (req_profile r)" "\<forall>r \<in> set rs. wf_profile (req_profile r)" using Cons.prems(3) by simp_all
  from session_request_step [where slots = slots and key = key and v = v and crc = crc and token = token,
      OF Cons.prems(1,2) wf(1)]
  obtain slot1 where one: "snd (session_request (sim_model_session crc key transport token) v r slots) = slots(key \<mapsto> slot1)"
      "slot_ok transport slot1" "\<And>p. wf_profile p \<Longrightarrow> images_of slot1 p = req_apply r (images_of slot) p"
    by blast
  have "(slots(key \<mapsto> slot1)) key = Some slot1" by simp
  from Cons.IH [where slots = "slots(key \<mapsto> slot1)" and slot = slot1, OF this one(2) wf(2)] obtain slot' where
    rest: "session_requests (sim_model_session crc key transport token) v rs (slots(key \<mapsto> slot1))
        = slots(key \<mapsto> slot1, key \<mapsto> slot')" "slot_ok transport slot'"
      "\<And>p. wf_profile p \<Longrightarrow> images_of slot' p = fold req_apply rs (images_of slot1) p"
    by blast
  from fold_req_cong [OF one(3) wf(2)] rest(3)
  have "images_of slot' p = fold req_apply (r # rs) (images_of slot) p" if "wf_profile p" for p
    using that by simp
  with rest(1,2) one(1) show ?case by auto
qed

section \<open>Fresh slots\<close>

lemma stock_image_fits: "\<forall>n \<in> set [1, 2, 3, 4, 5]. image_fits (ProfileId n) (stock_images ! (unat n - 1))"
  by code_simp

lemma tuned_image_fits: "\<forall>n \<in> set [1, 2, 3, 4, 5]. image_fits (ProfileId n) (tuned_images ! (unat n - 1))"
  by code_simp

lemma wf_profile_cases: "wf_profile p \<Longrightarrow> p \<in> ProfileId ` set [1, 2, 3, 4, 5]"
proof (cases p)
  case (ProfileId n)
  assume "wf_profile p"
  then have "1 \<le> unat n" "unat n \<le> 5"
    by (simp_all add: ProfileId wf_profile_def PROFILE_MIN_def PROFILE_MAX_def word_le_nat_alt)
  then have "unat n \<in> {1, 2, 3, 4, 5}" by auto
  then have "n \<in> {1, 2, 3, 4, 5}" by (auto simp: word_unat_eq_iff)
  then show ?thesis by (auto simp: ProfileId)
qed

text \<open>A fresh slot holds the images of its preset; a slot that exists is kept.\<close>

definition preset_images :: "rstring \<Rightarrow> profile_id \<Rightarrow> profile_image" where
  "preset_images preset p =
     (if preset = rstr ''stock'' then stock_images else tuned_images) ! (unat (profile_get p) - 1)"

lemma reference_images_get:
  assumes "\<And>n. n \<in> set ns \<Longrightarrow> model_read_profile reference n = Inr (f n)"
  shows "bt_get (reference_images reference ns images) k = (if k \<in> set ns then Some (f k) else bt_get images k)"
  using assms by (induction ns arbitrary: images) (auto simp: bt_get_insert)

lemma fresh_slot:
  fixes images :: "profile_image list" and transport :: transport_kind
  assumes "length images = 5" and "\<forall>n \<in> set [1, 2, 3, 4, 5]. image_fits (ProfileId n) (images ! (unat n - 1))"
  defines "slot \<equiv> \<lparr>sl_model = (model_with_images images Wired)\<lparr>sm_transport := transport\<rparr>,
    sl_host_images = reference_images (model_with_images images Wired) [1, 2, 3, 4, 5] []\<rparr>"
  shows "slot_ok transport slot" and "wf_profile p \<Longrightarrow> images_of slot p = images ! (unat (profile_get p) - 1)"
proof -
  have read: "model_read_profile (model_with_images images Wired) n = Inr (images ! (unat n - 1))"
    if "n \<in> set [1, 2, 3, 4, 5]" for n
  proof -
    have "wf_profile (ProfileId n)" using that by (auto simp: wf_profile_def)
    then show ?thesis by (simp add: model_read_profile_def model_with_images_def)
  qed
  have host: "bt_get (sl_host_images slot) n = Some (images ! (unat n - 1))" if "n \<in> set [1, 2, 3, 4, 5]" for n
    using reference_images_get [of "[1, 2, 3, 4, 5]" _ "\<lambda>n. images ! (unat n - 1)", OF read] that
    by (simp add: slot_def)
  have img: "images_of slot p = images ! (unat (profile_get p) - 1)" for p
    by (simp add: images_of_def slot_def model_with_images_def)
  then show "wf_profile p \<Longrightarrow> images_of slot p = images ! (unat (profile_get p) - 1)" by simp
  have "image_fits p (images_of slot p) \<and> bt_get (sl_host_images slot) (profile_get p) = Some (images_of slot p)"
    if "wf_profile p" for p
  proof -
    from wf_profile_cases [OF that] obtain n where n: "n \<in> set [1, 2, 3, 4, 5]" "p = ProfileId n" by blast
    from assms(2) [THEN bspec, OF n(1)] host [OF n(1)] img [of p] show ?thesis by (simp add: n(2))
  qed
  then show "slot_ok transport slot"
    using assms(1) by (simp add: slot_ok_def)
      (simp add: slot_def model_with_images_def wf_profile_def PROFILE_MIN_def)
qed

lemma preset_lengths: "length stock_images = 5" "length tuned_images = 5"
  by (simp_all add: stock_images_def tuned_images_def Let_def)

lemma sim_model_slot_fresh:
  assumes "sim_model_slot preset transport slots = (Inr key, slots')" and "slots (preset, transport) = None"
  shows "\<exists>slot. slots' = slots(key \<mapsto> slot) \<and> slot_ok transport slot
    \<and> (\<forall>p. wf_profile p \<longrightarrow> images_of slot p = preset_images preset p)"
proof (cases "preset = rstr ''stock''")
  case True
  with assms fresh_slot [OF preset_lengths(1) stock_image_fits, where transport = transport] show ?thesis
    by (auto simp: sim_model_slot_def model_load_def preset_images_def Let_def) 
      (auto simp: model_with_images_def)
next
  case False
  with assms have "preset = rstr ''tuned''"
    by (auto simp: sim_model_slot_def model_load_def Let_def split: if_splits)
  with False assms fresh_slot [OF preset_lengths(2) tuned_image_fits, where transport = transport] show ?thesis
    by (auto simp: sim_model_slot_def model_load_def preset_images_def Let_def) 
      (auto simp: model_with_images_def)
qed

section \<open>Reads\<close>

text \<open>The snapshot a simulated mouse presents: the image with the watermark of its token, and the
  active profile in a full range.\<close>

definition presented :: "(packet \<Rightarrow> u32) \<Rightarrow> physical_id \<Rightarrow> sim_slot \<Rightarrow> profile_id \<Rightarrow> profile_snapshot" where
  "presented crc token slot p =
     (case overlay_image crc token (images_of slot p) of (d, pr, b) \<Rightarrow>
        \<lparr>snap_persistent_metadata =
           \<lparr>meta_current = sm_active_profile (sl_model slot), meta_maximum = ProfileId PROFILE_MAX\<rparr>,
         snap_target_profile = p, snap_dpi = d, snap_preferences = pr, snap_buttons = b\<rparr>)"

lemma sim_model_reads:
  assumes "slots key = Some slot" and "slot_ok transport slot" and "wf_profile p"
  shows "ss_read_profile (sim_model_session crc key transport token) p slots =
    (if transport = Ble then Inl (UnsupportedOperation ''read_profile'' Ble) else Inr (presented crc token slot p),
     slots)"
proof -
  have same: "slots(key \<mapsto> slot) = slots" using assms(1) by (simp add: fun_upd_idem)
  have read: "model_read_profile (sl_model slot) (profile_get p)
      = (if transport = Ble then Inl (GapBleRead (profile_get p)) else Inr (images_of slot p))"
    using assms(2) by (simp add: model_read_profile_def images_of_def slot_ok_def profile_try_from_get [OF assms(3)])
  have "metadata_new (sm_active_profile (sl_model slot)) (ProfileId PROFILE_MAX)
      = Inr \<lparr>meta_current = sm_active_profile (sl_model slot), meta_maximum = ProfileId PROFILE_MAX\<rparr>"
    using assms(2) by (simp add: slot_ok_def wf_profile_def PROFILE_MAX_def)
  then have meta: "model_metadata slot
      = (Inr \<lparr>meta_current = sm_active_profile (sl_model slot), meta_maximum = ProfileId PROFILE_MAX\<rparr>, slot)"
    by (simp add: model_metadata_def)
  obtain d pr b where img: "images_of slot p = (d, pr, b)" by (metis prod_cases3)
  show ?thesis
    by (simp add: sim_model_session_def with_slot_def thenp_def okp_def assms(1) model_image_def read same meta img
        sim_gap_error_def overlay_image_def presented_def)
qed

section \<open>The battery\<close>

text \<open>The n-th accepted write of a fresh mouse takes one percent when n is a multiple of ten.\<close>

lemma record_sim_write_ten:
  assumes "sm_writes_per_percent m = 10"
  shows "record_sim_write m = (if (sm_writes m + 1) mod 10 = 0
    then m\<lparr>sm_writes := sm_writes m + 1,
      sm_battery := map_option (\<lambda>level. if level = 0 then 0 else level - 1) (sm_battery m)\<rparr>
    else m\<lparr>sm_writes := sm_writes m + 1\<rparr>)"
proof -
  have ten: "((10 :: u32) = 0) = False" "(ucast (10 :: u32) :: u64) = 10" by code_simp+
  have "sm_writes_per_percent (m\<lparr>sm_writes := sm_writes m + 1\<rparr>) = 10" using assms by simp
  then show ?thesis
    unfolding record_sim_write_def Let_def by (simp only: ten if_False) (cases m, simp)
qed

lemma battery_step:
  assumes "Suc n < 2 ^ 64" and "sm_writes m = of_nat n" and "sm_writes_per_percent m = 10"
    and "sm_battery m = Some (of_nat (100 - n div 10))"
  shows "sm_writes (record_sim_write m) = of_nat (Suc n) \<and> sm_writes_per_percent (record_sim_write m) = 10
    \<and> sm_battery (record_sim_write m) = Some (of_nat (100 - Suc n div 10))"
proof -
  have "unat (of_nat (Suc n) mod 10 :: u64) = Suc n mod 10"
    using assms(1) by (simp add: unat_mod unsigned_of_nat take_bit_nat_eq_self del: of_nat_Suc)
  then have "(of_nat (Suc n) :: u64) mod 10 = 0 \<longleftrightarrow> Suc n mod 10 = 0"
    by (metis unat_0 unat_eq_zero)
  note turn = this
  have count: "sm_writes m + 1 = of_nat (Suc n)" by (simp add: assms(2))
  have step: "(if of_nat k = (0 :: u8) then 0 else of_nat k - 1) = (of_nat (k - 1) :: u8)" if "k \<le> 100" for k
  proof (cases k)
    case (Suc j)
    then have "(of_nat (Suc j) :: u8) \<noteq> 0"
      using that by (simp add: word_unat_eq_iff unsigned_of_nat take_bit_nat_eq_self del: of_nat_Suc)
    then show ?thesis using Suc by simp
  qed simp
  have battery: "map_option (\<lambda>level. if level = 0 then 0 else level - 1) (sm_battery m)
      = Some (of_nat (100 - n div 10 - 1))"
    unfolding assms(4) option.map using step [of "100 - n div 10"] by simp
  show ?thesis
  proof (cases "Suc n mod 10 = 0")
    case True
    then have "100 - Suc n div 10 = 100 - n div 10 - 1" by (simp add: div_Suc)
    with True turn show ?thesis
      unfolding record_sim_write_ten [OF assms(3)] count battery by (simp del: of_nat_Suc add: assms(3))
  next
    case False
    then have "Suc n div 10 = n div 10" by (simp add: div_Suc)
    with False turn show ?thesis
      unfolding record_sim_write_ten [OF assms(3)] count by (simp del: of_nat_Suc add: assms(3,4))
  qed
qed

lemma battery_after:
  assumes "n < 2 ^ 64" and "sm_writes m = 0" and "sm_writes_per_percent m = 10" and "sm_battery m = Some 100"
  shows "sm_writes ((record_sim_write ^^ n) m) = of_nat n
    \<and> sm_writes_per_percent ((record_sim_write ^^ n) m) = 10
    \<and> sm_battery ((record_sim_write ^^ n) m) = Some (of_nat (100 - n div 10))"
  using assms(1)
proof (induction n)
  case 0
  show ?case using assms(2-4) by simp
next
  case (Suc n)
  then have "n < 2 ^ 64" by simp
  with Suc.IH battery_step [OF Suc.prems, of "(record_sim_write ^^ n) m"] show ?case
    by (simp del: of_nat_Suc)
qed

end
