(* ===== verification/X3_Sim_Ends.thy ===== *)
theory X3_Sim_Ends
  imports X3_Sim_Facts
begin

text \<open>
  The registered endpoints of simulated mice, their identities, and the text of a scenario: lemmas and
  the properties of the simulation.
\<close>

section \<open>Locators\<close>

lemma digits_no_colon: "58 \<notin> set (rstr (show_nat n))"
  using ascii_digit_show [of n] by (auto simp: list_all_iff ascii_digit_def)

lemma show_not_Nil: "rstr (show_nat n) \<noteq> []"
  by (simp add: rstr_def)

lemma spec_tag_plain: "58 \<notin> set (spec_tag spec)" "spec_tag spec \<noteq> []"
  by (cases spec; simp add: SIM_REPLAY_TAG_def SIM_MODEL_TAG_def rstr_def)+

lemma takeWhile_stop: "c \<notin> set xs \<Longrightarrow> takeWhile (\<lambda>x. x \<noteq> c) (xs @ c # ys) = xs"
  by (induction xs) auto

lemma sim_locator_parts:
  "take 4 (sim_locator tag index) = rstr ''sim:''"
  "drop 4 (sim_locator tag index) = tag @ 58 # rstr (show_nat index)"
  by (simp_all add: sim_locator_def rstr_def)

lemma sim_locator_trim: "trim (sim_locator tag index) = sim_locator tag index"
  and sim_locator_not_blank: "\<not> blank (sim_locator tag index)"
proof -
  have hd: "hd (sim_locator tag index) = 115" and ne: "sim_locator tag index \<noteq> []"
    by (simp_all add: sim_locator_def rstr_def)
  have "last (sim_locator tag index) = last (rstr (show_nat index))"
    using show_not_Nil by (simp add: sim_locator_def)
  moreover have "ascii_digit (last (rstr (show_nat index)))"
    using ascii_digit_show [of index] show_not_Nil [of index] by (simp add: list_all_iff)
  ultimately have "\<not> is_whitespace (last (sim_locator tag index))"
    by (auto simp: ascii_digit_def is_whitespace_def)
  then show trim: "trim (sim_locator tag index) = sim_locator tag index"
    by (intro trim_eq_self ne) (simp_all add: hd is_whitespace_def)
  show "\<not> blank (sim_locator tag index)" using ne trim by (simp add: blank_def)
qed

lemma parse_small_show: "n < bound \<Longrightarrow> parse_small bound (rstr (show_nat n)) = Some n"
proof -
  assume "n < bound"
  have "hd (rstr (show_nat n)) \<noteq> 43" and d: "list_all ascii_digit (rstr (show_nat n))"
    using ascii_digit_show [of n] show_not_Nil [of n]
    by (cases "rstr (show_nat n)"; simp add: ascii_digit_def)+
  then have digits: "(case rstr (show_nat n) of [] \<Rightarrow> [] | c # cs \<Rightarrow> if c = 43 then cs else rstr (show_nat n))
      = rstr (show_nat n)"
    by (cases "rstr (show_nat n)") simp_all
  show ?thesis
    unfolding parse_small_def digits Let_def using d show_not_Nil \<open>n < bound\<close> by simp
qed

lemma sim_endpoint_Ok:
  assumes "sim_endpoint spec multiple index transport = Inr e"
  shows "locator_text (ep_locator e) = sim_locator (spec_tag spec) index" and "ep_transport e = transport"
  using assms sim_locator_not_blank sim_locator_trim
  by (cases transport; auto simp: sim_endpoint_def endpoint_usb_def endpoint_ble_def Let_def locator_text_def blank_def
      split: if_splits)+

lemma sim_endpoint_total: "\<exists>e. sim_endpoint spec multiple index transport = Inr e"
proof -
  have "sim_locator (spec_tag spec) index \<noteq> []" by (simp add: sim_locator_def rstr_def)
  then show ?thesis
    using sim_locator_not_blank [of "spec_tag spec" index] sim_locator_trim [of "spec_tag spec" index]
    by (cases transport) (simp_all add: sim_endpoint_def endpoint_usb_def endpoint_ble_def Let_def)
qed

lemma sim_endpoint_reads:
  assumes "locator_text (ep_locator e) = sim_locator (spec_tag spec) index"
  shows "sim_tag_for_endpoint e = Some (spec_tag spec)"
    and "index < 2 ^ 64 \<Longrightarrow> sim_locator_index e = Some index"
proof -
  note tag = spec_tag_plain [of spec] and stop = takeWhile_stop [OF digits_no_colon]
  from tag show "sim_tag_for_endpoint e = Some (spec_tag spec)"
    by (simp add: sim_tag_for_endpoint_def assms sim_locator_parts takeWhile_stop Let_def)
  have "takeWhile (\<lambda>c. c \<noteq> 58) (rev (rstr (show_nat index)) @ 58 # rev (spec_tag spec)) = rev (rstr (show_nat index))"
    by (rule takeWhile_stop) (simp add: digits_no_colon)
  then show "sim_locator_index e = Some index" if "index < 2 ^ 64"
    using parse_small_show [OF that] by (simp add: sim_locator_index_def assms sim_locator_parts Let_def)
qed

lemma list_all2_source: "list_all2 P xs ys \<Longrightarrow> y \<in> set ys \<Longrightarrow> \<exists>x \<in> set xs. P x y"
  by (induction rule: list_all2_induct) auto

text \<open>What registration lists.\<close>

lemma sim_endpoints_listed:
  assumes "sim_endpoints_for_spec files (Some spec) selection = Inr found" and "d \<in> set found"
    and "spec_transports files spec = Inr transports"
  obtains index where "index < length transports"
    and "locator_text (ep_locator (disc_endpoint d)) = sim_locator (spec_tag spec) index"
    and "ep_transport (disc_endpoint d) = transports ! index" and "disc_connected d"
    and "\<And>t. selection = ExactSelection t \<Longrightarrow> transports ! index = t"
proof -
  let ?wanted = "\<lambda>t. case selection of AutoSelection \<Rightarrow> True | ExactSelection exact \<Rightarrow> exact = t"
  let ?f = "\<lambda>(index, transport). tryq (map_err device_failure (sim_endpoint spec (1 < length transports) index transport))
      (\<lambda>endpoint. Inr \<lparr>disc_endpoint = endpoint, disc_connected = True\<rparr>)"
  let ?rows = "filter (\<lambda>(index, transport). ?wanted transport) (enumerate 0 transports)"
  have "collect_results ?f ?rows = Inr found"
    using assms(1,3) by (simp add: sim_endpoints_for_spec_def Let_def)
  from collect_results_all2 [OF this] assms(2) obtain x where x: "x \<in> set ?rows" "?f x = Inr d"
    by (blast dest: list_all2_source)
  obtain index transport where it: "x = (index, transport)" by (cases x)
  from x(1) have row: "index < length transports" "transports ! index = transport" "?wanted transport"
    by (auto simp: it in_set_enumerate_eq)
  from x(2) obtain e where e: "sim_endpoint spec (1 < length transports) index transport = Inr e"
      and d: "d = \<lparr>disc_endpoint = e, disc_connected = True\<rparr>"
    by (cases "sim_endpoint spec (1 < length transports) index transport") (auto simp: it)
  show thesis
    by (rule that [OF row(1)]) (use sim_endpoint_Ok [OF e] row(2,3) in \<open>auto simp: d\<close>)
qed

section \<open>Identities\<close>

definition ascii_name :: "rstring \<Rightarrow> bool" where
  "ascii_name name \<longleftrightarrow> list_all (\<lambda>c. 0 < c \<and> c < 128) name"

lemma ascii_bytes: "ascii_name name \<Longrightarrow> concat (map utf8_bytes name) = map of_nat name"
  by (induction name) (auto simp: ascii_name_def utf8_bytes_def)

lemma ascii_bytes_inject:
  assumes "ascii_name a" and "ascii_name b" and "map of_nat a = (map of_nat b :: packet)"
  shows "a = b"
proof -
  have "map unat (map of_nat x :: packet) = x" if "ascii_name x" for x
    using that by (induction x) (auto simp: ascii_name_def unsigned_of_nat take_bit_nat_eq_self)
  with assms show ?thesis by metis
qed

lemma sim_token_short:
  assumes "length bytes \<le> 11" and "concat (map utf8_bytes name) = bytes"
  shows "sim_token_for name index =
    PhysicalId ([0x53, 0x49, 0x4d, 0x3a] @ (bytes @ replicate (11 - length bytes) 0) @ [of_nat index])"
proof -
  have pad: "drop (length bytes) (replicate 12 (0 :: u8)) = replicate (11 - length bytes) 0 @ [0]"
  proof -
    have "12 - length bytes = Suc (11 - length bytes)" using assms(1) by simp
    then show ?thesis by (simp add: replicate_append_same)
  qed
  have drop4: "drop (4 + n) (a # b # c # d # ys) = drop n ys" for n a b c d and ys :: packet
    by (simp add: numeral_eq_Suc)
  have "write_at 4 bytes ([0x53, 0x49, 0x4d, 0x3a] @ replicate 12 0)
      = ([0x53, 0x49, 0x4d, 0x3a] @ bytes @ replicate (11 - length bytes) 0) @ [0 :: u8]"
    using pad drop4 by (simp add: write_at_def)
  moreover have "length ([0x53, 0x49, 0x4d, 0x3a] @ bytes @ replicate (11 - length bytes) (0 :: u8)) = 15"
    using assms(1) by simp
  ultimately show ?thesis
    using assms by (simp add: sim_token_for_def Let_def list_update_append)
qed

lemma padded_inject:
  assumes "0 \<notin> set a" and "0 \<notin> set b" and "a @ replicate m 0 = b @ replicate n (0 :: 'a :: zero)"
  shows "a = b"
proof -
  have "takeWhile (\<lambda>x. x \<noteq> 0) (c @ replicate k 0) = c" if "0 \<notin> set c" for c :: "'a list" and k
    using that by (induction c) (cases k, auto)
  with assms show ?thesis by metis
qed

lemma sim_token_distinct:
  assumes "ascii_name a" and "ascii_name b" and "length a \<le> 11" and "length b \<le> 11" and "i < 256" and "j < 256"
  shows "sim_token_for a i = sim_token_for b j \<longleftrightarrow> a = b \<and> i = j"
proof
  assume eq: "sim_token_for a i = sim_token_for b j"
  let ?a = "map of_nat a :: packet" and ?b = "map of_nat b :: packet"
  note ta = sim_token_short [OF _ ascii_bytes [OF assms(1)], of i] and tb = sim_token_short [OF _ ascii_bytes [OF assms(2)], of j]
  have "?a @ replicate (11 - length a) 0 = ?b @ replicate (11 - length b) 0" and ij: "(of_nat i :: u8) = of_nat j"
    using eq ta tb assms(3,4) by auto
  moreover have "0 \<notin> set (map of_nat x :: packet)" if "ascii_name x" for x
    using that by (auto simp: ascii_name_def list_all_iff unsigned_of_nat take_bit_nat_eq_self word_unat_eq_iff)
  ultimately have "?a = ?b" using padded_inject [of ?a ?b] assms(1,2) by blast
  with ascii_bytes_inject [OF assms(1,2)] have "a = b" by simp
  moreover from ij have "i = j"
    using assms(5,6) by (simp add: word_unat_eq_iff unsigned_of_nat take_bit_nat_eq_self)
  ultimately show "a = b \<and> i = j" by simp
qed simp

section \<open>The hexadecimal tail\<close>

lemma split_at_byte_ascii:
  "list_all (\<lambda>c. c < 128) s \<Longrightarrow> n \<le> length s \<Longrightarrow> split_at_byte n s = Some (take n s, drop n s)"
proof (induction s arbitrary: n)
  case (Cons c s)
  then show ?case by (cases n) (simp_all add: utf8_len_def)
qed simp

lemma byte_slice_ascii:
  assumes "list_all (\<lambda>c. c < 128) s" and "i \<le> j" and "j \<le> length s"
  shows "byte_slice i j s = Some (take (j - i) (drop i s))"
proof -
  have "list_all (\<lambda>c. c < 128) (drop i s)"
    using assms(1) by (auto simp: list_all_iff dest: in_set_dropD)
  moreover have "j - i \<le> length (drop i s)" using assms(2,3) by simp
  ultimately have "split_at_byte (j - i) (drop i s) = Some (take (j - i) (drop i s), drop (j - i) (drop i s))"
    by (rule split_at_byte_ascii)
  moreover have "split_at_byte i s = Some (take i s, drop i s)"
    using assms by (intro split_at_byte_ascii) simp_all
  ultimately show ?thesis unfolding byte_slice_def by simp
qed

lemma hex_digit_char:
  assumes "n < 16"
  shows "hex_digit_value (of_char (digit_char n)) = Some n" and "(of_char (digit_char n) :: nat) \<noteq> 43"
    and "(of_char (digit_char n) :: nat) < 128"
proof -
  have "\<forall>n \<in> set [0..<16]. hex_digit_value (of_char (digit_char n)) = Some n
      \<and> (of_char (digit_char n) :: nat) \<noteq> 43 \<and> (of_char (digit_char n) :: nat) < 128"
    by code_simp
  with assms show "hex_digit_value (of_char (digit_char n)) = Some n" "(of_char (digit_char n) :: nat) \<noteq> 43"
    "(of_char (digit_char n) :: nat) < 128"
    by simp_all
qed

lemma u8_digits: "unat (b :: u8) div 16 < 16" "unat (b :: u8) mod 16 < 16"
  using unat_u8_less [of b] by simp_all

lemma hex_pair: "hex_byte_value (rstr (show_hex2 b)) = Some b"
  using hex_digit_char [OF u8_digits(1) [of b]] hex_digit_char [OF u8_digits(2) [of b]]
  by (simp add: hex_byte_value_def rstr_def show_hex2_def flip: of_nat_mult of_nat_add)

lemma hex_ascii: "list_all (\<lambda>c. c < 128) (rstr (show_hex2 b))" "length (rstr (show_hex2 b)) = 2"
  using hex_digit_char(3) [OF u8_digits(1) [of b]] hex_digit_char(3) [OF u8_digits(2) [of b]]
  by (simp_all add: rstr_def show_hex2_def)

definition hex_text :: "packet \<Rightarrow> rstring" where
  "hex_text p = concat (map (\<lambda>b. rstr (show_hex2 b)) p)"

lemma hex_text_ascii: "list_all (\<lambda>c. c < 128) (hex_text p)" "length (hex_text p) = 2 * length p"
  by (induction p) (simp_all add: hex_text_def hex_ascii)

lemma byte_len_ascii: "list_all (\<lambda>c. c < 128) s \<Longrightarrow> byte_len s = length s"
  by (induction s) (simp_all add: byte_len_def utf8_len_def)

lemma hex_text_pair: "i < length p \<Longrightarrow> take 2 (drop (2 * i) (hex_text p)) = rstr (show_hex2 (p ! i))"
proof (induction p arbitrary: i)
  case (Cons b p)
  then show ?case by (cases i) (simp_all add: hex_text_def hex_ascii)
qed simp

lemma collect_results_nth: "(\<And>i. i < n \<Longrightarrow> f i = Inr (p ! i)) \<Longrightarrow> length p = n \<Longrightarrow> collect_results f [0..<n] = Inr p"
proof -
  assume f: "\<And>i. i < n \<Longrightarrow> f i = Inr (p ! i)" and "length p = n"
  have "collect_results f xs = Inr (map ((!) p) xs)" if "\<forall>i \<in> set xs. i < n" for xs
    using that f by (induction xs) auto
  then show ?thesis using \<open>length p = n\<close> map_nth [of p] by simp
qed

lemma parse_hex_text:
  assumes "length p = 25"
  shows "parse_hex_bytes (hex_text p) = Inr p"
proof -
  have "byte_slice (i * 2) (i * 2 + 2) (hex_text p) = Some (rstr (show_hex2 (p ! i)))" if "i < 25" for i
    using that hex_text_pair [of i p] assms hex_text_ascii [of p]
    by (simp add: byte_slice_ascii mult.commute)
  then have "collect_results (\<lambda>i. case byte_slice (i * 2) (i * 2 + 2) (hex_text p) of
        None \<Rightarrow> Inl (GapPanic ''byte index is not a char boundary'')
      | Some pair \<Rightarrow> ok_or (GapHexByte i) (hex_byte_value pair)) [0..<25] = Inr p"
    by (intro collect_results_nth assms) (simp add: hex_pair)
  then show ?thesis
    using assms by (simp add: parse_hex_bytes_def byte_len_ascii hex_text_ascii WATERMARK_LENGTH_def del: upt_rec_numeral)
qed

section \<open>Properties\<close>

text \<open>C35: An in-memory mouse is five images: after any sequence of writes of DPI settings, preferences and
  button tables, over any transport and with either verification, every profile holds its image before
  with each resource replaced by the last accepted write of it, where exactly the DPI settings with an
  invalid stage selection are refused. The image the host merges the next write into is the one the
  mouse holds, also over Bluetooth, where reads are refused; otherwise a read presents that image.\<close>

theorem sim_mouse_refines_images:
  assumes "slots key = Some slot" and "slot_ok transport slot" and "\<forall>r \<in> set rs. wf_profile (req_profile r)"
  shows "\<exists>slot'. session_requests (sim_model_session crc key transport token) v rs slots = slots(key \<mapsto> slot')
    \<and> slot_ok transport slot'
    \<and> (\<forall>p. wf_profile p \<longrightarrow> images_of slot' p = fold req_apply rs (images_of slot) p
         \<and> ss_read_profile (sim_model_session crc key transport token) p (slots(key \<mapsto> slot')) =
             (if transport = Ble then Inl (UnsupportedOperation ''read_profile'' Ble)
              else Inr (presented crc token slot' p), slots(key \<mapsto> slot')))"
proof -
  from session_requests_refine [where key = key and crc = crc and token = token and v = v and slots = slots and slot = slot,
      OF assms] obtain slot' where
    run: "session_requests (sim_model_session crc key transport token) v rs slots = slots(key \<mapsto> slot')"
      "slot_ok transport slot'" "\<forall>p. wf_profile p \<longrightarrow> images_of slot' p = fold req_apply rs (images_of slot) p"
    by blast
  have "(slots(key \<mapsto> slot')) key = Some slot'" by simp
  from sim_model_reads [where slots = "slots(key \<mapsto> slot')" and slot = slot' and key = key, OF this run(2)] run
  show ?thesis by blast
qed

text \<open>Every endpoint that a value of \<open>X3_SIM\<close> registers opens under the same value: the locator leads
  back to the backend and the entry of the scenario it was registered for, the session has the
  transport of the endpoint, and only endpoints of the selected transport are registered.\<close>

theorem registered_endpoints_open:
  assumes "sim_endpoints_for_spec files (Some spec) selection = Inr found" and "d \<in> set found"
    and "spec_transports files spec = Inr transports" and "length transports \<le> 2 ^ 64"
  shows "\<exists>session slots'. open_sim_session_for_spec crc files (Some spec) (disc_endpoint d) slots
      = (Inr (Some session), slots')
    \<and> ss_transport session = ep_transport (disc_endpoint d)
    \<and> (selection = AutoSelection \<or> selection = ExactSelection (ep_transport (disc_endpoint d)))"
proof -
  obtain index where i: "index < length transports"
      "locator_text (ep_locator (disc_endpoint d)) = sim_locator (spec_tag spec) index"
      "ep_transport (disc_endpoint d) = transports ! index"
    and sel: "\<And>t. selection = ExactSelection t \<Longrightarrow> transports ! index = t"
    by (rule sim_endpoints_listed [OF assms(1-3)]) blast
  have small: "index < 2 ^ 64" using i(1) assms(4) by simp
  note reads = sim_endpoint_reads [OF i(2)]
  have tag: "is_sim_endpoint (disc_endpoint d)" "unwrap_or [] (sim_tag_for_endpoint (disc_endpoint d)) = spec_tag spec"
      "sim_locator_index (disc_endpoint d) = Some index"
    using reads small by (simp_all add: is_sim_endpoint_def unwrap_or_def)
  have "selection = AutoSelection \<or> selection = ExactSelection (ep_transport (disc_endpoint d))"
    using sel i(3) by (cases selection) auto
  moreover have "\<exists>session slots'. open_sim_session_for_spec crc files (Some spec) (disc_endpoint d) slots
      = (Inr (Some session), slots') \<and> ss_transport session = ep_transport (disc_endpoint d)"
  proof (cases spec)
    case (SpecReplay scenario)
    with assms(3) obtain path loaded where load: "resolve_scenario_path files scenario = Inr path"
        "load_scenario files path = Inr loaded" "transports = scn_endpoints loaded"
      by (auto simp: replay_endpoint_transports_def)
    with i(1,3) have "\<exists>rp. replay_load_endpoint files scenario index = Inr rp
        \<and> rp_transport rp = ep_transport (disc_endpoint d)"
      by (simp add: replay_load_endpoint_def replay_from_scenario_def Let_def)
    with tag SpecReplay show ?thesis
      by (auto simp: open_sim_session_for_spec_def sim_replay_session_def okp_def thenp_def liftp_def ok_or_def)
  next
    case (SpecModel preset)
    with assms(3) have "preset = rstr ''stock'' \<or> preset = rstr ''tuned''"
      by (simp add: model_endpoint_transports_def split: if_splits)
    then have "\<exists>reference. model_load preset = Inr reference"
      by (cases "preset = rstr ''stock''") (simp_all add: model_load_def)
    then obtain reference where "model_load preset = Inr reference" by blast
    then have "\<exists>slots'. sim_model_slot preset t slots = (Inr (preset, t), slots')" for t
      by (cases "slots (preset, t)") (auto simp: sim_model_slot_def Let_def)
    then obtain slots' where
      "sim_model_slot preset (ep_transport (disc_endpoint d)) slots = (Inr (preset, ep_transport (disc_endpoint d)), slots')"
      by blast
    with tag SpecModel show ?thesis
      by (auto simp: open_sim_session_for_spec_def sim_model_session_def okp_def thenp_def liftp_def ok_or_def)
  qed
  ultimately show ?thesis by blast
qed

text \<open>The identities of simulated mice with names of at most eleven ASCII characters and indices below
  256 are distinct for distinct names or indices; a longer name counts with its first eleven bytes
  only, so that two scenario files in one directory can present the same identity.\<close>

theorem sim_tokens_distinct:
  assumes "ascii_name a" and "ascii_name b" and "length a \<le> 11" and "length b \<le> 11" and "i < 256" and "j < 256"
  shows "(sim_token_for a i = sim_token_for b j \<longleftrightarrow> a = b \<and> i = j)
    \<and> sim_token_for (rstr ''scenarios/a.toml'') 0 = sim_token_for (rstr ''scenarios/ab.toml'') 0"
  using sim_token_distinct [OF assms] by (intro conjI) (assumption, code_simp)

text \<open>The tail of a recorded DPI image is read back as it is written: 25 bytes in lowercase
  hexadecimal. A tail of 50 bytes of text that has a character of two bytes at an odd position makes the
  loader panic, and a plus sign passes for the first digit of a byte.\<close>

theorem scenario_tail_text:
  assumes "length p = 25"
  shows "parse_hex_bytes (hex_text p) = Inr p
    \<and> parse_hex_bytes (48 # 233 # replicate 47 48) = Inl (GapPanic ''byte index is not a char boundary'')
    \<and> parse_hex_bytes (rstr ''+f'' @ replicate 48 48) = Inr (0x0f # replicate 24 0)"
  using parse_hex_text [OF assms] by (intro conjI) (assumption, code_simp, code_simp)

section \<open>Witnesses\<close>

lemma sim_mouse_refines_images_witness:
  "\<exists>slot slot'. sim_model_slot (rstr ''stock'') Ble Map.empty = (Inr (rstr ''stock'', Ble), [(rstr ''stock'', Ble) \<mapsto> slot])
    \<and> session_requests (sim_model_session (\<lambda>_. 0) (rstr ''stock'', Ble) Ble (sim_token_for (rstr ''stock'') 0)) TransportAck
        [ReqPreferences (preferences_new (ProfileId 2) 1 2 3 (4, 5, 6) 7 8)] [(rstr ''stock'', Ble) \<mapsto> slot]
      = [(rstr ''stock'', Ble) \<mapsto> slot']
    \<and> fst (snd (images_of slot' (ProfileId 2))) = preferences_new (ProfileId 2) 1 2 3 (4, 5, 6) 7 8"
proof -
  let ?key = "(rstr ''stock'', Ble)" and ?p = "preferences_new (ProfileId 2) 1 2 3 (4, 5, 6) 7 8"
  let ?token = "sim_token_for (rstr ''stock'') 0"
  obtain slots where "sim_model_slot (rstr ''stock'') Ble Map.empty = (Inr ?key, slots)"
    by (simp add: sim_model_slot_def model_load_def Let_def)
  with sim_model_slot_fresh [OF this] obtain slot where
    fresh: "sim_model_slot (rstr ''stock'') Ble Map.empty = (Inr ?key, [?key \<mapsto> slot])" "slot_ok Ble slot"
    by auto
  have "([?key \<mapsto> slot]) ?key = Some slot" and wf: "\<forall>r \<in> set [ReqPreferences ?p]. wf_profile (req_profile r)"
    by (simp_all add: preferences_new_def wf_profile_def)
  from sim_mouse_refines_images [where slots = "[?key \<mapsto> slot]" and slot = slot and crc = "\<lambda>_. 0" and token = ?token
      and v = TransportAck, OF this(1) fresh(2) wf]
  obtain slot' where run: "session_requests (sim_model_session (\<lambda>_. 0) ?key Ble ?token) TransportAck
      [ReqPreferences ?p] [?key \<mapsto> slot] = [?key \<mapsto> slot, ?key \<mapsto> slot']"
    and img: "\<forall>p. wf_profile p \<longrightarrow> images_of slot' p = fold req_apply [ReqPreferences ?p] (images_of slot) p"
    by blast
  have "wf_profile (ProfileId 2)" by (simp add: wf_profile_def)
  with img have "fst (snd (images_of slot' (ProfileId 2))) = ?p"
    by (cases "images_of slot (ProfileId 2)") (simp add: req_apply_def preferences_new_def)
  with fresh(1) run show ?thesis by (intro exI [of _ slot] exI [of _ slot']) simp
qed

definition no_files :: sim_files where
  "no_files = \<lparr>xf_read = (\<lambda>_. Inl ''not found''), xf_toml = (\<lambda>_. None), xf_is_file = (\<lambda>_. False), xf_fixture = id\<rparr>"

lemma registered_endpoints_open_witness:
  "\<exists>d session slots'. sim_endpoints_for_spec no_files (Some (SpecModel (rstr ''tuned''))) AutoSelection = Inr [d]
    \<and> open_sim_session_for_spec (\<lambda>_. 0) no_files (Some (SpecModel (rstr ''tuned''))) (disc_endpoint d) Map.empty
        = (Inr (Some session), slots') \<and> ss_transport session = Wired"
proof -
  let ?spec = "SpecModel (rstr ''tuned'')"
  have ts: "spec_transports no_files ?spec = Inr [Wired]" by (simp add: model_endpoint_transports_def)
  obtain e where e: "sim_endpoint ?spec False 0 Wired = Inr e" using sim_endpoint_total by blast
  let ?d = "\<lparr>disc_endpoint = e, disc_connected = True\<rparr>"
  have list: "sim_endpoints_for_spec no_files (Some ?spec) AutoSelection = Inr [?d]"
    unfolding sim_endpoints_for_spec_def option.case ts by (simp add: Let_def e)
  from registered_endpoints_open [OF list _ ts, of ?d "\<lambda>_. 0" Map.empty] list sim_endpoint_Ok [OF e]
  show ?thesis by auto
qed

lemma sim_tokens_distinct_witness:
  "sim_token_for (rstr ''stock'') 0 \<noteq> sim_token_for (rstr ''tuned'') 0
    \<and> sim_token_for (rstr ''scenarios/a.toml'') 0 = sim_token_for (rstr ''scenarios/ab.toml'') 0"
  using sim_tokens_distinct [of "rstr ''stock''" "rstr ''tuned''" 0 0]
  by (simp add: rstr_def ascii_name_def)

lemma scenario_tail_text_witness: "parse_hex_bytes (hex_text (replicate 25 0xab)) = Inr (replicate 25 0xab)"
  using scenario_tail_text [of "replicate 25 0xab"] by simp

end
