(* ===== verification/X3_Diagnostics.thy ===== *)
theory X3_Diagnostics
  imports "HOL-Library.Signed_Division" X3_Store_Facts X3_Sim_Session
begin

text \<open>
  The log of the manager (\<^verbatim>\<open>diagnostics.rs\<close>): levels and the gate, the time stamp, redaction
  of endpoints, tokens and payloads, the line format and the rotating file over the file system of the
  store. The wall clock is a parameter \<open>clock\<close>: the seconds since the Unix epoch when the disk is in a
  given state, \<open>None\<close> before the epoch. The counter of bytes written is a natural number: it is a
  64-bit number in the code and reaches its end only after that many bytes.
\<close>

section \<open>Levels\<close>

datatype log_level = LogOff | LogError | LogWarn | LogInfo | LogDebug | LogTrace

fun level_number :: "log_level \<Rightarrow> u8" where
  "level_number LogOff = 0"
| "level_number LogError = 1"
| "level_number LogWarn = 2"
| "level_number LogInfo = 3"
| "level_number LogDebug = 4"
| "level_number LogTrace = 5"

definition to_ascii_lowercase :: "rstring \<Rightarrow> rstring" where
  "to_ascii_lowercase s = map (\<lambda>c. if 65 \<le> c \<and> c \<le> 90 then c + 32 else c) s"

definition level_parse :: "rstring \<Rightarrow> log_level option" where
  "level_parse text =
     (let s = to_ascii_lowercase (trim text)
      in if s = rstr ''off'' \<or> s = rstr ''0'' then Some LogOff
         else if s = rstr ''error'' \<or> s = rstr ''1'' then Some LogError
         else if s = rstr ''warn'' \<or> s = rstr ''2'' then Some LogWarn
         else if s = rstr ''info'' \<or> s = rstr ''3'' then Some LogInfo
         else if s = rstr ''debug'' \<or> s = rstr ''4'' then Some LogDebug
         else if s = rstr ''trace'' \<or> s = rstr ''5'' then Some LogTrace
         else None)"

text \<open>The note is identified by the value it quotes.\<close>

definition level_from_raw :: "rstring option \<Rightarrow> log_level \<times> rstring option" where
  "level_from_raw raw =
     (case raw of
        None \<Rightarrow> (LogOff, None)
      | Some text \<Rightarrow>
          if blank text then (LogOff, None)
          else (case level_parse text of
                  Some level \<Rightarrow> (level, None)
                | None \<Rightarrow> (LogError, Some text)))"

definition level_from_env_with_note :: "env_var \<Rightarrow> log_level \<times> rstring option" where
  "level_from_env_with_note lookup =
     level_from_raw (case lookup of
        EnvPresent raw \<Rightarrow> if blank raw then None else Some raw
      | _ \<Rightarrow> None)"

fun level_name :: "log_level \<Rightarrow> rstring" where
  "level_name LogOff = rstr ''OFF''"
| "level_name LogError = rstr ''ERROR''"
| "level_name LogWarn = rstr ''WARN''"
| "level_name LogInfo = rstr ''INFO''"
| "level_name LogDebug = rstr ''DEBUG''"
| "level_name LogTrace = rstr ''TRACE''"

definition level_enabled :: "log_level \<Rightarrow> log_level \<Rightarrow> bool" where
  "level_enabled gate event \<longleftrightarrow>
     gate \<noteq> LogOff \<and> event \<noteq> LogOff \<and> level_number event \<le> level_number gate"

definition level_from_u8 :: "u8 \<Rightarrow> log_level" where
  "level_from_u8 v =
     (if v = 1 then LogError else if v = 2 then LogWarn else if v = 3 then LogInfo
      else if v = 4 then LogDebug else if v = 5 then LogTrace else LogOff)"

section \<open>Time stamps\<close>

text \<open>\<^verbatim>\<open>i64\<close> arithmetic; the divisions of the code truncate, as \<open>sdiv\<close> does.\<close>

definition days_to_civil :: "int \<Rightarrow> int \<times> u32 \<times> u32" where
  "days_to_civil days =
     (let shifted = days + 719468;
          era = shifted sdiv 146097;
          day_of_era = shifted - era * 146097;
          year_of_era = (day_of_era - day_of_era sdiv 1460 + day_of_era sdiv 36524
                           - day_of_era sdiv 146096) sdiv 365;
          year = year_of_era + era * 400;
          day_of_year = day_of_era - (365 * year_of_era + year_of_era sdiv 4 - year_of_era sdiv 100);
          month_prime = (5 * day_of_year + 2) sdiv 153;
          day = word_of_int (day_of_year - (153 * month_prime + 2) sdiv 5 + 1);
          month = word_of_int (if month_prime < 10 then month_prime + 3 else month_prime - 9)
      in (if (month :: u32) \<le> 2 then year + 1 else year, month, day))"

definition pad_number :: "nat \<Rightarrow> nat \<Rightarrow> rstring" where
  "pad_number w n = (let digits = show_number n in replicate (w - length digits) 48 @ digits)"

definition pad_int :: "nat \<Rightarrow> int \<Rightarrow> rstring" where
  "pad_int w n = (if n < 0 then 45 # pad_number (w - 1) (nat (- n)) else pad_number w (nat n))"

definition format_unix_timestamp :: "u64 \<Rightarrow> rstring" where
  "format_unix_timestamp secs =
     (case days_to_civil (uint (secs div 86400)) of (year, month, day) \<Rightarrow>
        (let clock = secs mod 86400
         in pad_int 4 year @ rstr ''-'' @ pad_number 2 (unat month) @ rstr ''-'' @ pad_number 2 (unat day)
              @ rstr ''T'' @ pad_number 2 (unat (clock div 3600)) @ rstr '':''
              @ pad_number 2 (unat (clock mod 3600 div 60)) @ rstr '':''
              @ pad_number 2 (unat (clock mod 60)) @ rstr ''Z''))"

definition rfc3339_now :: "(disk \<Rightarrow> u64 option) \<Rightarrow> disk \<Rightarrow> rstring" where
  "rfc3339_now clock d = format_unix_timestamp (case clock d of Some secs \<Rightarrow> secs | None \<Rightarrow> 0)"

section \<open>Redaction\<close>

fun transport_debug :: "transport_kind \<Rightarrow> rstring" where
  "transport_debug Wired = rstr ''Wired''"
| "transport_debug Receiver = rstr ''Receiver''"
| "transport_debug Ble = rstr ''Ble''"

definition redact_endpoint_label :: "device_endpoint \<Rightarrow> rstring" where
  "redact_endpoint_label e =
     (let transport = to_ascii_lowercase (transport_debug (ep_transport e))
      in case (ep_vendor_id e, ep_product_id e) of
           (Some vid, Some pid) \<Rightarrow> transport @ rstr '' '' @ show_hex4 vid @ rstr '':'' @ show_hex4 pid
         | _ \<Rightarrow> transport)"

definition hex_bytes :: "packet \<Rightarrow> rstring" where
  "hex_bytes bytes = concat (map (\<lambda>b. rstr (show_hex2 b)) bytes)"

text \<open>\<^verbatim>\<open>String::from_utf8_lossy\<close>: every maximal ill-formed prefix of a sequence becomes one
  replacement character.\<close>

definition continuation :: "u8 \<Rightarrow> bool" where
  "continuation b \<longleftrightarrow> 0x80 \<le> b \<and> b \<le> 0xbf"

definition second_ok :: "u8 \<Rightarrow> u8 \<Rightarrow> bool" where
  "second_ok lead b \<longleftrightarrow>
     (if lead = 0xe0 then 0xa0 \<le> b \<and> b \<le> 0xbf
      else if lead = 0xed then 0x80 \<le> b \<and> b \<le> 0x9f
      else if lead = 0xf0 then 0x90 \<le> b \<and> b \<le> 0xbf
      else if lead = 0xf4 then 0x80 \<le> b \<and> b \<le> 0x8f
      else continuation b)"

definition sequence_length :: "u8 \<Rightarrow> nat" where
  "sequence_length lead =
     (if lead < 0x80 then 1 else if 0xc2 \<le> lead \<and> lead \<le> 0xdf then 2
      else if 0xe0 \<le> lead \<and> lead \<le> 0xef then 3 else if 0xf0 \<le> lead \<and> lead \<le> 0xf4 then 4 else 0)"

definition well_formed_prefix :: "u8 \<Rightarrow> packet \<Rightarrow> packet" where
  "well_formed_prefix lead rest =
     (let n = sequence_length lead - 1
      in case take n rest of
           [] \<Rightarrow> []
         | b # bs \<Rightarrow> if second_ok lead b then b # takeWhile continuation bs else [])"

definition char_of_bytes :: "u8 \<Rightarrow> packet \<Rightarrow> nat" where
  "char_of_bytes lead tail =
     foldl (\<lambda>c b. c * 64 + unat b mod 64)
       (unat lead mod (if length tail = 0 then 128 else 2 ^ (6 - length tail))) tail"

function from_utf8_lossy :: "packet \<Rightarrow> rstring" where
  "from_utf8_lossy [] = []"
| "from_utf8_lossy (b # bs) =
     (let tail = well_formed_prefix b bs
      in (if sequence_length b = Suc (length tail) then char_of_bytes b tail else 0xfffd)
           # from_utf8_lossy (drop (length tail) bs))"
  by pat_completeness auto
termination by (relation "measure length") auto

definition is_control :: "nat \<Rightarrow> bool" where
  "is_control c \<longleftrightarrow> c < 32 \<or> (127 \<le> c \<and> c \<le> 159)"

definition redact_token :: "physical_id \<Rightarrow> log_level \<Rightarrow> rstring" where
  "redact_token token level =
     (let bytes = token_bytes token
      in if level = LogTrace then hex_bytes bytes
         else if take 4 bytes = [0x53, 0x49, 0x4d, 0x3a] then
           rstr ''SIM:'' @ rev (dropWhile is_control (rev (from_utf8_lossy (drop 4 bytes))))
         else rstr ''hw:'' @ rstr (show_hex2 (bytes ! 0)) @ rstr (show_hex2 (bytes ! 1)) @ [0x2026])"

definition redact_bytes :: "packet \<Rightarrow> rstring" where
  "redact_bytes bytes =
     rstr ''len='' @ show_number (length bytes) @ rstr '' hex='' @ hex_bytes (take (min (length bytes) 64) bytes)"

section \<open>Lines\<close>

definition single_line :: "rstring \<Rightarrow> rstring" where
  "single_line text = map (\<lambda>c. if c = 13 \<or> c = 10 then 32 else c) text"

definition format_line :: "(disk \<Rightarrow> u64 option) \<Rightarrow> log_level \<Rightarrow> rstring \<Rightarrow> rstring \<Rightarrow> disk \<Rightarrow> rstring" where
  "format_line clock level target message d =
     rfc3339_now clock d @ rstr '' '' @ level_name level @ rstr '' '' @ single_line target
       @ rstr '': '' @ single_line message"

definition encode_line :: "rstring \<Rightarrow> packet" where
  "encode_line line = concat (map utf8_bytes line) @ [0x0a]"

section \<open>The rotating file\<close>

record rotating_file =
  rf_path :: path
  rf_max_bytes :: nat
  rf_current_size :: nat

definition DEFAULT_MAX_BYTES :: nat where "DEFAULT_MAX_BYTES = 2 * 1024 * 1024"

text \<open>\<^verbatim>\<open>fs::metadata(p)\<close> with its length, \<^verbatim>\<open>exists\<close>, opening with truncation.\<close>

definition fs_length :: "path \<Rightarrow> nat io" where
  "fs_length p = io_call whole (\<lambda>d. (ok_or NotFound (map_option (\<lambda>f. length (df_bytes f)) (file_at p d)), d))"

definition fs_exists :: "path \<Rightarrow> (disk, 'e, bool) prog" where
  "fs_exists p = handlep (fs_length p) (\<lambda>_. okp False) (\<lambda>_. okp True)"

definition fs_create :: "path \<Rightarrow> unit io" where
  "fs_create p = io_call whole (\<lambda>d. (Inr (), put_file p (Some \<lparr>df_bytes = [], df_synced = False\<rparr>) d))"

definition log_append :: "path \<Rightarrow> packet \<Rightarrow> unit io" where
  "log_append p bytes = thenp (fs_open_create p) (\<lambda>_. fs_write_all p bytes)"

definition generation_path :: "path \<Rightarrow> rstring \<Rightarrow> path" where
  "generation_path base suffix = (if base = [] then [suffix] else butlast base @ [last base @ suffix])"

definition rotating_open_sized :: "path \<Rightarrow> nat \<Rightarrow> disk \<Rightarrow> rotating_file \<times> disk" where
  "rotating_open_sized p max_bytes d =
     (let (_, d) = (if path_parent p \<noteq> [] then ignorep fs_touch d else (Inr () :: (io_kind, unit) result, d));
          (r, d) = fs_length p d
      in (\<lparr>rf_path = p, rf_max_bytes = max_bytes,
           rf_current_size = (case r of Inr n \<Rightarrow> n | Inl _ \<Rightarrow> 0)\<rparr>, d))"

definition rotation_banner :: "nat \<Rightarrow> rstring" where
  "rotation_banner max_bytes =
     rstr ''rotated log after exceeding '' @ show_number max_bytes @ rstr '' bytes''"

definition rotation_note :: "path \<Rightarrow> rstring" where
  "rotation_note p = rstr ''log rotation failed; truncated '' @ (if p = [] then [] else last p)"

text \<open>The closure of \<^verbatim>\<open>rotate\<close> (the size of the fresh file is its result), then the whole.\<close>

definition rotate_generations :: "(disk \<Rightarrow> u64 option) \<Rightarrow> rotating_file \<Rightarrow> nat io" where
  "rotate_generations clock rf =
     (let gen1 = generation_path (rf_path rf) (rstr ''.1'');
          gen2 = generation_path (rf_path rf) (rstr ''.2'')
      in thenp (ignorep (fs_remove gen2)) (\<lambda>_.
         thenp (fs_exists gen1) (\<lambda>present.
         thenp (if present then fs_rename gen1 gen2 else okp ()) (\<lambda>_.
         thenp (fs_rename (rf_path rf) gen1) (\<lambda>_.
         thenp (getp (format_line clock LogInfo (rstr ''manager'') (rotation_banner (rf_max_bytes rf)))) (\<lambda>banner.
         thenp (log_append (rf_path rf) (encode_line banner)) (\<lambda>_.
         okp (byte_len banner + 1))))))))"

definition rotate_file :: "(disk \<Rightarrow> u64 option) \<Rightarrow> rotating_file \<Rightarrow> disk \<Rightarrow> rotating_file \<times> disk" where
  "rotate_file clock rf d =
     (case rotate_generations clock rf d of
        (Inr fresh, d) \<Rightarrow> (rf\<lparr>rf_current_size := fresh\<rparr>, d)
      | (Inl _, d) \<Rightarrow>
          (let note = format_line clock LogWarn (rstr ''manager'') (rotation_note (rf_path rf)) d
           in case thenp (fs_create (rf_path rf)) (\<lambda>_. fs_write_all (rf_path rf) (encode_line note)) d of
                (Inr _, d) \<Rightarrow> (rf\<lparr>rf_current_size := byte_len note + 1\<rparr>, d)
              | (Inl _, d) \<Rightarrow> (rf\<lparr>rf_current_size := 0\<rparr>, d)))"

definition append_line :: "(disk \<Rightarrow> u64 option) \<Rightarrow> rotating_file \<Rightarrow> rstring \<Rightarrow> disk \<Rightarrow> rotating_file \<times> disk" where
  "append_line clock rf line d =
     (let bytes = encode_line line
      in case log_append (rf_path rf) bytes d of
           (Inl _, d) \<Rightarrow> (rf, d)
         | (Inr _, d) \<Rightarrow>
             (let rf = rf\<lparr>rf_current_size := rf_current_size rf + length bytes\<rparr>
              in if rf_current_size rf > rf_max_bytes rf then rotate_file clock rf d else (rf, d)))"

section \<open>The process logger\<close>

record logger_config =
  lc_level :: log_level
  lc_file_path :: "path option"
  lc_mirror_stderr :: bool

text \<open>\<open>lg_console\<close>: the lines sent to standard error, newest first.\<close>

record logger =
  lg_initialized :: bool
  lg_level :: u8
  lg_file :: "rotating_file option"
  lg_stderr :: bool
  lg_console :: "rstring list"
  lg_disk :: disk

definition logger_start :: "disk \<Rightarrow> logger" where
  "logger_start d = \<lparr>lg_initialized = False, lg_level = 0, lg_file = None, lg_stderr = False,
     lg_console = [], lg_disk = d\<rparr>"

definition default_gui_log_path :: "(rstring \<Rightarrow> path option) \<Rightarrow> path option" where
  "default_gui_log_path env =
     (case env (rstr ''LOCALAPPDATA'') of
        None \<Rightarrow> None
      | Some local \<Rightarrow> if local = [] then None else Some (local @ [PRODUCT_DIR, rstr ''gui.log'']))"

definition config_from_env_gui :: "env_var \<Rightarrow> (rstring \<Rightarrow> path option) \<Rightarrow> logger_config" where
  "config_from_env_gui x3_log env =
     \<lparr>lc_level = fst (level_from_env_with_note x3_log), lc_file_path = default_gui_log_path env,
      lc_mirror_stderr = False\<rparr>"

definition config_for_cli :: "log_level \<Rightarrow> path option \<Rightarrow> logger_config" where
  "config_for_cli level file = \<lparr>lc_level = level, lc_file_path = file, lc_mirror_stderr = True\<rparr>"

definition current_level :: "logger \<Rightarrow> log_level" where
  "current_level lg = level_from_u8 (lg_level lg)"

definition is_enabled :: "log_level \<Rightarrow> logger \<Rightarrow> bool" where
  "is_enabled level lg = level_enabled (current_level lg) level"

definition append_log :: "(disk \<Rightarrow> u64 option) \<Rightarrow> log_level \<Rightarrow> rstring \<Rightarrow> rstring \<Rightarrow> logger \<Rightarrow> logger" where
  "append_log clock level target message lg =
     (let line = format_line clock level target message (lg_disk lg);
          lg = (case lg_file lg of
                  None \<Rightarrow> lg
                | Some rf \<Rightarrow> (case append_line clock rf line (lg_disk lg) of
                    (rf', d) \<Rightarrow> lg\<lparr>lg_file := Some rf', lg_disk := d\<rparr>))
      in if lg_stderr lg then lg\<lparr>lg_console := line # lg_console lg\<rparr> else lg)"

text \<open>The banner: the value of \<^verbatim>\<open>X3_SIM\<close>, the path of the state file in the notation of the
  platform (\<open>show_path\<close>) and the version of the crate are given.\<close>

definition session_banner :: "(path \<Rightarrow> rstring) \<Rightarrow> rstring \<Rightarrow> env_var \<Rightarrow> (rstring \<Rightarrow> path option) \<Rightarrow> rstring
    \<Rightarrow> log_level \<Rightarrow> rstring" where
  "session_banner show_path version x3_sim env app level =
     rstr ''app='' @ app @ rstr '' version='' @ version @ rstr '' level='' @ level_name level
       @ rstr '' X3_SIM='' @ (case x3_sim of EnvPresent v \<Rightarrow> if v = [] then rstr ''(unset)'' else v
                              | _ \<Rightarrow> rstr ''(unset)'')
       @ rstr '' state='' @ (case state_paths_resolve env of
            Inr sp \<Rightarrow> show_path (sp_state_file sp) | Inl _ \<Rightarrow> rstr ''(unknown)'')"

definition init_logger :: "(disk \<Rightarrow> u64 option) \<Rightarrow> rstring \<Rightarrow> logger_config \<Rightarrow> logger \<Rightarrow> logger" where
  "init_logger clock banner config lg =
     (if lg_initialized lg then lg
      else let lg = lg\<lparr>lg_initialized := True, lg_level := level_number (lc_level config)\<rparr>;
               lg = (case lc_file_path config of
                       Some p \<Rightarrow> if lc_level config \<noteq> LogOff
                         then (case rotating_open_sized p DEFAULT_MAX_BYTES (lg_disk lg) of
                                 (rf, d) \<Rightarrow> lg\<lparr>lg_file := Some rf, lg_disk := d\<rparr>)
                         else lg
                     | None \<Rightarrow> lg);
               lg = lg\<lparr>lg_stderr := lc_mirror_stderr config\<rparr>
           in if level_enabled (lc_level config) LogInfo
              then append_log clock LogInfo (rstr ''manager'') banner lg else lg)"

text \<open>The five macros: the message is a function because it is formatted only when the gate is open.\<close>

definition log_event :: "(disk \<Rightarrow> u64 option) \<Rightarrow> log_level \<Rightarrow> rstring \<Rightarrow> (unit \<Rightarrow> rstring) \<Rightarrow> logger \<Rightarrow> logger" where
  "log_event clock level target message lg =
     (if is_enabled level lg then append_log clock level target (message ()) lg else lg)"

end
