(* ===== verification/X3_Calendar.thy ===== *)
theory X3_Calendar
  imports X3_Diagnostics
begin

text \<open>
  The dates of the log. The calendar is given by its rule for the next day; the conversion of the code
  (a number of days to a year, month and day by closed formulas) agrees with counting forward from
  1 January 1970. Years are counted from March inside, so that the leap day ends a year.
\<close>

section \<open>The calendar\<close>

definition leap :: "int \<Rightarrow> bool" where
  "leap y \<longleftrightarrow> y mod 4 = 0 \<and> (y mod 100 \<noteq> 0 \<or> y mod 400 = 0)"

definition month_days :: "int \<Rightarrow> int \<Rightarrow> int" where
  "month_days y m =
     (if m = 2 then (if leap y then 29 else 28) else if m \<in> {4, 6, 9, 11} then 30 else 31)"

fun next_day :: "int \<times> int \<times> int \<Rightarrow> int \<times> int \<times> int" where
  "next_day (y, m, d) =
     (if d < month_days y m then (y, m, d + 1) else if m < 12 then (y, m + 1, 1) else (y + 1, 1, 1))"

definition civil_after :: "nat \<Rightarrow> int \<times> int \<times> int" where
  "civil_after n = (next_day ^^ n) (1970, 1, 1)"

section \<open>Years that begin in March\<close>

text \<open>\<open>year_start y\<close>: the days before March of the year \<open>y\<close>.\<close>

definition year_start :: "int \<Rightarrow> int" where
  "year_start y = 365 * y + y div 4 - y div 100 + y div 400"

definition year_days :: "int \<Rightarrow> int" where
  "year_days y = (if leap (y + 1) then 366 else 365)"

lemma div_step: "0 < b \<Longrightarrow> (y + 1) div b = y div b + (if (y + 1) mod b = 0 then 1 else 0)" for y b :: int
proof -
  assume b: "0 < b"
  define q r where "q = y div b" and "r = y mod b"
  have y: "y + 1 = (r + 1) + b * q" and r: "0 \<le> r" "r < b"
    using b by (simp_all add: q_def r_def)
  show ?thesis
  proof (cases "r + 1 = b")
    case True
    then have "y + 1 = b * (q + 1)" using y by (simp add: algebra_simps)
    then show ?thesis using b by (simp add: q_def [symmetric])
  next
    case False
    then have "(r + 1) div b = 0" "(r + 1) mod b = r + 1" using r by simp_all
    then have "(y + 1) div b = q" "(y + 1) mod b = r + 1" unfolding y using b by simp_all
    then show ?thesis using r by (simp add: q_def [symmetric])
  qed
qed

lemma year_start_Suc: "year_start (y + 1) = year_start y + year_days y"
proof -
  define a b c where "a \<longleftrightarrow> (y + 1) mod 4 = 0" and "b \<longleftrightarrow> (y + 1) mod 100 = 0" and "c \<longleftrightarrow> (y + 1) mod 400 = 0"
  define u v w where "u = y div 4" and "v = y div 100" and "w = y div 400"
  have abc: "c \<Longrightarrow> b" "b \<Longrightarrow> a"
    using dvd_trans [of 100 400 "y + 1"] dvd_trans [of 4 100 "y + 1"]
    by (auto simp: a_def b_def c_def dvd_eq_mod_eq_0)
  have leap: "leap (y + 1) \<longleftrightarrow> a \<and> (\<not> b \<or> c)"
    by (simp only: leap_def a_def b_def c_def)
  have "(y + 1) div 4 = u + (if a then 1 else 0)" "(y + 1) div 100 = v + (if b then 1 else 0)"
    "(y + 1) div 400 = w + (if c then 1 else 0)"
    by (simp_all only: u_def v_def w_def a_def b_def c_def div_step zero_less_numeral)
  then have "year_start (y + 1) = 365 * (y + 1) + (u + (if a then 1 else 0)) - (v + (if b then 1 else 0))
      + (w + (if c then 1 else 0))"
    by (simp only: year_start_def)
  moreover have "year_start y = 365 * y + u - v + w"
    by (simp only: year_start_def u_def v_def w_def)
  ultimately show ?thesis
    using abc by (cases a; cases b; cases c) (simp_all add: year_days_def leap)
qed

lemma year_start_mono: "y < z \<Longrightarrow> year_start y < year_start z"
proof (induction z rule: int_gr_induct [where k = y])
  case base
  then show ?case by (simp add: year_start_Suc year_days_def)
next
  case (step i)
  then show ?case by (simp add: year_start_Suc year_days_def)
qed

lemma year_unique:
  assumes "year_start y \<le> s" and "s < year_start (y + 1)" and "year_start z \<le> s" and "s < year_start (z + 1)"
  shows "y = z"
proof (cases y z rule: linorder_cases)
  case less
  then have "year_start (y + 1) \<le> year_start z"
    using year_start_mono [of "y + 1" z] by (cases "y + 1 = z") auto
  then show ?thesis using assms by simp
next
  case greater
  then have "year_start (z + 1) \<le> year_start y"
    using year_start_mono [of "z + 1" y] by (cases "z + 1 = y") auto
  then show ?thesis using assms by simp
qed simp

text \<open>The month and the day of the month of a day of such a year.\<close>

definition civil_of :: "int \<Rightarrow> int \<Rightarrow> int \<times> int \<times> int" where
  "civil_of y doy =
     (let mp = (5 * doy + 2) div 153; m = (if mp < 10 then mp + 3 else mp - 9)
      in (if m \<le> 2 then y + 1 else y, m, doy - (153 * mp + 2) div 5 + 1))"

lemma div153: "153 * k \<le> a \<Longrightarrow> a < 153 * k + 153 \<Longrightarrow> a div 153 = k" for a k :: int
  by (rule int_div_pos_eq [of _ _ _ "a - 153 * k"]) simp_all

lemma civil_table:
  "0 \<le> doy \<Longrightarrow> doy \<le> 30 \<Longrightarrow> civil_of y doy = (y, 3, doy - 0 + 1)"
  "31 \<le> doy \<Longrightarrow> doy \<le> 60 \<Longrightarrow> civil_of y doy = (y, 4, doy - 31 + 1)"
  "61 \<le> doy \<Longrightarrow> doy \<le> 91 \<Longrightarrow> civil_of y doy = (y, 5, doy - 61 + 1)"
  "92 \<le> doy \<Longrightarrow> doy \<le> 121 \<Longrightarrow> civil_of y doy = (y, 6, doy - 92 + 1)"
  "122 \<le> doy \<Longrightarrow> doy \<le> 152 \<Longrightarrow> civil_of y doy = (y, 7, doy - 122 + 1)"
  "153 \<le> doy \<Longrightarrow> doy \<le> 183 \<Longrightarrow> civil_of y doy = (y, 8, doy - 153 + 1)"
  "184 \<le> doy \<Longrightarrow> doy \<le> 213 \<Longrightarrow> civil_of y doy = (y, 9, doy - 184 + 1)"
  "214 \<le> doy \<Longrightarrow> doy \<le> 244 \<Longrightarrow> civil_of y doy = (y, 10, doy - 214 + 1)"
  "245 \<le> doy \<Longrightarrow> doy \<le> 274 \<Longrightarrow> civil_of y doy = (y, 11, doy - 245 + 1)"
  "275 \<le> doy \<Longrightarrow> doy \<le> 305 \<Longrightarrow> civil_of y doy = (y, 12, doy - 275 + 1)"
  "306 \<le> doy \<Longrightarrow> doy \<le> 336 \<Longrightarrow> civil_of y doy = (y + 1, 1, doy - 306 + 1)"
  "337 \<le> doy \<Longrightarrow> doy \<le> 365 \<Longrightarrow> civil_of y doy = (y + 1, 2, doy - 337 + 1)"
  by (simp_all add: civil_of_def Let_def div153 div153 [of 0] div153 [of 1] div153 [of 2] div153 [of 3] div153 [of 4] div153 [of 5] div153 [of 6] div153 [of 7] div153 [of 8] div153 [of 9] div153 [of 10] div153 [of 11])

lemma next_day_inside:
  assumes "0 \<le> doy" and "doy + 1 < year_days y"
  shows "next_day (civil_of y doy) = civil_of y (doy + 1)"
proof -
  have leap: "doy = 364 \<Longrightarrow> leap (y + 1)" and le: "doy < 364 \<or> doy = 364"
    using assms by (auto simp: year_days_def split: if_splits)
  have "doy \<le> 30 \<or> 31 \<le> doy \<and> doy \<le> 60 \<or> 61 \<le> doy \<and> doy \<le> 91 \<or> 92 \<le> doy \<and> doy \<le> 121
    \<or> 122 \<le> doy \<and> doy \<le> 152 \<or> 153 \<le> doy \<and> doy \<le> 183 \<or> 184 \<le> doy \<and> doy \<le> 213
    \<or> 214 \<le> doy \<and> doy \<le> 244 \<or> 245 \<le> doy \<and> doy \<le> 274 \<or> 275 \<le> doy \<and> doy \<le> 305
    \<or> 306 \<le> doy \<and> doy \<le> 336 \<or> 337 \<le> doy"
    by linarith
  then show ?thesis
    using assms(1) le leap
    by (elim disjE conjE; cases "doy \<in> {30, 60, 91, 121, 152, 183, 213, 244, 274, 305, 336}")
      (auto simp: civil_table month_days_def)
qed

lemma next_day_end: "next_day (civil_of y (year_days y - 1)) = civil_of (y + 1) 0"
  by (simp add: civil_of_def Let_def year_days_def month_days_def)

section \<open>The conversion of the code\<close>

lemma sdiv_nonneg: "0 \<le> a \<Longrightarrow> 0 < b \<Longrightarrow> a sdiv b = a div b" for a b :: int
  by (cases "a = 0") (simp_all add: signed_divide_int_def)

text \<open>A day of an era of 400 years, split into centuries, quadrennia and years as the formula does.\<close>

lemma year_of_era:
  fixes doe :: int
  assumes "0 \<le> doe" and "doe < 146097"
  defines "yoe \<equiv> (doe - doe div 1460 + doe div 36524 - doe div 146096) div 365"
  shows "0 \<le> yoe" and "yoe < 400" and "year_start yoe \<le> doe" and "doe < year_start (yoe + 1)"
proof -
  define c where "c = min 3 (doe div 36524)"
  define doc where "doc = doe - 36524 * c"
  have c: "0 \<le> c" "c \<le> 3" using assms by (auto simp: c_def)
  have doc: "0 \<le> doc" "doc \<le> 36524" "c < 3 \<Longrightarrow> doc < 36524"
  proof -
    have "36524 * (doe div 36524) \<le> doe" "doe < 36524 * (doe div 36524) + 36524" by simp_all
    then show "0 \<le> doc" "doc \<le> 36524" "c < 3 \<Longrightarrow> doc < 36524"
      using assms by (auto simp: doc_def c_def min_def split: if_splits)
  qed
  define q where "q = doc div 1461"
  define doq where "doq = doc - 1461 * q"
  have doq: "0 \<le> doq" "doq \<le> 1460" by (simp_all add: doq_def q_def minus_mult_div_eq_mod)
  have q: "0 \<le> q" "q \<le> 24" using doc by (auto simp: q_def)
  have doe: "doe = 36524 * c + 1461 * q + doq" by (simp add: doc_def doq_def)
  define e where "e = (if 1460 \<le> 24 * c + q + doq then 1 else 0 :: int)"
  have d1: "doe div 1460 = 25 * c + q + e"
    by (rule int_div_pos_eq [of _ _ _ "24 * c + q + doq - 1460 * e"]) (use c q doq in \<open>auto simp: doe e_def\<close>)
  have d2: "doe div 36524 - doe div 146096 = c"
  proof (cases "doe = 146096")
    case True
    then have "doe div 36524 = 4" "doe div 146096 = 1" by simp_all
    moreover have "c = 3" using True by (simp add: c_def)
    ultimately show ?thesis by simp
  next
    case False
    then have "doe div 146096 = 0" and "doe div 36524 \<le> 3" using assms by auto
    then show ?thesis by (simp add: c_def)
  qed
  define y where "y = (doq - e) div 365"
  have y: "0 \<le> y" "y \<le> 3" "365 * y \<le> doq" "doq < 365 * y + 366" "doq = 365 * y + 365 \<Longrightarrow> y = 3 \<and> doq = 1460"
  proof -
    have de: "365 * y \<le> doq - e" "doq - e < 365 * y + 365" by (simp_all add: y_def)
    have e: "0 \<le> e" "e \<le> 1" "e = 1 \<Longrightarrow> 1364 \<le> doq" "doq = 1460 \<Longrightarrow> e = 1" using c q by (auto simp: e_def split: if_splits)
    show "0 \<le> y" using de doq e by linarith
    show "y \<le> 3" using de doq e by linarith
    show "365 * y \<le> doq" "doq < 365 * y + 366" using de e by linarith+
    show "y = 3 \<and> doq = 1460" if "doq = 365 * y + 365"
    proof -
      have "e = 1" using that de e by linarith
      then have "3 \<le> y" "y \<le> 3" using that e doq by linarith+
      then show ?thesis using that by simp
    qed
  qed
  have "doe - doe div 1460 + doe div 36524 - doe div 146096 = (doq - e) + 365 * (100 * c + 4 * q)"
    using d1 d2 by (simp add: doe)
  then have yoe: "yoe = 100 * c + 4 * q + y"
    by (simp add: yoe_def y_def)
  show "0 \<le> yoe" and lt: "yoe < 400" using c q y by (auto simp: yoe)
  have "yoe div 4 = 25 * c + q" "yoe div 100 = c" "yoe div 400 = 0"
    using c q y lt by (auto simp: yoe intro: int_div_pos_eq [of _ _ _ y] int_div_pos_eq [of _ _ _ "4 * q + y"])
  then have start: "year_start yoe = 36524 * c + 1461 * q + 365 * y"
    by (simp add: year_start_def yoe)
  show "year_start yoe \<le> doe" using y by (simp add: start doe)
  have "leap (yoe + 1)" if "doq = 365 * y + 365"
  proof -
    have y3: "y = 3" and d: "doq = 1460" using y that by auto
    show ?thesis
    proof (cases "q = 24")
      case True
      then have "doc = 36524" using d by (simp add: doq_def)
      then have "c = 3" using doc(3) c by linarith
      then show ?thesis using True y3 by (simp add: yoe leap_def)
    next
      case False
      then have "(4 * (q + 1)) mod 100 \<noteq> 0" using q by (auto simp: zmod_eq_0_iff)
      moreover have "(yoe + 1) mod 100 = (4 * (q + 1)) mod 100"
      proof -
        have "yoe + 1 = 4 * (q + 1) + 100 * c" by (simp add: yoe y3)
        then show ?thesis by (simp only: mod_mult_self2)
      qed
      moreover have "(yoe + 1) mod 4 = 0" by (simp add: yoe y3 mod_eq_0_iff_dvd)
      ultimately show ?thesis by (simp add: leap_def)
    qed
  qed
  then have "doq < 365 * y + (if leap (yoe + 1) then 366 else 365)"
    using y(4) by (cases "leap (yoe + 1)") force+
  then have "doq < 365 * y + year_days yoe" by (simp only: year_days_def)
  then show "doe < year_start (yoe + 1)"
    unfolding year_start_Suc by (simp add: start doe)
qed

definition day_of_year :: "int \<Rightarrow> int \<Rightarrow> bool" where
  "day_of_year s y \<longleftrightarrow> year_start y \<le> s \<and> s < year_start (y + 1)"

lemma year_start_era: "year_start (y + 400 * e) = year_start y + 146097 * e"
proof -
  have "y + 400 * e = y + (100 * e) * 4" "y + 400 * e = y + (4 * e) * 100" by simp_all
  then have "(y + 400 * e) div 4 = y div 4 + 100 * e" "(y + 400 * e) div 100 = y div 100 + 4 * e"
    by (simp_all only: div_mult_self1 zero_neq_numeral not_False_eq_True add.commute)
  moreover have "(y + 400 * e) div 400 = y div 400 + e" by simp
  ultimately show ?thesis by (simp add: year_start_def)
qed

lemma civil_of_ranges:
  fixes doy :: int
  assumes "0 \<le> doy" and "doy \<le> 365"
  defines "mp \<equiv> (5 * doy + 2) div 153"
  shows "0 \<le> mp" "mp \<le> 11"
proof -
  show "0 \<le> mp" using assms by simp
  have "5 * doy + 2 < 153 * 12" using assms by simp
  then show "mp \<le> 11" using assms by simp
qed

lemma days_to_civil_year:
  assumes n: "0 \<le> n"
  shows "\<exists>y. day_of_year (n + 719468) y
    \<and> days_to_civil n = (case civil_of y (n + 719468 - year_start y) of
        (year, m, d) \<Rightarrow> (year, word_of_int m, word_of_int d))"
proof -
  define s where "s = n + 719468"
  define era doe where "era = s div 146097" and "doe = s - era * 146097"
  define yoe where "yoe = (doe - doe div 1460 + doe div 36524 - doe div 146096) div 365"
  define y doy where "y = yoe + 400 * era" and "doy = s - year_start y"
  define mp where "mp = (5 * doy + 2) div 153"
  have s: "0 \<le> s" using n by (simp add: s_def)
  have doe: "0 \<le> doe" "doe < 146097" by (simp_all add: doe_def era_def minus_div_mult_eq_mod)
  note e = year_of_era [OF doe, folded yoe_def]
  have in_year: "day_of_year s y"
  proof -
    have "y + 1 = (yoe + 1) + 400 * era" by (simp add: y_def)
    then have "year_start (y + 1) = year_start (yoe + 1) + 146097 * era" by (simp only: year_start_era)
    moreover have "year_start y = year_start yoe + 146097 * era" by (simp add: y_def year_start_era)
    ultimately show ?thesis using e by (simp add: day_of_year_def doe_def)
  qed
  have doy: "0 \<le> doy" "doy \<le> 365"
    using in_year unfolding day_of_year_def year_start_Suc by (auto simp: doy_def year_days_def split: if_splits)
  have mp: "0 \<le> mp" "mp \<le> 11" using civil_of_ranges [OF doy] by (simp_all add: mp_def)
  have start: "doe - (365 * yoe + yoe div 4 - yoe div 100) = doy"
  proof -
    have "yoe div 400 = 0" using e by simp
    then have "year_start yoe = 365 * yoe + yoe div 4 - yoe div 100" by (simp add: year_start_def)
    moreover have "year_start y = year_start yoe + 146097 * era" unfolding y_def by (rule year_start_era)
    ultimately show ?thesis by (simp add: doy_def doe_def)
  qed
  have sd: "s sdiv 146097 = era" "doe sdiv 1460 = doe div 1460" "doe sdiv 36524 = doe div 36524"
    "doe sdiv 146096 = doe div 146096" "yoe sdiv 4 = yoe div 4" "yoe sdiv 100 = yoe div 100"
    "(5 * doy + 2) sdiv 153 = mp" "(153 * mp + 2) sdiv 5 = (153 * mp + 2) div 5"
    using s doe e doy mp by (simp_all add: sdiv_nonneg era_def mp_def)
  have "(doe - doe div 1460 + doe div 36524 - doe div 146096) sdiv 365 = yoe"
  proof -
    have "0 \<le> doe - doe div 1460 + doe div 36524 - doe div 146096"
      using e(1) unfolding yoe_def by (simp add: pos_imp_zdiv_nonneg_iff)
    then show ?thesis by (simp add: sdiv_nonneg yoe_def)
  qed
  note sd = sd this
  have small: "(word_of_int m :: u32) \<le> 2 \<longleftrightarrow> m \<le> 2" if "1 \<le> m" "m \<le> 12" for m
    using that by (simp add: word_le_def uint_word_of_int)
  let ?m = "if mp < 10 then mp + 3 else mp - 9"
  have "days_to_civil n = (if (word_of_int ?m :: u32) \<le> 2 then y + 1 else y, word_of_int ?m,
      word_of_int (doy - (153 * mp + 2) div 5 + 1))"
    unfolding days_to_civil_def Let_def s_def [symmetric] sd doe_def [symmetric] start
    by (simp add: y_def algebra_simps)
  moreover have "civil_of y doy = (if ?m \<le> 2 then y + 1 else y, ?m, doy - (153 * mp + 2) div 5 + 1)"
    by (simp add: civil_of_def Let_def mp_def)
  moreover have "1 \<le> ?m" "?m \<le> 12" using mp by auto
  ultimately show ?thesis using in_year by (auto simp: small s_def doy_def intro!: exI [of _ y])
qed

text \<open>Counting forward stays in step with the years that begin in March.\<close>

lemma civil_after_year: "day_of_year (int n + 719468) y \<Longrightarrow>
    civil_after n = civil_of y (int n + 719468 - year_start y)"
proof (induction n arbitrary: y)
  case 0
  have "day_of_year 719468 1969" by (simp add: day_of_year_def year_start_def)
  then have "y = 1969" using 0 year_unique unfolding day_of_year_def by force
  then show ?case by (simp add: civil_after_def civil_of_def Let_def year_start_def)
next
  case (Suc n)
  let ?s = "int n + 719468"
  have step: "civil_after (Suc n) = next_day (civil_after n)" by (simp add: civil_after_def)
  have s: "int (Suc n) + 719468 = ?s + 1" by simp
  obtain z where z: "day_of_year ?s z" using days_to_civil_year [of "int n"] by auto
  note IH = Suc.IH [OF z]
  show ?case
  proof (cases "?s + 1 < year_start (z + 1)")
    case True
    then have "day_of_year (?s + 1) z" using z by (simp add: day_of_year_def)
    then have "y = z" using Suc.prems year_unique unfolding day_of_year_def s by blast
    moreover have "next_day (civil_of z (?s - year_start z)) = civil_of z (?s - year_start z + 1)"
      using z True by (intro next_day_inside) (auto simp: day_of_year_def year_start_Suc)
    ultimately show ?thesis by (simp add: step IH algebra_simps)
  next
    case False
    then have eq: "?s + 1 = year_start (z + 1)" using z by (simp add: day_of_year_def)
    then have "day_of_year (?s + 1) (z + 1)" using year_start_mono [of "z + 1" "z + 2"]
      by (simp add: day_of_year_def add.assoc)
    then have "y = z + 1" using Suc.prems year_unique unfolding day_of_year_def s by blast
    moreover have last: "?s - year_start z = year_days z - 1" using eq by (simp add: year_start_Suc)
    ultimately show ?thesis
      by (simp only: step IH last next_day_end s eq diff_self)
  qed
qed

text \<open>C36: The date stamped on a log line is the calendar's: the conversion of a number of days since
  1970 by closed formulas gives exactly the year, month and day reached by counting forward that many
  days from 1 January 1970 with the Gregorian rule for the length of months.\<close>

theorem days_to_civil_calendar:
  "days_to_civil (int n) = (case civil_after n of (y, m, d) \<Rightarrow> (y, word_of_int m, word_of_int d))"
proof -
  obtain y where "day_of_year (int n + 719468) y"
    and "days_to_civil (int n) = (case civil_of y (int n + 719468 - year_start y) of
        (year, m, d) \<Rightarrow> (year, word_of_int m, word_of_int d))"
    using days_to_civil_year [of "int n"] by auto
  then show ?thesis using civil_after_year by simp
qed

end
