(* ===== verification/X3_Log_Facts.thy ===== *)
theory X3_Log_Facts
  imports X3_Diagnostics
begin

text \<open>
  What the log guarantees: below trace it does not show locators, serial numbers, names or more than
  two bytes of a token; an event is one line; a disabled logger does nothing; without failing calls the
  rotating file is the three generations of a simple specification. With failing calls it is not
  bounded.
\<close>

section \<open>Calls that do not fail\<close>

lemma file_at_record [simp]: "file_at q (record_call d) = file_at q d"
  by (simp add: file_at_def record_call_def)

lemma fault_record [simp]: "dk_fault (record_call d) = dk_fault d"
  by (simp add: record_call_def)

lemma calls_record [simp]: "dk_calls (record_call d) = Suc (dk_calls d)"
  by (simp add: record_call_def)

lemma file_at_put [simp]:
  "file_at q (put_file p f d) = (if resolve_path q = resolve_path p then f else file_at q d)"
  by (simp add: file_at_def put_file_def)

lemma put_file_keeps [simp]: "dk_fault (put_file p f d) = dk_fault d" "dk_calls (put_file p f d) = dk_calls d"
  by (simp_all add: put_file_def)

lemma append_bytes_at [simp]:
  "file_at q (append_bytes p bs d) =
     (if resolve_path q = resolve_path p
      then map_option (\<lambda>f. \<lparr>df_bytes = df_bytes f @ bs, df_synced = False\<rparr>) (file_at q d) else file_at q d)"
  "dk_fault (append_bytes p bs d) = dk_fault d" "dk_calls (append_bytes p bs d) = dk_calls d"
  by (auto simp: append_bytes_def file_at_def put_file_def split: option.splits)

lemma io_call_ok: "dk_fault d (dk_calls d) = None \<Longrightarrow>
    io_call partial_effect effect d = (case effect d of (r, d') \<Rightarrow> (r, record_call d'))"
  by (simp add: io_call_def)

lemma io_call_fault: "dk_fault d (dk_calls d) = Some (code, k) \<Longrightarrow>
    io_call partial_effect effect d = (Inl (OtherIo code), record_call (partial_effect k d))"
  by (simp add: io_call_def)

lemmas fs_defs = fs_open_create_def fs_write_all_def fs_remove_def fs_length_def fs_rename_def fs_create_def
  fs_exists_def log_append_def

lemma calls_ok:
  assumes "dk_fault d = (\<lambda>_. None)"
  shows "fs_remove p d = (case file_at p d of None \<Rightarrow> (Inl NotFound, record_call d)
      | Some _ \<Rightarrow> (Inr (), record_call (put_file p None d)))"
    "fs_exists p d = (Inr (file_at p d \<noteq> None), record_call d)"
    "fs_rename p q d = (case file_at p d of None \<Rightarrow> (Inl NotFound, record_call d)
      | Some f \<Rightarrow> (Inr (), record_call (put_file q (Some f) (put_file p None d))))"
  using assms by (auto simp: fs_defs io_call_ok prog_defs ok_or_def split: option.splits)

section \<open>The generations\<close>

definition log_path :: "path \<Rightarrow> bool" where
  "log_path p \<longleftrightarrow> p \<noteq> [] \<and> last p \<noteq> rstr ''.''"

abbreviation gen1 :: "path \<Rightarrow> path" where "gen1 p \<equiv> generation_path p (rstr ''.1'')"
abbreviation gen2 :: "path \<Rightarrow> path" where "gen2 p \<equiv> generation_path p (rstr ''.2'')"

lemma generations_distinct [simp]:
  assumes "log_path p"
  shows "resolve_path (gen1 p) \<noteq> resolve_path p" "resolve_path (gen2 p) \<noteq> resolve_path p"
    "resolve_path (gen1 p) \<noteq> resolve_path (gen2 p)"
    "resolve_path p \<noteq> resolve_path (gen1 p)" "resolve_path p \<noteq> resolve_path (gen2 p)"
    "resolve_path (gen2 p) \<noteq> resolve_path (gen1 p)"
proof -
  have p: "resolve_path p = resolve_path (butlast p) @ [last p]"
  proof -
    have "p = butlast p @ [last p]" using assms by (simp add: log_path_def)
    then have "resolve_path p = resolve_path (butlast p @ [last p])" by (rule arg_cong)
    also have "\<dots> = resolve_path (butlast p) @ [last p]"
      using assms by (simp only: log_path_def resolve_path_def filter_append filter.simps if_True not_False_eq_True)
    finally show ?thesis .
  qed
  have g: "resolve_path (generation_path p s) = resolve_path (butlast p) @ [last p @ s]"
    if "2 \<le> length s" for s
    using assms that by (auto simp: log_path_def generation_path_def resolve_path_def rstr_def
        dest: arg_cong [where f = length])
  have "2 \<le> length (rstr ''.1'')" "2 \<le> length (rstr ''.2'')" "rstr ''.1'' \<noteq> []" "rstr ''.2'' \<noteq> []"
    "rstr ''.1'' \<noteq> rstr ''.2''" by (simp_all add: rstr_def)
  then show "resolve_path (gen1 p) \<noteq> resolve_path p" "resolve_path (gen2 p) \<noteq> resolve_path p"
    "resolve_path (gen1 p) \<noteq> resolve_path (gen2 p)"
    "resolve_path p \<noteq> resolve_path (gen1 p)" "resolve_path p \<noteq> resolve_path (gen2 p)"
    "resolve_path (gen2 p) \<noteq> resolve_path (gen1 p)"
    by (simp_all add: p g)
qed

type_synonym generations = "packet option \<times> packet option \<times> packet option"

definition generations_of :: "path \<Rightarrow> disk \<Rightarrow> generations" where
  "generations_of p d = (map_option df_bytes (file_at p d), map_option df_bytes (file_at (gen1 p) d),
     map_option df_bytes (file_at (gen2 p) d))"

text \<open>The specification: the line is added; beyond the limit the generations shift and a fresh file
  starts with the banner.\<close>

fun log_line :: "nat \<Rightarrow> packet \<Rightarrow> packet \<Rightarrow> generations \<Rightarrow> generations" where
  "log_line limit banner line (base, g1, g2) =
     (let content = unwrap_or [] base @ line
      in if limit < length content then (Some banner, Some content, g1) else (Some content, g1, g2))"

lemma length_encode_line: "length (encode_line line) = byte_len line + 1"
proof -
  have "length (utf8_bytes c) = utf8_len c" for c by (simp add: utf8_bytes_def utf8_len_def)
  then have "length (concat (map utf8_bytes line)) = byte_len line"
    by (simp add: byte_len_def length_concat comp_def)
  then show ?thesis by (simp add: encode_line_def)
qed

lemma log_append_run:
  assumes "dk_fault d = (\<lambda>_. None)"
  obtains d' where "log_append p bs d = (Inr (), d')" and "dk_fault d' = (\<lambda>_. None)"
    and "map_option df_bytes (file_at p d') = Some (unwrap_or [] (map_option df_bytes (file_at p d)) @ bs)"
    and "\<And>q. resolve_path q \<noteq> resolve_path p \<Longrightarrow> file_at q d' = file_at q d"
proof
  let ?d' = "snd (log_append p bs d)"
  show "log_append p bs d = (Inr (), ?d')" and "dk_fault ?d' = (\<lambda>_. None)"
    and "map_option df_bytes (file_at p ?d') = Some (unwrap_or [] (map_option df_bytes (file_at p d)) @ bs)"
    using assms by (auto simp: fs_defs io_call_ok thenp_def unwrap_or_def split: option.splits)
  show "file_at q ?d' = file_at q d" if "resolve_path q \<noteq> resolve_path p" for q
    using assms that by (auto simp: fs_defs io_call_ok thenp_def split: option.splits)
qed

text \<open>The shift, when the base file exists.\<close>

lemma rotate_generations_run:
  assumes ok: "dk_fault d = (\<lambda>_. None)" and p: "log_path (rf_path rf)"
    and base: "file_at (rf_path rf) d = Some f"
  obtains t d' where "rotate_generations clock rf d = (Inr (length (encode_line (format_line clock LogInfo
        (rstr ''manager'') (rotation_banner (rf_max_bytes rf)) t))), d')"
    and "dk_fault d' = (\<lambda>_. None)"
    and "generations_of (rf_path rf) d' = (Some (encode_line (format_line clock LogInfo (rstr ''manager'')
        (rotation_banner (rf_max_bytes rf)) t)), Some (df_bytes f), map_option df_bytes (file_at (gen1 (rf_path rf)) d))"
    and "\<And>q. resolve_path q \<notin> {resolve_path (rf_path rf), resolve_path (gen1 (rf_path rf)),
        resolve_path (gen2 (rf_path rf))} \<Longrightarrow> file_at q d' = file_at q d"
proof -
  let ?p = "rf_path rf"
  define shift :: "unit io" where "shift = thenp (ignorep (fs_remove (gen2 ?p))) (\<lambda>_. thenp (fs_exists (gen1 ?p)) (\<lambda>present.
         thenp (if present then fs_rename (gen1 ?p) (gen2 ?p) else okp ()) (\<lambda>_.
         fs_rename ?p (gen1 ?p))))"
  define d1 where "d1 = snd (fs_remove (gen2 ?p) d)"
  have d1: "dk_fault d1 = (\<lambda>_. None)" "file_at (gen2 ?p) d1 = None"
    "\<And>q. resolve_path q \<noteq> resolve_path (gen2 ?p) \<Longrightarrow> file_at q d1 = file_at q d"
    using ok by (auto simp: d1_def calls_ok split: option.splits)
  define d2 where "d2 = (case file_at (gen1 ?p) d of None \<Rightarrow> record_call d1
      | Some _ \<Rightarrow> snd (fs_rename (gen1 ?p) (gen2 ?p) (record_call d1)))"
  have d2: "dk_fault d2 = (\<lambda>_. None)" "file_at (gen2 ?p) d2 = file_at (gen1 ?p) d"
    "\<And>q. resolve_path q \<notin> {resolve_path (gen1 ?p), resolve_path (gen2 ?p)} \<Longrightarrow> file_at q d2 = file_at q d"
    using d1 p by (auto simp: d2_def calls_ok split: option.splits)
  define t where "t = snd (fs_rename ?p (gen1 ?p) d2)"
  have base2: "file_at ?p d2 = Some f" using d2(3) [of ?p] p base by simp
  have tok: "dk_fault t = (\<lambda>_. None)" and tb: "file_at ?p t = None" "file_at (gen1 ?p) t = Some f"
      "file_at (gen2 ?p) t = file_at (gen1 ?p) d"
    and tq: "\<And>q. resolve_path q \<notin> {resolve_path ?p, resolve_path (gen1 ?p), resolve_path (gen2 ?p)}
        \<Longrightarrow> file_at q t = file_at q d"
    using d2 p by (auto simp: t_def calls_ok base2)
  have t: "shift d = (Inr (), t)"
  proof -
    have "fs_rename ?p (gen1 ?p) d2 = (Inr (), t)" using d2(1) by (simp add: t_def calls_ok base2)
    moreover have "(if present then fs_rename (gen1 ?p) (gen2 ?p) else okp ()) (record_call d1) = (Inr (), d2)"
      if "present \<longleftrightarrow> file_at (gen1 ?p) d \<noteq> None" for present
      using that d1 p by (auto simp: d2_def calls_ok okp_def split: option.splits)
    moreover have "(fs_exists (gen1 ?p) :: bool io) d1 = (Inr (file_at (gen1 ?p) d \<noteq> None), record_call d1)"
      using d1 p by (simp add: calls_ok)
    ultimately show ?thesis by (simp add: shift_def thenp_def ignorep_def d1_def [symmetric])
  qed
  let ?banner = "format_line clock LogInfo (rstr ''manager'') (rotation_banner (rf_max_bytes rf)) t"
  obtain d' where d': "log_append ?p (encode_line ?banner) t = (Inr (), d')" "dk_fault d' = (\<lambda>_. None)"
    and db: "map_option df_bytes (file_at ?p d') = Some (encode_line ?banner)"
    and dq: "\<And>q. resolve_path q \<noteq> resolve_path ?p \<Longrightarrow> file_at q d' = file_at q t"
    using log_append_run [OF tok, of ?p "encode_line ?banner"] tb(1) by (auto simp: unwrap_or_def)
  have "rotate_generations clock rf d = (Inr (length (encode_line ?banner)), d')"
  proof -
    have "rotate_generations clock rf d = thenp shift (\<lambda>_.
        thenp (getp (format_line clock LogInfo (rstr ''manager'') (rotation_banner (rf_max_bytes rf)))) (\<lambda>banner.
        thenp (log_append ?p (encode_line banner)) (\<lambda>_. okp (byte_len banner + 1)))) d"
      by (auto simp: shift_def rotate_generations_def Let_def thenp_def split: sum.splits prod.splits)
    then show ?thesis by (simp add: thenp_def t getp_def d' okp_def length_encode_line)
  qed
  moreover have "generations_of ?p d' = (Some (encode_line ?banner), Some (df_bytes f), map_option df_bytes (file_at (gen1 ?p) d))"
    using p by (simp add: generations_of_def db dq tb)
  ultimately show thesis using that d'(2) dq tq by simp
qed

section \<open>The log without failing calls\<close>

definition log_ok :: "rotating_file \<Rightarrow> disk \<Rightarrow> bool" where
  "log_ok rf d \<longleftrightarrow> dk_fault d = (\<lambda>_. None) \<and> log_path (rf_path rf)
     \<and> rf_current_size rf = length (unwrap_or [] (fst (generations_of (rf_path rf) d)))"

abbreviation fresh_banner :: "(disk \<Rightarrow> u64 option) \<Rightarrow> rotating_file \<Rightarrow> disk \<Rightarrow> packet" where
  "fresh_banner clock rf t \<equiv>
     encode_line (format_line clock LogInfo (rstr ''manager'') (rotation_banner (rf_max_bytes rf)) t)"

lemma append_line_run:
  assumes "log_ok rf d"
  obtains t rf' d' where "append_line clock rf line d = (rf', d')"
    and "generations_of (rf_path rf) d'
      = log_line (rf_max_bytes rf) (fresh_banner clock rf t) (encode_line line) (generations_of (rf_path rf) d)"
    and "log_ok rf' d'" and "rf_path rf' = rf_path rf" and "rf_max_bytes rf' = rf_max_bytes rf"
    and "\<And>q. resolve_path q \<notin> {resolve_path (rf_path rf), resolve_path (gen1 (rf_path rf)),
        resolve_path (gen2 (rf_path rf))} \<Longrightarrow> file_at q d' = file_at q d"
proof -
  let ?p = "rf_path rf"
  have ok: "dk_fault d = (\<lambda>_. None)" and p: "log_path ?p"
    and size: "rf_current_size rf = length (unwrap_or [] (map_option df_bytes (file_at ?p d)))"
    using assms by (simp_all add: log_ok_def generations_of_def)
  define content where "content = unwrap_or [] (map_option df_bytes (file_at ?p d)) @ encode_line line"
  obtain d1 where d1: "log_append ?p (encode_line line) d = (Inr (), d1)" "dk_fault d1 = (\<lambda>_. None)"
      "map_option df_bytes (file_at ?p d1) = Some content"
      "\<And>q. resolve_path q \<noteq> resolve_path ?p \<Longrightarrow> file_at q d1 = file_at q d"
    using log_append_run [OF ok, of ?p "encode_line line"] unfolding content_def by metis
  define rf1 where "rf1 = rf\<lparr>rf_current_size := length content\<rparr>"
  have rf1: "rf\<lparr>rf_current_size := rf_current_size rf + length (encode_line line)\<rparr> = rf1"
    by (simp add: rf1_def size content_def)
  have gens: "generations_of ?p d1 = (Some content, snd (generations_of ?p d))"
    using d1 p by (simp add: generations_of_def)
  have spec: "fst (generations_of ?p d) = map_option df_bytes (file_at ?p d)" by (simp add: generations_of_def)
  show thesis
  proof (cases "rf_max_bytes rf < length content")
    case False
    have "append_line clock rf line d = (rf1, d1)"
      using False by (simp add: append_line_def Let_def d1(1) rf1) (simp add: rf1_def)
    moreover have "generations_of ?p d1
        = log_line (rf_max_bytes rf) (fresh_banner clock rf d) (encode_line line) (generations_of ?p d)"
      using False gens by (simp add: generations_of_def content_def Let_def)
    moreover have "log_ok rf1 d1" using d1 p gens by (simp add: log_ok_def rf1_def unwrap_or_def)
    ultimately show thesis using that d1(4) by (simp add: rf1_def)
  next
    case True
    obtain f where f: "file_at ?p d1 = Some f" "df_bytes f = content" using d1(3) by auto
    have rf1p: "rf_path rf1 = ?p" "rf_max_bytes rf1 = rf_max_bytes rf" by (simp_all add: rf1_def)
    obtain t d2 where r: "rotate_generations clock rf1 d1 = (Inr (length (fresh_banner clock rf t)), d2)"
      and ok2: "dk_fault d2 = (\<lambda>_. None)"
      and g2: "generations_of ?p d2 = (Some (fresh_banner clock rf t), Some content, map_option df_bytes (file_at (gen1 ?p) d1))"
      and q2: "\<And>q. resolve_path q \<notin> {resolve_path ?p, resolve_path (gen1 ?p), resolve_path (gen2 ?p)}
          \<Longrightarrow> file_at q d2 = file_at q d1"
      using rotate_generations_run [of d1 rf1 f clock] d1(2) p f by (auto simp: rf1p)
    let ?rf2 = "rf1\<lparr>rf_current_size := length (fresh_banner clock rf t)\<rparr>"
    have "append_line clock rf line d = (?rf2, d2)"
      using True by (simp add: append_line_def Let_def d1(1) rf1) (simp add: rf1_def rotate_file_def r [unfolded rf1_def])
    moreover have "generations_of ?p d2
        = log_line (rf_max_bytes rf) (fresh_banner clock rf t) (encode_line line) (generations_of ?p d)"
      using True g2 d1(4) [of "gen1 ?p"] p by (simp add: generations_of_def content_def Let_def)
    moreover have "log_ok ?rf2 d2" using ok2 p g2 by (simp add: log_ok_def rf1p unwrap_or_def)
    ultimately show thesis using that [of ?rf2 d2 t] q2 d1(4) by (simp add: rf1p)
  qed
qed

section \<open>Properties\<close>

text \<open>C37: Without failing file calls the rotating log is its specification: every line is added to the
  base file, or, when that takes the base file over the limit, the base file (with the line) becomes
  the first generation, the first the second, and a fresh base file starts with the banner; no line
  within the generations is lost or changed, the byte counter is the size of the base file, and no
  other file is touched.\<close>

theorem log_rotation_exact:
  assumes "log_ok rf d" and "append_line clock rf line d = (rf', d')"
  shows "(\<exists>t. generations_of (rf_path rf) d'
        = log_line (rf_max_bytes rf) (fresh_banner clock rf t) (encode_line line) (generations_of (rf_path rf) d))
    \<and> log_ok rf' d' \<and> rf_path rf' = rf_path rf \<and> rf_max_bytes rf' = rf_max_bytes rf
    \<and> (\<forall>q. resolve_path q \<notin> {resolve_path (rf_path rf), resolve_path (gen1 (rf_path rf)),
          resolve_path (gen2 (rf_path rf))} \<longrightarrow> file_at q d' = file_at q d)"
  by (rule append_line_run [OF assms(1), of clock line]) (use assms(2) in auto)

lemma show_hex2_inj: "show_hex2 a = show_hex2 b \<Longrightarrow> a = b"
proof -
  have dc: "\<forall>m \<in> set [0..<16]. \<forall>n \<in> set [0..<16]. digit_char m = digit_char n \<longrightarrow> m = n" by code_simp
  have "unat a < 256" "unat b < 256" using unsigned_less [of a] unsigned_less [of b] by simp_all
  then have r: "unat a div 16 < 16" "unat b div 16 < 16" "unat a mod 16 < 16" "unat b mod 16 < 16" by simp_all
  assume "show_hex2 a = show_hex2 b"
  then have "digit_char (unat a div 16) = digit_char (unat b div 16)"
    "digit_char (unat a mod 16) = digit_char (unat b mod 16)" by (simp_all add: show_hex2_def)
  then have "unat a div 16 = unat b div 16" "unat a mod 16 = unat b mod 16" using dc r by auto
  then have "unat a = unat b" by (metis mult_div_mod_eq)
  then show "a = b" by (rule unsigned_word_eqI)
qed

lemma hex_bytes_inj: "length a = length b \<Longrightarrow> hex_bytes a = hex_bytes b \<Longrightarrow> a = b"
proof (induction a b rule: list_induct2)
  case (Cons x xs y ys)
  have "inj (of_char :: char \<Rightarrow> nat)" by (simp add: inj_def)
  then have "show_hex2 x = show_hex2 y" "hex_bytes xs = hex_bytes ys"
    using Cons.prems by (auto simp: hex_bytes_def rstr_def show_hex2_def)
  then show ?case using Cons.IH show_hex2_inj by simp
qed simp


section \<open>Failing calls\<close>

text \<open>A disk on which the fifth and sixth of every six calls fail: of an appended line that starts a
  rotation these are the renaming of the base file and its truncation.\<close>

definition stuck_disk :: disk where
  "stuck_disk = \<lparr>dk_files = Map.empty, dk_calls = 0,
     dk_fault = (\<lambda>n. if 4 \<le> n mod 6 then Some (5, 0) else None),
     dk_busy = (\<lambda>_ _. False), dk_mine = {}, dk_temp_counter = 0, dk_process = 1, dk_clock = 0, dk_history = []\<rparr>"

definition append_times :: "(disk \<Rightarrow> u64 option) \<Rightarrow> rstring \<Rightarrow> nat \<Rightarrow> rotating_file \<times> disk \<Rightarrow> rotating_file \<times> disk" where
  "append_times clock line n = (\<lambda>(rf, d). append_line clock rf line d) ^^ n"

definition stuck_at :: "path \<Rightarrow> packet \<Rightarrow> nat \<Rightarrow> disk \<Rightarrow> bool" where
  "stuck_at p bytes n d \<longleftrightarrow> dk_fault d = dk_fault stuck_disk \<and> dk_calls d = 6 * n
     \<and> unwrap_or [] (map_option df_bytes (file_at p d)) = concat (replicate n bytes)
     \<and> file_at (gen1 p) d = None \<and> file_at (gen2 p) d = None"

lemma append_line_stuck:
  assumes p: "log_path (rf_path rf)" and stuck: "stuck_at (rf_path rf) (encode_line line) n d"
    and size: "rf_current_size rf = 0" and long: "rf_max_bytes rf < length (encode_line line)"
  shows "\<exists>d'. append_line clock rf line d = (rf, d') \<and> stuck_at (rf_path rf) (encode_line line) (Suc n) d'"
proof -
  let ?p = "rf_path rf" and ?b = "encode_line line"
  note st = stuck [unfolded stuck_at_def]
  have fault: "dk_fault d (6 * n + k) = (if k < 4 then None else Some (5, 0))" if "k < 6" for k
    using st that by (auto simp: stuck_disk_def mod_mult_self4)
  have mods: "(6 * n) mod 6 = 0" "Suc (6 * n) mod 6 = 1" "Suc (Suc (6 * n)) mod 6 = 2"
    "Suc (Suc (Suc (6 * n))) mod 6 = 3" "Suc (Suc (Suc (Suc (6 * n)))) mod 6 = 4"
    "Suc (Suc (Suc (Suc (Suc (6 * n))))) mod 6 = 5" by presburger+
  define d1 where "d1 = snd (log_append ?p ?b d)"
  have d1: "log_append ?p ?b d = (Inr (), d1)" "dk_fault d1 = dk_fault stuck_disk" "dk_calls d1 = 6 * n + 2"
    "map_option df_bytes (file_at ?p d1) = Some (concat (replicate n ?b) @ ?b)"
    "\<And>q. resolve_path q \<noteq> resolve_path ?p \<Longrightarrow> file_at q d1 = file_at q d"
    using st by (auto simp: d1_def fs_defs io_call_def thenp_def stuck_disk_def mods unwrap_or_def split: option.splits)
  define d2 where "d2 = record_call (record_call (record_call d1))"
  have g: "file_at (gen1 ?p) d1 = None" "file_at (gen2 ?p) d1 = None" using st d1(5) p by simp_all
  let ?rf = "rf\<lparr>rf_current_size := length ?b\<rparr>"
  have rot: "rotate_generations clock ?rf d1 = (Inl (OtherIo 5), d2)"
    using d1(2,3) g by (simp add: rotate_generations_def Let_def thenp_def ignorep_def fs_remove_def fs_exists_def
        fs_length_def handlep_def io_call_def stuck_disk_def mods okp_def fs_rename_def d2_def ok_or_def)
  have create: "fs_create ?p d2 = (Inl (OtherIo 5), record_call d2)"
    using d1(2,3) by (simp add: d2_def fs_create_def io_call_def stuck_disk_def mods)
  have "append_line clock rf line d = (rf, record_call d2)"
    using long size by (simp add: append_line_def Let_def d1(1) rotate_file_def rot thenp_def create)
  moreover have "stuck_at ?p ?b (Suc n) (record_call d2)"
    using d1 g by (auto simp: stuck_at_def d2_def unwrap_or_def replicate_append_same [symmetric])
  ultimately show ?thesis by blast
qed

text \<open>C39: When renaming and truncating keep failing while appending works, the log is not bounded: the
  failed truncation resets the byte counter to zero although the file keeps its content, and after any
  number of lines (each longer than the limit) the base file holds all of them.\<close>

theorem failed_rotation_unbounded:
  assumes "log_path (rf_path rf)" and "rf_current_size rf = 0"
    and "rf_max_bytes rf < length (encode_line line)"
  shows "case append_times clock line n (rf, stuck_disk) of (rf', d) \<Rightarrow>
     rf_current_size rf' = 0 \<and>
     length (unwrap_or [] (fst (generations_of (rf_path rf) d))) = n * length (encode_line line)"
proof -
  have "\<exists>d. append_times clock line n (rf, stuck_disk) = (rf, d) \<and> stuck_at (rf_path rf) (encode_line line) n d"
  proof (induction n)
    case 0
    show ?case by (simp add: append_times_def stuck_at_def stuck_disk_def file_at_def unwrap_or_def)
  next
    case (Suc n)
    then obtain d where d: "append_times clock line n (rf, stuck_disk) = (rf, d)"
      "stuck_at (rf_path rf) (encode_line line) n d" by blast
    show ?case using append_line_stuck [OF assms(1) d(2) assms(2,3), of clock] d(1)
      by (auto simp: append_times_def)
  qed
  then show ?thesis using assms(2)
    by (auto simp: stuck_at_def generations_of_def length_concat sum_list_replicate)
qed

section \<open>Witnesses\<close>

definition quiet_disk :: disk where
  "quiet_disk = stuck_disk\<lparr>dk_fault := (\<lambda>_. None)\<rparr>"

abbreviation gui_log :: rotating_file where
  "gui_log \<equiv> \<lparr>rf_path = [rstr ''gui.log''], rf_max_bytes = 3, rf_current_size = 0\<rparr>"

lemma gui_log_path [simp]: "log_path [rstr ''gui.log'']"
  by (simp add: log_path_def rstr_def)

lemma log_rotation_exact_witness:
  "\<exists>rf' d' banner. append_line (\<lambda>_. Some 0) gui_log (rstr ''line'') quiet_disk = (rf', d')
     \<and> generations_of [rstr ''gui.log''] d' = (Some banner, Some (encode_line (rstr ''line'')), None)"
proof -
  obtain rf' d' where run: "append_line (\<lambda>_. Some 0) gui_log (rstr ''line'') quiet_disk = (rf', d')"
    by fastforce
  have start: "generations_of [rstr ''gui.log''] quiet_disk = (None, None, None)"
    by (simp add: generations_of_def file_at_def quiet_disk_def stuck_disk_def)
  have "log_ok gui_log quiet_disk"
    using start by (simp add: log_ok_def unwrap_or_def) (simp add: quiet_disk_def)
  from log_rotation_exact [OF this run] obtain t where
    "generations_of [rstr ''gui.log''] d' = log_line 3 (fresh_banner (\<lambda>_. Some 0) gui_log t)
       (encode_line (rstr ''line'')) (None, None, None)"
    using start by auto
  moreover have "length (encode_line (rstr ''line'')) = 5"
    by (simp add: length_encode_line byte_len_def rstr_def utf8_len_def)
  ultimately have "generations_of [rstr ''gui.log''] d'
      = (Some (fresh_banner (\<lambda>_. Some 0) gui_log t), Some (encode_line (rstr ''line'')), None)"
    by (simp add: unwrap_or_def Let_def)
  with run show ?thesis by blast
qed


lemma failed_rotation_unbounded_witness:
  "case append_times (\<lambda>_. None) (rstr ''line'') 1000 (gui_log, stuck_disk) of (rf', d) \<Rightarrow>
     length (unwrap_or [] (fst (generations_of [rstr ''gui.log''] d))) = 5000"
proof -
  have "length (encode_line (rstr ''line'')) = 5"
    by (simp add: length_encode_line byte_len_def rstr_def utf8_len_def)
  then show ?thesis
    using failed_rotation_unbounded [of gui_log "rstr ''line''" 1000 "\<lambda>_. None"]
    by (auto split: prod.splits)
qed

end
