(* ===== verification/X3_Gui.thy ===== *)
theory X3_Gui
  imports X3_Manager_Ops X3_Registry X3_Capture X3_Sim
begin

text \<open>
  The window's vocabulary (\<^verbatim>\<open>x3-gui/src/presentation.rs\<close>): names of button actions, profile
  slots, rounding and parsing of entry fields, labels, and what a ceremony shows. Texts are as in the
  source where code compares them; the sentences shown for a ceremony stage are their constructors. The
  DPI entry fields are 32-bit floats that hold 16-bit numbers when a draft is saved: on those, dividing
  by the step, rounding and multiplying is exact, and the model computes with natural numbers.
\<close>

section \<open>Button actions\<close>

definition BINDING_ACTIONS :: "string list" where
  "BINDING_ACTIONS = [
    ''disabled'', ''left click'', ''right click'', ''middle click'',
    ''double click'', ''dpi cycle'', ''dpi plus'', ''dpi minus'',
    ''profile cycle'', ''profile plus'', ''profile minus'', ''forward'',
    ''backward'', ''fire button'', ''scroll up'', ''scroll down'',
    ''media player'', ''previous track'', ''next track'', ''play/pause'',
    ''stop'', ''mute'', ''volume up'', ''volume down'',
    ''calculator'', ''email'', ''browser forward'', ''browser backward'',
    ''browser stop'', ''my computer'', ''browser refresh'', ''browser home'',
    ''browser search'', ''browser favorites'', ''cut'', ''copy'',
    ''paste'', ''open'', ''save'', ''find'',
    ''redo'', ''select all'', ''print'', ''close window'',
    ''swap windows'', ''show desktop'', ''run command'', ''lock pc'',
    ''screen capture'']"

definition SHORTCUT_PRESETS :: "((u8 \<times> u8 \<times> u8) \<times> string) list" where
  "SHORTCUT_PRESETS = [
       ((0x11, 0x03, 0x12), ''browser favorites''),
       ((0x11, 0x01, 0x1b), ''cut''),
       ((0x11, 0x01, 0x06), ''copy''),
       ((0x11, 0x01, 0x19), ''paste''),
       ((0x11, 0x01, 0x12), ''open''),
       ((0x11, 0x01, 0x16), ''save''),
       ((0x11, 0x01, 0x09), ''find''),
       ((0x11, 0x01, 0x1c), ''redo''),
       ((0x11, 0x01, 0x04), ''select all''),
       ((0x11, 0x01, 0x13), ''print''),
       ((0x11, 0x04, 0x3d), ''close window''),
       ((0x11, 0x04, 0x2b), ''swap windows''),
       ((0x11, 0x08, 0x07), ''show desktop''),
       ((0x11, 0x08, 0x15), ''run command''),
       ((0x11, 0x08, 0x0f), ''lock pc''),
       ((0x11, 0x0a, 0x16), ''screen capture'')]"

definition shortcut_preset_name :: "button_assignment \<Rightarrow> string option" where
  "shortcut_preset_name a =
     map_of SHORTCUT_PRESETS
       (slot_action a, slot_modifier a, slot_key_code a)"

definition ACTION_NAMES :: "(u8 \<times> string) list" where
  "ACTION_NAMES = [
            (0x01, ''disabled''), (0x02, ''left click''), (0x03, ''right click''),
            (0x04, ''middle click''), (0x05, ''backward''), (0x06, ''forward''),
            (0x07, ''double click''), (0x08, ''fire button''), (0x09, ''scroll up''),
            (0x0a, ''scroll down''), (0x0d, ''dpi cycle''), (0x0e, ''dpi plus''),
            (0x0f, ''dpi minus''), (0x15, ''media player''), (0x16, ''previous track''),
            (0x17, ''next track''), (0x18, ''play/pause''), (0x19, ''stop''),
            (0x1a, ''mute''), (0x1b, ''volume up''), (0x1c, ''volume down''),
            (0x1d, ''calculator''), (0x1e, ''email''), (0x20, ''browser forward''),
            (0x21, ''browser backward''), (0x22, ''browser stop''), (0x23, ''my computer''),
            (0x24, ''browser refresh''), (0x25, ''browser home''), (0x26, ''browser search''),
            (0x34, ''profile cycle''), (0x35, ''profile plus''), (0x36, ''profile minus'')]"

definition button_action_name :: "button_assignment \<Rightarrow> string" where
  "button_action_name a =
     (case shortcut_preset_name a of
        Some name \<Rightarrow> name
      | None \<Rightarrow>
          if slot_modifier a \<noteq> 0 \<or> slot_key_code a \<noteq> 0 then ''unsupported assignment''
          else unwrap_or ''unsupported assignment'' (map_of ACTION_NAMES
            (slot_action a)))"

definition SAFE_ACTION_NAMES :: "(string \<times> safe_button_action) list" where
  "SAFE_ACTION_NAMES = [
     (''disabled'', SafeDisable), (''left click'', SafeLeftClick), (''right click'', SafeRightClick),
     (''middle click'', SafeMiddleClick), (''backward'', SafeBackward), (''forward'', SafeForward),
     (''double click'', SafeDoubleClick), (''dpi cycle'', SafeDpiCycle), (''dpi plus'', SafeDpiPlus),
     (''dpi minus'', SafeDpiMinus), (''profile cycle'', SafeProfileCycle), (''profile plus'', SafeProfilePlus),
     (''profile minus'', SafeProfileMinus), (''fire button'', SafeFireButton), (''scroll up'', SafeScrollUp),
     (''scroll down'', SafeScrollDown), (''media player'', SafeMediaPlayer), (''previous track'', SafePreviousTrack),
     (''next track'', SafeNextTrack), (''play/pause'', SafePlayPause), (''stop'', SafeStop),
     (''mute'', SafeMute), (''volume up'', SafeVolumeUp), (''volume down'', SafeVolumeDown),
     (''calculator'', SafeCalculator), (''email'', SafeEmail), (''browser forward'', SafeBrowserForward),
     (''browser backward'', SafeBrowserBackward), (''browser stop'', SafeBrowserStop), (''my computer'', SafeMyComputer),
     (''browser refresh'', SafeBrowserRefresh), (''browser home'', SafeBrowserHome), (''browser search'', SafeBrowserSearch),
     (''browser favorites'', SafeBrowserFavorites), (''cut'', SafeCut), (''copy'', SafeCopy),
     (''paste'', SafePaste), (''open'', SafeOpen), (''save'', SafeSave),
     (''find'', SafeFind), (''redo'', SafeRedo), (''select all'', SafeSelectAll),
     (''print'', SafePrint), (''close window'', SafeCloseWindow), (''swap windows'', SafeSwapWindows),
     (''show desktop'', SafeShowDesktop), (''run command'', SafeRunCommand), (''lock pc'', SafeLockPc),
     (''screen capture'', SafeScreenCapture)]"

definition safe_button_action_of :: "rstring \<Rightarrow> safe_button_action option" where
  "safe_button_action_of name = map_of (map (\<lambda>(n, a). (rstr n, a)) SAFE_ACTION_NAMES) name"

definition SAFE_BUTTON_SLOTS :: "safe_button_slot list" where
  "SAFE_BUTTON_SLOTS = [SlotLeft, SlotRight, SlotMiddle, SlotDpi, SlotForward, SlotBackward]"

definition validated_binding_action :: "rstring \<Rightarrow> string option" where
  "validated_binding_action requested =
     map_option (\<lambda>action. button_action_name (safe_assignment action)) (safe_button_action_of requested)"

datatype lmb_break = LmbRemapped | LmbNothingClicks

definition lmb_break_warning :: "string \<Rightarrow> string \<Rightarrow> (string \<times> string) list \<Rightarrow> lmb_break option" where
  "lmb_break_warning lmb_original lmb_draft draft_actions =
     (if lmb_original \<noteq> ''left click'' \<or> lmb_draft = ''left click'' then None
      else if list_ex (\<lambda>(_, action). action = ''left click'') draft_actions then Some LmbRemapped
      else Some LmbNothingClicks)"

section \<open>Profile slots\<close>

definition add_tail_metadata :: "profile_metadata \<Rightarrow> profile_metadata option" where
  "add_tail_metadata metadata =
     (let maximum = profile_get (meta_maximum metadata)
      in if maximum \<ge> PROFILE_MAX then None
         else Option.bind (profile_new (maximum + 1)) (\<lambda>added.
              case metadata_new (meta_current metadata) added of Inr m \<Rightarrow> Some m | Inl _ \<Rightarrow> None))"

definition hide_tail_metadata :: "profile_metadata \<Rightarrow> u8 \<Rightarrow> profile_metadata option" where
  "hide_tail_metadata metadata number =
     (let maximum = profile_get (meta_maximum metadata)
      in Option.bind (profile_new number) (\<lambda>number.
         if profile_get number \<noteq> maximum \<or> maximum \<le> 1 then None
         else Option.bind (profile_new (maximum - 1)) (\<lambda>previous.
              let current = (if meta_current metadata = number then previous else meta_current metadata)
              in case metadata_new current previous of Inr m \<Rightarrow> Some m | Inl _ \<Rightarrow> None)))"

definition reported_profile_switch :: "device_event \<Rightarrow> profile_id \<Rightarrow> profile_id option" where
  "reported_profile_switch event loaded_current =
     (case event of
        InputReport (ProfileChanged e) \<Rightarrow> if pce_profile e \<noteq> loaded_current then Some (pce_profile e) else None
      | InputReport (ProfileSync e) \<Rightarrow> if pce_profile e \<noteq> loaded_current then Some (pce_profile e) else None
      | InputReport (SecondaryProfileChanged e) \<Rightarrow> if pce_profile e \<noteq> loaded_current then Some (pce_profile e) else None
      | _ \<Rightarrow> None)"

section \<open>Entry fields\<close>

definition lift_off_choice_value :: "u8 \<Rightarrow> lift_off_distance" where
  "lift_off_choice_value choice = (if choice = 0 then OneMillimeter else TwoMillimeters)"

definition format_byte :: "u8 \<Rightarrow> rstring" where
  "format_byte v = rstr (show_hex2 v)"

definition strip_prefix :: "rstring \<Rightarrow> rstring \<Rightarrow> rstring option" where
  "strip_prefix prefix s = (if take (length prefix) s = prefix then Some (drop (length prefix) s) else None)"

definition parse_raw_byte :: "rstring \<Rightarrow> u8 option" where
  "parse_raw_byte text =
     (let trimmed = trim text;
          body = (case strip_prefix (rstr ''0x'') trimmed of
                    Some b \<Rightarrow> b
                  | None \<Rightarrow> unwrap_or trimmed (strip_prefix (rstr ''0X'') trimmed))
      in if body = [] \<or> byte_len body > 2 then None
         else case body of [a] \<Rightarrow> map_option of_nat (hex_digit_value a) | _ \<Rightarrow> hex_byte_value body)"

definition round_dpi_step :: "u16 \<Rightarrow> u16" where
  "round_dpi_step v =
     (let step_index = (unat v + 25) div 50
      in of_nat (min (max step_index (unat DPI_MIN div 50)) (unat DPI_MAX div 50) * 50))"

definition MAX_DPI_STAGES :: nat where "MAX_DPI_STAGES = 8"

section \<open>Labels\<close>

definition is_ble_identity :: "device_identity \<Rightarrow> bool" where
  "is_ble_identity i \<longleftrightarrow> selected_transport i = Some Ble"

fun transport_label :: "transport_kind \<Rightarrow> rstring" where
  "transport_label Wired = rstr ''usb wired''"
| "transport_label Receiver = rstr ''2.4g receiver''"
| "transport_label Ble = rstr ''ble''"

definition transport_label_for_identity :: "device_identity \<Rightarrow> rstring" where
  "transport_label_for_identity i =
     (case selected_transport i of Some t \<Rightarrow> transport_label t | None \<Rightarrow> rstr ''disconnected'')"

definition product_id_label_for_identity :: "device_identity \<Rightarrow> rstring" where
  "product_id_label_for_identity i =
     (let shown = (\<lambda>id. case Option.bind (selected_endpoint i) id of
                          None \<Rightarrow> rstr ''unknown'' | Some n \<Rightarrow> show_hex4 n)
      in shown ep_vendor_id @ rstr '':'' @ shown ep_product_id)"

definition unassociated_name :: "device_endpoint \<Rightarrow> rstring" where
  "unassociated_name e =
     (case ep_display_name e of
        Some name \<Rightarrow> if \<not> blank name then name
          else (case ep_transport e of Ble \<Rightarrow> rstr ''Bluetooth mouse'' | _ \<Rightarrow> rstr ''Unmarked mouse'')
      | None \<Rightarrow> (case ep_transport e of Ble \<Rightarrow> rstr ''Bluetooth mouse'' | _ \<Rightarrow> rstr ''Unmarked mouse''))"

definition pending_endpoint_label :: "device_endpoint \<Rightarrow> rstring" where
  "pending_endpoint_label e =
     (case ep_transport e of
        Ble \<Rightarrow> unwrap_or (rstr ''bluetooth mouse'') (ep_display_name e)
      | _ \<Rightarrow> rstr ''usb mouse '' @ (case ep_product_id e of None \<Rightarrow> rstr ''mouse'' | Some pid \<Rightarrow> show_hex4 pid))"

section \<open>Ceremonies\<close>

datatype ceremony_prompt =
  PromptNone | PromptReconnect | PromptStamp | PromptAdopt | PromptAssociate | PromptDone

definition unassociated_capabilities :: "device_endpoint \<Rightarrow> identity_resolution \<Rightarrow> bool \<times> bool \<times> bool \<times> bool" where
  "unassociated_capabilities e resolution =
     (case resolution of
        Resolved _ \<Rightarrow> (False, False, False, False)
      | Unassociated reason _ \<Rightarrow>
          (if ep_transport e = Ble
           then (if reason = ReasonAbsent then (False, False, False, True) else (False, False, False, False))
           else if reason = ReasonAbsent \<or> reason = ReasonMalformed then (True, True, False, False)
           else if reason = ReasonUnknown then (False, False, True, False)
           else (False, False, False, False)))"

record ceremony_view =
  cv_target_name :: "rstring option"
  cv_prompt :: ceremony_prompt
  cv_can_cancel :: bool
  cv_migration_offered :: bool
  cv_failed :: "rstring option"

definition ceremony_prompt_of :: "ceremony_progress \<Rightarrow> ceremony_prompt" where
  "ceremony_prompt_of progress =
     (case cp_stage progress of
        StageReady \<Rightarrow> PromptNone
      | StageAwaitingReconnect \<Rightarrow>
          if cp_kind progress = KindBleAssociation then PromptAssociate else PromptReconnect
      | StageCapturing \<Rightarrow> if cp_kind progress = KindForeignAdoption then PromptAdopt else PromptStamp
      | StageStamping \<Rightarrow> if cp_kind progress = KindForeignAdoption then PromptAdopt else PromptStamp
      | _ \<Rightarrow> PromptDone)"

definition ceremony_view_of :: "ceremony_progress \<Rightarrow> discovered_device list \<Rightarrow> ceremony_view" where
  "ceremony_view_of progress discovered =
     \<lparr>cv_target_name = Option.bind (cp_identity progress) (\<lambda>d.
         map_option (\<lambda>dev. unwrap_or (device_text d) (id_display_name (dd_identity dev)))
           (find (\<lambda>dev. id_device (dd_identity dev) = d) discovered)),
      cv_prompt = ceremony_prompt_of progress,
      cv_can_cancel = cp_stage progress \<in> {StageReady, StageAwaitingReconnect, StageStamping},
      cv_migration_offered = (cp_kind progress = KindInitialEnrollment
         \<and> (case cp_stage progress of StageComplete \<Rightarrow> False | StageCancelled \<Rightarrow> False
             | StageFailed _ \<Rightarrow> False | _ \<Rightarrow> True)),
      cv_failed = (case cp_stage progress of StageFailed error \<Rightarrow> Some error | _ \<Rightarrow> None)\<rparr>"

text \<open>Which connection a ceremony acts on.\<close>

definition matches_kind :: "ceremony_kind \<Rightarrow> device_endpoint \<Rightarrow> identity_resolution \<Rightarrow> bool" where
  "matches_kind kind e resolution =
     (case resolution of
        Resolved _ \<Rightarrow> False
      | Unassociated reason _ \<Rightarrow>
          (case kind of
             KindBleAssociation \<Rightarrow> ep_transport e = Ble \<and> reason = ReasonAbsent
           | KindForeignAdoption \<Rightarrow> is_usb_transport (ep_transport e) \<and> reason = ReasonUnknown
           | _ \<Rightarrow> is_usb_transport (ep_transport e) \<and> (reason = ReasonAbsent \<or> reason = ReasonMalformed)))"

definition eligible_row :: "ceremony_kind \<Rightarrow> resolved_connection \<Rightarrow> bool" where
  "eligible_row kind row \<longleftrightarrow>
     rc_connected row
     \<and> (if kind = KindInitialEnrollment then is_usb_transport (ep_transport (rc_endpoint row))
        else matches_kind kind (rc_endpoint row) (rc_resolution row))"

definition presented_endpoint :: "ceremony_kind \<Rightarrow> device_endpoint option \<Rightarrow> resolved_connection list \<Rightarrow> device_endpoint option" where
  "presented_endpoint kind hint connections =
     (let hinted = Option.bind hint (\<lambda>h. find (\<lambda>row. rc_endpoint row = h) (filter (eligible_row kind) connections))
      in map_option rc_endpoint (case hinted of Some row \<Rightarrow> Some row | None \<Rightarrow> find (eligible_row kind) connections))"

end
