(* ===== verification/X3_Gui_Facts.thy ===== *)
theory X3_Gui_Facts
  imports X3_Gui
begin

text \<open>
  What the window's vocabulary guarantees: the names of button actions and the assignments behind them
  determine each other, and showing or hiding the last profile slot keeps a valid pair of current and
  last profile.
\<close>

section \<open>Names of button actions\<close>

lemma names_of_actions: "list_all (\<lambda>(n, a). button_action_name (safe_assignment a) = n) SAFE_ACTION_NAMES"
  by code_simp

lemma names_distinct: "distinct (map fst SAFE_ACTION_NAMES)"
  by code_simp

lemma actions_named: "a \<in> snd ` set SAFE_ACTION_NAMES"
  by (cases a) (simp_all add: SAFE_ACTION_NAMES_def)

lemma rstr_inj: "inj rstr"
  by (rule injI) (simp add: rstr_def inj_map_eq_map [OF inj_of_char])

lemma safe_button_action_of_name: "safe_button_action_of (rstr n) = map_of SAFE_ACTION_NAMES n"
proof -
  have "map_of (map (\<lambda>(n, a). (rstr n, a)) ts) (rstr n) = map_of ts n" for ts :: "(string \<times> 'a) list"
    by (induction ts) (auto simp: inj_eq [OF rstr_inj])
  then show ?thesis by (simp add: safe_button_action_of_def)
qed

lemma action_of_name: "safe_button_action_of (rstr (button_action_name (safe_assignment a))) = Some a"
proof -
  obtain n where "(n, a) \<in> set SAFE_ACTION_NAMES" using actions_named [of a] by auto
  moreover from this have "button_action_name (safe_assignment a) = n"
    using names_of_actions by (auto simp: list_all_iff)
  ultimately show ?thesis
    by (simp add: safe_button_action_of_name map_of_is_SomeI [OF names_distinct])
qed

lemma names_listed:
  "list_all (\<lambda>((x, y, z), n). \<exists>p \<in> set SAFE_ACTION_NAMES. fst p = n
      \<and> safe_assignment (snd p) = assignment_new x y z) SHORTCUT_PRESETS"
  "list_all (\<lambda>(x, n). \<exists>p \<in> set SAFE_ACTION_NAMES. fst p = n
      \<and> safe_assignment (snd p) = assignment_new x 0 0) ACTION_NAMES"
  by code_simp+

lemma binding_names: "set (map fst SAFE_ACTION_NAMES) = set BINDING_ACTIONS"
  by code_simp

text \<open>Every named assignment is the one its name stands for.\<close>

lemma named_assignment:
  assumes "button_action_name x \<noteq> ''unsupported assignment''"
  shows "\<exists>a. x = safe_assignment a"
proof -
  have x: "x = assignment_new (slot_action x) (slot_modifier x) (slot_key_code x)"
    by (simp add: assignment_new_def)
  show ?thesis
  proof (cases "shortcut_preset_name x")
    case (Some n)
    then have "((slot_action x, slot_modifier x, slot_key_code x), n) \<in> set SHORTCUT_PRESETS"
      unfolding shortcut_preset_name_def by (rule map_of_SomeD)
    then obtain p where "safe_assignment (snd p) = assignment_new (slot_action x) (slot_modifier x) (slot_key_code x)"
      using names_listed(1) unfolding list_all_iff by fastforce
    then show ?thesis using x by metis
  next
    case None
    with assms obtain n where n: "map_of ACTION_NAMES (slot_action x) = Some n" and z: "slot_modifier x = 0" "slot_key_code x = 0"
      by (auto simp: button_action_name_def unwrap_or_def split: if_splits option.splits)
    from map_of_SomeD [OF n] obtain p where "safe_assignment (snd p) = assignment_new (slot_action x) 0 0"
      using names_listed(2) unfolding list_all_iff by fastforce
    then show ?thesis using x z by metis
  qed
qed

section \<open>Profile slots\<close>

lemma u8_up_to_five: "1 \<le> x \<Longrightarrow> x \<le> 5 \<Longrightarrow> x \<in> {1, 2, 3, 4, 5}" for x :: u8
proof -
  assume "1 \<le> x" and "x \<le> 5"
  then have "unat x = 1 \<or> unat x = 2 \<or> unat x = 3 \<or> unat x = 4 \<or> unat x = 5"
    by (simp add: word_le_nat_alt) linarith
  then show ?thesis by (auto simp: word_unat_eq_iff)
qed

lemma profile_new_eq: "profile_new n = (if 1 \<le> n \<and> n \<le> 5 then Some (ProfileId n) else None)"
  by (simp add: profile_new_def PROFILE_MIN_def PROFILE_MAX_def)

abbreviation slots :: "u8 \<Rightarrow> u8 \<Rightarrow> profile_metadata" where
  "slots c x \<equiv> \<lparr>meta_current = ProfileId c, meta_maximum = ProfileId x\<rparr>"

lemmas tail_defs = add_tail_metadata_def hide_tail_metadata_def Let_def profile_new_eq metadata_new_def PROFILE_MAX_def

lemma pairs_up_to_five:
  assumes "1 \<le> c" and "c \<le> x" and "x \<le> (5 :: u8)"
  shows "(c, x) \<in> {(1, 1), (1, 2), (2, 2), (1, 3), (2, 3), (3, 3), (1, 4), (2, 4), (3, 4), (4, 4),
    (1, 5), (2, 5), (3, 5), (4, 5), (5, 5)}"
proof -
  have "c \<in> {1, 2, 3, 4, 5}" "x \<in> {1, 2, 3, 4, 5}"
    by (rule u8_up_to_five [OF assms(1) order_trans [OF assms(2,3)]],
        rule u8_up_to_five [OF order_trans [OF assms(1,2)] assms(3)])
  then show ?thesis
    using assms(2) by (elim insertE emptyE; simp add: word_le_nat_alt)
qed

lemma add_tail:
  assumes "1 \<le> c" and "c \<le> x" and "x \<le> 5"
  shows "add_tail_metadata (slots c x) = (if x = 5 then None else Some (slots c (x + 1)))"
  using pairs_up_to_five [OF assms] by (elim insertE emptyE; simp add: tail_defs word_le_nat_alt)

lemma hide_tail_other: "n \<noteq> x \<Longrightarrow> hide_tail_metadata (slots c x) n = None"
  by (simp add: tail_defs)

lemma hide_tail_last:
  assumes "1 \<le> c" and "c \<le> x" and "x \<le> 5"
  shows "hide_tail_metadata (slots c x) x
    = (if x = 1 then None else Some (slots (if c = x then x - 1 else c) (x - 1)))"
  using pairs_up_to_five [OF assms] by (elim insertE emptyE; simp add: tail_defs word_le_nat_alt)

section \<open>Properties\<close>

text \<open>C40: The names of button actions shown in the window and the assignments sent to the mouse determine
  each other: the name of the assignment of every action reads back as that action, exactly the offered
  names are accepted, and an assignment has a name only if some action stands for it.\<close>

theorem binding_names_roundtrip:
  "safe_button_action_of (rstr (button_action_name (safe_assignment a))) = Some a
   \<and> (safe_button_action_of s \<noteq> None \<longleftrightarrow> s \<in> rstr ` set BINDING_ACTIONS)
   \<and> (button_action_name x \<noteq> ''unsupported assignment'' \<longrightarrow> (\<exists>b. x = safe_assignment b))"
proof (intro conjI)
  have "safe_button_action_of s \<noteq> None \<longleftrightarrow> s \<in> fst ` set (map (\<lambda>(n, a). (rstr n, a)) SAFE_ACTION_NAMES)"
    by (simp add: safe_button_action_of_def map_of_eq_None_iff del: not_None_eq)
  also have "fst ` set (map (\<lambda>(n, a). (rstr n, a)) SAFE_ACTION_NAMES) = rstr ` set BINDING_ACTIONS"
    unfolding binding_names [symmetric] by (auto simp: image_image case_prod_unfold)
  finally show "safe_button_action_of s \<noteq> None \<longleftrightarrow> s \<in> rstr ` set BINDING_ACTIONS" .
qed (use action_of_name named_assignment in auto)

lemma binding_names_roundtrip_witness:
  "\<exists>b. assignment_new 0x11 0x01 0x06 = safe_assignment b"
proof -
  have "button_action_name (assignment_new 0x11 0x01 0x06) \<noteq> ''unsupported assignment''" by code_simp
  then show ?thesis using binding_names_roundtrip by blast
qed

text \<open>Enabling and hiding profile slots in the window keeps a valid pair: from valid metadata, one
  more slot can be enabled unless all five are, exactly the last slot can be hidden unless it is the only
  one, the current profile stays the same except when the hidden slot was current (then the one before
  becomes current), the result is valid, and hiding undoes enabling.\<close>

theorem profile_tail_exact:
  assumes "1 \<le> profile_get (meta_current m)" and "profile_get (meta_current m) \<le> profile_get (meta_maximum m)"
    and "profile_get (meta_maximum m) \<le> 5"
  defines "mx \<equiv> profile_get (meta_maximum m)"
  shows "add_tail_metadata m = (if mx = 5 then None else Some (m\<lparr>meta_maximum := ProfileId (mx + 1)\<rparr>))
    \<and> hide_tail_metadata m n = (if n \<noteq> mx \<or> mx = 1 then None
        else Some \<lparr>meta_current = (if profile_get (meta_current m) = mx then ProfileId (mx - 1) else meta_current m),
                   meta_maximum = ProfileId (mx - 1)\<rparr>)
    \<and> (mx \<noteq> 5 \<longrightarrow> Option.bind (add_tail_metadata m) (\<lambda>k. hide_tail_metadata k (mx + 1)) = Some m)"
proof -
  obtain c x where m: "m = \<lparr>meta_current = ProfileId c, meta_maximum = ProfileId x\<rparr>"
    by (cases m; cases "meta_current m"; cases "meta_maximum m") auto
  have r: "1 \<le> c" "c \<le> x" "x \<le> 5" using assms by (simp_all add: m)
  have up: "1 \<le> x + 1" "c \<le> x + 1" "x + 1 \<le> 5" "x + 1 \<noteq> 1" "c \<noteq> x + 1" if "x \<noteq> 5"
    using pairs_up_to_five [OF r] that by auto
  have "Option.bind (add_tail_metadata m) (\<lambda>k. hide_tail_metadata k (mx + 1)) = Some m" if "x \<noteq> 5"
    using that up [OF that] r by (simp add: m mx_def add_tail hide_tail_last)
  then show ?thesis
    using r by (cases "n = x") (simp_all add: m mx_def add_tail hide_tail_last hide_tail_other)
qed

lemma profile_tail_exact_witness:
  "hide_tail_metadata (slots 3 3) 3 = Some (slots 2 2) \<and> add_tail_metadata (slots 2 2) = Some (slots 2 3)"
  using profile_tail_exact [of "slots 3 3" 3] profile_tail_exact [of "slots 2 2" 3] by simp

end
