(* ===== verification/Spec2Isabelle.thy ===== *)
theory Spec2Isabelle
  imports X3_Worker_Live X3_Updates_Demo X3_Ble_Facts X3_Handle X3_Verify_Facts X3_Ceremony_Facts
    X3_Session_Facts X3_Sim_Ends X3_Calendar X3_Log_Facts X3_Gui_Facts
begin

text \<open>
  \<^bold>\<open>The Attack Shark X3 driver: a verification library.\<close>

  The repository configures a gaming mouse. The crate \<^verbatim>\<open>attack-shark-x3\<close> speaks the
  vendor protocol over USB (wired or through a receiver) and Bluetooth; the crate
  \<^verbatim>\<open>attack-shark-x3-manager\<close> keeps saved mice, their settings and the evidence for
  them in one document, tells physical mice apart by a watermark in their DPI report, and offers every
  operation the command line \<^verbatim>\<open>x3ctl\<close> and the window \<^verbatim>\<open>x3-gui\<close> use.
  Definitions are translated from the source and executable; names follow the source. The theories
  build on each other in the order below, each opens with a note of its own.

  \<^bold>\<open>Protocol\<close> (\<^verbatim>\<open>attack-shark-x3/src/protocol\<close>, \<^verbatim>\<open>model.rs\<close>).
  \<^item> \<^verbatim>\<open>X3_Prelude\<close>, \<^verbatim>\<open>X3_Text\<close>, \<^verbatim>\<open>X3_Std\<close>: machine
    integers as words, \<^verbatim>\<open>Result\<close> as a sum with \<open>tryq\<close> for \<^verbatim>\<open>?\<close>,
    strings as lists of scalar values, \<^verbatim>\<open>BTreeMap\<close> as a sorted association list.
  \<^item> \<^verbatim>\<open>X3_Model\<close>, \<^verbatim>\<open>X3_Checksum\<close>, \<^verbatim>\<open>X3_Validate\<close>: validated values, the
    16-bit checksum, byte checks.
  \<^item> \<^verbatim>\<open>X3_Dpi\<close>, \<^verbatim>\<open>X3_Watermark\<close>, \<^verbatim>\<open>X3_Preferences\<close>, \<^verbatim>\<open>X3_Buttons\<close>,
    \<^verbatim>\<open>X3_Profile\<close>, \<^verbatim>\<open>X3_Polling_Rate\<close>, \<^verbatim>\<open>X3_Input\<close>: one report
    each, encoder and decoder in their framings, with exactness (what decodes is what was encoded),
    round trips and detection of corrupted bytes. \<^verbatim>\<open>X3_Codec\<close> is the contract the worker
    needs of a codec, a locale interpreted on the three configuration reports.

  \<^bold>\<open>Driver\<close> (\<^verbatim>\<open>attack-shark-x3/src/driver\<close>).
  \<^item> \<^verbatim>\<open>X3_Worker\<close> (\<^verbatim>\<open>worker.rs\<close>): the thread that owns the HID device: arming
    a read, waiting for readiness, retries, verified writes, profile control. The readiness loop is a
    partial function; \<^verbatim>\<open>X3_Worker_Live\<close> proves that every command is answered when time
    passes and the poll interval is not zero, \<^verbatim>\<open>X3_Worker_Trace\<close> what goes over the wire.
  \<^item> \<^verbatim>\<open>X3_Handle\<close>: the bounded command queue and the input thread as a step relation.
    \<^verbatim>\<open>X3_Usb\<close>: which HID collections are the mouse. \<^verbatim>\<open>X3_Ble\<close> and
    \<^verbatim>\<open>X3_Ble_Facts\<close>: the Bluetooth session, its acknowledgements and its failure behaviour.
  \<^item> \<^verbatim>\<open>X3_Sim\<close>: the value of \<^verbatim>\<open>X3_SIM\<close>, scenario files, replayed and
    in-memory mice (\<^verbatim>\<open>sim/\<close>, \<^verbatim>\<open>sim_model.rs\<close>).

  \<^bold>\<open>Document and store\<close> (\<^verbatim>\<open>attack-shark-x3-manager/src/state\<close>, \<^verbatim>\<open>device.rs\<close>).
  \<^item> \<^verbatim>\<open>X3_Device\<close>, \<^verbatim>\<open>X3_Evidence\<close>, \<^verbatim>\<open>X3_State_File\<close>: logical mice and
    endpoints, desired and observed values with their provenance, the document and its validation.
    \<^verbatim>\<open>X3_State_Facts\<close> states validation as a predicate on the document.
  \<^item> \<^verbatim>\<open>X3_Effect\<close>: fallible computations with state, and triples for them.
    \<^verbatim>\<open>X3_Store\<close>, \<^verbatim>\<open>X3_Store_Facts\<close> (\<^verbatim>\<open>store.rs\<close>): a Unix file
    system in which any call may fail and a crash may come after any call; atomic replacement, locks,
    transactions.

  \<^bold>\<open>Manager\<close> (\<^verbatim>\<open>manager.rs\<close>, \<^verbatim>\<open>operation.rs\<close>, \<^verbatim>\<open>resources/\<close>).
  \<^item> \<^verbatim>\<open>X3_Operation\<close>, \<^verbatim>\<open>X3_Manager\<close>, \<^verbatim>\<open>X3_Resolution\<close>,
    \<^verbatim>\<open>X3_Discovery\<close>: the session and factory interfaces (records of operations), the
    authenticated opening of a saved mouse, the discovery scan and which mouse a connection is
    attached to.
  \<^item> \<^verbatim>\<open>X3_Registry\<close>, \<^verbatim>\<open>X3_Registry_Facts\<close>: selection, registration, removal,
    export and import. \<^verbatim>\<open>X3_Updates\<close>, \<^verbatim>\<open>X3_Manager_Ops\<close>,
    \<^verbatim>\<open>X3_Updates_Facts\<close>, \<^verbatim>\<open>X3_Updates_Demo\<close>: reads and writes of settings, and
    that a DPI write carries the watermark of the mouse it goes to.
  \<^item> \<^verbatim>\<open>X3_Capture\<close>, \<^verbatim>\<open>X3_Verify\<close>, \<^verbatim>\<open>X3_Verify_Facts\<close> (\<^verbatim>\<open>refresh.rs\<close>,
    \<^verbatim>\<open>verification.rs\<close>): capture of all profiles, the two persistence checks.
    \<^verbatim>\<open>X3_Ceremony\<close>, \<^verbatim>\<open>X3_Ceremony_Facts\<close>: the journalled ceremonies that give a
    mouse its identity.
  \<^item> \<^verbatim>\<open>X3_Session\<close>, \<^verbatim>\<open>X3_Session_Facts\<close>, \<^verbatim>\<open>X3_Sim_Session\<close>,
    \<^verbatim>\<open>X3_Sim_Facts\<close>, \<^verbatim>\<open>X3_Sim_Ends\<close> (\<^verbatim>\<open>backend.rs\<close>): the real and
    the simulated implementations of the session interface.
  \<^item> \<^verbatim>\<open>X3_Diagnostics\<close>, \<^verbatim>\<open>X3_Calendar\<close>, \<^verbatim>\<open>X3_Log_Facts\<close>
    (\<^verbatim>\<open>diagnostics.rs\<close>): the log, its dates, what it shows and how it rotates.

  \<^bold>\<open>Window\<close> (\<^verbatim>\<open>x3-gui/src\<close>).
  \<^item> \<^verbatim>\<open>X3_Gui\<close>, \<^verbatim>\<open>X3_Gui_Facts\<close>: the names, entry fields and labels of
    \<^verbatim>\<open>presentation.rs\<close> and, of \<^verbatim>\<open>worker.rs\<close>, what a ceremony shows and which connection
    it acts on.

  \<^bold>\<open>How to read the statements.\<close> An \<open>Inl\<close> is an error, an \<open>Inr\<close> a value. A computation
  of the manager takes a state (\<open>world\<close>: document, cache and what the factory acts on) and returns
  the result and the state it leaves, also when it fails. Safety of what is sent is stated for every
  factory and session: an arbitrary property of the outside world that the allowed calls keep is kept
  by the operation, so no other call is made. Loops whose end depends on the device or the clock
  return an option; that they return is proved under the progress of the clock, with the bound of the
  code's own deadline. Fuel appears only where the code has a bound: retry counts, attempts to find a
  free name or a fresh token, the number of queued commands.

  \<^bold>\<open>Parameters.\<close> Code outside the repository is an argument: hidapi and bluest transports, CRC-32,
  the JSON and TOML parsers, lower-casing, random tokens, the clocks, the files of scenarios. The
  hypotheses on them say what they document (a clock that does not go back, an encoder whose output
  decodes to its input).

  \<^bold>\<open>Not modelled.\<close> The event loop, rendering and callbacks of the window
  (\<^verbatim>\<open>main.rs\<close>, \<^verbatim>\<open>projection.rs\<close>, the rest of \<^verbatim>\<open>worker.rs\<close>), its settings
  file and floating-point range fields, the event bridge and the debug encoders
  (\<^verbatim>\<open>events.rs\<close>, \<^verbatim>\<open>offline_debug.rs\<close>), the argument parser and text output of \<^verbatim>\<open>x3ctl\<close>, serde
  derives, the Windows variants of file replacement and of GATT, the hotplug watcher, tokio itself
  (tasks are represented by the order of their steps), and the scripted doubles of the test feature.
\<close>

section \<open>Properties across components\<close>

text \<open>C6: No single-byte corruption of an accepted report goes unnoticed: changing one byte of the
  checksummed part of a DPI, preferences or button report that decodes gives a packet that does not
  decode, whatever the new byte is.\<close>

theorem report_corruption_detected:
  assumes "3 \<le> i" and "i < length p" and "b \<noteq> p ! i"
  shows "(i < 52 \<and> is_ok (dpi_decode p kind e) \<longrightarrow> \<not> is_ok (dpi_decode (p[i := b]) kind e))
    \<and> (i < 13 \<and> is_ok (prefs_decode_for_transport p kind e)
        \<longrightarrow> \<not> is_ok (prefs_decode_for_transport (p[i := b]) kind e))
    \<and> (is_ok (buttons_decode_for_transport p kind e)
        \<longrightarrow> \<not> is_ok (buttons_decode_for_transport (p[i := b]) kind e))"
  using assms dpi_codec.detects [of p kind e _ i b] prefs_codec.detects [of p kind e _ i b]
    buttons_codec.detects [of p kind e _ i b]
  by (fastforce simp: is_ok_iff)

lemma report_corruption_detected_witness:
  "\<not> is_ok (buttons_decode_for_transport
      ((buttons_encode (buttons_default_for_profile (ProfileId 2)))[20 := 0xff]) Wired (ProfileId 2))"
proof -
  let ?st = "buttons_default_for_profile (ProfileId 2)"
  have "buttons_decode_for_transport (buttons_encode ?st) Wired (ProfileId 2) = Inr ?st"
    by code_simp
  moreover have "20 < length (buttons_encode ?st)" and "0xff \<noteq> buttons_encode ?st ! 20"
    by code_simp+
  ultimately show ?thesis
    using report_corruption_detected [of 20 "buttons_encode ?st" "0xff" Wired "ProfileId 2"]
    by simp
qed

end
